(* ===== verification/Prelude.thy ===== *)
theory Prelude
  imports Main "HOL-Library.Sublist"
begin

text \<open>
  Shared vocabulary of the development: the machine integers and the clock of the Rust code, the
  standard-library string functions the portal calls, and list facts used by every component.

  Strings are byte lists: a Rust \<^verbatim>\<open>String\<close> is its UTF-8 encoding, so \<^verbatim>\<open>len()\<close> is \<open>length\<close>.
  \<^verbatim>\<open>i32\<close> and \<^verbatim>\<open>i64\<close> are integers; where the source uses a saturating, checked or wrapping
  operation its bounds are written out. A \<^verbatim>\<open>DateTime<Utc>\<close> and an \<^verbatim>\<open>Instant\<close> are integers in
  microseconds, the resolution the database stores.
\<close>


type_synonym i32 = int
type_synonym i64 = int
type_synonym utc = int

section \<open>Machine integers\<close>

definition i32_max :: int where "i32_max = 2147483647"
definition i32_min :: int where "i32_min = - 2147483648"
definition i64_max :: int where "i64_max = 9223372036854775807"
definition i64_min :: int where "i64_min = - 9223372036854775808"
definition u64_max :: int where "u64_max = 18446744073709551615"

lemmas int_bounds = i32_max_def i32_min_def i64_max_def i64_min_def u64_max_def

definition clamp_int :: "int \<Rightarrow> int \<Rightarrow> int \<Rightarrow> int" where
  "clamp_int lo hi x = max lo (min hi x)"

definition saturating_add_i32 :: "i32 \<Rightarrow> i32 \<Rightarrow> i32" where
  "saturating_add_i32 a b = clamp_int i32_min i32_max (a + b)"

definition saturating_sub_i32 :: "i32 \<Rightarrow> i32 \<Rightarrow> i32" where
  "saturating_sub_i32 a b = clamp_int i32_min i32_max (a - b)"

definition saturating_mul_i64 :: "i64 \<Rightarrow> i64 \<Rightarrow> i64" where
  "saturating_mul_i64 a b = clamp_int i64_min i64_max (a * b)"

definition checked_mul_i64 :: "i64 \<Rightarrow> i64 \<Rightarrow> i64 option" where
  "checked_mul_i64 a b = (if i64_min \<le> a * b \<and> a * b \<le> i64_max then Some (a * b) else None)"

text \<open>The cast \<^verbatim>\<open>x as i64\<close> of a \<^verbatim>\<open>u64\<close> keeps the bits: values from \<open>2 ^ 63\<close> on become negative.\<close>

definition u64_as_i64 :: "int \<Rightarrow> i64" where
  "u64_as_i64 x = (if x \<le> i64_max then x else x - 18446744073709551616)"

lemma u64_as_i64_small: "x \<le> i64_max \<Longrightarrow> u64_as_i64 x = x"
  by (simp add: u64_as_i64_def)

lemma u64_as_i64_large_negative: "i64_max < x \<Longrightarrow> x \<le> u64_max \<Longrightarrow> u64_as_i64 x < 0"
  by (simp add: u64_as_i64_def int_bounds)

section \<open>Time\<close>

definition seconds :: "i64 \<Rightarrow> utc" where "seconds n = n * 1000000"
definition millis :: "i64 \<Rightarrow> utc" where "millis n = n * 1000"
definition days :: "i64 \<Rightarrow> utc" where "days n = n * 86400000000"

text \<open>\<^verbatim>\<open>num_seconds\<close> and \<^verbatim>\<open>num_milliseconds\<close> of a duration truncate towards zero.\<close>

definition trunc_div :: "int \<Rightarrow> int \<Rightarrow> int" where
  "trunc_div a b = (if a < 0 then - ((- a) div b) else a div b)"

definition num_seconds :: "utc \<Rightarrow> i64" where "num_seconds d = trunc_div d 1000000"
definition num_milliseconds :: "utc \<Rightarrow> i64" where "num_milliseconds d = trunc_div d 1000"

lemma num_seconds_of_seconds [simp]: "num_seconds (seconds n) = n"
proof -
  have "- (n * 1000000) div 1000000 = (- n) * 1000000 div 1000000" by simp
  also have "\<dots> = - n" by (rule nonzero_mult_div_cancel_right) simp
  finally show ?thesis by (simp add: num_seconds_def trunc_div_def seconds_def)
qed

lemma num_seconds_nonneg: "0 \<le> d \<Longrightarrow> 0 \<le> num_seconds d"
  by (simp add: num_seconds_def trunc_div_def)

lemma num_seconds_le: "0 \<le> d \<Longrightarrow> d \<le> seconds n \<Longrightarrow> num_seconds d \<le> n"
  by (simp add: num_seconds_def trunc_div_def seconds_def)

lemma num_milliseconds_nonneg: "0 \<le> d \<Longrightarrow> 0 \<le> num_milliseconds d"
  by (simp add: num_milliseconds_def trunc_div_def)

section \<open>Strings\<close>

text \<open>The UTF-8 encodings of the characters with the Unicode property White\_Space.\<close>

definition ws_chars :: "string list" where
  "ws_chars = [[CHR 0x09], [CHR 0x0A], [CHR 0x0B], [CHR 0x0C], [CHR 0x0D], [CHR 0x20],
     [CHR 0xC2, CHR 0x85], [CHR 0xC2, CHR 0xA0], [CHR 0xE1, CHR 0x9A, CHR 0x80],
     [CHR 0xE2, CHR 0x80, CHR 0x80], [CHR 0xE2, CHR 0x80, CHR 0x81],
     [CHR 0xE2, CHR 0x80, CHR 0x82], [CHR 0xE2, CHR 0x80, CHR 0x83],
     [CHR 0xE2, CHR 0x80, CHR 0x84], [CHR 0xE2, CHR 0x80, CHR 0x85],
     [CHR 0xE2, CHR 0x80, CHR 0x86], [CHR 0xE2, CHR 0x80, CHR 0x87],
     [CHR 0xE2, CHR 0x80, CHR 0x88], [CHR 0xE2, CHR 0x80, CHR 0x89],
     [CHR 0xE2, CHR 0x80, CHR 0x8A], [CHR 0xE2, CHR 0x80, CHR 0xA8],
     [CHR 0xE2, CHR 0x80, CHR 0xA9], [CHR 0xE2, CHR 0x80, CHR 0xAF],
     [CHR 0xE2, CHR 0x81, CHR 0x9F], [CHR 0xE3, CHR 0x80, CHR 0x80]]"

lemma ws_chars_nonempty: "[] \<notin> set ws_chars"
  by (simp add: ws_chars_def)

definition starts_with :: "string \<Rightarrow> string \<Rightarrow> bool" where
  "starts_with p s \<longleftrightarrow> take (length p) s = p"

definition ends_with :: "string \<Rightarrow> string \<Rightarrow> bool" where
  "ends_with p s \<longleftrightarrow> starts_with (rev p) (rev s)"

definition strip_prefix :: "string \<Rightarrow> string \<Rightarrow> string option" where
  "strip_prefix p s = (if starts_with p s then Some (drop (length p) s) else None)"

definition strip_suffix :: "string \<Rightarrow> string \<Rightarrow> string option" where
  "strip_suffix p s = (if ends_with p s then Some (take (length s - length p) s) else None)"

fun contains_str :: "string \<Rightarrow> string \<Rightarrow> bool" where
  "contains_str p [] = (p = [])"
| "contains_str p (c # cs) = (starts_with p (c # cs) \<or> contains_str p cs)"

lemma starts_with_prefix: "starts_with p s = prefix p s"
  by (metis append_eq_conv_conj append_take_drop_id prefix_def starts_with_def)

lemma starts_with_append [simp]: "starts_with p (p @ s)"
  by (simp add: starts_with_def)

lemma contains_str_sublist: "contains_str p s = sublist p s"
proof (induction s)
  case Nil
  then show ?case by (simp add: sublist_def)
next
  case (Cons c cs)
  then show ?case by (simp add: starts_with_prefix sublist_Cons_right)
qed

function trim_start :: "string \<Rightarrow> string" where
  "trim_start s = (case find (\<lambda>w. starts_with w s) ws_chars of
       None \<Rightarrow> s
     | Some w \<Rightarrow> trim_start (drop (length w) s))"
  by pat_completeness auto
termination
proof (relation "measure length", simp)
  fix s w assume "find (\<lambda>w. starts_with w s) ws_chars = Some w"
  then have "w \<in> set ws_chars" and sw: "starts_with w s"
    by (auto simp: find_Some_iff)
  then have "w \<noteq> []" using ws_chars_nonempty by blast
  with sw have "s \<noteq> []" by (auto simp: starts_with_def)
  with \<open>w \<noteq> []\<close> show "(drop (length w) s, s) \<in> measure length" by simp
qed

declare trim_start.simps [simp del]

text \<open>The same from the right, on the reversed string.\<close>

function trim_end_rev :: "string \<Rightarrow> string" where
  "trim_end_rev s = (case find (\<lambda>w. starts_with (rev w) s) ws_chars of
       None \<Rightarrow> s
     | Some w \<Rightarrow> trim_end_rev (drop (length w) s))"
  by pat_completeness auto
termination
proof (relation "measure length", simp)
  fix s w assume "find (\<lambda>w. starts_with (rev w) s) ws_chars = Some w"
  then have "w \<in> set ws_chars" and sw: "starts_with (rev w) s"
    by (auto simp: find_Some_iff)
  then have "w \<noteq> []" using ws_chars_nonempty by blast
  with sw have "s \<noteq> []" by (auto simp: starts_with_def)
  with \<open>w \<noteq> []\<close> show "(drop (length w) s, s) \<in> measure length" by simp
qed

declare trim_end_rev.simps [simp del]

definition trim :: "string \<Rightarrow> string" where
  "trim s = rev (trim_end_rev (rev (trim_start s)))"

definition is_blank :: "string \<Rightarrow> bool" where
  "is_blank s \<longleftrightarrow> trim s = []"

lemma trim_start_no_ws: "w \<in> set ws_chars \<Longrightarrow> \<not> starts_with w (trim_start s)"
proof (induction s rule: trim_start.induct)
  case (1 s)
  show ?case
  proof (cases "find (\<lambda>w. starts_with w s) ws_chars")
    case None
    then have "trim_start s = s" by (simp add: trim_start.simps [of s])
    with None show ?thesis using "1.prems" by (auto simp: find_None_iff)
  next
    case (Some v)
    then show ?thesis
      using "1.IH" [of v] "1.prems" by (simp add: trim_start.simps [of s])
  qed
qed

lemma trim_start_fix:
  assumes "\<And>w. w \<in> set ws_chars \<Longrightarrow> \<not> starts_with w s"
  shows "trim_start s = s"
proof -
  have "find (\<lambda>w. starts_with w s) ws_chars = None"
    using assms by (auto simp: find_None_iff)
  then show ?thesis by (simp add: trim_start.simps [of s])
qed

lemma trim_end_rev_no_ws: "w \<in> set ws_chars \<Longrightarrow> \<not> starts_with (rev w) (trim_end_rev s)"
proof (induction s rule: trim_end_rev.induct)
  case (1 s)
  show ?case
  proof (cases "find (\<lambda>w. starts_with (rev w) s) ws_chars")
    case None
    then have "trim_end_rev s = s" by (simp add: trim_end_rev.simps [of s])
    with None show ?thesis using "1.prems" by (auto simp: find_None_iff)
  next
    case (Some v)
    then show ?thesis
      using "1.IH" [of v] "1.prems" by (simp add: trim_end_rev.simps [of s])
  qed
qed

lemma trim_end_rev_fix:
  assumes "\<And>w. w \<in> set ws_chars \<Longrightarrow> \<not> starts_with (rev w) s"
  shows "trim_end_rev s = s"
proof -
  have "find (\<lambda>w. starts_with (rev w) s) ws_chars = None"
    using assms by (auto simp: find_None_iff)
  then show ?thesis by (simp add: trim_end_rev.simps [of s])
qed

lemma trim_end_rev_suffix: "suffix (trim_end_rev s) s"
proof (induction s rule: trim_end_rev.induct)
  case (1 s)
  show ?case
  proof (cases "find (\<lambda>w. starts_with (rev w) s) ws_chars")
    case None
    then show ?thesis by (simp add: trim_end_rev.simps [of s])
  next
    case (Some v)
    then have "suffix (trim_end_rev (drop (length v) s)) (drop (length v) s)"
      using "1.IH" [of v] by simp
    then have "suffix (trim_end_rev (drop (length v) s)) s"
      using suffix_drop suffix_order.trans by blast
    with Some show ?thesis by (simp add: trim_end_rev.simps [of s])
  qed
qed

lemma trim_no_ws_front: "w \<in> set ws_chars \<Longrightarrow> \<not> starts_with w (trim s)"
proof
  assume w: "w \<in> set ws_chars" and st: "starts_with w (trim s)"
  have "prefix (trim s) (trim_start s)"
    using trim_end_rev_suffix [of "rev (trim_start s)"]
    by (simp add: trim_def suffix_to_prefix)
  with st have "starts_with w (trim_start s)"
    by (auto simp: starts_with_prefix intro: prefix_order.trans)
  with trim_start_no_ws [OF w] show False by blast
qed

lemma trim_idem [simp]: "trim (trim s) = trim s"
proof -
  have "trim_start (trim s) = trim s"
    by (rule trim_start_fix) (rule trim_no_ws_front)
  moreover have "trim_end_rev (rev (trim s)) = rev (trim s)"
    by (rule trim_end_rev_fix) (simp add: trim_def trim_end_rev_no_ws)
  ultimately show ?thesis by (simp add: trim_def [of "trim s"])
qed

lemma length_trim_le: "length (trim s) \<le> length s"
proof -
  have 1: "length (trim_start s) \<le> length s"
  proof (induction s rule: trim_start.induct)
    case (1 s)
    show ?case
    proof (cases "find (\<lambda>w. starts_with w s) ws_chars")
      case None
      then show ?thesis by (simp add: trim_start.simps [of s])
    next
      case (Some v)
      then show ?thesis using "1.IH" [of v] by (simp add: trim_start.simps [of s])
    qed
  qed
  have "length (trim s) \<le> length (trim_start s)"
    using suffix_length_le [OF trim_end_rev_suffix [of "rev (trim_start s)"]]
    by (simp add: trim_def)
  with 1 show ?thesis by simp
qed

definition ascii_lower :: "char \<Rightarrow> char" where
  "ascii_lower c = (if 65 \<le> (of_char c :: nat) \<and> (of_char c :: nat) \<le> 90
     then char_of ((of_char c :: nat) + 32) else c)"

definition to_ascii_lowercase :: "string \<Rightarrow> string" where
  "to_ascii_lowercase s = map ascii_lower s"

lemma ascii_lower_idem [simp]: "ascii_lower (ascii_lower c) = ascii_lower c"
  by (auto simp: ascii_lower_def)

lemma to_ascii_lowercase_idem [simp]:
  "to_ascii_lowercase (to_ascii_lowercase s) = to_ascii_lowercase s"
  by (simp add: to_ascii_lowercase_def)

definition eq_ignore_ascii_case :: "string \<Rightarrow> string \<Rightarrow> bool" where
  "eq_ignore_ascii_case a b \<longleftrightarrow> to_ascii_lowercase a = to_ascii_lowercase b"

definition is_ascii_digit :: "char \<Rightarrow> bool" where
  "is_ascii_digit c \<longleftrightarrow> 48 \<le> (of_char c :: nat) \<and> (of_char c :: nat) \<le> 57"

definition is_ascii_alphanumeric :: "char \<Rightarrow> bool" where
  "is_ascii_alphanumeric c \<longleftrightarrow> is_ascii_digit c
     \<or> (65 \<le> (of_char c :: nat) \<and> (of_char c :: nat) \<le> 90)
     \<or> (97 \<le> (of_char c :: nat) \<and> (of_char c :: nat) \<le> 122)"

fun parse_digits :: "int \<Rightarrow> string \<Rightarrow> int option" where
  "parse_digits acc [] = Some acc"
| "parse_digits acc (c # cs) =
     (if is_ascii_digit c then parse_digits (10 * acc + (int (of_char c) - 48)) cs else None)"

text \<open>\<^verbatim>\<open>str::parse\<close> for integers: an optional sign (\<^verbatim>\<open>-\<close> for signed types only), at least one
  digit, and an error when the value does not fit the type.\<close>

definition parse_unsigned :: "string \<Rightarrow> int option" where
  "parse_unsigned s = (if s = [] then None else parse_digits 0 s)"

definition parse_int_range :: "int \<Rightarrow> int \<Rightarrow> string \<Rightarrow> int option" where
  "parse_int_range lo hi s =
     (case (case s of
              [] \<Rightarrow> None
            | c # cs \<Rightarrow>
                if c = CHR ''+'' then parse_unsigned cs
                else if c = CHR ''-'' \<and> lo < 0 then map_option uminus (parse_unsigned cs)
                else parse_unsigned s)
      of None \<Rightarrow> None
       | Some n \<Rightarrow> if lo \<le> n \<and> n \<le> hi then Some n else None)"

definition parse_i32 :: "string \<Rightarrow> i32 option" where "parse_i32 = parse_int_range i32_min i32_max"
definition parse_i64 :: "string \<Rightarrow> i64 option" where "parse_i64 = parse_int_range i64_min i64_max"
definition parse_u64 :: "string \<Rightarrow> int option" where "parse_u64 = parse_int_range 0 u64_max"

lemma parse_int_range_bounds: "parse_int_range lo hi s = Some n \<Longrightarrow> lo \<le> n \<and> n \<le> hi"
  by (auto simp: parse_int_range_def split: option.splits if_splits)

fun split_on :: "(char \<Rightarrow> bool) \<Rightarrow> string \<Rightarrow> string list" where
  "split_on p [] = [[]]"
| "split_on p (c # cs) =
     (if p c then [] # split_on p cs
      else (case split_on p cs of [] \<Rightarrow> [[c]] | w # ws \<Rightarrow> (c # w) # ws))"

fun join_str :: "string \<Rightarrow> string list \<Rightarrow> string" where
  "join_str sep [] = []"
| "join_str sep [x] = x"
| "join_str sep (x # y # zs) = x @ sep @ join_str sep (y # zs)"

text \<open>Decimal rendering, as \<^verbatim>\<open>to_string\<close> and \<^verbatim>\<open>format!\<close> give it.\<close>

fun show_nat :: "nat \<Rightarrow> string" where
  "show_nat n = (if n < 10 then [char_of (n + 48)]
     else show_nat (n div 10) @ [char_of (n mod 10 + 48)])"

declare show_nat.simps [simp del]

definition show_int :: "int \<Rightarrow> string" where
  "show_int n = (if n < 0 then ''-'' @ show_nat (nat (- n)) else show_nat (nat n))"

section \<open>Lists of rows\<close>

definition first_row :: "('r \<Rightarrow> bool) \<Rightarrow> 'r list \<Rightarrow> 'r option" where
  "first_row p rs = find p rs"

definition update_rows :: "('r \<Rightarrow> bool) \<Rightarrow> ('r \<Rightarrow> 'r) \<Rightarrow> 'r list \<Rightarrow> 'r list" where
  "update_rows p f rs = map (\<lambda>r. if p r then f r else r) rs"

definition delete_rows :: "('r \<Rightarrow> bool) \<Rightarrow> 'r list \<Rightarrow> 'r list" where
  "delete_rows p rs = filter (\<lambda>r. \<not> p r) rs"

definition count_rows :: "('r \<Rightarrow> bool) \<Rightarrow> 'r list \<Rightarrow> nat" where
  "count_rows p rs = length (filter p rs)"

lemma first_row_Some: "first_row p rs = Some r \<Longrightarrow> r \<in> set rs \<and> p r"
  by (auto simp: first_row_def find_Some_iff)

lemma first_row_None: "first_row p rs = None \<longleftrightarrow> (\<forall>r \<in> set rs. \<not> p r)"
  by (auto simp: first_row_def find_None_iff)

lemma update_rows_Nil [simp]: "update_rows p f [] = []"
  by (simp add: update_rows_def)

lemma update_rows_Cons [simp]:
  "update_rows p f (r # rs) = (if p r then f r else r) # update_rows p f rs"
  by (simp add: update_rows_def)

lemma length_update_rows [simp]: "length (update_rows p f rs) = length rs"
  by (simp add: update_rows_def)

lemma set_update_rows: "set (update_rows p f rs) = f ` {r \<in> set rs. p r} \<union> {r \<in> set rs. \<not> p r}"
  by (auto simp: update_rows_def)

lemma map_update_rows_frame:
  "(\<And>r. p r \<Longrightarrow> g (f r) = g r) \<Longrightarrow> map g (update_rows p f rs) = map g rs"
  by (simp add: update_rows_def)

lemma update_rows_noop: "(\<forall>r \<in> set rs. \<not> p r) \<Longrightarrow> update_rows p f rs = rs"
  by (induction rs) auto

lemma set_delete_rows [simp]: "set (delete_rows p rs) = {r \<in> set rs. \<not> p r}"
  by (auto simp: delete_rows_def)

lemma delete_count_partition: "length (delete_rows p rs) + count_rows p rs = length rs"
  using sum_length_filter_compl [of p rs] by (simp add: delete_rows_def count_rows_def)

lemma count_rows_Nil [simp]: "count_rows p [] = 0"
  by (simp add: count_rows_def)

lemma count_rows_Cons [simp]: "count_rows p (r # rs) = (if p r then Suc (count_rows p rs) else count_rows p rs)"
  by (simp add: count_rows_def)

lemma count_rows_append [simp]: "count_rows p (rs @ ss) = count_rows p rs + count_rows p ss"
  by (simp add: count_rows_def)

lemma count_rows_0: "count_rows p rs = 0 \<longleftrightarrow> (\<forall>r \<in> set rs. \<not> p r)"
  by (auto simp: count_rows_def filter_empty_conv)

lemma count_rows_mono: "(\<And>r. r \<in> set rs \<Longrightarrow> p r \<Longrightarrow> q r) \<Longrightarrow> count_rows p rs \<le> count_rows q rs"
  by (induction rs) auto

lemma count_rows_delete: "count_rows p (delete_rows q rs) = count_rows (\<lambda>r. p r \<and> \<not> q r) rs"
  by (simp add: count_rows_def delete_rows_def conj_commute)

lemma count_rows_update_le:
  "(\<And>r. r \<in> set rs \<Longrightarrow> p r \<Longrightarrow> q (f r) \<Longrightarrow> q r) \<Longrightarrow>
   count_rows q (update_rows p f rs) \<le> count_rows q rs"
  by (induction rs) auto

lemma count_rows_cong:
  "(\<And>r. r \<in> set rs \<Longrightarrow> p r = q r) \<Longrightarrow> count_rows p rs = count_rows q rs"
  by (induction rs) auto

text \<open>What a limit takes of a sorted list comes first.\<close>

lemma sort_split:
  fixes key :: "'r \<Rightarrow> 'k :: linorder"
  assumes "x \<in> set (take n (sort_key key xs))" and "y \<in> set xs" and "y \<notin> set (take n (sort_key key xs))"
  shows "key x \<le> key y"
proof -
  have "y \<in> set (drop n (sort_key key xs))"
    using assms(2,3) by (metis Un_iff append_take_drop_id set_append set_sort)
  moreover have "sorted (map key (take n (sort_key key xs)) @ map key (drop n (sort_key key xs)))"
    by (metis append_take_drop_id map_append sorted_sort_key)
  ultimately show ?thesis using assms(1) by (auto simp: sorted_append)
qed

end
