(* ===== verification/Validation.thy ===== *)
theory Validation
  imports Prelude
begin

text \<open>
  The request-validation helpers of \<^verbatim>\<open>src/src/validation.rs\<close> and the API error type of
  \<^verbatim>\<open>src/src/api.rs\<close>. A helper of the source pushes onto a \<^verbatim>\<open>&mut Vec<FieldViolation>\<close>; here it
  takes the list collected so far and returns the extended one, so that a validator is the
  composition of its calls in source order. \<open>FieldViolation\<close> keeps both fields.
\<close>

record FieldViolation =
  fv_field :: string
  fv_message :: string

definition violation :: "string \<Rightarrow> string \<Rightarrow> FieldViolation" where
  "violation field message = \<lparr>fv_field = field, fv_message = message\<rparr>"

lemma violation_sel [simp]:
  "fv_field (violation f m) = f" "fv_message (violation f m) = m"
  by (simp_all add: violation_def)

type_synonym violations = "FieldViolation list"

definition push_if :: "bool \<Rightarrow> string \<Rightarrow> string \<Rightarrow> violations \<Rightarrow> violations" where
  "push_if b field message errors = (if b then errors @ [violation field message] else errors)"

definition required :: "string \<Rightarrow> string \<Rightarrow> violations \<Rightarrow> violations" where
  "required field value errors = push_if (trim value = []) field ''is required'' errors"

definition max_len :: "string \<Rightarrow> string \<Rightarrow> nat \<Rightarrow> violations \<Rightarrow> violations" where
  "max_len field value mx errors = push_if (length value > mx) field ''is too long'' errors"

definition max_optional_len :: "string \<Rightarrow> string option \<Rightarrow> nat \<Rightarrow> violations \<Rightarrow> violations" where
  "max_optional_len field value mx errors =
     (case value of Some v \<Rightarrow> max_len field v mx errors | None \<Rightarrow> errors)"

definition positive :: "string \<Rightarrow> i32 \<Rightarrow> violations \<Rightarrow> violations" where
  "positive field value errors = push_if (value \<le> 0) field ''must be positive'' errors"

definition one_of :: "string \<Rightarrow> string \<Rightarrow> string list \<Rightarrow> violations \<Rightarrow> violations" where
  "one_of field value allowed errors =
     push_if (value \<notin> set allowed) field ''is not supported'' errors"

definition optional_url :: "string \<Rightarrow> string option \<Rightarrow> violations \<Rightarrow> violations" where
  "optional_url field value errors =
     (case value of
        Some v \<Rightarrow> push_if (\<not> (starts_with ''http://'' v \<or> starts_with ''https://'' v)) field
                    ''must be a valid URL'' errors
      | None \<Rightarrow> errors)"

definition email :: "string \<Rightarrow> string \<Rightarrow> violations \<Rightarrow> violations" where
  "email field value errors =
     push_if (CHR ''@'' \<notin> set value \<or> CHR ''.'' \<notin> set value) field
       ''must be a valid email address'' errors"

text \<open>
  What a validator accepts is read off its final list: it is empty iff the list it started from is
  empty and every check passed. One equation per helper turns a chain of calls into the conjunction
  of its conditions.
\<close>

lemma push_if_empty: "push_if b f m es = [] \<longleftrightarrow> \<not> b \<and> es = []"
  by (simp add: push_if_def)

lemma required_empty: "required f v es = [] \<longleftrightarrow> \<not> is_blank v \<and> es = []"
  by (simp add: required_def push_if_empty is_blank_def)

lemma max_len_empty: "max_len f v n es = [] \<longleftrightarrow> length v \<le> n \<and> es = []"
  by (auto simp: max_len_def push_if_empty)

lemma max_optional_len_empty:
  "max_optional_len f v n es = [] \<longleftrightarrow> (\<forall>x. v = Some x \<longrightarrow> length x \<le> n) \<and> es = []"
  by (auto simp: max_optional_len_def max_len_empty split: option.splits)

lemma positive_empty: "positive f v es = [] \<longleftrightarrow> 0 < v \<and> es = []"
  by (auto simp: positive_def push_if_empty)

lemma one_of_empty: "one_of f v allowed es = [] \<longleftrightarrow> v \<in> set allowed \<and> es = []"
  by (auto simp: one_of_def push_if_empty)

definition is_http_url :: "string \<Rightarrow> bool" where
  "is_http_url v \<longleftrightarrow> starts_with ''http://'' v \<or> starts_with ''https://'' v"

lemma optional_url_empty:
  "optional_url f v es = [] \<longleftrightarrow> (\<forall>x. v = Some x \<longrightarrow> is_http_url x) \<and> es = []"
  by (auto simp: optional_url_def push_if_empty is_http_url_def split: option.splits)

lemma email_empty:
  "email f v es = [] \<longleftrightarrow> CHR ''@'' \<in> set v \<and> CHR ''.'' \<in> set v \<and> es = []"
  by (auto simp: email_def push_if_empty)

lemmas validator_empty = required_empty max_len_empty max_optional_len_empty positive_empty
  one_of_empty optional_url_empty email_empty push_if_empty

text \<open>A validator runs its checks in source order on an initially empty list.\<close>

definition checks :: "(violations \<Rightarrow> violations) list \<Rightarrow> violations" where
  "checks fs = fold (\<lambda>f es. f es) fs []"

lemmas checks_simps = checks_def fold_simps

text \<open>No helper drops or reorders what was collected before.\<close>

lemma push_if_prefix: "prefix es (push_if b f m es)"
  by (simp add: push_if_def)

lemma helpers_prefix:
  "prefix es (required f v es)" "prefix es (max_len f v n es)"
  "prefix es (max_optional_len f ov n es)" "prefix es (positive f k es)"
  "prefix es (one_of f v allowed es)" "prefix es (optional_url f ov es)"
  "prefix es (email f v es)"
  by (simp_all add: required_def max_len_def max_optional_len_def positive_def one_of_def
        optional_url_def email_def push_if_prefix split: option.split)

section \<open>API errors\<close>

text \<open>The errors of Diesel that the portal distinguishes. The text of a database error is kept.\<close>

datatype DatabaseErrorKind =
    UniqueViolation | ForeignKeyViolation | CheckViolation | ClosedConnection
  | UnableToSendCommand | OtherKind

datatype DieselError =
    NotFoundError
  | DatabaseError DatabaseErrorKind string
  | BrokenTransactionManager
  | QueryBuilderError string

datatype ApiError =
    BadRequest
  | Validation violations
  | Unauthorized
  | RateLimited i64
  | AuthenticationCapacityLimited i64
  | Forbidden
  | NotFound
  | Database DieselError
  | DatabaseUnavailable DieselError
  | ServiceUnavailable
  | Internal

fun api_status :: "ApiError \<Rightarrow> nat" where
  "api_status BadRequest = 400"
| "api_status (Validation _) = 400"
| "api_status Unauthorized = 401"
| "api_status (RateLimited _) = 429"
| "api_status (AuthenticationCapacityLimited _) = 429"
| "api_status Forbidden = 403"
| "api_status NotFound = 404"
| "api_status (Database _) = 500"
| "api_status Internal = 500"
| "api_status (DatabaseUnavailable _) = 503"
| "api_status ServiceUnavailable = 503"

record ApiErrorBody =
  eb_code :: string
  eb_message :: string
  eb_details :: "violations option"

definition error_body :: "string \<Rightarrow> string \<Rightarrow> violations option \<Rightarrow> ApiErrorBody" where
  "error_body c m d = \<lparr>eb_code = c, eb_message = m, eb_details = d\<rparr>"

fun api_body :: "ApiError \<Rightarrow> ApiErrorBody" where
  "api_body BadRequest = error_body ''bad_request'' ''Bad request.'' None"
| "api_body (Validation errors) =
     error_body ''validation_failed'' ''Request validation failed.'' (Some errors)"
| "api_body Unauthorized = error_body ''unauthorized'' ''Authentication is required.'' None"
| "api_body (RateLimited _) =
     error_body ''login_throttled'' ''Too many sign-in attempts. Try again later.'' None"
| "api_body (AuthenticationCapacityLimited _) =
     error_body ''authentication_capacity_limited''
       ''Sign-in is temporarily at capacity. Try again later.'' None"
| "api_body Forbidden =
     error_body ''forbidden'' ''You are not allowed to perform this action.'' None"
| "api_body NotFound = error_body ''not_found'' ''Resource was not found.'' None"
| "api_body (Database _) =
     error_body ''internal_server_error'' ''An internal server error occurred.'' None"
| "api_body Internal =
     error_body ''internal_server_error'' ''An internal server error occurred.'' None"
| "api_body (DatabaseUnavailable _) =
     error_body ''service_unavailable'' ''The service is temporarily unavailable.'' None"
| "api_body ServiceUnavailable =
     error_body ''service_unavailable'' ''The service is temporarily unavailable.'' None"

fun api_error_of :: "DieselError \<Rightarrow> ApiError" where
  "api_error_of NotFoundError = NotFound"
| "api_error_of (DatabaseError ClosedConnection m) =
     DatabaseUnavailable (DatabaseError ClosedConnection m)"
| "api_error_of (DatabaseError UnableToSendCommand m) =
     DatabaseUnavailable (DatabaseError UnableToSendCommand m)"
| "api_error_of BrokenTransactionManager = DatabaseUnavailable BrokenTransactionManager"
| "api_error_of e = Database e"

text \<open>The response: status, body, and the \<^verbatim>\<open>Retry-After\<close> header of the two throttling errors.\<close>

record ErrorResponse =
  er_status :: nat
  er_body :: ApiErrorBody
  er_retry_after :: "i64 option"

fun retry_after_header :: "ApiError \<Rightarrow> i64 option" where
  "retry_after_header (RateLimited n) = Some (max n 1)"
| "retry_after_header (AuthenticationCapacityLimited n) = Some (max n 1)"
| "retry_after_header _ = None"

definition respond_to :: "ApiError \<Rightarrow> ErrorResponse" where
  "respond_to e = \<lparr>er_status = api_status e, er_body = api_body e,
     er_retry_after = retry_after_header e\<rparr>"

definition validate_request :: "('r \<Rightarrow> violations) \<Rightarrow> 'r \<Rightarrow> ApiError + 'r" where
  "validate_request validate request =
     (let errors = validate request in if errors = [] then Inr request else Inl (Validation errors))"

lemma validate_request_Inr:
  "validate_request v r = Inr r' \<longleftrightarrow> r' = r \<and> v r = []"
  by (auto simp: validate_request_def Let_def)

lemma validate_request_Inl:
  "validate_request v r = Inl e \<longleftrightarrow> v r \<noteq> [] \<and> e = Validation (v r)"
  by (auto simp: validate_request_def Let_def)

text \<open>Errors as the connector runtime records them (\<^verbatim>\<open>connectors/shared.rs\<close>).\<close>

fun diesel_error_string :: "DieselError \<Rightarrow> string" where
  "diesel_error_string NotFoundError = ''Record not found''"
| "diesel_error_string (DatabaseError _ m) = m"
| "diesel_error_string BrokenTransactionManager = ''The transaction manager is broken''"
| "diesel_error_string (QueryBuilderError m) = m"

fun api_error_message :: "ApiError \<Rightarrow> string" where
  "api_error_message BadRequest = ''bad request''"
| "api_error_message (Validation errors) =
     join_str '', '' (map (\<lambda>e. fv_field e @ '' '' @ fv_message e) errors)"
| "api_error_message Unauthorized = ''authentication is required''"
| "api_error_message (RateLimited _) = ''too many requests''"
| "api_error_message (AuthenticationCapacityLimited _) =
     ''authentication is temporarily at capacity''"
| "api_error_message Forbidden = ''permission denied''"
| "api_error_message NotFound = ''resource was not found''"
| "api_error_message (Database e) = diesel_error_string e"
| "api_error_message (DatabaseUnavailable e) = diesel_error_string e"
| "api_error_message ServiceUnavailable = ''service is temporarily unavailable''"
| "api_error_message Internal = ''internal server error''"

definition validation_error :: "string \<Rightarrow> string \<Rightarrow> ApiError" where
  "validation_error field message = Validation [violation field message]"

definition count_as_i32 :: "nat \<Rightarrow> i32" where
  "count_as_i32 n = min (int n) i32_max"

definition connector_targets :: "string list" where
  "connector_targets = [''service_health'', ''work_cards'', ''notifications'', ''calendar_events'']"

definition validate_source :: "string \<Rightarrow> ApiError + string" where
  "validate_source source = validate_request
     (\<lambda>s. checks [required ''source'' s, max_len ''source'' s 64]) source"

definition validate_target :: "string \<Rightarrow> ApiError + string" where
  "validate_target target = validate_request
     (\<lambda>t. checks [required ''target'' t, max_len ''target'' t 64,
        one_of ''target'' t connector_targets]) target"

end
