(* ===== verification/Models.thy ===== *)
theory Models
  imports Validation
begin

text \<open>
  The rows and insertable structs of \<^verbatim>\<open>src/src/models.rs\<close>, with their validators and the schedule
  parser. For every table the insertable struct \<^verbatim>\<open>New...\<close> is a record with the source's fields, and
  the row is its extension by the columns the database fills in (\<^verbatim>\<open>id\<close>, \<^verbatim>\<open>created_at\<close>,
  \<^verbatim>\<open>updated_at\<close> and similar), so that an insert and a changeset are record extensions.
  A field \<^verbatim>\<open>f\<close> of a struct is called \<open>xx_f\<close>, with a two-letter prefix per table.
\<close>

section \<open>Schedules\<close>

definition parse_duration_seconds :: "string \<Rightarrow> i64 option" where
  "parse_duration_seconds value =
     (case (case strip_suffix ''s'' value of
              Some n \<Rightarrow> Some (n, 1)
            | None \<Rightarrow> (case strip_suffix ''m'' value of
                Some n \<Rightarrow> Some (n, 60)
              | None \<Rightarrow> (case strip_suffix ''h'' value of
                  Some n \<Rightarrow> Some (n, 60 * 60)
                | None \<Rightarrow> None)))
      of None \<Rightarrow> None
       | Some (number, multiplier) \<Rightarrow>
          (case parse_i64 number of
             None \<Rightarrow> None
           | Some secs \<Rightarrow> if secs > 0 then checked_mul_i64 secs multiplier else None))"

definition schedule_interval_seconds :: "string \<Rightarrow> i64 option" where
  "schedule_interval_seconds schedule =
     (let schedule = to_ascii_lowercase (trim schedule) in
      if schedule = ''@hourly'' then Some (60 * 60)
      else if schedule = ''@daily'' then Some (24 * 60 * 60)
      else (case Option.bind (strip_prefix ''@every '' schedule) parse_duration_seconds of
              Some n \<Rightarrow> Some n
            | None \<Rightarrow> parse_duration_seconds schedule))"

definition MIN_CONNECTOR_SCHEDULE_INTERVAL_SECONDS :: i64 where
  "MIN_CONNECTOR_SCHEDULE_INTERVAL_SECONDS = 60"

definition effective_schedule_interval_seconds :: "string \<Rightarrow> i64 option" where
  "effective_schedule_interval_seconds schedule =
     map_option (\<lambda>s. max s MIN_CONNECTOR_SCHEDULE_INTERVAL_SECONDS)
       (schedule_interval_seconds schedule)"

lemma parse_duration_seconds_bounds:
  assumes "parse_duration_seconds v = Some n"
  shows "0 < n \<and> n \<le> i64_max"
  using assms
  by (auto simp: parse_duration_seconds_def checked_mul_i64_def split: option.splits if_splits)

lemma schedule_interval_seconds_bounds:
  assumes "schedule_interval_seconds v = Some n"
  shows "0 < n \<and> n \<le> i64_max"
proof -
  have "Option.bind o' parse_duration_seconds = Some n \<Longrightarrow> 0 < n \<and> n \<le> i64_max" for o'
    by (cases o') (auto dest: parse_duration_seconds_bounds)
  then show ?thesis
    using assms
    by (auto simp: schedule_interval_seconds_def Let_def i64_max_def
          dest: parse_duration_seconds_bounds split: if_splits option.splits)
qed

section \<open>Connectors\<close>

record NewConnector =
  cn_source :: string
  cn_kind :: string
  cn_display_name :: string
  cn_status :: string
  cn_scope_type :: string
  cn_owner_user_id :: "i32 option"
  cn_maintainer_id :: "i32 option"

record Connector = NewConnector +
  cn_id :: i32
  cn_last_run_at :: "utc option"
  cn_last_success_at :: "utc option"
  cn_created_at :: utc
  cn_updated_at :: utc

definition validate_data_scope ::
    "string \<Rightarrow> i32 option \<Rightarrow> i32 option \<Rightarrow> violations \<Rightarrow> violations" where
  "validate_data_scope scope_type owner_user_id maintainer_id errors =
     (let errors = one_of ''scope_type'' scope_type [''global'', ''maintainer'', ''user'']
            (max_len ''scope_type'' scope_type 16 (required ''scope_type'' scope_type errors));
          valid_shape =
            (if scope_type = ''global'' then owner_user_id = None \<and> maintainer_id = None
             else if scope_type = ''user'' then owner_user_id \<noteq> None \<and> maintainer_id = None
             else if scope_type = ''maintainer'' then owner_user_id = None \<and> maintainer_id \<noteq> None
             else True);
          errors = push_if (\<not> valid_shape) ''scope_type''
            ''must match exactly one owner: global has none, user has owner_user_id, maintainer has maintainer_id''
            errors;
          errors = push_if (case owner_user_id of Some i \<Rightarrow> i \<le> 0 | None \<Rightarrow> False)
            ''owner_user_id'' ''must be positive'' errors
      in push_if (case maintainer_id of Some i \<Rightarrow> i \<le> 0 | None \<Rightarrow> False)
            ''maintainer_id'' ''must be positive'' errors)"

definition NewConnector_validate :: "NewConnector \<Rightarrow> violations" where
  "NewConnector_validate c = checks
     [required ''source'' (cn_source c),
      max_len ''source'' (cn_source c) 64,
      required ''kind'' (cn_kind c),
      max_len ''kind'' (cn_kind c) 64,
      required ''display_name'' (cn_display_name c),
      max_len ''display_name'' (cn_display_name c) 128,
      required ''status'' (cn_status c),
      max_len ''status'' (cn_status c) 32,
      one_of ''status'' (cn_status c) [''active'', ''paused'', ''error''],
      validate_data_scope (cn_scope_type c) (cn_owner_user_id c) (cn_maintainer_id c)]"

record ConnectorScopeUpdate =
  su_scope_type :: string
  su_owner_user_id :: "i32 option"
  su_maintainer_id :: "i32 option"

definition ConnectorScopeUpdate_validate :: "ConnectorScopeUpdate \<Rightarrow> violations" where
  "ConnectorScopeUpdate_validate u = checks
     [validate_data_scope (su_scope_type u) (su_owner_user_id u) (su_maintainer_id u)]"

record ConnectorUpdate =
  cu_kind :: string
  cu_display_name :: string
  cu_status :: string

definition ConnectorUpdate_validate :: "ConnectorUpdate \<Rightarrow> violations" where
  "ConnectorUpdate_validate u = checks
     [required ''kind'' (cu_kind u),
      max_len ''kind'' (cu_kind u) 64,
      required ''display_name'' (cu_display_name u),
      max_len ''display_name'' (cu_display_name u) 128,
      required ''status'' (cu_status u),
      max_len ''status'' (cu_status u) 32,
      one_of ''status'' (cu_status u) [''active'', ''paused'', ''error'']]"

record NewConnectorConfig =
  cc_source :: string
  cc_target :: string
  cc_enabled :: bool
  cc_schedule_cron :: "string option"
  cc_config :: string
  cc_sample_payload :: string
  cc_last_scheduled_at :: "utc option"
  cc_next_run_at :: "utc option"
  cc_last_scheduled_run_id :: "i32 option"

record ConnectorConfig = NewConnectorConfig +
  cc_id :: i32
  cc_created_at :: utc
  cc_updated_at :: utc

record ConnectorConfigUpdate =
  cf_target :: string
  cf_enabled :: bool
  cf_schedule_cron :: "string option"
  cf_config :: string
  cf_sample_payload :: string

section \<open>Connector runs\<close>

record NewConnectorRun =
  cr_source :: string
  cr_target :: string
  cr_status :: string
  cr_success_count :: i32
  cr_failure_count :: i32
  cr_duration_ms :: i64
  cr_error_message :: "string option"
  cr_started_at :: utc
  cr_finished_at :: "utc option"
  cr_trigger :: string
  cr_payload :: "string option"
  cr_claimed_at :: "utc option"
  cr_worker_id :: "string option"
  cr_attempt_count :: i32
  cr_max_attempts :: i32
  cr_next_attempt_at :: utc
  cr_lease_expires_at :: "utc option"
  cr_heartbeat_at :: "utc option"
  cr_cancel_requested_at :: "utc option"
  cr_cancelled_at :: "utc option"
  cr_parent_run_id :: "i32 option"
  cr_snapshot_complete :: "bool option"
  cr_archived_count :: i32

record ConnectorRun = NewConnectorRun +
  cr_id :: i32

record ConnectorRunStateUpdate =
  rs_status :: string
  rs_success_count :: i32
  rs_failure_count :: i32
  rs_duration_ms :: i64
  rs_error_message :: "string option"
  rs_finished_at :: "utc option"
  rs_snapshot_complete :: "bool option"
  rs_archived_count :: i32

record NewConnectorRunItem =
  ri_connector_run_id :: i32
  ri_source :: string
  ri_target :: string
  ri_record_id :: "i32 option"
  ri_external_id :: "string option"
  ri_status :: string
  ri_snapshot :: "string option"

record ConnectorRunItem = NewConnectorRunItem +
  ri_id :: i32
  ri_created_at :: utc

record NewConnectorRunItemError =
  re_connector_run_id :: i32
  re_source :: string
  re_target :: string
  re_external_id :: "string option"
  re_message :: string
  re_raw_item :: "string option"

record ConnectorRunItemError = NewConnectorRunItemError +
  re_id :: i32
  re_created_at :: utc

record ConnectorWorkerHeartbeat =
  cw_worker_id :: string
  cw_status :: string
  cw_scheduler_enabled :: bool
  cw_retention_enabled :: bool
  cw_current_run_id :: "i32 option"
  cw_last_error :: "string option"
  cw_started_at :: utc

record ConnectorWorker = ConnectorWorkerHeartbeat +
  cw_id :: i32
  cw_last_seen_at :: utc
  cw_updated_at :: utc

record NewMaintenanceRun =
  mr_task :: string
  mr_status :: string
  mr_worker_id :: "string option"
  mr_started_at :: utc
  mr_finished_at :: utc
  mr_duration_ms :: i64
  mr_health_checks_deleted :: i32
  mr_connector_runs_deleted :: i32
  mr_audit_logs_deleted :: i32
  mr_error_message :: "string option"

record MaintenanceRun = NewMaintenanceRun +
  mr_id :: i32
  mr_created_at :: utc

record NewAuditLog =
  al_actor_user_id :: "i32 option"
  al_action :: string
  al_resource_type :: string
  al_resource_id :: "string option"
  al_metadata :: "string option"

record AuditLog = NewAuditLog +
  al_id :: i32
  al_created_at :: utc

section \<open>Catalog\<close>

record NewMaintainer =
  mt_display_name :: string
  mt_email :: string

record Maintainer = NewMaintainer +
  mt_id :: i32
  mt_created_at :: utc

definition NewMaintainer_validate :: "NewMaintainer \<Rightarrow> violations" where
  "NewMaintainer_validate m = checks
     [required ''display_name'' (mt_display_name m),
      max_len ''display_name'' (mt_display_name m) 255,
      required ''email'' (mt_email m),
      max_len ''email'' (mt_email m) 255,
      email ''email'' (mt_email m)]"

record NewMaintainerMember =
  mm_maintainer_id :: i32
  mm_user_id :: i32
  mm_role :: string

record MaintainerMember = NewMaintainerMember +
  mm_id :: i32
  mm_created_at :: utc

definition NewMaintainerMember_validate :: "NewMaintainerMember \<Rightarrow> violations" where
  "NewMaintainerMember_validate m = checks
     [positive ''maintainer_id'' (mm_maintainer_id m),
      positive ''user_id'' (mm_user_id m),
      required ''role'' (mm_role m),
      max_len ''role'' (mm_role m) 32,
      one_of ''role'' (mm_role m) [''owner'', ''maintainer'', ''viewer'']]"

record NewPackage =
  pk_maintainer_id :: i32
  pk_slug :: string
  pk_name :: string
  pk_version :: string
  pk_status :: string
  pk_description :: "string option"
  pk_repository_url :: "string option"
  pk_documentation_url :: "string option"

record Package = NewPackage +
  pk_id :: i32
  pk_created_at :: utc
  pk_updated_at :: utc

definition NewPackage_validate :: "NewPackage \<Rightarrow> violations" where
  "NewPackage_validate p = checks
     [positive ''maintainer_id'' (pk_maintainer_id p),
      required ''slug'' (pk_slug p),
      max_len ''slug'' (pk_slug p) 64,
      required ''name'' (pk_name p),
      max_len ''name'' (pk_name p) 128,
      required ''version'' (pk_version p),
      max_len ''version'' (pk_version p) 64,
      required ''status'' (pk_status p),
      max_len ''status'' (pk_status p) 32,
      one_of ''status'' (pk_status p) [''active'', ''deprecated'', ''archived''],
      max_optional_len ''repository_url'' (pk_repository_url p) 2048,
      optional_url ''repository_url'' (pk_repository_url p),
      max_optional_len ''documentation_url'' (pk_documentation_url p) 2048,
      optional_url ''documentation_url'' (pk_documentation_url p)]"

record NewService =
  sv_source :: string
  sv_external_id :: "string option"
  sv_maintainer_id :: i32
  sv_slug :: string
  sv_name :: string
  sv_lifecycle_status :: string
  sv_health_status :: string
  sv_description :: "string option"
  sv_repository_url :: "string option"
  sv_dashboard_url :: "string option"
  sv_runbook_url :: "string option"
  sv_last_checked_at :: "utc option"

record Service = NewService +
  sv_id :: i32
  sv_created_at :: utc
  sv_updated_at :: utc

definition NewService_validate :: "NewService \<Rightarrow> violations" where
  "NewService_validate s = checks
     [required ''source'' (sv_source s),
      max_len ''source'' (sv_source s) 64,
      max_optional_len ''external_id'' (sv_external_id s) 128,
      positive ''maintainer_id'' (sv_maintainer_id s),
      required ''slug'' (sv_slug s),
      max_len ''slug'' (sv_slug s) 64,
      required ''name'' (sv_name s),
      max_len ''name'' (sv_name s) 128,
      required ''lifecycle_status'' (sv_lifecycle_status s),
      max_len ''lifecycle_status'' (sv_lifecycle_status s) 32,
      one_of ''lifecycle_status'' (sv_lifecycle_status s) [''active'', ''deprecated'', ''archived''],
      required ''health_status'' (sv_health_status s),
      max_len ''health_status'' (sv_health_status s) 32,
      one_of ''health_status'' (sv_health_status s)
        [''healthy'', ''degraded'', ''down'', ''unknown''],
      max_optional_len ''repository_url'' (sv_repository_url s) 2048,
      optional_url ''repository_url'' (sv_repository_url s),
      max_optional_len ''dashboard_url'' (sv_dashboard_url s) 2048,
      optional_url ''dashboard_url'' (sv_dashboard_url s),
      max_optional_len ''runbook_url'' (sv_runbook_url s) 2048,
      optional_url ''runbook_url'' (sv_runbook_url s)]"

record NewServiceHealthCheck =
  hc_service_id :: i32
  hc_connector_run_id :: "i32 option"
  hc_source :: string
  hc_external_id :: "string option"
  hc_health_status :: string
  hc_previous_health_status :: "string option"
  hc_checked_at :: utc
  hc_response_time_ms :: "i32 option"
  hc_message :: "string option"
  hc_raw_payload :: "string option"

record ServiceHealthCheck = NewServiceHealthCheck +
  hc_id :: i32
  hc_created_at :: utc

section \<open>Records owned by connectors\<close>

record NewCalendarEvent =
  ce_source :: string
  ce_external_id :: string
  ce_title :: string
  ce_body :: "string option"
  ce_organizer :: "string option"
  ce_location :: "string option"
  ce_starts_at :: utc
  ce_ends_at :: utc
  ce_time_zone :: "string option"
  ce_is_all_day :: bool
  ce_is_cancelled :: bool
  ce_web_url :: "string option"
  ce_join_url :: "string option"
  ce_connector_id :: "i32 option"
  ce_owner_user_id :: "i32 option"
  ce_maintainer_id :: "i32 option"
  ce_source_updated_at :: "utc option"
  ce_last_seen_run_id :: "i32 option"
  ce_archived_at :: "utc option"

record CalendarEvent = NewCalendarEvent +
  ce_id :: i32
  ce_created_at :: utc
  ce_updated_at :: utc

definition NewCalendarEvent_validate :: "NewCalendarEvent \<Rightarrow> violations" where
  "NewCalendarEvent_validate e = checks
     [required ''source'' (ce_source e),
      max_len ''source'' (ce_source e) 64,
      required ''external_id'' (ce_external_id e),
      max_len ''external_id'' (ce_external_id e) 128,
      required ''title'' (ce_title e),
      max_len ''title'' (ce_title e) 256,
      max_optional_len ''organizer'' (ce_organizer e) 256,
      max_optional_len ''location'' (ce_location e) 256,
      max_optional_len ''time_zone'' (ce_time_zone e) 128,
      max_optional_len ''web_url'' (ce_web_url e) 2048,
      optional_url ''web_url'' (ce_web_url e),
      max_optional_len ''join_url'' (ce_join_url e) 2048,
      optional_url ''join_url'' (ce_join_url e),
      push_if (ce_ends_at e < ce_starts_at e) ''ends_at''
        ''must be greater than or equal to starts_at'']"

record NewWorkCard =
  wc_source :: string
  wc_external_id :: "string option"
  wc_title :: string
  wc_status :: string
  wc_priority :: string
  wc_assignee :: "string option"
  wc_project :: "string option"
  wc_work_item_type :: "string option"
  wc_assignee_source_id :: "string option"
  wc_assignee_user_id :: "i32 option"
  wc_due_at :: "utc option"
  wc_url :: "string option"
  wc_connector_id :: "i32 option"
  wc_owner_user_id :: "i32 option"
  wc_maintainer_id :: "i32 option"
  wc_source_updated_at :: "utc option"
  wc_last_seen_run_id :: "i32 option"
  wc_archived_at :: "utc option"

record WorkCard = NewWorkCard +
  wc_id :: i32
  wc_created_at :: utc
  wc_updated_at :: utc

definition NewWorkCard_validate :: "NewWorkCard \<Rightarrow> violations" where
  "NewWorkCard_validate w = checks
     [required ''source'' (wc_source w),
      max_len ''source'' (wc_source w) 64,
      required ''title'' (wc_title w),
      max_len ''title'' (wc_title w) 255,
      required ''status'' (wc_status w),
      max_len ''status'' (wc_status w) 32,
      one_of ''status'' (wc_status w) [''todo'', ''in_progress'', ''blocked'', ''done''],
      required ''priority'' (wc_priority w),
      max_len ''priority'' (wc_priority w) 32,
      one_of ''priority'' (wc_priority w) [''low'', ''medium'', ''high'', ''urgent''],
      max_optional_len ''external_id'' (wc_external_id w) 128,
      max_optional_len ''assignee'' (wc_assignee w) 128,
      max_optional_len ''project'' (wc_project w) 128,
      max_optional_len ''work_item_type'' (wc_work_item_type w) 128,
      max_optional_len ''assignee_source_id'' (wc_assignee_source_id w) 512,
      push_if (case wc_assignee_user_id w of Some u \<Rightarrow> u \<le> 0 | None \<Rightarrow> False)
        ''assignee_user_id'' ''must be a positive portal user id'',
      push_if (wc_assignee_user_id w \<noteq> None
          \<and> (case wc_assignee_source_id w of None \<Rightarrow> True | Some i \<Rightarrow> trim i = []))
        ''assignee_source_id''
        ''must identify the explicitly mapped source identity when assignee_user_id is set'',
      max_optional_len ''url'' (wc_url w) 2048,
      optional_url ''url'' (wc_url w)]"

record NewNotification =
  nt_source :: string
  nt_external_id :: "string option"
  nt_title :: string
  nt_body :: "string option"
  nt_severity :: string
  nt_is_read :: bool
  nt_url :: "string option"
  nt_connector_id :: "i32 option"
  nt_owner_user_id :: "i32 option"
  nt_maintainer_id :: "i32 option"
  nt_source_updated_at :: "utc option"
  nt_last_seen_run_id :: "i32 option"
  nt_archived_at :: "utc option"

record Notification = NewNotification +
  nt_id :: i32
  nt_created_at :: utc
  nt_updated_at :: utc

definition NewNotification_validate :: "NewNotification \<Rightarrow> violations" where
  "NewNotification_validate n = checks
     [required ''source'' (nt_source n),
      max_len ''source'' (nt_source n) 64,
      max_optional_len ''external_id'' (nt_external_id n) 128,
      required ''title'' (nt_title n),
      max_len ''title'' (nt_title n) 255,
      required ''severity'' (nt_severity n),
      max_len ''severity'' (nt_severity n) 32,
      one_of ''severity'' (nt_severity n) [''info'', ''warning'', ''critical''],
      max_optional_len ''url'' (nt_url n) 2048,
      optional_url ''url'' (nt_url n)]"

record NotificationReceipt =
  nr_id :: i32
  nr_notification_id :: i32
  nr_user_id :: i32
  nr_read_at :: "utc option"
  nr_dismissed_at :: "utc option"
  nr_snoozed_until :: "utc option"
  nr_created_at :: utc
  nr_updated_at :: utc

text \<open>
  \<open>NotificationView\<close> extends the notification with the per-user columns; its \<^verbatim>\<open>is_read\<close> is the
  effective state, \<^verbatim>\<open>source_is_read\<close> the imported one.
\<close>

record NotificationView = Notification +
  nv_source_is_read :: bool
  nv_read_at :: "utc option"
  nv_dismissed_at :: "utc option"
  nv_snoozed_until :: "utc option"

definition NotificationView_from_record ::
    "Notification \<Rightarrow> NotificationReceipt option \<Rightarrow> NotificationView" where
  "NotificationView_from_record n receipt =
     (let (read_at, dismissed_at, snoozed_until) =
            (case receipt of
               Some r \<Rightarrow> (nr_read_at r, nr_dismissed_at r, nr_snoozed_until r)
             | None \<Rightarrow> (None, None, None));
          source_is_read = nt_is_read n
      in Notification.extend (n\<lparr>nt_is_read := source_is_read \<or> read_at \<noteq> None\<rparr>)
           (NotificationView.fields source_is_read read_at dismissed_at snoozed_until))"

section \<open>Users, roles, sessions\<close>

record NewUser =
  us_username :: string
  us_password :: string

record User = NewUser +
  us_id :: i32
  us_created_at :: utc

record NewExternalIdentity =
  ei_user_id :: i32
  ei_provider :: string
  ei_issuer :: string
  ei_subject :: "string option"
  ei_tenant_id :: string
  ei_object_id :: string
  ei_preferred_username :: "string option"
  ei_display_name :: "string option"
  ei_email :: "string option"
  ei_last_login_at :: "utc option"

record ExternalIdentity = NewExternalIdentity +
  ei_id :: i32
  ei_created_at :: utc
  ei_updated_at :: utc

record NewRole =
  ro_code :: string
  ro_name :: string

record Role = NewRole +
  ro_id :: i32
  ro_created_at :: utc

record NewUserRole =
  ur_user_id :: i32
  ur_role_id :: i32

record UserRole = NewUserRole +
  ur_id :: i32

record NewSession =
  se_user_id :: i32
  se_token_hash :: string
  se_expires_at :: utc
  se_auth_method :: string
  se_last_seen_at :: utc
  se_ip_address :: "string option"
  se_user_agent :: "string option"

record Session = NewSession +
  se_id :: i32
  se_created_at :: utc

record LoginThrottleBucket =
  lt_bucket_hash :: string
  lt_failure_count :: i32
  lt_window_started_at :: utc
  lt_locked_until :: "utc option"
  lt_updated_at :: utc

record NewOidcLoginTransaction =
  ot_state_hash :: string
  ot_browser_binding_hash :: string
  ot_nonce :: string
  ot_pkce_verifier_ciphertext :: string
  ot_return_to :: string
  ot_expires_at :: utc

record OidcLoginTransaction = NewOidcLoginTransaction +
  ot_created_at :: utc

end
