(* ===== verification/Database.thy ===== *)
theory Database
  imports Models
begin

text \<open>
  The PostgreSQL database the portal talks to through Diesel, and the computations that use it.

  State: one list of rows per table of \<^verbatim>\<open>src/src/schema.rs\<close>, the next value of every serial column,
  and the state of the connection's transaction. A computation of the portal is a function
  \<open>env \<Rightarrow> db \<Rightarrow> ('e + 'a) \<times> db\<close>: a \<^verbatim>\<open>Result\<close> and the new database.

  What is not code of the repository is a parameter, the environment: \<open>env_clock\<close> gives the
  successive readings of the clock, \<open>env_fault\<close> says which statements the server refuses and with
  which error, and \<open>env_other\<close> is what the other processes committed in between. All three are
  arbitrary functions of a counter, so a theorem holds for every clock, every pattern of failures and
  every interference it does not exclude by a hypothesis.

  Transactions are as PostgreSQL documents them: a statement that fails inside a transaction leaves it
  aborted, and every later statement fails until the transaction (or the savepoint of a nested
  \<^verbatim>\<open>transaction\<close> call) is rolled back; a transaction whose body returns an error is rolled back; the
  outermost commit of an aborted transaction is a rollback; releasing a savepoint of an aborted
  transaction is an error. A transaction is one atomic step with respect to \<open>env_other\<close>.
\<close>

section \<open>Tables\<close>

record 'r table =
  rows :: "'r list"
  seq :: i32

definition empty_table :: "'r table" where
  "empty_table = \<lparr>rows = [], seq = 1\<rparr>"

record tables =
  connectors :: "Connector table"
  connector_configs :: "ConnectorConfig table"
  connector_runs :: "ConnectorRun table"
  connector_run_items :: "ConnectorRunItem table"
  connector_run_item_errors :: "ConnectorRunItemError table"
  connector_workers :: "ConnectorWorker table"
  maintenance_runs :: "MaintenanceRun table"
  audit_logs :: "AuditLog table"
  maintainers :: "Maintainer table"
  maintainer_members :: "MaintainerMember table"
  packages :: "Package table"
  services :: "Service table"
  service_health_checks :: "ServiceHealthCheck table"
  work_cards :: "WorkCard table"
  notifications :: "Notification table"
  notification_receipts :: "NotificationReceipt table"
  calendar_events :: "CalendarEvent table"
  users :: "User table"
  roles :: "Role table"
  users_roles :: "UserRole table"
  sessions :: "Session table"
  login_throttle_buckets :: "LoginThrottleBucket table"
  oidc_login_transactions :: "OidcLoginTransaction table"
  external_identities :: "ExternalIdentity table"

definition empty_tables :: tables where
  "empty_tables = \<lparr>connectors = empty_table, connector_configs = empty_table,
     connector_runs = empty_table, connector_run_items = empty_table,
     connector_run_item_errors = empty_table, connector_workers = empty_table,
     maintenance_runs = empty_table, audit_logs = empty_table, maintainers = empty_table,
     maintainer_members = empty_table, packages = empty_table, services = empty_table,
     service_health_checks = empty_table, work_cards = empty_table, notifications = empty_table,
     notification_receipts = empty_table, calendar_events = empty_table, users = empty_table,
     roles = empty_table, users_roles = empty_table, sessions = empty_table,
     login_throttle_buckets = empty_table, oidc_login_transactions = empty_table,
     external_identities = empty_table\<rparr>"

record db =
  tabs :: tables
  tick :: nat
  tx_depth :: nat
  tx_aborted :: bool

record env =
  env_clock :: "nat \<Rightarrow> utc"
  env_fault :: "nat \<Rightarrow> DieselError option"
  env_other :: "nat \<Rightarrow> tables \<Rightarrow> tables"

definition mk_db :: "tables \<Rightarrow> db" where
  "mk_db t = \<lparr>tabs = t, tick = 0, tx_depth = 0, tx_aborted = False\<rparr>"

type_synonym ('e, 'a) dbm = "env \<Rightarrow> db \<Rightarrow> ('e + 'a) \<times> db"
type_synonym 'a query = "(DieselError, 'a) dbm"
type_synonym 'a api = "(ApiError, 'a) dbm"

section \<open>Computations\<close>

definition retM :: "'a \<Rightarrow> ('e, 'a) dbm" where
  "retM x = (\<lambda>env s. (Inr x, s))"

definition throwM :: "'e \<Rightarrow> ('e, 'a) dbm" where
  "throwM e = (\<lambda>env s. (Inl e, s))"

definition bindM :: "('e, 'a) dbm \<Rightarrow> ('a \<Rightarrow> ('e, 'b) dbm) \<Rightarrow> ('e, 'b) dbm" where
  "bindM m f = (\<lambda>env s. case m env s of (Inl e, s') \<Rightarrow> (Inl e, s') | (Inr x, s') \<Rightarrow> f x env s')"

text \<open>\<^verbatim>\<open>match m.await\<close> with a branch for the error.\<close>

definition handleM :: "('e, 'a) dbm \<Rightarrow> ('e \<Rightarrow> ('f, 'b) dbm) \<Rightarrow> ('a \<Rightarrow> ('f, 'b) dbm) \<Rightarrow> ('f, 'b) dbm" where
  "handleM m h f = (\<lambda>env s. case m env s of (Inl e, s') \<Rightarrow> h e env s' | (Inr x, s') \<Rightarrow> f x env s')"

definition liftM :: "'a query \<Rightarrow> 'a api" where
  "liftM m = handleM m (\<lambda>e. throwM (api_error_of e)) retM"

definition resultM :: "'e + 'a \<Rightarrow> ('e, 'a) dbm" where
  "resultM r = (case r of Inl e \<Rightarrow> throwM e | Inr x \<Rightarrow> retM x)"

text \<open>\<^verbatim>\<open>let _ = m.await;\<close>: the outcome is dropped.\<close>

definition ignoreM :: "('f, 'a) dbm \<Rightarrow> ('e, unit) dbm" where
  "ignoreM m = handleM m (\<lambda>_. retM ()) (\<lambda>_. retM ())"

definition utc_now :: "('e, utc) dbm" where
  "utc_now = (\<lambda>env s. (Inr (env_clock env (tick s)), s\<lparr>tick := Suc (tick s)\<rparr>))"

text \<open>An await point outside a transaction: the other processes run.\<close>

definition yieldM :: "('e, unit) dbm" where
  "yieldM = (\<lambda>env s. (Inr (), s\<lparr>tabs := env_other env (tick s) (tabs s), tick := Suc (tick s)\<rparr>))"

text \<open>A call awaited outside a transaction: the other processes run when it returns.\<close>

definition stepM :: "('e, 'a) dbm \<Rightarrow> ('e, 'a) dbm" where
  "stepM m = (\<lambda>env s. case m env s of (r, s') \<Rightarrow>
     (r, s'\<lparr>tabs := env_other env (tick s') (tabs s'), tick := Suc (tick s')\<rparr>))"

text \<open>A call outside the database: it gets a number, so that its answer may differ from call to call,
  and the other processes run while it is awaited.\<close>

definition outside_call :: "('e, nat) dbm" where
  "outside_call = (\<lambda>env s.
     (Inr (tick s), s\<lparr>tabs := env_other env (tick s) (tabs s), tick := Suc (tick s)\<rparr>))"

text \<open>A random value drawn in the process: it gets a number of its own.\<close>

definition draw :: "('e, nat) dbm" where
  "draw = (\<lambda>env s. (Inr (tick s), s\<lparr>tick := Suc (tick s)\<rparr>))"

text \<open>Loops: \<^verbatim>\<open>for x in xs\<close> with an accumulator, stopping at the first error.\<close>

fun foldM :: "('a \<Rightarrow> 'b \<Rightarrow> ('e, 'b) dbm) \<Rightarrow> 'a list \<Rightarrow> 'b \<Rightarrow> ('e, 'b) dbm" where
  "foldM f [] acc = retM acc"
| "foldM f (x # xs) acc = bindM (f x acc) (foldM f xs)"

subsection \<open>Statements\<close>

definition aborted_error :: DieselError where
  "aborted_error = DatabaseError OtherKind ''current transaction is aborted, commands ignored until end of transaction block''"

definition fail_stmt :: "DieselError \<Rightarrow> db \<Rightarrow> (DieselError + 'a) \<times> db" where
  "fail_stmt e s = (Inl e, s\<lparr>tx_aborted := tx_aborted s \<or> tx_depth s > 0\<rparr>)"

text \<open>One SQL statement: refused in an aborted transaction, by a server fault, or by a constraint.\<close>

definition stmt :: "(tables \<Rightarrow> DatabaseErrorKind + ('a \<times> tables)) \<Rightarrow> 'a query" where
  "stmt f = (\<lambda>env s.
     let s1 = s\<lparr>tick := Suc (tick s)\<rparr> in
     if tx_aborted s then (Inl aborted_error, s1)
     else (case env_fault env (tick s) of
        Some e \<Rightarrow> fail_stmt e s1
      | None \<Rightarrow> (case f (tabs s) of
           Inl k \<Rightarrow> fail_stmt (DatabaseError k ''constraint violation'') s1
         | Inr (x, t) \<Rightarrow> (Inr x, s1\<lparr>tabs := t\<rparr>))))"

definition select_stmt :: "(tables \<Rightarrow> 'a) \<Rightarrow> 'a query" where
  "select_stmt f = stmt (\<lambda>t. Inr (f t, t))"

text \<open>\<^verbatim>\<open>first\<close> and \<^verbatim>\<open>get_result\<close>: no row is the client-side error \<^verbatim>\<open>NotFound\<close>, which does not touch the
  transaction; \<^verbatim>\<open>optional()\<close> turns it into \<^verbatim>\<open>None\<close>.\<close>

definition expect_row :: "'a option \<Rightarrow> 'a query" where
  "expect_row r = (case r of None \<Rightarrow> throwM NotFoundError | Some x \<Rightarrow> retM x)"

definition optionalM :: "'a query \<Rightarrow> 'a option query" where
  "optionalM m = handleM m
     (\<lambda>e. if e = NotFoundError then retM None else throwM e) (\<lambda>x. retM (Some x))"

text \<open>\<^verbatim>\<open>.get_result(c)\<close> of an update: the first changed row, \<^verbatim>\<open>NotFound\<close> when there is none.\<close>

definition one_row :: "'r list \<Rightarrow> 'r option" where
  "one_row rs = (case rs of [] \<Rightarrow> None | r # _ \<Rightarrow> Some r)"

definition transaction :: "('e, 'a) dbm \<Rightarrow> (DieselError \<Rightarrow> 'e) \<Rightarrow> ('e, 'a) dbm" where
  "transaction m conv = (\<lambda>env s.
     (case select_stmt (\<lambda>_. ()) env s of
        (Inl e, s0) \<Rightarrow> (Inl (conv e), s0)
      | (Inr _, s0) \<Rightarrow>
        (case m env (s0\<lparr>tx_depth := Suc (tx_depth s0)\<rparr>) of
           (Inl e, s1) \<Rightarrow> (Inl e, s0\<lparr>tick := tick s1\<rparr>)
         | (Inr x, s1) \<Rightarrow>
             if tx_aborted s1 then
               (if tx_depth s0 = 0 then (Inr x, s0\<lparr>tick := tick s1\<rparr>)
                else (Inl (conv aborted_error), s0\<lparr>tick := tick s1\<rparr>))
             else (case env_fault env (tick s1) of
                 Some e \<Rightarrow> (Inl (conv e), s0\<lparr>tick := Suc (tick s1)\<rparr>)
               | None \<Rightarrow> (Inr x, s0\<lparr>tabs := tabs s1, tick := Suc (tick s1)\<rparr>)))))"

definition query_transaction :: "'a query \<Rightarrow> 'a query" where
  "query_transaction m = transaction m id"

definition api_transaction :: "'a api \<Rightarrow> 'a api" where
  "api_transaction m = transaction m api_error_of"

lemmas dbm_defs = retM_def throwM_def bindM_def handleM_def liftM_def resultM_def ignoreM_def
  utc_now_def expect_row_def optionalM_def

lemma foldM_Nil [simp]: "foldM f [] acc = retM acc"
  by simp

section \<open>Specifications\<close>

text \<open>
  \<open>spec env P m Q\<close>: from every database that satisfies \<open>P\<close>, \<open>m\<close> ends with a result and a database
  related by \<open>Q\<close>, whatever faults and clock readings \<open>env\<close> has. \<open>keeps env I m\<close> is the special case
  of an invariant over the tables.
\<close>

named_theorems keeps_rule \<open>compositional rules for invariants\<close>

definition spec :: "env \<Rightarrow> (db \<Rightarrow> bool) \<Rightarrow> ('e, 'a) dbm \<Rightarrow> ('e + 'a \<Rightarrow> db \<Rightarrow> bool) \<Rightarrow> bool" where
  "spec env P m Q \<longleftrightarrow> (\<forall>s. P s \<longrightarrow> (case m env s of (r, s') \<Rightarrow> Q r s'))"

definition keeps :: "env \<Rightarrow> (tables \<Rightarrow> bool) \<Rightarrow> ('e, 'a) dbm \<Rightarrow> bool" where
  "keeps env I m \<longleftrightarrow> (\<forall>s r s'. I (tabs s) \<longrightarrow> m env s = (r, s') \<longrightarrow> I (tabs s'))"

lemma keepsI: "(\<And>s r s'. I (tabs s) \<Longrightarrow> m env s = (r, s') \<Longrightarrow> I (tabs s')) \<Longrightarrow> keeps env I m"
  by (simp add: keeps_def)

lemma keepsD: "keeps env I m \<Longrightarrow> I (tabs s) \<Longrightarrow> m env s = (r, s') \<Longrightarrow> I (tabs s')"
  by (simp add: keeps_def)

lemma keeps_snd: "keeps env I m \<Longrightarrow> I (tabs s) \<Longrightarrow> I (tabs (snd (m env s)))"
  by (metis keepsD prod.collapse)

lemma keeps_ret [keeps_rule]: "keeps env I (retM x)"
  by (simp add: keeps_def retM_def)

lemma keeps_throw [keeps_rule]: "keeps env I (throwM e)"
  by (simp add: keeps_def throwM_def)

lemma keeps_bind [keeps_rule]:
  assumes "keeps env I m" and "\<And>x. keeps env I (f x)"
  shows "keeps env I (bindM m f)"
proof (rule keepsI)
  fix s r s'
  assume i: "I (tabs s)" and run: "bindM m f env s = (r, s')"
  obtain rm s1 where m: "m env s = (rm, s1)" by force
  with assms(1) i have i1: "I (tabs s1)" by (metis keepsD)
  show "I (tabs s')"
  proof (cases rm)
    case (Inl e)
    with run m i1 show ?thesis by (simp add: bindM_def)
  next
    case (Inr x)
    with run m have "f x env s1 = (r, s')" by (simp add: bindM_def)
    with assms(2) i1 show ?thesis by (metis keepsD)
  qed
qed

lemma keeps_handle [keeps_rule]:
  assumes "keeps env I m" and "\<And>e. keeps env I (h e)" and "\<And>x. keeps env I (f x)"
  shows "keeps env I (handleM m h f)"
proof (rule keepsI)
  fix s r s'
  assume i: "I (tabs s)" and run: "handleM m h f env s = (r, s')"
  obtain rm s1 where m: "m env s = (rm, s1)" by force
  with assms(1) i have i1: "I (tabs s1)" by (metis keepsD)
  show "I (tabs s')"
  proof (cases rm)
    case (Inl e)
    with run m have "h e env s1 = (r, s')" by (simp add: handleM_def)
    with assms(2) i1 show ?thesis by (metis keepsD)
  next
    case (Inr x)
    with run m have "f x env s1 = (r, s')" by (simp add: handleM_def)
    with assms(3) i1 show ?thesis by (metis keepsD)
  qed
qed

lemma keeps_lift [keeps_rule]: "keeps env I m \<Longrightarrow> keeps env I (liftM m)"
  unfolding liftM_def by (intro keeps_rule)

lemma keeps_result [keeps_rule]: "keeps env I (resultM r)"
  by (cases r) (simp_all add: resultM_def keeps_rule)

lemma keeps_ignore [keeps_rule]: "keeps env I m \<Longrightarrow> keeps env I (ignoreM m)"
  unfolding ignoreM_def by (intro keeps_rule)

lemma keeps_now [keeps_rule]: "keeps env I utc_now"
  by (auto simp: keeps_def utc_now_def)

lemma keeps_yield [keeps_rule]:
  "(\<And>n t. I t \<Longrightarrow> I (env_other env n t)) \<Longrightarrow> keeps env I yieldM"
  by (auto simp: keeps_def yieldM_def)

lemma keeps_foldM [keeps_rule]:
  "(\<And>x acc. keeps env I (f x acc)) \<Longrightarrow> keeps env I (foldM f xs acc)"
  by (induction xs arbitrary: acc) (simp_all add: keeps_rule)

lemma keeps_stmt:
  "(\<And>t x t'. I t \<Longrightarrow> f t = Inr (x, t') \<Longrightarrow> I t') \<Longrightarrow> keeps env I (stmt f)"
  unfolding keeps_def stmt_def fail_stmt_def Let_def
  by (auto split: option.splits if_splits sum.splits prod.splits)

lemma keeps_select [keeps_rule]: "keeps env I (select_stmt f)"
  unfolding select_stmt_def by (rule keeps_stmt) simp

lemma keeps_expect [keeps_rule]: "keeps env I (expect_row r)"
  by (cases r) (simp_all add: expect_row_def keeps_rule)

lemma keeps_optional [keeps_rule]: "keeps env I m \<Longrightarrow> keeps env I (optionalM m)"
  unfolding optionalM_def by (intro keeps_rule) (auto simp: keeps_rule)

lemma select_stmt_tabs: "select_stmt f env s = (r, s') \<Longrightarrow> tabs s' = tabs s"
  unfolding select_stmt_def stmt_def fail_stmt_def Let_def
  by (auto split: option.splits if_splits)

lemma transaction_outcome:
  assumes "transaction m conv env s = (r, s')"
  obtains (rolled_back) "tabs s' = tabs s"
    | (committed) x s0 s1 where "r = Inr x" and "tabs s0 = tabs s"
        and "m env s0 = (Inr x, s1)" and "tabs s' = tabs s1"
proof -
  obtain r0 s0 where sel: "select_stmt (\<lambda>_. ()) env s = (r0, s0)" by force
  have t0: "tabs s0 = tabs s" using select_stmt_tabs [OF sel] .
  obtain rm s1 where run: "m env (s0\<lparr>tx_depth := Suc (tx_depth s0)\<rparr>) = (rm, s1)" by force
  show ?thesis
  proof (cases "\<exists>x. rm = Inr x \<and> r = Inr x \<and> tabs s' = tabs s1")
    case True
    with run t0 committed [of _ "s0\<lparr>tx_depth := Suc (tx_depth s0)\<rparr>" s1] show ?thesis by auto
  next
    case False
    with assms sel run t0 rolled_back show ?thesis
      by (auto simp: transaction_def split: sum.splits if_splits option.splits)
  qed
qed

lemma keeps_transaction [keeps_rule]: "keeps env I m \<Longrightarrow> keeps env I (transaction m conv)"
proof (rule keepsI)
  fix s r s'
  assume k: "keeps env I m" and i: "I (tabs s)" and t: "transaction m conv env s = (r, s')"
  from t show "I (tabs s')"
  proof (cases rule: transaction_outcome)
    case rolled_back
    with i show ?thesis by simp
  next
    case (committed x s0 s1)
    with k i show ?thesis by (metis keepsD)
  qed
qed

lemma keeps_query_transaction [keeps_rule]: "keeps env I m \<Longrightarrow> keeps env I (query_transaction m)"
  unfolding query_transaction_def by (rule keeps_transaction)

lemma keeps_api_transaction [keeps_rule]: "keeps env I m \<Longrightarrow> keeps env I (api_transaction m)"
  unfolding api_transaction_def by (rule keeps_transaction)

lemma keeps_if [keeps_rule]:
  "(b \<Longrightarrow> keeps env I m) \<Longrightarrow> (\<not> b \<Longrightarrow> keeps env I n) \<Longrightarrow> keeps env I (if b then m else n)"
  by simp

lemma keeps_case_option [keeps_rule]:
  "(r = None \<Longrightarrow> keeps env I m) \<Longrightarrow> (\<And>x. r = Some x \<Longrightarrow> keeps env I (f x)) \<Longrightarrow>
   keeps env I (case r of None \<Rightarrow> m | Some x \<Rightarrow> f x)"
  by (cases r) simp_all

lemma keeps_case_sum [keeps_rule]:
  "(\<And>e. r = Inl e \<Longrightarrow> keeps env I (h e)) \<Longrightarrow> (\<And>x. r = Inr x \<Longrightarrow> keeps env I (f x)) \<Longrightarrow>
   keeps env I (case r of Inl e \<Rightarrow> h e | Inr x \<Rightarrow> f x)"
  by (cases r) simp_all

lemma keeps_case_prod [keeps_rule]:
  "(\<And>a b. r = (a, b) \<Longrightarrow> keeps env I (f a b)) \<Longrightarrow> keeps env I (case r of (a, b) \<Rightarrow> f a b)"
  by (cases r) simp

lemma keeps_let [keeps_rule]: "keeps env I (f x) \<Longrightarrow> keeps env I (let y = x in f y)"
  by (simp add: Let_def)

section \<open>Evaluation without faults\<close>

text \<open>
  \<open>quiet env\<close>: the server refuses nothing. From a clean state (no open transaction) statements
  then do exactly what their translation says; these equations evaluate concrete runs.
\<close>

definition quiet :: "env \<Rightarrow> bool" where
  "quiet env \<longleftrightarrow> (\<forall>n. env_fault env n = None)"

lemma retM_run [simp]: "retM x env s = (Inr x, s)"
  by (simp add: retM_def)

lemma throwM_run [simp]: "throwM e env s = (Inl e, s)"
  by (simp add: throwM_def)

lemma utc_now_run [simp]:
  "utc_now env s = (Inr (env_clock env (tick s)), s\<lparr>tick := Suc (tick s)\<rparr>)"
  by (simp add: utc_now_def)

lemma bindM_Inr: "m env s = (Inr x, s') \<Longrightarrow> bindM m f env s = f x env s'"
  by (simp add: bindM_def)

lemma bindM_Inl: "m env s = (Inl e, s') \<Longrightarrow> bindM m f env s = (Inl e, s')"
  by (simp add: bindM_def)

lemma bindM_result_Inr:
  assumes "bindM m f env s = (Inr y, s')"
  obtains x s1 where "m env s = (Inr x, s1)" and "f x env s1 = (Inr y, s')"
  using assms by (auto simp: bindM_def split: prod.splits sum.splits)

lemma handleM_Inr: "m env s = (Inr x, s') \<Longrightarrow> handleM m h f env s = f x env s'"
  by (simp add: handleM_def)

lemma handleM_Inl: "m env s = (Inl e, s') \<Longrightarrow> handleM m h f env s = h e env s'"
  by (simp add: handleM_def)

lemma stmt_run:
  "tx_aborted s = False \<Longrightarrow> env_fault env (tick s) = None \<Longrightarrow> f (tabs s) = Inr (x, t) \<Longrightarrow>
   stmt f env s = (Inr x, s\<lparr>tick := Suc (tick s), tabs := t\<rparr>)"
  by (simp add: stmt_def Let_def)

text \<open>A statement that returns a result really ran, on the tables it found.\<close>

lemma stmt_Inr:
  assumes "stmt f env s = (Inr x, s')"
  shows "\<not> tx_aborted s \<and> f (tabs s) = Inr (x, tabs s') \<and> tx_aborted s' = tx_aborted s
    \<and> tx_depth s' = tx_depth s"
  using assms unfolding stmt_def fail_stmt_def Let_def
  by (auto split: option.splits if_splits sum.splits)

lemma stmt_Inl_tabs: "stmt f env s = (Inl e, s') \<Longrightarrow> tabs s' = tabs s"
  unfolding stmt_def fail_stmt_def Let_def
  by (auto split: option.splits if_splits sum.splits)

lemma select_stmt_Inr: "select_stmt f env s = (Inr x, s') \<Longrightarrow> x = f (tabs s) \<and> tabs s' = tabs s"
  unfolding select_stmt_def by (drule stmt_Inr) auto

end
