(* ===== verification/Schema.thy ===== *)
theory Schema
  imports Database "HOL-Library.Product_Lexorder" "HOL-Library.List_Lexorder"
    "HOL-Library.Char_ord"
begin

text \<open>
  The statements Diesel builds (insert, update, upsert, delete) over the tables, and the constraints
  that the migrations under \<^verbatim>\<open>src/migrations\<close> put on them: unique indexes, CHECK constraints, foreign
  keys with their ON DELETE actions, and the widths of \<^verbatim>\<open>varchar\<close> columns. A constraint is a
  function of the tables and the new row that names the violation, if any; a row is compared with the
  other rows, those with a different key.
\<close>

section \<open>Statements\<close>

fun first_violation :: "(bool \<times> DatabaseErrorKind) list \<Rightarrow> DatabaseErrorKind option" where
  "first_violation [] = None"
| "first_violation ((b, k) # xs) = (if b then Some k else first_violation xs)"

definition insert_stmt ::
    "(tables \<Rightarrow> 'r table) \<Rightarrow> (('r table \<Rightarrow> 'r table) \<Rightarrow> tables \<Rightarrow> tables) \<Rightarrow>
     (tables \<Rightarrow> 'r \<Rightarrow> DatabaseErrorKind option) \<Rightarrow> (i32 \<Rightarrow> 'r) \<Rightarrow> 'r query" where
  "insert_stmt get upd chk mk = stmt (\<lambda>t.
     let r = mk (seq (get t)) in
     case chk t r of
       Some k \<Rightarrow> Inl k
     | None \<Rightarrow> Inr (r, upd (\<lambda>tb. tb\<lparr>rows := rows tb @ [r], seq := seq tb + 1\<rparr>) t))"

definition update_stmt ::
    "(tables \<Rightarrow> 'r table) \<Rightarrow> (('r table \<Rightarrow> 'r table) \<Rightarrow> tables \<Rightarrow> tables) \<Rightarrow>
     (tables \<Rightarrow> 'r \<Rightarrow> DatabaseErrorKind option) \<Rightarrow> ('r \<Rightarrow> bool) \<Rightarrow> ('r \<Rightarrow> 'r) \<Rightarrow> 'r list query" where
  "update_stmt get upd chk p f = stmt (\<lambda>t.
     let changed = map f (filter p (rows (get t)));
         t' = upd (\<lambda>tb. tb\<lparr>rows := update_rows p f (rows tb)\<rparr>) t in
     case List.map_filter (chk t') changed of
       k # _ \<Rightarrow> Inl k
     | [] \<Rightarrow> Inr (changed, t'))"

definition upsert_stmt ::
    "(tables \<Rightarrow> 'r table) \<Rightarrow> (('r table \<Rightarrow> 'r table) \<Rightarrow> tables \<Rightarrow> tables) \<Rightarrow>
     (tables \<Rightarrow> 'r \<Rightarrow> DatabaseErrorKind option) \<Rightarrow> ('r \<Rightarrow> bool) \<Rightarrow> (i32 \<Rightarrow> 'r) \<Rightarrow> ('r \<Rightarrow> 'r) \<Rightarrow>
     'r query" where
  "upsert_stmt get upd chk conflict mk f = stmt (\<lambda>t.
     case first_row conflict (rows (get t)) of
       None \<Rightarrow>
         (let r = mk (seq (get t)) in
          case chk t r of
            Some k \<Rightarrow> Inl k
          | None \<Rightarrow> Inr (r, upd (\<lambda>tb. tb\<lparr>rows := rows tb @ [r], seq := seq tb + 1\<rparr>) t))
     | Some r0 \<Rightarrow>
         (let t' = upd (\<lambda>tb. tb\<lparr>rows := update_rows conflict f (rows tb)\<rparr>) t in
          case chk t' (f r0) of
            Some k \<Rightarrow> Inl k
          | None \<Rightarrow> Inr (f r0, t')))"

text \<open>\<^verbatim>\<open>insert_into(t).values(vec)\<close>: one statement, all rows or none.\<close>

fun insert_rows ::
    "(tables \<Rightarrow> 'r table) \<Rightarrow> (('r table \<Rightarrow> 'r table) \<Rightarrow> tables \<Rightarrow> tables) \<Rightarrow>
     (tables \<Rightarrow> 'r \<Rightarrow> DatabaseErrorKind option) \<Rightarrow> (i32 \<Rightarrow> 'r) list \<Rightarrow> tables \<Rightarrow>
     DatabaseErrorKind + ('r list \<times> tables)" where
  "insert_rows get upd chk [] t = Inr ([], t)"
| "insert_rows get upd chk (mk # mks) t =
     (let r = mk (seq (get t)) in
      case chk t r of
        Some k \<Rightarrow> Inl k
      | None \<Rightarrow>
         (case insert_rows get upd chk mks
                 (upd (\<lambda>tb. tb\<lparr>rows := rows tb @ [r], seq := seq tb + 1\<rparr>) t) of
            Inl k \<Rightarrow> Inl k
          | Inr (rs, t') \<Rightarrow> Inr (r # rs, t')))"

text \<open>A delete: refused while a row that restricts it exists, otherwise followed by its ON DELETE
  actions; it returns the deleted rows.\<close>

definition delete_stmt ::
    "(tables \<Rightarrow> 'r table) \<Rightarrow> (('r table \<Rightarrow> 'r table) \<Rightarrow> tables \<Rightarrow> tables) \<Rightarrow>
     ('r list \<Rightarrow> tables \<Rightarrow> bool) \<Rightarrow> ('r list \<Rightarrow> tables \<Rightarrow> tables) \<Rightarrow> ('r \<Rightarrow> bool) \<Rightarrow> 'r list query" where
  "delete_stmt get upd restricted on_delete p = stmt (\<lambda>t.
     let gone = filter p (rows (get t)) in
     if restricted gone t then Inl ForeignKeyViolation
     else Inr (gone, on_delete gone (upd (\<lambda>tb. tb\<lparr>rows := delete_rows p (rows tb)\<rparr>) t)))"

lemma keeps_insert_stmt:
  assumes "\<And>t r. I t \<Longrightarrow> r = mk (seq (get t)) \<Longrightarrow> chk t r = None \<Longrightarrow>
     I (upd (\<lambda>tb. tb\<lparr>rows := rows tb @ [r], seq := seq tb + 1\<rparr>) t)"
  shows "keeps env I (insert_stmt get upd chk mk)"
  unfolding insert_stmt_def
  by (rule keeps_stmt) (auto simp: Let_def assms split: option.splits)

lemma keeps_update_stmt:
  assumes "\<And>t. I t \<Longrightarrow> I (upd (\<lambda>tb. tb\<lparr>rows := update_rows p f (rows tb)\<rparr>) t)"
  shows "keeps env I (update_stmt get upd chk p f)"
  unfolding update_stmt_def
  by (rule keeps_stmt) (auto simp: Let_def assms split: list.splits)

lemma keeps_upsert_stmt:
  assumes "\<And>t r. I t \<Longrightarrow> r = mk (seq (get t)) \<Longrightarrow> chk t r = None \<Longrightarrow>
     first_row conflict (rows (get t)) = None \<Longrightarrow>
     I (upd (\<lambda>tb. tb\<lparr>rows := rows tb @ [r], seq := seq tb + 1\<rparr>) t)"
    and "\<And>t. I t \<Longrightarrow> I (upd (\<lambda>tb. tb\<lparr>rows := update_rows conflict f (rows tb)\<rparr>) t)"
  shows "keeps env I (upsert_stmt get upd chk conflict mk f)"
  unfolding upsert_stmt_def
  by (rule keeps_stmt) (auto simp: Let_def assms split: option.splits)

lemma keeps_delete_stmt:
  assumes "\<And>t gone. I t \<Longrightarrow> gone = filter p (rows (get t)) \<Longrightarrow> \<not> restricted gone t \<Longrightarrow>
     I (on_delete gone (upd (\<lambda>tb. tb\<lparr>rows := delete_rows p (rows tb)\<rparr>) t))"
  shows "keeps env I (delete_stmt get upd restricted on_delete p)"
  unfolding delete_stmt_def
  by (rule keeps_stmt) (auto simp: Let_def assms split: if_splits)

lemma insert_rows_keeps:
  assumes "\<And>t r. I t \<Longrightarrow> I (upd (\<lambda>tb. tb\<lparr>rows := rows tb @ [r], seq := seq tb + 1\<rparr>) t)"
  shows "I t \<Longrightarrow> insert_rows get upd chk mks t = Inr (rs, t') \<Longrightarrow> I t'"
proof (induction mks arbitrary: t rs)
  case Nil
  then show ?case by simp
next
  case (Cons mk mks)
  let ?r = "mk (seq (get t))"
  have step: "I (upd (\<lambda>tb. tb\<lparr>rows := rows tb @ [?r], seq := seq tb + 1\<rparr>) t)"
    by (rule assms) (rule Cons.prems)
  from Cons.prems(2) obtain rs' where
    "insert_rows get upd chk mks
       (upd (\<lambda>tb. tb\<lparr>rows := rows tb @ [?r], seq := seq tb + 1\<rparr>) t) = Inr (rs', t')"
    by (auto simp: Let_def split: option.splits sum.splits)
  with step show ?case by (rule Cons.IH)
qed

lemma keeps_insert_rows:
  assumes "\<And>t r. I t \<Longrightarrow> I (upd (\<lambda>tb. tb\<lparr>rows := rows tb @ [r], seq := seq tb + 1\<rparr>) t)"
  shows "keeps env I (stmt (insert_rows get upd chk mks))"
proof (rule keeps_stmt)
  fix t x t' assume "I t" and "insert_rows get upd chk mks t = Inr (x, t')"
  then show "I t'" by (rule insert_rows_keeps [where I = I, rotated]) (rule assms)
qed

lemma insert_stmt_Inr:
  assumes "insert_stmt get upd chk mk env s = (Inr r, s')"
  shows "r = mk (seq (get (tabs s))) \<and> chk (tabs s) r = None
    \<and> tabs s' = upd (\<lambda>tb. tb\<lparr>rows := rows tb @ [r], seq := seq tb + 1\<rparr>) (tabs s)"
  using assms unfolding insert_stmt_def
  by (auto dest!: stmt_Inr simp: Let_def split: option.splits)

lemma update_stmt_Inr:
  assumes "update_stmt get upd chk p f env s = (Inr rs, s')"
  shows "rs = map f (filter p (rows (get (tabs s))))
    \<and> tabs s' = upd (\<lambda>tb. tb\<lparr>rows := update_rows p f (rows tb)\<rparr>) (tabs s)"
  using assms unfolding update_stmt_def
  by (auto dest!: stmt_Inr simp: Let_def split: list.splits)

lemma delete_stmt_Inr:
  assumes "delete_stmt get upd restricted on_delete p env s = (Inr gone, s')"
  shows "gone = filter p (rows (get (tabs s)))
    \<and> tabs s' = on_delete gone (upd (\<lambda>tb. tb\<lparr>rows := delete_rows p (rows tb)\<rparr>) (tabs s))"
  using assms unfolding delete_stmt_def
  by (auto dest!: stmt_Inr simp: Let_def split: if_splits)

section \<open>Column types\<close>

text \<open>\<^verbatim>\<open>varchar(n)\<close> counts characters, not bytes: the bytes that are not UTF-8 continuation bytes.\<close>

definition char_count :: "string \<Rightarrow> nat" where
  "char_count s = length (filter (\<lambda>c. \<not> (128 \<le> (of_char c :: nat) \<and> (of_char c :: nat) < 192)) s)"

definition too_long :: "nat \<Rightarrow> string \<Rightarrow> bool" where
  "too_long n s \<longleftrightarrow> n < char_count s"

definition too_long_opt :: "nat \<Rightarrow> string option \<Rightarrow> bool" where
  "too_long_opt n v = (case v of None \<Rightarrow> False | Some s \<Rightarrow> too_long n s)"

lemma char_count_le: "char_count s \<le> length s"
  by (simp add: char_count_def)

text \<open>A length accepted by the validators, which count bytes, always fits the column.\<close>

lemma max_len_fits: "length s \<le> n \<Longrightarrow> \<not> too_long n s"
  using char_count_le [of s] by (simp add: too_long_def)

lemma max_optional_len_fits: "(\<forall>x. v = Some x \<longrightarrow> length x \<le> n) \<Longrightarrow> \<not> too_long_opt n v"
  by (auto simp: too_long_opt_def max_len_fits split: option.splits)

text \<open>Keys of ORDER BY: ascending puts NULL last, descending puts NULL first.\<close>

definition nulls_last :: "utc option \<Rightarrow> int \<times> int" where
  "nulls_last v = (case v of None \<Rightarrow> (1, 0) | Some x \<Rightarrow> (0, x))"

definition desc_nulls_first :: "utc option \<Rightarrow> int \<times> int" where
  "desc_nulls_first v = (case v of None \<Rightarrow> (0, 0) | Some x \<Rightarrow> (1, - x))"

definition has_ref :: "('r \<Rightarrow> i32) \<Rightarrow> 'r table \<Rightarrow> i32 \<Rightarrow> bool" where
  "has_ref key tb i = list_ex (\<lambda>r. key r = i) (rows tb)"

definition dangling :: "('r \<Rightarrow> i32) \<Rightarrow> 'r table \<Rightarrow> i32 option \<Rightarrow> bool" where
  "dangling key tb v = (case v of None \<Rightarrow> False | Some i \<Rightarrow> \<not> has_ref key tb i)"

section \<open>Constraints of the tables\<close>

definition scope_check :: "string \<Rightarrow> i32 option \<Rightarrow> i32 option \<Rightarrow> bool" where
  "scope_check scope_type owner maint \<longleftrightarrow>
     (scope_type = ''global'' \<and> owner = None \<and> maint = None)
     \<or> (scope_type = ''user'' \<and> owner \<noteq> None \<and> maint = None)
     \<or> (scope_type = ''maintainer'' \<and> owner = None \<and> maint \<noteq> None)"

definition connector_violation :: "tables \<Rightarrow> Connector \<Rightarrow> DatabaseErrorKind option" where
  "connector_violation t c = first_violation
     [(too_long 64 (cn_source c) \<or> too_long 64 (cn_kind c) \<or> too_long 128 (cn_display_name c)
        \<or> too_long 32 (cn_status c) \<or> too_long 16 (cn_scope_type c), OtherKind),
      (cn_status c \<notin> set [''active'', ''paused'', ''error''], CheckViolation),
      (\<not> scope_check (cn_scope_type c) (cn_owner_user_id c) (cn_maintainer_id c), CheckViolation),
      (list_ex (\<lambda>r. cn_id r \<noteq> cn_id c \<and> cn_source r = cn_source c) (rows (connectors t)),
         UniqueViolation),
      (dangling us_id (users t) (cn_owner_user_id c), ForeignKeyViolation),
      (dangling mt_id (maintainers t) (cn_maintainer_id c), ForeignKeyViolation)]"

definition config_violation :: "tables \<Rightarrow> ConnectorConfig \<Rightarrow> DatabaseErrorKind option" where
  "config_violation t c = first_violation
     [(too_long 64 (cc_source c) \<or> too_long 64 (cc_target c)
        \<or> too_long_opt 128 (cc_schedule_cron c), OtherKind),
      (cc_target c \<notin> set connector_targets, CheckViolation),
      (list_ex (\<lambda>r. cc_id r \<noteq> cc_id c \<and> cc_source r = cc_source c) (rows (connector_configs t)),
         UniqueViolation),
      (\<not> list_ex (\<lambda>r. cn_source r = cc_source c) (rows (connectors t)), ForeignKeyViolation),
      (dangling cr_id (connector_runs t) (cc_last_scheduled_run_id c), ForeignKeyViolation)]"

definition run_statuses :: "string list" where
  "run_statuses = [''queued'', ''running'', ''success'', ''partial_success'', ''failed'', ''cancelled'']"

definition run_is_active :: "ConnectorRun \<Rightarrow> bool" where
  "run_is_active r \<longleftrightarrow> cr_status r \<in> set [''queued'', ''running'']"

definition run_violation :: "tables \<Rightarrow> ConnectorRun \<Rightarrow> DatabaseErrorKind option" where
  "run_violation t r = first_violation
     [(too_long 64 (cr_source r) \<or> too_long 64 (cr_target r) \<or> too_long 32 (cr_status r)
        \<or> too_long 32 (cr_trigger r) \<or> too_long_opt 128 (cr_worker_id r), OtherKind),
      (cr_status r \<notin> set run_statuses, CheckViolation),
      (cr_trigger r \<notin> set [''manual'', ''scheduled'', ''import'', ''retry''], CheckViolation),
      (cr_attempt_count r < 0 \<or> cr_max_attempts r \<le> 0 \<or> cr_attempt_count r > cr_max_attempts r
        \<or> cr_archived_count r < 0, CheckViolation),
      (cr_parent_run_id r \<noteq> None \<and> run_is_active r
        \<and> list_ex (\<lambda>q. cr_id q \<noteq> cr_id r \<and> cr_parent_run_id q = cr_parent_run_id r
             \<and> run_is_active q) (rows (connector_runs t)), UniqueViolation),
      (dangling cr_id (connector_runs t) (cr_parent_run_id r), ForeignKeyViolation)]"

definition run_item_violation :: "tables \<Rightarrow> ConnectorRunItem \<Rightarrow> DatabaseErrorKind option" where
  "run_item_violation t i = first_violation
     [(too_long 64 (ri_source i) \<or> too_long 64 (ri_target i) \<or> too_long_opt 128 (ri_external_id i)
        \<or> too_long 32 (ri_status i), OtherKind),
      (ri_status i \<notin> set [''imported'', ''failed''], CheckViolation),
      (\<not> has_ref cr_id (connector_runs t) (ri_connector_run_id i), ForeignKeyViolation)]"

definition run_item_error_violation ::
    "tables \<Rightarrow> ConnectorRunItemError \<Rightarrow> DatabaseErrorKind option" where
  "run_item_error_violation t i = first_violation
     [(too_long 64 (re_source i) \<or> too_long 64 (re_target i) \<or> too_long_opt 128 (re_external_id i),
         OtherKind),
      (\<not> has_ref cr_id (connector_runs t) (re_connector_run_id i), ForeignKeyViolation)]"

definition worker_violation :: "tables \<Rightarrow> ConnectorWorker \<Rightarrow> DatabaseErrorKind option" where
  "worker_violation t w = first_violation
     [(too_long 128 (cw_worker_id w) \<or> too_long 32 (cw_status w), OtherKind),
      (list_ex (\<lambda>r. cw_id r \<noteq> cw_id w \<and> cw_worker_id r = cw_worker_id w)
         (rows (connector_workers t)), UniqueViolation),
      (dangling cr_id (connector_runs t) (cw_current_run_id w), ForeignKeyViolation)]"

definition maintenance_violation :: "tables \<Rightarrow> MaintenanceRun \<Rightarrow> DatabaseErrorKind option" where
  "maintenance_violation t m = first_violation
     [(too_long 64 (mr_task m) \<or> too_long 32 (mr_status m) \<or> too_long_opt 128 (mr_worker_id m),
         OtherKind)]"

definition audit_violation :: "tables \<Rightarrow> AuditLog \<Rightarrow> DatabaseErrorKind option" where
  "audit_violation t a = first_violation
     [(too_long 64 (al_action a) \<or> too_long 64 (al_resource_type a)
        \<or> too_long_opt 128 (al_resource_id a), OtherKind),
      (dangling us_id (users t) (al_actor_user_id a), ForeignKeyViolation)]"

definition record_scope_check :: "i32 option \<Rightarrow> i32 option \<Rightarrow> bool" where
  "record_scope_check owner maint \<longleftrightarrow> \<not> (owner \<noteq> None \<and> maint \<noteq> None)"

definition work_card_violation :: "tables \<Rightarrow> WorkCard \<Rightarrow> DatabaseErrorKind option" where
  "work_card_violation t w = first_violation
     [(too_long 64 (wc_source w) \<or> too_long_opt 128 (wc_external_id w) \<or> too_long 255 (wc_title w)
        \<or> too_long 32 (wc_status w) \<or> too_long 32 (wc_priority w)
        \<or> too_long_opt 128 (wc_assignee w) \<or> too_long_opt 128 (wc_project w)
        \<or> too_long_opt 128 (wc_work_item_type w) \<or> too_long_opt 512 (wc_assignee_source_id w)
        \<or> too_long_opt 2048 (wc_url w), OtherKind),
      (wc_status w \<notin> set [''todo'', ''in_progress'', ''blocked'', ''done''], CheckViolation),
      (wc_priority w \<notin> set [''low'', ''medium'', ''high'', ''urgent''], CheckViolation),
      (\<not> record_scope_check (wc_owner_user_id w) (wc_maintainer_id w), CheckViolation),
      (wc_external_id w \<noteq> None
        \<and> list_ex (\<lambda>r. wc_id r \<noteq> wc_id w \<and> wc_source r = wc_source w
             \<and> wc_external_id r = wc_external_id w) (rows (work_cards t)), UniqueViolation),
      (dangling us_id (users t) (wc_assignee_user_id w), ForeignKeyViolation),
      (dangling cn_id (connectors t) (wc_connector_id w), ForeignKeyViolation),
      (dangling us_id (users t) (wc_owner_user_id w), ForeignKeyViolation),
      (dangling mt_id (maintainers t) (wc_maintainer_id w), ForeignKeyViolation),
      (dangling cr_id (connector_runs t) (wc_last_seen_run_id w), ForeignKeyViolation)]"

definition notification_violation :: "tables \<Rightarrow> Notification \<Rightarrow> DatabaseErrorKind option" where
  "notification_violation t n = first_violation
     [(too_long 64 (nt_source n) \<or> too_long_opt 128 (nt_external_id n) \<or> too_long 255 (nt_title n)
        \<or> too_long 32 (nt_severity n) \<or> too_long_opt 2048 (nt_url n), OtherKind),
      (nt_severity n \<notin> set [''info'', ''warning'', ''critical''], CheckViolation),
      (\<not> record_scope_check (nt_owner_user_id n) (nt_maintainer_id n), CheckViolation),
      (nt_external_id n \<noteq> None
        \<and> list_ex (\<lambda>r. nt_id r \<noteq> nt_id n \<and> nt_source r = nt_source n
             \<and> nt_external_id r = nt_external_id n) (rows (notifications t)), UniqueViolation),
      (dangling cn_id (connectors t) (nt_connector_id n), ForeignKeyViolation),
      (dangling us_id (users t) (nt_owner_user_id n), ForeignKeyViolation),
      (dangling mt_id (maintainers t) (nt_maintainer_id n), ForeignKeyViolation),
      (dangling cr_id (connector_runs t) (nt_last_seen_run_id n), ForeignKeyViolation)]"

definition calendar_violation :: "tables \<Rightarrow> CalendarEvent \<Rightarrow> DatabaseErrorKind option" where
  "calendar_violation t e = first_violation
     [(too_long 64 (ce_source e) \<or> too_long 128 (ce_external_id e) \<or> too_long 256 (ce_title e)
        \<or> too_long_opt 256 (ce_organizer e) \<or> too_long_opt 256 (ce_location e)
        \<or> too_long_opt 128 (ce_time_zone e) \<or> too_long_opt 2048 (ce_web_url e)
        \<or> too_long_opt 2048 (ce_join_url e), OtherKind),
      (ce_ends_at e < ce_starts_at e, CheckViolation),
      (\<not> record_scope_check (ce_owner_user_id e) (ce_maintainer_id e), CheckViolation),
      (list_ex (\<lambda>r. ce_id r \<noteq> ce_id e \<and> ce_source r = ce_source e
             \<and> ce_external_id r = ce_external_id e) (rows (calendar_events t)), UniqueViolation),
      (dangling cn_id (connectors t) (ce_connector_id e), ForeignKeyViolation),
      (dangling us_id (users t) (ce_owner_user_id e), ForeignKeyViolation),
      (dangling mt_id (maintainers t) (ce_maintainer_id e), ForeignKeyViolation),
      (dangling cr_id (connector_runs t) (ce_last_seen_run_id e), ForeignKeyViolation)]"

definition service_violation :: "tables \<Rightarrow> Service \<Rightarrow> DatabaseErrorKind option" where
  "service_violation t v = first_violation
     [(too_long 64 (sv_source v) \<or> too_long_opt 128 (sv_external_id v) \<or> too_long 64 (sv_slug v)
        \<or> too_long 128 (sv_name v) \<or> too_long 32 (sv_lifecycle_status v)
        \<or> too_long 32 (sv_health_status v) \<or> too_long_opt 2048 (sv_repository_url v)
        \<or> too_long_opt 2048 (sv_dashboard_url v) \<or> too_long_opt 2048 (sv_runbook_url v), OtherKind),
      (sv_lifecycle_status v \<notin> set [''active'', ''deprecated'', ''archived''], CheckViolation),
      (sv_health_status v \<notin> set [''healthy'', ''degraded'', ''down'', ''unknown''], CheckViolation),
      (sv_external_id v \<noteq> None
        \<and> list_ex (\<lambda>r. sv_id r \<noteq> sv_id v \<and> sv_source r = sv_source v
             \<and> sv_external_id r = sv_external_id v) (rows (services t)), UniqueViolation),
      (\<not> has_ref mt_id (maintainers t) (sv_maintainer_id v), ForeignKeyViolation)]"

definition health_check_violation :: "tables \<Rightarrow> ServiceHealthCheck \<Rightarrow> DatabaseErrorKind option" where
  "health_check_violation t h = first_violation
     [(too_long 64 (hc_source h) \<or> too_long_opt 128 (hc_external_id h)
        \<or> too_long 32 (hc_health_status h) \<or> too_long_opt 32 (hc_previous_health_status h), OtherKind),
      (hc_health_status h \<notin> set [''healthy'', ''degraded'', ''down'', ''unknown''], CheckViolation),
      (case hc_previous_health_status h of
          None \<Rightarrow> False
        | Some p \<Rightarrow> p \<notin> set [''healthy'', ''degraded'', ''down'', ''unknown''], CheckViolation),
      (\<not> has_ref sv_id (services t) (hc_service_id h), ForeignKeyViolation),
      (dangling cr_id (connector_runs t) (hc_connector_run_id h), ForeignKeyViolation)]"

definition session_violation :: "tables \<Rightarrow> Session \<Rightarrow> DatabaseErrorKind option" where
  "session_violation t x = first_violation
     [(too_long 64 (se_token_hash x) \<or> too_long 32 (se_auth_method x)
        \<or> too_long_opt 64 (se_ip_address x) \<or> too_long_opt 512 (se_user_agent x), OtherKind),
      (se_auth_method x \<notin> set [''password'', ''entra''], CheckViolation),
      (list_ex (\<lambda>r. se_id r \<noteq> se_id x \<and> se_token_hash r = se_token_hash x) (rows (sessions t)),
         UniqueViolation),
      (\<not> has_ref us_id (users t) (se_user_id x), ForeignKeyViolation)]"

definition throttle_violation :: "tables \<Rightarrow> LoginThrottleBucket \<Rightarrow> DatabaseErrorKind option" where
  "throttle_violation t b = first_violation
     [(too_long 64 (lt_bucket_hash b), OtherKind), (lt_failure_count b < 0, CheckViolation)]"

definition oidc_violation :: "tables \<Rightarrow> OidcLoginTransaction \<Rightarrow> DatabaseErrorKind option" where
  "oidc_violation t x = first_violation
     [(too_long 64 (ot_state_hash x) \<or> too_long 64 (ot_browser_binding_hash x)
        \<or> too_long 128 (ot_nonce x) \<or> too_long 512 (ot_return_to x), OtherKind),
      (list_ex (\<lambda>r. ot_state_hash r = ot_state_hash x) (rows (oidc_login_transactions t)),
         UniqueViolation)]"

definition receipt_violation :: "tables \<Rightarrow> NotificationReceipt \<Rightarrow> DatabaseErrorKind option" where
  "receipt_violation t r = first_violation
     [(list_ex (\<lambda>q. nr_id q \<noteq> nr_id r \<and> nr_notification_id q = nr_notification_id r
          \<and> nr_user_id q = nr_user_id r) (rows (notification_receipts t)), UniqueViolation),
      (\<not> has_ref nt_id (notifications t) (nr_notification_id r), ForeignKeyViolation),
      (\<not> has_ref us_id (users t) (nr_user_id r), ForeignKeyViolation)]"

section \<open>ON DELETE actions\<close>

definition no_restriction :: "'r list \<Rightarrow> tables \<Rightarrow> bool" where
  "no_restriction gone t = False"

definition no_action :: "'r list \<Rightarrow> tables \<Rightarrow> tables" where
  "no_action gone t = t"

definition null_if_in :: "i32 set \<Rightarrow> i32 option \<Rightarrow> i32 option" where
  "null_if_in ids v = (case v of Some i \<Rightarrow> if i \<in> ids then None else v | None \<Rightarrow> None)"

definition map_rows :: "('r \<Rightarrow> 'r) \<Rightarrow> 'r table \<Rightarrow> 'r table" where
  "map_rows f tb = tb\<lparr>rows := map f (rows tb)\<rparr>"

definition filter_rows :: "('r \<Rightarrow> bool) \<Rightarrow> 'r table \<Rightarrow> 'r table" where
  "filter_rows p tb = tb\<lparr>rows := filter p (rows tb)\<rparr>"

text \<open>Deleting runs: their items and item errors go with them; every other reference becomes NULL.\<close>

definition runs_on_delete :: "ConnectorRun list \<Rightarrow> tables \<Rightarrow> tables" where
  "runs_on_delete gone t =
     (let ids = set (map cr_id gone) in
      t\<lparr>connector_run_items := filter_rows (\<lambda>i. ri_connector_run_id i \<notin> ids) (connector_run_items t),
        connector_run_item_errors :=
          filter_rows (\<lambda>i. re_connector_run_id i \<notin> ids) (connector_run_item_errors t),
        connector_runs :=
          map_rows (\<lambda>r. r\<lparr>cr_parent_run_id := null_if_in ids (cr_parent_run_id r)\<rparr>) (connector_runs t),
        connector_configs :=
          map_rows (\<lambda>c. c\<lparr>cc_last_scheduled_run_id := null_if_in ids (cc_last_scheduled_run_id c)\<rparr>)
            (connector_configs t),
        connector_workers :=
          map_rows (\<lambda>w. w\<lparr>cw_current_run_id := null_if_in ids (cw_current_run_id w)\<rparr>)
            (connector_workers t),
        service_health_checks :=
          map_rows (\<lambda>h. h\<lparr>hc_connector_run_id := null_if_in ids (hc_connector_run_id h)\<rparr>)
            (service_health_checks t),
        work_cards :=
          map_rows (\<lambda>w. w\<lparr>wc_last_seen_run_id := null_if_in ids (wc_last_seen_run_id w)\<rparr>) (work_cards t),
        notifications :=
          map_rows (\<lambda>n. n\<lparr>nt_last_seen_run_id := null_if_in ids (nt_last_seen_run_id n)\<rparr>)
            (notifications t),
        calendar_events :=
          map_rows (\<lambda>e. e\<lparr>ce_last_seen_run_id := null_if_in ids (ce_last_seen_run_id e)\<rparr>)
            (calendar_events t)\<rparr>)"

text \<open>Deleting connectors: their configurations go with them; imported records lose the reference.\<close>

definition connectors_on_delete :: "Connector list \<Rightarrow> tables \<Rightarrow> tables" where
  "connectors_on_delete gone t =
     (let ids = set (map cn_id gone); sources = set (map cn_source gone) in
      t\<lparr>connector_configs := filter_rows (\<lambda>c. cc_source c \<notin> sources) (connector_configs t),
        work_cards :=
          map_rows (\<lambda>w. w\<lparr>wc_connector_id := null_if_in ids (wc_connector_id w)\<rparr>) (work_cards t),
        notifications :=
          map_rows (\<lambda>n. n\<lparr>nt_connector_id := null_if_in ids (nt_connector_id n)\<rparr>) (notifications t),
        calendar_events :=
          map_rows (\<lambda>e. e\<lparr>ce_connector_id := null_if_in ids (ce_connector_id e)\<rparr>) (calendar_events t)\<rparr>)"

end
