(* ===== verification/Secrets.thy ===== *)
theory Secrets
  imports Schema
begin

text \<open>
  JSON values and \<^verbatim>\<open>src/src/crypto.rs\<close>: encryption at rest, decryption, redaction and preservation of
  the secrets inside a connector configuration, and the bounded snapshots of imported items.

  The JSON reader and printer (serde_json), base64, SHA-256, AES-256-GCM and the random UUIDs are
  third-party code: they are the fields of \<open>crypto\<close>, and \<open>crypto_laws\<close> states what the code relies
  on of them. Environment variables are fields as well.
\<close>

section \<open>JSON\<close>

datatype json =
    JNull
  | JBool bool
  | JInt int
  | JFloat string
  | JString string
  | JArray "json list"
  | JObject "(string \<times> json) list"

definition json_get :: "string \<Rightarrow> json \<Rightarrow> json option" where
  "json_get k v = (case v of JObject ms \<Rightarrow> map_of ms k | _ \<Rightarrow> None)"

definition json_as_str :: "json \<Rightarrow> string option" where
  "json_as_str v = (case v of JString s \<Rightarrow> Some s | _ \<Rightarrow> None)"

definition json_as_array :: "json \<Rightarrow> json list option" where
  "json_as_array v = (case v of JArray xs \<Rightarrow> Some xs | _ \<Rightarrow> None)"

text \<open>The keys of an object are distinct (serde_json keeps objects in a map).\<close>

fun wf_json :: "json \<Rightarrow> bool" where
  "wf_json (JArray xs) = list_all wf_json xs"
| "wf_json (JObject ms) \<longleftrightarrow> distinct (map fst ms) \<and> list_all (\<lambda>(k, v). wf_json v) ms"
| "wf_json _ = True"

text \<open>\<^verbatim>\<open>chars().count()\<close> is \<open>char_count\<close>; \<^verbatim>\<open>chars().take(n).collect()\<close>:\<close>

definition is_cont :: "char \<Rightarrow> bool" where
  "is_cont c \<longleftrightarrow> 128 \<le> (of_char c :: nat) \<and> (of_char c :: nat) < 192"

fun take_chars :: "nat \<Rightarrow> string \<Rightarrow> string" where
  "take_chars n [] = []"
| "take_chars n (c # s) =
     (if is_cont c then c # take_chars n s
      else case n of 0 \<Rightarrow> [] | Suc m \<Rightarrow> c # take_chars m s)"

lemma take_chars_count: "char_count (take_chars n s) \<le> n"
  by (induction n s rule: take_chars.induct) (auto simp: char_count_def is_cont_def split: nat.splits)

section \<open>Third-party code\<close>

record crypto =
  cx_parse :: "string \<Rightarrow> string + json"
  cx_print :: "json \<Rightarrow> string + string"
  cx_b64 :: "string \<Rightarrow> string"
  cx_unb64 :: "string \<Rightarrow> string option"
  cx_sha256 :: "string \<Rightarrow> string"
  cx_seal :: "string \<Rightarrow> string \<Rightarrow> string \<Rightarrow> string option"
  cx_open :: "string \<Rightarrow> string \<Rightarrow> string \<Rightarrow> string option"
  cx_uuid :: "nat \<Rightarrow> string"
  cx_utf8 :: "string \<Rightarrow> bool"
  cx_secret_key_var :: "string option"
  cx_app_env_var :: "string option"

text \<open>A v4 UUID has 16 bytes; base64 decodes what it encoded and its alphabet has no colon; AES-GCM
  opens what it sealed under the same key and nonce.\<close>

definition crypto_laws :: "crypto \<Rightarrow> bool" where
  "crypto_laws cx \<longleftrightarrow>
     (\<forall>n. length (cx_uuid cx n) = 16)
     \<and> (\<forall>x. cx_unb64 cx (cx_b64 cx x) = Some x \<and> CHR '':'' \<notin> set (cx_b64 cx x))
     \<and> (\<forall>k nonce p c. cx_seal cx k nonce p = Some c \<longrightarrow> cx_open cx k nonce c = Some p)"

definition ENCRYPTED_PREFIX :: string where
  "ENCRYPTED_PREFIX = ''enc:v1:''"

definition REDACTED_SECRET :: string where
  "REDACTED_SECRET = ''***redacted***''"

definition DEV_SECRET_KEY :: string where
  "DEV_SECRET_KEY = ''development-only-connector-secret-key''"

section \<open>One secret\<close>

definition connector_secret_key :: "crypto \<Rightarrow> string + string" where
  "connector_secret_key cx =
     (case cx_secret_key_var cx of
        Some k \<Rightarrow>
          if \<not> is_blank k then Inr k
          else if cx_app_env_var cx = Some ''production''
            then Inl ''CONNECTOR_SECRET_KEY must be set in production'' else Inr DEV_SECRET_KEY
      | None \<Rightarrow>
          if cx_app_env_var cx = Some ''production''
            then Inl ''CONNECTOR_SECRET_KEY must be set in production'' else Inr DEV_SECRET_KEY)"

definition cipher :: "crypto \<Rightarrow> string + string" where
  "cipher cx = (case connector_secret_key cx of Inl e \<Rightarrow> Inl e | Inr k \<Rightarrow> Inr (cx_sha256 cx k))"

definition encrypt_secret :: "crypto \<Rightarrow> string \<Rightarrow> nat \<Rightarrow> (string + string) \<times> nat" where
  "encrypt_secret cx secret n =
     (case cipher cx of
        Inl e \<Rightarrow> (Inl e, n)
      | Inr key \<Rightarrow>
          (let nonce = take 12 (cx_uuid cx n) in
           case cx_seal cx key nonce secret of
             None \<Rightarrow> (Inl ''connector secret could not be encrypted'', Suc n)
           | Some c \<Rightarrow> (Inr (ENCRYPTED_PREFIX @ cx_b64 cx nonce @ '':'' @ cx_b64 cx c), Suc n)))"

fun split_once :: "char \<Rightarrow> string \<Rightarrow> (string \<times> string) option" where
  "split_once c [] = None"
| "split_once c (x # xs) =
     (if x = c then Some ([], xs) else map_option (\<lambda>(a, b). (x # a, b)) (split_once c xs))"

definition decrypt_secret :: "crypto \<Rightarrow> string \<Rightarrow> string + string" where
  "decrypt_secret cx secret =
     (case strip_prefix ENCRYPTED_PREFIX secret of
        None \<Rightarrow> Inl ''connector secret is not encrypted''
      | Some encrypted \<Rightarrow>
     (case split_once CHR '':'' encrypted of
        None \<Rightarrow> Inl ''connector secret has an invalid encrypted format''
      | Some (nonce, ciphertext) \<Rightarrow>
     (case cx_unb64 cx nonce of
        None \<Rightarrow> Inl ''connector secret nonce is invalid''
      | Some nonce \<Rightarrow>
     (case cx_unb64 cx ciphertext of
        None \<Rightarrow> Inl ''connector secret ciphertext is invalid''
      | Some ciphertext \<Rightarrow>
        if length nonce \<noteq> 12 then Inl ''connector secret nonce has an invalid length''
        else
     (case cipher cx of
        Inl e \<Rightarrow> Inl e
      | Inr key \<Rightarrow>
     (case cx_open cx key nonce ciphertext of
        None \<Rightarrow> Inl ''connector secret could not be decrypted''
      | Some plaintext \<Rightarrow>
        if cx_utf8 cx plaintext then Inr plaintext
        else Inl ''connector secret is not valid UTF-8''))))))"

definition is_secret_key :: "string \<Rightarrow> bool" where
  "is_secret_key key \<longleftrightarrow> to_ascii_lowercase key \<in> set
     [''personal_access_token'', ''pat'', ''token'', ''password'', ''secret'', ''client_secret'',
      ''api_key'', ''x-api-key'', ''bearer_token'', ''access_token'', ''refresh_token'',
      ''authorization'']"

lemma split_once_append: "c \<notin> set a \<Longrightarrow> split_once c (a @ c # b) = Some (a, b)"
  by (induction a) auto

lemma decrypt_encrypt_secret:
  assumes "crypto_laws cx" and "encrypt_secret cx s n = (Inr x, n')" and "cx_utf8 cx s"
  shows "decrypt_secret cx x = Inr s" and "starts_with ENCRYPTED_PREFIX x"
proof -
  obtain key where key: "cipher cx = Inr key"
    using assms(2) by (cases "cipher cx") (auto simp: encrypt_secret_def)
  obtain c where c: "cx_seal cx key (take 12 (cx_uuid cx n)) s = Some c"
    using assms(2) key by (auto simp: encrypt_secret_def Let_def split: option.splits)
  have x: "x = ENCRYPTED_PREFIX @ cx_b64 cx (take 12 (cx_uuid cx n)) @ '':'' @ cx_b64 cx c"
    using assms(2) key c by (auto simp: encrypt_secret_def)
  then show "starts_with ENCRYPTED_PREFIX x" by simp
  have "strip_prefix ENCRYPTED_PREFIX x
      = Some (cx_b64 cx (take 12 (cx_uuid cx n)) @ CHR '':'' # cx_b64 cx c)"
    by (simp add: x strip_prefix_def)
  moreover have "CHR '':'' \<notin> set (cx_b64 cx (take 12 (cx_uuid cx n)))"
    using assms(1) by (simp add: crypto_laws_def)
  ultimately show "decrypt_secret cx x = Inr s"
    using assms(1,3) key c by (simp add: decrypt_secret_def split_once_append crypto_laws_def)
qed

section \<open>The secrets of a document\<close>

text \<open>The value under a secret key: a string is encrypted unless it is empty or already encrypted;
  anything else is left as it is.\<close>

definition encrypt_value :: "crypto \<Rightarrow> json \<Rightarrow> nat \<Rightarrow> (string + json) \<times> nat" where
  "encrypt_value cx v n =
     (case v of
        JString secret \<Rightarrow>
          if \<not> starts_with ENCRYPTED_PREFIX secret \<and> secret \<noteq> [] then
            (case encrypt_secret cx secret n of
               (Inl e, n') \<Rightarrow> (Inl e, n') | (Inr x, n') \<Rightarrow> (Inr (JString x), n'))
          else (Inr v, n)
      | _ \<Rightarrow> (Inr v, n))"

fun encrypt_json_secrets :: "crypto \<Rightarrow> json \<Rightarrow> nat \<Rightarrow> (string + json) \<times> nat"
  and encrypt_members ::
    "crypto \<Rightarrow> (string \<times> json) list \<Rightarrow> nat \<Rightarrow> (string + (string \<times> json) list) \<times> nat"
  and encrypt_items :: "crypto \<Rightarrow> json list \<Rightarrow> nat \<Rightarrow> (string + json list) \<times> nat" where
  "encrypt_json_secrets cx (JObject ms) n = apfst (map_sum id JObject) (encrypt_members cx ms n)"
| "encrypt_json_secrets cx (JArray xs) n = apfst (map_sum id JArray) (encrypt_items cx xs n)"
| "encrypt_json_secrets cx v n = (Inr v, n)"
| "encrypt_members cx [] n = (Inr [], n)"
| "encrypt_members cx ((k, v) # ms) n =
     (case (if is_secret_key k then encrypt_value cx v n else encrypt_json_secrets cx v n) of
        (Inl e, n') \<Rightarrow> (Inl e, n')
      | (Inr v', n') \<Rightarrow> apfst (map_sum id (\<lambda>ms'. (k, v') # ms')) (encrypt_members cx ms n'))"
| "encrypt_items cx [] n = (Inr [], n)"
| "encrypt_items cx (x # xs) n =
     (case encrypt_json_secrets cx x n of
        (Inl e, n') \<Rightarrow> (Inl e, n')
      | (Inr x', n') \<Rightarrow> apfst (map_sum id (\<lambda>xs'. x' # xs')) (encrypt_items cx xs n'))"

definition decrypt_value :: "crypto \<Rightarrow> json \<Rightarrow> string + json" where
  "decrypt_value cx v =
     (case v of
        JString secret \<Rightarrow>
          if starts_with ENCRYPTED_PREFIX secret then map_sum id JString (decrypt_secret cx secret)
          else Inr v
      | _ \<Rightarrow> Inr v)"

fun decrypt_json_secrets :: "crypto \<Rightarrow> json \<Rightarrow> string + json"
  and decrypt_members :: "crypto \<Rightarrow> (string \<times> json) list \<Rightarrow> string + (string \<times> json) list"
  and decrypt_items :: "crypto \<Rightarrow> json list \<Rightarrow> string + json list" where
  "decrypt_json_secrets cx (JObject ms) = map_sum id JObject (decrypt_members cx ms)"
| "decrypt_json_secrets cx (JArray xs) = map_sum id JArray (decrypt_items cx xs)"
| "decrypt_json_secrets cx v = Inr v"
| "decrypt_members cx [] = Inr []"
| "decrypt_members cx ((k, v) # ms) =
     (case (if is_secret_key k then decrypt_value cx v else decrypt_json_secrets cx v) of
        Inl e \<Rightarrow> Inl e
      | Inr v' \<Rightarrow> map_sum id (\<lambda>ms'. (k, v') # ms') (decrypt_members cx ms))"
| "decrypt_items cx [] = Inr []"
| "decrypt_items cx (x # xs) =
     (case decrypt_json_secrets cx x of
        Inl e \<Rightarrow> Inl e
      | Inr x' \<Rightarrow> map_sum id (\<lambda>xs'. x' # xs') (decrypt_items cx xs))"

fun redact_json_secrets :: "json \<Rightarrow> json" where
  "redact_json_secrets (JObject ms) = JObject (map (\<lambda>(k, v).
     (k, if is_secret_key k then JString REDACTED_SECRET else redact_json_secrets v)) ms)"
| "redact_json_secrets (JArray xs) = JArray (map redact_json_secrets xs)"
| "redact_json_secrets v = v"

fun preserve_redacted_json_secrets :: "json \<Rightarrow> json option \<Rightarrow> string + json"
  and preserve_members ::
    "(string \<times> json) list \<Rightarrow> json option \<Rightarrow> string + (string \<times> json) list"
  and preserve_items :: "json list \<Rightarrow> nat \<Rightarrow> json option \<Rightarrow> string + json list" where
  "preserve_redacted_json_secrets (JObject ms) old = map_sum id JObject (preserve_members ms old)"
| "preserve_redacted_json_secrets (JArray xs) old = map_sum id JArray (preserve_items xs 0 old)"
| "preserve_redacted_json_secrets v old = Inr v"
| "preserve_members [] old = Inr []"
| "preserve_members ((k, v) # ms) old =
     (let old_child = Option.bind old (json_get k) in
      case (if is_secret_key k then
              (if json_as_str v = Some REDACTED_SECRET then
                 (case old_child of
                    None \<Rightarrow> Inl (k @ '' is redacted but no existing secret is stored'')
                  | Some c \<Rightarrow> Inr c)
               else Inr v)
            else preserve_redacted_json_secrets v old_child) of
        Inl e \<Rightarrow> Inl e
      | Inr v' \<Rightarrow> map_sum id (\<lambda>ms'. (k, v') # ms') (preserve_members ms old))"
| "preserve_items [] i old = Inr []"
| "preserve_items (x # xs) i old =
     (let old_child = Option.bind (Option.bind old json_as_array)
            (\<lambda>items. if i < length items then Some (items ! i) else None) in
      case preserve_redacted_json_secrets x old_child of
        Inl e \<Rightarrow> Inl e
      | Inr x' \<Rightarrow> map_sum id (\<lambda>xs'. x' # xs') (preserve_items xs (Suc i) old))"

section \<open>The public operations\<close>

definition encrypt_connector_config :: "crypto \<Rightarrow> string \<Rightarrow> nat \<Rightarrow> (string + string) \<times> nat" where
  "encrypt_connector_config cx config n =
     (case cx_parse cx config of
        Inl e \<Rightarrow> (Inl (''connector config is not valid JSON: '' @ e), n)
      | Inr v \<Rightarrow>
          (case encrypt_json_secrets cx v n of
             (Inl e, n') \<Rightarrow> (Inl e, n')
           | (Inr v', n') \<Rightarrow>
               (map_sum (\<lambda>e. ''connector config could not be encoded: '' @ e) id (cx_print cx v'), n')))"

definition decrypt_connector_config :: "crypto \<Rightarrow> string \<Rightarrow> string + string" where
  "decrypt_connector_config cx config =
     (case cx_parse cx config of
        Inl e \<Rightarrow> Inl (''connector config is not valid JSON: '' @ e)
      | Inr v \<Rightarrow>
          (case decrypt_json_secrets cx v of
             Inl e \<Rightarrow> Inl e
           | Inr v' \<Rightarrow>
               map_sum (\<lambda>e. ''connector config could not be encoded: '' @ e) id (cx_print cx v')))"

definition redact_connector_config :: "crypto \<Rightarrow> string \<Rightarrow> string" where
  "redact_connector_config cx config =
     (case cx_parse cx config of
        Inl _ \<Rightarrow> config
      | Inr v \<Rightarrow> (case cx_print cx (redact_json_secrets v) of Inl _ \<Rightarrow> config | Inr s \<Rightarrow> s))"

definition preserve_redacted_connector_config ::
    "crypto \<Rightarrow> string \<Rightarrow> string option \<Rightarrow> string + string" where
  "preserve_redacted_connector_config cx config existing_config =
     (case cx_parse cx config of
        Inl e \<Rightarrow> Inl (''connector config is not valid JSON: '' @ e)
      | Inr v \<Rightarrow>
          (case (case existing_config of
                   None \<Rightarrow> Inr None
                 | Some c \<Rightarrow> map_sum (\<lambda>e. ''existing connector config is not valid JSON: '' @ e) Some
                     (cx_parse cx c)) of
             Inl e \<Rightarrow> Inl e
           | Inr old \<Rightarrow>
               (case preserve_redacted_json_secrets v old of
                  Inl e \<Rightarrow> Inl e
                | Inr v' \<Rightarrow> map_sum (\<lambda>e. ''connector config could not be encoded: '' @ e) id
                    (cx_print cx v'))))"

text \<open>The snapshot of an item: redacted, and wrapped with a shorter and shorter preview until it
  fits. serde_json prints the keys of an object in order. The length of the preview starts at 1 or
  more and never goes below, so the test \<open>\<le> 1\<close> is the test \<^verbatim>\<open>== 1\<close> of the code.\<close>

definition wrap_preview :: "crypto \<Rightarrow> nat \<Rightarrow> string \<Rightarrow> string option" where
  "wrap_preview cx max_chars preview =
     (case cx_print cx (JObject [(''_max_chars'', JInt (int max_chars)),
         (''_preview'', JString preview), (''_truncated'', JBool True)]) of
        Inl _ \<Rightarrow> None | Inr s \<Rightarrow> Some s)"

function shrink_preview :: "crypto \<Rightarrow> nat \<Rightarrow> string \<Rightarrow> nat \<Rightarrow> string option" where
  "shrink_preview cx max_chars snapshot preview_len =
     (case wrap_preview cx max_chars (take_chars preview_len snapshot) of
        None \<Rightarrow> None
      | Some wrapped \<Rightarrow>
          if char_count wrapped \<le> max_chars \<or> preview_len \<le> 1 then Some wrapped
          else shrink_preview cx max_chars snapshot
                 (max (preview_len - (char_count wrapped - max_chars)) 1))"
  by pat_completeness auto
termination
  by (relation "measure (\<lambda>(cx, m, s, n). n)") auto

definition sanitized_json_snapshot :: "crypto \<Rightarrow> json \<Rightarrow> nat \<Rightarrow> string option" where
  "sanitized_json_snapshot cx v max_chars =
     (case cx_print cx (redact_json_secrets v) of
        Inl _ \<Rightarrow> None
      | Inr snapshot \<Rightarrow>
          if char_count snapshot \<le> max_chars then Some snapshot
          else shrink_preview cx max_chars snapshot (max (max_chars - 128) 1))"

section \<open>Properties\<close>

fun all_secrets :: "(json \<Rightarrow> bool) \<Rightarrow> json \<Rightarrow> bool" where
  "all_secrets P (JObject ms) =
     list_all (\<lambda>(k, v). if is_secret_key k then P v else all_secrets P v) ms"
| "all_secrets P (JArray xs) = list_all (all_secrets P) xs"
| "all_secrets P _ = True"

text \<open>A string in plain text that can be stored: not a ciphertext, and valid UTF-8.\<close>

definition plain :: "crypto \<Rightarrow> json \<Rightarrow> bool" where
  "plain cx v = (case v of JString s \<Rightarrow> \<not> starts_with ENCRYPTED_PREFIX s \<and> cx_utf8 cx s | _ \<Rightarrow> True)"

definition sealed :: "json \<Rightarrow> bool" where
  "sealed v = (case v of JString s \<Rightarrow> s = [] \<or> starts_with ENCRYPTED_PREFIX s | _ \<Rightarrow> True)"

lemma encrypt_value_Inr:
  assumes "encrypt_value cx v n = (Inr v', n')"
  shows "sealed v'"
    and "crypto_laws cx \<Longrightarrow> plain cx v \<Longrightarrow> decrypt_value cx v' = Inr v"
proof -
  have pre: "starts_with ENCRYPTED_PREFIX x" if "encrypt_secret cx y n = (Inr x, n')" for x y
    using that by (auto simp: encrypt_secret_def Let_def split: sum.splits option.splits)
  show "sealed v'"
    using assms pre by (auto simp: encrypt_value_def sealed_def split: json.splits if_splits
        prod.splits sum.splits)
  assume laws: "crypto_laws cx" and p: "plain cx v"
  show "decrypt_value cx v' = Inr v"
  proof (cases "\<exists>y. v = JString y \<and> y \<noteq> []")
    case True
    then obtain y where y: "v = JString y" "y \<noteq> []" by blast
    with p assms obtain x where "v' = JString x" "encrypt_secret cx y n = (Inr x, n')"
      by (auto simp: encrypt_value_def plain_def split: prod.splits sum.splits)
    with decrypt_encrypt_secret [OF laws] p y show ?thesis
      by (simp add: decrypt_value_def plain_def)
  next
    case False
    then have "v' = v"
      using assms by (auto simp: encrypt_value_def split: json.splits if_splits)
    with False p show ?thesis by (auto simp: decrypt_value_def plain_def split: json.splits)
  qed
qed

lemma apfst_map_sum_Inr:
  "apfst (map_sum id f) p = (Inr y, n) \<longleftrightarrow> (\<exists>x. p = (Inr x, n) \<and> y = f x)"
  by (cases p; cases "fst p") auto

lemma encrypt_seals:
  "encrypt_json_secrets cx v n = (Inr v', n') \<Longrightarrow> all_secrets sealed v'"
  "encrypt_members cx ms n = (Inr ms', n') \<Longrightarrow>
     list_all (\<lambda>(k, v). if is_secret_key k then sealed v else all_secrets sealed v) ms'"
  "encrypt_items cx xs n = (Inr xs', n') \<Longrightarrow> list_all (all_secrets sealed) xs'"
proof (induction cx v n and cx ms n and cx xs n arbitrary: v' n' and ms' n' and xs' n'
    rule: encrypt_json_secrets_encrypt_members_encrypt_items.induct)
  case (5 cx k v ms n)
  obtain v1 n1 ms1 where v1: "(if is_secret_key k then encrypt_value cx v n
      else encrypt_json_secrets cx v n) = (Inr v1, n1)"
    and ms1: "encrypt_members cx ms n1 = (Inr ms1, n')" and "ms' = (k, v1) # ms1"
    using 5(3) by (auto simp: apfst_map_sum_Inr split: prod.splits sum.splits)
  moreover note 5(2) [OF v1 [symmetric] refl ms1]
  moreover have "if is_secret_key k then sealed v1 else all_secrets sealed v1"
    using v1 5(1) encrypt_value_Inr(1) by (auto split: if_splits)
  ultimately show ?case by simp
qed (auto simp: apfst_map_sum_Inr split: prod.splits sum.splits)

lemma decrypt_encrypt:
  "crypto_laws cx \<Longrightarrow> all_secrets (plain cx) v \<Longrightarrow> encrypt_json_secrets cx v n = (Inr v', n') \<Longrightarrow>
     decrypt_json_secrets cx v' = Inr v"
  "crypto_laws cx \<Longrightarrow>
     list_all (\<lambda>(k, v). if is_secret_key k then plain cx v else all_secrets (plain cx) v) ms \<Longrightarrow>
     encrypt_members cx ms n = (Inr ms', n') \<Longrightarrow> decrypt_members cx ms' = Inr ms"
  "crypto_laws cx \<Longrightarrow> list_all (all_secrets (plain cx)) xs \<Longrightarrow>
     encrypt_items cx xs n = (Inr xs', n') \<Longrightarrow> decrypt_items cx xs' = Inr xs"
proof (induction cx v n and cx ms n and cx xs n arbitrary: v' n' and ms' n' and xs' n'
    rule: encrypt_json_secrets_encrypt_members_encrypt_items.induct)
  case (5 cx k v ms n)
  obtain v1 n1 ms1 where v1: "(if is_secret_key k then encrypt_value cx v n
      else encrypt_json_secrets cx v n) = (Inr v1, n1)"
    and ms1: "encrypt_members cx ms n1 = (Inr ms1, n')" and "ms' = (k, v1) # ms1"
    using 5(5) by (auto simp: apfst_map_sum_Inr split: prod.splits sum.splits)
  moreover have "decrypt_members cx ms1 = Inr ms"
    using 5(2) [OF v1 [symmetric] refl 5(3) _ ms1] 5(4) by simp
  moreover have "(if is_secret_key k then decrypt_value cx v1 else decrypt_json_secrets cx v1) = Inr v"
    using v1 5(1) [OF _ 5(3)] 5(3,4) encrypt_value_Inr(2) by (auto split: if_splits)
  ultimately show ?case by simp
next
  case (7 cx x xs n)
  then show ?case by (auto simp: apfst_map_sum_Inr split: prod.splits sum.splits)
qed (auto simp: apfst_map_sum_Inr)

text \<open>Encrypting an encrypted document changes nothing and uses no nonce.\<close>

lemma encrypt_value_sealed: "sealed v \<Longrightarrow> encrypt_value cx v n = (Inr v, n)"
  by (auto simp: encrypt_value_def sealed_def split: json.splits)

lemma encrypt_sealed:
  "all_secrets sealed v \<Longrightarrow> encrypt_json_secrets cx v n = (Inr v, n)"
  "list_all (\<lambda>(k, v). if is_secret_key k then sealed v else all_secrets sealed v) ms \<Longrightarrow>
     encrypt_members cx ms n = (Inr ms, n)"
  "list_all (all_secrets sealed) xs \<Longrightarrow> encrypt_items cx xs n = (Inr xs, n)"
  by (induction cx v n and cx ms n and cx xs n
      rule: encrypt_json_secrets_encrypt_members_encrypt_items.induct)
     (auto simp: encrypt_value_sealed)

text \<open>Whatever stands in place of the secrets, redaction gives the same document.\<close>

fun replace_secrets :: "(json \<Rightarrow> json) \<Rightarrow> json \<Rightarrow> json" where
  "replace_secrets f (JObject ms) =
     JObject (map (\<lambda>(k, v). (k, if is_secret_key k then f v else replace_secrets f v)) ms)"
| "replace_secrets f (JArray xs) = JArray (map (replace_secrets f) xs)"
| "replace_secrets f v = v"

lemma redact_replace: "redact_json_secrets (replace_secrets f v) = redact_json_secrets v"
  by (induction f v rule: replace_secrets.induct) auto

lemma redact_all: "all_secrets (\<lambda>v. v = JString REDACTED_SECRET) (redact_json_secrets v)"
  by (induction v rule: redact_json_secrets.induct) (auto simp: list_all_iff)

text \<open>A redacted document sent back unchanged restores the stored one.\<close>

lemma preserve_members_redacted:
  assumes "\<And>k v. (k, v) \<in> set ms \<Longrightarrow> map_of all k = Some v"
    and "\<And>k v. (k, v) \<in> set ms \<Longrightarrow> \<not> is_secret_key k \<Longrightarrow>
       preserve_redacted_json_secrets (redact_json_secrets v) (Some v) = Inr v"
  shows "preserve_members (map (\<lambda>(k, v).
     (k, if is_secret_key k then JString REDACTED_SECRET else redact_json_secrets v)) ms)
     (Some (JObject all)) = Inr ms"
  using assms
proof (induction ms)
  case Nil
  then show ?case by simp
next
  case (Cons m ms)
  obtain k v where m: "m = (k, v)" by (cases m)
  have "map_of all k = Some v" using Cons.prems(1) m by simp
  moreover have "\<not> is_secret_key k \<Longrightarrow>
      preserve_redacted_json_secrets (redact_json_secrets v) (Some v) = Inr v"
    using Cons.prems(2) [of k v] m by simp
  moreover have "preserve_members (map (\<lambda>(k, v).
     (k, if is_secret_key k then JString REDACTED_SECRET else redact_json_secrets v)) ms)
     (Some (JObject all)) = Inr ms"
    by (rule Cons.IH) (use Cons.prems in auto)
  ultimately show ?case by (simp add: m Let_def json_get_def json_as_str_def)
qed

lemma preserve_items_redacted:
  assumes "\<And>x. x \<in> set xs \<Longrightarrow>
     preserve_redacted_json_secrets (redact_json_secrets x) (Some x) = Inr x"
    and "drop i all = xs"
  shows "preserve_items (map redact_json_secrets xs) i (Some (JArray all)) = Inr xs"
  using assms
proof (induction xs arbitrary: i)
  case Nil
  then show ?case by simp
next
  case (Cons x xs)
  have "i < length all" using Cons.prems(2) by (cases "i < length all") auto
  moreover then have "x # xs = all ! i # drop (Suc i) all"
    using Cons.prems(2) by (simp add: Cons_nth_drop_Suc)
  ultimately have i: "i < length all" "all ! i = x" "drop (Suc i) all = xs" by simp_all
  have "preserve_items (map redact_json_secrets xs) (Suc i) (Some (JArray all)) = Inr xs"
    by (rule Cons.IH) (use Cons.prems(1) i(3) in auto)
  then show ?case using i Cons.prems(1) by (simp add: Let_def json_as_array_def)
qed

lemma preserve_redacted:
  "wf_json v \<Longrightarrow> preserve_redacted_json_secrets (redact_json_secrets v) (Some v) = Inr v"
proof (induction v rule: redact_json_secrets.induct)
  case (1 ms)
  have "preserve_members (map (\<lambda>(k, v).
     (k, if is_secret_key k then JString REDACTED_SECRET else redact_json_secrets v)) ms)
     (Some (JObject ms)) = Inr ms"
  proof (rule preserve_members_redacted)
    fix k v assume kv: "(k, v) \<in> set ms"
    then show "map_of ms k = Some v" using "1.prems" by simp
    assume "\<not> is_secret_key k"
    moreover have "wf_json v" using "1.prems" kv by (auto simp: list_all_iff)
    ultimately show "preserve_redacted_json_secrets (redact_json_secrets v) (Some v) = Inr v"
      using "1.IH" kv by blast
  qed
  then show ?case by simp
next
  case (2 xs)
  have "preserve_items (map redact_json_secrets xs) 0 (Some (JArray xs)) = Inr xs"
    by (rule preserve_items_redacted) (use 2 in \<open>auto simp: list_all_iff\<close>)
  then show ?case by simp
qed simp_all

text \<open>The loop of the snapshot always ends; its result is too long only when even a preview of one
  character does not fit.\<close>

lemma shrink_preview_bound:
  assumes "shrink_preview cx m snapshot n = Some w" and "1 \<le> n"
  shows "char_count w \<le> m \<or> wrap_preview cx m (take_chars 1 snapshot) = Some w"
  using assms
proof (induction cx m snapshot n rule: shrink_preview.induct)
  case (1 cx m snapshot n)
  obtain v where v: "wrap_preview cx m (take_chars n snapshot) = Some v"
    using "1.prems"(1) by (auto split: option.splits)
  show ?case
  proof (cases "char_count v \<le> m \<or> n \<le> 1")
    case True
    then have "w = v" using "1.prems"(1) v by simp
    moreover have "n = 1" if "n \<le> 1" using that "1.prems"(2) by simp
    ultimately show ?thesis using True v by auto
  next
    case False
    then show ?thesis using "1.IH" [OF v] "1.prems"(1) v by simp
  qed
qed

end
