(* ===== verification/Connector_Repository.thy ===== *)
theory Connector_Repository
  imports Schema
begin

text \<open>
  \<^verbatim>\<open>ConnectorWorkerRepository\<close>, \<^verbatim>\<open>ConnectorRepository\<close>, \<^verbatim>\<open>ConnectorConfigRepository\<close>,
  \<^verbatim>\<open>MaintenanceRunRepository\<close> and \<^verbatim>\<open>AuditLogRepository\<close> of \<^verbatim>\<open>src/src/repositories.rs\<close>, and
  \<^verbatim>\<open>RecordAccessScope\<close>, the rule that decides which records a user sees.
\<close>

section \<open>Access scopes\<close>

record RecordAccessScope =
  as_user_id :: i32
  as_is_admin :: bool
  as_maintainer_ids :: "i32 list"

definition allows :: "RecordAccessScope \<Rightarrow> i32 option \<Rightarrow> i32 option \<Rightarrow> bool" where
  "allows a owner_user_id maintainer_id =
     (if as_is_admin a then True
      else (case (owner_user_id, maintainer_id) of
              (Some owner, None) \<Rightarrow> owner = as_user_id a
            | (None, Some m) \<Rightarrow> m \<in> set (as_maintainer_ids a)
            | (None, None) \<Rightarrow> True
            | (Some _, Some _) \<Rightarrow> False))"

text \<open>The filter every \<^verbatim>\<open>..._for_access\<close> query adds; a comparison with NULL is not true.\<close>

definition access_filter :: "RecordAccessScope \<Rightarrow> i32 option \<Rightarrow> i32 option \<Rightarrow> bool" where
  "access_filter a owner_user_id maintainer_id \<longleftrightarrow>
     as_is_admin a
     \<or> owner_user_id = Some (as_user_id a)
     \<or> (case maintainer_id of Some m \<Rightarrow> m \<in> set (as_maintainer_ids a) | None \<Rightarrow> False)
     \<or> (owner_user_id = None \<and> maintainer_id = None)"

lemma access_filter_allows:
  "record_scope_check owner maint \<Longrightarrow> access_filter a owner maint = allows a owner maint"
  by (auto simp: access_filter_def allows_def record_scope_check_def split: option.splits)

lemma allows_implies_filter: "allows a owner maint \<Longrightarrow> access_filter a owner maint"
  by (auto simp: access_filter_def allows_def split: option.splits if_splits)

section \<open>Workers\<close>

definition ConnectorWorkerRepository_upsert_heartbeat ::
    "ConnectorWorkerHeartbeat \<Rightarrow> ConnectorWorker query" where
  "ConnectorWorkerRepository_upsert_heartbeat h =
     bindM utc_now (\<lambda>now.
     upsert_stmt connector_workers connector_workers_update worker_violation
       (\<lambda>w. cw_worker_id w = cw_worker_id h)
       (\<lambda>i. ConnectorWorkerHeartbeat.extend h (ConnectorWorker.fields i now now))
       (\<lambda>w. w\<lparr>cw_status := cw_status h, cw_scheduler_enabled := cw_scheduler_enabled h,
              cw_retention_enabled := cw_retention_enabled h,
              cw_current_run_id := cw_current_run_id h, cw_last_error := cw_last_error h,
              cw_last_seen_at := now, cw_updated_at := now\<rparr>))"

definition ConnectorWorkerRepository_find_recent :: "nat \<Rightarrow> ConnectorWorker list query" where
  "ConnectorWorkerRepository_find_recent limit = select_stmt (\<lambda>t.
     take limit (sort_key (\<lambda>w. - cw_last_seen_at w) (rows (connector_workers t))))"

section \<open>Connectors\<close>

definition ConnectorRepository_find_multiple_for_access ::
    "nat \<Rightarrow> RecordAccessScope \<Rightarrow> Connector list query" where
  "ConnectorRepository_find_multiple_for_access limit access = select_stmt (\<lambda>t.
     take limit (sort_key (\<lambda>c. (- cn_updated_at c, cn_display_name c))
       (filter (\<lambda>c. access_filter access (cn_owner_user_id c) (cn_maintainer_id c))
          (rows (connectors t)))))"

definition ConnectorRepository_find_by_source :: "string \<Rightarrow> Connector query" where
  "ConnectorRepository_find_by_source source =
     bindM (select_stmt (\<lambda>t. first_row (\<lambda>c. cn_source c = source) (rows (connectors t)))) expect_row"

text \<open>\<^verbatim>\<open>insert_into(connectors)\<close>: \<^verbatim>\<open>last_run_at\<close> and \<^verbatim>\<open>last_success_at\<close> are NULL, the two timestamps
  default to NOW().\<close>

definition new_connector_row :: "NewConnector \<Rightarrow> utc \<Rightarrow> i32 \<Rightarrow> Connector" where
  "new_connector_row n now i = NewConnector.extend n (Connector.fields i None None now now)"

definition ConnectorRepository_create :: "NewConnector \<Rightarrow> Connector query" where
  "ConnectorRepository_create n = bindM utc_now (\<lambda>now.
     insert_stmt connectors connectors_update connector_violation (new_connector_row n now))"

definition default_connector :: "string \<Rightarrow> string \<Rightarrow> NewConnector" where
  "default_connector source kind = \<lparr>cn_source = source, cn_kind = kind, cn_display_name = source,
     cn_status = ''active'', cn_scope_type = ''global'', cn_owner_user_id = None,
     cn_maintainer_id = None\<rparr>"

definition ConnectorRepository_find_or_create_default ::
    "string \<Rightarrow> string \<Rightarrow> Connector query" where
  "ConnectorRepository_find_or_create_default source kind =
     bindM utc_now (\<lambda>now.
     bindM (upsert_stmt connectors connectors_update connector_violation
              (\<lambda>c. cn_source c = source) (new_connector_row (default_connector source kind) now) id)
       (\<lambda>_. ConnectorRepository_find_by_source source))"

definition set_scope :: "string \<Rightarrow> i32 option \<Rightarrow> i32 option \<Rightarrow> utc \<Rightarrow> Connector \<Rightarrow> Connector" where
  "set_scope scope_type owner maint now c =
     c\<lparr>cn_scope_type := scope_type, cn_owner_user_id := owner, cn_maintainer_id := maint,
       cn_updated_at := now\<rparr>"

definition ConnectorRepository_update_scope ::
    "string \<Rightarrow> string \<Rightarrow> i32 option \<Rightarrow> i32 option \<Rightarrow> Connector query" where
  "ConnectorRepository_update_scope source scope_type owner_user_id maintainer_id =
     query_transaction (
     bindM (ConnectorRepository_find_by_source source) (\<lambda>connector.
     bindM utc_now (\<lambda>now.
     bindM (bindM (update_stmt connectors connectors_update connector_violation
              (\<lambda>c. cn_id c = cn_id connector)
              (set_scope scope_type owner_user_id maintainer_id now)) (expect_row \<circ> one_row))
       (\<lambda>connector.
     bindM (update_stmt work_cards work_cards_update work_card_violation
              (\<lambda>w. wc_connector_id w = Some (cn_id connector))
              (\<lambda>w. w\<lparr>wc_owner_user_id := owner_user_id, wc_maintainer_id := maintainer_id,
                     wc_updated_at := now\<rparr>)) (\<lambda>_.
     bindM (update_stmt notifications notifications_update notification_violation
              (\<lambda>n. nt_connector_id n = Some (cn_id connector))
              (\<lambda>n. n\<lparr>nt_owner_user_id := owner_user_id, nt_maintainer_id := maintainer_id,
                     nt_updated_at := now\<rparr>)) (\<lambda>_.
     bindM (update_stmt calendar_events calendar_events_update calendar_violation
              (\<lambda>e. ce_connector_id e = Some (cn_id connector))
              (\<lambda>e. e\<lparr>ce_owner_user_id := owner_user_id, ce_maintainer_id := maintainer_id,
                     ce_updated_at := now\<rparr>)) (\<lambda>_.
     retM connector)))))))"

definition ConnectorRepository_update_by_source ::
    "string \<Rightarrow> ConnectorUpdate \<Rightarrow> Connector query" where
  "ConnectorRepository_update_by_source source u =
     bindM utc_now (\<lambda>now.
     bindM (update_stmt connectors connectors_update connector_violation
              (\<lambda>c. cn_source c = source)
              (\<lambda>c. c\<lparr>cn_kind := cu_kind u, cn_display_name := cu_display_name u,
                     cn_status := cu_status u, cn_updated_at := now\<rparr>)) (expect_row \<circ> one_row))"

definition ConnectorRepository_delete_by_source :: "string \<Rightarrow> nat query" where
  "ConnectorRepository_delete_by_source source =
     bindM (delete_stmt connectors connectors_update no_restriction connectors_on_delete
              (\<lambda>c. cn_source c = source)) (\<lambda>gone. retM (length gone))"

definition ConnectorRepository_touch_run_state ::
    "string \<Rightarrow> string \<Rightarrow> string \<Rightarrow> utc \<Rightarrow> Connector query" where
  "ConnectorRepository_touch_run_state source fallback_kind run_status finished_at =
     (let connector_status = (if run_status = ''failed'' then ''error'' else ''active'');
          success_at = (if run_status = ''success'' then Some finished_at else None) in
      handleM (ConnectorRepository_find_by_source source)
        (\<lambda>e. if e = NotFoundError then
            bindM utc_now (\<lambda>now.
            insert_stmt connectors connectors_update connector_violation
              (\<lambda>i. (new_connector_row (default_connector source fallback_kind) now i)
                 \<lparr>cn_status := connector_status, cn_last_run_at := Some finished_at,
                  cn_last_success_at := success_at\<rparr>))
          else throwM e)
        (\<lambda>_. bindM utc_now (\<lambda>now.
          bindM (update_stmt connectors connectors_update connector_violation
                   (\<lambda>c. cn_source c = source)
                   (\<lambda>c. if success_at \<noteq> None
                        then c\<lparr>cn_status := connector_status, cn_last_run_at := Some finished_at,
                               cn_last_success_at := success_at, cn_updated_at := now\<rparr>
                        else c\<lparr>cn_status := connector_status, cn_last_run_at := Some finished_at,
                               cn_updated_at := now\<rparr>)) (expect_row \<circ> one_row))))"

section \<open>Connector configurations\<close>

definition ConnectorConfigRepository_find_by_source :: "string \<Rightarrow> ConnectorConfig query" where
  "ConnectorConfigRepository_find_by_source source =
     bindM (select_stmt (\<lambda>t. first_row (\<lambda>c. cc_source c = source) (rows (connector_configs t))))
       expect_row"

definition config_is_due :: "utc \<Rightarrow> ConnectorConfig \<Rightarrow> bool" where
  "config_is_due now c \<longleftrightarrow> cc_enabled c \<and> cc_schedule_cron c \<noteq> None
     \<and> (case cc_next_run_at c of None \<Rightarrow> True | Some n \<Rightarrow> n \<le> now)"

definition ConnectorConfigRepository_find_due_for_schedule ::
    "utc \<Rightarrow> nat \<Rightarrow> ConnectorConfig list query" where
  "ConnectorConfigRepository_find_due_for_schedule now limit = select_stmt (\<lambda>t.
     take limit (sort_key (\<lambda>c. nulls_last (cc_next_run_at c))
       (filter (config_is_due now) (rows (connector_configs t)))))"

definition ConnectorConfigRepository_upsert_by_source ::
    "string \<Rightarrow> ConnectorConfigUpdate \<Rightarrow> ConnectorConfig query" where
  "ConnectorConfigRepository_upsert_by_source source config =
     bindM (if cf_schedule_cron config \<noteq> None then bindM utc_now (\<lambda>n. retM (Some n)) else retM None)
       (\<lambda>next_run_at.
     bindM utc_now (\<lambda>now.
     upsert_stmt connector_configs connector_configs_update config_violation
       (\<lambda>c. cc_source c = source)
       (\<lambda>i. \<lparr>cc_source = source, cc_target = cf_target config, cc_enabled = cf_enabled config,
             cc_schedule_cron = cf_schedule_cron config, cc_config = cf_config config,
             cc_sample_payload = cf_sample_payload config, cc_last_scheduled_at = None,
             cc_next_run_at = next_run_at, cc_last_scheduled_run_id = None,
             cc_id = i, cc_created_at = now, cc_updated_at = now\<rparr>)
       (\<lambda>c. c\<lparr>cc_target := cf_target config, cc_enabled := cf_enabled config,
              cc_schedule_cron := cf_schedule_cron config, cc_config := cf_config config,
              cc_sample_payload := cf_sample_payload config, cc_next_run_at := next_run_at,
              cc_updated_at := now\<rparr>)))"

definition ConnectorConfigRepository_update_config :: "string \<Rightarrow> string \<Rightarrow> ConnectorConfig query" where
  "ConnectorConfigRepository_update_config source config =
     bindM utc_now (\<lambda>now.
     bindM (update_stmt connector_configs connector_configs_update config_violation
              (\<lambda>c. cc_source c = source)
              (\<lambda>c. c\<lparr>cc_config := config, cc_updated_at := now\<rparr>)) (expect_row \<circ> one_row))"

definition ConnectorConfigRepository_mark_scheduled ::
    "string \<Rightarrow> utc \<Rightarrow> i64 \<Rightarrow> i32 option \<Rightarrow> ConnectorConfig query" where
  "ConnectorConfigRepository_mark_scheduled source scheduled_at interval_seconds run_id =
     (let next_run_at = scheduled_at + seconds interval_seconds in
      bindM utc_now (\<lambda>now.
      bindM (update_stmt connector_configs connector_configs_update config_violation
               (\<lambda>c. cc_source c = source)
               (\<lambda>c. c\<lparr>cc_last_scheduled_at := Some scheduled_at, cc_next_run_at := Some next_run_at,
                      cc_last_scheduled_run_id := run_id, cc_updated_at := now\<rparr>))
        (expect_row \<circ> one_row)))"

section \<open>Maintenance runs and the audit log\<close>

definition MaintenanceRunRepository_create :: "NewMaintenanceRun \<Rightarrow> MaintenanceRun query" where
  "MaintenanceRunRepository_create m = bindM utc_now (\<lambda>now.
     insert_stmt maintenance_runs maintenance_runs_update maintenance_violation
       (\<lambda>i. NewMaintenanceRun.extend m (MaintenanceRun.fields i now)))"

definition MaintenanceRunRepository_find_recent ::
    "nat \<Rightarrow> string option \<Rightarrow> MaintenanceRun list query" where
  "MaintenanceRunRepository_find_recent limit task = select_stmt (\<lambda>t.
     take limit (sort_key (\<lambda>m. - mr_created_at m)
       (filter (\<lambda>m. case task of Some k \<Rightarrow> mr_task m = k | None \<Rightarrow> True) (rows (maintenance_runs t)))))"

definition MaintenanceRunRepository_find_latest_success :: "string \<Rightarrow> MaintenanceRun option query" where
  "MaintenanceRunRepository_find_latest_success task = select_stmt (\<lambda>t.
     one_row (sort_key (\<lambda>m. - mr_created_at m)
       (filter (\<lambda>m. mr_task m = task \<and> mr_status m = ''success'') (rows (maintenance_runs t)))))"

record AuditLogFilters =
  af_resource_type :: "string option"
  af_resource_id :: "string option"
  af_actor_user_id :: "i32 option"
  af_action :: "string option"
  af_created_from :: "utc option"
  af_created_to :: "utc option"

definition audit_matches :: "AuditLogFilters \<Rightarrow> AuditLog \<Rightarrow> bool" where
  "audit_matches f a \<longleftrightarrow>
     (case af_resource_type f of Some x \<Rightarrow> al_resource_type a = x | None \<Rightarrow> True)
     \<and> (case af_resource_id f of Some x \<Rightarrow> al_resource_id a = Some x | None \<Rightarrow> True)
     \<and> (case af_actor_user_id f of Some x \<Rightarrow> al_actor_user_id a = Some x | None \<Rightarrow> True)
     \<and> (case af_action f of Some x \<Rightarrow> al_action a = x | None \<Rightarrow> True)
     \<and> (case af_created_from f of Some x \<Rightarrow> x \<le> al_created_at a | None \<Rightarrow> True)
     \<and> (case af_created_to f of Some x \<Rightarrow> al_created_at a \<le> x | None \<Rightarrow> True)"

definition AuditLogRepository_find_multiple :: "nat \<Rightarrow> AuditLogFilters \<Rightarrow> AuditLog list query" where
  "AuditLogRepository_find_multiple limit filters = select_stmt (\<lambda>t.
     take limit (sort_key (\<lambda>a. - al_created_at a) (filter (audit_matches filters) (rows (audit_logs t)))))"

definition AuditLogRepository_create :: "NewAuditLog \<Rightarrow> AuditLog query" where
  "AuditLogRepository_create a = bindM utc_now (\<lambda>now.
     insert_stmt audit_logs audit_logs_update audit_violation
       (\<lambda>i. NewAuditLog.extend a (AuditLog.fields i now)))"

definition AuditLogRepository_delete_older_than :: "utc \<Rightarrow> nat query" where
  "AuditLogRepository_delete_older_than created_before =
     bindM (delete_stmt audit_logs audit_logs_update no_restriction no_action
              (\<lambda>a. al_created_at a < created_before)) (\<lambda>gone. retM (length gone))"

end
