(* ===== verification/Connector_Config.thy ===== *)
theory Connector_Config
  imports Secrets Connector_Repository
begin

text \<open>
  \<^verbatim>\<open>src/src/connector_config_validation.rs\<close>: the checks of a connector configuration per adapter, and the
  validator of a configuration update (\<^verbatim>\<open>ConnectorConfigUpdate\<close> in \<^verbatim>\<open>src/src/models.rs\<close>) that calls them.
  A check takes the list of violations and returns it extended, as the code pushes onto a vector. The
  parser of JSON texts is a field of \<open>crypto\<close>.
\<close>

section \<open>Reading a JSON value\<close>

definition json_as_i64 :: "json \<Rightarrow> i64 option" where
  "json_as_i64 v = (case v of JInt n \<Rightarrow> if i64_min \<le> n \<and> n \<le> i64_max then Some n else None | _ \<Rightarrow> None)"

definition json_as_u64 :: "json \<Rightarrow> int option" where
  "json_as_u64 v = (case v of JInt n \<Rightarrow> if 0 \<le> n \<and> n \<le> u64_max then Some n else None | _ \<Rightarrow> None)"

definition json_as_object :: "json \<Rightarrow> (string \<times> json) list option" where
  "json_as_object v = (case v of JObject ms \<Rightarrow> Some ms | _ \<Rightarrow> None)"

definition json_is_array :: "json \<Rightarrow> bool" where
  "json_is_array v \<longleftrightarrow> json_as_array v \<noteq> None"

definition json_is_boolean :: "json \<Rightarrow> bool" where
  "json_is_boolean v = (case v of JBool _ \<Rightarrow> True | _ \<Rightarrow> False)"

text \<open>The first present field; blank and non-string values count as missing.\<close>

definition field_string :: "json \<Rightarrow> string list \<Rightarrow> string option" where
  "field_string config keys =
     (case List.find (\<lambda>f. json_get f config \<noteq> None) keys of
        None \<Rightarrow> None
      | Some f \<Rightarrow>
         (case map_option trim (Option.bind (json_get f config) json_as_str) of
            Some v \<Rightarrow> if v = [] then None else Some v
          | None \<Rightarrow> None))"

definition has_non_empty :: "json \<Rightarrow> string \<Rightarrow> bool" where
  "has_non_empty config field \<longleftrightarrow> field_string config [field] \<noteq> None"

section \<open>Checks of single keys\<close>

definition require_target :: "string \<Rightarrow> string \<Rightarrow> string \<Rightarrow> violations \<Rightarrow> violations" where
  "require_target adapter target expected = push_if (target \<noteq> expected) ''target''
     (adapter @ '' config requires target '' @ expected)"

definition require_one_of_targets :: "string \<Rightarrow> string \<Rightarrow> string list \<Rightarrow> violations \<Rightarrow> violations" where
  "require_one_of_targets adapter target expected = push_if (target \<notin> set expected) ''target''
     (adapter @ '' config requires target '' @ join_str '' or '' expected)"

definition validate_url_field :: "json \<Rightarrow> string \<Rightarrow> violations \<Rightarrow> violations" where
  "validate_url_field config field errors =
     (case field_string config [field] of
        None \<Rightarrow> errors
      | Some url \<Rightarrow> push_if (\<not> (starts_with ''http://'' url \<or> starts_with ''https://'' url)) ''config''
          (field @ '' must be an absolute HTTP URL'') errors)"

definition validate_url_fields :: "json \<Rightarrow> string list \<Rightarrow> violations \<Rightarrow> violations" where
  "validate_url_fields config keys errors = fold (validate_url_field config) keys errors"

definition require_url_any :: "json \<Rightarrow> string list \<Rightarrow> violations \<Rightarrow> violations" where
  "require_url_any config keys errors =
     (if \<not> list_ex (has_non_empty config) keys then
        errors @ [violation ''config'' (''must set one of '' @ join_str '', '' keys)]
      else validate_url_fields config keys errors)"

definition require_non_empty_when_missing_all ::
    "json \<Rightarrow> string \<Rightarrow> string list \<Rightarrow> string \<Rightarrow> violations \<Rightarrow> violations" where
  "require_non_empty_when_missing_all config field fallback_keys message =
     push_if (\<not> list_all (has_non_empty config) fallback_keys \<and> \<not> has_non_empty config field) ''config''
       (field @ '' '' @ message)"

text \<open>A numeric field is checked only when it is present.\<close>

definition validate_number :: "(json \<Rightarrow> int option) \<Rightarrow> (int \<Rightarrow> bool) \<Rightarrow> string \<Rightarrow> json \<Rightarrow> string \<Rightarrow> violations \<Rightarrow> violations" where
  "validate_number as_number ok wanted config field errors =
     (case json_get field config of
        None \<Rightarrow> errors
      | Some value \<Rightarrow> push_if (case as_number value of Some n \<Rightarrow> \<not> ok n | None \<Rightarrow> True) ''config''
          (field @ wanted) errors)"

definition validate_positive_i64 :: "json \<Rightarrow> string \<Rightarrow> violations \<Rightarrow> violations" where
  "validate_positive_i64 = validate_number json_as_i64 (\<lambda>n. n > 0) '' must be a positive integer''"

definition validate_positive_u64 :: "json \<Rightarrow> string \<Rightarrow> violations \<Rightarrow> violations" where
  "validate_positive_u64 = validate_number json_as_u64 (\<lambda>n. n > 0) '' must be a positive integer''"

definition range_message :: "int \<Rightarrow> int \<Rightarrow> string" where
  "range_message lo hi = '' must be an integer from '' @ show_int lo @ '' to '' @ show_int hi"

definition validate_u64_range :: "json \<Rightarrow> string \<Rightarrow> int \<Rightarrow> int \<Rightarrow> violations \<Rightarrow> violations" where
  "validate_u64_range config field lo hi =
     validate_number json_as_u64 (\<lambda>n. lo \<le> n \<and> n \<le> hi) (range_message lo hi) config field"

definition validate_i64_range :: "json \<Rightarrow> string \<Rightarrow> i64 \<Rightarrow> i64 \<Rightarrow> violations \<Rightarrow> violations" where
  "validate_i64_range config field lo hi =
     validate_number json_as_i64 (\<lambda>n. lo \<le> n \<and> n \<le> hi) (range_message lo hi) config field"

definition validate_boolean :: "json \<Rightarrow> string \<Rightarrow> violations \<Rightarrow> violations" where
  "validate_boolean config field = push_if
     (case json_get field config of Some v \<Rightarrow> \<not> json_is_boolean v | None \<Rightarrow> False) ''config''
     (field @ '' must be a boolean'')"

definition header_specials :: string where
  "header_specials = ''!#$%&'' @ [CHR 0x27] @ ''*+-.^_'' @ [CHR 0x60] @ ''|~''"

definition valid_header_name :: "string \<Rightarrow> bool" where
  "valid_header_name value = list_all (\<lambda>c. c \<in> set header_specials \<or> is_ascii_alphanumeric c) value"

section \<open>Adapters\<close>

definition validate_azure_due_date_field :: "json \<Rightarrow> violations \<Rightarrow> violations" where
  "validate_azure_due_date_field config errors =
     (case json_get ''due_date_field'' config of
        None \<Rightarrow> errors
      | Some value \<Rightarrow>
         (case map_option trim (json_as_str value) of
            None \<Rightarrow> errors @ [violation ''config'' ''due_date_field must be a non-empty string when provided'']
          | Some field \<Rightarrow>
              if field = [] then errors @ [violation ''config'' ''due_date_field must be a non-empty string when provided'']
              else push_if (length field > 128) ''config'' ''due_date_field must be at most 128 characters'' errors))"

definition validate_mapping :: "string \<times> json \<Rightarrow> violations \<Rightarrow> violations" where
  "validate_mapping m errors =
     push_if (case json_as_i64 (snd m) of Some v \<Rightarrow> \<not> (1 \<le> v \<and> v \<le> i32_max) | None \<Rightarrow> True) ''config''
       ''assignee_user_mappings values must be positive portal user ids''
       (push_if (is_blank (fst m) \<or> length (fst m) > 512) ''config''
          ''assignee_user_mappings keys must be non-empty source descriptors of at most 512 characters'' errors)"

definition validate_azure_assignee_mappings :: "json \<Rightarrow> violations \<Rightarrow> violations" where
  "validate_azure_assignee_mappings config errors =
     (case json_get ''assignee_user_mappings'' config of
        None \<Rightarrow> errors
      | Some value \<Rightarrow>
         (case json_as_object value of
            None \<Rightarrow> errors @ [violation ''config''
              ''assignee_user_mappings must be an object of source descriptors to portal user ids'']
          | Some mappings \<Rightarrow> fold validate_mapping mappings errors))"

text \<open>The checks of an adapter one after the other, on the list they extend.\<close>

definition run_checks :: "(violations \<Rightarrow> violations) list \<Rightarrow> violations \<Rightarrow> violations" where
  "run_checks cs errors = fold (\<lambda>c es. c es) cs errors"

definition validate_azure_devops :: "string \<Rightarrow> json \<Rightarrow> violations \<Rightarrow> violations" where
  "validate_azure_devops target config = run_checks
     [require_target ''azure_devops'' target ''work_cards'',
      require_non_empty_when_missing_all config ''organization'' [''wiql_url'', ''work_items_url'']
        ''must be set when wiql_url and work_items_url are not both provided'',
      require_non_empty_when_missing_all config ''project'' [''wiql_url'', ''work_items_url'']
        ''must be set when wiql_url and work_items_url are not both provided'',
      validate_url_fields config [''wiql_url'', ''work_items_url'', ''base_url'', ''web_url_base''],
      validate_positive_u64 config ''timeout_seconds'',
      validate_u64_range config ''max_items'' 1 10000,
      validate_azure_due_date_field config,
      validate_azure_assignee_mappings config]"

definition validate_monitoring :: "string \<Rightarrow> json \<Rightarrow> violations \<Rightarrow> violations" where
  "validate_monitoring target config = run_checks
     [require_target ''monitoring'' target ''service_health'',
      require_url_any config [''url''],
      validate_positive_i64 config ''default_maintainer_id'',
      validate_positive_u64 config ''timeout_seconds'']"

definition validate_graph_calendar :: "string \<Rightarrow> json \<Rightarrow> violations \<Rightarrow> violations" where
  "validate_graph_calendar target config = run_checks
     [require_one_of_targets ''microsoft_graph_calendar'' target [''calendar_events'', ''notifications''],
      validate_url_fields config [''calendar_view_url'', ''base_url'', ''token_url'', ''authorization_url''],
      validate_positive_u64 config ''timeout_seconds'',
      validate_u64_range config ''top'' 1 50,
      validate_i64_range config ''lookahead_hours'' 1 168,
      validate_u64_range config ''max_pages'' 1 100,
      validate_u64_range config ''max_items'' 1 10000]"

definition validate_graph_mail :: "string \<Rightarrow> json \<Rightarrow> violations \<Rightarrow> violations" where
  "validate_graph_mail target config = run_checks
     [require_target ''microsoft_graph_mail'' target ''notifications'',
      validate_url_fields config [''messages_url'', ''mail_messages_url'', ''base_url'', ''token_url'',
        ''authorization_url''],
      validate_positive_u64 config ''timeout_seconds'',
      validate_u64_range config ''top'' 1 50,
      validate_i64_range config ''lookback_hours'' 1 720,
      validate_u64_range config ''max_pages'' 1 100,
      validate_u64_range config ''max_items'' 1 10000]"

definition validate_erp_private_messages :: "string \<Rightarrow> json \<Rightarrow> violations \<Rightarrow> violations" where
  "validate_erp_private_messages target config = run_checks
     [require_target ''erp_private_messages'' target ''notifications'',
      require_url_any config [''messages_url'', ''private_messages_url'', ''url''],
      validate_positive_u64 config ''timeout_seconds'',
      validate_u64_range config ''top'' 1 100,
      validate_u64_range config ''limit'' 1 100,
      validate_i64_range config ''lookback_hours'' 1 720,
      validate_boolean config ''snapshot_complete'',
      push_if (case field_string config [''api_key_header''] of Some h \<Rightarrow> \<not> valid_header_name h | None \<Rightarrow> False)
        ''config'' ''api_key_header must be a valid HTTP header name'']"

definition validate_sample_array :: "string \<Rightarrow> json \<Rightarrow> string \<Rightarrow> string list \<Rightarrow> violations \<Rightarrow> violations" where
  "validate_sample_array target config field targets = run_checks
     [require_one_of_targets ''sample notification adapter'' target targets,
      push_if (case json_get field config of Some v \<Rightarrow> \<not> json_is_array v | None \<Rightarrow> False) ''config''
        (field @ '' must be an array when provided'')]"

text \<open>\<open>Inl\<close> of the new violations and no adapter, \<open>Inr\<close> the adapter, \<open>Inl []\<close> when there is none to check.\<close>

definition adapter_name :: "json \<Rightarrow> violations + string" where
  "adapter_name config =
     (case json_get ''adapter'' config of
        None \<Rightarrow> Inl []
      | Some adapter \<Rightarrow>
         (case json_as_str adapter of
            None \<Rightarrow> Inl [violation ''config'' ''adapter must be a string'']
          | Some a \<Rightarrow> if trim a = [] then Inl [violation ''config'' ''adapter must not be empty'']
              else Inr (trim a)))"

definition validate_adapter :: "string \<Rightarrow> string \<Rightarrow> json \<Rightarrow> violations \<Rightarrow> violations" where
  "validate_adapter adapter target config errors =
     (if adapter = ''azure_devops'' then validate_azure_devops target config errors
      else if adapter = ''monitoring'' then validate_monitoring target config errors
      else if adapter \<in> set [''microsoft_graph_calendar'', ''graph_calendar'', ''outlook_calendar'']
        then validate_graph_calendar target config errors
      else if adapter \<in> set [''microsoft_graph_mail'', ''graph_mail'', ''outlook_mail'']
        then validate_graph_mail target config errors
      else if adapter \<in> set [''erp_private_messages'', ''erp_messages_http'', ''erp_http'']
        then validate_erp_private_messages target config errors
      else if adapter \<in> set [''calendar_sample'', ''calendar'']
        then validate_sample_array target config ''events'' [''calendar_events'', ''notifications''] errors
      else if adapter \<in> set [''outlook_mail_sample'', ''outlook'']
        then validate_sample_array target config ''messages'' [''notifications''] errors
      else if adapter \<in> set [''erp_messages_sample'', ''erp_messages'', ''erp'']
        then validate_sample_array target config ''messages'' [''notifications''] errors
      else errors @ [violation ''config'' (''adapter '' @ adapter @ '' is not supported'')])"

definition validate_connector_config_adapter :: "string \<Rightarrow> json \<Rightarrow> violations \<Rightarrow> violations" where
  "validate_connector_config_adapter target config errors =
     (if json_as_object config = None then errors @ [violation ''config'' ''must be a JSON object'']
      else (case adapter_name config of
          Inl es \<Rightarrow> errors @ es
        | Inr adapter \<Rightarrow> validate_adapter adapter target config errors))"

section \<open>Configuration updates\<close>

definition validate_schedule :: "string option \<Rightarrow> violations \<Rightarrow> violations" where
  "validate_schedule schedule_cron errors =
     (case schedule_cron of
        None \<Rightarrow> errors
      | Some s \<Rightarrow>
         (case schedule_interval_seconds s of
            None \<Rightarrow> errors @ [violation ''schedule_cron''
              ''must be @every <n>s, @every <n>m, @every <n>h, @hourly, or @daily'']
          | Some n \<Rightarrow> push_if (n < MIN_CONNECTOR_SCHEDULE_INTERVAL_SECONDS) ''schedule_cron''
              ''must run no more often than once every 60 seconds'' errors))"

definition validate_config_text :: "crypto \<Rightarrow> string \<Rightarrow> string \<Rightarrow> violations \<Rightarrow> violations" where
  "validate_config_text cx target config errors =
     (case cx_parse cx config of
        Inr v \<Rightarrow> validate_connector_config_adapter target v errors
      | Inl _ \<Rightarrow> errors @ [violation ''config'' ''must be valid JSON''])"

definition validate_sample_payload :: "crypto \<Rightarrow> string \<Rightarrow> violations \<Rightarrow> violations" where
  "validate_sample_payload cx sample_payload errors =
     (case cx_parse cx sample_payload of
        Inr v \<Rightarrow> push_if (Option.bind (json_get ''items'' v) json_as_array = None) ''sample_payload''
          ''must include an items array'' errors
      | Inl _ \<Rightarrow> errors @ [violation ''sample_payload'' ''must be valid JSON''])"

definition ConnectorConfigUpdate_validate :: "crypto \<Rightarrow> ConnectorConfigUpdate \<Rightarrow> violations" where
  "ConnectorConfigUpdate_validate cx u = checks
     [required ''target'' (cf_target u),
      max_len ''target'' (cf_target u) 64,
      one_of ''target'' (cf_target u) connector_targets,
      max_optional_len ''schedule_cron'' (cf_schedule_cron u) 128,
      validate_schedule (cf_schedule_cron u),
      required ''config'' (cf_config u),
      max_len ''config'' (cf_config u) 65535,
      required ''sample_payload'' (cf_sample_payload u),
      max_len ''sample_payload'' (cf_sample_payload u) 1000000,
      validate_config_text cx (cf_target u) (cf_config u),
      validate_sample_payload cx (cf_sample_payload u)]"

end
