(* ===== verification/Connector_Runs.thy ===== *)
theory Connector_Runs
  imports Connector_Repository
begin

text \<open>
  \<^verbatim>\<open>ConnectorRunRepository\<close> of \<^verbatim>\<open>src/src/repositories.rs\<close>: the queue of connector runs, their
  claims, leases, cancellation, finalisation, recovery and retention, and the item tables of a run.
  The changes a statement makes to a row are functions of their own (\<open>claim_row\<close>, \<open>requeue_row\<close>
  and so on), so that the life cycle of a run can be read, and proved, row by row.
\<close>

section \<open>Queries\<close>

definition ConnectorRunRepository_find :: "i32 \<Rightarrow> ConnectorRun query" where
  "ConnectorRunRepository_find i =
     bindM (select_stmt (\<lambda>t. first_row (\<lambda>r. cr_id r = i) (rows (connector_runs t)))) expect_row"

definition matches_opt :: "'a option \<Rightarrow> 'a \<Rightarrow> bool" where
  "matches_opt f x = (case f of None \<Rightarrow> True | Some y \<Rightarrow> x = y)"

definition ConnectorRunRepository_find_multiple ::
    "nat \<Rightarrow> string option \<Rightarrow> string option \<Rightarrow> ConnectorRun list query" where
  "ConnectorRunRepository_find_multiple limit source target = select_stmt (\<lambda>t.
     take limit (sort_key (\<lambda>r. - cr_started_at r)
       (filter (\<lambda>r. matches_opt source (cr_source r) \<and> matches_opt target (cr_target r))
          (rows (connector_runs t)))))"

text \<open>The inner join with \<^verbatim>\<open>connectors\<close> on \<^verbatim>\<open>source\<close>: a run appears once per matching connector.\<close>

definition run_connectors :: "tables \<Rightarrow> (ConnectorRun \<times> Connector) list" where
  "run_connectors t = concat (map (\<lambda>r. map (\<lambda>c. (r, c))
     (filter (\<lambda>c. cn_source c = cr_source r) (rows (connectors t)))) (rows (connector_runs t)))"

definition ConnectorRunRepository_find_multiple_for_access ::
    "nat \<Rightarrow> string option \<Rightarrow> string option \<Rightarrow> RecordAccessScope \<Rightarrow> ConnectorRun list query" where
  "ConnectorRunRepository_find_multiple_for_access limit source target access = select_stmt (\<lambda>t.
     take limit (sort_key (\<lambda>r. - cr_started_at r) (map fst
       (filter (\<lambda>(r, c). matches_opt source (cr_source r) \<and> matches_opt target (cr_target r)
            \<and> access_filter access (cn_owner_user_id c) (cn_maintainer_id c)) (run_connectors t)))))"

definition ConnectorRunRepository_find_failed_for_access ::
    "nat \<Rightarrow> i32 option \<Rightarrow> string option \<Rightarrow> RecordAccessScope \<Rightarrow> ConnectorRun list query" where
  "ConnectorRunRepository_find_failed_for_access limit maintainer_id source access = select_stmt (\<lambda>t.
     take limit (sort_key (\<lambda>r. - cr_started_at r) (map fst
       (filter (\<lambda>(r, c). cr_status r \<in> set [''failed'', ''partial_success'']
            \<and> (case maintainer_id of Some m \<Rightarrow> cn_maintainer_id c = Some m | None \<Rightarrow> True)
            \<and> matches_opt source (cr_source r)
            \<and> access_filter access (cn_owner_user_id c) (cn_maintainer_id c)) (run_connectors t)))))"

definition pending_for :: "string \<Rightarrow> string \<Rightarrow> ConnectorRun \<Rightarrow> bool" where
  "pending_for source target r \<longleftrightarrow> cr_source r = source \<and> cr_target r = target \<and> run_is_active r"

definition ConnectorRunRepository_has_pending :: "string \<Rightarrow> string \<Rightarrow> bool query" where
  "ConnectorRunRepository_has_pending source target =
     bindM (select_stmt (\<lambda>t. count_rows (pending_for source target) (rows (connector_runs t))))
       (\<lambda>n. retM (n > 0))"

section \<open>Creating runs\<close>

definition insert_run :: "NewConnectorRun \<Rightarrow> ConnectorRun query" where
  "insert_run n = insert_stmt connector_runs connector_runs_update run_violation
     (\<lambda>i. NewConnectorRun.extend n (ConnectorRun.fields i))"

definition ConnectorRunRepository_create :: "NewConnectorRun \<Rightarrow> ConnectorRun query" where
  "ConnectorRunRepository_create n = insert_run n"

text \<open>\<^verbatim>\<open>SELECT id FROM connectors WHERE source = ... FOR UPDATE\<close>\<close>

definition lock_connector :: "string \<Rightarrow> i32 query" where
  "lock_connector source =
     bindM (ConnectorRepository_find_by_source source) (\<lambda>c. retM (cn_id c))"

definition insert_unless_pending :: "NewConnectorRun \<Rightarrow> ConnectorRun option query" where
  "insert_unless_pending n =
     bindM (ConnectorRunRepository_has_pending (cr_source n) (cr_target n)) (\<lambda>pending.
     if pending then retM None else bindM (insert_run n) (\<lambda>r. retM (Some r)))"

definition ConnectorRunRepository_create_if_no_pending ::
    "NewConnectorRun \<Rightarrow> ConnectorRun option query" where
  "ConnectorRunRepository_create_if_no_pending n = query_transaction (
     bindM (lock_connector (cr_source n)) (\<lambda>_. insert_unless_pending n))"

definition ConnectorRunRepository_create_retry ::
    "i32 \<Rightarrow> NewConnectorRun \<Rightarrow> ConnectorRun option query" where
  "ConnectorRunRepository_create_retry parent_run_id n = query_transaction (
     bindM (lock_connector (cr_source n)) (\<lambda>_.
     bindM (ConnectorRunRepository_find parent_run_id) (\<lambda>_.
     insert_unless_pending n)))"

section \<open>Claims and leases\<close>

definition update_runs ::
    "(ConnectorRun \<Rightarrow> bool) \<Rightarrow> (ConnectorRun \<Rightarrow> ConnectorRun) \<Rightarrow> ConnectorRun list query" where
  "update_runs p f = update_stmt connector_runs connector_runs_update run_violation p f"

definition claimable :: "utc \<Rightarrow> ConnectorRun \<Rightarrow> bool" where
  "claimable now r \<longleftrightarrow> cr_status r = ''queued'' \<and> cr_next_attempt_at r \<le> now
     \<and> cr_cancel_requested_at r = None \<and> cr_attempt_count r < cr_max_attempts r"

definition claim_key :: "ConnectorRun \<Rightarrow> int \<times> int \<times> int" where
  "claim_key r = (cr_next_attempt_at r, cr_started_at r, cr_id r)"

definition claim_row :: "utc \<Rightarrow> string \<Rightarrow> i64 \<Rightarrow> ConnectorRun \<Rightarrow> ConnectorRun \<Rightarrow> ConnectorRun" where
  "claim_row now worker_id lease_seconds queued r =
     r\<lparr>cr_status := ''running'', cr_claimed_at := Some now, cr_worker_id := Some worker_id,
       cr_attempt_count := cr_attempt_count queued + 1,
       cr_lease_expires_at := Some (now + seconds lease_seconds), cr_heartbeat_at := Some now,
       cr_finished_at := None, cr_cancelled_at := None\<rparr>"

definition ConnectorRunRepository_claim_next_queued ::
    "string \<Rightarrow> i64 \<Rightarrow> ConnectorRun option query" where
  "ConnectorRunRepository_claim_next_queued worker_id lease_seconds = query_transaction (
     bindM utc_now (\<lambda>now.
     bindM (select_stmt (\<lambda>t. one_row (sort_key claim_key
              (filter (claimable now) (rows (connector_runs t)))))) (\<lambda>queued.
     case queued of
       None \<Rightarrow> retM None
     | Some q \<Rightarrow>
         bindM (update_runs (\<lambda>r. cr_id r = cr_id q) (claim_row now worker_id lease_seconds q))
           (\<lambda>rs. bindM (expect_row (one_row rs)) (\<lambda>r. retM (Some r))))))"

definition leased_by :: "utc \<Rightarrow> string \<Rightarrow> ConnectorRun \<Rightarrow> bool" where
  "leased_by now worker_id r \<longleftrightarrow> cr_worker_id r = Some worker_id
     \<and> (case cr_lease_expires_at r of Some e \<Rightarrow> e > now | None \<Rightarrow> False)"

definition renew_row :: "utc \<Rightarrow> i64 \<Rightarrow> ConnectorRun \<Rightarrow> ConnectorRun" where
  "renew_row now lease_seconds r =
     r\<lparr>cr_heartbeat_at := Some now, cr_lease_expires_at := Some (now + seconds lease_seconds)\<rparr>"

definition ConnectorRunRepository_renew_lease :: "i32 \<Rightarrow> string \<Rightarrow> i64 \<Rightarrow> bool query" where
  "ConnectorRunRepository_renew_lease i worker_id lease_seconds =
     bindM utc_now (\<lambda>now.
     bindM (update_runs (\<lambda>r. cr_id r = i \<and> cr_status r = ''running'' \<and> leased_by now worker_id r
              \<and> cr_cancel_requested_at r = None) (renew_row now lease_seconds))
       (\<lambda>rs. retM (length rs = 1)))"

text \<open>The owner of an execution: a worker with an unexpired lease, or the request handler itself
  (\<^verbatim>\<open>worker_id\<close> absent), which holds no lease.\<close>

definition owned_by :: "utc \<Rightarrow> string option \<Rightarrow> ConnectorRun \<Rightarrow> bool" where
  "owned_by now worker_id r =
     (case worker_id of Some w \<Rightarrow> leased_by now w r | None \<Rightarrow> cr_worker_id r = None)"

definition execution_active :: "utc \<Rightarrow> i32 \<Rightarrow> string option \<Rightarrow> ConnectorRun \<Rightarrow> bool" where
  "execution_active now i worker_id r \<longleftrightarrow> cr_id r = i \<and> cr_status r = ''running''
     \<and> cr_cancel_requested_at r = None \<and> owned_by now worker_id r"

definition ConnectorRunRepository_execution_is_active :: "i32 \<Rightarrow> string option \<Rightarrow> bool query" where
  "ConnectorRunRepository_execution_is_active i worker_id =
     bindM utc_now (\<lambda>now.
     bindM (select_stmt (\<lambda>t. count_rows (execution_active now i worker_id) (rows (connector_runs t))))
       (\<lambda>n. retM (n = 1)))"

definition ConnectorRunRepository_cancellation_requested :: "i32 \<Rightarrow> bool query" where
  "ConnectorRunRepository_cancellation_requested i =
     bindM (select_stmt (\<lambda>t. count_rows (\<lambda>r. cr_id r = i \<and> cr_cancel_requested_at r \<noteq> None)
              (rows (connector_runs t)))) (\<lambda>n. retM (n = 1))"

section \<open>Settling a run\<close>

definition finalize_row :: "utc \<Rightarrow> ConnectorRunStateUpdate \<Rightarrow> ConnectorRun \<Rightarrow> ConnectorRun" where
  "finalize_row now st r =
     r\<lparr>cr_status := rs_status st, cr_success_count := rs_success_count st,
       cr_failure_count := rs_failure_count st, cr_duration_ms := rs_duration_ms st,
       cr_error_message := rs_error_message st, cr_finished_at := rs_finished_at st,
       cr_snapshot_complete := rs_snapshot_complete st, cr_archived_count := rs_archived_count st,
       cr_lease_expires_at := None, cr_heartbeat_at := Some now\<rparr>"

definition ConnectorRunRepository_finalize_if_active ::
    "i32 \<Rightarrow> string option \<Rightarrow> ConnectorRunStateUpdate \<Rightarrow> ConnectorRun option query" where
  "ConnectorRunRepository_finalize_if_active i worker_id st =
     bindM utc_now (\<lambda>now.
     bindM (update_runs (execution_active now i worker_id) (finalize_row now st))
       (\<lambda>rs. retM (one_row rs)))"

definition cancel_queued_row :: "utc \<Rightarrow> ConnectorRun \<Rightarrow> ConnectorRun" where
  "cancel_queued_row now r =
     r\<lparr>cr_status := ''cancelled'', cr_cancel_requested_at := Some now, cr_cancelled_at := Some now,
       cr_finished_at := Some now, cr_lease_expires_at := None\<rparr>"

definition ConnectorRunRepository_request_cancel :: "i32 \<Rightarrow> ConnectorRun option query" where
  "ConnectorRunRepository_request_cancel i = query_transaction (
     bindM (ConnectorRunRepository_find i) (\<lambda>run.
     bindM utc_now (\<lambda>now.
     if cr_status run = ''queued'' then
       bindM (update_runs (\<lambda>r. cr_id r = i) (cancel_queued_row now))
         (\<lambda>rs. bindM (expect_row (one_row rs)) (\<lambda>r. retM (Some r)))
     else if cr_status run = ''running'' then
       bindM (update_runs (\<lambda>r. cr_id r = i) (\<lambda>r. r\<lparr>cr_cancel_requested_at := Some now\<rparr>))
         (\<lambda>rs. bindM (expect_row (one_row rs)) (\<lambda>r. retM (Some r)))
     else retM None)))"

definition mark_cancelled_row :: "utc \<Rightarrow> ConnectorRun \<Rightarrow> ConnectorRun" where
  "mark_cancelled_row now r =
     r\<lparr>cr_status := ''cancelled'', cr_cancelled_at := Some now, cr_finished_at := Some now,
       cr_lease_expires_at := None, cr_heartbeat_at := Some now,
       cr_error_message := Some ''cancelled by operator''\<rparr>"

definition ConnectorRunRepository_mark_cancelled_if_requested ::
    "i32 \<Rightarrow> string option \<Rightarrow> ConnectorRun option query" where
  "ConnectorRunRepository_mark_cancelled_if_requested i worker_id =
     bindM utc_now (\<lambda>now.
     bindM (update_runs (\<lambda>r. cr_id r = i \<and> cr_status r = ''running'' \<and> cr_worker_id r = worker_id
              \<and> cr_cancel_requested_at r \<noteq> None) (mark_cancelled_row now))
       (\<lambda>rs. retM (one_row rs)))"

section \<open>Recovery of expired leases\<close>

definition bounded_retry_backoff_seconds :: "i32 \<Rightarrow> i64 \<Rightarrow> i64 \<Rightarrow> i64" where
  "bounded_retry_backoff_seconds attempt_count base_seconds max_seconds =
     (let base_seconds = max base_seconds 1;
          max_seconds = max max_seconds base_seconds;
          exponent = nat (clamp_int 0 30 (saturating_sub_i32 attempt_count 1))
      in min (saturating_mul_i64 base_seconds (2 ^ exponent)) max_seconds)"

record ConnectorRunRecoveryStats =
  st_requeued :: nat
  st_failed :: nat
  st_cancelled :: nat

definition lease_expired :: "utc \<Rightarrow> ConnectorRun \<Rightarrow> bool" where
  "lease_expired now r \<longleftrightarrow> cr_status r = ''running''
     \<and> (case cr_lease_expires_at r of Some e \<Rightarrow> e \<le> now | None \<Rightarrow> False)"

definition recover_cancel_row :: "utc \<Rightarrow> ConnectorRun \<Rightarrow> ConnectorRun" where
  "recover_cancel_row now r =
     r\<lparr>cr_status := ''cancelled'', cr_cancelled_at := Some now, cr_finished_at := Some now,
       cr_lease_expires_at := None,
       cr_error_message := Some ''cancelled after worker lease expired''\<rparr>"

definition recover_fail_row :: "utc \<Rightarrow> ConnectorRun \<Rightarrow> ConnectorRun \<Rightarrow> ConnectorRun" where
  "recover_fail_row now run r =
     r\<lparr>cr_status := ''failed'', cr_finished_at := Some now, cr_lease_expires_at := None,
       cr_error_message := Some (''worker lease expired after '' @ show_int (cr_attempt_count run)
         @ '' attempt(s); retry limit reached'')\<rparr>"

definition requeue_row :: "utc \<Rightarrow> i64 \<Rightarrow> ConnectorRun \<Rightarrow> ConnectorRun \<Rightarrow> ConnectorRun" where
  "requeue_row now backoff run r =
     r\<lparr>cr_status := ''queued'', cr_next_attempt_at := now + seconds backoff, cr_claimed_at := None,
       cr_worker_id := None, cr_lease_expires_at := None, cr_heartbeat_at := None,
       cr_error_message := Some (''worker lease expired on attempt '' @ show_int (cr_attempt_count run)
         @ ''; retry scheduled in '' @ show_int backoff @ '' second(s)'')\<rparr>"

definition recover_one ::
    "utc \<Rightarrow> i64 \<Rightarrow> i64 \<Rightarrow> ConnectorRun \<Rightarrow> ConnectorRunRecoveryStats \<Rightarrow>
     ConnectorRunRecoveryStats query" where
  "recover_one now retry_base retry_max run stats =
     (if cr_cancel_requested_at run \<noteq> None then
        bindM (update_runs (\<lambda>r. cr_id r = cr_id run) (recover_cancel_row now))
          (\<lambda>_. retM (stats\<lparr>st_cancelled := st_cancelled stats + 1\<rparr>))
      else if cr_attempt_count run \<ge> cr_max_attempts run then
        bindM (update_runs (\<lambda>r. cr_id r = cr_id run) (recover_fail_row now run)) (\<lambda>_.
        bindM (update_stmt connectors connectors_update connector_violation
                 (\<lambda>c. cn_source c = cr_source run)
                 (\<lambda>c. c\<lparr>cn_status := ''error'', cn_last_run_at := Some now, cn_updated_at := now\<rparr>))
          (\<lambda>_. retM (stats\<lparr>st_failed := st_failed stats + 1\<rparr>)))
      else
        bindM (update_runs (\<lambda>r. cr_id r = cr_id run)
                 (requeue_row now
                    (bounded_retry_backoff_seconds (cr_attempt_count run) retry_base retry_max) run))
          (\<lambda>_. retM (stats\<lparr>st_requeued := st_requeued stats + 1\<rparr>)))"

definition recovery_key :: "ConnectorRun \<Rightarrow> (int \<times> int) \<times> int" where
  "recovery_key r = (nulls_last (cr_lease_expires_at r), cr_id r)"

definition ConnectorRunRepository_recover_expired_leases ::
    "i64 \<Rightarrow> i64 \<Rightarrow> nat \<Rightarrow> ConnectorRunRecoveryStats query" where
  "ConnectorRunRepository_recover_expired_leases retry_base retry_max limit = query_transaction (
     bindM utc_now (\<lambda>now.
     bindM (select_stmt (\<lambda>t. take limit (sort_key recovery_key
              (filter (lease_expired now) (rows (connector_runs t)))))) (\<lambda>expired.
     foldM (recover_one now retry_base retry_max) expired
       \<lparr>st_requeued = 0, st_failed = 0, st_cancelled = 0\<rparr>)))"

section \<open>Unconditional update, retention, items\<close>

definition ConnectorRunRepository_update_state ::
    "i32 \<Rightarrow> ConnectorRunStateUpdate \<Rightarrow> ConnectorRun query" where
  "ConnectorRunRepository_update_state i st =
     bindM utc_now (\<lambda>now.
     bindM (update_runs (\<lambda>r. cr_id r = i) (finalize_row now st)) (expect_row \<circ> one_row))"

definition finished_before :: "utc \<Rightarrow> ConnectorRun \<Rightarrow> bool" where
  "finished_before cutoff r = (case cr_finished_at r of Some f \<Rightarrow> f < cutoff | None \<Rightarrow> False)"

definition ConnectorRunRepository_delete_finished_older_than :: "utc \<Rightarrow> nat query" where
  "ConnectorRunRepository_delete_finished_older_than cutoff =
     bindM (delete_stmt connector_runs connector_runs_update no_restriction runs_on_delete
              (finished_before cutoff)) (\<lambda>gone. retM (length gone))"

definition ConnectorRunItemErrorRepository_find_by_run :: "i32 \<Rightarrow> ConnectorRunItemError list query" where
  "ConnectorRunItemErrorRepository_find_by_run run_id = select_stmt (\<lambda>t.
     sort_key re_id (filter (\<lambda>i. re_connector_run_id i = run_id) (rows (connector_run_item_errors t))))"

definition ConnectorRunItemErrorRepository_create_many ::
    "NewConnectorRunItemError list \<Rightarrow> ConnectorRunItemError list query" where
  "ConnectorRunItemErrorRepository_create_many new_errors =
     (if new_errors = [] then retM []
      else bindM utc_now (\<lambda>now.
        stmt (insert_rows connector_run_item_errors connector_run_item_errors_update
          run_item_error_violation
          (map (\<lambda>e i. NewConnectorRunItemError.extend e (ConnectorRunItemError.fields i now))
             new_errors))))"

definition ConnectorRunItemRepository_find_by_run :: "i32 \<Rightarrow> ConnectorRunItem list query" where
  "ConnectorRunItemRepository_find_by_run run_id = select_stmt (\<lambda>t.
     sort_key ri_id (filter (\<lambda>i. ri_connector_run_id i = run_id) (rows (connector_run_items t))))"

definition ConnectorRunItemRepository_create_many ::
    "NewConnectorRunItem list \<Rightarrow> ConnectorRunItem list query" where
  "ConnectorRunItemRepository_create_many new_items =
     (if new_items = [] then retM []
      else bindM utc_now (\<lambda>now.
        stmt (insert_rows connector_run_items connector_run_items_update run_item_violation
          (map (\<lambda>e i. NewConnectorRunItem.extend e (ConnectorRunItem.fields i now)) new_items))))"

end
