(* ===== verification/Run_Lifecycle.thy ===== *)
theory Run_Lifecycle
  imports Connector_Runs
begin

text \<open>
  The life cycle of a connector run as a transition relation on rows, the invariant of the
  \<^verbatim>\<open>connector_runs\<close> table, and the contract of the repository operations: every operation, under any
  clock and any pattern of failures, changes existing rows only along the life cycle, deletes only
  settled runs, and adds a run only where none is active. The locale \<open>run_operation\<close> states that
  contract once; each operation of \<open>Connector_Runs\<close> is an interpretation of it.
\<close>

section \<open>Transitions of one run\<close>

definition settles :: "ConnectorRunStateUpdate \<Rightarrow> bool" where
  "settles st \<longleftrightarrow> rs_status st \<in> set [''success'', ''partial_success'', ''failed'']
     \<and> rs_finished_at st \<noteq> None \<and> 0 \<le> rs_archived_count st"

inductive run_trans :: "ConnectorRun \<Rightarrow> ConnectorRun \<Rightarrow> bool" where
  claim: "claimable now r \<Longrightarrow> run_trans r (claim_row now w l r r)"
| renew: "cr_status r = ''running'' \<Longrightarrow> leased_by now w r \<Longrightarrow> cr_cancel_requested_at r = None \<Longrightarrow>
     run_trans r (renew_row now l r)"
| finalize: "execution_active now i w r \<Longrightarrow> settles st \<Longrightarrow> run_trans r (finalize_row now st r)"
| cancel_queued: "cr_status r = ''queued'' \<Longrightarrow> run_trans r (cancel_queued_row now r)"
| request_cancel: "cr_status r = ''running'' \<Longrightarrow>
     run_trans r (r\<lparr>cr_cancel_requested_at := Some now\<rparr>)"
| mark_cancelled: "cr_status r = ''running'' \<Longrightarrow> cr_cancel_requested_at r \<noteq> None \<Longrightarrow>
     run_trans r (mark_cancelled_row now r)"
| recover_cancel: "lease_expired now r \<Longrightarrow> cr_cancel_requested_at r \<noteq> None \<Longrightarrow>
     run_trans r (recover_cancel_row now r)"
| recover_fail: "lease_expired now r \<Longrightarrow> cr_cancel_requested_at r = None \<Longrightarrow>
     cr_attempt_count r \<ge> cr_max_attempts r \<Longrightarrow> run_trans r (recover_fail_row now r r)"
| requeue: "lease_expired now r \<Longrightarrow> cr_cancel_requested_at r = None \<Longrightarrow>
     cr_attempt_count r < cr_max_attempts r \<Longrightarrow> run_trans r (requeue_row now b r r)"
| forget_parent: "run_trans r (r\<lparr>cr_parent_run_id := p\<rparr>)"

lemmas row_defs = claim_row_def renew_row_def finalize_row_def cancel_queued_row_def
  mark_cancelled_row_def recover_cancel_row_def recover_fail_row_def requeue_row_def

lemmas guard_defs = claimable_def execution_active_def leased_by_def lease_expired_def settles_def
  run_is_active_def

text \<open>What a row of the table satisfies between any two operations.\<close>

definition run_ok :: "ConnectorRun \<Rightarrow> bool" where
  "run_ok r \<longleftrightarrow>
     cr_status r \<in> set run_statuses
     \<and> 0 \<le> cr_attempt_count r \<and> cr_attempt_count r \<le> cr_max_attempts r \<and> 0 < cr_max_attempts r
     \<and> (cr_status r = ''queued'' \<longrightarrow> cr_attempt_count r < cr_max_attempts r
          \<and> cr_cancel_requested_at r = None \<and> cr_worker_id r = None
          \<and> cr_lease_expires_at r = None \<and> cr_finished_at r = None)
     \<and> (cr_status r = ''running'' \<longrightarrow> cr_finished_at r = None
          \<and> (cr_worker_id r = None \<longleftrightarrow> cr_lease_expires_at r = None))
     \<and> (\<not> run_is_active r \<longrightarrow> cr_finished_at r \<noteq> None \<and> cr_lease_expires_at r = None)
     \<and> (cr_status r = ''cancelled'' \<longleftrightarrow> cr_cancelled_at r \<noteq> None)
     \<and> (cr_cancel_requested_at r \<noteq> None \<longrightarrow> cr_status r \<in> set [''running'', ''cancelled''])"

definition same_job :: "ConnectorRun \<Rightarrow> ConnectorRun \<Rightarrow> bool" where
  "same_job r r' \<longleftrightarrow> cr_id r' = cr_id r \<and> cr_source r' = cr_source r \<and> cr_target r' = cr_target r
     \<and> cr_trigger r' = cr_trigger r \<and> cr_payload r' = cr_payload r
     \<and> cr_started_at r' = cr_started_at r \<and> cr_max_attempts r' = cr_max_attempts r"

lemma run_trans_same_job: "run_trans r r' \<Longrightarrow> same_job r r'"
  by (cases rule: run_trans.cases) (auto simp: same_job_def row_defs)

lemma run_trans_attempts: "run_trans r r' \<Longrightarrow> cr_attempt_count r \<le> cr_attempt_count r'"
  by (cases rule: run_trans.cases) (auto simp: row_defs)

lemma run_trans_active: "run_trans r r' \<Longrightarrow> run_is_active r' \<Longrightarrow> run_is_active r"
  by (cases rule: run_trans.cases) (auto simp: guard_defs row_defs)

lemma run_trans_settled: "run_trans r r' \<Longrightarrow> \<not> run_is_active r \<Longrightarrow> \<exists>p. r' = r\<lparr>cr_parent_run_id := p\<rparr>"
  by (cases rule: run_trans.cases) (auto simp: guard_defs row_defs)

lemma run_trans_ok: "run_trans r r' \<Longrightarrow> run_ok r \<Longrightarrow> run_ok r'"
proof (induction rule: run_trans.induct)
  case (claim now r w l)
  then show ?case by (simp add: run_ok_def guard_defs row_defs run_statuses_def)
next
  case (renew r now w l)
  then show ?case by (auto simp: run_ok_def guard_defs row_defs run_statuses_def)
next
  case (finalize now i w r st)
  then show ?case by (auto simp: run_ok_def guard_defs row_defs run_statuses_def)
next
  case (requeue now r b)
  then show ?case by (auto simp: run_ok_def guard_defs row_defs run_statuses_def)
next
  case (forget_parent r p)
  have "run_ok (r\<lparr>cr_parent_run_id := p\<rparr>) = run_ok r"
    unfolding run_ok_def run_is_active_def by simp
  with forget_parent show ?case by simp
qed (simp_all add: run_ok_def guard_defs row_defs run_statuses_def)

text \<open>Several steps of the same run.\<close>

abbreviation run_steps :: "ConnectorRun \<Rightarrow> ConnectorRun \<Rightarrow> bool" where
  "run_steps \<equiv> run_trans\<^sup>*\<^sup>*"

lemma run_steps_same_job: "run_steps r r' \<Longrightarrow> same_job r r'"
  by (induction rule: rtranclp_induct) (auto simp: same_job_def dest!: run_trans_same_job)

lemma run_steps_attempts: "run_steps r r' \<Longrightarrow> cr_attempt_count r \<le> cr_attempt_count r'"
  by (induction rule: rtranclp_induct) (auto dest: run_trans_attempts)

lemma run_steps_active: "run_steps r r' \<Longrightarrow> run_is_active r' \<Longrightarrow> run_is_active r"
  by (induction rule: rtranclp_induct) (auto dest: run_trans_active)

lemma run_steps_ok: "run_steps r r' \<Longrightarrow> run_ok r \<Longrightarrow> run_ok r'"
  by (induction rule: rtranclp_induct) (auto dest: run_trans_ok)

lemma run_steps_settled:
  "run_steps r r' \<Longrightarrow> \<not> run_is_active r \<Longrightarrow> \<exists>p. r' = r\<lparr>cr_parent_run_id := p\<rparr>"
proof (induction rule: rtranclp_induct)
  case base
  have "r = r\<lparr>cr_parent_run_id := cr_parent_run_id r\<rparr>" by simp
  then show ?case by blast
next
  case (step y z)
  then obtain p where p: "y = r\<lparr>cr_parent_run_id := p\<rparr>" by blast
  with step.prems have "\<not> run_is_active y" by (simp add: run_is_active_def)
  with step.hyps(2) obtain q where "z = y\<lparr>cr_parent_run_id := q\<rparr>"
    using run_trans_settled by blast
  with p show ?case by auto
qed

section \<open>The table\<close>

definition single_active :: "ConnectorRun list \<Rightarrow> bool" where
  "single_active rs \<longleftrightarrow> (\<forall>source target. count_rows (pending_for source target) rs \<le> 1)"

definition runs_inv :: "tables \<Rightarrow> bool" where
  "runs_inv t \<longleftrightarrow>
     (\<forall>r \<in> set (rows (connector_runs t)). run_ok r \<and> cr_id r < seq (connector_runs t))
     \<and> distinct (map cr_id (rows (connector_runs t)))
     \<and> single_active (rows (connector_runs t))"

text \<open>The initial state of a run: queued, or already running for a request handler.\<close>

definition born :: "ConnectorRun \<Rightarrow> bool" where
  "born r \<longleftrightarrow> run_ok r \<and> run_is_active r"

text \<open>
  How an operation may change the table: rows move along the life cycle, only settled rows disappear,
  and at most one new run appears, for a source and target without an active run.
\<close>

definition runs_evolve :: "tables \<Rightarrow> tables \<Rightarrow> bool" where
  "runs_evolve t t' \<longleftrightarrow> (\<exists>gone f new.
     rows (connector_runs t') = map f (filter (\<lambda>r. \<not> gone r) (rows (connector_runs t))) @ new
     \<and> (\<forall>r \<in> set (rows (connector_runs t)). gone r \<longrightarrow> \<not> run_is_active r)
     \<and> (\<forall>r \<in> set (rows (connector_runs t)). \<not> gone r \<longrightarrow> run_steps r (f r))
     \<and> (new = [] \<and> seq (connector_runs t') = seq (connector_runs t)
        \<or> (\<exists>n. new = [n] \<and> born n \<and> cr_id n = seq (connector_runs t)
             \<and> seq (connector_runs t') = seq (connector_runs t) + 1
             \<and> count_rows (pending_for (cr_source n) (cr_target n)) (rows (connector_runs t)) = 0)))"

lemma runs_evolve_same: "connector_runs t' = connector_runs t \<Longrightarrow> runs_evolve t t'"
  unfolding runs_evolve_def
  by (intro exI [of _ "\<lambda>_. False"] exI [of _ id] exI [of _ "[]"]) auto

lemma runs_evolve_update:
  assumes "rows (connector_runs t') = map f (rows (connector_runs t))"
    and "seq (connector_runs t') = seq (connector_runs t)"
    and "\<And>r. r \<in> set (rows (connector_runs t)) \<Longrightarrow> run_steps r (f r)"
  shows "runs_evolve t t'"
  unfolding runs_evolve_def
  by (intro exI [of _ "\<lambda>_. False"] exI [of _ f] exI [of _ "[]"]) (use assms in auto)

lemma pending_steps:
  "run_steps r r' \<Longrightarrow> pending_for s tg r' \<Longrightarrow> pending_for s tg r"
  using run_steps_active run_steps_same_job by (fastforce simp: pending_for_def same_job_def)

lemma count_pending_map:
  assumes "\<And>r. r \<in> set rs \<Longrightarrow> run_steps r (f r)"
  shows "count_rows (pending_for s tg) (map f rs) \<le> count_rows (pending_for s tg) rs"
  using assms
proof (induction rs)
  case Nil
  then show ?case by simp
next
  case (Cons r rs)
  then have "count_rows (pending_for s tg) (map f rs) \<le> count_rows (pending_for s tg) rs"
    and "run_steps r (f r)" by simp_all
  then show ?case using pending_steps [of r "f r" s tg] by auto
qed

lemma count_rows_filter_le: "count_rows p (filter q rs) \<le> count_rows p rs"
  by (induction rs) auto

lemma runs_evolve_inv:
  assumes inv: "runs_inv t" and ev: "runs_evolve t t'"
  shows "runs_inv t'"
proof -
  let ?rs = "rows (connector_runs t)"
  obtain gone f new where
    rows': "rows (connector_runs t') = map f (filter (\<lambda>r. \<not> gone r) ?rs) @ new"
    and steps: "\<And>r. r \<in> set ?rs \<Longrightarrow> \<not> gone r \<Longrightarrow> run_steps r (f r)"
    and new: "new = [] \<and> seq (connector_runs t') = seq (connector_runs t)
        \<or> (\<exists>n. new = [n] \<and> born n \<and> cr_id n = seq (connector_runs t)
             \<and> seq (connector_runs t') = seq (connector_runs t) + 1
             \<and> count_rows (pending_for (cr_source n) (cr_target n)) ?rs = 0)"
    using ev unfolding runs_evolve_def by blast
  let ?kept = "filter (\<lambda>r. \<not> gone r) ?rs"
  have same: "cr_id (f r) = cr_id r" if "r \<in> set ?kept" for r
    using run_steps_same_job steps that by (fastforce simp: same_job_def)
  have ids: "map cr_id (map f ?kept) = map cr_id ?kept"
    using same by (auto simp: map_eq_conv)
  have ok: "run_ok (f r) \<and> cr_id (f r) < seq (connector_runs t)" if "r \<in> set ?kept" for r
  proof -
    from that inv have "run_ok r" and "cr_id r < seq (connector_runs t)"
      unfolding runs_inv_def by auto
    moreover from that steps have "run_steps r (f r)" by simp
    ultimately show ?thesis using run_steps_ok same [OF that] by auto
  qed
  have "distinct (map cr_id ?kept)"
    using inv unfolding runs_inv_def by (auto simp: distinct_map inj_on_def)
  then have dist: "distinct (map cr_id (map f ?kept))" unfolding ids .
  have act: "count_rows (pending_for s tg) (map f ?kept) \<le> count_rows (pending_for s tg) ?rs"
    for s tg
  proof -
    have "count_rows (pending_for s tg) (map f ?kept) \<le> count_rows (pending_for s tg) ?kept"
      by (rule count_pending_map) (simp add: steps)
    also have "\<dots> \<le> count_rows (pending_for s tg) ?rs" by (rule count_rows_filter_le)
    finally show ?thesis .
  qed
  have le1: "count_rows (pending_for s tg) ?rs \<le> 1" for s tg
    using inv unfolding runs_inv_def single_active_def by blast
  from new show ?thesis
  proof
    assume "new = [] \<and> seq (connector_runs t') = seq (connector_runs t)"
    moreover have "single_active (map f ?kept)"
      unfolding single_active_def using le_trans [OF act le1] by blast
    ultimately show ?thesis
      using ok dist unfolding runs_inv_def rows' by auto
  next
    assume "\<exists>n. new = [n] \<and> born n \<and> cr_id n = seq (connector_runs t)
             \<and> seq (connector_runs t') = seq (connector_runs t) + 1
             \<and> count_rows (pending_for (cr_source n) (cr_target n)) ?rs = 0"
    then obtain n where n: "new = [n]" "born n" "cr_id n = seq (connector_runs t)"
      "seq (connector_runs t') = seq (connector_runs t) + 1"
      "count_rows (pending_for (cr_source n) (cr_target n)) ?rs = 0" by blast
    have "single_active (map f ?kept @ [n])"
      unfolding single_active_def
    proof (intro allI)
      fix s tg
      show "count_rows (pending_for s tg) (map f ?kept @ [n]) \<le> 1"
      proof (cases "pending_for s tg n")
        case True
        then have "count_rows (pending_for s tg) (map f ?kept) = 0"
          using act [of s tg] n(5) by (simp add: pending_for_def)
        then show ?thesis by simp
      next
        case False
        then show ?thesis using act [of s tg] le1 [of s tg] by simp
      qed
    qed
    moreover have "cr_id n \<notin> set (map cr_id (map f ?kept))"
      using ok n(3) by fastforce
    ultimately show ?thesis
      using ok dist n unfolding runs_inv_def rows' by (fastforce simp: born_def)
  qed
qed

section \<open>Contract of the operations\<close>

lemma update_runs_evolve:
  assumes "update_runs p f env s = (r, s')"
    and "\<And>q. q \<in> set (rows (connector_runs (tabs s))) \<Longrightarrow> p q \<Longrightarrow> run_steps q (f q)"
  shows "runs_evolve (tabs s) (tabs s')"
proof (cases r)
  case (Inl e)
  with assms(1) have "tabs s' = tabs s"
    unfolding update_runs_def update_stmt_def by (auto dest: stmt_Inl_tabs)
  then show ?thesis by (simp add: runs_evolve_same)
next
  case (Inr rs)
  with assms(1) have "tabs s' = connector_runs_update
      (\<lambda>tb. tb\<lparr>rows := update_rows p f (rows tb)\<rparr>) (tabs s)"
    unfolding update_runs_def by (auto dest: update_stmt_Inr)
  then show ?thesis
    using assms(2)
    by (intro runs_evolve_update [where f = "\<lambda>q. if p q then f q else q"])
       (auto simp: update_rows_def)
qed

lemma transaction_evolve:
  assumes "query_transaction m env s = (r, s')"
    and "\<And>x s0 s1. tabs s0 = tabs s \<Longrightarrow> m env s0 = (Inr x, s1) \<Longrightarrow> runs_evolve (tabs s0) (tabs s1)"
  shows "runs_evolve (tabs s) (tabs s')"
  using assms(1) unfolding query_transaction_def
proof (cases rule: transaction_outcome)
  case rolled_back
  then show ?thesis by (simp add: runs_evolve_same)
next
  case (committed x s0 s1)
  with assms(2) [of s0 x s1] show ?thesis by simp
qed

text \<open>By the distinct identifiers of the invariant, a row read earlier in the transaction is the one
  its identifier selects.\<close>

lemma runs_inv_same_id:
  "runs_inv t \<Longrightarrow> q \<in> set (rows (connector_runs t)) \<Longrightarrow> r \<in> set (rows (connector_runs t)) \<Longrightarrow>
   cr_id q = cr_id r \<Longrightarrow> q = r"
  by (auto simp: runs_inv_def distinct_map inj_on_def)

text \<open>One change of the table, read backwards: a row whose identifier was already given out comes from
  the row of that identifier.\<close>

lemma runs_evolve_origin:
  assumes "runs_evolve t t'" and "r' \<in> set (rows (connector_runs t'))"
    and "cr_id r' < seq (connector_runs t)"
  shows "\<exists>r \<in> set (rows (connector_runs t)). run_steps r r'"
proof -
  let ?rs = "rows (connector_runs t)"
  obtain gone f new where
    rows': "rows (connector_runs t') = map f (filter (\<lambda>r. \<not> gone r) ?rs) @ new"
    and steps: "\<And>r. r \<in> set ?rs \<Longrightarrow> \<not> gone r \<Longrightarrow> run_steps r (f r)"
    and new: "new = [] \<or> (\<exists>n. new = [n] \<and> cr_id n = seq (connector_runs t))"
    using assms(1) unfolding runs_evolve_def by blast
  from new assms(3) have "r' \<notin> set new" by auto
  with assms(2) rows' obtain q where "q \<in> set ?rs" "\<not> gone q" "r' = f q" by auto
  with steps show ?thesis by blast
qed

lemma runs_evolve_seq: "runs_evolve t t' \<Longrightarrow> seq (connector_runs t) \<le> seq (connector_runs t')"
  unfolding runs_evolve_def by auto

text \<open>Any number of changes, by this process and by the others.\<close>

definition runs_after :: "tables \<Rightarrow> tables \<Rightarrow> bool" where
  "runs_after t0 t \<longleftrightarrow> runs_inv t \<and> runs_evolve\<^sup>*\<^sup>* t0 t"

lemma runs_evolves_seq:
  "runs_evolve\<^sup>*\<^sup>* t t' \<Longrightarrow> seq (connector_runs t) \<le> seq (connector_runs t')"
  by (induction rule: rtranclp_induct) (auto dest: runs_evolve_seq)

lemma runs_evolves_origin:
  assumes "runs_evolve\<^sup>*\<^sup>* t t'" and "r' \<in> set (rows (connector_runs t'))"
    and "cr_id r' < seq (connector_runs t)"
  shows "\<exists>r \<in> set (rows (connector_runs t)). run_steps r r'"
  using assms
proof (induction arbitrary: r' rule: rtranclp_induct)
  case base
  then show ?case by auto
next
  case (step y z)
  have "cr_id r' < seq (connector_runs y)"
    using step.prems(2) runs_evolves_seq [OF step.hyps(1)] by simp
  then obtain q where q: "q \<in> set (rows (connector_runs y))" "run_steps q r'"
    using runs_evolve_origin step.hyps(2) step.prems(1) by blast
  then have "cr_id q < seq (connector_runs t)"
    using run_steps_same_job step.prems(2) by (fastforce simp: same_job_def)
  with step.IH q show ?case by (meson rtranclp_trans)
qed

lemma keeps_runs_after:
  assumes "\<And>s r s'. runs_inv (tabs s) \<Longrightarrow> m env s = (r, s') \<Longrightarrow> runs_evolve (tabs s) (tabs s')"
  shows "keeps env (runs_after t0) m"
proof (rule keepsI)
  fix s r s' assume "runs_after t0 (tabs s)" and run: "m env s = (r, s')"
  then have inv: "runs_inv (tabs s)" and "runs_evolve\<^sup>*\<^sup>* t0 (tabs s)"
    by (simp_all add: runs_after_def)
  with assms [OF inv run] show "runs_after t0 (tabs s')"
    unfolding runs_after_def by (meson runs_evolve_inv rtranclp.rtrancl_into_rtrancl)
qed

lemma keeps_after_transaction:
  assumes "\<And>s x s'. runs_inv (tabs s) \<Longrightarrow> m env s = (Inr x, s') \<Longrightarrow> runs_evolve (tabs s) (tabs s')"
  shows "keeps env (runs_after t0) (query_transaction m)"
proof (rule keeps_runs_after)
  fix s r s' assume inv: "runs_inv (tabs s)" and run: "query_transaction m env s = (r, s')"
  from run show "runs_evolve (tabs s) (tabs s')"
  proof (rule transaction_evolve)
    fix x s0 s1 assume "tabs s0 = tabs s" and "m env s0 = (Inr x, s1)"
    with inv assms [of s0 x s1] show "runs_evolve (tabs s0) (tabs s1)" by simp
  qed
qed

text \<open>What an operation may rely on: the other processes keep to the same contract.\<close>

definition rely :: "env \<Rightarrow> bool" where
  "rely env \<longleftrightarrow> (\<forall>n t. runs_inv t \<longrightarrow> runs_evolve\<^sup>*\<^sup>* t (env_other env n t))"

lemma runs_evolves_inv: "runs_evolve\<^sup>*\<^sup>* t t' \<Longrightarrow> runs_inv t \<Longrightarrow> runs_inv t'"
  by (induction rule: rtranclp_induct) (auto intro: runs_evolve_inv)

lemma keeps_yield_rely: "rely env \<Longrightarrow> keeps env (runs_after t0) yieldM"
  unfolding rely_def runs_after_def
  by (rule keeps_yield) (meson runs_evolves_inv rtranclp_trans)

locale run_operation =
  fixes run_op :: "env \<Rightarrow> db \<Rightarrow> ('e + 'a) \<times> db"
  assumes after: "rely env \<Longrightarrow> keeps env (runs_after t0) run_op"
begin

lemma evolves:
  assumes "rely env" and "runs_inv (tabs s)" and "run_op env s = (r, s')"
  shows "runs_evolve\<^sup>*\<^sup>* (tabs s) (tabs s')" and "runs_inv (tabs s')"
  using keepsD [OF after [OF assms(1), of "tabs s"] _ assms(3)] assms(2)
  by (simp_all add: runs_after_def)

lemma keeps_runs_inv: "rely env \<Longrightarrow> keeps env runs_inv run_op"
  by (rule keepsI) (rule evolves(2))

lemma origin:
  assumes "rely env" and "runs_inv (tabs s)" and "run_op env s = (x, s')"
    and "r \<in> set (rows (connector_runs (tabs s)))"
    and "r' \<in> set (rows (connector_runs (tabs s')))" and "cr_id r' = cr_id r"
  shows "run_steps r r'"
proof -
  have "cr_id r < seq (connector_runs (tabs s))" using assms(2,4) by (auto simp: runs_inv_def)
  with assms(5,6) obtain q where q: "q \<in> set (rows (connector_runs (tabs s)))" "run_steps q r'"
    using runs_evolves_origin [OF evolves(1) [OF assms(1-3)]] by metis
  have "cr_id q = cr_id r"
    using run_steps_same_job [OF q(2)] assms(6) by (simp add: same_job_def)
  then have "q = r" using runs_inv_same_id [OF assms(2) q(1) assms(4)] by simp
  with q show ?thesis by simp
qed

end

text \<open>Computations that leave the table alone.\<close>

definition spares_runs :: "('e, 'a) dbm \<Rightarrow> bool" where
  "spares_runs m \<longleftrightarrow> (\<forall>env tb. keeps env (\<lambda>t. connector_runs t = tb) m)"

lemma spares_runsD: "spares_runs m \<Longrightarrow> m env s = (r, s') \<Longrightarrow> connector_runs (tabs s') = connector_runs (tabs s)"
proof -
  assume "spares_runs m" and run: "m env s = (r, s')"
  then have "keeps env (\<lambda>t. connector_runs t = connector_runs (tabs s)) m" by (simp add: spares_runs_def)
  from keepsD [OF this _ run] show ?thesis by simp
qed

lemma spares_runs_after: "spares_runs m \<Longrightarrow> keeps env (runs_after t0) m"
  by (rule keeps_runs_after) (auto intro: runs_evolve_same dest: spares_runsD)

end
