(* ===== verification/Run_Operations.thy ===== *)
theory Run_Operations
  imports Run_Lifecycle
begin

text \<open>
  The operations of \<^verbatim>\<open>ConnectorRunRepository\<close> meet the contract \<open>run_operation\<close>: the proof
  obligations of every interpretation are discharged on the definitions of \<open>Connector_Runs\<close>. Then
  what each operation does when it returns: which run a claim takes, who may settle a run, what the
  recovery of expired leases leaves behind.
\<close>

section \<open>Pure continuations\<close>

definition pureM :: "('e, 'a) dbm \<Rightarrow> bool" where
  "pureM m \<longleftrightarrow> (\<forall>env t. keeps env (\<lambda>t'. t' = t) m)"

lemma pureM_tabs: "pureM m \<Longrightarrow> m env s = (r, s') \<Longrightarrow> tabs s' = tabs s"
proof -
  assume "pureM m" and run: "m env s = (r, s')"
  then have "keeps env (\<lambda>t'. t' = tabs s) m" by (simp add: pureM_def)
  from keepsD [OF this _ run] show "tabs s' = tabs s" by simp
qed

lemma pureM_basic [simp]:
  "pureM (retM x)" "pureM (throwM e)" "pureM (expect_row r)" "pureM (resultM q)"
  "pureM (select_stmt f)" "pureM utc_now"
  by (simp_all add: pureM_def keeps_rule)

lemma pureM_bind [simp]: "pureM m \<Longrightarrow> (\<And>x. pureM (f x)) \<Longrightarrow> pureM (bindM m f)"
  unfolding pureM_def by (blast intro: keeps_rule)

lemma pureM_handle [simp]:
  "pureM m \<Longrightarrow> (\<And>e. pureM (h e)) \<Longrightarrow> (\<And>x. pureM (f x)) \<Longrightarrow> pureM (handleM m h f)"
  unfolding pureM_def by (blast intro: keeps_rule)

lemma pureM_wrap [simp]: "pureM m \<Longrightarrow> pureM (liftM m)" "pureM n \<Longrightarrow> pureM (optionalM n)"
  unfolding pureM_def by (blast intro: keeps_rule)+

lemma bind_pure_tabs:
  assumes "bindM m k env s = (r, s')" and "\<And>x. pureM (k x)"
  obtains x s1 where "m env s = (x, s1)" and "tabs s' = tabs s1"
proof (cases "m env s")
  case (Pair x s1)
  show ?thesis
  proof (rule that [OF Pair], cases x)
    case (Inl e)
    then show "tabs s' = tabs s1" using assms(1) Pair by (simp add: bindM_def)
  next
    case (Inr y)
    then have "k y env s1 = (r, s')" using assms(1) Pair by (simp add: bindM_def)
    then show "tabs s' = tabs s1" using pureM_tabs assms(2) by blast
  qed
qed

lemma pure_bind_tabs:
  assumes "bindM m k env s = (r, s')" and "pureM m"
  obtains (failed) "tabs s' = tabs s"
    | (ran) x s1 where "m env s = (Inr x, s1)" and "tabs s1 = tabs s" and "k x env s1 = (r, s')"
proof (cases "m env s")
  case (Pair x s1)
  have t: "tabs s1 = tabs s" using pureM_tabs [OF assms(2) Pair] .
  show ?thesis
  proof (cases x)
    case (Inl e)
    then show ?thesis using failed assms(1) Pair t by (simp add: bindM_def)
  next
    case (Inr y)
    then show ?thesis using ran assms(1) Pair t by (simp add: bindM_def)
  qed
qed

section \<open>Interpretations of the contract\<close>

lemma now_update_evolves:
  assumes "bindM utc_now (\<lambda>now. bindM (update_runs (p now) (f now)) k) env s = (r, s')"
    and "\<And>rs. pureM (k rs)" and "\<And>now q. p now q \<Longrightarrow> run_trans q (f now q)"
  shows "runs_evolve (tabs s) (tabs s')"
proof -
  have "bindM (update_runs (p (env_clock env (tick s))) (f (env_clock env (tick s)))) k env
      (s\<lparr>tick := Suc (tick s)\<rparr>) = (r, s')"
    using assms(1) by (simp add: bindM_def)
  then obtain x s1 where "update_runs (p (env_clock env (tick s))) (f (env_clock env (tick s))) env
      (s\<lparr>tick := Suc (tick s)\<rparr>) = (x, s1)" and "tabs s' = tabs s1"
    using bind_pure_tabs assms(2) by metis
  then show ?thesis
    using update_runs_evolve assms(3) by (metis (no_types, lifting) db.select_convs(1) db.surjective
      db.update_convs(2) r_into_rtranclp)
qed

lemma update_by_id_evolves:
  assumes "bindM (update_runs (\<lambda>r. cr_id r = cr_id q) f) k env s = (r, s')"
    and "\<And>rs. pureM (k rs)" and "runs_inv (tabs s)"
    and "q \<in> set (rows (connector_runs (tabs s)))" and "run_trans q (f q)"
  shows "runs_evolve (tabs s) (tabs s')"
proof -
  obtain x s1 where run: "update_runs (\<lambda>r. cr_id r = cr_id q) f env s = (x, s1)"
    and t: "tabs s' = tabs s1"
    using bind_pure_tabs assms(1,2) by metis
  have "run_steps r' (f r')" if "r' \<in> set (rows (connector_runs (tabs s)))" "cr_id r' = cr_id q" for r'
    using runs_inv_same_id [OF assms(3) that(1) assms(4) that(2)] assms(5) by blast
  with run have "runs_evolve (tabs s) (tabs s1)" by (rule update_runs_evolve)
  with t show ?thesis by simp
qed

interpretation renew: run_operation "ConnectorRunRepository_renew_lease i w l" for i w l
  by (unfold_locales, rule keeps_runs_after, unfold ConnectorRunRepository_renew_lease_def,
      erule now_update_evolves) (auto intro: run_trans.renew)

interpretation mark_cancelled: run_operation "ConnectorRunRepository_mark_cancelled_if_requested i w"
  for i w
  by (unfold_locales, rule keeps_runs_after,
      unfold ConnectorRunRepository_mark_cancelled_if_requested_def,
      erule now_update_evolves) (auto intro: run_trans.mark_cancelled)

lemma finalize_evolves:
  assumes "ConnectorRunRepository_finalize_if_active i w st env s = (r, s')" and "settles st"
  shows "runs_evolve (tabs s) (tabs s')"
  using assms(1) unfolding ConnectorRunRepository_finalize_if_active_def
  by (rule now_update_evolves) (auto intro: run_trans.finalize assms(2))

text \<open>The claim: the chosen row is claimable at the time read in the same transaction.\<close>

definition claim_body :: "string \<Rightarrow> i64 \<Rightarrow> ConnectorRun option query" where
  "claim_body worker_id lease_seconds =
     bindM utc_now (\<lambda>now.
     bindM (select_stmt (\<lambda>t. one_row (sort_key claim_key
              (filter (claimable now) (rows (connector_runs t)))))) (\<lambda>queued.
     case queued of
       None \<Rightarrow> retM None
     | Some q \<Rightarrow>
         bindM (update_runs (\<lambda>r. cr_id r = cr_id q) (claim_row now worker_id lease_seconds q))
           (\<lambda>rs. bindM (expect_row (one_row rs)) (\<lambda>r. retM (Some r)))))"

lemma claim_transaction:
  "ConnectorRunRepository_claim_next_queued w l = query_transaction (claim_body w l)"
  by (simp add: ConnectorRunRepository_claim_next_queued_def claim_body_def)

lemma one_row_in: "one_row xs = Some x \<Longrightarrow> x \<in> set xs"
  by (auto simp: one_row_def split: list.splits)

lemma claim_body_evolves:
  assumes "runs_inv (tabs s)" and "claim_body w l env s = (Inr x, s')"
  shows "runs_evolve (tabs s) (tabs s')"
proof -
  let ?now = "env_clock env (tick s)" and ?s0 = "s\<lparr>tick := Suc (tick s)\<rparr>"
  let ?pick = "\<lambda>t. one_row (sort_key claim_key (filter (claimable ?now) (rows (connector_runs t))))"
  obtain queued s1 where sel: "select_stmt ?pick env ?s0 = (Inr queued, s1)"
    and rest: "(case queued of None \<Rightarrow> retM None
     | Some q \<Rightarrow> bindM (update_runs (\<lambda>r. cr_id r = cr_id q) (claim_row ?now w l q))
           (\<lambda>rs. bindM (expect_row (one_row rs)) (\<lambda>r. retM (Some r)))) env s1 = (Inr x, s')"
    using assms(2) unfolding claim_body_def by (auto elim!: bindM_result_Inr)
  have t1: "tabs s1 = tabs s" and q: "queued = ?pick (tabs s)"
    using select_stmt_Inr [OF sel] by simp_all
  show ?thesis
  proof (cases queued)
    case None
    with rest t1 show ?thesis by (simp add: runs_evolve_same)
  next
    case (Some c)
    then have "claimable ?now c" and "c \<in> set (rows (connector_runs (tabs s)))"
      using q by (auto dest!: one_row_in)
    then show ?thesis
      using rest Some t1 assms(1)
        update_by_id_evolves [of c "claim_row ?now w l c" _ env s1, OF _ _ _ _ run_trans.claim]
      by fastforce
  qed
qed

interpretation claim: run_operation "ConnectorRunRepository_claim_next_queued w l" for w l
  by (unfold_locales, unfold claim_transaction, rule keeps_after_transaction) (rule claim_body_evolves)

text \<open>Cancelling: the row is locked by the same transaction that found it queued or running.\<close>

lemma find_run_Inr:
  assumes "ConnectorRunRepository_find i env s = (Inr r, s')"
  shows "r \<in> set (rows (connector_runs (tabs s))) \<and> cr_id r = i \<and> tabs s' = tabs s"
proof -
  obtain x s1 where sel: "select_stmt (\<lambda>t. first_row (\<lambda>r. cr_id r = i) (rows (connector_runs t))) env s
      = (Inr x, s1)" and ex: "expect_row x env s1 = (Inr r, s')"
    using assms unfolding ConnectorRunRepository_find_def by (rule bindM_result_Inr)
  have "x = Some r" and "tabs s' = tabs s1"
    using ex by (cases x; simp add: expect_row_def)+
  with select_stmt_Inr [OF sel] show ?thesis by (auto dest!: first_row_Some [OF sym])
qed

definition cancel_body :: "i32 \<Rightarrow> ConnectorRun option query" where
  "cancel_body i =
     bindM (ConnectorRunRepository_find i) (\<lambda>run.
     bindM utc_now (\<lambda>now.
     if cr_status run = ''queued'' then
       bindM (update_runs (\<lambda>r. cr_id r = i) (cancel_queued_row now))
         (\<lambda>rs. bindM (expect_row (one_row rs)) (\<lambda>r. retM (Some r)))
     else if cr_status run = ''running'' then
       bindM (update_runs (\<lambda>r. cr_id r = i) (\<lambda>r. r\<lparr>cr_cancel_requested_at := Some now\<rparr>))
         (\<lambda>rs. bindM (expect_row (one_row rs)) (\<lambda>r. retM (Some r)))
     else retM None))"

lemma cancel_transaction:
  "ConnectorRunRepository_request_cancel i = query_transaction (cancel_body i)"
  by (simp add: ConnectorRunRepository_request_cancel_def cancel_body_def)

lemma cancel_body_evolves:
  assumes "runs_inv (tabs s)" and "cancel_body i env s = (Inr x, s')"
  shows "runs_evolve (tabs s) (tabs s')"
proof -
  obtain run s1 where find: "ConnectorRunRepository_find i env s = (Inr run, s1)"
    and rest: "bindM utc_now (\<lambda>now.
     if cr_status run = ''queued'' then
       bindM (update_runs (\<lambda>r. cr_id r = i) (cancel_queued_row now))
         (\<lambda>rs. bindM (expect_row (one_row rs)) (\<lambda>r. retM (Some r)))
     else if cr_status run = ''running'' then
       bindM (update_runs (\<lambda>r. cr_id r = i) (\<lambda>r. r\<lparr>cr_cancel_requested_at := Some now\<rparr>))
         (\<lambda>rs. bindM (expect_row (one_row rs)) (\<lambda>r. retM (Some r)))
     else retM None) env s1 = (Inr x, s')"
    using assms(2) unfolding cancel_body_def by (rule bindM_result_Inr)
  have run: "run \<in> set (rows (connector_runs (tabs s)))" "cr_id run = i" "tabs s1 = tabs s"
    using find_run_Inr [OF find] by simp_all
  let ?now = "env_clock env (tick s1)" and ?s2 = "s1\<lparr>tick := Suc (tick s1)\<rparr>"
  consider (queued) "cr_status run = ''queued''" | (running) "cr_status run = ''running''"
    | (settled) "cr_status run \<noteq> ''queued''" "cr_status run \<noteq> ''running''" by blast
  then show ?thesis
  proof cases
    case queued
    with rest have "bindM (update_runs (\<lambda>r. cr_id r = cr_id run) (cancel_queued_row ?now))
        (\<lambda>rs. bindM (expect_row (one_row rs)) (\<lambda>r. retM (Some r))) env ?s2 = (Inr x, s')"
      using run by (simp add: bindM_def)
    from update_by_id_evolves [OF this] run queued assms(1) show ?thesis
      by (simp add: run_trans.cancel_queued)
  next
    case running
    with rest have "bindM (update_runs (\<lambda>r. cr_id r = cr_id run)
          (\<lambda>r. r\<lparr>cr_cancel_requested_at := Some ?now\<rparr>))
        (\<lambda>rs. bindM (expect_row (one_row rs)) (\<lambda>r. retM (Some r))) env ?s2 = (Inr x, s')"
      using run by (simp add: bindM_def)
    from update_by_id_evolves [OF this] run running assms(1) show ?thesis
      by (simp add: run_trans.request_cancel)
  next
    case settled
    with rest run show ?thesis by (auto simp: bindM_def intro: runs_evolve_same)
  qed
qed

interpretation request_cancel: run_operation "ConnectorRunRepository_request_cancel i" for i
  by (unfold_locales, unfold cancel_transaction, rule keeps_after_transaction) (rule cancel_body_evolves)

text \<open>Retention: the rows it deletes have finished, and no active run has.\<close>

lemma runs_on_delete_runs:
  "connector_runs (runs_on_delete gone t) = map_rows (\<lambda>r. r\<lparr>cr_parent_run_id :=
     null_if_in (set (map cr_id gone)) (cr_parent_run_id r)\<rparr>) (connector_runs t)"
  by (simp add: runs_on_delete_def Let_def)

lemma active_not_finished: "run_ok r \<Longrightarrow> run_is_active r \<Longrightarrow> \<not> finished_before cutoff r"
  by (auto simp: run_ok_def run_is_active_def finished_before_def)

lemma delete_finished_evolves:
  assumes "runs_inv (tabs s)"
    and "ConnectorRunRepository_delete_finished_older_than cutoff env s = (r, s')"
  shows "runs_evolve (tabs s) (tabs s')"
proof -
  obtain x s1 where del: "delete_stmt connector_runs connector_runs_update no_restriction
      runs_on_delete (finished_before cutoff) env s = (x, s1)" and t: "tabs s' = tabs s1"
    using assms(2) unfolding ConnectorRunRepository_delete_finished_older_than_def
    by (rule bind_pure_tabs) simp
  show ?thesis
  proof (cases x)
    case (Inl e)
    with del t show ?thesis
      by (auto simp: delete_stmt_def runs_evolve_same dest: stmt_Inl_tabs)
  next
    case (Inr gone)
    let ?f = "\<lambda>r. r\<lparr>cr_parent_run_id := null_if_in (set (map cr_id gone)) (cr_parent_run_id r)\<rparr>"
    have "tabs s1 = runs_on_delete gone (connector_runs_update
        (\<lambda>tb. tb\<lparr>rows := delete_rows (finished_before cutoff) (rows tb)\<rparr>) (tabs s))"
      using del Inr delete_stmt_Inr by fastforce
    then have "rows (connector_runs (tabs s')) =
        map ?f (filter (\<lambda>r. \<not> finished_before cutoff r) (rows (connector_runs (tabs s))))"
      and "seq (connector_runs (tabs s')) = seq (connector_runs (tabs s))"
      by (simp_all add: t runs_on_delete_runs map_rows_def delete_rows_def)
    then show ?thesis
      unfolding runs_evolve_def
      by (intro exI [of _ "finished_before cutoff"] exI [of _ ?f] exI [of _ "[]"])
         (use assms(1) active_not_finished in \<open>auto simp: runs_inv_def intro: run_trans.forget_parent\<close>)
  qed
qed

interpretation delete_finished:
  run_operation "ConnectorRunRepository_delete_finished_older_than cutoff" for cutoff
  by (unfold_locales, rule keeps_runs_after) (rule delete_finished_evolves)

section \<open>Recovery\<close>

text \<open>Rows changed in place, transitively: the effect of a loop of updates.\<close>

definition runs_updated :: "tables \<Rightarrow> tables \<Rightarrow> bool" where
  "runs_updated t t' \<longleftrightarrow> (\<exists>f. rows (connector_runs t') = map f (rows (connector_runs t))
     \<and> seq (connector_runs t') = seq (connector_runs t)
     \<and> (\<forall>r \<in> set (rows (connector_runs t)). run_steps r (f r)))"

lemma runs_updated_evolve: "runs_updated t t' \<Longrightarrow> runs_evolve t t'"
  unfolding runs_updated_def by (auto intro: runs_evolve_update)

lemma runs_updated_same: "connector_runs t' = connector_runs t \<Longrightarrow> runs_updated t t'"
  unfolding runs_updated_def by (intro exI [of _ id]) simp

lemma runs_updated_trans:
  assumes "runs_updated t t'" and "runs_updated t' t''"
  shows "runs_updated t t''"
proof -
  obtain f g where "rows (connector_runs t') = map f (rows (connector_runs t))"
    and "seq (connector_runs t') = seq (connector_runs t)"
    and "\<forall>r \<in> set (rows (connector_runs t)). run_steps r (f r)"
    and "rows (connector_runs t'') = map g (rows (connector_runs t'))"
    and "seq (connector_runs t'') = seq (connector_runs t')"
    and "\<forall>r \<in> set (rows (connector_runs t')). run_steps r (g r)"
    using assms unfolding runs_updated_def by blast
  then show ?thesis
    unfolding runs_updated_def
    by (intro exI [of _ "g \<circ> f"]) (auto intro: rtranclp_trans)
qed

text \<open>What recovery makes of an expired run.\<close>

definition recovered_row :: "utc \<Rightarrow> i64 \<Rightarrow> i64 \<Rightarrow> ConnectorRun \<Rightarrow> ConnectorRun" where
  "recovered_row now retry_base retry_max r =
     (if cr_cancel_requested_at r \<noteq> None then recover_cancel_row now r
      else if cr_attempt_count r \<ge> cr_max_attempts r then recover_fail_row now r r
      else requeue_row now
        (bounded_retry_backoff_seconds (cr_attempt_count r) retry_base retry_max) r r)"

lemma recovered_row_trans: "lease_expired now r \<Longrightarrow> run_trans r (recovered_row now b m r)"
  by (auto simp: recovered_row_def intro: run_trans.recover_cancel run_trans.recover_fail
      run_trans.requeue)

definition bump :: "ConnectorRun \<Rightarrow> ConnectorRunRecoveryStats \<Rightarrow> ConnectorRunRecoveryStats" where
  "bump r stats =
     (if cr_cancel_requested_at r \<noteq> None then stats\<lparr>st_cancelled := st_cancelled stats + 1\<rparr>
      else if cr_attempt_count r \<ge> cr_max_attempts r then stats\<lparr>st_failed := st_failed stats + 1\<rparr>
      else stats\<lparr>st_requeued := st_requeued stats + 1\<rparr>)"

text \<open>One turn of the loop, on a row that is still the one selected.\<close>

lemma recover_one_Inr:
  assumes "recover_one now b m run stats env s = (Inr stats', s')"
    and "runs_inv (tabs s)" and "run \<in> set (rows (connector_runs (tabs s)))"
  shows "stats' = bump run stats
    \<and> rows (connector_runs (tabs s')) = update_rows (\<lambda>r. cr_id r = cr_id run)
        (recovered_row now b m) (rows (connector_runs (tabs s)))
    \<and> seq (connector_runs (tabs s')) = seq (connector_runs (tabs s))"
proof -
  let ?rs = "rows (connector_runs (tabs s))" and ?same = "\<lambda>r. cr_id r = cr_id run"
  have upd: "update_rows ?same g ?rs = update_rows ?same h ?rs" if "g run = h run" for g h
    using runs_inv_same_id [OF assms(2) _ assms(3)] that by (auto simp: update_rows_def)
  have step: "rows (connector_runs (tabs s1)) = update_rows ?same g ?rs
      \<and> seq (connector_runs (tabs s1)) = seq (connector_runs (tabs s))"
    if "update_runs ?same g env s = (Inr y, s1)" for g y s1
    using update_stmt_Inr [OF that [unfolded update_runs_def]] by simp
  consider (cancel) "cr_cancel_requested_at run \<noteq> None"
    | (failed) "cr_cancel_requested_at run = None" "cr_attempt_count run \<ge> cr_max_attempts run"
    | (again) "cr_cancel_requested_at run = None" "\<not> cr_attempt_count run \<ge> cr_max_attempts run"
    by blast
  then show ?thesis
  proof cases
    case cancel
    with assms(1) obtain y where "update_runs ?same (recover_cancel_row now) env s = (Inr y, s')"
      and "stats' = stats\<lparr>st_cancelled := st_cancelled stats + 1\<rparr>"
      unfolding recover_one_def by (auto elim!: bindM_result_Inr)
    with cancel step upd [of "recover_cancel_row now" "recovered_row now b m"] show ?thesis
      by (simp add: recovered_row_def bump_def)
  next
    case failed
    let ?err = "\<lambda>c. c\<lparr>cn_status := ''error'', cn_last_run_at := Some now, cn_updated_at := now\<rparr>"
    from failed assms(1) obtain y z s1 where
      "update_runs ?same (recover_fail_row now run) env s = (Inr y, s1)"
      and c: "update_stmt connectors connectors_update connector_violation
        (\<lambda>c. cn_source c = cr_source run) ?err env s1 = (Inr z, s')"
      and "stats' = stats\<lparr>st_failed := st_failed stats + 1\<rparr>"
      unfolding recover_one_def by (auto elim!: bindM_result_Inr)
    moreover have "connector_runs (tabs s') = connector_runs (tabs s1)"
      using update_stmt_Inr [OF c] by simp
    ultimately show ?thesis
      using failed step upd [of "recover_fail_row now run" "recovered_row now b m"]
      by (simp add: recovered_row_def bump_def)
  next
    case again
    let ?g = "requeue_row now (bounded_retry_backoff_seconds (cr_attempt_count run) b m) run"
    from again assms(1) obtain y where "update_runs ?same ?g env s = (Inr y, s')"
      and "stats' = stats\<lparr>st_requeued := st_requeued stats + 1\<rparr>"
      unfolding recover_one_def by (auto elim!: bindM_result_Inr)
    with again step upd [of ?g "recovered_row now b m"] show ?thesis
      by (simp add: recovered_row_def bump_def)
  qed
qed

lemma recovered_id [simp]: "cr_id (recovered_row now b m r) = cr_id r"
  by (simp add: recovered_row_def row_defs)

lemma recover_one_updated:
  assumes "rows (connector_runs t') = update_rows (\<lambda>r. cr_id r = cr_id run)
        (recovered_row now b m) (rows (connector_runs t))"
    and "seq (connector_runs t') = seq (connector_runs t)"
    and "runs_inv t" and "run \<in> set (rows (connector_runs t))" and "lease_expired now run"
  shows "runs_updated t t'"
proof -
  let ?f = "\<lambda>r. if cr_id r = cr_id run then recovered_row now b m r else r"
  have "run_steps r (?f r)" if "r \<in> set (rows (connector_runs t))" for r
    using runs_inv_same_id [OF assms(3) that assms(4)] recovered_row_trans assms(5) by auto
  with assms(1,2) show ?thesis
    unfolding runs_updated_def by (intro exI [of _ ?f]) (simp add: update_rows_def)
qed

lemma update_rows_other: "r \<in> set rs \<Longrightarrow> \<not> p r \<Longrightarrow> r \<in> set (update_rows p f rs)"
  unfolding update_rows_def by (auto intro: image_eqI [of _ _ r])

lemma recover_fold:
  assumes "foldM (recover_one now b m) runs stats env s = (Inr stats', s')"
    and "runs_inv (tabs s)" and "set runs \<subseteq> set (rows (connector_runs (tabs s)))"
    and "distinct (map cr_id runs)" and "\<forall>r \<in> set runs. lease_expired now r"
  shows "stats' = fold bump runs stats \<and> runs_updated (tabs s) (tabs s')
    \<and> rows (connector_runs (tabs s')) = update_rows (\<lambda>r. cr_id r \<in> set (map cr_id runs))
        (recovered_row now b m) (rows (connector_runs (tabs s)))"
  using assms
proof (induction runs arbitrary: stats s)
  case Nil
  then show ?case by (auto simp: update_rows_def intro: runs_updated_same)
next
  case (Cons run runs)
  let ?rs = "rows (connector_runs (tabs s))"
  from Cons.prems(1) obtain stats1 s1 where
    one: "recover_one now b m run stats env s = (Inr stats1, s1)"
    and rest: "foldM (recover_one now b m) runs stats1 env s1 = (Inr stats', s')"
    by (auto elim: bindM_result_Inr)
  have run: "run \<in> set ?rs" using Cons.prems(3) by simp
  note step = recover_one_Inr [OF one Cons.prems(2) run]
  have upd: "runs_updated (tabs s) (tabs s1)"
    using step recover_one_updated Cons.prems(2,5) run by auto
  then have inv: "runs_inv (tabs s1)"
    using runs_updated_evolve runs_evolve_inv Cons.prems(2) by blast
  have sub: "set runs \<subseteq> set (rows (connector_runs (tabs s1)))"
  proof
    fix r assume "r \<in> set runs"
    moreover from Cons.prems(4) have "cr_id run \<notin> cr_id ` set runs" by simp
    ultimately have "cr_id r \<noteq> cr_id run" by (metis imageI)
    moreover have "r \<in> set ?rs" using \<open>r \<in> set runs\<close> Cons.prems(3) by auto
    ultimately show "r \<in> set (rows (connector_runs (tabs s1)))"
      using step by (simp add: update_rows_other)
  qed
  have "update_rows (\<lambda>r. cr_id r \<in> set (map cr_id runs)) (recovered_row now b m)
      (rows (connector_runs (tabs s1)))
    = update_rows (\<lambda>r. cr_id r \<in> set (map cr_id (run # runs))) (recovered_row now b m) ?rs"
    using Cons.prems(4) step by (auto simp: update_rows_def)
  then show ?case
    using Cons.IH [OF rest inv sub] Cons.prems(4,5) step upd runs_updated_trans by auto
qed

definition recover_body :: "i64 \<Rightarrow> i64 \<Rightarrow> nat \<Rightarrow> ConnectorRunRecoveryStats query" where
  "recover_body retry_base retry_max limit =
     bindM utc_now (\<lambda>now.
     bindM (select_stmt (\<lambda>t. take limit (sort_key recovery_key
              (filter (lease_expired now) (rows (connector_runs t)))))) (\<lambda>expired.
     foldM (recover_one now retry_base retry_max) expired
       \<lparr>st_requeued = 0, st_failed = 0, st_cancelled = 0\<rparr>))"

definition expired_batch :: "utc \<Rightarrow> nat \<Rightarrow> tables \<Rightarrow> ConnectorRun list" where
  "expired_batch now limit t = take limit (sort_key recovery_key
     (filter (lease_expired now) (rows (connector_runs t))))"

lemma expired_batch_props:
  assumes "runs_inv t"
  shows "set (expired_batch now limit t) \<subseteq> set (rows (connector_runs t))"
    and "distinct (map cr_id (expired_batch now limit t))"
    and "\<forall>r \<in> set (expired_batch now limit t). lease_expired now r"
proof -
  let ?es = "filter (lease_expired now) (rows (connector_runs t))"
  have sub: "set (expired_batch now limit t) \<subseteq> set ?es"
    unfolding expired_batch_def using set_take_subset by fastforce
  then show "set (expired_batch now limit t) \<subseteq> set (rows (connector_runs t))"
    and "\<forall>r \<in> set (expired_batch now limit t). lease_expired now r" by auto
  have "distinct (map cr_id (sort_key recovery_key ?es))"
    using assms unfolding runs_inv_def by (auto simp: distinct_map inj_on_def)
  then show "distinct (map cr_id (expired_batch now limit t))"
    unfolding expired_batch_def take_map [symmetric] by (rule distinct_take)
qed

lemma recover_body_Inr:
  assumes "recover_body b m limit env s = (Inr stats, s')" and "runs_inv (tabs s)"
  shows "let now = env_clock env (tick s); batch = expired_batch now limit (tabs s) in
    stats = fold bump batch \<lparr>st_requeued = 0, st_failed = 0, st_cancelled = 0\<rparr>
    \<and> runs_updated (tabs s) (tabs s')
    \<and> rows (connector_runs (tabs s')) = update_rows (\<lambda>r. cr_id r \<in> set (map cr_id batch))
        (recovered_row now b m) (rows (connector_runs (tabs s)))"
proof -
  let ?now = "env_clock env (tick s)" and ?s0 = "s\<lparr>tick := Suc (tick s)\<rparr>"
  obtain expired s1 where sel: "select_stmt (expired_batch ?now limit) env ?s0 = (Inr expired, s1)"
    and fold: "foldM (recover_one ?now b m) expired
       \<lparr>st_requeued = 0, st_failed = 0, st_cancelled = 0\<rparr> env s1 = (Inr stats, s')"
    using assms(1) unfolding recover_body_def expired_batch_def by (auto elim!: bindM_result_Inr)
  have e: "expired = expired_batch ?now limit (tabs s)" and t: "tabs s1 = tabs s"
    using select_stmt_Inr [OF sel] by simp_all
  show ?thesis
    using recover_fold [OF fold] expired_batch_props [OF assms(2)] assms(2) e t
    by (simp add: Let_def)
qed

lemma recover_transaction:
  "ConnectorRunRepository_recover_expired_leases b m limit = query_transaction (recover_body b m limit)"
  by (simp add: ConnectorRunRepository_recover_expired_leases_def recover_body_def)

lemma recover_body_evolves:
  "runs_inv (tabs s) \<Longrightarrow> recover_body b m limit env s = (Inr x, s') \<Longrightarrow>
   runs_evolve (tabs s) (tabs s')"
  using recover_body_Inr runs_updated_evolve by (auto simp: Let_def)

interpretation recover:
  run_operation "ConnectorRunRepository_recover_expired_leases retry_base retry_max limit"
  for retry_base retry_max limit
  by (unfold_locales, unfold recover_transaction, rule keeps_after_transaction) (rule recover_body_evolves)

section \<open>Creation\<close>

definition born_new :: "NewConnectorRun \<Rightarrow> bool" where
  "born_new n \<longleftrightarrow> born (NewConnectorRun.extend n (ConnectorRun.fields 0))"

lemma born_new_id:
  assumes "born_new n" shows "born (NewConnectorRun.extend n (ConnectorRun.fields i))"
proof -
  have "NewConnectorRun.extend n (ConnectorRun.fields i)
      = (NewConnectorRun.extend n (ConnectorRun.fields 0))\<lparr>cr_id := i\<rparr>"
    by (simp add: NewConnectorRun.extend_def ConnectorRun.fields_def)
  moreover have "born (r\<lparr>cr_id := i\<rparr>) = born r" for r
    by (simp add: born_def run_ok_def run_is_active_def)
  ultimately show ?thesis using assms by (simp add: born_new_def)
qed

lemma insert_unless_pending_Inr:
  assumes "insert_unless_pending n env s = (Inr x, s')"
  shows "(x = None \<longrightarrow> tabs s' = tabs s
        \<and> count_rows (pending_for (cr_source n) (cr_target n)) (rows (connector_runs (tabs s))) > 0)
    \<and> (\<forall>r. x = Some r \<longrightarrow>
        r = NewConnectorRun.extend n (ConnectorRun.fields (seq (connector_runs (tabs s))))
        \<and> run_violation (tabs s) r = None
        \<and> tabs s' = connector_runs_update
             (\<lambda>tb. tb\<lparr>rows := rows tb @ [r], seq := seq tb + 1\<rparr>) (tabs s)
        \<and> count_rows (pending_for (cr_source n) (cr_target n)) (rows (connector_runs (tabs s))) = 0)"
proof -
  let ?c = "\<lambda>t. count_rows (pending_for (cr_source n) (cr_target n)) (rows (connector_runs t))"
  obtain c s1 where sel: "select_stmt ?c env s = (Inr c, s1)"
    and rest: "(if c > 0 then retM None else bindM (insert_run n) (\<lambda>r. retM (Some r))) env s1
      = (Inr x, s')"
    using assms unfolding insert_unless_pending_def ConnectorRunRepository_has_pending_def
    by (auto elim!: bindM_result_Inr)
  have c: "c = ?c (tabs s)" and t: "tabs s1 = tabs s" using select_stmt_Inr [OF sel] by simp_all
  show ?thesis
  proof (cases "c > 0")
    case True
    with rest c t show ?thesis by auto
  next
    case False
    with rest obtain r where "insert_run n env s1 = (Inr r, s')" and "x = Some r"
      by (auto elim!: bindM_result_Inr)
    with False c t show ?thesis
      by (auto simp: insert_run_def dest!: insert_stmt_Inr)
  qed
qed

lemma insert_unless_pending_evolves:
  assumes "insert_unless_pending n env s = (Inr x, s')" and "born_new n"
  shows "runs_evolve (tabs s) (tabs s')"
proof (cases x)
  case None
  with insert_unless_pending_Inr [OF assms(1)] show ?thesis by (simp add: runs_evolve_same)
next
  case (Some r)
  have "cr_id r = seq (connector_runs (tabs s))" "cr_source r = cr_source n" "cr_target r = cr_target n"
    "born r"
    using insert_unless_pending_Inr [OF assms(1)] Some born_new_id [OF assms(2)]
    by (auto simp: NewConnectorRun.extend_def ConnectorRun.fields_def)
  then show ?thesis
    unfolding runs_evolve_def
    by (intro exI [of _ "\<lambda>_. False"] exI [of _ id] exI [of _ "[r]"])
       (use insert_unless_pending_Inr [OF assms(1)] Some in auto)
qed

lemma create_body_evolves:
  assumes "bindM m (\<lambda>_. insert_unless_pending n) env s = (Inr x, s')" and "pureM m" and "born_new n"
  shows "runs_evolve (tabs s) (tabs s')"
  using assms(1,2)
proof (cases rule: pure_bind_tabs)
  case failed
  then show ?thesis by (simp add: runs_evolve_same)
next
  case (ran y s1)
  then show ?thesis using insert_unless_pending_evolves assms(3) by metis
qed

end
