(* ===== verification/Record_Store.thy ===== *)
theory Record_Store
  imports Schema
begin

text \<open>
  What the repositories of imported records (\<^verbatim>\<open>CalendarEventRepository\<close>, \<^verbatim>\<open>WorkCardRepository\<close>,
  \<^verbatim>\<open>NotificationRepository\<close>, \<^verbatim>\<open>ServiceRepository\<close>) share. The locale \<open>keyed_table\<close> is a table with a
  serial primary key and a unique business key (source and external id): under it, the
  read-then-write upsert of the code refines the update of a finite map from business keys to
  records. \<open>snapshot_table\<close> adds the columns of reconciliation and shows that importing a snapshot
  and archiving what it does not mention leaves exactly the snapshot alive.
\<close>

section \<open>Read, then update or insert\<close>

definition find_keyed ::
    "(tables \<Rightarrow> 'r table) \<Rightarrow> ('r \<Rightarrow> bool) \<Rightarrow> 'r query" where
  "find_keyed get p = bindM (select_stmt (\<lambda>t. first_row p (rows (get t)))) expect_row"

definition create_row ::
    "(tables \<Rightarrow> 'r table) \<Rightarrow> (('r table \<Rightarrow> 'r table) \<Rightarrow> tables \<Rightarrow> tables) \<Rightarrow>
     (tables \<Rightarrow> 'r \<Rightarrow> DatabaseErrorKind option) \<Rightarrow> (utc \<Rightarrow> utc \<Rightarrow> i32 \<Rightarrow> 'r) \<Rightarrow> 'r query" where
  "create_row get upd chk mk = bindM utc_now (\<lambda>now. insert_stmt get upd chk (mk now now))"

definition update_row ::
    "(tables \<Rightarrow> 'r table) \<Rightarrow> (('r table \<Rightarrow> 'r table) \<Rightarrow> tables \<Rightarrow> tables) \<Rightarrow>
     (tables \<Rightarrow> 'r \<Rightarrow> DatabaseErrorKind option) \<Rightarrow> ('r \<Rightarrow> i32) \<Rightarrow> ('r \<Rightarrow> utc) \<Rightarrow>
     (utc \<Rightarrow> utc \<Rightarrow> i32 \<Rightarrow> 'r) \<Rightarrow> i32 \<Rightarrow> 'r query" where
  "update_row get upd chk rid born mk i = bindM utc_now (\<lambda>now.
     bindM (update_stmt get upd chk (\<lambda>r. rid r = i) (\<lambda>r. mk (born r) now (rid r)))
       (expect_row \<circ> one_row))"

definition upsert_row ::
    "(tables \<Rightarrow> 'r table) \<Rightarrow> (('r table \<Rightarrow> 'r table) \<Rightarrow> tables \<Rightarrow> tables) \<Rightarrow>
     (tables \<Rightarrow> 'r \<Rightarrow> DatabaseErrorKind option) \<Rightarrow> ('r \<Rightarrow> i32) \<Rightarrow> ('r \<Rightarrow> utc) \<Rightarrow> ('r \<Rightarrow> bool) \<Rightarrow>
     (utc \<Rightarrow> utc \<Rightarrow> i32 \<Rightarrow> 'r) \<Rightarrow> 'r query" where
  "upsert_row get upd chk rid born p mk = handleM (find_keyed get p)
     (\<lambda>e. if e = NotFoundError then create_row get upd chk mk else throwM e)
     (\<lambda>existing. update_row get upd chk rid born mk (rid existing))"

lemma find_keyed_Inr:
  assumes "find_keyed get p env s = (Inr r, s')"
  shows "first_row p (rows (get (tabs s))) = Some r \<and> tabs s' = tabs s"
proof -
  obtain x s1 where sel: "select_stmt (\<lambda>t. first_row p (rows (get t))) env s = (Inr x, s1)"
    and ex: "expect_row x env s1 = (Inr r, s')"
    using assms unfolding find_keyed_def by (rule bindM_result_Inr)
  have "x = Some r" and "tabs s' = tabs s1"
    using ex by (cases x; simp add: expect_row_def)+
  with select_stmt_Inr [OF sel] show ?thesis by simp
qed

lemma find_keyed_tabs: "find_keyed get p env s = (r, s') \<Longrightarrow> tabs s' = tabs s"
proof -
  have "keeps env (\<lambda>t. t = tabs s) (find_keyed get p)"
    unfolding find_keyed_def by (intro keeps_rule)
  from keepsD [OF this] show "find_keyed get p env s = (r, s') \<Longrightarrow> tabs s' = tabs s" by blast
qed

lemma expect_one_row: "expect_row (one_row rs) env s = (Inr r, s') \<Longrightarrow> r \<in> set rs \<and> s' = s"
  by (cases rs) (auto simp: expect_row_def one_row_def)

section \<open>Tables with a business key\<close>

text \<open>Identifiers given out in order, one row per business key.\<close>

definition serial_keys :: "('r \<Rightarrow> i32) \<Rightarrow> ('r \<Rightarrow> 'k option) \<Rightarrow> 'r table \<Rightarrow> bool" where
  "serial_keys rid rkey tb \<longleftrightarrow> distinct (map rid (rows tb)) \<and> (\<forall>r \<in> set (rows tb). rid r < seq tb)
     \<and> (\<forall>r \<in> set (rows tb). \<forall>q \<in> set (rows tb). rkey r \<noteq> None \<longrightarrow> rkey q = rkey r \<longrightarrow> q = r)"

locale keyed_table =
  fixes get :: "tables \<Rightarrow> 'r table"
    and upd :: "('r table \<Rightarrow> 'r table) \<Rightarrow> tables \<Rightarrow> tables"
    and chk :: "tables \<Rightarrow> 'r \<Rightarrow> DatabaseErrorKind option"
    and rid :: "'r \<Rightarrow> i32"
    and born :: "'r \<Rightarrow> utc"
    and mk :: "'n \<Rightarrow> utc \<Rightarrow> utc \<Rightarrow> i32 \<Rightarrow> 'r"
    and core :: "'r \<Rightarrow> 'n"
    and key :: "'n \<Rightarrow> 'k option"
  assumes get_upd: "get (upd f t) = f (get t)"
    and core_mk: "core (mk n c u i) = n"
    and rid_mk: "rid (mk n c u i) = i"
    and chk_unique: "chk t r = None \<Longrightarrow> q \<in> set (rows (get t)) \<Longrightarrow> key (core q) = key (core r) \<Longrightarrow>
       key (core r) \<noteq> None \<Longrightarrow> rid q = rid r"
begin

definition view :: "tables \<Rightarrow> 'k \<Rightarrow> 'n option" where
  "view t k = map_option core (first_row (\<lambda>r. key (core r) = Some k) (rows (get t)))"

definition table_inv :: "tables \<Rightarrow> bool" where
  "table_inv t \<longleftrightarrow> distinct (map rid (rows (get t))) \<and> (\<forall>r \<in> set (rows (get t)). rid r < seq (get t))
     \<and> (\<forall>r \<in> set (rows (get t)). \<forall>q \<in> set (rows (get t)).
          key (core r) \<noteq> None \<longrightarrow> key (core q) = key (core r) \<longrightarrow> q = r)"

lemma table_inv_serial: "table_inv t \<longleftrightarrow> serial_keys rid (\<lambda>r. key (core r)) (get t)"
  by (simp add: table_inv_def serial_keys_def)

lemma table_inv_id:
  "table_inv t \<Longrightarrow> q \<in> set (rows (get t)) \<Longrightarrow> r \<in> set (rows (get t)) \<Longrightarrow> rid q = rid r \<Longrightarrow> q = r"
  by (auto simp: table_inv_def distinct_map inj_on_def)

lemma option_eqI: "(\<And>m. a = Some m \<longleftrightarrow> b = Some m) \<Longrightarrow> a = b"
  by (cases a; cases b) auto

text \<open>Under the invariant the view is the map whose graph is the table.\<close>

lemma view_iff:
  assumes "table_inv t"
  shows "view t k = Some n \<longleftrightarrow> (\<exists>r \<in> set (rows (get t)). key (core r) = Some k \<and> core r = n)"
proof
  assume "view t k = Some n"
  then show "\<exists>r \<in> set (rows (get t)). key (core r) = Some k \<and> core r = n"
    by (auto simp: view_def dest!: first_row_Some)
next
  assume "\<exists>r \<in> set (rows (get t)). key (core r) = Some k \<and> core r = n"
  then obtain r where r: "r \<in> set (rows (get t))" "key (core r) = Some k" "core r = n" by blast
  then have "first_row (\<lambda>r. key (core r) = Some k) (rows (get t)) \<noteq> None"
    by (auto simp: first_row_None)
  then obtain q where q: "first_row (\<lambda>r. key (core r) = Some k) (rows (get t)) = Some q" by blast
  then have "q \<in> set (rows (get t))" "key (core q) = Some k" by (auto dest!: first_row_Some)
  then have "q = r" using assms r unfolding table_inv_def by auto
  with q r show "view t k = Some n" by (simp add: view_def)
qed

lemma insert_view:
  assumes inv: "table_inv t" and k: "key n = Some k" and none: "view t k = None"
    and row: "r = mk n c u (seq (get t))"
    and t': "t' = upd (\<lambda>tb. tb\<lparr>rows := rows tb @ [r], seq := seq tb + 1\<rparr>) t"
  shows "table_inv t'" and "view t' = (view t)(k \<mapsto> n)"
proof -
  have rows': "rows (get t') = rows (get t) @ [r]" and seq': "seq (get t') = seq (get t) + 1"
    by (simp_all add: t' get_upd)
  have fresh: "key (core q) \<noteq> Some k" if "q \<in> set (rows (get t))" for q
    using none that by (auto simp: view_def first_row_None)
  have old: "rid q < seq (get t)" if "q \<in> set (rows (get t))" for q
    using inv that by (simp add: table_inv_def)
  have r: "core r = n" "rid r = seq (get t)" by (simp_all add: row core_mk rid_mk)
  have "rid r \<notin> set (map rid (rows (get t)))" using old r by fastforce
  then show inv': "table_inv t'"
    using inv old fresh r k unfolding table_inv_def rows' seq' by fastforce
  show "view t' = (view t)(k \<mapsto> n)"
  proof (rule ext, rule option_eqI)
    fix j m
    show "view t' j = Some m \<longleftrightarrow> ((view t)(k \<mapsto> n)) j = Some m"
      using fresh r k view_iff [OF inv] view_iff [OF inv'] by (auto simp: rows')
  qed
qed

lemma update_view:
  assumes inv: "table_inv t" and k: "key n = Some k"
    and q: "q \<in> set (rows (get t))" "key (core q) = Some k"
    and t': "t' = upd (\<lambda>tb. tb\<lparr>rows := update_rows (\<lambda>r. rid r = rid q)
        (\<lambda>r. mk n (born r) now (rid r)) (rows tb)\<rparr>) t"
  shows "table_inv t'" and "view t' = (view t)(k \<mapsto> n)"
proof -
  let ?f = "\<lambda>r. if rid r = rid q then mk n (born r) now (rid r) else r"
  have rows': "rows (get t') = map ?f (rows (get t))" and seq': "seq (get t') = seq (get t)"
    by (simp_all add: t' get_upd update_rows_def)
  have ids: "map rid (map ?f (rows (get t))) = map rid (rows (get t))"
    by (simp add: rid_mk)
  have core': "core (?f r) = (if r = q then n else core r)" if "r \<in> set (rows (get t))" for r
    using table_inv_id [OF inv that q(1)] by (auto simp: core_mk)
  have key': "key (core (?f r)) = key (core r)" if "r \<in> set (rows (get t))" for r
    using core' [OF that] k q(2) by simp
  show inv': "table_inv t'"
    unfolding table_inv_def rows' seq'
  proof (intro conjI ballI impI)
    show "distinct (map rid (map ?f (rows (get t))))"
      unfolding ids using inv by (simp add: table_inv_def)
  next
    fix r assume "r \<in> set (map ?f (rows (get t)))"
    then show "rid r < seq (get t)" using inv by (auto simp: rid_mk table_inv_def)
  next
    fix r p
    assume "r \<in> set (map ?f (rows (get t)))" and "p \<in> set (map ?f (rows (get t)))"
      and kr: "key (core r) \<noteq> None" and kp: "key (core p) = key (core r)"
    then obtain r0 p0 where r0: "r0 \<in> set (rows (get t))" "r = ?f r0"
      and p0: "p0 \<in> set (rows (get t))" "p = ?f p0" by auto
    have "key (core r0) \<noteq> None" "key (core p0) = key (core r0)"
      using key' [OF r0(1)] key' [OF p0(1)] kr kp unfolding r0(2) p0(2) by simp_all
    then have "p0 = r0" using inv r0(1) p0(1) unfolding table_inv_def by blast
    then show "p = r" unfolding r0(2) p0(2) by simp
  qed
  show "view t' = (view t)(k \<mapsto> n)"
  proof (rule ext, rule option_eqI)
    fix j m
    have "view t' j = Some m \<longleftrightarrow>
        (\<exists>r \<in> set (rows (get t)). key (core (?f r)) = Some j \<and> core (?f r) = m)"
      unfolding view_iff [OF inv'] rows' set_map bex_simps(7) ..
    also have "\<dots> \<longleftrightarrow> (\<exists>r \<in> set (rows (get t)). key (core r) = Some j
        \<and> (if r = q then n else core r) = m)"
    proof (rule bex_cong [OF refl])
      fix r assume r: "r \<in> set (rows (get t))"
      show "(key (core (?f r)) = Some j \<and> core (?f r) = m)
          \<longleftrightarrow> (key (core r) = Some j \<and> (if r = q then n else core r) = m)"
        unfolding key' [OF r] unfolding core' [OF r] ..
    qed
    also have "\<dots> \<longleftrightarrow> ((view t)(k \<mapsto> n)) j = Some m"
    proof (cases "j = k")
      case True
      then show ?thesis using q inv unfolding table_inv_def by auto
    next
      case False
      then have "r \<noteq> q" if "key (core r) = Some j" for r using q(2) that by auto
      then show ?thesis using False by (auto simp: view_iff [OF inv])
    qed
    finally show "view t' j = Some m \<longleftrightarrow> ((view t)(k \<mapsto> n)) j = Some m" .
  qed
qed

text \<open>The upsert of the code refines the update of a map.\<close>

lemma upsert_refines:
  assumes run: "upsert_row get upd chk rid born (\<lambda>r. key (core r) = Some k) (mk n) env s = (Inr r, s')"
    and inv: "table_inv (tabs s)" and k: "key n = Some k"
  shows "view (tabs s') = (view (tabs s))(k \<mapsto> n)" and "table_inv (tabs s')"
    and "core r = n" and "r \<in> set (rows (get (tabs s')))"
proof -
  let ?p = "\<lambda>r. key (core r) = Some k"
  have "view (tabs s') = (view (tabs s))(k \<mapsto> n) \<and> table_inv (tabs s') \<and> core r = n
      \<and> r \<in> set (rows (get (tabs s')))"
  proof (cases "find_keyed get ?p env s")
    case (Pair x s1)
    have t1: "tabs s1 = tabs s" by (rule find_keyed_tabs [OF Pair])
    show ?thesis
    proof (cases x)
      case (Inl e)
      with run Pair have "create_row get upd chk (mk n) env s1 = (Inr r, s')"
        by (auto simp: upsert_row_def handleM_def split: if_splits)
      then have "insert_stmt get upd chk (mk n (env_clock env (tick s1)) (env_clock env (tick s1)))
          env (s1\<lparr>tick := Suc (tick s1)\<rparr>) = (Inr r, s')"
        by (simp add: create_row_def bindM_def)
      from insert_stmt_Inr [OF this]
      have r: "r = mk n (env_clock env (tick s1)) (env_clock env (tick s1)) (seq (get (tabs s)))"
        and ok: "chk (tabs s) r = None"
        and t': "tabs s' = upd (\<lambda>tb. tb\<lparr>rows := rows tb @ [r], seq := seq tb + 1\<rparr>) (tabs s)"
        by (auto simp: t1)
      have "key (core q) \<noteq> Some k" if "q \<in> set (rows (get (tabs s)))" for q
      proof
        assume "key (core q) = Some k"
        then have "rid q = rid r" using chk_unique [OF ok that] k by (simp add: r core_mk)
        then show False using inv that by (auto simp: r rid_mk table_inv_def)
      qed
      then have "view (tabs s) k = None" by (auto simp: view_def first_row_None)
      from insert_view [OF inv k this r t'] show ?thesis by (simp add: t' get_upd r core_mk)
    next
      case (Inr q)
      with run Pair have "update_row get upd chk rid born (mk n) (rid q) env s1 = (Inr r, s')"
        by (simp add: upsert_row_def handleM_def)
      then obtain rs s2 where u: "update_stmt get upd chk (\<lambda>r. rid r = rid q)
          (\<lambda>r. mk n (born r) (env_clock env (tick s1)) (rid r)) env (s1\<lparr>tick := Suc (tick s1)\<rparr>)
          = (Inr rs, s2)" and e: "expect_row (one_row rs) env s2 = (Inr r, s')"
        unfolding update_row_def by (auto elim!: bindM_result_Inr)
      have q: "q \<in> set (rows (get (tabs s)))" "key (core q) = Some k"
        using find_keyed_Inr [of get ?p env s q s1] Pair Inr by (auto dest: first_row_Some)
      have t': "tabs s' = upd (\<lambda>tb. tb\<lparr>rows := update_rows (\<lambda>r. rid r = rid q)
          (\<lambda>r. mk n (born r) (env_clock env (tick s1)) (rid r)) (rows tb)\<rparr>) (tabs s)"
        and r: "r \<in> set rs"
        using update_stmt_Inr [OF u] expect_one_row [OF e] t1 by simp_all
      from r have "core r = n \<and> r \<in> set (rows (get (tabs s')))"
        using update_stmt_Inr [OF u] t1
        by (auto simp: core_mk t' get_upd update_rows_def image_iff)
      with update_view [OF inv k q t'] show ?thesis by simp
    qed
  qed
  then show "view (tabs s') = (view (tabs s))(k \<mapsto> n)" and "table_inv (tabs s')"
    and "core r = n" and "r \<in> set (rows (get (tabs s')))" by blast+
qed

end

section \<open>Snapshots\<close>

text \<open>A complete snapshot: every record of the connector that the run has not seen is archived.\<close>

definition archive_rows ::
    "(tables \<Rightarrow> 'r table) \<Rightarrow> (('r table \<Rightarrow> 'r table) \<Rightarrow> tables \<Rightarrow> tables) \<Rightarrow>
     (tables \<Rightarrow> 'r \<Rightarrow> DatabaseErrorKind option) \<Rightarrow> ('r \<Rightarrow> bool) \<Rightarrow> (utc \<Rightarrow> 'r \<Rightarrow> 'r) \<Rightarrow> nat query" where
  "archive_rows get upd chk stale archive = bindM utc_now (\<lambda>now.
     bindM (update_stmt get upd chk stale (archive now)) (\<lambda>rs. retM (length rs)))"

locale snapshot_table = keyed_table get upd chk rid born mk core key
  for get :: "tables \<Rightarrow> 'r table"
    and upd :: "('r table \<Rightarrow> 'r table) \<Rightarrow> tables \<Rightarrow> tables"
    and chk :: "tables \<Rightarrow> 'r \<Rightarrow> DatabaseErrorKind option"
    and rid :: "'r \<Rightarrow> i32"
    and born :: "'r \<Rightarrow> utc"
    and mk :: "'n \<Rightarrow> utc \<Rightarrow> utc \<Rightarrow> i32 \<Rightarrow> 'r"
    and core :: "'r \<Rightarrow> 'n"
    and key :: "'n \<Rightarrow> 'k option" +
  fixes connector_of :: "'n \<Rightarrow> i32 option"
    and seen_by :: "'n \<Rightarrow> i32 option"
    and archived :: "'n \<Rightarrow> utc option"
    and set_archived :: "utc \<Rightarrow> 'n \<Rightarrow> 'n"
    and archive :: "utc \<Rightarrow> 'r \<Rightarrow> 'r"
  assumes core_archive: "core (archive now r) = set_archived now (core r)"
    and rid_archive: "rid (archive now r) = rid r"
    and key_archived: "key (set_archived now n) = key n"
    and connector_archived: "connector_of (set_archived now n) = connector_of n"
    and archived_archived: "archived (set_archived now n) = Some now"
begin

definition stale :: "i32 \<Rightarrow> i32 \<Rightarrow> 'n \<Rightarrow> bool" where
  "stale c run n \<longleftrightarrow> connector_of n = Some c \<and> archived n = None \<and> seen_by n \<noteq> Some run"

definition live :: "i32 \<Rightarrow> 'n \<Rightarrow> bool" where
  "live c n \<longleftrightarrow> connector_of n = Some c \<and> archived n = None"

lemma archive_refines:
  assumes run: "archive_rows get upd chk (\<lambda>r. stale c i (core r)) archive env s = (Inr cnt, s')"
    and inv: "table_inv (tabs s)"
  shows "table_inv (tabs s')"
    and "view (tabs s') = (\<lambda>k. map_option (\<lambda>n. if stale c i n
        then set_archived (env_clock env (tick s)) n else n) (view (tabs s) k))"
    and "cnt = count_rows (\<lambda>r. stale c i (core r)) (rows (get (tabs s)))"
proof -
  let ?now = "env_clock env (tick s)" and ?t = "tabs s"
  let ?f = "\<lambda>r. if stale c i (core r) then archive ?now r else r"
  let ?g = "\<lambda>n. if stale c i n then set_archived ?now n else n"
  obtain rs where u: "update_stmt get upd chk (\<lambda>r. stale c i (core r)) (archive ?now) env
      (s\<lparr>tick := Suc (tick s)\<rparr>) = (Inr rs, s')" and cnt: "cnt = length rs"
    using run unfolding archive_rows_def by (auto elim!: bindM_result_Inr)
  then show "cnt = count_rows (\<lambda>r. stale c i (core r)) (rows (get (tabs s)))"
    using update_stmt_Inr [OF u] by (simp add: count_rows_def)
  have rows': "rows (get (tabs s')) = map ?f (rows (get ?t))"
    and seq': "seq (get (tabs s')) = seq (get ?t)"
    using update_stmt_Inr [OF u] by (simp_all add: get_upd update_rows_def)
  have core': "core (?f r) = ?g (core r)" for r by (simp add: core_archive)
  have rid': "rid (?f r) = rid r" for r by (simp add: rid_archive)
  have key': "key (?g n) = key n" for n by (simp add: key_archived)
  have ids: "map rid (map ?f (rows (get ?t))) = map rid (rows (get ?t))"
    by (simp add: rid_archive)
  show inv': "table_inv (tabs s')"
    unfolding table_inv_def rows' seq'
  proof (intro conjI ballI impI)
    show "distinct (map rid (map ?f (rows (get ?t))))"
      unfolding ids using inv by (simp add: table_inv_def)
  next
    fix r assume "r \<in> set (map ?f (rows (get ?t)))"
    then show "rid r < seq (get ?t)" using inv rid_archive by (auto simp: table_inv_def)
  next
    fix r p
    assume "r \<in> set (map ?f (rows (get ?t)))" and "p \<in> set (map ?f (rows (get ?t)))"
      and kr: "key (core r) \<noteq> None" and kp: "key (core p) = key (core r)"
    then obtain r0 p0 where r0: "r0 \<in> set (rows (get ?t))" "r = ?f r0"
      and p0: "p0 \<in> set (rows (get ?t))" "p = ?f p0" by auto
    have "key (core r0) \<noteq> None" "key (core p0) = key (core r0)"
      using kr kp unfolding r0(2) p0(2) core' key' by simp_all
    then have "p0 = r0" using inv r0(1) p0(1) unfolding table_inv_def by blast
    then show "p = r" unfolding r0(2) p0(2) by simp
  qed
  show "view (tabs s') = (\<lambda>k. map_option ?g (view ?t k))"
  proof (rule ext, rule option_eqI)
    fix k m
    have "view (tabs s') k = Some m \<longleftrightarrow>
        (\<exists>r \<in> set (rows (get ?t)). key (core r) = Some k \<and> ?g (core r) = m)"
      unfolding view_iff [OF inv'] rows' set_map bex_simps(7) core' key' ..
    also have "\<dots> \<longleftrightarrow> (\<exists>n. view ?t k = Some n \<and> ?g n = m)"
      unfolding view_iff [OF inv] by blast
    finally show "view (tabs s') k = Some m \<longleftrightarrow> map_option ?g (view ?t k) = Some m" by auto
  qed
qed

text \<open>Importing the items of a snapshot one after the other is a sequence of map updates; items of
  the run then are alive, and archiving leaves no other live record of the connector.\<close>

definition put :: "'n \<Rightarrow> ('k \<Rightarrow> 'n option) \<Rightarrow> ('k \<Rightarrow> 'n option)" where
  "put n v = (case key n of None \<Rightarrow> v | Some k \<Rightarrow> v(k \<mapsto> n))"

definition of_run :: "i32 \<Rightarrow> i32 \<Rightarrow> 'n \<Rightarrow> bool" where
  "of_run c i n \<longleftrightarrow> connector_of n = Some c \<and> seen_by n = Some i \<and> archived n = None \<and> key n \<noteq> None"

lemma put_other: "key n \<noteq> Some k \<Longrightarrow> put n v k = v k"
  by (auto simp: put_def split: option.splits)

lemma fold_put_outside: "(\<And>n. n \<in> set ns \<Longrightarrow> key n \<noteq> Some k) \<Longrightarrow> fold put ns v k = v k"
  by (induction ns arbitrary: v) (simp_all add: put_other)

lemma fold_put_inside:
  assumes "n \<in> set ns" and "key n = Some k"
  shows "\<exists>m \<in> set ns. key m = Some k \<and> fold put ns v k = Some m"
  using assms
proof (induction ns arbitrary: v n)
  case Nil
  then show ?case by simp
next
  case (Cons x xs)
  show ?case
  proof (cases "\<exists>y \<in> set xs. key y = Some k")
    case True
    then obtain y where "y \<in> set xs" "key y = Some k" by blast
    with Cons.IH [OF this, of "put x v"] show ?thesis by auto
  next
    case False
    with Cons.prems have "key x = Some k" by auto
    moreover have "fold put xs (put x v) k = put x v k"
      by (rule fold_put_outside) (use False in blast)
    moreover have "put x v k = Some x" using \<open>key x = Some k\<close> by (simp add: put_def)
    ultimately show ?thesis by auto
  qed
qed

lemma reconciled:
  assumes items: "\<And>n. n \<in> set ns \<Longrightarrow> of_run c i n"
    and final: "v = (\<lambda>k. map_option (\<lambda>n. if stale c i n then set_archived now n else n)
        (fold put ns v0 k))"
    and quiet: "\<And>k n. v0 k = Some n \<Longrightarrow> live c n \<Longrightarrow> seen_by n \<noteq> Some i"
  shows "(\<exists>n. v k = Some n \<and> live c n) \<longleftrightarrow> (\<exists>n \<in> set ns. key n = Some k)"
    and "v k = Some n \<Longrightarrow> live c n \<Longrightarrow> n \<in> set ns"
proof -
  have inside: "\<exists>m \<in> set ns. v k = Some m \<and> live c m" if in_ns: "n \<in> set ns" "key n = Some k" for n k
  proof -
    obtain m where m: "m \<in> set ns" "fold put ns v0 k = Some m"
      using fold_put_inside [OF in_ns] by blast
    with items [OF m(1)] show ?thesis
      by (auto simp: final of_run_def stale_def live_def)
  qed
  have outside: "\<not> live c n" if none: "\<And>m. m \<in> set ns \<Longrightarrow> key m \<noteq> Some k" and v: "v k = Some n" for n k
  proof -
    obtain m where m: "v0 k = Some m" and n: "n = (if stale c i m then set_archived now m else m)"
      using v fold_put_outside [OF none] by (auto simp: final)
    show ?thesis
    proof
      assume l: "live c n"
      then have "\<not> stale c i m" using n by (auto simp: live_def archived_archived split: if_splits)
      with n have "n = m" by simp
      with \<open>\<not> stale c i m\<close> l quiet [OF m] show False by (simp add: stale_def live_def)
    qed
  qed
  show "(\<exists>n. v k = Some n \<and> live c n) \<longleftrightarrow> (\<exists>n \<in> set ns. key n = Some k)"
    using inside outside by blast
  show "n \<in> set ns" if "v k = Some n" "live c n"
  proof -
    from that outside obtain m where "m \<in> set ns" "key m = Some k" by blast
    from inside [OF this] that(1) show ?thesis by auto
  qed
qed

end

end
