(* ===== verification/Imported_Records.thy ===== *)
theory Imported_Records
  imports Record_Store Connector_Repository
begin

text \<open>
  \<^verbatim>\<open>CalendarEventRepository\<close>, \<^verbatim>\<open>WorkCardRepository\<close>, \<^verbatim>\<open>ServiceRepository\<close>,
  \<^verbatim>\<open>ServiceHealthCheckRepository\<close> and the writing half of \<^verbatim>\<open>NotificationRepository\<close> of
  \<^verbatim>\<open>src/src/repositories.rs\<close>. Every changeset of these tables is declared with
  \<^verbatim>\<open>treat_none_as_null\<close>, so an update writes all the columns of the request. The three record tables
  and the services are interpretations of \<open>keyed_table\<close>, the first three also of
  \<open>snapshot_table\<close>.
\<close>

section \<open>Calendar events\<close>

definition CalendarEventRepository_find :: "i32 \<Rightarrow> CalendarEvent query" where
  "CalendarEventRepository_find i = find_keyed calendar_events (\<lambda>e. ce_id e = i)"

definition CalendarEventRepository_find_upcoming_for_access ::
    "nat \<Rightarrow> utc \<Rightarrow> utc \<Rightarrow> i32 option \<Rightarrow> string option \<Rightarrow> RecordAccessScope \<Rightarrow>
     CalendarEvent list query" where
  "CalendarEventRepository_find_upcoming_for_access limit starts_from starts_before maintainer_id
     source access = select_stmt (\<lambda>t.
     take limit (sort_key (\<lambda>e. (ce_starts_at e, ce_id e))
       (filter (\<lambda>e. ce_archived_at e = None \<and> \<not> ce_is_cancelled e
            \<and> starts_from \<le> ce_starts_at e \<and> ce_starts_at e < starts_before
            \<and> (case maintainer_id of Some m \<Rightarrow> ce_maintainer_id e = Some m | None \<Rightarrow> True)
            \<and> (case source of Some x \<Rightarrow> ce_source e = x | None \<Rightarrow> True)
            \<and> access_filter access (ce_owner_user_id e) (ce_maintainer_id e))
          (rows (calendar_events t)))))"

definition calendar_row :: "NewCalendarEvent \<Rightarrow> utc \<Rightarrow> utc \<Rightarrow> i32 \<Rightarrow> CalendarEvent" where
  "calendar_row n created updated i = NewCalendarEvent.extend n (CalendarEvent.fields i created updated)"

definition CalendarEventRepository_find_by_source_external_id ::
    "string \<Rightarrow> string \<Rightarrow> CalendarEvent query" where
  "CalendarEventRepository_find_by_source_external_id source external_id =
     find_keyed calendar_events (\<lambda>e. ce_source e = source \<and> ce_external_id e = external_id)"

definition CalendarEventRepository_create :: "NewCalendarEvent \<Rightarrow> CalendarEvent query" where
  "CalendarEventRepository_create event =
     create_row calendar_events calendar_events_update calendar_violation (calendar_row event)"

definition CalendarEventRepository_update :: "i32 \<Rightarrow> NewCalendarEvent \<Rightarrow> CalendarEvent query" where
  "CalendarEventRepository_update i event =
     update_row calendar_events calendar_events_update calendar_violation ce_id ce_created_at
       (calendar_row event) i"

definition CalendarEventRepository_upsert_from_connector ::
    "NewCalendarEvent \<Rightarrow> CalendarEvent query" where
  "CalendarEventRepository_upsert_from_connector event =
     handleM (CalendarEventRepository_find_by_source_external_id (ce_source event)
                (ce_external_id event))
       (\<lambda>e. if e = NotFoundError then CalendarEventRepository_create event else throwM e)
       (\<lambda>existing. CalendarEventRepository_update (ce_id existing) event)"

definition CalendarEventRepository_archive_missing_for_connector_run :: "i32 \<Rightarrow> i32 \<Rightarrow> nat query" where
  "CalendarEventRepository_archive_missing_for_connector_run connector_id run_id =
     archive_rows calendar_events calendar_events_update calendar_violation
       (\<lambda>e. ce_connector_id e = Some connector_id \<and> ce_archived_at e = None
          \<and> (ce_last_seen_run_id e = None \<or> ce_last_seen_run_id e \<noteq> Some run_id))
       (\<lambda>now e. e\<lparr>ce_archived_at := Some now, ce_updated_at := now\<rparr>)"

definition calendar_key :: "NewCalendarEvent \<Rightarrow> (string \<times> string) option" where
  "calendar_key n = Some (ce_source n, ce_external_id n)"

lemma calendar_row_simps [simp]:
  "NewCalendarEvent.truncate (calendar_row n c u i) = n" "ce_id (calendar_row n c u i) = i"
  by (simp_all add: calendar_row_def NewCalendarEvent.extend_def NewCalendarEvent.truncate_def
      CalendarEvent.fields_def)

lemma truncate_calendar [simp]:
  "ce_source (NewCalendarEvent.truncate e) = ce_source e"
  "ce_external_id (NewCalendarEvent.truncate e) = ce_external_id e"
  "ce_connector_id (NewCalendarEvent.truncate e) = ce_connector_id e"
  "ce_last_seen_run_id (NewCalendarEvent.truncate e) = ce_last_seen_run_id e"
  "ce_archived_at (NewCalendarEvent.truncate e) = ce_archived_at e"
  by (simp_all add: NewCalendarEvent.truncate_def)

lemma first_violation_None:
  "first_violation xs = None \<longleftrightarrow> (\<forall>(b, k) \<in> set xs. \<not> b)"
  by (induction xs rule: first_violation.induct) auto

lemma calendar_unique:
  "calendar_violation t r = None \<Longrightarrow> q \<in> set (rows (calendar_events t)) \<Longrightarrow>
   ce_source q = ce_source r \<Longrightarrow> ce_external_id q = ce_external_id r \<Longrightarrow> ce_id q = ce_id r"
  unfolding calendar_violation_def first_violation_None by (auto simp: list_ex_iff)

interpretation calendar: snapshot_table calendar_events calendar_events_update calendar_violation
  ce_id ce_created_at calendar_row "NewCalendarEvent.truncate :: CalendarEvent \<Rightarrow> NewCalendarEvent"
  calendar_key ce_connector_id ce_last_seen_run_id ce_archived_at
  "\<lambda>now n. n\<lparr>ce_archived_at := Some now\<rparr>"
  "\<lambda>now e. e\<lparr>ce_archived_at := Some now, ce_updated_at := now\<rparr>"
  by unfold_locales
     (auto simp: calendar_key_def intro: calendar_unique, simp add: NewCalendarEvent.truncate_def)

lemma calendar_upsert:
  "CalendarEventRepository_upsert_from_connector n = upsert_row calendar_events
     calendar_events_update calendar_violation ce_id ce_created_at
     (\<lambda>r. calendar_key (NewCalendarEvent.truncate r) = Some (ce_source n, ce_external_id n))
     (calendar_row n)"
  unfolding CalendarEventRepository_upsert_from_connector_def upsert_row_def
    CalendarEventRepository_find_by_source_external_id_def CalendarEventRepository_create_def
    CalendarEventRepository_update_def
  by (simp add: calendar_key_def)

lemma calendar_archive:
  "CalendarEventRepository_archive_missing_for_connector_run c i = archive_rows calendar_events
     calendar_events_update calendar_violation (\<lambda>r. calendar.stale c i (NewCalendarEvent.truncate r))
     (\<lambda>now e. e\<lparr>ce_archived_at := Some now, ce_updated_at := now\<rparr>)"
  unfolding CalendarEventRepository_archive_missing_for_connector_run_def calendar.stale_def
  by (rule arg_cong [where f = "\<lambda>p. archive_rows _ _ _ p _"]) auto

section \<open>Work cards\<close>

definition work_card_row :: "NewWorkCard \<Rightarrow> utc \<Rightarrow> utc \<Rightarrow> i32 \<Rightarrow> WorkCard" where
  "work_card_row n created updated i = NewWorkCard.extend n (WorkCard.fields i created updated)"

definition WorkCardRepository_find :: "i32 \<Rightarrow> WorkCard query" where
  "WorkCardRepository_find i = find_keyed work_cards (\<lambda>r. wc_id r = i)"

definition WorkCardRepository_find_by_source_external_id :: "string \<Rightarrow> string \<Rightarrow> WorkCard query" where
  "WorkCardRepository_find_by_source_external_id source external_id =
     find_keyed work_cards (\<lambda>r. wc_source r = source \<and> wc_external_id r = Some external_id)"

definition WorkCardRepository_create :: "NewWorkCard \<Rightarrow> WorkCard query" where
  "WorkCardRepository_create n = create_row work_cards work_cards_update work_card_violation (work_card_row n)"

definition WorkCardRepository_update :: "i32 \<Rightarrow> NewWorkCard \<Rightarrow> WorkCard query" where
  "WorkCardRepository_update i n = update_row work_cards work_cards_update work_card_violation wc_id wc_created_at (work_card_row n) i"

definition WorkCardRepository_delete :: "i32 \<Rightarrow> nat query" where
  "WorkCardRepository_delete i =
     bindM (delete_stmt work_cards work_cards_update no_restriction no_action (\<lambda>r. wc_id r = i))
       (\<lambda>gone. retM (length gone))"

definition WorkCardRepository_upsert_from_connector :: "NewWorkCard \<Rightarrow> WorkCard query" where
  "WorkCardRepository_upsert_from_connector work_card =
     (case wc_external_id work_card of
        Some external_id \<Rightarrow>
          handleM (WorkCardRepository_find_by_source_external_id (wc_source work_card) external_id)
            (\<lambda>e. if e = NotFoundError then WorkCardRepository_create work_card else throwM e)
            (\<lambda>existing. WorkCardRepository_update (wc_id existing) work_card)
      | None \<Rightarrow> WorkCardRepository_create work_card)"

definition WorkCardRepository_archive_missing_for_connector_run :: "i32 \<Rightarrow> i32 \<Rightarrow> nat query" where
  "WorkCardRepository_archive_missing_for_connector_run connector_id run_id =
     archive_rows work_cards work_cards_update work_card_violation
       (\<lambda>r. wc_connector_id r = Some connector_id \<and> wc_archived_at r = None
          \<and> (wc_last_seen_run_id r = None \<or> wc_last_seen_run_id r \<noteq> Some run_id))
       (\<lambda>now r. r\<lparr>wc_archived_at := Some now, wc_updated_at := now\<rparr>)"

definition work_card_key :: "NewWorkCard \<Rightarrow> (string \<times> string) option" where
  "work_card_key n = map_option (Pair (wc_source n)) (wc_external_id n)"

lemma work_card_row_simps [simp]:
  "NewWorkCard.truncate (work_card_row n c u i) = n" "wc_id (work_card_row n c u i) = i"
  by (simp_all add: work_card_row_def NewWorkCard.extend_def NewWorkCard.truncate_def WorkCard.fields_def)

lemma truncate_work_card [simp]:
  "wc_source (NewWorkCard.truncate r) = wc_source r"
  "wc_external_id (NewWorkCard.truncate r) = wc_external_id r"
  "wc_connector_id (NewWorkCard.truncate r) = wc_connector_id r"
  "wc_last_seen_run_id (NewWorkCard.truncate r) = wc_last_seen_run_id r"
  "wc_archived_at (NewWorkCard.truncate r) = wc_archived_at r"
  by (simp_all add: NewWorkCard.truncate_def)

lemma work_card_unique:
  "work_card_violation t r = None \<Longrightarrow> q \<in> set (rows (work_cards t)) \<Longrightarrow> wc_source q = wc_source r \<Longrightarrow>
   wc_external_id q = Some e \<Longrightarrow> wc_external_id r = Some e \<Longrightarrow> wc_id q = wc_id r"
  unfolding work_card_violation_def first_violation_None by (auto simp: list_ex_iff)

interpretation work_card: snapshot_table work_cards work_cards_update work_card_violation
  wc_id wc_created_at work_card_row "NewWorkCard.truncate :: WorkCard \<Rightarrow> NewWorkCard"
  work_card_key wc_connector_id wc_last_seen_run_id wc_archived_at
  "\<lambda>now n. n\<lparr>wc_archived_at := Some now\<rparr>"
  "\<lambda>now r. r\<lparr>wc_archived_at := Some now, wc_updated_at := now\<rparr>"
  by unfold_locales
     (auto simp: work_card_key_def intro: work_card_unique, simp add: NewWorkCard.truncate_def)

lemma work_card_upsert:
  assumes "wc_external_id n = Some e"
  shows "WorkCardRepository_upsert_from_connector n = upsert_row work_cards work_cards_update
     work_card_violation wc_id wc_created_at
     (\<lambda>r. work_card_key (NewWorkCard.truncate r) = Some (wc_source n, e)) (work_card_row n)"
proof -
  have "(\<lambda>r. work_card_key (NewWorkCard.truncate r) = Some (wc_source n, e))
      = (\<lambda>r :: WorkCard. wc_source r = wc_source n \<and> wc_external_id r = Some e)"
    by (auto simp: work_card_key_def)
  then show ?thesis
    unfolding WorkCardRepository_upsert_from_connector_def upsert_row_def
      WorkCardRepository_find_by_source_external_id_def WorkCardRepository_create_def WorkCardRepository_update_def
    by (simp add: assms)
qed

lemma work_card_archive:
  "WorkCardRepository_archive_missing_for_connector_run c i = archive_rows work_cards
     work_cards_update work_card_violation (\<lambda>r. work_card.stale c i (NewWorkCard.truncate r))
     (\<lambda>now r. r\<lparr>wc_archived_at := Some now, wc_updated_at := now\<rparr>)"
  unfolding WorkCardRepository_archive_missing_for_connector_run_def work_card.stale_def
  by (rule arg_cong [where f = "\<lambda>p. archive_rows _ _ _ p _"]) auto

section \<open>Notifications\<close>

definition notification_row :: "NewNotification \<Rightarrow> utc \<Rightarrow> utc \<Rightarrow> i32 \<Rightarrow> Notification" where
  "notification_row n created updated i = NewNotification.extend n (Notification.fields i created updated)"

definition NotificationRepository_find :: "i32 \<Rightarrow> Notification query" where
  "NotificationRepository_find i = find_keyed notifications (\<lambda>r. nt_id r = i)"

definition NotificationRepository_find_by_source_external_id :: "string \<Rightarrow> string \<Rightarrow> Notification query" where
  "NotificationRepository_find_by_source_external_id source external_id =
     find_keyed notifications (\<lambda>r. nt_source r = source \<and> nt_external_id r = Some external_id)"

definition NotificationRepository_create :: "NewNotification \<Rightarrow> Notification query" where
  "NotificationRepository_create n = create_row notifications notifications_update notification_violation (notification_row n)"

definition NotificationRepository_update :: "i32 \<Rightarrow> NewNotification \<Rightarrow> Notification query" where
  "NotificationRepository_update i n = update_row notifications notifications_update notification_violation nt_id nt_created_at (notification_row n) i"

text \<open>The receipts of a notification go with it (ON DELETE CASCADE).\<close>

definition notifications_on_delete :: "Notification list \<Rightarrow> tables \<Rightarrow> tables" where
  "notifications_on_delete gone t =
     (let ids = set (map nt_id gone) in
      t\<lparr>notification_receipts :=
          filter_rows (\<lambda>r. nr_notification_id r \<notin> ids) (notification_receipts t)\<rparr>)"

definition NotificationRepository_delete :: "i32 \<Rightarrow> nat query" where
  "NotificationRepository_delete i =
     bindM (delete_stmt notifications notifications_update no_restriction notifications_on_delete
              (\<lambda>r. nt_id r = i)) (\<lambda>gone. retM (length gone))"

definition NotificationRepository_upsert_from_connector :: "NewNotification \<Rightarrow> Notification query" where
  "NotificationRepository_upsert_from_connector notification =
     (case nt_external_id notification of
        Some external_id \<Rightarrow>
          handleM (NotificationRepository_find_by_source_external_id (nt_source notification) external_id)
            (\<lambda>e. if e = NotFoundError then NotificationRepository_create notification else throwM e)
            (\<lambda>existing. NotificationRepository_update (nt_id existing) notification)
      | None \<Rightarrow> NotificationRepository_create notification)"

definition NotificationRepository_archive_missing_for_connector_run :: "i32 \<Rightarrow> i32 \<Rightarrow> nat query" where
  "NotificationRepository_archive_missing_for_connector_run connector_id run_id =
     archive_rows notifications notifications_update notification_violation
       (\<lambda>r. nt_connector_id r = Some connector_id \<and> nt_archived_at r = None
          \<and> (nt_last_seen_run_id r = None \<or> nt_last_seen_run_id r \<noteq> Some run_id))
       (\<lambda>now r. r\<lparr>nt_archived_at := Some now, nt_updated_at := now\<rparr>)"

definition notification_key :: "NewNotification \<Rightarrow> (string \<times> string) option" where
  "notification_key n = map_option (Pair (nt_source n)) (nt_external_id n)"

lemma notification_row_simps [simp]:
  "NewNotification.truncate (notification_row n c u i) = n" "nt_id (notification_row n c u i) = i"
  by (simp_all add: notification_row_def NewNotification.extend_def NewNotification.truncate_def Notification.fields_def)

lemma truncate_notification [simp]:
  "nt_source (NewNotification.truncate r) = nt_source r"
  "nt_external_id (NewNotification.truncate r) = nt_external_id r"
  "nt_connector_id (NewNotification.truncate r) = nt_connector_id r"
  "nt_last_seen_run_id (NewNotification.truncate r) = nt_last_seen_run_id r"
  "nt_archived_at (NewNotification.truncate r) = nt_archived_at r"
  by (simp_all add: NewNotification.truncate_def)

lemma notification_unique:
  "notification_violation t r = None \<Longrightarrow> q \<in> set (rows (notifications t)) \<Longrightarrow> nt_source q = nt_source r \<Longrightarrow>
   nt_external_id q = Some e \<Longrightarrow> nt_external_id r = Some e \<Longrightarrow> nt_id q = nt_id r"
  unfolding notification_violation_def first_violation_None by (auto simp: list_ex_iff)

interpretation notification: snapshot_table notifications notifications_update notification_violation
  nt_id nt_created_at notification_row "NewNotification.truncate :: Notification \<Rightarrow> NewNotification"
  notification_key nt_connector_id nt_last_seen_run_id nt_archived_at
  "\<lambda>now n. n\<lparr>nt_archived_at := Some now\<rparr>"
  "\<lambda>now r. r\<lparr>nt_archived_at := Some now, nt_updated_at := now\<rparr>"
  by unfold_locales
     (auto simp: notification_key_def intro: notification_unique, simp add: NewNotification.truncate_def)

lemma notification_upsert:
  assumes "nt_external_id n = Some e"
  shows "NotificationRepository_upsert_from_connector n = upsert_row notifications notifications_update
     notification_violation nt_id nt_created_at
     (\<lambda>r. notification_key (NewNotification.truncate r) = Some (nt_source n, e)) (notification_row n)"
proof -
  have "(\<lambda>r. notification_key (NewNotification.truncate r) = Some (nt_source n, e))
      = (\<lambda>r :: Notification. nt_source r = nt_source n \<and> nt_external_id r = Some e)"
    by (auto simp: notification_key_def)
  then show ?thesis
    unfolding NotificationRepository_upsert_from_connector_def upsert_row_def
      NotificationRepository_find_by_source_external_id_def NotificationRepository_create_def NotificationRepository_update_def
    by (simp add: assms)
qed

lemma notification_archive:
  "NotificationRepository_archive_missing_for_connector_run c i = archive_rows notifications
     notifications_update notification_violation (\<lambda>r. notification.stale c i (NewNotification.truncate r))
     (\<lambda>now r. r\<lparr>nt_archived_at := Some now, nt_updated_at := now\<rparr>)"
  unfolding NotificationRepository_archive_missing_for_connector_run_def notification.stale_def
  by (rule arg_cong [where f = "\<lambda>p. archive_rows _ _ _ p _"]) auto

section \<open>Services and their health checks\<close>

definition service_row :: "NewService \<Rightarrow> utc \<Rightarrow> utc \<Rightarrow> i32 \<Rightarrow> Service" where
  "service_row n created updated i = NewService.extend n (Service.fields i created updated)"

definition ServiceRepository_find :: "i32 \<Rightarrow> Service query" where
  "ServiceRepository_find i = find_keyed services (\<lambda>r. sv_id r = i)"

definition ServiceRepository_create :: "NewService \<Rightarrow> Service query" where
  "ServiceRepository_create n = create_row services services_update service_violation (service_row n)"

definition ServiceRepository_update :: "i32 \<Rightarrow> NewService \<Rightarrow> Service query" where
  "ServiceRepository_update i n = update_row services services_update service_violation sv_id sv_created_at (service_row n) i"

text \<open>The health checks of a service go with it (ON DELETE CASCADE).\<close>

definition services_on_delete :: "Service list \<Rightarrow> tables \<Rightarrow> tables" where
  "services_on_delete gone t =
     (let ids = set (map sv_id gone) in
      t\<lparr>service_health_checks :=
          filter_rows (\<lambda>h. hc_service_id h \<notin> ids) (service_health_checks t)\<rparr>)"

definition ServiceRepository_delete :: "i32 \<Rightarrow> nat query" where
  "ServiceRepository_delete i =
     bindM (delete_stmt services services_update no_restriction services_on_delete
              (\<lambda>r. sv_id r = i)) (\<lambda>gone. retM (length gone))"

definition ServiceHealthCheckRepository_create ::
    "NewServiceHealthCheck \<Rightarrow> ServiceHealthCheck query" where
  "ServiceHealthCheckRepository_create new_check = bindM utc_now (\<lambda>now.
     insert_stmt service_health_checks service_health_checks_update health_check_violation
       (\<lambda>i. NewServiceHealthCheck.extend new_check (ServiceHealthCheck.fields i now)))"

definition ServiceHealthCheckRepository_delete_older_than :: "utc \<Rightarrow> nat query" where
  "ServiceHealthCheckRepository_delete_older_than checked_before =
     bindM (delete_stmt service_health_checks service_health_checks_update no_restriction no_action
              (\<lambda>h. hc_checked_at h < checked_before)) (\<lambda>gone. retM (length gone))"

definition health_check_of ::
    "Service \<Rightarrow> i32 \<Rightarrow> string option \<Rightarrow> utc \<Rightarrow> string option \<Rightarrow> NewServiceHealthCheck" where
  "health_check_of service connector_run_id previous checked_at raw_payload =
     \<lparr>hc_service_id = sv_id service, hc_connector_run_id = Some connector_run_id,
      hc_source = sv_source service, hc_external_id = sv_external_id service,
      hc_health_status = sv_health_status service, hc_previous_health_status = previous,
      hc_checked_at = checked_at, hc_response_time_ms = None, hc_message = None,
      hc_raw_payload = raw_payload\<rparr>"

definition ServiceRepository_upsert_from_connector_with_health_check ::
    "NewService \<Rightarrow> i32 \<Rightarrow> string option \<Rightarrow> Service query" where
  "ServiceRepository_upsert_from_connector_with_health_check new connector_run_id raw_payload =
     query_transaction (
     bindM (case sv_external_id new of
              Some external_id \<Rightarrow> optionalM (find_keyed services
                (\<lambda>r. sv_source r = sv_source new \<and> sv_external_id r = Some external_id))
            | None \<Rightarrow> retM None) (\<lambda>existing.
     let previous_health_status = map_option sv_health_status existing in
     bindM (case existing of
              Some old \<Rightarrow> ServiceRepository_update (sv_id old) new
            | None \<Rightarrow> ServiceRepository_create new) (\<lambda>service.
     bindM (case sv_last_checked_at service of Some c \<Rightarrow> retM c | None \<Rightarrow> utc_now) (\<lambda>checked_at.
     bindM (ServiceHealthCheckRepository_create
              (health_check_of service connector_run_id previous_health_status checked_at raw_payload))
       (\<lambda>_. retM service)))))"

definition service_key :: "NewService \<Rightarrow> (string \<times> string) option" where
  "service_key n = map_option (Pair (sv_source n)) (sv_external_id n)"

lemma service_row_simps [simp]:
  "NewService.truncate (service_row n c u i) = n" "sv_id (service_row n c u i) = i"
  by (simp_all add: service_row_def NewService.extend_def NewService.truncate_def Service.fields_def)

lemma truncate_service [simp]:
  "sv_source (NewService.truncate r) = sv_source r"
  "sv_external_id (NewService.truncate r) = sv_external_id r"
  by (simp_all add: NewService.truncate_def)

lemma service_unique:
  "service_violation t r = None \<Longrightarrow> q \<in> set (rows (services t)) \<Longrightarrow> sv_source q = sv_source r \<Longrightarrow>
   sv_external_id q = Some e \<Longrightarrow> sv_external_id r = Some e \<Longrightarrow> sv_id q = sv_id r"
  unfolding service_violation_def first_violation_None by (auto simp: list_ex_iff)

interpretation service: keyed_table services services_update service_violation
  sv_id sv_created_at service_row "NewService.truncate :: Service \<Rightarrow> NewService" service_key
  by unfold_locales (auto simp: service_key_def intro: service_unique)

end
