(* ===== verification/Runtime.thy ===== *)
theory Runtime
  imports Run_Operations Imported_Records Secrets
begin

text \<open>
  \<^verbatim>\<open>src/src/rocket_routes/connectors/runtime.rs\<close>: creating runs, executing a claimed run, importing
  its items and settling it.

  What runs outside the repository is a field of \<open>runtime\<close>: the adapter that fetches a payload over
  the network, the derived serde decoders and encoders, chrono's date parsers, and the environment
  variable with the number of attempts. Outside a transaction, every await lets the other processes
  run (\<open>stepM\<close>).
\<close>

section \<open>Requests and responses (\<^verbatim>\<open>connectors/types.rs\<close>)\<close>

record CalendarEventImportItem =
  ii_external_id :: string
  ii_title :: string
  ii_body :: "string option"
  ii_organizer :: "string option"
  ii_location :: "string option"
  ii_starts_at :: "utc option"
  ii_ends_at :: "utc option"
  ii_time_zone :: "string option"
  ii_is_all_day :: bool
  ii_is_cancelled :: bool
  ii_web_url :: "string option"
  ii_join_url :: "string option"

record WorkCardImportItem =
  wi_external_id :: string
  wi_title :: string
  wi_status :: string
  wi_priority :: string
  wi_assignee :: "string option"
  wi_project :: "string option"
  wi_work_item_type :: "string option"
  wi_assignee_source_id :: "string option"
  wi_assignee_user_id :: "i32 option"
  wi_due_at :: "utc option"
  wi_source_updated_at :: "utc option"
  wi_url :: "string option"

record NotificationImportItem =
  ni_external_id :: string
  ni_title :: string
  ni_body :: "string option"
  ni_severity :: string
  ni_is_read :: bool
  ni_url :: "string option"

record ServiceHealthImportItem =
  si_external_id :: string
  si_maintainer_id :: i32
  si_slug :: string
  si_name :: string
  si_lifecycle_status :: string
  si_health_status :: string
  si_description :: "string option"
  si_repository_url :: "string option"
  si_dashboard_url :: "string option"
  si_runbook_url :: "string option"
  si_last_checked_at :: "utc option"

record 'i ImportRequest =
  rq_items :: "'i list"
  rq_snapshot_complete :: "bool option"

record ConnectorImportError =
  im_external_id :: "string option"
  im_message :: string
  im_raw_item :: "string option"

record ConnectorRunItemDraft =
  dr_external_id :: "string option"
  dr_record_id :: "i32 option"
  dr_status :: string
  dr_snapshot :: "string option"

record ConnectorExecution =
  ex_data :: "json list"
  ex_items :: "ConnectorRunItemDraft list"
  ex_errors :: "ConnectorImportError list"
  ex_snapshot_complete :: "bool option"
  ex_archived_count :: nat

record ConnectorRunExecutionResponse =
  rr_source :: string
  rr_target :: string
  rr_imported :: nat
  rr_failed :: nat
  rr_run :: ConnectorRun
  rr_data :: "json list"
  rr_items :: "ConnectorRunItem list"
  rr_errors :: "ConnectorImportError list"
  rr_item_errors :: "ConnectorRunItemError list"

section \<open>Code outside the repository\<close>

record runtime =
  rt_cx :: crypto
  rt_fetch :: "string \<Rightarrow> string \<Rightarrow> nat \<Rightarrow> string + (json option \<times> string option)"
  rt_calendar_request :: "json \<Rightarrow> string + CalendarEventImportItem ImportRequest"
  rt_work_request :: "json \<Rightarrow> string + WorkCardImportItem ImportRequest"
  rt_notification_request :: "json \<Rightarrow> string + NotificationImportItem ImportRequest"
  rt_service_request :: "json \<Rightarrow> string + ServiceHealthImportItem list"
  rt_calendar_item_json :: "CalendarEventImportItem \<Rightarrow> json option"
  rt_work_item_json :: "WorkCardImportItem \<Rightarrow> json option"
  rt_notification_item_json :: "NotificationImportItem \<Rightarrow> json option"
  rt_service_item_json :: "ServiceHealthImportItem \<Rightarrow> json option"
  rt_calendar_json :: "CalendarEvent \<Rightarrow> json option"
  rt_work_json :: "WorkCard \<Rightarrow> json option"
  rt_notification_json :: "Notification \<Rightarrow> json option"
  rt_service_json :: "Service \<Rightarrow> json option"
  rt_rfc3339 :: "string \<Rightarrow> utc option"
  rt_naive :: "string \<Rightarrow> string \<Rightarrow> utc option"
  rt_show_utc :: "utc \<Rightarrow> string"
  rt_max_attempts_var :: "string option"

section \<open>Small functions\<close>

definition connector_error :: "string option \<Rightarrow> string \<Rightarrow> string option \<Rightarrow> ConnectorImportError" where
  "connector_error external_id message raw_item =
     \<lparr>im_external_id = external_id, im_message = message, im_raw_item = raw_item\<rparr>"

definition should_reconcile :: "bool option \<Rightarrow> nat \<Rightarrow> bool" where
  "should_reconcile snapshot_complete failure_count \<longleftrightarrow>
     snapshot_complete = Some True \<and> failure_count = 0"

definition connector_run_error_message :: "ConnectorImportError list \<Rightarrow> string option" where
  "connector_run_error_message errors =
     (if errors = [] then None
      else Some (take_chars 4096 (join_str ''; '' (map (\<lambda>e.
        (case im_external_id e of Some x \<Rightarrow> x | None \<Rightarrow> ''payload'') @ '': '' @ im_message e) errors))))"

definition parse_json_payload :: "crypto \<Rightarrow> string \<Rightarrow> json" where
  "parse_json_payload cx payload =
     (case cx_parse cx payload of
        Inr v \<Rightarrow> v
      | Inl e \<Rightarrow> JObject [(''_runtime_error'',
          JString (''sample_payload could not be parsed: '' @ e)), (''items'', JArray [])])"

definition naive_formats :: "string list" where
  "naive_formats = [''%Y-%m-%dT%H:%M:%S%.f'', ''%Y-%m-%dT%H:%M:%S'', ''%Y-%m-%d %H:%M:%S%.f'',
     ''%Y-%m-%d %H:%M:%S'']"

fun first_naive :: "(string \<Rightarrow> string \<Rightarrow> utc option) \<Rightarrow> string list \<Rightarrow> string \<Rightarrow> utc option" where
  "first_naive naive [] v = None"
| "first_naive naive (f # fs) v =
     (case naive f v of Some d \<Rightarrow> Some d | None \<Rightarrow> first_naive naive fs v)"

definition normalize_legacy_utc_datetime :: "runtime \<Rightarrow> string \<Rightarrow> string option" where
  "normalize_legacy_utc_datetime rt value =
     (let v = trim value in
      if v = [] then None
      else case rt_rfc3339 rt v of
          Some d \<Rightarrow> Some (rt_show_utc rt d)
        | None \<Rightarrow> map_option (rt_show_utc rt) (first_naive (rt_naive rt) naive_formats v))"

definition timestamp_fields :: "string \<Rightarrow> string list" where
  "timestamp_fields target =
     (if target = ''calendar_events'' then [''starts_at'', ''ends_at'']
      else if target = ''work_cards'' then [''due_at'']
      else if target = ''service_health'' then [''last_checked_at'']
      else [])"

definition normalize_member :: "runtime \<Rightarrow> string list \<Rightarrow> string \<times> json \<Rightarrow> string \<times> json" where
  "normalize_member rt names m =
     (case m of (k, v) \<Rightarrow>
        (k, if k \<in> set names then
              (case v of
                 JString raw \<Rightarrow>
                   (case normalize_legacy_utc_datetime rt raw of Some x \<Rightarrow> JString x | None \<Rightarrow> v)
               | _ \<Rightarrow> v)
            else v))"

definition normalize_item :: "runtime \<Rightarrow> string list \<Rightarrow> json \<Rightarrow> json" where
  "normalize_item rt names item =
     (case item of JObject ms \<Rightarrow> JObject (map (normalize_member rt names) ms) | _ \<Rightarrow> item)"

definition normalize_legacy_connector_payload_timestamps ::
    "runtime \<Rightarrow> string \<Rightarrow> json \<Rightarrow> json" where
  "normalize_legacy_connector_payload_timestamps rt target payload =
     (let names = timestamp_fields target in
      if names = [] then payload
      else case payload of
          JObject ms \<Rightarrow> JObject (map (\<lambda>(k, v).
            (k, if k = ''items'' then
                  (case v of JArray xs \<Rightarrow> JArray (map (normalize_item rt names) xs) | _ \<Rightarrow> v)
                else v)) ms)
        | _ \<Rightarrow> payload)"

definition imported_run_item ::
    "string option \<Rightarrow> i32 option \<Rightarrow> string option \<Rightarrow> ConnectorRunItemDraft" where
  "imported_run_item external_id record_id snapshot =
     \<lparr>dr_external_id = external_id, dr_record_id = record_id, dr_status = ''imported'',
      dr_snapshot = snapshot\<rparr>"

definition raw_item_json :: "runtime \<Rightarrow> json option \<Rightarrow> string option" where
  "raw_item_json rt item =
     (case item of None \<Rightarrow> None | Some v \<Rightarrow> sanitized_json_snapshot (rt_cx rt) v 8192)"

definition default_connector_kind :: "string \<Rightarrow> string \<Rightarrow> string" where
  "default_connector_kind source target =
     (let source = to_ascii_lowercase source in
      if contains_str ''azure'' source \<or> contains_str ''devops'' source then ''azure_devops''
      else if contains_str ''outlook'' source then ''outlook''
      else if contains_str ''erp'' source then ''erp''
      else if contains_str ''monitor'' source \<or> target = ''service_health'' then ''monitoring''
      else ''custom'')"

definition configured_connector_run_max_attempts :: "string option \<Rightarrow> i32" where
  "configured_connector_run_max_attempts var =
     (case Option.bind var parse_i32 of
        Some v \<Rightarrow> if v > 0 then v else 3
      | None \<Rightarrow> 3)"

definition single_error :: "string \<Rightarrow> ConnectorExecution" where
  "single_error message =
     \<lparr>ex_data = [], ex_items = [], ex_errors = [connector_error None message None],
      ex_snapshot_complete = None, ex_archived_count = 0\<rparr>"

definition payload_error :: "string \<Rightarrow> ConnectorExecution" where
  "payload_error e = single_error (''payload could not be decoded: '' @ e)"

section \<open>Creating runs\<close>

definition active_run_exists :: ApiError where
  "active_run_exists = validation_error ''status'' ''an active run already exists for source and target''"

definition queued_run ::
    "runtime \<Rightarrow> string \<Rightarrow> string \<Rightarrow> string \<Rightarrow> string option \<Rightarrow> i32 option \<Rightarrow> utc \<Rightarrow> NewConnectorRun" where
  "queued_run rt source target trigger payload parent_run_id started_at =
     \<lparr>cr_source = source, cr_target = target, cr_status = ''queued'', cr_success_count = 0,
      cr_failure_count = 0, cr_duration_ms = 0, cr_error_message = None, cr_started_at = started_at,
      cr_finished_at = None, cr_trigger = trigger, cr_payload = payload, cr_claimed_at = None,
      cr_worker_id = None, cr_attempt_count = 0,
      cr_max_attempts = configured_connector_run_max_attempts (rt_max_attempts_var rt),
      cr_next_attempt_at = started_at, cr_lease_expires_at = None, cr_heartbeat_at = None,
      cr_cancel_requested_at = None, cr_cancelled_at = None, cr_parent_run_id = parent_run_id,
      cr_snapshot_complete = None, cr_archived_count = 0\<rparr>"

definition created_or_active :: "ConnectorRun option \<Rightarrow> ConnectorRun api" where
  "created_or_active r = (case r of Some run \<Rightarrow> retM run | None \<Rightarrow> throwM active_run_exists)"

definition create_queued_run_with_parent ::
    "runtime \<Rightarrow> string \<Rightarrow> string \<Rightarrow> string \<Rightarrow> string option \<Rightarrow> i32 option \<Rightarrow> ConnectorRun api" where
  "create_queued_run_with_parent rt source target trigger payload parent_run_id =
     bindM utc_now (\<lambda>started_at.
     let new_run = queued_run rt source target trigger payload parent_run_id started_at in
     case parent_run_id of
       Some parent \<Rightarrow>
         bindM (liftM (ConnectorRunRepository_create_retry parent new_run)) created_or_active
     | None \<Rightarrow> bindM (liftM (ConnectorRunRepository_create_if_no_pending new_run)) created_or_active)"

definition create_queued_run ::
    "runtime \<Rightarrow> string \<Rightarrow> string \<Rightarrow> string \<Rightarrow> string option \<Rightarrow> ConnectorRun api" where
  "create_queued_run rt source target trigger payload =
     create_queued_run_with_parent rt source target trigger payload None"

definition create_queued_retry_run ::
    "runtime \<Rightarrow> string \<Rightarrow> string \<Rightarrow> string option \<Rightarrow> i32 \<Rightarrow> ConnectorRun api" where
  "create_queued_retry_run rt source target payload parent_run_id =
     create_queued_run_with_parent rt source target ''retry'' payload (Some parent_run_id)"

definition running_run ::
    "string \<Rightarrow> string \<Rightarrow> string \<Rightarrow> string option \<Rightarrow> utc \<Rightarrow> NewConnectorRun" where
  "running_run source target trigger payload started_at =
     \<lparr>cr_source = source, cr_target = target, cr_status = ''running'', cr_success_count = 0,
      cr_failure_count = 0, cr_duration_ms = 0, cr_error_message = None, cr_started_at = started_at,
      cr_finished_at = None, cr_trigger = trigger, cr_payload = payload,
      cr_claimed_at = Some started_at, cr_worker_id = None, cr_attempt_count = 1, cr_max_attempts = 1,
      cr_next_attempt_at = started_at, cr_lease_expires_at = None,
      cr_heartbeat_at = Some started_at, cr_cancel_requested_at = None, cr_cancelled_at = None,
      cr_parent_run_id = None, cr_snapshot_complete = None, cr_archived_count = 0\<rparr>"

definition create_running_run ::
    "string \<Rightarrow> string \<Rightarrow> string \<Rightarrow> string option \<Rightarrow> ConnectorRun api" where
  "create_running_run source target trigger payload =
     bindM (stepM (liftM (ConnectorRepository_find_or_create_default source
              (default_connector_kind source target)))) (\<lambda>_.
     bindM utc_now (\<lambda>started_at.
     bindM (liftM (ConnectorRunRepository_create_if_no_pending
              (running_run source target trigger payload started_at))) created_or_active))"

section \<open>Settling runs\<close>

definition run_outcome :: "nat \<Rightarrow> nat \<Rightarrow> string" where
  "run_outcome imported failed =
     (if failed = 0 then ''success'' else if imported = 0 then ''failed'' else ''partial_success'')"

definition final_state :: "ConnectorRun \<Rightarrow> ConnectorExecution \<Rightarrow> utc \<Rightarrow> ConnectorRunStateUpdate" where
  "final_state run execution finished_at =
     (let started_at = (case cr_claimed_at run of Some c \<Rightarrow> c | None \<Rightarrow> cr_started_at run);
          imported = length (ex_data execution); failed = length (ex_errors execution) in
      \<lparr>rs_status = run_outcome imported failed, rs_success_count = count_as_i32 imported,
       rs_failure_count = count_as_i32 failed,
       rs_duration_ms = max (num_milliseconds (finished_at - started_at)) 0,
       rs_error_message = connector_run_error_message (ex_errors execution),
       rs_finished_at = Some finished_at, rs_snapshot_complete = ex_snapshot_complete execution,
       rs_archived_count = count_as_i32 (ex_archived_count execution)\<rparr>)"

definition error_rows ::
    "i32 \<Rightarrow> string \<Rightarrow> string \<Rightarrow> ConnectorExecution \<Rightarrow> NewConnectorRunItemError list" where
  "error_rows run_id source target execution = map (\<lambda>e.
     \<lparr>re_connector_run_id = run_id, re_source = source, re_target = target,
      re_external_id = im_external_id e, re_message = im_message e, re_raw_item = im_raw_item e\<rparr>)
     (ex_errors execution)"

definition item_rows ::
    "i32 \<Rightarrow> string \<Rightarrow> string \<Rightarrow> ConnectorExecution \<Rightarrow> NewConnectorRunItem list" where
  "item_rows run_id source target execution =
     map (\<lambda>i. \<lparr>ri_connector_run_id = run_id, ri_source = source, ri_target = target,
        ri_record_id = dr_record_id i, ri_external_id = dr_external_id i, ri_status = dr_status i,
        ri_snapshot = dr_snapshot i\<rparr>) (ex_items execution)
     @ map (\<lambda>e. \<lparr>ri_connector_run_id = run_id, ri_source = source, ri_target = target,
        ri_record_id = None, ri_external_id = im_external_id e, ri_status = ''failed'',
        ri_snapshot = im_raw_item e\<rparr>) (ex_errors execution)"

definition finish_connector_run_for_owner ::
    "string \<Rightarrow> string \<Rightarrow> ConnectorRun \<Rightarrow> ConnectorExecution \<Rightarrow> string option \<Rightarrow>
     ConnectorRunExecutionResponse api" where
  "finish_connector_run_for_owner source target run0 execution worker_id =
     bindM utc_now (\<lambda>finished_at.
     bindM (liftM (ConnectorRunRepository_finalize_if_active (cr_id run0) worker_id
              (final_state run0 execution finished_at))) (\<lambda>finalized.
     case finalized of
       None \<Rightarrow> throwM ServiceUnavailable
     | Some run \<Rightarrow>
         bindM (liftM (ConnectorRunItemErrorRepository_create_many
                  (error_rows (cr_id run) source target execution))) (\<lambda>item_errors.
         bindM (liftM (ConnectorRunItemRepository_create_many
                  (item_rows (cr_id run) source target execution))) (\<lambda>items.
         bindM (liftM (ConnectorRepository_touch_run_state source
                  (default_connector_kind source target) (cr_status run) finished_at)) (\<lambda>_.
         retM \<lparr>rr_source = source, rr_target = target, rr_imported = length (ex_data execution),
            rr_failed = length (ex_errors execution), rr_run = run, rr_data = ex_data execution,
            rr_items = items, rr_errors = ex_errors execution, rr_item_errors = item_errors\<rparr>)))))"

definition finish_connector_run ::
    "string \<Rightarrow> string \<Rightarrow> ConnectorRun \<Rightarrow> ConnectorExecution \<Rightarrow> ConnectorRunExecutionResponse api" where
  "finish_connector_run source target run execution =
     finish_connector_run_for_owner source target run execution None"

text \<open>\<^verbatim>\<open>unwrap_or\<close> evaluates its argument: the run is looked up whether or not it was cancelled.\<close>

definition cancelled_response_or_ownership_error ::
    "i32 \<Rightarrow> string option \<Rightarrow> ConnectorRunExecutionResponse api" where
  "cancelled_response_or_ownership_error run_id worker_id =
     bindM (stepM (liftM (ConnectorRunRepository_mark_cancelled_if_requested run_id worker_id)))
       (\<lambda>marked.
     bindM (stepM (liftM (ConnectorRunRepository_find run_id))) (\<lambda>found.
     let run = (case marked of Some r \<Rightarrow> r | None \<Rightarrow> found) in
     if cr_status run \<noteq> ''cancelled'' then throwM ServiceUnavailable
     else retM \<lparr>rr_source = cr_source run, rr_target = cr_target run, rr_imported = 0, rr_failed = 0,
        rr_run = run, rr_data = [], rr_items = [], rr_errors = [], rr_item_errors = []\<rparr>))"

definition settle_cancelled_connector_run :: "i32 \<Rightarrow> ConnectorRunExecutionResponse api" where
  "settle_cancelled_connector_run run_id = cancelled_response_or_ownership_error run_id None"

section \<open>Importing items\<close>

text \<open>The accumulators \<^verbatim>\<open>data\<close>, \<^verbatim>\<open>run_items\<close> and \<^verbatim>\<open>errors\<close> of the loops.\<close>

record import_acc =
  acc_data :: "json list"
  acc_items :: "ConnectorRunItemDraft list"
  acc_errors :: "ConnectorImportError list"

definition empty_acc :: import_acc where
  "empty_acc = \<lparr>acc_data = [], acc_items = [], acc_errors = []\<rparr>"

definition push_error ::
    "string \<Rightarrow> string \<Rightarrow> string option \<Rightarrow> import_acc \<Rightarrow> import_acc" where
  "push_error external_id message raw acc =
     acc\<lparr>acc_errors := acc_errors acc @ [connector_error (Some external_id) message raw]\<rparr>"

text \<open>The body of each loop after the request is built: validation errors and database errors are
  collected, a record that was written is reported.\<close>

definition import_item ::
    "string \<Rightarrow> string option \<Rightarrow> (ApiError + 'n) \<Rightarrow> ('n \<Rightarrow> 'r query) \<Rightarrow> ('r \<Rightarrow> string option) \<Rightarrow>
     ('r \<Rightarrow> i32) \<Rightarrow> ('r \<Rightarrow> json option) \<Rightarrow> import_acc \<Rightarrow> import_acc api" where
  "import_item external_id raw validated upsert ext rid to_json acc =
     (case validated of
        Inl e \<Rightarrow> retM (push_error external_id (api_error_message e) raw acc)
      | Inr new \<Rightarrow> handleM (upsert new)
          (\<lambda>e. retM (push_error external_id (diesel_error_string e) raw acc))
          (\<lambda>r. case to_json r of
             None \<Rightarrow> throwM Internal
           | Some v \<Rightarrow> retM (acc\<lparr>
               acc_items := acc_items acc @ [imported_run_item (ext r) (Some (rid r)) raw],
               acc_data := acc_data acc @ [v]\<rparr>)))"

definition execution_of :: "import_acc \<Rightarrow> bool option \<Rightarrow> nat \<Rightarrow> ConnectorExecution" where
  "execution_of acc snapshot_complete archived_count =
     \<lparr>ex_data = acc_data acc, ex_items = acc_items acc, ex_errors = acc_errors acc,
      ex_snapshot_complete = snapshot_complete, ex_archived_count = archived_count\<rparr>"

definition reconcile ::
    "bool option \<Rightarrow> nat query \<Rightarrow> import_acc \<Rightarrow> ConnectorExecution api" where
  "reconcile snapshot_complete archive_missing acc =
     bindM (if should_reconcile snapshot_complete (length (acc_errors acc))
            then liftM archive_missing else retM 0)
       (\<lambda>archived_count. retM (execution_of acc snapshot_complete archived_count))"

definition new_calendar_event ::
    "string \<Rightarrow> Connector \<Rightarrow> i32 \<Rightarrow> utc \<Rightarrow> utc \<Rightarrow> CalendarEventImportItem \<Rightarrow> NewCalendarEvent" where
  "new_calendar_event source connector run_id starts_at ends_at item =
     \<lparr>ce_source = source, ce_external_id = ii_external_id item, ce_title = ii_title item,
      ce_body = ii_body item, ce_organizer = ii_organizer item, ce_location = ii_location item,
      ce_starts_at = starts_at, ce_ends_at = ends_at, ce_time_zone = ii_time_zone item,
      ce_is_all_day = ii_is_all_day item, ce_is_cancelled = ii_is_cancelled item,
      ce_web_url = ii_web_url item, ce_join_url = ii_join_url item,
      ce_connector_id = Some (cn_id connector), ce_owner_user_id = cn_owner_user_id connector,
      ce_maintainer_id = cn_maintainer_id connector, ce_source_updated_at = None,
      ce_last_seen_run_id = Some run_id, ce_archived_at = None\<rparr>"

definition import_calendar_item ::
    "runtime \<Rightarrow> string \<Rightarrow> Connector \<Rightarrow> i32 \<Rightarrow> CalendarEventImportItem \<Rightarrow> import_acc \<Rightarrow> import_acc api" where
  "import_calendar_item rt source connector run_id item acc =
     (let raw = raw_item_json rt (rt_calendar_item_json rt item) in
      case (ii_starts_at item, ii_ends_at item) of
        (Some starts_at, Some ends_at) \<Rightarrow>
          import_item (ii_external_id item) raw
            (validate_request NewCalendarEvent_validate
               (new_calendar_event source connector run_id starts_at ends_at item))
            CalendarEventRepository_upsert_from_connector (\<lambda>e. Some (ce_external_id e)) ce_id
            (rt_calendar_json rt) acc
      | _ \<Rightarrow> retM (push_error (ii_external_id item) ''starts_at and ends_at are required'' raw acc))"

definition execute_calendar_event_items ::
    "runtime \<Rightarrow> string \<Rightarrow> i32 \<Rightarrow> CalendarEventImportItem list \<Rightarrow> bool option \<Rightarrow>
     ConnectorExecution api" where
  "execute_calendar_event_items rt source run_id items snapshot_complete =
     bindM (liftM (ConnectorRepository_find_by_source source)) (\<lambda>connector.
     bindM (foldM (import_calendar_item rt source connector run_id) items empty_acc)
       (reconcile snapshot_complete
          (CalendarEventRepository_archive_missing_for_connector_run (cn_id connector) run_id)))"

definition new_work_card ::
    "string \<Rightarrow> Connector \<Rightarrow> i32 \<Rightarrow> WorkCardImportItem \<Rightarrow> NewWorkCard" where
  "new_work_card source connector run_id item =
     \<lparr>wc_source = source, wc_external_id = Some (wi_external_id item), wc_title = wi_title item,
      wc_status = wi_status item, wc_priority = wi_priority item, wc_assignee = wi_assignee item,
      wc_project = wi_project item, wc_work_item_type = wi_work_item_type item,
      wc_assignee_source_id = wi_assignee_source_id item,
      wc_assignee_user_id = wi_assignee_user_id item, wc_due_at = wi_due_at item,
      wc_url = wi_url item, wc_connector_id = Some (cn_id connector),
      wc_owner_user_id = cn_owner_user_id connector, wc_maintainer_id = cn_maintainer_id connector,
      wc_source_updated_at = wi_source_updated_at item, wc_last_seen_run_id = Some run_id,
      wc_archived_at = None\<rparr>"

definition import_work_card_item ::
    "runtime \<Rightarrow> string \<Rightarrow> Connector \<Rightarrow> i32 \<Rightarrow> WorkCardImportItem \<Rightarrow> import_acc \<Rightarrow> import_acc api" where
  "import_work_card_item rt source connector run_id item =
     import_item (wi_external_id item) (raw_item_json rt (rt_work_item_json rt item))
       (validate_request NewWorkCard_validate (new_work_card source connector run_id item))
       WorkCardRepository_upsert_from_connector wc_external_id wc_id (rt_work_json rt)"

definition execute_work_card_items ::
    "runtime \<Rightarrow> string \<Rightarrow> i32 \<Rightarrow> WorkCardImportItem list \<Rightarrow> bool option \<Rightarrow> ConnectorExecution api" where
  "execute_work_card_items rt source run_id items snapshot_complete =
     bindM (liftM (ConnectorRepository_find_by_source source)) (\<lambda>connector.
     bindM (foldM (import_work_card_item rt source connector run_id) items empty_acc)
       (reconcile snapshot_complete
          (WorkCardRepository_archive_missing_for_connector_run (cn_id connector) run_id)))"

definition new_notification ::
    "string \<Rightarrow> Connector \<Rightarrow> i32 \<Rightarrow> NotificationImportItem \<Rightarrow> NewNotification" where
  "new_notification source connector run_id item =
     \<lparr>nt_source = source, nt_external_id = Some (ni_external_id item), nt_title = ni_title item,
      nt_body = ni_body item, nt_severity = ni_severity item, nt_is_read = ni_is_read item,
      nt_url = ni_url item, nt_connector_id = Some (cn_id connector),
      nt_owner_user_id = cn_owner_user_id connector, nt_maintainer_id = cn_maintainer_id connector,
      nt_source_updated_at = None, nt_last_seen_run_id = Some run_id, nt_archived_at = None\<rparr>"

definition import_notification_item ::
    "runtime \<Rightarrow> string \<Rightarrow> Connector \<Rightarrow> i32 \<Rightarrow> NotificationImportItem \<Rightarrow> import_acc \<Rightarrow> import_acc api" where
  "import_notification_item rt source connector run_id item =
     import_item (ni_external_id item) (raw_item_json rt (rt_notification_item_json rt item))
       (validate_request NewNotification_validate (new_notification source connector run_id item))
       NotificationRepository_upsert_from_connector nt_external_id nt_id (rt_notification_json rt)"

definition execute_notification_items ::
    "runtime \<Rightarrow> string \<Rightarrow> i32 \<Rightarrow> NotificationImportItem list \<Rightarrow> bool option \<Rightarrow>
     ConnectorExecution api" where
  "execute_notification_items rt source run_id items snapshot_complete =
     bindM (liftM (ConnectorRepository_find_by_source source)) (\<lambda>connector.
     bindM (foldM (import_notification_item rt source connector run_id) items empty_acc)
       (reconcile snapshot_complete
          (NotificationRepository_archive_missing_for_connector_run (cn_id connector) run_id)))"

definition new_service :: "string \<Rightarrow> ServiceHealthImportItem \<Rightarrow> NewService" where
  "new_service source item =
     \<lparr>sv_source = source, sv_external_id = Some (si_external_id item),
      sv_maintainer_id = si_maintainer_id item, sv_slug = si_slug item, sv_name = si_name item,
      sv_lifecycle_status = si_lifecycle_status item, sv_health_status = si_health_status item,
      sv_description = si_description item, sv_repository_url = si_repository_url item,
      sv_dashboard_url = si_dashboard_url item, sv_runbook_url = si_runbook_url item,
      sv_last_checked_at = si_last_checked_at item\<rparr>"

definition import_service_item ::
    "runtime \<Rightarrow> string \<Rightarrow> i32 \<Rightarrow> ServiceHealthImportItem \<Rightarrow> import_acc \<Rightarrow> import_acc api" where
  "import_service_item rt source run_id item =
     (let raw = raw_item_json rt (rt_service_item_json rt item) in
      import_item (si_external_id item) raw
        (validate_request NewService_validate (new_service source item))
        (\<lambda>n. ServiceRepository_upsert_from_connector_with_health_check n run_id raw)
        sv_external_id sv_id (rt_service_json rt))"

definition execute_service_health_items ::
    "runtime \<Rightarrow> string \<Rightarrow> i32 \<Rightarrow> ServiceHealthImportItem list \<Rightarrow> ConnectorExecution api" where
  "execute_service_health_items rt source run_id items =
     bindM (foldM (import_service_item rt source run_id) items empty_acc)
       (\<lambda>acc. retM (execution_of acc None 0))"

definition execute_payload_for_target ::
    "runtime \<Rightarrow> string \<Rightarrow> string \<Rightarrow> i32 \<Rightarrow> json \<Rightarrow> ConnectorExecution api" where
  "execute_payload_for_target rt source target run_id payload =
     (if target = ''calendar_events'' then
        (case rt_calendar_request rt payload of
           Inr rq \<Rightarrow> execute_calendar_event_items rt source run_id (rq_items rq) (rq_snapshot_complete rq)
         | Inl e \<Rightarrow> retM (payload_error e))
      else if target = ''work_cards'' then
        (case rt_work_request rt payload of
           Inr rq \<Rightarrow> execute_work_card_items rt source run_id (rq_items rq) (rq_snapshot_complete rq)
         | Inl e \<Rightarrow> retM (payload_error e))
      else if target = ''notifications'' then
        (case rt_notification_request rt payload of
           Inr rq \<Rightarrow> execute_notification_items rt source run_id (rq_items rq) (rq_snapshot_complete rq)
         | Inl e \<Rightarrow> retM (payload_error e))
      else if target = ''service_health'' then
        (case rt_service_request rt payload of
           Inr items \<Rightarrow> execute_service_health_items rt source run_id items
         | Inl e \<Rightarrow> retM (payload_error e))
      else retM (single_error ''target is not supported''))"

section \<open>Executing a claimed run\<close>

definition load_payload_for_claimed_run :: "runtime \<Rightarrow> ConnectorRun \<Rightarrow> json api" where
  "load_payload_for_claimed_run rt run =
     bindM (stepM (liftM (ConnectorRepository_find_by_source (cr_source run)))) (\<lambda>connector.
     bindM (stepM (liftM (ConnectorConfigRepository_find_by_source (cr_source run)))) (\<lambda>config.
     if cn_status connector = ''paused'' then throwM (validation_error ''status'' ''is paused'')
     else if \<not> cc_enabled config then throwM (validation_error ''enabled'' ''must be true'')
     else case cr_payload run of
       Some payload \<Rightarrow> retM (parse_json_payload (rt_cx rt) payload)
     | None \<Rightarrow>
        (case decrypt_connector_config (rt_cx rt) (cc_config config) of
           Inl e \<Rightarrow> throwM (validation_error ''config'' e)
         | Inr config_json \<Rightarrow>
            bindM outside_call (\<lambda>n.
            case rt_fetch rt (cr_target run) config_json n of
              Inl e \<Rightarrow> throwM (validation_error ''config'' e)
            | Inr (payload, updated_config) \<Rightarrow>
                bindM (case updated_config of
                    None \<Rightarrow> retM ()
                  | Some u \<Rightarrow>
                     (case fst (encrypt_connector_config (rt_cx rt) u n) of
                        Inl e \<Rightarrow> throwM (validation_error ''config'' e)
                      | Inr encrypted \<Rightarrow>
                          bindM (stepM (liftM (ConnectorConfigRepository_update_config
                            (cr_source run) encrypted))) (\<lambda>_. retM ())))
                  (\<lambda>_. retM (normalize_legacy_connector_payload_timestamps rt (cr_target run)
                     (case payload of
                        Some v \<Rightarrow> v
                      | None \<Rightarrow> parse_json_payload (rt_cx rt) (cc_sample_payload config))))))))"

definition run_transaction ::
    "runtime \<Rightarrow> ConnectorRun \<Rightarrow> string option \<Rightarrow> json + ConnectorExecution \<Rightarrow>
     ConnectorRunExecutionResponse api" where
  "run_transaction rt run worker_id prepared = api_transaction (
     bindM (liftM (ConnectorRunRepository_execution_is_active (cr_id run) worker_id)) (\<lambda>active.
     if \<not> active then throwM ServiceUnavailable
     else
       bindM (case prepared of
                Inl payload \<Rightarrow> execute_payload_for_target rt (cr_source run) (cr_target run) (cr_id run)
                  payload
              | Inr execution \<Rightarrow> retM execution) (\<lambda>execution.
       bindM (liftM (ConnectorRunRepository_execution_is_active (cr_id run) worker_id)) (\<lambda>active.
       if \<not> active then throwM ServiceUnavailable
       else finish_connector_run_for_owner (cr_source run) (cr_target run) run execution worker_id))))"

definition execute_connector_run ::
    "runtime \<Rightarrow> ConnectorRun \<Rightarrow> string option \<Rightarrow> ConnectorRunExecutionResponse api" where
  "execute_connector_run rt run worker_id =
     bindM (stepM (liftM (ConnectorRunRepository_execution_is_active (cr_id run) worker_id)))
       (\<lambda>active.
     if \<not> active then cancelled_response_or_ownership_error (cr_id run) worker_id
     else
       bindM (handleM (load_payload_for_claimed_run rt run)
                (\<lambda>e. retM (Inr (single_error (api_error_message e)))) (\<lambda>p. retM (Inl p)))
         (\<lambda>prepared.
       bindM (stepM (liftM (ConnectorRunRepository_execution_is_active (cr_id run) worker_id)))
         (\<lambda>active.
       if \<not> active then cancelled_response_or_ownership_error (cr_id run) worker_id
       else
         handleM (stepM (run_transaction rt run worker_id prepared))
           (\<lambda>error.
             bindM (stepM (liftM (ConnectorRunRepository_cancellation_requested (cr_id run))))
               (\<lambda>requested.
             if requested then cancelled_response_or_ownership_error (cr_id run) worker_id
             else throwM error))
           retM)))"

definition execute_claimed_connector_run ::
    "runtime \<Rightarrow> ConnectorRun \<Rightarrow> ConnectorRunExecutionResponse api" where
  "execute_claimed_connector_run rt run = execute_connector_run rt run None"

definition execute_leased_connector_run ::
    "runtime \<Rightarrow> ConnectorRun \<Rightarrow> string \<Rightarrow> ConnectorRunExecutionResponse api" where
  "execute_leased_connector_run rt run worker_id = execute_connector_run rt run (Some worker_id)"

end
