(* ===== verification/Worker_Config.thy ===== *)
theory Worker_Config
  imports Runtime
begin

text \<open>
  The configuration and the local state of the background worker of
  \<^verbatim>\<open>src/src/rocket_routes/connectors/worker.rs\<close>: the environment variables it reads, its policies for
  leases and retention, the schedule of the retention pass, the state of a cycle, the task that renews
  a lease, and the guard of the test helpers.

  The environment of the process is a parameter: what \<^verbatim>\<open>std::env::var\<close> answers for every name.
  An \<^verbatim>\<open>Instant\<close> and a \<^verbatim>\<open>Duration\<close> are integers in microseconds.
\<close>

section \<open>Environment variables\<close>

datatype VarError = NotPresent | NotUnicode

type_synonym process_env = "string \<Rightarrow> VarError + string"

definition var_ok :: "process_env \<Rightarrow> string \<Rightarrow> string option" where
  "var_ok vars name = (case vars name of Inl _ \<Rightarrow> None | Inr v \<Rightarrow> Some v)"

definition filter_option :: "('a \<Rightarrow> bool) \<Rightarrow> 'a option \<Rightarrow> 'a option" where
  "filter_option p x = (case x of None \<Rightarrow> None | Some v \<Rightarrow> if p v then Some v else None)"

definition unwrap_or :: "'a option \<Rightarrow> 'a \<Rightarrow> 'a" where
  "unwrap_or x d = (case x of None \<Rightarrow> d | Some v \<Rightarrow> v)"

definition or_else :: "'a option \<Rightarrow> 'a option \<Rightarrow> 'a option" where
  "or_else x y = (case x of Some v \<Rightarrow> Some v | None \<Rightarrow> y)"

definition env_flag :: "process_env \<Rightarrow> string \<Rightarrow> bool \<Rightarrow> bool" where
  "env_flag vars name fallback = (case vars name of
       Inr value \<Rightarrow> value \<in> set [''1'', ''true'', ''TRUE'', ''yes'', ''YES'']
     | Inl _ \<Rightarrow> fallback)"

definition env_u64 :: "process_env \<Rightarrow> string \<Rightarrow> int \<Rightarrow> int" where
  "env_u64 vars name fallback =
     unwrap_or (filter_option (\<lambda>v. v > 0) (Option.bind (var_ok vars name) parse_u64)) fallback"

definition strict_positive_env_u64 :: "process_env \<Rightarrow> string \<Rightarrow> int \<Rightarrow> string + int" where
  "strict_positive_env_u64 vars name fallback = (case vars name of
       Inr value \<Rightarrow> (case filter_option (\<lambda>v. v > 0) (parse_u64 (trim value)) of
            Some v \<Rightarrow> Inr v
          | None \<Rightarrow> Inl (name @ '' must be a positive integer''))
     | Inl NotPresent \<Rightarrow> Inr fallback
     | Inl NotUnicode \<Rightarrow> Inl (name @ '' must contain valid Unicode''))"

definition env_retention_days :: "process_env \<Rightarrow> string \<Rightarrow> i64 \<Rightarrow> i64 option" where
  "env_retention_days vars name fallback =
     (let days = unwrap_or (filter_option (\<lambda>v. v \<ge> 0) (Option.bind (var_ok vars name) parse_i64)) fallback
      in if days = 0 then None else Some days)"

definition strict_env_flag :: "process_env \<Rightarrow> string \<Rightarrow> bool \<Rightarrow> string + bool" where
  "strict_env_flag vars name fallback = (case vars name of
       Inr value \<Rightarrow>
         (let v = to_ascii_lowercase (trim value) in
          if v \<in> set [''1'', ''true'', ''yes''] then Inr True
          else if v \<in> set [''0'', ''false'', ''no''] then Inr False
          else Inl (name @ '' must be one of: true, false, 1, 0, yes, no''))
     | Inl NotPresent \<Rightarrow> Inr fallback
     | Inl NotUnicode \<Rightarrow> Inl (name @ '' must contain valid Unicode''))"

definition DEFAULT_HEALTH_RETENTION_DAYS :: i64 where "DEFAULT_HEALTH_RETENTION_DAYS = 30"
definition DEFAULT_RUN_RETENTION_DAYS :: i64 where "DEFAULT_RUN_RETENTION_DAYS = 90"
definition DEFAULT_AUDIT_LOG_RETENTION_DAYS :: i64 where "DEFAULT_AUDIT_LOG_RETENTION_DAYS = 365"
definition DEFAULT_LOGIN_THROTTLE_RETENTION_DAYS :: i64 where "DEFAULT_LOGIN_THROTTLE_RETENTION_DAYS = 30"
definition DEFAULT_RETENTION_CLEANUP_INTERVAL_SECONDS :: int where
  "DEFAULT_RETENTION_CLEANUP_INTERVAL_SECONDS = 60 * 60"
definition RETENTION_FAILURE_RETRY_BASE_SECONDS :: i64 where "RETENTION_FAILURE_RETRY_BASE_SECONDS = 30"
definition RETENTION_FAILURE_RETRY_MAX_SECONDS :: i64 where "RETENTION_FAILURE_RETRY_MAX_SECONDS = 5 * 60"
definition DEFAULT_WORKER_HEARTBEAT_INTERVAL_SECONDS :: int where "DEFAULT_WORKER_HEARTBEAT_INTERVAL_SECONDS = 15"
definition DEFAULT_RUN_LEASE_SECONDS :: int where "DEFAULT_RUN_LEASE_SECONDS = 60"
definition DEFAULT_RUN_LEASE_RENEW_INTERVAL_SECONDS :: int where "DEFAULT_RUN_LEASE_RENEW_INTERVAL_SECONDS = 15"
definition DEFAULT_RUN_RETRY_BASE_SECONDS :: int where "DEFAULT_RUN_RETRY_BASE_SECONDS = 5"
definition DEFAULT_RUN_RETRY_MAX_SECONDS :: int where "DEFAULT_RUN_RETRY_MAX_SECONDS = 300"
definition DEFAULT_WORKER_STALE_AFTER_SECONDS :: i64 where "DEFAULT_WORKER_STALE_AFTER_SECONDS = 45"

definition connector_worker_stale_after_seconds :: "process_env \<Rightarrow> i64" where
  "connector_worker_stale_after_seconds vars = u64_as_i64
     (env_u64 vars ''CONNECTOR_WORKER_STALE_AFTER_SECONDS'' DEFAULT_WORKER_STALE_AFTER_SECONDS)"

section \<open>Policies\<close>

record ConnectorRunLeasePolicy =
  lp_lease_seconds :: i64
  lp_renew_interval :: utc
  lp_retry_base_seconds :: i64
  lp_retry_max_seconds :: i64

definition lease_checks :: "int \<Rightarrow> int \<Rightarrow> int \<Rightarrow> int \<Rightarrow> int \<Rightarrow> string + ConnectorRunLeasePolicy" where
  "lease_checks lease_seconds renew_interval_seconds retry_base_seconds retry_max_seconds max_attempts =
     (if renew_interval_seconds \<ge> lease_seconds then
        Inl ''CONNECTOR_RUN_LEASE_RENEW_INTERVAL_SECONDS must be less than CONNECTOR_RUN_LEASE_SECONDS''
      else if retry_max_seconds < retry_base_seconds then
        Inl ''CONNECTOR_RUN_RETRY_MAX_SECONDS must be greater than or equal to CONNECTOR_RUN_RETRY_BASE_SECONDS''
      else if max_attempts > i32_max then
        Inl ''CONNECTOR_RUN_MAX_ATTEMPTS must fit in a signed 32-bit integer''
      else Inr \<lparr>lp_lease_seconds = u64_as_i64 lease_seconds,
             lp_renew_interval = seconds renew_interval_seconds,
             lp_retry_base_seconds = u64_as_i64 retry_base_seconds,
             lp_retry_max_seconds = u64_as_i64 retry_max_seconds\<rparr>)"

text \<open>The \<^verbatim>\<open>?\<close> operator on results.\<close>

definition bindS :: "'e + 'a \<Rightarrow> ('a \<Rightarrow> 'e + 'b) \<Rightarrow> 'e + 'b" where
  "bindS r f = (case r of Inl e \<Rightarrow> Inl e | Inr x \<Rightarrow> f x)"

definition ConnectorRunLeasePolicy_from_env :: "process_env \<Rightarrow> string + ConnectorRunLeasePolicy" where
  "ConnectorRunLeasePolicy_from_env vars =
     bindS (strict_positive_env_u64 vars ''CONNECTOR_RUN_LEASE_SECONDS'' DEFAULT_RUN_LEASE_SECONDS) (\<lambda>lease_seconds.
     bindS (strict_positive_env_u64 vars ''CONNECTOR_RUN_LEASE_RENEW_INTERVAL_SECONDS''
              DEFAULT_RUN_LEASE_RENEW_INTERVAL_SECONDS) (\<lambda>renew_interval_seconds.
     bindS (strict_positive_env_u64 vars ''CONNECTOR_RUN_RETRY_BASE_SECONDS''
              DEFAULT_RUN_RETRY_BASE_SECONDS) (\<lambda>retry_base_seconds.
     bindS (strict_positive_env_u64 vars ''CONNECTOR_RUN_RETRY_MAX_SECONDS''
              DEFAULT_RUN_RETRY_MAX_SECONDS) (\<lambda>retry_max_seconds.
     bindS (strict_positive_env_u64 vars ''CONNECTOR_RUN_MAX_ATTEMPTS''
              (configured_connector_run_max_attempts (var_ok vars ''CONNECTOR_RUN_MAX_ATTEMPTS''))) (\<lambda>max_attempts.
     lease_checks lease_seconds renew_interval_seconds retry_base_seconds retry_max_seconds max_attempts)))))"

record ConnectorRetentionPolicy =
  rp_health_retention_days :: "i64 option"
  rp_run_retention_days :: "i64 option"
  rp_audit_log_retention_days :: "i64 option"
  rp_cleanup_interval :: int

definition ConnectorRetentionPolicy_from_env :: "process_env \<Rightarrow> ConnectorRetentionPolicy" where
  "ConnectorRetentionPolicy_from_env vars =
     \<lparr>rp_health_retention_days = env_retention_days vars ''CONNECTOR_HEALTH_RETENTION_DAYS''
        DEFAULT_HEALTH_RETENTION_DAYS,
      rp_run_retention_days = env_retention_days vars ''CONNECTOR_RUN_RETENTION_DAYS''
        DEFAULT_RUN_RETENTION_DAYS,
      rp_audit_log_retention_days = env_retention_days vars ''AUDIT_LOG_RETENTION_DAYS''
        DEFAULT_AUDIT_LOG_RETENTION_DAYS,
      rp_cleanup_interval = seconds (env_u64 vars ''CONNECTOR_RETENTION_CLEANUP_INTERVAL_SECONDS''
        DEFAULT_RETENTION_CLEANUP_INTERVAL_SECONDS)\<rparr>"

definition ConnectorRetentionPolicy_enabled :: "ConnectorRetentionPolicy \<Rightarrow> bool" where
  "ConnectorRetentionPolicy_enabled policy = True"

section \<open>The schedule of the retention pass\<close>

datatype RetentionAttemptOutcome = RetentionCompleted | RetentionLockBusy | RetentionRecent | RetentionFailed

record RetentionAttemptSchedule =
  ra_next_attempt_at :: utc
  ra_consecutive_failures :: i32

definition due_immediately :: "utc \<Rightarrow> RetentionAttemptSchedule" where
  "due_immediately now = \<lparr>ra_next_attempt_at = now, ra_consecutive_failures = 0\<rparr>"

definition is_due :: "RetentionAttemptSchedule \<Rightarrow> utc \<Rightarrow> bool" where
  "is_due schedule now \<longleftrightarrow> now \<ge> ra_next_attempt_at schedule"

definition record_outcome ::
    "RetentionAttemptOutcome \<Rightarrow> ConnectorRetentionPolicy \<Rightarrow> utc \<Rightarrow> RetentionAttemptSchedule \<Rightarrow>
     RetentionAttemptSchedule" where
  "record_outcome outcome policy now schedule = (case outcome of
       RetentionFailed \<Rightarrow>
         (let failures = saturating_add_i32 (ra_consecutive_failures schedule) 1 in
          \<lparr>ra_next_attempt_at = now + seconds (bounded_retry_backoff_seconds failures
             RETENTION_FAILURE_RETRY_BASE_SECONDS RETENTION_FAILURE_RETRY_MAX_SECONDS),
           ra_consecutive_failures = failures\<rparr>)
     | _ \<Rightarrow> \<lparr>ra_next_attempt_at = now + rp_cleanup_interval policy, ra_consecutive_failures = 0\<rparr>)"

section \<open>The state of a cycle\<close>

datatype WorkerCycleOperation = LeaseRecovery | RetentionCleanup | SchedulerPass | ConnectorQueue

record WorkerCycleState =
  wy_reconnect_required :: bool

definition record_failure :: "WorkerCycleOperation \<Rightarrow> WorkerCycleState \<Rightarrow> WorkerCycleState" where
  "record_failure operation cycle =
     (if operation \<noteq> RetentionCleanup then cycle\<lparr>wy_reconnect_required := True\<rparr> else cycle)"

definition can_continue_connector_work :: "WorkerCycleState \<Rightarrow> bool" where
  "can_continue_connector_work cycle \<longleftrightarrow> \<not> wy_reconnect_required cycle"

definition heartbeat_due :: "utc option \<Rightarrow> utc \<Rightarrow> utc \<Rightarrow> bool" where
  "heartbeat_due last_heartbeat_at heartbeat_interval now =
     (case last_heartbeat_at of Some l \<Rightarrow> now - l \<ge> heartbeat_interval | None \<Rightarrow> True)"

section \<open>Renewing a lease\<close>

text \<open>The task beside a running import. It is told to stop, or after every interval opens a connection
  and renews the lease: the answers of the connection and of \<^verbatim>\<open>renew_lease\<close> are its events. Its write to
  the database is made on a connection of its own, so for the import it is a step of another process.\<close>

record RunLeaseRenewal =
  rl_last_successful_renewal :: utc
  rl_lease_lost :: bool
  rl_running :: bool

datatype renewal_event = StopRequested | ConnectFailed utc | RenewFailed utc | RenewRefused | RenewOk utc

definition renewal_spawn :: "utc \<Rightarrow> RunLeaseRenewal" where
  "renewal_spawn now = \<lparr>rl_last_successful_renewal = now, rl_lease_lost = False, rl_running = True\<rparr>"

definition renewal_overdue :: "ConnectorRunLeasePolicy \<Rightarrow> utc \<Rightarrow> RunLeaseRenewal \<Rightarrow> RunLeaseRenewal" where
  "renewal_overdue policy now task =
     (if now - rl_last_successful_renewal task \<ge> seconds (lp_lease_seconds policy mod 18446744073709551616)
      then task\<lparr>rl_lease_lost := True, rl_running := False\<rparr> else task)"

definition renewal_step ::
    "ConnectorRunLeasePolicy \<Rightarrow> renewal_event \<Rightarrow> RunLeaseRenewal \<Rightarrow> RunLeaseRenewal" where
  "renewal_step policy e task =
     (if \<not> rl_running task then task
      else (case e of
          StopRequested \<Rightarrow> task\<lparr>rl_running := False\<rparr>
        | ConnectFailed now \<Rightarrow> renewal_overdue policy now task
        | RenewFailed now \<Rightarrow> renewal_overdue policy now task
        | RenewRefused \<Rightarrow> task\<lparr>rl_lease_lost := True, rl_running := False\<rparr>
        | RenewOk now \<Rightarrow> task\<lparr>rl_last_successful_renewal := now\<rparr>))"

definition renewal_stop :: "bool \<Rightarrow> RunLeaseRenewal \<Rightarrow> bool" where
  "renewal_stop task_panicked task \<longleftrightarrow> task_panicked \<or> rl_lease_lost task"

section \<open>The guard of the test helpers\<close>

definition is_safe_test_database_name :: "string \<Rightarrow> bool" where
  "is_safe_test_database_name database_name =
     list_ex (\<lambda>segment. segment = ''test'')
       (split_on (\<lambda>c. \<not> is_ascii_alphanumeric c) (to_ascii_lowercase database_name))"

definition quoted :: "string \<Rightarrow> string" where
  "quoted s = [CHR 0x27] @ s @ [CHR 0x27]"

definition ensure_safe_test_database ::
    "process_env \<Rightarrow> (DieselError \<Rightarrow> string) \<Rightarrow> (nat \<Rightarrow> string) \<Rightarrow> string \<Rightarrow> (string, unit) dbm" where
  "ensure_safe_test_database vars shown current_database operation =
     (if vars ''APP_ENV'' \<noteq> Inr ''test'' then
        throwM (''refusing '' @ operation @ '': APP_ENV must be exactly '' @ quoted ''test'')
      else
        bindM (handleM (select_stmt (\<lambda>_. ())) (\<lambda>e. throwM (''failed to read current_database(): '' @ shown e)) retM) (\<lambda>_.
        bindM draw (\<lambda>k.
        let database_name = current_database k in
        if is_safe_test_database_name database_name then retM ()
        else throwM (''refusing '' @ operation @ '': database '' @ quoted database_name
               @ '' must contain a standalone '' @ quoted ''test'' @ '' segment''))))"

end
