(* ===== verification/Transactions.thy ===== *)
theory Transactions
  imports Schema
begin

text \<open>
  What is known when a transaction of the portal returns a value: code that propagates its errors ran
  to its end and was committed.
\<close>

text \<open>Code that propagates every error never returns a value from an aborted transaction.\<close>

definition straight :: "('e, 'a) dbm \<Rightarrow> bool" where
  "straight m \<longleftrightarrow> (\<forall>env s x s'. m env s = (Inr x, s') \<longrightarrow> tx_aborted s' = tx_aborted s)"

lemma straightD: "straight m \<Longrightarrow> m env s = (Inr x, s') \<Longrightarrow> tx_aborted s' = tx_aborted s"
  by (simp add: straight_def)

lemma bindM_Inr_iff:
  "bindM m f env s = (Inr y, s') \<longleftrightarrow> (\<exists>x s1. m env s = (Inr x, s1) \<and> f x env s1 = (Inr y, s'))"
  by (auto simp: bindM_def split: prod.splits sum.splits)

named_theorems straight_rule \<open>code that propagates its errors\<close>

lemma straight_basic [straight_rule]:
  "straight (retM x)" "straight (throwM e)" "straight utc_now" "straight (stmt f)"
  "straight (select_stmt g)" "straight (expect_row r)"
  by (auto simp: straight_def select_stmt_def expect_row_def dest!: stmt_Inr split: option.splits)

lemma straight_bind [straight_rule]:
  assumes "straight m" and "\<And>x. straight (f x)"
  shows "straight (bindM m f)"
  unfolding straight_def
proof (intro allI impI)
  fix env s x s' assume "bindM m f env s = (Inr x, s')"
  then obtain y s1 where "m env s = (Inr y, s1)" and "f y env s1 = (Inr x, s')"
    by (rule bindM_result_Inr)
  with assms show "tx_aborted s' = tx_aborted s" by (metis straightD)
qed

lemma straight_foldM [straight_rule]:
  "(\<And>x acc. straight (f x acc)) \<Longrightarrow> straight (foldM f xs acc)"
  by (induction xs arbitrary: acc) (simp_all add: straight_rule)

lemma straight_case [straight_rule]:
  "straight m \<Longrightarrow> straight n \<Longrightarrow> straight (if b then m else n)"
  "straight m \<Longrightarrow> (\<And>x. straight (f x)) \<Longrightarrow> straight (case r of None \<Rightarrow> m | Some x \<Rightarrow> f x)"
  by (simp, cases r, simp_all)

lemma straight_stmts [straight_rule]:
  "straight (insert_stmt get upd chk mk)" "straight (update_stmt get upd chk p g)"
  "straight (delete_stmt get upd rs od p)" "straight (upsert_stmt get upd chk c mk g)"
  unfolding insert_stmt_def update_stmt_def delete_stmt_def upsert_stmt_def
  by (rule straight_rule)+

lemma transaction_committed_at:
  assumes "\<And>s x s'. m env s = (Inr x, s') \<Longrightarrow> tx_aborted s' = tx_aborted s"
    and "transaction m conv env s = (Inr x, s')"
  obtains s0 s1 where "tabs s0 = tabs s" and "tick s0 = Suc (tick s)"
    and "m env s0 = (Inr x, s1)" and "tabs s' = tabs s1"
proof -
  obtain r0 s0 where sel: "select_stmt (\<lambda>_. ()) env s = (r0, s0)" by force
  then obtain u where r0: "r0 = Inr u"
    using assms(2) by (cases r0) (simp_all add: transaction_def)
  have s0: "s0 = s\<lparr>tick := Suc (tick s)\<rparr>" and "\<not> tx_aborted s"
    using sel r0 by (auto simp: select_stmt_def stmt_def fail_stmt_def Let_def
        split: if_splits option.splits)
  let ?s0 = "s0\<lparr>tx_depth := Suc (tx_depth s0)\<rparr>"
  obtain rm s1 where m: "m env ?s0 = (rm, s1)" by force
  obtain y where rm: "rm = Inr y"
    using assms(2) sel r0 m by (cases rm) (simp_all add: transaction_def)
  have "\<not> tx_aborted s1"
    using assms(1) [OF m [unfolded rm]] s0 \<open>\<not> tx_aborted s\<close> by simp
  then have "y = x" and "tabs s' = tabs s1"
    using assms(2) sel r0 m rm by (auto simp: transaction_def split: option.splits)
  with that [of ?s0 s1] m rm s0 show ?thesis by simp
qed

lemma transaction_committed:
  assumes "straight m" and "transaction m conv env s = (Inr x, s')"
  obtains s0 s1 where "tabs s0 = tabs s" and "tick s0 = Suc (tick s)"
    and "m env s0 = (Inr x, s1)" and "tabs s' = tabs s1"
  using straightD [OF assms(1)] assms(2) by (rule transaction_committed_at)

end
