(* ===== verification/Sessions.thy ===== *)
theory Sessions
  imports Record_Store Transactions
begin

text \<open>
  \<^verbatim>\<open>SessionRepository\<close>, \<^verbatim>\<open>LoginThrottleRepository\<close> and \<^verbatim>\<open>OidcLoginTransactionRepository\<close> of
  \<^verbatim>\<open>src/src/repositories.rs\<close>: the sessions of a user, of which at most a configured number is active,
  the counters that lock an account after too many failed logins, and the single-use transactions of
  an OpenID login.

  Code outside the repository is a field of \<open>authlib\<close>: Unicode lower-casing in Rust and in SQL, the
  hexadecimal SHA-256, the random UUIDs, and the Argon2 verifier, which refuses a malformed hash.
\<close>

record authlib =
  au_lower :: "string \<Rightarrow> string"
  au_sql_lower :: "string \<Rightarrow> string"
  au_sha256_hex :: "string \<Rightarrow> string"
  au_uuid :: "nat \<Rightarrow> string"
  au_verify :: "string \<Rightarrow> string \<Rightarrow> string + bool"
  au_dummy_hash :: string

text \<open>\<^verbatim>\<open>SELECT pg_advisory_xact_lock(...)\<close>: the transaction is atomic in this model, so the lock is a
  statement that changes nothing and may be refused.\<close>

definition advisory_lock :: "unit query" where
  "advisory_lock = select_stmt (\<lambda>_. ())"

section \<open>Sessions\<close>

record CreateSession =
  cs_user_id :: i32
  cs_token :: string
  cs_expires_at :: utc
  cs_max_active_sessions :: i64
  cs_auth_method :: string
  cs_ip_address :: "string option"
  cs_user_agent :: "string option"

definition session_token_hash :: "authlib \<Rightarrow> string \<Rightarrow> string" where
  "session_token_hash au token = au_sha256_hex au token"

definition new_session :: "authlib \<Rightarrow> CreateSession \<Rightarrow> utc \<Rightarrow> NewSession" where
  "new_session au c now = \<lparr>se_user_id = cs_user_id c, se_token_hash = session_token_hash au (cs_token c),
     se_expires_at = cs_expires_at c, se_auth_method = cs_auth_method c, se_last_seen_at = now,
     se_ip_address = cs_ip_address c, se_user_agent = cs_user_agent c\<rparr>"

definition session_active :: "i32 \<Rightarrow> utc \<Rightarrow> Session \<Rightarrow> bool" where
  "session_active user_id now x \<longleftrightarrow> se_user_id x = user_id \<and> now < se_expires_at x"

definition session_age_key :: "Session \<Rightarrow> utc \<times> i32" where
  "session_age_key x = (se_created_at x, se_id x)"

definition delete_sessions :: "(Session \<Rightarrow> bool) \<Rightarrow> nat query" where
  "delete_sessions p = bindM (delete_stmt sessions sessions_update no_restriction no_action p)
     (\<lambda>gone. retM (length gone))"

definition evict_oldest :: "i32 \<Rightarrow> utc \<Rightarrow> i64 \<Rightarrow> unit query" where
  "evict_oldest user_id now eviction_count =
     (if eviction_count > 0 then
        bindM (select_stmt (\<lambda>t. map se_id (take (nat eviction_count)
                 (sort_key session_age_key (filter (session_active user_id now) (rows (sessions t)))))))
          (\<lambda>oldest_ids. bindM (delete_sessions (\<lambda>x. se_id x \<in> set oldest_ids)) (\<lambda>_. retM ()))
      else retM ())"

definition SessionRepository_create :: "authlib \<Rightarrow> CreateSession \<Rightarrow> Session query" where
  "SessionRepository_create au c =
     (if \<not> (1 \<le> cs_max_active_sessions c \<and> cs_max_active_sessions c \<le> 100)
      then throwM (QueryBuilderError ''max_active_sessions must be between 1 and 100'')
      else query_transaction (
        bindM advisory_lock (\<lambda>_.
        bindM utc_now (\<lambda>now.
        bindM (delete_sessions (\<lambda>x. se_user_id x = cs_user_id c \<and> se_expires_at x \<le> now)) (\<lambda>_.
        bindM (select_stmt (\<lambda>t. count_rows (session_active (cs_user_id c) now) (rows (sessions t))))
          (\<lambda>active_count.
        bindM (evict_oldest (cs_user_id c) now
                 (max (int active_count - cs_max_active_sessions c + 1) 0)) (\<lambda>_.
        bindM utc_now (\<lambda>created_at.
        insert_stmt sessions sessions_update session_violation
          (\<lambda>i. NewSession.extend (new_session au c now) (Session.fields i created_at))))))))))"

definition SessionRepository_find_by_token :: "authlib \<Rightarrow> string \<Rightarrow> Session query" where
  "SessionRepository_find_by_token au token =
     find_keyed sessions (\<lambda>x. se_token_hash x = session_token_hash au token)"

definition SessionRepository_delete_by_token :: "authlib \<Rightarrow> string \<Rightarrow> nat query" where
  "SessionRepository_delete_by_token au token =
     delete_sessions (\<lambda>x. se_token_hash x = session_token_hash au token)"

definition SessionRepository_delete_by_user :: "i32 \<Rightarrow> nat query" where
  "SessionRepository_delete_by_user user_id = delete_sessions (\<lambda>x. se_user_id x = user_id)"

definition SessionRepository_delete_expired :: "utc \<Rightarrow> nat query" where
  "SessionRepository_delete_expired now = delete_sessions (\<lambda>x. se_expires_at x \<le> now)"

section \<open>Login throttling\<close>

definition until_seconds :: "utc \<Rightarrow> utc \<Rightarrow> i64" where
  "until_seconds now locked_until = max (num_seconds (locked_until - now)) 1"

definition LoginThrottleRepository_retry_after_seconds :: "string \<Rightarrow> utc \<Rightarrow> i64 option query" where
  "LoginThrottleRepository_retry_after_seconds bucket_hash now =
     bindM (select_stmt (\<lambda>t. first_row (\<lambda>b. lt_bucket_hash b = bucket_hash)
              (rows (login_throttle_buckets t)))) (\<lambda>bucket.
     retM (case Option.bind bucket lt_locked_until of
        None \<Rightarrow> None
      | Some locked_until \<Rightarrow> if locked_until > now then Some (until_seconds now locked_until) else None))"

definition new_bucket :: "string \<Rightarrow> utc \<Rightarrow> LoginThrottleBucket" where
  "new_bucket bucket_hash now = \<lparr>lt_bucket_hash = bucket_hash, lt_failure_count = 0,
     lt_window_started_at = now, lt_locked_until = None, lt_updated_at = now\<rparr>"

text \<open>The state of a bucket after one more failure.\<close>

definition bump_bucket :: "utc \<Rightarrow> i32 \<Rightarrow> i64 \<Rightarrow> i64 \<Rightarrow> LoginThrottleBucket \<Rightarrow> LoginThrottleBucket" where
  "bump_bucket now max_failures window_seconds lockout_seconds b =
     (let window_expired = lt_window_started_at b \<le> now - seconds window_seconds;
          failure_count = (if window_expired then 1 else saturating_add_i32 (lt_failure_count b) 1);
          window_started_at = (if window_expired then now else lt_window_started_at b);
          locked_until =
            (if failure_count \<ge> max_failures then Some (now + seconds lockout_seconds)
             else (case lt_locked_until b of
                 None \<Rightarrow> None | Some u \<Rightarrow> if u > now then Some u else None))
      in b\<lparr>lt_failure_count := failure_count, lt_window_started_at := window_started_at,
           lt_locked_until := locked_until, lt_updated_at := now\<rparr>)"

definition LoginThrottleRepository_record_failure ::
    "string \<Rightarrow> utc \<Rightarrow> i32 \<Rightarrow> i64 \<Rightarrow> i64 \<Rightarrow> i64 option query" where
  "LoginThrottleRepository_record_failure bucket_hash now max_failures window_seconds lockout_seconds =
     query_transaction (
     bindM (upsert_stmt login_throttle_buckets login_throttle_buckets_update throttle_violation
              (\<lambda>b. lt_bucket_hash b = bucket_hash) (\<lambda>_. new_bucket bucket_hash now) id) (\<lambda>_.
     bindM (find_keyed login_throttle_buckets (\<lambda>b. lt_bucket_hash b = bucket_hash)) (\<lambda>bucket.
     let bumped = bump_bucket now max_failures window_seconds lockout_seconds bucket in
     bindM (update_stmt login_throttle_buckets login_throttle_buckets_update throttle_violation
              (\<lambda>b. lt_bucket_hash b = bucket_hash)
              (\<lambda>b. b\<lparr>lt_failure_count := lt_failure_count bumped,
                     lt_window_started_at := lt_window_started_at bumped,
                     lt_locked_until := lt_locked_until bumped, lt_updated_at := now\<rparr>)) (\<lambda>_.
     retM (map_option (until_seconds now) (lt_locked_until bumped))))))"

definition LoginThrottleRepository_clear :: "string \<Rightarrow> nat query" where
  "LoginThrottleRepository_clear bucket_hash =
     bindM (delete_stmt login_throttle_buckets login_throttle_buckets_update no_restriction no_action
              (\<lambda>b. lt_bucket_hash b = bucket_hash)) (\<lambda>gone. retM (length gone))"

definition prunable :: "utc \<Rightarrow> LoginThrottleBucket \<Rightarrow> bool" where
  "prunable cutoff b \<longleftrightarrow> lt_updated_at b < cutoff
     \<and> (case lt_locked_until b of None \<Rightarrow> True | Some u \<Rightarrow> u < cutoff)"

definition LoginThrottleRepository_prune_before :: "utc \<Rightarrow> nat query" where
  "LoginThrottleRepository_prune_before cutoff =
     bindM (delete_stmt login_throttle_buckets login_throttle_buckets_update no_restriction no_action
              (prunable cutoff)) (\<lambda>gone. retM (length gone))"

section \<open>OpenID login transactions\<close>

definition OidcLoginTransactionRepository_delete_expired :: "utc \<Rightarrow> nat query" where
  "OidcLoginTransactionRepository_delete_expired now =
     bindM (delete_stmt oidc_login_transactions oidc_login_transactions_update no_restriction no_action
              (\<lambda>x. ot_expires_at x \<le> now)) (\<lambda>gone. retM (length gone))"

definition OidcLoginTransactionRepository_create_bounded ::
    "NewOidcLoginTransaction \<Rightarrow> utc \<Rightarrow> i64 \<Rightarrow> OidcLoginTransaction option query" where
  "OidcLoginTransactionRepository_create_bounded n now max_pending =
     query_transaction (
     bindM advisory_lock (\<lambda>_.
     bindM (OidcLoginTransactionRepository_delete_expired now) (\<lambda>_.
     bindM (select_stmt (\<lambda>t. count_rows (\<lambda>x. now < ot_expires_at x) (rows (oidc_login_transactions t))))
       (\<lambda>pending.
     if int pending \<ge> max_pending then retM None
     else
       bindM utc_now (\<lambda>created_at.
       bindM (insert_stmt oidc_login_transactions oidc_login_transactions_update oidc_violation
                (\<lambda>_. NewOidcLoginTransaction.extend n (OidcLoginTransaction.fields created_at)))
         (\<lambda>x. retM (Some x)))))))"

definition consumable :: "string \<Rightarrow> string \<Rightarrow> utc \<Rightarrow> OidcLoginTransaction \<Rightarrow> bool" where
  "consumable state_hash browser_binding_hash now x \<longleftrightarrow> ot_state_hash x = state_hash
     \<and> ot_browser_binding_hash x = browser_binding_hash \<and> now < ot_expires_at x"

definition OidcLoginTransactionRepository_consume ::
    "string \<Rightarrow> string \<Rightarrow> utc \<Rightarrow> OidcLoginTransaction query" where
  "OidcLoginTransactionRepository_consume state_hash browser_binding_hash now =
     bindM (delete_stmt oidc_login_transactions oidc_login_transactions_update no_restriction no_action
              (consumable state_hash browser_binding_hash now)) (expect_row \<circ> one_row)"

end
