(* ===== verification/Directory.thy ===== *)
theory Directory
  imports Sessions Imported_Records
begin

text \<open>
  \<^verbatim>\<open>MaintainerRepository\<close>, \<^verbatim>\<open>MaintainerMemberRepository\<close>, \<^verbatim>\<open>PackageRepository\<close>, \<^verbatim>\<open>UserRepository\<close>,
  \<^verbatim>\<open>RoleRepository\<close>, \<^verbatim>\<open>UserRoleRepository\<close> and \<^verbatim>\<open>ExternalIdentityRepository\<close> of
  \<^verbatim>\<open>src/src/repositories.rs\<close>, with the constraints of their tables.
\<close>

section \<open>Constraints\<close>

definition user_violation :: "authlib \<Rightarrow> tables \<Rightarrow> User \<Rightarrow> DatabaseErrorKind option" where
  "user_violation au t u = first_violation
     [(too_long 64 (us_username u) \<or> too_long 128 (us_password u), OtherKind),
      (us_username u \<noteq> trim (us_username u) \<or> us_username u = [], CheckViolation),
      (list_ex (\<lambda>r. us_id r \<noteq> us_id u \<and> us_username r = us_username u) (rows (users t)), UniqueViolation),
      (list_ex (\<lambda>r. us_id r \<noteq> us_id u
          \<and> au_sql_lower au (us_username r) = au_sql_lower au (us_username u)) (rows (users t)),
         UniqueViolation)]"

definition role_violation :: "tables \<Rightarrow> Role \<Rightarrow> DatabaseErrorKind option" where
  "role_violation t r = first_violation
     [(too_long 64 (ro_code r) \<or> too_long 128 (ro_name r), OtherKind),
      (list_ex (\<lambda>q. ro_id q \<noteq> ro_id r \<and> ro_code q = ro_code r) (rows (roles t)), UniqueViolation)]"

definition user_role_violation :: "tables \<Rightarrow> UserRole \<Rightarrow> DatabaseErrorKind option" where
  "user_role_violation t r = first_violation
     [(\<not> has_ref us_id (users t) (ur_user_id r), ForeignKeyViolation),
      (\<not> has_ref ro_id (roles t) (ur_role_id r), ForeignKeyViolation)]"

definition identity_violation :: "tables \<Rightarrow> ExternalIdentity \<Rightarrow> DatabaseErrorKind option" where
  "identity_violation t x = first_violation
     [(too_long 32 (ei_provider x) \<or> too_long 255 (ei_issuer x) \<or> too_long_opt 255 (ei_subject x)
        \<or> too_long 36 (ei_tenant_id x) \<or> too_long 36 (ei_object_id x)
        \<or> too_long_opt 320 (ei_preferred_username x) \<or> too_long_opt 256 (ei_display_name x)
        \<or> too_long_opt 320 (ei_email x), OtherKind),
      (ei_provider x \<noteq> ''entra'', CheckViolation),
      (list_ex (\<lambda>r. ei_id r \<noteq> ei_id x \<and> ei_provider r = ei_provider x \<and> ei_tenant_id r = ei_tenant_id x
          \<and> ei_object_id r = ei_object_id x) (rows (external_identities t)), UniqueViolation),
      (ei_subject x \<noteq> None \<and> list_ex (\<lambda>r. ei_id r \<noteq> ei_id x \<and> ei_provider r = ei_provider x
          \<and> ei_issuer r = ei_issuer x \<and> ei_subject r = ei_subject x) (rows (external_identities t)),
         UniqueViolation),
      (\<not> has_ref us_id (users t) (ei_user_id x), ForeignKeyViolation)]"

definition no_violation :: "tables \<Rightarrow> 'r \<Rightarrow> DatabaseErrorKind option" where
  "no_violation t r = None"

definition member_violation :: "tables \<Rightarrow> MaintainerMember \<Rightarrow> DatabaseErrorKind option" where
  "member_violation t m = first_violation
     [(too_long 32 (mm_role m), OtherKind),
      (mm_role m \<notin> set [''owner'', ''maintainer'', ''viewer''], CheckViolation),
      (list_ex (\<lambda>r. mm_id r \<noteq> mm_id m \<and> mm_maintainer_id r = mm_maintainer_id m
          \<and> mm_user_id r = mm_user_id m) (rows (maintainer_members t)), UniqueViolation),
      (\<not> has_ref mt_id (maintainers t) (mm_maintainer_id m), ForeignKeyViolation),
      (\<not> has_ref us_id (users t) (mm_user_id m), ForeignKeyViolation)]"

definition package_violation :: "tables \<Rightarrow> Package \<Rightarrow> DatabaseErrorKind option" where
  "package_violation t p = first_violation
     [(too_long 64 (pk_slug p) \<or> too_long 128 (pk_name p) \<or> too_long 64 (pk_version p)
        \<or> too_long 32 (pk_status p) \<or> too_long_opt 2048 (pk_repository_url p)
        \<or> too_long_opt 2048 (pk_documentation_url p), OtherKind),
      (pk_status p \<notin> set [''active'', ''deprecated'', ''archived''], CheckViolation),
      (\<not> has_ref mt_id (maintainers t) (pk_maintainer_id p), ForeignKeyViolation)]"

text \<open>Deleting the owner of records: connectors, cards, notifications and events in its scope go with
  it (ON DELETE CASCADE), and so do what depends on them.\<close>

definition drop_owned ::
    "(i32 option \<Rightarrow> i32 option \<Rightarrow> bool) \<Rightarrow> tables \<Rightarrow> tables" where
  "drop_owned owned t =
     (let gone_connectors = filter (\<lambda>c. owned (cn_owner_user_id c) (cn_maintainer_id c)) (rows (connectors t));
          gone_notes = filter (\<lambda>n. owned (nt_owner_user_id n) (nt_maintainer_id n)) (rows (notifications t));
          t1 = t\<lparr>connectors := filter_rows (\<lambda>c. \<not> owned (cn_owner_user_id c) (cn_maintainer_id c)) (connectors t),
                 work_cards := filter_rows (\<lambda>w. \<not> owned (wc_owner_user_id w) (wc_maintainer_id w)) (work_cards t),
                 notifications := filter_rows (\<lambda>n. \<not> owned (nt_owner_user_id n) (nt_maintainer_id n)) (notifications t),
                 calendar_events := filter_rows (\<lambda>e. \<not> owned (ce_owner_user_id e) (ce_maintainer_id e)) (calendar_events t)\<rparr>
      in notifications_on_delete gone_notes (connectors_on_delete gone_connectors t1))"

definition users_restricted :: "User list \<Rightarrow> tables \<Rightarrow> bool" where
  "users_restricted gone t \<longleftrightarrow> list_ex (\<lambda>r. ur_user_id r \<in> set (map us_id gone)) (rows (users_roles t))"

definition users_on_delete :: "User list \<Rightarrow> tables \<Rightarrow> tables" where
  "users_on_delete gone t =
     (let ids = set (map us_id gone);
          t1 = drop_owned (\<lambda>owner _. case owner of Some u \<Rightarrow> u \<in> ids | None \<Rightarrow> False) t
      in t1\<lparr>sessions := filter_rows (\<lambda>x. se_user_id x \<notin> ids) (sessions t1),
            external_identities := filter_rows (\<lambda>x. ei_user_id x \<notin> ids) (external_identities t1),
            maintainer_members := filter_rows (\<lambda>m. mm_user_id m \<notin> ids) (maintainer_members t1),
            notification_receipts := filter_rows (\<lambda>r. nr_user_id r \<notin> ids) (notification_receipts t1),
            work_cards := map_rows (\<lambda>w. w\<lparr>wc_assignee_user_id := null_if_in ids (wc_assignee_user_id w)\<rparr>)
              (work_cards t1),
            audit_logs := map_rows (\<lambda>a. a\<lparr>al_actor_user_id := null_if_in ids (al_actor_user_id a)\<rparr>)
              (audit_logs t1)\<rparr>)"

definition maintainers_restricted :: "Maintainer list \<Rightarrow> tables \<Rightarrow> bool" where
  "maintainers_restricted gone t \<longleftrightarrow>
     (let ids = set (map mt_id gone) in
      list_ex (\<lambda>p. pk_maintainer_id p \<in> ids) (rows (packages t))
      \<or> list_ex (\<lambda>v. sv_maintainer_id v \<in> ids) (rows (services t)))"

definition maintainers_on_delete :: "Maintainer list \<Rightarrow> tables \<Rightarrow> tables" where
  "maintainers_on_delete gone t =
     (let ids = set (map mt_id gone);
          t1 = drop_owned (\<lambda>_ maint. case maint of Some m \<Rightarrow> m \<in> ids | None \<Rightarrow> False) t
      in t1\<lparr>maintainer_members := filter_rows (\<lambda>m. mm_maintainer_id m \<notin> ids) (maintainer_members t1)\<rparr>)"

definition removed :: "'r list query \<Rightarrow> nat query" where
  "removed m = bindM m (\<lambda>gone. retM (length gone))"

section \<open>Maintainers and their members\<close>

definition MaintainerRepository_find :: "i32 \<Rightarrow> Maintainer query" where
  "MaintainerRepository_find i = find_keyed maintainers (\<lambda>m. mt_id m = i)"

definition MaintainerRepository_find_multiple :: "nat \<Rightarrow> Maintainer list query" where
  "MaintainerRepository_find_multiple limit =
     select_stmt (\<lambda>t. take limit (sort_key mt_display_name (rows (maintainers t))))"

definition MaintainerRepository_find_by_ids :: "i32 list \<Rightarrow> Maintainer list query" where
  "MaintainerRepository_find_by_ids ids =
     (if ids = [] then retM []
      else select_stmt (\<lambda>t. sort_key mt_display_name
             (filter (\<lambda>m. mt_id m \<in> set ids) (rows (maintainers t)))))"

definition MaintainerRepository_create :: "NewMaintainer \<Rightarrow> Maintainer query" where
  "MaintainerRepository_create n = bindM utc_now (\<lambda>now.
     insert_stmt maintainers maintainers_update no_violation
       (\<lambda>i. NewMaintainer.extend n (Maintainer.fields i now)))"

definition MaintainerRepository_update :: "i32 \<Rightarrow> NewMaintainer \<Rightarrow> Maintainer query" where
  "MaintainerRepository_update i n =
     bindM (update_stmt maintainers maintainers_update no_violation (\<lambda>m. mt_id m = i)
              (\<lambda>m. NewMaintainer.extend n (Maintainer.fields (mt_id m) (mt_created_at m))))
       (expect_row \<circ> one_row)"

definition MaintainerRepository_delete :: "i32 \<Rightarrow> nat query" where
  "MaintainerRepository_delete i =
     bindM (delete_stmt maintainer_members maintainer_members_update no_restriction no_action
              (\<lambda>m. mm_maintainer_id m = i)) (\<lambda>_.
     removed (delete_stmt maintainers maintainers_update maintainers_restricted maintainers_on_delete
                (\<lambda>m. mt_id m = i)))"

definition MaintainerMemberRepository_find_by_user :: "i32 \<Rightarrow> MaintainerMember list query" where
  "MaintainerMemberRepository_find_by_user user_id = select_stmt (\<lambda>t.
     sort_key mm_maintainer_id (filter (\<lambda>m. mm_user_id m = user_id) (rows (maintainer_members t))))"

definition MaintainerMemberRepository_find_by_maintainer :: "i32 \<Rightarrow> MaintainerMember list query" where
  "MaintainerMemberRepository_find_by_maintainer maintainer_id = select_stmt (\<lambda>t.
     sort_key mm_user_id (filter (\<lambda>m. mm_maintainer_id m = maintainer_id) (rows (maintainer_members t))))"

definition MaintainerMemberRepository_find_by_maintainer_and_user ::
    "i32 \<Rightarrow> i32 \<Rightarrow> MaintainerMember query" where
  "MaintainerMemberRepository_find_by_maintainer_and_user maintainer_id user_id =
     find_keyed maintainer_members (\<lambda>m. mm_maintainer_id m = maintainer_id \<and> mm_user_id m = user_id)"

definition MaintainerMemberRepository_upsert :: "NewMaintainerMember \<Rightarrow> MaintainerMember query" where
  "MaintainerMemberRepository_upsert n = bindM utc_now (\<lambda>now.
     upsert_stmt maintainer_members maintainer_members_update member_violation
       (\<lambda>m. mm_maintainer_id m = mm_maintainer_id n \<and> mm_user_id m = mm_user_id n)
       (\<lambda>i. NewMaintainerMember.extend n (MaintainerMember.fields i now))
       (\<lambda>m. m\<lparr>mm_role := mm_role n\<rparr>))"

definition MaintainerMemberRepository_delete_by_maintainer_and_user :: "i32 \<Rightarrow> i32 \<Rightarrow> nat query" where
  "MaintainerMemberRepository_delete_by_maintainer_and_user maintainer_id user_id =
     removed (delete_stmt maintainer_members maintainer_members_update no_restriction no_action
       (\<lambda>m. mm_maintainer_id m = maintainer_id \<and> mm_user_id m = user_id))"

section \<open>Packages\<close>

definition package_row :: "NewPackage \<Rightarrow> utc \<Rightarrow> utc \<Rightarrow> i32 \<Rightarrow> Package" where
  "package_row n created updated i = NewPackage.extend n (Package.fields i created updated)"

definition PackageRepository_find :: "i32 \<Rightarrow> Package query" where
  "PackageRepository_find i = find_keyed packages (\<lambda>p. pk_id p = i)"

definition PackageRepository_find_multiple :: "nat \<Rightarrow> Package list query" where
  "PackageRepository_find_multiple limit =
     select_stmt (\<lambda>t. take limit (sort_key (\<lambda>p. - pk_updated_at p) (rows (packages t))))"

definition PackageRepository_find_recent_for_maintainer ::
    "nat \<Rightarrow> i32 option \<Rightarrow> Package list query" where
  "PackageRepository_find_recent_for_maintainer limit maintainer_id = select_stmt (\<lambda>t.
     take limit (sort_key (\<lambda>p. - pk_updated_at p) (filter (\<lambda>p. case maintainer_id of
         Some m \<Rightarrow> pk_maintainer_id p = m | None \<Rightarrow> True) (rows (packages t)))))"

definition PackageRepository_find_recent_for_maintainers ::
    "nat \<Rightarrow> i32 list \<Rightarrow> Package list query" where
  "PackageRepository_find_recent_for_maintainers limit maintainer_ids =
     (if maintainer_ids = [] then retM []
      else select_stmt (\<lambda>t. take limit (sort_key (\<lambda>p. - pk_updated_at p)
             (filter (\<lambda>p. pk_maintainer_id p \<in> set maintainer_ids) (rows (packages t))))))"

definition PackageRepository_create :: "NewPackage \<Rightarrow> Package query" where
  "PackageRepository_create n = create_row packages packages_update package_violation (package_row n)"

definition PackageRepository_update :: "i32 \<Rightarrow> NewPackage \<Rightarrow> Package query" where
  "PackageRepository_update i n =
     update_row packages packages_update package_violation pk_id pk_created_at (package_row n) i"

definition PackageRepository_delete :: "i32 \<Rightarrow> nat query" where
  "PackageRepository_delete i =
     removed (delete_stmt packages packages_update no_restriction no_action (\<lambda>p. pk_id p = i))"

section \<open>Users and roles\<close>

definition canonical_username :: "authlib \<Rightarrow> string \<Rightarrow> string" where
  "canonical_username au username = au_lower au (trim username)"

definition RoleRepository_find_by_ids :: "i32 list \<Rightarrow> Role list query" where
  "RoleRepository_find_by_ids ids = select_stmt (\<lambda>t. filter (\<lambda>r. ro_id r \<in> set ids) (rows (roles t)))"

definition RoleRepository_find_by_code :: "string \<Rightarrow> Role query" where
  "RoleRepository_find_by_code code = find_keyed roles (\<lambda>r. ro_code r = code)"

definition RoleRepository_find_by_user :: "User \<Rightarrow> Role list query" where
  "RoleRepository_find_by_user user =
     bindM (select_stmt (\<lambda>t. filter (\<lambda>r. ur_user_id r = us_id user) (rows (users_roles t))))
       (\<lambda>user_roles. RoleRepository_find_by_ids (map ur_role_id user_roles))"

definition RoleRepository_create :: "NewRole \<Rightarrow> Role query" where
  "RoleRepository_create n = bindM utc_now (\<lambda>now.
     insert_stmt roles roles_update role_violation (\<lambda>i. NewRole.extend n (Role.fields i now)))"

definition is_unique_violation :: "DieselError \<Rightarrow> bool" where
  "is_unique_violation e = (case e of DatabaseError UniqueViolation _ \<Rightarrow> True | _ \<Rightarrow> False)"

definition RoleRepository_find_or_create_by_code :: "string \<Rightarrow> Role query" where
  "RoleRepository_find_or_create_by_code code =
     handleM (RoleRepository_find_by_code code)
       (\<lambda>e. if e = NotFoundError then
           handleM (RoleRepository_create \<lparr>ro_code = code, ro_name = code\<rparr>)
             (\<lambda>e. if is_unique_violation e then RoleRepository_find_by_code code else throwM e)
             retM
         else throwM e)
       retM"

definition insert_user_role :: "i32 \<Rightarrow> i32 \<Rightarrow> UserRole query" where
  "insert_user_role user_id role_id = insert_stmt users_roles users_roles_update user_role_violation
     (\<lambda>i. \<lparr>ur_user_id = user_id, ur_role_id = role_id, ur_id = i\<rparr>)"

definition UserRoleRepository_assign_if_missing :: "i32 \<Rightarrow> i32 \<Rightarrow> UserRole option query" where
  "UserRoleRepository_assign_if_missing user_id role_id =
     bindM (select_stmt (\<lambda>t. first_row (\<lambda>r. ur_user_id r = user_id \<and> ur_role_id r = role_id)
              (rows (users_roles t)))) (\<lambda>existing.
     if existing \<noteq> None then retM None
     else bindM (insert_user_role user_id role_id) (\<lambda>r. retM (Some r)))"

definition UserRepository_find :: "i32 \<Rightarrow> User query" where
  "UserRepository_find i = find_keyed users (\<lambda>u. us_id u = i)"

definition UserRepository_find_by_username :: "authlib \<Rightarrow> string \<Rightarrow> User query" where
  "UserRepository_find_by_username au username =
     find_keyed users (\<lambda>u. au_sql_lower au (us_username u) = canonical_username au username)"

definition UserRepository_find_with_roles :: "(User \<times> (UserRole \<times> Role) list) list query" where
  "UserRepository_find_with_roles =
     bindM (select_stmt (\<lambda>t. rows (users t))) (\<lambda>us.
     bindM (select_stmt (\<lambda>t. List.map_filter (\<lambda>ur.
              map_option (Pair ur) (first_row (\<lambda>r. ro_id r = ur_role_id ur) (rows (roles t))))
            (rows (users_roles t)))) (\<lambda>joined.
     retM (map (\<lambda>u. (u, filter (\<lambda>(ur, _). ur_user_id ur = us_id u) joined)) us)))"

definition insert_user :: "authlib \<Rightarrow> NewUser \<Rightarrow> User query" where
  "insert_user au n = bindM utc_now (\<lambda>now.
     insert_stmt users users_update (user_violation au) (\<lambda>i. NewUser.extend n (User.fields i now)))"

definition UserRepository_create :: "authlib \<Rightarrow> NewUser \<Rightarrow> string list \<Rightarrow> User query" where
  "UserRepository_create au new_user role_codes =
     (let new_user = new_user\<lparr>us_username := canonical_username au (us_username new_user)\<rparr> in
      query_transaction (
      bindM (insert_user au new_user) (\<lambda>user.
      bindM (foldM (\<lambda>role_code _.
               bindM (RoleRepository_find_or_create_by_code role_code) (\<lambda>role.
               bindM (insert_user_role (us_id user) (ro_id role)) (\<lambda>_. retM ()))) role_codes ())
        (\<lambda>_. retM user))))"

definition UserRepository_delete :: "i32 \<Rightarrow> nat query" where
  "UserRepository_delete i = query_transaction (
     bindM (delete_stmt maintainer_members maintainer_members_update no_restriction no_action
              (\<lambda>m. mm_user_id m = i)) (\<lambda>_.
     bindM (delete_stmt users_roles users_roles_update no_restriction no_action
              (\<lambda>r. ur_user_id r = i)) (\<lambda>_.
     removed (delete_stmt users users_update users_restricted users_on_delete (\<lambda>u. us_id u = i)))))"

definition UserRepository_update_password :: "authlib \<Rightarrow> i32 \<Rightarrow> string \<Rightarrow> User query" where
  "UserRepository_update_password au i password_hash =
     bindM (update_stmt users users_update (user_violation au) (\<lambda>u. us_id u = i)
              (\<lambda>u. u\<lparr>us_password := password_hash\<rparr>)) (expect_row \<circ> one_row)"

section \<open>External identities\<close>

record JitProvisionedIdentity =
  jp_user :: User
  jp_identity :: ExternalIdentity
  jp_created :: bool

record ExternalIdentityLoginProfile =
  lp_issuer :: string
  lp_subject :: string
  lp_preferred_username :: "string option"
  lp_display_name :: "string option"
  lp_email :: "string option"
  lp_last_login_at :: utc

definition ExternalIdentityRepository_find_by_entra_object :: "string \<Rightarrow> string \<Rightarrow> ExternalIdentity query" where
  "ExternalIdentityRepository_find_by_entra_object tenant_id object_id =
     find_keyed external_identities (\<lambda>x. ei_provider x = ''entra'' \<and> ei_tenant_id x = tenant_id
       \<and> ei_object_id x = object_id)"

definition profile_matches :: "i32 \<Rightarrow> ExternalIdentityLoginProfile \<Rightarrow> ExternalIdentity \<Rightarrow> bool" where
  "profile_matches i p x \<longleftrightarrow> ei_id x = i \<and> ei_issuer x = lp_issuer p
     \<and> (ei_subject x = None \<or> ei_subject x = Some (lp_subject p))"

definition ExternalIdentityRepository_update_login_profile ::
    "i32 \<Rightarrow> ExternalIdentityLoginProfile \<Rightarrow> ExternalIdentity query" where
  "ExternalIdentityRepository_update_login_profile i p = bindM utc_now (\<lambda>now.
     bindM (update_stmt external_identities external_identities_update identity_violation
              (profile_matches i p)
              (\<lambda>x. x\<lparr>ei_subject := Some (lp_subject p), ei_preferred_username := lp_preferred_username p,
                     ei_display_name := lp_display_name p, ei_email := lp_email p,
                     ei_last_login_at := Some (lp_last_login_at p), ei_updated_at := now\<rparr>))
       (expect_row \<circ> one_row))"

text \<open>The audit metadata is JSON text printed by serde_json: \<open>meta\<close> is that printer.\<close>

definition provision :: "authlib \<Rightarrow> (string \<Rightarrow> string \<Rightarrow> string) \<Rightarrow> NewUser \<Rightarrow> NewExternalIdentity \<Rightarrow>
    JitProvisionedIdentity query" where
  "provision au meta new_user identity =
     bindM (insert_user au new_user) (\<lambda>user.
     bindM utc_now (\<lambda>now.
     bindM (upsert_stmt roles roles_update role_violation (\<lambda>r. ro_code r = ''member'')
              (\<lambda>i. NewRole.extend \<lparr>ro_code = ''member'', ro_name = ''member''\<rparr> (Role.fields i now)) id) (\<lambda>_.
     bindM (RoleRepository_find_by_code ''member'') (\<lambda>role.
     bindM (insert_user_role (us_id user) (ro_id role)) (\<lambda>_.
     bindM utc_now (\<lambda>now.
     bindM (insert_stmt external_identities external_identities_update identity_violation
              (\<lambda>i. NewExternalIdentity.extend (identity\<lparr>ei_user_id := us_id user\<rparr>)
                     (ExternalIdentity.fields i now now))) (\<lambda>created_identity.
     bindM (AuditLogRepository_create
              \<lparr>al_actor_user_id = Some (us_id user), al_action = ''auth.entra_jit_provisioned'',
               al_resource_type = ''user'', al_resource_id = Some (show_int (us_id user)),
               al_metadata = Some (meta (ei_tenant_id identity) (ei_object_id identity))\<rparr>) (\<lambda>_.
     retM \<lparr>jp_user = user, jp_identity = created_identity, jp_created = True\<rparr>))))))))"

definition ExternalIdentityRepository_find_or_create_jit_user ::
    "authlib \<Rightarrow> (string \<Rightarrow> string \<Rightarrow> string) \<Rightarrow> NewUser \<Rightarrow> NewExternalIdentity \<Rightarrow>
     JitProvisionedIdentity query" where
  "ExternalIdentityRepository_find_or_create_jit_user au meta new_user identity =
     (let new_user = new_user\<lparr>us_username := canonical_username au (us_username new_user)\<rparr> in
      query_transaction (
      bindM advisory_lock (\<lambda>_.
      handleM (ExternalIdentityRepository_find_by_entra_object (ei_tenant_id identity)
                 (ei_object_id identity))
        (\<lambda>e. if e \<noteq> NotFoundError then throwM e else provision au meta new_user identity)
        (\<lambda>existing.
          bindM (UserRepository_find (ei_user_id existing)) (\<lambda>user.
          retM \<lparr>jp_user = user, jp_identity = existing, jp_created = False\<rparr>)))))"

end
