(* ===== verification/Auth.thy ===== *)
theory Auth
  imports Directory
begin

text \<open>
  \<^verbatim>\<open>src/src/auth.rs\<close> and the login half of \<^verbatim>\<open>src/src/rocket_routes/authorization.rs\<close>: the request guard
  that turns a bearer token or a session cookie into an authenticated user, the checks of roles and
  memberships, the scope of records a user may see, password login, logout and revocation.

  The connection pool, the limiter of password verifications and the worker thread that runs Argon2
  are parameters: each call gets a number and may fail.
\<close>

section \<open>Configuration and requests\<close>

record EntraConfig =
  en_tenant_id :: string
  en_client_id :: string
  en_client_secret :: "string option"
  en_transaction_key :: string
  en_redirect_uri :: string
  en_issuer :: string
  en_authorization_url :: string
  en_token_url :: string
  en_jwks_url :: string
  en_jit_provisioning :: bool
  en_required_role :: "string option"
  en_transaction_ttl_seconds :: i64
  en_jwks_cache_seconds :: i64
  en_clock_skew_seconds :: i64

record AppConfig =
  ac_environment :: string
  ac_auth_token_ttl_seconds :: i64
  ac_auth_max_active_sessions_per_user :: i64
  ac_auth_cookie_secure :: bool
  ac_auth_login_max_failures :: i32
  ac_auth_login_account_max_failures :: i32
  ac_auth_login_window_seconds :: i64
  ac_auth_login_lockout_seconds :: i64
  ac_auth_password_login_enabled :: bool
  ac_entra :: "EntraConfig option"

datatype http_method = Get | Head | Options | Post | Put | Patch | Delete | Connect | Trace

text \<open>What the guard reads of a request: the \<^verbatim>\<open>Authorization\<close> headers in order, the cookies by name, and
  the first CSRF header.\<close>

record request =
  rq_method :: http_method
  rq_authorization :: "string list"
  rq_cookie :: "string \<Rightarrow> string option"
  rq_csrf :: "string option"

definition SESSION_COOKIE_NAME :: string where
  "SESSION_COOKIE_NAME = ''idp_session''"

definition PRODUCTION_SESSION_COOKIE_NAME :: string where
  "PRODUCTION_SESSION_COOKIE_NAME = ''__Host-idp_session''"

definition session_cookie_name :: "AppConfig \<Rightarrow> string" where
  "session_cookie_name config =
     (if ac_environment config = ''production'' then PRODUCTION_SESSION_COOKIE_NAME
      else SESSION_COOKIE_NAME)"

datatype RequestToken = Bearer string | Cookie string

fun split_once_at :: "char \<Rightarrow> string \<Rightarrow> (string \<times> string) option" where
  "split_once_at c [] = None"
| "split_once_at c (x # xs) =
     (if x = c then Some ([], xs) else map_option (\<lambda>(a, b). (x # a, b)) (split_once_at c xs))"

definition bearer_token :: "request \<Rightarrow> string option" where
  "bearer_token r =
     (case rq_authorization r of
        [] \<Rightarrow> None
      | v # _ \<Rightarrow>
         (case split_once_at CHR '' '' v of
            None \<Rightarrow> None
          | Some (scheme, token) \<Rightarrow>
              if eq_ignore_ascii_case scheme ''Bearer'' \<and> \<not> is_blank token then Some token else None))"

definition request_token :: "request \<Rightarrow> string \<Rightarrow> RequestToken option" where
  "request_token r cookie_name =
     (if rq_authorization r \<noteq> [] then map_option Bearer (bearer_token r)
      else (case rq_cookie r cookie_name of
              Some v \<Rightarrow> if \<not> is_blank v then Some (Cookie v) else None
            | None \<Rightarrow> None))"

section \<open>The authenticated user\<close>

record AuthenticatedUser =
  au_user :: User
  au_session :: Session
  au_roles :: "Role list"
  au_token :: string

definition has_role :: "AuthenticatedUser \<Rightarrow> string \<Rightarrow> bool" where
  "has_role auth role_code \<longleftrightarrow> list_ex (\<lambda>r. ro_code r = role_code) (au_roles auth)"

definition is_admin :: "AuthenticatedUser \<Rightarrow> bool" where
  "is_admin auth \<longleftrightarrow> has_role auth ''admin''"

text \<open>\<^verbatim>\<open>Outcome\<close>: an error with its status, or a forward; the pool answers the same way.\<close>

datatype guard_failure = GuardError nat ApiError | GuardForward nat
datatype checkout = Connected | PoolError nat | PoolForward nat

definition guard_error :: "ApiError \<Rightarrow> (guard_failure, 'a) dbm" where
  "guard_error e = throwM (GuardError (api_status e) e)"

definition guardM :: "'a query \<Rightarrow> (DieselError \<Rightarrow> (guard_failure, 'b) dbm) \<Rightarrow>
    ('a \<Rightarrow> (guard_failure, 'b) dbm) \<Rightarrow> (guard_failure, 'b) dbm" where
  "guardM m missing f = handleM (stepM m)
     (\<lambda>e. if e = NotFoundError then missing e else guard_error (api_error_of e)) f"

definition safe_method :: "http_method \<Rightarrow> bool" where
  "safe_method m \<longleftrightarrow> m \<in> {Get, Head, Options}"

definition authenticate :: "authlib \<Rightarrow> string \<Rightarrow> (guard_failure, AuthenticatedUser) dbm" where
  "authenticate au token =
     guardM (SessionRepository_find_by_token au token)
       (\<lambda>_. guard_error Unauthorized)
       (\<lambda>session.
     bindM utc_now (\<lambda>now.
     if se_expires_at session \<le> now then
       bindM (ignoreM (stepM (SessionRepository_delete_by_token au token))) (\<lambda>_. guard_error Unauthorized)
     else
     guardM (UserRepository_find (se_user_id session))
       (\<lambda>_. bindM (ignoreM (stepM (SessionRepository_delete_by_token au token)))
              (\<lambda>_. guard_error Unauthorized))
       (\<lambda>user.
     handleM (stepM (RoleRepository_find_by_user user))
       (\<lambda>e. guard_error (api_error_of e))
       (\<lambda>roles. retM \<lparr>au_user = user, au_session = session, au_roles = roles, au_token = token\<rparr>))))"

definition from_request ::
    "authlib \<Rightarrow> AppConfig option \<Rightarrow> (nat \<Rightarrow> checkout) \<Rightarrow> request \<Rightarrow>
     (guard_failure, AuthenticatedUser) dbm" where
  "from_request au config pool r =
     (case config of
        None \<Rightarrow> throwM (GuardError 500 Internal)
      | Some config \<Rightarrow>
     (case request_token r (session_cookie_name config) of
        None \<Rightarrow> throwM (GuardError 401 Unauthorized)
      | Some presented \<Rightarrow>
        (let (token, authenticated_with_cookie) =
           (case presented of Bearer t \<Rightarrow> (t, False) | Cookie t \<Rightarrow> (t, True)) in
         if authenticated_with_cookie \<and> \<not> safe_method (rq_method r) \<and> rq_csrf r \<noteq> Some ''1''
         then throwM (GuardError 403 Forbidden)
         else
           bindM outside_call (\<lambda>n.
           case pool n of
             PoolError status \<Rightarrow>
               if status = 503 then throwM (GuardError status ServiceUnavailable)
               else throwM (GuardError status Internal)
           | PoolForward status \<Rightarrow> throwM (GuardForward status)
           | Connected \<Rightarrow> authenticate au token))))"

section \<open>Permissions\<close>

definition require_admin :: "AuthenticatedUser \<Rightarrow> unit api" where
  "require_admin auth = (if is_admin auth then retM () else throwM Forbidden)"

definition require_maintainer_member_role ::
    "AuthenticatedUser \<Rightarrow> i32 \<Rightarrow> string list \<Rightarrow> unit api" where
  "require_maintainer_member_role auth maintainer_id allowed_roles =
     (if is_admin auth then retM ()
      else handleM (stepM (MaintainerMemberRepository_find_by_maintainer_and_user maintainer_id
                             (us_id (au_user auth))))
        (\<lambda>e. if e = NotFoundError then throwM Forbidden else throwM (api_error_of e))
        (\<lambda>member. if mm_role member \<in> set allowed_roles then retM () else throwM Forbidden))"

definition require_maintainer_write_access :: "AuthenticatedUser \<Rightarrow> i32 \<Rightarrow> unit api" where
  "require_maintainer_write_access auth maintainer_id =
     require_maintainer_member_role auth maintainer_id [''owner'', ''maintainer'']"

definition require_maintainer_owner_access :: "AuthenticatedUser \<Rightarrow> i32 \<Rightarrow> unit api" where
  "require_maintainer_owner_access auth maintainer_id =
     require_maintainer_member_role auth maintainer_id [''owner'']"

definition require_user_directory_access :: "AuthenticatedUser \<Rightarrow> unit api" where
  "require_user_directory_access auth =
     (if is_admin auth then retM ()
      else bindM (stepM (liftM (MaintainerMemberRepository_find_by_user (us_id (au_user auth))))) (\<lambda>members.
        if list_ex (\<lambda>m. mm_role m = ''owner'') members then retM () else throwM Forbidden))"

definition can_view_maintainer_members :: "AuthenticatedUser \<Rightarrow> i32 \<Rightarrow> bool api" where
  "can_view_maintainer_members auth maintainer_id =
     (if is_admin auth then retM True
      else handleM (stepM (MaintainerMemberRepository_find_by_maintainer_and_user maintainer_id
                             (us_id (au_user auth))))
        (\<lambda>e. if e = NotFoundError then retM False else throwM (api_error_of e))
        (\<lambda>_. retM True))"

definition record_access_scope :: "AuthenticatedUser \<Rightarrow> RecordAccessScope api" where
  "record_access_scope auth =
     bindM (stepM (liftM (MaintainerMemberRepository_find_by_user (us_id (au_user auth))))) (\<lambda>memberships.
     retM \<lparr>as_user_id = us_id (au_user auth), as_is_admin = is_admin auth,
           as_maintainer_ids = map mm_maintainer_id memberships\<rparr>)"

end
