(* ===== verification/App_Config.thy ===== *)
theory App_Config
  imports Worker_Config Auth
begin

text \<open>
  \<^verbatim>\<open>src/src/config.rs\<close>: the configuration of the server from the environment, the checks that must hold
  before it starts, and the guard that keeps tests away from a database that is not meant for them.

  The parsers of URLs (\<^verbatim>\<open>reqwest::Url\<close>) and of UUIDs are parameters. An error is its message.
\<close>

section \<open>Text\<close>

text \<open>The length of the first UTF-8 character of a byte string, when there is one that is well-formed.\<close>

definition byte :: "char \<Rightarrow> nat" where
  "byte c = of_char c"

definition is_continuation :: "nat \<Rightarrow> bool" where
  "is_continuation b \<longleftrightarrow> 0x80 \<le> b \<and> b \<le> 0xBF"

definition second_byte_ok :: "nat \<Rightarrow> nat \<Rightarrow> bool" where
  "second_byte_ok a b \<longleftrightarrow>
     (if a = 0xE0 then 0xA0 \<le> b else if a = 0xED then b \<le> 0x9F
      else if a = 0xF0 then 0x90 \<le> b else if a = 0xF4 then b \<le> 0x8F else True) \<and> is_continuation b"

definition utf8_width :: "nat \<Rightarrow> nat option" where
  "utf8_width a =
     (if a < 0x80 then Some 1 else if 0xC2 \<le> a \<and> a \<le> 0xDF then Some 2
      else if 0xE0 \<le> a \<and> a \<le> 0xEF then Some 3 else if 0xF0 \<le> a \<and> a \<le> 0xF4 then Some 4 else None)"

fun valid_utf8 :: "string \<Rightarrow> bool" where
  "valid_utf8 [] = True"
| "valid_utf8 (c # cs) =
     (case utf8_width (byte c) of
        None \<Rightarrow> False
      | Some w \<Rightarrow>
          w = 1 \<and> valid_utf8 cs
          \<or> w > 1 \<and> length (take (w - 1) cs) = w - 1 \<and> list_all (is_continuation \<circ> byte) (take (w - 1) cs)
            \<and> second_byte_ok (byte c) (byte (hd cs)) \<and> valid_utf8 (drop (w - 1) cs))"

text \<open>\<^verbatim>\<open>char::is_control\<close>: the ranges U+0000 to U+001F and U+007F to U+009F.\<close>

fun has_control :: "string \<Rightarrow> bool" where
  "has_control [] = False"
| "has_control (c # cs) =
     (byte c < 0x20 \<or> byte c = 0x7F
      \<or> (byte c = 0xC2 \<and> (case cs of d # _ \<Rightarrow> 0x80 \<le> byte d \<and> byte d \<le> 0x9F | [] \<Rightarrow> False))
      \<or> has_control cs)"

definition replacement_character :: string where
  "replacement_character = [CHR 0xEF, CHR 0xBF, CHR 0xBD]"

section \<open>Test databases\<close>

record url =
  ur_scheme :: string
  ur_host :: "string option"
  ur_username :: string
  ur_password :: "string option"
  ur_path :: string
  ur_query :: "string option"
  ur_query_pairs :: "(string \<times> string) list"
  ur_fragment :: "string option"

record urllib =
  ul_parse :: "string \<Rightarrow> url option"
  ul_uuid :: "string \<Rightarrow> string option"

definition hex_value :: "char \<Rightarrow> nat option" where
  "hex_value c =
     (let b = byte c in
      if 48 \<le> b \<and> b \<le> 57 then Some (b - 48)
      else if 97 \<le> b \<and> b \<le> 102 then Some (b - 97 + 10)
      else if 65 \<le> b \<and> b \<le> 70 then Some (b - 65 + 10) else None)"

fun percent_decode :: "string \<Rightarrow> string option" where
  "percent_decode [] = Some []"
| "percent_decode (c # cs) =
     (if c = CHR ''%'' then
        (case cs of
           h # l # rest \<Rightarrow>
             (case (hex_value h, hex_value l) of
                (Some high, Some low) \<Rightarrow> map_option (Cons (char_of (high * 16 + low))) (percent_decode rest)
              | _ \<Rightarrow> None)
         | _ \<Rightarrow> None)
      else map_option (Cons c) (percent_decode cs))"

definition percent_decode_utf8 :: "string \<Rightarrow> string option" where
  "percent_decode_utf8 value = filter_option valid_utf8 (percent_decode value)"

definition database_name_from_url :: "urllib \<Rightarrow> string \<Rightarrow> string + string" where
  "database_name_from_url ul database_url =
     (case ul_parse ul (trim database_url) of
        None \<Rightarrow> Inl ''the URL is invalid''
      | Some u \<Rightarrow>
          if ur_scheme u \<notin> set [''postgres'', ''postgresql''] then Inl ''the URL scheme must be postgres or postgresql''
          else
            (let encoded_path = unwrap_or (strip_prefix ''/'' (ur_path u)) (ur_path u);
                 query_names = map snd (filter (\<lambda>p. fst p = ''dbname'') (ur_query_pairs u))
             in bindS (if encoded_path = [] then Inr None
                       else (case percent_decode_utf8 encoded_path of
                               Some n \<Rightarrow> Inr (Some n) | None \<Rightarrow> Inl ''the database name encoding is invalid''))
                  (\<lambda>path_name.
                if length query_names > 1 \<or> path_name \<noteq> None \<and> query_names \<noteq> []
                then Inl ''the database name must be specified exactly once''
                else (case filter_option (\<lambda>n. n \<noteq> [])
                             (case path_name of Some n \<Rightarrow> Some n
                              | None \<Rightarrow> (case query_names of n # _ \<Rightarrow> Some n | [] \<Rightarrow> None)) of
                        None \<Rightarrow> Inl ''the database name is missing''
                      | Some n \<Rightarrow> if has_control n \<or> contains_str replacement_character n
                                  then Inl ''the database name is invalid'' else Inr n))))"

definition has_standalone_test_segment :: "string \<Rightarrow> bool" where
  "has_standalone_test_segment database_name \<longleftrightarrow>
     list_ex (\<lambda>x. eq_ignore_ascii_case x ''test'') (split_on (\<lambda>c. \<not> is_ascii_alphanumeric c) database_name)"

record TestDatabaseTarget =
  td_database_name :: string

definition quote :: string where "quote = [CHR 0x27]"

definition validate_test_database_url ::
    "urllib \<Rightarrow> string \<Rightarrow> string \<Rightarrow> string \<Rightarrow> string + TestDatabaseTarget option" where
  "validate_test_database_url ul environment database_url source =
     (if environment \<noteq> ''test'' then Inr None
      else (case database_name_from_url ul database_url of
          Inl m \<Rightarrow> Inl (''test environment requires '' @ source
            @ '' to be a PostgreSQL URL with an explicit database name: '' @ m)
        | Inr n \<Rightarrow>
            if \<not> has_standalone_test_segment n
            then Inl (''test environment requires '' @ source @ '' database name to contain a standalone ''
              @ quote @ ''test'' @ quote @ '' segment'')
            else Inr (Some \<lparr>td_database_name = n\<rparr>)))"

definition validate_actual_test_database_name :: "TestDatabaseTarget \<Rightarrow> string \<Rightarrow> string \<Rightarrow> string + unit" where
  "validate_actual_test_database_name target actual source =
     (if actual \<noteq> td_database_name target
      then Inl (''database selected by '' @ source @ '' does not match its configured test database name'')
      else if \<not> has_standalone_test_segment actual
      then Inl (''database selected by '' @ source @ '' does not contain a standalone '' @ quote @ ''test'' @ quote
        @ '' segment'')
      else Inr ())"

text \<open>\<open>current_database\<close> is what the connected server answers to the query for its name.\<close>

definition verify_test_database_connection ::
    "DieselError + string \<Rightarrow> TestDatabaseTarget \<Rightarrow> string \<Rightarrow> string + unit" where
  "verify_test_database_connection current_database target source =
     (case current_database of
        Inl _ \<Rightarrow> Inl (''could not verify the database selected by '' @ source @ '' before test writes'')
      | Inr actual \<Rightarrow> validate_actual_test_database_name target actual source)"

section \<open>Single settings\<close>

definition parse_bool :: "string \<Rightarrow> string \<Rightarrow> string + bool" where
  "parse_bool name value =
     (let v = to_ascii_lowercase (trim value) in
      if v \<in> set [''true'', ''1'', ''yes''] then Inr True
      else if v \<in> set [''false'', ''0'', ''no''] then Inr False
      else Inl (name @ '' must be one of: true, false, 1, 0, yes, no''))"

definition parse_positive :: "(string \<Rightarrow> int option) \<Rightarrow> string \<Rightarrow> string option \<Rightarrow> int \<Rightarrow> string + int" where
  "parse_positive parse name value fallback =
     (case value of
        Some v \<Rightarrow> (case filter_option (\<lambda>n. n > 0) (parse v) of
            Some n \<Rightarrow> Inr n | None \<Rightarrow> Inl (name @ '' must be a positive integer''))
      | None \<Rightarrow> Inr fallback)"

definition parse_positive_i32 :: "string \<Rightarrow> string option \<Rightarrow> i32 \<Rightarrow> string + i32" where
  "parse_positive_i32 = parse_positive parse_i32"

definition parse_positive_i64 :: "string \<Rightarrow> string option \<Rightarrow> i64 \<Rightarrow> string + i64" where
  "parse_positive_i64 = parse_positive parse_i64"

definition parse_bounded_positive_i64 :: "string \<Rightarrow> string option \<Rightarrow> i64 \<Rightarrow> i64 \<Rightarrow> i64 \<Rightarrow> string + i64" where
  "parse_bounded_positive_i64 name value fallback minimum maximum =
     bindS (parse_positive_i64 name value fallback) (\<lambda>v.
     if \<not> (minimum \<le> v \<and> v \<le> maximum)
     then Inl (name @ '' must be between '' @ show_int minimum @ '' and '' @ show_int maximum) else Inr v)"

definition optional_setting :: "string option \<Rightarrow> string option" where
  "optional_setting value = filter_option (\<lambda>v. v \<noteq> []) (map_option trim value)"

definition required_setting :: "string \<Rightarrow> string option \<Rightarrow> string + string" where
  "required_setting name value =
     (case optional_setting value of Some v \<Rightarrow> Inr v | None \<Rightarrow> Inl (name @ '' is required''))"

definition has_non_empty_value :: "string option \<Rightarrow> bool" where
  "has_non_empty_value value \<longleftrightarrow> filter_option (\<lambda>v. trim v \<noteq> []) value \<noteq> None"

definition validate_uuid :: "urllib \<Rightarrow> string \<Rightarrow> string \<Rightarrow> string + string" where
  "validate_uuid ul name value =
     (case ul_uuid ul value of Some u \<Rightarrow> Inr u | None \<Rightarrow> Inl (name @ '' must be a UUID''))"

definition validate_auth_url :: "urllib \<Rightarrow> string \<Rightarrow> string \<Rightarrow> string \<Rightarrow> bool \<Rightarrow> string + unit" where
  "validate_auth_url ul name value environment redirect_uri =
     (case ul_parse ul value of
        None \<Rightarrow> Inl (name @ '' must be an absolute HTTP(S) URL'')
      | Some u \<Rightarrow>
          if ur_scheme u \<notin> set [''http'', ''https''] \<or> ur_host u = None
          then Inl (name @ '' must be an absolute HTTP(S) URL'')
          else if ur_username u \<noteq> [] \<or> ur_password u \<noteq> None then Inl (name @ '' must not contain credentials'')
          else if environment = ''production'' \<and> ur_scheme u \<noteq> ''https''
          then Inl (name @ '' must use HTTPS in production'')
          else if ur_query u \<noteq> None \<or> ur_fragment u \<noteq> None
          then Inl (name @ '' '' @ (if redirect_uri then ''redirect URI'' else ''URL'')
            @ '' must not contain a query or fragment'')
          else if redirect_uri \<and> ur_path u \<noteq> ''/auth/entra/callback''
          then Inl (name @ '' path must be exactly /auth/entra/callback'')
          else Inr ())"

definition MIN_CONNECTOR_SECRET_KEY_BYTES :: nat where "MIN_CONNECTOR_SECRET_KEY_BYTES = 32"
definition MIN_AUTH_SECRET_KEY_BYTES :: nat where "MIN_AUTH_SECRET_KEY_BYTES = 32"

definition auth_placeholders :: "string list" where
  "auth_placeholders = [''change-me'', ''changeme'', ''replace-me'', ''replace_me'']"

definition weak_secret :: "string list \<Rightarrow> string \<Rightarrow> bool" where
  "weak_secret placeholders secret \<longleftrightarrow> length (remdups secret) < 8
     \<or> list_ex (\<lambda>p. contains_str p (to_ascii_lowercase secret)) placeholders"

definition validate_auth_secret :: "string \<Rightarrow> string \<Rightarrow> string + unit" where
  "validate_auth_secret name secret =
     (if length secret < MIN_AUTH_SECRET_KEY_BYTES
      then Inl (name @ '' must be at least '' @ show_int (int MIN_AUTH_SECRET_KEY_BYTES) @ '' bytes'')
      else if int (length secret) > 4096 then Inl (name @ '' must be at most 4096 bytes'')
      else if weak_secret auth_placeholders secret
      then Inl (name @ '' must be a non-placeholder, high-entropy value'')
      else Inr ())"

definition validate_connector_secret_key :: "string \<Rightarrow> string + unit" where
  "validate_connector_secret_key secret_key =
     (if length secret_key < MIN_CONNECTOR_SECRET_KEY_BYTES
      then Inl (''CONNECTOR_SECRET_KEY must be at least '' @ show_int (int MIN_CONNECTOR_SECRET_KEY_BYTES)
        @ '' bytes in production'')
      else if weak_secret (auth_placeholders @ [''dev-connector-secret-key'']) secret_key
      then Inl ''CONNECTOR_SECRET_KEY must be a non-placeholder, high-entropy value in production''
      else Inr ())"

section \<open>The configuration\<close>

definition DEFAULT_AUTH_TOKEN_TTL_SECONDS :: i64 where "DEFAULT_AUTH_TOKEN_TTL_SECONDS = 86400"
definition DEFAULT_AUTH_MAX_ACTIVE_SESSIONS_PER_USER :: i64 where "DEFAULT_AUTH_MAX_ACTIVE_SESSIONS_PER_USER = 20"
definition DEFAULT_AUTH_LOGIN_MAX_FAILURES :: i32 where "DEFAULT_AUTH_LOGIN_MAX_FAILURES = 5"
definition DEFAULT_AUTH_LOGIN_ACCOUNT_MAX_FAILURES :: i32 where "DEFAULT_AUTH_LOGIN_ACCOUNT_MAX_FAILURES = 50"
definition DEFAULT_AUTH_LOGIN_WINDOW_SECONDS :: i64 where "DEFAULT_AUTH_LOGIN_WINDOW_SECONDS = 900"
definition DEFAULT_AUTH_LOGIN_LOCKOUT_SECONDS :: i64 where "DEFAULT_AUTH_LOGIN_LOCKOUT_SECONDS = 900"
definition DEFAULT_AUTH_OIDC_TRANSACTION_TTL_SECONDS :: i64 where "DEFAULT_AUTH_OIDC_TRANSACTION_TTL_SECONDS = 600"
definition DEFAULT_AUTH_ENTRA_JWKS_CACHE_SECONDS :: i64 where "DEFAULT_AUTH_ENTRA_JWKS_CACHE_SECONDS = 300"
definition DEFAULT_AUTH_ENTRA_CLOCK_SKEW_SECONDS :: i64 where "DEFAULT_AUTH_ENTRA_CLOCK_SKEW_SECONDS = 120"

definition SUPPORTED_ENVIRONMENTS :: "string list" where
  "SUPPORTED_ENVIRONMENTS = [''development'', ''test'', ''production'']"

type_synonym reader = "string \<Rightarrow> string + string option"

text \<open>A check that returns early with its message.\<close>

definition reject_if :: "bool \<Rightarrow> string \<Rightarrow> string + unit" where
  "reject_if b message = (if b then Inl message else Inr ())"

definition read_bool :: "reader \<Rightarrow> string \<Rightarrow> bool \<Rightarrow> string + bool" where
  "read_bool read name fallback =
     bindS (read name) (\<lambda>v. case v of Some x \<Rightarrow> parse_bool name x | None \<Rightarrow> Inr fallback)"

definition endpoint_checks :: "urllib \<Rightarrow> string \<Rightarrow> (string \<times> string) list \<Rightarrow> string + unit" where
  "endpoint_checks ul environment endpoints =
     fold (\<lambda>(name, value) r. bindS r (\<lambda>_.
        bindS (reject_if (int (length value) > 2048) (name @ '' must be at most 2048 bytes'')) (\<lambda>_.
        validate_auth_url ul name value environment False))) endpoints (Inr ())"

definition entra_from_source :: "urllib \<Rightarrow> reader \<Rightarrow> string \<Rightarrow> string + EntraConfig" where
  "entra_from_source ul read environment =
     bindS (read ''AUTH_ENTRA_TENANT_ID'') (\<lambda>v.
     bindS (required_setting ''AUTH_ENTRA_TENANT_ID'' v) (\<lambda>tenant.
     bindS (read ''AUTH_ENTRA_CLIENT_ID'') (\<lambda>v.
     bindS (required_setting ''AUTH_ENTRA_CLIENT_ID'' v) (\<lambda>client.
     bindS (validate_uuid ul ''AUTH_ENTRA_TENANT_ID'' tenant) (\<lambda>tenant_id.
     bindS (validate_uuid ul ''AUTH_ENTRA_CLIENT_ID'' client) (\<lambda>client_id.
     bindS (read ''AUTH_ENTRA_REDIRECT_URI'') (\<lambda>v.
     bindS (required_setting ''AUTH_ENTRA_REDIRECT_URI'' v) (\<lambda>redirect_uri.
     bindS (reject_if (int (length redirect_uri) > 2048) ''AUTH_ENTRA_REDIRECT_URI must be at most 2048 bytes'') (\<lambda>_.
     bindS (validate_auth_url ul ''AUTH_ENTRA_REDIRECT_URI'' redirect_uri environment True) (\<lambda>_.
     bindS (read ''AUTH_OIDC_TRANSACTION_KEY'') (\<lambda>v.
     bindS (required_setting ''AUTH_OIDC_TRANSACTION_KEY'' v) (\<lambda>transaction_key.
     bindS (validate_auth_secret ''AUTH_OIDC_TRANSACTION_KEY'' transaction_key) (\<lambda>_.
     bindS (read ''AUTH_ENTRA_CLIENT_SECRET'') (\<lambda>v.
     let client_secret = map_option trim (filter_option (\<lambda>x. trim x \<noteq> []) v) in
     bindS (reject_if (case client_secret of Some c \<Rightarrow> int (length c) > 4096 | None \<Rightarrow> False)
              ''AUTH_ENTRA_CLIENT_SECRET must be at most 4096 bytes'') (\<lambda>_.
     bindS (reject_if (environment = ''production'' \<and> client_secret = None)
              ''production Entra login requires AUTH_ENTRA_CLIENT_SECRET'') (\<lambda>_.
     let root = ''https://login.microsoftonline.com/'' @ tenant_id; authority = root @ ''/oauth2/v2.0'' in
     bindS (read ''AUTH_ENTRA_ISSUER'') (\<lambda>v.
     let issuer = unwrap_or (optional_setting v) (root @ ''/v2.0'') in
     bindS (read ''AUTH_ENTRA_AUTHORIZATION_URL'') (\<lambda>v.
     let authorization_url = unwrap_or (optional_setting v) (authority @ ''/authorize'') in
     bindS (read ''AUTH_ENTRA_TOKEN_URL'') (\<lambda>v.
     let token_url = unwrap_or (optional_setting v) (authority @ ''/token'') in
     bindS (read ''AUTH_ENTRA_JWKS_URL'') (\<lambda>v.
     let jwks_url = unwrap_or (optional_setting v) (root @ ''/discovery/v2.0/keys'') in
     bindS (reject_if (length issuer > 255) ''AUTH_ENTRA_ISSUER must be at most 255 bytes'') (\<lambda>_.
     bindS (endpoint_checks ul environment
              [(''AUTH_ENTRA_ISSUER'', issuer), (''AUTH_ENTRA_AUTHORIZATION_URL'', authorization_url),
               (''AUTH_ENTRA_TOKEN_URL'', token_url), (''AUTH_ENTRA_JWKS_URL'', jwks_url)]) (\<lambda>_.
     bindS (read_bool read ''AUTH_ENTRA_JIT_PROVISIONING'' False) (\<lambda>jit_provisioning.
     bindS (read ''AUTH_ENTRA_REQUIRED_ROLE'') (\<lambda>v.
     let required_role = optional_setting v in
     bindS (reject_if (case required_role of Some r \<Rightarrow> length r > 128 \<or> has_control r | None \<Rightarrow> False)
              ''AUTH_ENTRA_REQUIRED_ROLE must be at most 128 bytes and contain no control characters'') (\<lambda>_.
     bindS (reject_if (environment = ''production'' \<and> jit_provisioning \<and> required_role = None)
              ''production Entra JIT provisioning requires AUTH_ENTRA_REQUIRED_ROLE'') (\<lambda>_.
     bindS (read ''AUTH_OIDC_TRANSACTION_TTL_SECONDS'') (\<lambda>v.
     bindS (parse_bounded_positive_i64 ''AUTH_OIDC_TRANSACTION_TTL_SECONDS'' v
              DEFAULT_AUTH_OIDC_TRANSACTION_TTL_SECONDS 60 1800) (\<lambda>transaction_ttl.
     bindS (read ''AUTH_ENTRA_JWKS_CACHE_SECONDS'') (\<lambda>v.
     bindS (parse_bounded_positive_i64 ''AUTH_ENTRA_JWKS_CACHE_SECONDS'' v
              DEFAULT_AUTH_ENTRA_JWKS_CACHE_SECONDS 30 86400) (\<lambda>jwks_cache.
     bindS (read ''AUTH_ENTRA_CLOCK_SKEW_SECONDS'') (\<lambda>v.
     bindS (parse_bounded_positive_i64 ''AUTH_ENTRA_CLOCK_SKEW_SECONDS'' v
              DEFAULT_AUTH_ENTRA_CLOCK_SKEW_SECONDS 1 300) (\<lambda>clock_skew.
     Inr \<lparr>en_tenant_id = tenant_id, en_client_id = client_id, en_client_secret = client_secret,
          en_transaction_key = transaction_key, en_redirect_uri = redirect_uri, en_issuer = issuer,
          en_authorization_url = authorization_url, en_token_url = token_url, en_jwks_url = jwks_url,
          en_jit_provisioning = jit_provisioning, en_required_role = required_role,
          en_transaction_ttl_seconds = transaction_ttl, en_jwks_cache_seconds = jwks_cache,
          en_clock_skew_seconds = clock_skew\<rparr>))))))))))))))))))))))))))))))))"

definition test_checks :: "urllib \<Rightarrow> reader \<Rightarrow> string \<Rightarrow> string + unit" where
  "test_checks ul read environment =
     (if environment = ''test'' then
        bindS (read ''DATABASE_URL'') (\<lambda>v.
        case filter_option (\<lambda>u. trim u \<noteq> []) v of
          None \<Rightarrow> Inr ()
        | Some database_url \<Rightarrow>
            bindS (validate_test_database_url ul environment database_url ''DATABASE_URL'') (\<lambda>_. Inr ()))
      else Inr ())"

definition production_checks :: "reader \<Rightarrow> string \<Rightarrow> string + unit" where
  "production_checks read environment =
     (if environment = ''production'' then
        bindS (read ''DATABASE_URL'') (\<lambda>database_url.
        bindS (read ''ROCKET_DATABASES'') (\<lambda>rocket_databases.
        bindS (reject_if (\<not> has_non_empty_value database_url \<and> \<not> has_non_empty_value rocket_databases)
                 ''production requires DATABASE_URL or ROCKET_DATABASES'') (\<lambda>_.
        bindS (read ''CONNECTOR_SECRET_KEY'') (\<lambda>v.
        case filter_option (\<lambda>x. trim x \<noteq> []) v of
          None \<Rightarrow> Inl ''production requires CONNECTOR_SECRET_KEY''
        | Some key \<Rightarrow> validate_connector_secret_key key))))
      else Inr ())"

definition AppConfig_from_source :: "urllib \<Rightarrow> reader \<Rightarrow> string + AppConfig" where
  "AppConfig_from_source ul read =
     bindS (read ''APP_ENV'') (\<lambda>v.
     let environment = unwrap_or v ''development'' in
     bindS (reject_if (environment \<notin> set SUPPORTED_ENVIRONMENTS)
              (''APP_ENV must be one of: '' @ join_str '', '' SUPPORTED_ENVIRONMENTS)) (\<lambda>_.
     bindS (read ''AUTH_TOKEN_TTL_SECONDS'') (\<lambda>v.
     bindS (case v of
              Some x \<Rightarrow> (case parse_i64 x of Some n \<Rightarrow> Inr n
                | None \<Rightarrow> Inl ''AUTH_TOKEN_TTL_SECONDS must be a positive integer'')
            | None \<Rightarrow> Inr DEFAULT_AUTH_TOKEN_TTL_SECONDS) (\<lambda>token_ttl.
     bindS (reject_if (token_ttl \<le> 0) ''AUTH_TOKEN_TTL_SECONDS must be greater than 0'') (\<lambda>_.
     bindS (read ''AUTH_MAX_ACTIVE_SESSIONS_PER_USER'') (\<lambda>v.
     bindS (parse_bounded_positive_i64 ''AUTH_MAX_ACTIVE_SESSIONS_PER_USER'' v
              DEFAULT_AUTH_MAX_ACTIVE_SESSIONS_PER_USER 1 100) (\<lambda>max_sessions.
     bindS (read_bool read ''AUTH_COOKIE_SECURE'' (environment = ''production'')) (\<lambda>cookie_secure.
     bindS (reject_if (environment = ''production'' \<and> \<not> cookie_secure)
              ''AUTH_COOKIE_SECURE must be true in production'') (\<lambda>_.
     bindS (read ''AUTH_LOGIN_MAX_FAILURES'') (\<lambda>v.
     bindS (parse_positive_i32 ''AUTH_LOGIN_MAX_FAILURES'' v DEFAULT_AUTH_LOGIN_MAX_FAILURES) (\<lambda>max_failures.
     bindS (read ''AUTH_LOGIN_ACCOUNT_MAX_FAILURES'') (\<lambda>v.
     bindS (parse_positive_i32 ''AUTH_LOGIN_ACCOUNT_MAX_FAILURES'' v
              DEFAULT_AUTH_LOGIN_ACCOUNT_MAX_FAILURES) (\<lambda>account_max_failures.
     bindS (reject_if (account_max_failures < max_failures * 2)
              ''AUTH_LOGIN_ACCOUNT_MAX_FAILURES must be at least twice AUTH_LOGIN_MAX_FAILURES'') (\<lambda>_.
     bindS (read ''AUTH_LOGIN_WINDOW_SECONDS'') (\<lambda>v.
     bindS (parse_positive_i64 ''AUTH_LOGIN_WINDOW_SECONDS'' v DEFAULT_AUTH_LOGIN_WINDOW_SECONDS) (\<lambda>window.
     bindS (read ''AUTH_LOGIN_LOCKOUT_SECONDS'') (\<lambda>v.
     bindS (parse_positive_i64 ''AUTH_LOGIN_LOCKOUT_SECONDS'' v DEFAULT_AUTH_LOGIN_LOCKOUT_SECONDS) (\<lambda>lockout.
     bindS (read_bool read ''AUTH_PASSWORD_LOGIN_ENABLED'' True) (\<lambda>password_login.
     bindS (read_bool read ''AUTH_ENTRA_ENABLED'' False) (\<lambda>entra_enabled.
     bindS (if entra_enabled then bindS (entra_from_source ul read environment) (\<lambda>e. Inr (Some e))
            else Inr None) (\<lambda>entra.
     bindS (reject_if (\<not> password_login \<and> entra = None) ''at least one login method must be enabled'') (\<lambda>_.
     bindS (test_checks ul read environment) (\<lambda>_.
     bindS (production_checks read environment) (\<lambda>_.
     Inr \<lparr>ac_environment = environment, ac_auth_token_ttl_seconds = token_ttl,
          ac_auth_max_active_sessions_per_user = max_sessions, ac_auth_cookie_secure = cookie_secure,
          ac_auth_login_max_failures = max_failures,
          ac_auth_login_account_max_failures = account_max_failures,
          ac_auth_login_window_seconds = window, ac_auth_login_lockout_seconds = lockout,
          ac_auth_password_login_enabled = password_login, ac_entra = entra\<rparr>))))))))))))))))))))))))"

definition AppConfig_from_env :: "urllib \<Rightarrow> process_env \<Rightarrow> string + AppConfig" where
  "AppConfig_from_env ul vars = AppConfig_from_source ul (\<lambda>name.
     case vars name of
       Inr v \<Rightarrow> Inr (Some v)
     | Inl NotPresent \<Rightarrow> Inr None
     | Inl NotUnicode \<Rightarrow> Inl (name @ '' must contain valid Unicode''))"

end
