(* ===== verification/Adapter_Shared.thy ===== *)
theory Adapter_Shared
  imports Connector_Config App_Config
begin

text \<open>
  The ground of the connector adapters: requests over HTTP, the configurations the adapters read, and
  \<^verbatim>\<open>src/src/connector_adapters/shared.rs\<close>, the reading of loosely structured JSON items and the building
  of URLs, names and times.

  An adapter is a function on the state of its network session: the requests sent so far and the number
  of clock readings. The client of \<^verbatim>\<open>reqwest\<close>, its URLs, \<^verbatim>\<open>serde\<close> for the configurations and the
  formats of \<^verbatim>\<open>chrono\<close> are fields of \<open>adapterlib\<close>. An error is its message.
\<close>

section \<open>Configurations\<close>

record AzureDevOpsConfig =
  az_adapter :: "string option"
  az_wiql_url :: "string option"
  az_work_items_url :: "string option"
  az_base_url :: "string option"
  az_organization :: "string option"
  az_project :: "string option"
  az_api_version :: "string option"
  az_personal_access_token :: "string option"
  az_pat :: "string option"
  az_wiql :: "string option"
  az_web_url_base :: "string option"
  az_due_date_field :: "string option"
  az_assignee_user_mappings :: "(string \<times> i32) list"
  az_max_items :: "int option"
  az_timeout_seconds :: "int option"

record ErpPrivateMessagesConfig =
  ep_adapter :: "string option"
  ep_messages_url :: "string option"
  ep_private_messages_url :: "string option"
  ep_url :: "string option"
  ep_bearer_token :: "string option"
  ep_token :: "string option"
  ep_api_key :: "string option"
  ep_x_api_key :: "string option"
  ep_api_key_header :: "string option"
  ep_since :: "string option"
  ep_updated_after :: "string option"
  ep_received_after :: "string option"
  ep_lookback_hours :: "i64 option"
  ep_unread_only :: "bool option"
  ep_top :: "int option"
  ep_limit :: "int option"
  ep_timeout_seconds :: "int option"
  ep_snapshot_complete :: "bool option"

record MonitoringConfig =
  mo_adapter :: "string option"
  mo_url :: "string option"
  mo_default_maintainer_id :: "i32 option"
  mo_bearer_token :: "string option"
  mo_token :: "string option"
  mo_api_key :: "string option"
  mo_timeout_seconds :: "int option"

record MicrosoftGraphCalendarConfig =
  gc_adapter :: "string option"
  gc_calendar_view_url :: "string option"
  gc_base_url :: "string option"
  gc_user_id :: "string option"
  gc_start_at :: "string option"
  gc_end_at :: "string option"
  gc_lookahead_hours :: "i64 option"
  gc_top :: "int option"
  gc_max_pages :: "int option"
  gc_max_items :: "int option"
  gc_timeout_seconds :: "int option"

record MicrosoftGraphMailConfig =
  gm_adapter :: "string option"
  gm_messages_url :: "string option"
  gm_mail_messages_url :: "string option"
  gm_base_url :: "string option"
  gm_user_id :: "string option"
  gm_mail_folder_id :: "string option"
  gm_folder_id :: "string option"
  gm_folder :: "string option"
  gm_received_after :: "string option"
  gm_lookback_hours :: "i64 option"
  gm_unread_only :: "bool option"
  gm_filter :: "string option"
  gm_orderby :: "string option"
  gm_top :: "int option"
  gm_max_pages :: "int option"
  gm_max_items :: "int option"
  gm_timeout_seconds :: "int option"

record GraphTokenResponse =
  tr_access_token :: "string option"
  tr_token_type :: "string option"
  tr_expires_in :: "i64 option"
  tr_refresh_token :: "string option"
  tr_scope :: "string option"
  tr_error :: "string option"
  tr_error_description :: "string option"

section \<open>Requests\<close>

datatype request_auth = BasicAuth string string | BearerAuth string

datatype request_body = EmptyBody | JsonBody json | FormBody "(string \<times> string) list"

record http_request =
  hq_method :: string
  hq_url :: string
  hq_timeout :: int
  hq_auth :: "request_auth option"
  hq_headers :: "(string \<times> string) list"
  hq_body :: request_body

text \<open>The body of an answer may fail to arrive.\<close>

record http_answer =
  ha_success :: bool
  ha_status :: string
  ha_text :: "string + string"

record adapterlib =
  al_cx :: crypto
  al_client :: "int \<Rightarrow> string + unit"
  al_send :: "nat \<Rightarrow> http_request \<Rightarrow> string + http_answer"
  al_clock :: "nat \<Rightarrow> utc"
  al_header_name :: "string \<Rightarrow> string option"
  al_parse_url :: "string \<Rightarrow> string + url"
  al_join :: "url \<Rightarrow> string \<Rightarrow> string + url"
  al_show_url :: "url \<Rightarrow> string"
  al_port :: "url \<Rightarrow> int option"
  al_with_pairs :: "url \<Rightarrow> (string \<times> string) list \<Rightarrow> string"
  al_rfc3339 :: "string \<Rightarrow> utc option"
  al_naive :: "string \<Rightarrow> string \<Rightarrow> utc option"
  al_show_auto :: "utc \<Rightarrow> string"
  al_show_secs :: "utc \<Rightarrow> string"
  al_show_graph :: "utc \<Rightarrow> string"
  al_adapter_config :: "string \<Rightarrow> string + string option"
  al_azure_config :: "string \<Rightarrow> string + AzureDevOpsConfig"
  al_erp_config :: "string \<Rightarrow> string + ErpPrivateMessagesConfig"
  al_monitoring_config :: "string \<Rightarrow> string + MonitoringConfig"
  al_calendar_config :: "string \<Rightarrow> string + MicrosoftGraphCalendarConfig"
  al_mail_config :: "string \<Rightarrow> string + MicrosoftGraphMailConfig"
  al_token_response :: "string \<Rightarrow> string + GraphTokenResponse"

record net_state =
  ns_sent :: "http_request list"
  ns_reads :: nat

type_synonym 'a net = "net_state \<Rightarrow> (string + 'a) \<times> net_state"

definition retN :: "'a \<Rightarrow> 'a net" where
  "retN x st = (Inr x, st)"

definition failN :: "string \<Rightarrow> 'a net" where
  "failN e st = (Inl e, st)"

definition bindN :: "'a net \<Rightarrow> ('a \<Rightarrow> 'b net) \<Rightarrow> 'b net" where
  "bindN m f st = (case m st of (Inl e, st') \<Rightarrow> (Inl e, st') | (Inr x, st') \<Rightarrow> f x st')"

definition resultN :: "string + 'a \<Rightarrow> 'a net" where
  "resultN r st = (r, st)"

definition map_err :: "(string \<Rightarrow> string) \<Rightarrow> string + 'a \<Rightarrow> string + 'a" where
  "map_err f r = (case r of Inl e \<Rightarrow> Inl (f e) | Inr x \<Rightarrow> Inr x)"

definition map_errN :: "(string \<Rightarrow> string) \<Rightarrow> 'a net \<Rightarrow> 'a net" where
  "map_errN f m st = (case m st of (r, st') \<Rightarrow> (map_err f r, st'))"

definition ok_or :: "'a option \<Rightarrow> string \<Rightarrow> string + 'a" where
  "ok_or x e = (case x of Some v \<Rightarrow> Inr v | None \<Rightarrow> Inl e)"

definition nowN :: "adapterlib \<Rightarrow> utc net" where
  "nowN al st = (Inr (al_clock al (ns_reads st)), st\<lparr>ns_reads := Suc (ns_reads st)\<rparr>)"

definition sendN :: "adapterlib \<Rightarrow> http_request \<Rightarrow> http_answer net" where
  "sendN al rq st = (al_send al (length (ns_sent st)) rq, st\<lparr>ns_sent := ns_sent st @ [rq]\<rparr>)"

text \<open>\<^verbatim>\<open>response.text().await.unwrap_or_default()\<close> and \<^verbatim>\<open>response.json::<Value>()\<close>.\<close>

definition text_or_empty :: "http_answer \<Rightarrow> string" where
  "text_or_empty a = (case ha_text a of Inr t \<Rightarrow> t | Inl _ \<Rightarrow> [])"

definition answer_json :: "adapterlib \<Rightarrow> http_answer \<Rightarrow> string + json" where
  "answer_json al a = bindS (ha_text a) (cx_parse (al_cx al))"

text \<open>The ending the requests to Azure DevOps, ERP and monitoring share.\<close>

definition send_json_request :: "adapterlib \<Rightarrow> string \<Rightarrow> http_request \<Rightarrow> json net" where
  "send_json_request al adapter rq =
     bindN (map_errN (\<lambda>e. adapter @ '' request failed: '' @ e) (sendN al rq)) (\<lambda>response.
     if \<not> ha_success response
     then failN (adapter @ '' request returned '' @ ha_status response @ '': '' @ text_or_empty response)
     else resultN (map_err (\<lambda>e. adapter @ '' response was not valid JSON: '' @ e) (answer_json al response)))"

definition bearer_auth :: "string option \<Rightarrow> request_auth option" where
  "bearer_auth token = map_option BearerAuth (filter_option (\<lambda>t. trim t \<noteq> []) token)"

section \<open>Words of the portal\<close>

definition normalize_notification_severity :: "string \<Rightarrow> string \<Rightarrow> string" where
  "normalize_notification_severity value fallback =
     (let v = to_ascii_lowercase (trim value) in
      if v \<in> set [''critical'', ''urgent'', ''blocker'', ''error'', ''failed'', ''failure''] then ''critical''
      else if v \<in> set [''warning'', ''warn'', ''high'', ''medium'', ''normal''] then ''warning''
      else if v \<in> set [''info'', ''low'', ''ok'', ''success'', ''none''] then ''info''
      else fallback)"

definition normalize_lifecycle :: "string \<Rightarrow> string" where
  "normalize_lifecycle status =
     (let v = to_ascii_lowercase status in
      if v = ''deprecated'' then ''deprecated''
      else if v \<in> set [''archived'', ''inactive'', ''retired'', ''decommissioned''] then ''archived''
      else ''active'')"

section \<open>URLs\<close>

definition hex_digit :: "nat \<Rightarrow> nat \<Rightarrow> char" where
  "hex_digit letter n = char_of (if n < 10 then n + 48 else n - 10 + letter)"

definition hex_byte :: "nat \<Rightarrow> char \<Rightarrow> string" where
  "hex_byte letter c = [hex_digit letter (byte c div 16), hex_digit letter (byte c mod 16)]"

definition unreserved :: "char \<Rightarrow> bool" where
  "unreserved c \<longleftrightarrow> is_ascii_alphanumeric c \<or> c \<in> set ''-_.~''"

definition encode_url_component :: "string \<Rightarrow> string" where
  "encode_url_component value =
     concat (map (\<lambda>c. if unreserved c then [c] else CHR ''%'' # hex_byte 65 c) value)"

fun push_params :: "string \<Rightarrow> string \<Rightarrow> (string \<times> string) list \<Rightarrow> string" where
  "push_params url separator [] = url"
| "push_params url separator ((key, value) # params) =
     push_params (url @ separator @ encode_url_component key @ ''='' @ encode_url_component value) ''&'' params"

definition append_query_params :: "string \<Rightarrow> (string \<times> string) list \<Rightarrow> string" where
  "append_query_params base_url params =
     push_params base_url
       (if CHR ''?'' \<in> set base_url
        then (if ends_with ''?'' base_url \<or> ends_with ''&'' base_url then [] else ''&'') else ''?'') params"

definition absolute_http :: "string \<Rightarrow> bool" where
  "absolute_http url \<longleftrightarrow> starts_with ''http://'' url \<or> starts_with ''https://'' url"

definition require_url :: "string \<Rightarrow> string \<Rightarrow> string + unit" where
  "require_url field url =
     (if absolute_http url then Inr () else Inl (field @ '' must be an absolute HTTP URL''))"

section \<open>Names\<close>

definition trim_matches :: "(char \<Rightarrow> bool) \<Rightarrow> string \<Rightarrow> string" where
  "trim_matches p s = rev (dropWhile p (rev (dropWhile p s)))"

text \<open>\<^verbatim>\<open>char::to_lowercase\<close>, up to characters outside ASCII that stay outside: the capital I with a dot
  above becomes an i followed by a combining dot, and the sign for kelvin becomes a k.\<close>

fun lowercase_chars :: "string \<Rightarrow> string" where
  "lowercase_chars [] = []"
| "lowercase_chars (c # cs) =
     (if starts_with [CHR 0xC4, CHR 0xB0] (c # cs)
      then [CHR ''i'', CHR 0xCC, CHR 0x87] @ lowercase_chars (drop 1 cs)
      else if starts_with [CHR 0xE2, CHR 0x84, CHR 0xAA] (c # cs)
      then CHR ''k'' # lowercase_chars (drop 2 cs)
      else ascii_lower c # lowercase_chars cs)"

fun slug_step :: "char \<Rightarrow> string \<times> bool \<Rightarrow> string \<times> bool" where
  "slug_step c (slug, last_was_dash) =
     (if is_ascii_alphanumeric c then (slug @ [c], False)
      else if \<not> last_was_dash \<and> slug \<noteq> [] then (slug @ ''-'', True)
      else (slug, last_was_dash))"

definition slugify :: "string \<Rightarrow> string" where
  "slugify value = trim_matches (\<lambda>c. c = CHR ''-'') (fst (fold slug_step (lowercase_chars value) ([], False)))"

definition stable_slug :: "string option \<Rightarrow> string list \<Rightarrow> string" where
  "stable_slug preferred fallbacks =
     (case List.find (\<lambda>s. s \<noteq> [])
             (map slugify ((case preferred of Some p \<Rightarrow> [p] | None \<Rightarrow> []) @ fallbacks)) of
        Some slug \<Rightarrow> slug
      | None \<Rightarrow> ''service-'' @ concat (map (hex_byte 97)
          (take 12 (case fallbacks of f # _ \<Rightarrow> f | [] \<Rightarrow> ''service''))))"

section \<open>Fields of an item\<close>

fun find_map :: "('a \<Rightarrow> 'b option) \<Rightarrow> 'a list \<Rightarrow> 'b option" where
  "find_map f [] = None"
| "find_map f (x # xs) = (case f x of Some y \<Rightarrow> Some y | None \<Rightarrow> find_map f xs)"

definition field_value :: "json \<Rightarrow> string list \<Rightarrow> json option" where
  "field_value item names = find_map (\<lambda>n. json_get n item) names"

definition scalar_to_string :: "json \<Rightarrow> string option" where
  "scalar_to_string v = (case v of
       JString s \<Rightarrow> Some s | JInt n \<Rightarrow> Some (show_int n) | JFloat t \<Rightarrow> Some t | _ \<Rightarrow> None)"

text \<open>\<open>item_string\<close> is \<^verbatim>\<open>field_string\<close> of \<^verbatim>\<open>shared.rs\<close>, which reads numbers as well.\<close>

definition item_string :: "json \<Rightarrow> string list \<Rightarrow> string option" where
  "item_string item names =
     filter_option (\<lambda>v. v \<noteq> []) (map_option trim (Option.bind (field_value item names) scalar_to_string))"

definition field_url :: "json \<Rightarrow> string list \<Rightarrow> string option" where
  "field_url item names = filter_option absolute_http (item_string item names)"

definition field_i32 :: "json \<Rightarrow> string list \<Rightarrow> i32 option" where
  "field_i32 item names =
     filter_option (\<lambda>n. i32_min \<le> n \<and> n \<le> i32_max) (Option.bind (field_value item names) json_as_i64)"

definition bool_of_json :: "json \<Rightarrow> bool option" where
  "bool_of_json v = (case v of
       JBool b \<Rightarrow> Some b
     | JInt _ \<Rightarrow> map_option (\<lambda>n. n \<noteq> 0) (json_as_i64 v)
     | JString s \<Rightarrow>
         (let t = to_ascii_lowercase (trim s) in
          if t \<in> set [''true'', ''yes'', ''1''] then Some True
          else if t \<in> set [''false'', ''no'', ''0''] then Some False else None)
     | _ \<Rightarrow> None)"

definition field_bool :: "json \<Rightarrow> string list \<Rightarrow> bool option" where
  "field_bool item names = Option.bind (field_value item names) bool_of_json"

definition person_display :: "json \<Rightarrow> string list \<Rightarrow> string option" where
  "person_display item names =
     Option.bind (field_value item names) (\<lambda>value.
       or_else (scalar_to_string value)
         (or_else (item_string value [''display_name'', ''displayName'', ''name'', ''email'', ''address''])
            (Option.bind (json_get ''emailAddress'' value) (\<lambda>mail. item_string mail [''name'', ''address'']))))"

text \<open>\<^verbatim>\<open>Value::pointer\<close> for a path of names; the paths in use have no numbers and no escapes.\<close>

fun json_pointer :: "string list \<Rightarrow> json \<Rightarrow> json option" where
  "json_pointer [] v = Some v"
| "json_pointer (k # ks) v = Option.bind (json_get k v) (json_pointer ks)"

definition notification_external_id :: "string \<Rightarrow> json \<Rightarrow> string list \<Rightarrow> string \<Rightarrow> string" where
  "notification_external_id kind item id_fields title =
     unwrap_or (item_string item id_fields) (kind @ ''-'' @ stable_slug None [title])"

definition normalize_naive_datetime :: "adapterlib \<Rightarrow> string \<Rightarrow> string option" where
  "normalize_naive_datetime al value =
     (let v = trim value in
      if v = [] then None
      else case al_rfc3339 al v of
          Some d \<Rightarrow> Some (al_show_auto al d)
        | None \<Rightarrow> map_option (al_show_auto al) (first_naive (al_naive al) naive_formats v))"

definition normalized_time_field :: "adapterlib \<Rightarrow> json \<Rightarrow> string list \<Rightarrow> string option" where
  "normalized_time_field al item names =
     map_option (\<lambda>v. unwrap_or (normalize_naive_datetime al v) v) (item_string item names)"

definition json_option :: "string option \<Rightarrow> json" where
  "json_option v = (case v of Some s \<Rightarrow> JString s | None \<Rightarrow> JNull)"

definition joined_details :: "string list \<Rightarrow> string option" where
  "joined_details details = (if details = [] then None else Some (join_str '' | '' details))"

text \<open>A detail that is present, with its label.\<close>

definition detail :: "string \<Rightarrow> string option \<Rightarrow> string list" where
  "detail label v = (case v of Some s \<Rightarrow> [label @ s] | None \<Rightarrow> [])"

definition given :: "string option \<Rightarrow> string option" where
  "given v = filter_option (\<lambda>s. s \<noteq> []) (map_option trim v)"

definition adapter_payload :: "json \<Rightarrow> json option \<times> string option" where
  "adapter_payload payload = (Some payload, None)"

end
