(* ===== verification/Graph_Adapters.thy ===== *)
theory Graph_Adapters
  imports Adapter_Shared "HOL-Library.AList"
begin

text \<open>
  \<^verbatim>\<open>src/src/connector_adapters/graph.rs\<close> and its modules \<^verbatim>\<open>oauth.rs\<close>, \<^verbatim>\<open>calendar.rs\<close> and \<^verbatim>\<open>mail.rs\<close>: the
  reading of a paged collection of Microsoft Graph with a bearer token, the refresh of that token, and
  the events and messages that are made of the items. Times are integers without bounds: the ranges in
  which \<^verbatim>\<open>chrono\<close> panics are not modelled.
\<close>

section \<open>Pages\<close>

definition DEFAULT_MAX_PAGES :: int where "DEFAULT_MAX_PAGES = 20"
definition GRAPH_DEFAULT_MAX_ITEMS :: int where "GRAPH_DEFAULT_MAX_ITEMS = 1000"
definition MAX_ALLOWED_PAGES :: int where "MAX_ALLOWED_PAGES = 100"
definition GRAPH_MAX_ALLOWED_ITEMS :: int where "GRAPH_MAX_ALLOWED_ITEMS = 10000"

record GraphCollection =
  gk_items :: "json list"
  gk_snapshot_complete :: bool

definition graph_pagination_limits :: "string \<Rightarrow> int option \<Rightarrow> int option \<Rightarrow> string + (nat \<times> nat)" where
  "graph_pagination_limits adapter max_pages max_items =
     (let max_pages = unwrap_or max_pages DEFAULT_MAX_PAGES;
          max_items = unwrap_or max_items GRAPH_DEFAULT_MAX_ITEMS in
      if \<not> (1 \<le> max_pages \<and> max_pages \<le> MAX_ALLOWED_PAGES)
      then Inl (adapter @ '' config max_pages must be an integer from 1 to '' @ show_int MAX_ALLOWED_PAGES)
      else if \<not> (1 \<le> max_items \<and> max_items \<le> GRAPH_MAX_ALLOWED_ITEMS)
      then Inl (adapter @ '' config max_items must be an integer from 1 to '' @ show_int GRAPH_MAX_ALLOWED_ITEMS)
      else Inr (nat max_pages, nat max_items))"

definition canonical_url :: "adapterlib \<Rightarrow> url \<Rightarrow> string" where
  "canonical_url al u = al_show_url al (u\<lparr>ur_fragment := None\<rparr>)"

definition same_origin :: "adapterlib \<Rightarrow> url \<Rightarrow> url \<Rightarrow> bool" where
  "same_origin al left right \<longleftrightarrow> ur_scheme left = ur_scheme right \<and> ur_host left = ur_host right
     \<and> al_port al left = al_port al right"

definition url_origin :: "adapterlib \<Rightarrow> url \<Rightarrow> string" where
  "url_origin al u = ur_scheme u @ ''://'' @ unwrap_or (ur_host u) ''<missing-host>''
     @ (case al_port al u of Some port \<Rightarrow> '':'' @ show_int port | None \<Rightarrow> [])"

definition graph_collection_items :: "json \<Rightarrow> string \<Rightarrow> nat \<Rightarrow> string + json list" where
  "graph_collection_items response adapter page_number =
     (case json_as_array response of
        Some xs \<Rightarrow> Inr xs
      | None \<Rightarrow>
          (case List.find (\<lambda>f. json_get f response \<noteq> None) [''value'', ''items'', ''events'', ''messages''] of
             Some f \<Rightarrow> ok_or (Option.bind (json_get f response) json_as_array)
               (adapter @ '' page '' @ show_int (int page_number) @ '' response field '' @ f @ '' must be an array'')
           | None \<Rightarrow> Inl (adapter @ '' page '' @ show_int (int page_number)
               @ '' response must include an explicit collection array in value, items, events, or messages'')))"

definition graph_next_link :: "adapterlib \<Rightarrow> json \<Rightarrow> url \<Rightarrow> url \<Rightarrow> string \<Rightarrow> string + url option" where
  "graph_next_link al response current_url initial_url adapter =
     (let wrong = adapter @ '' pagination nextLink must be a non-empty URL string'' in
      case field_value response [''@odata.nextLink'', ''odata.nextLink'', ''nextLink''] of
        None \<Rightarrow> Inr None
      | Some JNull \<Rightarrow> Inr None
      | Some link \<Rightarrow>
          bindS (ok_or (map_option trim (json_as_str link)) wrong) (\<lambda>next_link.
          if next_link = [] then Inl wrong
          else
            bindS (map_err (\<lambda>e. adapter @ '' pagination nextLink is not a valid URL: '' @ e)
                     (al_join al current_url next_link)) (\<lambda>joined.
            let next_url = joined\<lparr>ur_fragment := None\<rparr> in
            if \<not> same_origin al initial_url next_url
            then Inl (adapter @ '' pagination nextLink origin '' @ url_origin al next_url
              @ '' does not match initial request origin '' @ url_origin al initial_url)
            else Inr (Some next_url))))"

definition graph_request :: "adapterlib \<Rightarrow> int \<Rightarrow> string \<Rightarrow> string option \<Rightarrow> url \<Rightarrow> http_request" where
  "graph_request al timeout token prefer u =
     \<lparr>hq_method = ''GET'', hq_url = al_show_url al u, hq_timeout = timeout, hq_auth = Some (BearerAuth token),
      hq_headers = (case prefer of Some p \<Rightarrow> [(''Prefer'', p)] | None \<Rightarrow> []), hq_body = EmptyBody\<rparr>"

text \<open>One turn of the loop ends it or goes on with the next page.\<close>

datatype page_outcome = LastPage GraphCollection | NextPage url "string list" "json list"

definition loop_detected :: "adapterlib \<Rightarrow> string \<Rightarrow> url \<Rightarrow> string" where
  "loop_detected al adapter u = adapter @ '' pagination loop detected at '' @ al_show_url al u"

text \<open>What follows when a page has been read: \<open>visited\<close> includes it.\<close>

definition page_end ::
    "adapterlib \<Rightarrow> string \<Rightarrow> nat \<Rightarrow> nat \<Rightarrow> nat \<Rightarrow> string list \<Rightarrow> json list \<Rightarrow> json list \<Rightarrow> url option \<Rightarrow>
     string + page_outcome" where
  "page_end al adapter max_pages max_items page_number visited items page_items next_url =
     (let remaining = max_items - length items;
          page_was_truncated = (length page_items > remaining);
          items = items @ take remaining page_items in
      case next_url of
        None \<Rightarrow> Inr (LastPage \<lparr>gk_items = items, gk_snapshot_complete = \<not> page_was_truncated\<rparr>)
      | Some next \<Rightarrow>
          if canonical_url al next \<in> set visited then Inl (loop_detected al adapter next)
          else if page_was_truncated \<or> length items \<ge> max_items \<or> page_number \<ge> max_pages
          then Inr (LastPage \<lparr>gk_items = items, gk_snapshot_complete = False\<rparr>)
          else Inr (NextPage next visited items))"

definition graph_page ::
    "adapterlib \<Rightarrow> (url \<Rightarrow> http_request) \<Rightarrow> string \<Rightarrow> url \<Rightarrow> nat \<Rightarrow> nat \<Rightarrow> nat \<Rightarrow> url \<Rightarrow> string list \<Rightarrow> json list \<Rightarrow>
     page_outcome net" where
  "graph_page al request adapter initial_url max_pages max_items page_number current_url visited items =
     (let page = adapter @ '' page '' @ show_int (int page_number); here = canonical_url al current_url in
      if here \<in> set visited then failN (loop_detected al adapter current_url)
      else
        bindN (map_errN (\<lambda>e. page @ '' request failed: '' @ e) (sendN al (request current_url))) (\<lambda>answer.
        let body = text_or_empty answer in
        if \<not> ha_success answer then failN (page @ '' request returned '' @ ha_status answer @ '': '' @ body)
        else
          bindN (resultN (map_err (\<lambda>e. page @ '' response was not valid JSON: '' @ e)
                   (cx_parse (al_cx al) body))) (\<lambda>response.
          bindN (resultN (graph_collection_items response adapter page_number)) (\<lambda>page_items.
          bindN (resultN (graph_next_link al response current_url initial_url adapter)) (\<lambda>next_url.
          resultN (page_end al adapter max_pages max_items page_number (here # visited) items page_items next_url))))))"

fun graph_pages ::
    "adapterlib \<Rightarrow> (url \<Rightarrow> http_request) \<Rightarrow> string \<Rightarrow> url \<Rightarrow> nat \<Rightarrow> nat \<Rightarrow> nat \<Rightarrow> nat \<Rightarrow> url \<Rightarrow> string list \<Rightarrow>
     json list \<Rightarrow> GraphCollection net" where
  "graph_pages al request adapter initial_url max_pages max_items 0 page_number current_url visited items =
     retN \<lparr>gk_items = items, gk_snapshot_complete = False\<rparr>"
| "graph_pages al request adapter initial_url max_pages max_items (Suc left) page_number current_url visited items =
     bindN (graph_page al request adapter initial_url max_pages max_items page_number current_url visited items)
       (\<lambda>outcome. case outcome of
          LastPage c \<Rightarrow> retN c
        | NextPage next_url visited items \<Rightarrow>
            graph_pages al request adapter initial_url max_pages max_items left (page_number + 1) next_url visited items)"

definition fetch_graph_collection ::
    "adapterlib \<Rightarrow> int \<Rightarrow> string \<Rightarrow> string \<Rightarrow> string option \<Rightarrow> string \<Rightarrow> nat \<Rightarrow> nat \<Rightarrow> GraphCollection net" where
  "fetch_graph_collection al timeout initial_url token prefer adapter max_pages max_items =
     bindN (resultN (map_err (\<lambda>e. adapter @ '' request URL is invalid: '' @ e) (al_parse_url al initial_url)))
       (\<lambda>initial. graph_pages al (graph_request al timeout token prefer) adapter initial max_pages max_items
          max_pages 1 initial [] [])"

section \<open>Tokens\<close>

record GraphAccessToken =
  ga_token :: string
  ga_updated_config :: "string option"

definition graph_token_url :: "json \<Rightarrow> string" where
  "graph_token_url config =
     (case item_string config [''token_url'', ''oauth_token_url''] of
        Some u \<Rightarrow> u
      | None \<Rightarrow> ''https://login.microsoftonline.com/''
          @ encode_url_component (unwrap_or (item_string config [''tenant_id'', ''tenant'', ''directory_id'']) ''organizations'')
          @ ''/oauth2/v2.0/token'')"

definition graph_scope :: "json \<Rightarrow> string option" where
  "graph_scope config =
     or_else (item_string config [''scope'', ''scopes''])
       (filter_option (\<lambda>v. v \<noteq> [])
          (map_option (\<lambda>xs. join_str '' '' (filter (\<lambda>v. v \<noteq> []) (map trim (List.map_filter json_as_str xs))))
             (Option.bind (json_get ''scopes'' config) json_as_array)))"

definition parse_graph_token_expires_at :: "adapterlib \<Rightarrow> string \<Rightarrow> utc option" where
  "parse_graph_token_expires_at al value =
     or_else (al_rfc3339 al value) (al_naive al ''%Y-%m-%dT%H:%M:%S'' (trim value))"

definition graph_access_token_needs_refresh :: "adapterlib \<Rightarrow> json \<Rightarrow> string option \<Rightarrow> bool net" where
  "graph_access_token_needs_refresh al config access_token =
     (if given access_token = None then retN True
      else case item_string config [''access_token_expires_at'', ''token_expires_at'', ''expires_at''] of
          None \<Rightarrow> retN True
        | Some text \<Rightarrow>
            (case parse_graph_token_expires_at al text of
               None \<Rightarrow> retN True
             | Some expires_at \<Rightarrow> bindN (nowN al) (\<lambda>now. retN (expires_at \<le> now + seconds 300))))"

definition put_string :: "string \<Rightarrow> string \<Rightarrow> (string \<times> json) list \<Rightarrow> (string \<times> json) list" where
  "put_string key value = AList.update key (JString value)"

definition put_given :: "string \<Rightarrow> string option \<Rightarrow> (string \<times> json) list \<Rightarrow> (string \<times> json) list" where
  "put_given key value members = (case given value of Some v \<Rightarrow> put_string key v members | None \<Rightarrow> members)"

text \<open>What the answer of the token endpoint says of an error.\<close>

definition token_error :: "GraphTokenResponse \<Rightarrow> string option" where
  "token_error r = map_option (\<lambda>e. e @ '': '' @ unwrap_or (given (tr_error_description r)) ''no error description'')
     (given (tr_error r))"

definition refreshed_config ::
    "GraphTokenResponse \<Rightarrow> string \<Rightarrow> string \<Rightarrow> string \<Rightarrow> (string \<times> json) list \<Rightarrow> (string \<times> json) list" where
  "refreshed_config r access_token expires_at refreshed_at members =
     put_given ''scope'' (tr_scope r)
       (put_given ''refresh_token'' (tr_refresh_token r)
         (put_given ''token_type'' (tr_token_type r)
           (put_string ''token_refreshed_at'' refreshed_at
             (put_string ''access_token_expires_at'' expires_at
               (put_string ''access_token'' access_token members)))))"

definition refresh_request :: "adapterlib \<Rightarrow> int \<Rightarrow> json \<Rightarrow> string \<Rightarrow> string \<Rightarrow> string \<Rightarrow> string + http_request" where
  "refresh_request al timeout config adapter default_scope refresh_token =
     (let token_url = graph_token_url config in
      bindS (require_url ''token_url'' token_url) (\<lambda>_.
      bindS (ok_or (item_string config [''client_id'', ''application_id'', ''app_id''])
               (adapter @ '' config must set client_id for token refresh'')) (\<lambda>client_id.
      Inr \<lparr>hq_method = ''POST'', hq_url = token_url, hq_timeout = timeout, hq_auth = None, hq_headers = [],
        hq_body = FormBody ([(''client_id'', client_id), (''grant_type'', ''refresh_token''),
            (''refresh_token'', refresh_token), (''scope'', unwrap_or (graph_scope config) default_scope)]
          @ (case item_string config [''client_secret''] of Some x \<Rightarrow> [(''client_secret'', x)] | None \<Rightarrow> []))\<rparr>)))"

definition refresh_graph_access_token ::
    "adapterlib \<Rightarrow> int \<Rightarrow> json \<Rightarrow> string \<Rightarrow> string \<Rightarrow> string \<Rightarrow> GraphAccessToken net" where
  "refresh_graph_access_token al timeout config adapter default_scope refresh_token =
     bindN (resultN (refresh_request al timeout config adapter default_scope refresh_token)) (\<lambda>request.
     bindN (map_errN (\<lambda>e. adapter @ '' OAuth token refresh failed: '' @ e) (sendN al request)) (\<lambda>answer.
     let body = text_or_empty answer in
     if \<not> ha_success answer
     then failN (adapter @ '' OAuth token refresh returned '' @ ha_status answer @ '': '' @ body)
     else
       bindN (resultN (map_err (\<lambda>e. adapter @ '' OAuth token response was not valid JSON: '' @ e)
                (al_token_response al body))) (\<lambda>r.
       case token_error r of
         Some e \<Rightarrow> failN (adapter @ '' OAuth token refresh returned '' @ e)
       | None \<Rightarrow>
           bindN (resultN (ok_or (given (tr_access_token r))
                    (adapter @ '' OAuth token response did not include access_token''))) (\<lambda>access_token.
           bindN (nowN al) (\<lambda>now.
           bindN (nowN al) (\<lambda>refreshed_at.
           case json_as_object config of
             None \<Rightarrow> failN (adapter @ '' config must be a JSON object'')
           | Some members \<Rightarrow>
               bindN (resultN (map_err (\<lambda>e. adapter @ '' refreshed config could not be encoded: '' @ e)
                        (cx_print (al_cx al) (JObject (refreshed_config r access_token
                           (al_show_graph al (now + seconds (max (unwrap_or (tr_expires_in r) 3600) 60)))
                           (al_show_graph al refreshed_at) members))))) (\<lambda>updated.
               retN \<lparr>ga_token = access_token, ga_updated_config = Some updated\<rparr>)))))))"

definition graph_access_token ::
    "adapterlib \<Rightarrow> int \<Rightarrow> json \<Rightarrow> string \<Rightarrow> string \<Rightarrow> GraphAccessToken net" where
  "graph_access_token al timeout config adapter default_scope =
     (let access_token = item_string config [''access_token'', ''bearer_token'', ''token''];
          refresh_token = item_string config [''refresh_token''];
          refresh_disabled = (field_bool config [''refresh_access_token''] = Some False);
          refresh = refresh_graph_access_token al timeout config adapter default_scope in
      bindN (case refresh_token of
          Some _ \<Rightarrow> if refresh_disabled then retN False else graph_access_token_needs_refresh al config access_token
        | None \<Rightarrow> retN False) (\<lambda>needs_refresh.
      case (access_token, refresh_token) of
        (_, Some r) \<Rightarrow>
          (case access_token of
             Some token \<Rightarrow> if needs_refresh then refresh r else retN \<lparr>ga_token = token, ga_updated_config = None\<rparr>
           | None \<Rightarrow> refresh r)
      | (Some token, None) \<Rightarrow> retN \<lparr>ga_token = token, ga_updated_config = None\<rparr>
      | (None, None) \<Rightarrow> failN (adapter @ '' config must set access_token or OAuth refresh_token credentials'')))"

section \<open>Calendar\<close>

definition graph_event_time_zone :: "json \<Rightarrow> string option" where
  "graph_event_time_zone item =
     or_else (item_string item [''originalStartTimeZone'', ''original_start_time_zone'', ''originalEndTimeZone'',
         ''original_end_time_zone''])
       (find_map (\<lambda>f. Option.bind (json_get f item) (\<lambda>v. item_string v [''timeZone'', ''time_zone'']))
          [''start'', ''end''])"

definition graph_event_location :: "json \<Rightarrow> string option" where
  "graph_event_location item =
     or_else (Option.bind (json_get ''location'' item) (\<lambda>l. item_string l [''displayName'', ''display_name'',
         ''locationUri'', ''location_uri'', ''uniqueId'', ''unique_id'']))
       (item_string item [''location'', ''room''])"

definition graph_event_datetime :: "adapterlib \<Rightarrow> json \<Rightarrow> string \<Rightarrow> string option" where
  "graph_event_datetime al item field_name =
     map_option (\<lambda>d. let datetime = unwrap_or (normalize_naive_datetime al d) d in
         case graph_event_time_zone item of Some z \<Rightarrow> datetime @ '' '' @ z | None \<Rightarrow> datetime)
       (Option.bind (json_get field_name item) (\<lambda>v. item_string v [''dateTime'', ''date_time'']))"

definition graph_event_datetime_value :: "adapterlib \<Rightarrow> json \<Rightarrow> string \<Rightarrow> string option" where
  "graph_event_datetime_value al item field_name =
     Option.bind (Option.bind (json_get field_name item) (\<lambda>v. item_string v [''dateTime'', ''date_time'']))
       (normalize_naive_datetime al)"

definition graph_calendar_body :: "adapterlib \<Rightarrow> json \<Rightarrow> string option" where
  "graph_calendar_body al item = joined_details
     (detail ''Organizer: '' (person_display item [''organizer''])
      @ detail ''Location: '' (graph_event_location item)
      @ detail ''Starts: '' (graph_event_datetime al item ''start'')
      @ detail ''Ends: '' (graph_event_datetime al item ''end'')
      @ detail ''Preview: '' (item_string item [''bodyPreview'', ''body_preview'', ''preview'']))"

definition graph_calendar_web_url :: "json \<Rightarrow> string option" where
  "graph_calendar_web_url item = field_url item [''webLink'', ''web_link'', ''web_url'', ''url'']"

definition graph_calendar_join_url :: "json \<Rightarrow> string option" where
  "graph_calendar_join_url item =
     or_else (field_url item [''onlineMeetingUrl'', ''online_meeting_url'', ''join_url''])
       (filter_option absolute_http (map_option trim
          (Option.bind (json_pointer [''onlineMeeting'', ''joinUrl''] item) json_as_str)))"

definition graph_calendar_url :: "json \<Rightarrow> string option" where
  "graph_calendar_url item = or_else (graph_calendar_web_url item) (graph_calendar_join_url item)"

definition graph_severity :: "json \<Rightarrow> string" where
  "graph_severity item =
     (case map_option (\<lambda>v. to_ascii_lowercase (trim v)) (item_string item [''severity'', ''importance'', ''priority'']) of
        None \<Rightarrow> ''info''
      | Some v \<Rightarrow>
          if v \<in> set [''critical'', ''urgent'', ''blocker'', ''error'', ''failed'', ''failure''] then ''critical''
          else if v \<in> set [''warning'', ''warn'', ''high'', ''medium''] then ''warning'' else ''info'')"

definition graph_calendar_severity :: "json \<Rightarrow> string" where
  "graph_calendar_severity item =
     (if unwrap_or (field_bool item [''isCancelled'', ''is_cancelled'']) False then ''warning''
      else graph_severity item)"

definition with_prefix :: "string \<Rightarrow> string \<Rightarrow> string \<Rightarrow> string" where
  "with_prefix lower shown subject =
     (if starts_with lower (to_ascii_lowercase subject) then subject else shown @ subject)"

definition normalize_graph_calendar_event :: "adapterlib \<Rightarrow> json \<Rightarrow> json" where
  "normalize_graph_calendar_event al item =
     (let subject = unwrap_or (item_string item [''subject'', ''title'']) ''Calendar event'';
          external_id = notification_external_id ''calendar'' item
            [''external_id'', ''id'', ''event_id'', ''uid'', ''iCalUId'', ''ical_uid''] subject;
          title = with_prefix ''calendar:'' ''Calendar: '' subject in
      JObject [(''external_id'', JString external_id), (''title'', JString title),
        (''body'', json_option (graph_calendar_body al item)), (''severity'', JString (graph_calendar_severity item)),
        (''is_read'', JBool False), (''url'', json_option (graph_calendar_url item)),
        (''organizer'', json_option (person_display item [''organizer''])),
        (''location'', json_option (graph_event_location item)),
        (''starts_at'', json_option (graph_event_datetime_value al item ''start'')),
        (''ends_at'', json_option (graph_event_datetime_value al item ''end'')),
        (''time_zone'', json_option (graph_event_time_zone item)),
        (''is_all_day'', JBool (unwrap_or (field_bool item [''isAllDay'', ''is_all_day'']) False)),
        (''is_cancelled'', JBool (unwrap_or (field_bool item [''isCancelled'', ''is_cancelled'']) False)),
        (''web_url'', json_option (graph_calendar_web_url item)),
        (''join_url'', json_option (graph_calendar_join_url item))])"

definition trim_end_slashes :: "string \<Rightarrow> string" where
  "trim_end_slashes s = rev (dropWhile (\<lambda>c. c = CHR ''/'') (rev s))"

text \<open>The mailbox or calendar of a user below the base URL.\<close>

definition graph_user_root :: "string option \<Rightarrow> string option \<Rightarrow> string" where
  "graph_user_root base_url user_id =
     (let base_url = trim_end_slashes (unwrap_or base_url ''https://graph.microsoft.com/v1.0'');
          user_id = unwrap_or (given user_id) ''me'' in
      if eq_ignore_ascii_case user_id ''me'' then base_url @ ''/me''
      else base_url @ ''/users/'' @ encode_url_component user_id)"

definition microsoft_graph_calendar_view_url :: "MicrosoftGraphCalendarConfig \<Rightarrow> string" where
  "microsoft_graph_calendar_view_url config =
     (case given (gc_calendar_view_url config) of
        Some u \<Rightarrow> u
      | None \<Rightarrow> graph_user_root (gc_base_url config) (gc_user_id config) @ ''/calendarView'')"

definition graph_calendar_time_window :: "adapterlib \<Rightarrow> MicrosoftGraphCalendarConfig \<Rightarrow> utc \<Rightarrow> string \<times> string" where
  "graph_calendar_time_window al config now =
     (let start_at = unwrap_or (given (gc_start_at config)) (al_show_graph al now);
          end_at = unwrap_or (given (gc_end_at config))
            (al_show_graph al (unwrap_or (al_rfc3339 al start_at) now
               + seconds (3600 * clamp_int 1 168 (unwrap_or (gc_lookahead_hours config) 24)))) in
      (start_at, end_at))"

definition graph_top :: "int option \<Rightarrow> string" where
  "graph_top n = show_int (clamp_int 1 50 (unwrap_or n 25))"

definition client_timeout :: "int option \<Rightarrow> int" where
  "client_timeout timeout_seconds = max (unwrap_or timeout_seconds 15) 1"

definition build_client :: "adapterlib \<Rightarrow> string \<Rightarrow> int \<Rightarrow> unit net" where
  "build_client al adapter timeout =
     resultN (map_err (\<lambda>e. adapter @ '' HTTP client could not be built: '' @ e) (al_client al timeout))"

text \<open>The end both adapters share: the token, the pages, and the payload with the refreshed
  configuration.\<close>

definition graph_payload ::
    "adapterlib \<Rightarrow> int option \<Rightarrow> string \<Rightarrow> string \<Rightarrow> (json \<Rightarrow> json) \<Rightarrow> json \<Rightarrow> string \<Rightarrow> nat \<times> nat \<Rightarrow>
     (json option \<times> string option) net" where
  "graph_payload al timeout_seconds adapter scope to_item config_value request_url limits =
     (let timeout = client_timeout timeout_seconds in
      bindN (build_client al adapter timeout) (\<lambda>_.
      bindN (graph_access_token al timeout config_value adapter scope) (\<lambda>access_token.
      bindN (fetch_graph_collection al timeout request_url (ga_token access_token) None adapter
               (fst limits) (snd limits)) (\<lambda>collection.
      retN (Some (JObject [(''items'', JArray (map to_item (gk_items collection))),
                (''snapshot_complete'', JBool (gk_snapshot_complete collection))]),
            ga_updated_config access_token)))))"

definition calendar_query :: "adapterlib \<Rightarrow> MicrosoftGraphCalendarConfig \<Rightarrow> utc \<Rightarrow> (string \<times> string) list" where
  "calendar_query al config now =
     (case graph_calendar_time_window al config now of (start_at, end_at) \<Rightarrow>
        [(''startDateTime'', start_at), (''endDateTime'', end_at),
         (''$select'', ''id,subject,bodyPreview,importance,isAllDay,isCancelled,showAs,webLink,organizer,location,start,end,originalStartTimeZone,originalEndTimeZone,onlineMeetingUrl,onlineMeeting''),
         (''$orderby'', ''start/dateTime''), (''$top'', graph_top (gc_top config))])"

definition fetch_microsoft_graph_calendar_events :: "adapterlib \<Rightarrow> string \<Rightarrow> (json option \<times> string option) net" where
  "fetch_microsoft_graph_calendar_events al config_json =
     (let adapter = ''microsoft_graph_calendar''; invalid = (\<lambda>e. adapter @ '' config is not valid JSON: '' @ e) in
      bindN (resultN (map_err invalid (cx_parse (al_cx al) config_json))) (\<lambda>config_value.
      bindN (resultN (map_err invalid (al_calendar_config al config_json))) (\<lambda>config.
      if gc_adapter config \<notin> Some ` set [''microsoft_graph_calendar'', ''graph_calendar'', ''outlook_calendar'']
      then failN (adapter @ '' config must set adapter to microsoft_graph_calendar'')
      else
        let calendar_view_url = microsoft_graph_calendar_view_url config in
        bindN (resultN (require_url ''calendar_view_url'' calendar_view_url)) (\<lambda>_.
        bindN (resultN (graph_pagination_limits adapter (gc_max_pages config) (gc_max_items config))) (\<lambda>limits.
        bindN (nowN al) (\<lambda>now.
        graph_payload al (gc_timeout_seconds config) adapter
          ''https://graph.microsoft.com/Calendars.Read offline_access'' (normalize_graph_calendar_event al)
          config_value (append_query_params calendar_view_url (calendar_query al config now)) limits))))))"

section \<open>Mail\<close>

definition graph_mail_body :: "adapterlib \<Rightarrow> json \<Rightarrow> string option" where
  "graph_mail_body al item = joined_details
     (detail ''From: '' (person_display item [''from'', ''sender''])
      @ detail ''Received: '' (normalized_time_field al item [''receivedDateTime'', ''received_at''])
      @ detail ''Preview: '' (item_string item [''bodyPreview'', ''body_preview'', ''preview'', ''summary'', ''body'']))"

definition graph_mail_url :: "json \<Rightarrow> string option" where
  "graph_mail_url item = field_url item [''webLink'', ''web_link'', ''web_url'', ''url'']"

definition graph_mail_severity :: "json \<Rightarrow> string" where
  "graph_mail_severity item =
     (case given (Option.bind (json_pointer [''flag'', ''flagStatus''] item) json_as_str) of
        Some flag_status \<Rightarrow>
          if \<not> eq_ignore_ascii_case flag_status ''notFlagged'' then ''warning'' else graph_severity item
      | None \<Rightarrow> graph_severity item)"

definition normalize_graph_mail_message :: "adapterlib \<Rightarrow> json \<Rightarrow> json" where
  "normalize_graph_mail_message al item =
     (let subject = unwrap_or (item_string item [''subject'', ''title'']) ''Outlook mail message'';
          external_id = notification_external_id ''mail'' item
            [''external_id'', ''id'', ''message_id'', ''internetMessageId'', ''internet_message_id''] subject;
          title = with_prefix ''mail:'' ''Mail: '' subject in
      JObject [(''external_id'', JString external_id), (''title'', JString title),
        (''body'', json_option (graph_mail_body al item)), (''severity'', JString (graph_mail_severity item)),
        (''is_read'', JBool (unwrap_or (field_bool item [''isRead'', ''is_read'', ''read'', ''seen'']) False)),
        (''url'', json_option (graph_mail_url item))])"

definition microsoft_graph_mail_messages_url :: "MicrosoftGraphMailConfig \<Rightarrow> string" where
  "microsoft_graph_mail_messages_url config =
     (case given (or_else (gm_messages_url config) (gm_mail_messages_url config)) of
        Some u \<Rightarrow> u
      | None \<Rightarrow>
          (let mailbox_root = graph_user_root (gm_base_url config) (gm_user_id config) in
           case given (or_else (gm_mail_folder_id config) (or_else (gm_folder_id config) (gm_folder config))) of
             Some folder \<Rightarrow> mailbox_root @ ''/mailFolders/'' @ encode_url_component folder @ ''/messages''
           | None \<Rightarrow> mailbox_root @ ''/messages''))"

definition mail_filter :: "MicrosoftGraphMailConfig \<Rightarrow> string \<Rightarrow> string" where
  "mail_filter config received_after =
     join_str '' and '' ((''receivedDateTime ge '' @ received_after)
       # (if unwrap_or (gm_unread_only config) True then [''isRead eq false''] else []))"

definition graph_mail_query_params :: "adapterlib \<Rightarrow> MicrosoftGraphMailConfig \<Rightarrow> (string \<times> string) list net" where
  "graph_mail_query_params al config =
     bindN (case given (gm_filter config) of
         Some f \<Rightarrow> retN f
       | None \<Rightarrow>
           (case given (gm_received_after config) of
              Some after \<Rightarrow> retN (mail_filter config after)
            | None \<Rightarrow> bindN (nowN al) (\<lambda>now. retN (mail_filter config (al_show_graph al
                (now - seconds (3600 * clamp_int 1 720 (unwrap_or (gm_lookback_hours config) 24)))))))) (\<lambda>filter.
     retN ([(''$select'', ''id,subject,bodyPreview,importance,isRead,webLink,from,sender,receivedDateTime,internetMessageId,flag''),
         (''$top'', graph_top (gm_top config)),
         (''$orderby'', unwrap_or (given (gm_orderby config)) ''receivedDateTime desc'')]
       @ (if filter \<noteq> [] then [(''$filter'', filter)] else [])))"

definition fetch_microsoft_graph_mail_messages :: "adapterlib \<Rightarrow> string \<Rightarrow> (json option \<times> string option) net" where
  "fetch_microsoft_graph_mail_messages al config_json =
     (let adapter = ''microsoft_graph_mail''; invalid = (\<lambda>e. adapter @ '' config is not valid JSON: '' @ e) in
      bindN (resultN (map_err invalid (cx_parse (al_cx al) config_json))) (\<lambda>config_value.
      bindN (resultN (map_err invalid (al_mail_config al config_json))) (\<lambda>config.
      if gm_adapter config \<notin> Some ` set [''microsoft_graph_mail'', ''graph_mail'', ''outlook_mail'']
      then failN (adapter @ '' config must set adapter to microsoft_graph_mail'')
      else
        let messages_url = microsoft_graph_mail_messages_url config in
        bindN (resultN (require_url ''messages_url'' messages_url)) (\<lambda>_.
        bindN (resultN (graph_pagination_limits adapter (gm_max_pages config) (gm_max_items config))) (\<lambda>limits.
        bindN (graph_mail_query_params al config) (\<lambda>params.
        graph_payload al (gm_timeout_seconds config) adapter
          ''https://graph.microsoft.com/Mail.Read offline_access'' (normalize_graph_mail_message al)
          config_value (append_query_params messages_url params) limits))))))"

end
