(* ===== verification/Source_Adapters.thy ===== *)
theory Source_Adapters
  imports Graph_Adapters
begin

text \<open>
  The other adapters below \<^verbatim>\<open>src/src/connector_adapters/\<close> (\<^verbatim>\<open>azure_devops.rs\<close>, \<^verbatim>\<open>erp.rs\<close>,
  \<^verbatim>\<open>monitoring.rs\<close>, \<^verbatim>\<open>samples.rs\<close>) and the dispatcher \<^verbatim>\<open>src/src/connector_adapters.rs\<close>, which chooses the
  adapter that a configuration names and refuses the targets it does not serve.
\<close>

section \<open>Azure DevOps\<close>

definition WORK_ITEMS_BATCH_SIZE :: nat where "WORK_ITEMS_BATCH_SIZE = 200"
definition AZURE_DEFAULT_MAX_ITEMS :: int where "AZURE_DEFAULT_MAX_ITEMS = 1000"
definition AZURE_MAX_ALLOWED_ITEMS :: int where "AZURE_MAX_ALLOWED_ITEMS = 10000"

definition azure_devops_url :: "string \<Rightarrow> string \<Rightarrow> string \<Rightarrow> string \<Rightarrow> string \<Rightarrow> string" where
  "azure_devops_url base_url organization project path api_version =
     trim_end_slashes base_url @ ''/'' @ organization @ ''/'' @ project @ ''/''
       @ dropWhile (\<lambda>c. c = CHR ''/'') path @ ''?api-version='' @ api_version"

definition azure_url :: "AzureDevOpsConfig \<Rightarrow> string option \<Rightarrow> string \<Rightarrow> string" where
  "azure_url config configured path = unwrap_or configured
     (azure_devops_url (unwrap_or (az_base_url config) ''https://dev.azure.com'')
        (unwrap_or (az_organization config) []) (unwrap_or (az_project config) []) path
        (unwrap_or (az_api_version config) ''7.1''))"

definition default_wiql :: string where
  "default_wiql = ''SELECT [System.Id] FROM WorkItems WHERE [System.TeamProject] = @project ORDER BY [System.ChangedDate] DESC''"

definition azure_max_items :: "int option \<Rightarrow> string + nat" where
  "azure_max_items value =
     (let value = unwrap_or value AZURE_DEFAULT_MAX_ITEMS in
      if \<not> (1 \<le> value \<and> value \<le> AZURE_MAX_ALLOWED_ITEMS)
      then Inl (''azure_devops config max_items must be an integer from 1 to '' @ show_int AZURE_MAX_ALLOWED_ITEMS)
      else Inr (nat value))"

definition wiql_url_with_max_items :: "adapterlib \<Rightarrow> string \<Rightarrow> nat \<Rightarrow> string + string" where
  "wiql_url_with_max_items al url max_items =
     bindS (map_err (\<lambda>e. ''azure_devops wiql_url is invalid: '' @ e) (al_parse_url al url)) (\<lambda>u.
     Inr (al_with_pairs al u (filter (\<lambda>p. fst p \<noteq> ''$top'') (ur_query_pairs u) @ [(''$top'', show_int (int max_items))])))"

definition send_azure_request :: "adapterlib \<Rightarrow> int \<Rightarrow> string \<Rightarrow> json \<Rightarrow> string option \<Rightarrow> json net" where
  "send_azure_request al timeout url body token =
     send_json_request al ''azure_devops''
       \<lparr>hq_method = ''POST'', hq_url = url, hq_timeout = timeout,
        hq_auth = map_option (BasicAuth []) (filter_option (\<lambda>t. trim t \<noteq> []) token), hq_headers = [],
        hq_body = JsonBody body\<rparr>"

definition numeric_id :: "json \<Rightarrow> i64 option" where
  "numeric_id item = Option.bind (json_get ''id'' item) json_as_i64"

text \<open>The distinct ids of the query result, at most the configured number.\<close>

fun collect_ids :: "nat \<Rightarrow> nat \<Rightarrow> json list \<Rightarrow> i64 list \<Rightarrow> i64 list \<Rightarrow> string + i64 list" where
  "collect_ids max_items index [] seen ids = Inr ids"
| "collect_ids max_items index (item # rest) seen ids =
     (case numeric_id item of
        None \<Rightarrow> Inl (''azure_devops WIQL response workItems item '' @ show_int (int index + 1) @ '' must include a numeric id'')
      | Some i \<Rightarrow> collect_ids max_items (Suc index) rest (i # seen)
          (if i \<notin> set seen \<and> length ids < max_items then ids @ [i] else ids))"

definition assignee_display_name :: "json \<Rightarrow> string option" where
  "assignee_display_name value =
     or_else (Option.bind (json_get ''displayName'' value) json_as_str) (json_as_str value)"

definition assignee_source_descriptor :: "json \<Rightarrow> string option" where
  "assignee_source_descriptor value =
     find_map (\<lambda>f. given (Option.bind (json_get f value) json_as_str)) [''descriptor'', ''id'']"

definition normalize_azure_state :: "string \<Rightarrow> string" where
  "normalize_azure_state state =
     (let s = to_ascii_lowercase state in
      if s \<in> set [''done'', ''closed'', ''removed''] then ''done''
      else if s = ''blocked'' then ''blocked''
      else if s \<in> set [''active'', ''committed'', ''in progress'', ''resolved''] then ''in_progress''
      else ''todo'')"

definition normalize_azure_priority :: "i64 option \<Rightarrow> string" where
  "normalize_azure_priority priority =
     (if priority = Some 1 then ''urgent'' else if priority = Some 2 then ''high''
      else if priority = Some 3 then ''medium'' else ''low'')"

definition azure_status :: "json \<Rightarrow> string" where
  "azure_status members =
     (if (case Option.bind (json_get ''System.BoardLane'' members) json_as_str of
            Some lane \<Rightarrow> eq_ignore_ascii_case lane ''blocked'' | None \<Rightarrow> False)
      then ''blocked''
      else normalize_azure_state (unwrap_or (Option.bind (json_get ''System.State'' members) json_as_str) ''New''))"

definition normalize_azure_work_item ::
    "json \<Rightarrow> string option \<Rightarrow> string option \<Rightarrow> (string \<times> i32) list \<Rightarrow> json" where
  "normalize_azure_work_item item web_url_base due_date_field assignee_user_mappings =
     (let i = unwrap_or (numeric_id item) 0;
          members = unwrap_or (json_get ''fields'' item) JNull;
          str = (\<lambda>f. Option.bind (json_get f members) json_as_str);
          assigned = json_get ''System.AssignedTo'' members;
          assignee_source_id = Option.bind assigned assignee_source_descriptor in
      JObject [(''external_id'', JString (show_int i)),
        (''title'', JString (unwrap_or (str ''System.Title'') ''Untitled work item'')),
        (''status'', JString (azure_status members)),
        (''priority'', JString (normalize_azure_priority
           (Option.bind (json_get ''Microsoft.VSTS.Common.Priority'' members) json_as_i64))),
        (''assignee'', json_option (Option.bind assigned assignee_display_name)),
        (''project'', json_option (str ''System.TeamProject'')),
        (''work_item_type'', json_option (str ''System.WorkItemType'')),
        (''assignee_source_id'', json_option assignee_source_id),
        (''assignee_user_id'', case Option.bind assignee_source_id (map_of assignee_user_mappings) of
           Some u \<Rightarrow> JInt u | None \<Rightarrow> JNull),
        (''due_at'', json_option (Option.bind (given due_date_field) str)),
        (''source_updated_at'', json_option (str ''System.ChangedDate'')),
        (''url'', json_option (or_else (Option.bind (json_pointer [''_links'', ''html'', ''href''] item) json_as_str)
           (map_option (\<lambda>base. trim_end_slashes base @ ''/'' @ show_int i) web_url_base)))])"

definition requested_fields :: "AzureDevOpsConfig \<Rightarrow> string list" where
  "requested_fields config =
     (let names = [''System.Id'', ''System.Title'', ''System.State'', ''System.AssignedTo'', ''System.TeamProject'',
            ''System.WorkItemType'', ''System.ChangedDate'', ''System.BoardLane'', ''Microsoft.VSTS.Common.Priority''] in
      case given (az_due_date_field config) of
        Some f \<Rightarrow> if f \<in> set names then names else names @ [f]
      | None \<Rightarrow> names)"

function chunks :: "nat \<Rightarrow> 'a list \<Rightarrow> 'a list list" where
  "chunks n xs = (if n = 0 \<or> xs = [] then [] else take n xs # chunks n (drop n xs))"
  by pat_completeness auto
termination by (relation "measure (\<lambda>(n, xs). length xs)") auto

declare chunks.simps [simp del]

text \<open>The items of one answer by id; a later item replaces an earlier one with the same id.\<close>

fun items_by_id :: "string \<Rightarrow> nat \<Rightarrow> json list \<Rightarrow> (i64 \<times> json) list \<Rightarrow> string + (i64 \<times> json) list" where
  "items_by_id batch index [] found = Inr found"
| "items_by_id batch index (item # rest) found =
     (case numeric_id item of
        None \<Rightarrow> Inl (batch @ '' response item '' @ show_int (int index + 1) @ '' must include a numeric id'')
      | Some i \<Rightarrow> items_by_id batch (Suc index) rest (AList.update i item found))"

text \<open>The requested items in the order of the request, each removed from the answer.\<close>

fun take_requested :: "string \<Rightarrow> (json \<Rightarrow> json) \<Rightarrow> i64 list \<Rightarrow> (i64 \<times> json) list \<Rightarrow> string + json list" where
  "take_requested batch to_item [] found = Inr []"
| "take_requested batch to_item (i # ids) found =
     (case map_of found i of
        None \<Rightarrow> Inl (batch @ '' did not return requested work item id '' @ show_int i)
      | Some item \<Rightarrow> bindS (take_requested batch to_item ids (AList.delete i found)) (\<lambda>items. Inr (to_item item # items)))"

definition explicit_array :: "json \<Rightarrow> string \<Rightarrow> string \<Rightarrow> string \<Rightarrow> string + json list" where
  "explicit_array response key missing wrong =
     bindS (ok_or (json_get key response) missing) (\<lambda>v. ok_or (json_as_array v) wrong)"

definition azure_batch :: "string \<Rightarrow> (json \<Rightarrow> json) \<Rightarrow> i64 list \<Rightarrow> json \<Rightarrow> string + json list" where
  "azure_batch batch to_item batch_ids response =
     bindS (explicit_array response ''value'' (batch @ '' response must include an explicit value array'')
              (batch @ '' response field value must be an array'')) (\<lambda>values.
     bindS (items_by_id batch 0 values []) (\<lambda>found.
     take_requested batch to_item batch_ids found))"

fun azure_batches ::
    "adapterlib \<Rightarrow> (json \<Rightarrow> json net) \<Rightarrow> (json \<Rightarrow> json) \<Rightarrow> json \<Rightarrow> nat \<Rightarrow> nat \<Rightarrow> i64 list list \<Rightarrow> json list \<Rightarrow> json list net" where
  "azure_batches al send to_item wanted batch_count index [] items = retN items"
| "azure_batches al send to_item wanted batch_count index (batch_ids # rest) items =
     (let batch = ''azure_devops work item batch '' @ show_int (int index + 1) @ ''/'' @ show_int (int batch_count) in
      bindN (map_errN (\<lambda>e. batch @ '' failed: '' @ e)
               (send (JObject [(''ids'', JArray (map JInt batch_ids)), (''fields'', wanted)]))) (\<lambda>response.
      bindN (resultN (azure_batch batch to_item batch_ids response)) (\<lambda>more.
      azure_batches al send to_item wanted batch_count (Suc index) rest (items @ more))))"

definition payload_of :: "json list \<Rightarrow> bool \<Rightarrow> json" where
  "payload_of items snapshot_complete =
     JObject [(''items'', JArray items), (''snapshot_complete'', JBool snapshot_complete)]"

definition azure_token :: "AzureDevOpsConfig \<Rightarrow> string option" where
  "azure_token config = or_else (az_personal_access_token config) (az_pat config)"

definition azure_item :: "AzureDevOpsConfig \<Rightarrow> json \<Rightarrow> json" where
  "azure_item config item = normalize_azure_work_item item (az_web_url_base config) (az_due_date_field config)
     (az_assignee_user_mappings config)"

text \<open>From the answer to the query to the payload.\<close>

definition azure_work_cards ::
    "adapterlib \<Rightarrow> AzureDevOpsConfig \<Rightarrow> int \<Rightarrow> string \<Rightarrow> nat \<Rightarrow> json \<Rightarrow> json net" where
  "azure_work_cards al config timeout work_items_url max_items wiql_response =
     bindN (resultN (explicit_array wiql_response ''workItems''
              ''azure_devops WIQL response must include an explicit workItems array''
              ''azure_devops WIQL response field workItems must be an array'')) (\<lambda>work_items.
     let snapshot_complete = (length work_items < max_items) in
     bindN (resultN (collect_ids max_items 0 work_items [] [])) (\<lambda>ids.
     if ids = [] then retN (payload_of [] snapshot_complete)
     else
       bindN (azure_batches al (\<lambda>body. send_azure_request al timeout work_items_url body (azure_token config))
                (azure_item config) (JArray (map JString (requested_fields config)))
                ((length ids + WORK_ITEMS_BATCH_SIZE - 1) div WORK_ITEMS_BATCH_SIZE) 0
                (chunks WORK_ITEMS_BATCH_SIZE ids) []) (\<lambda>items.
       retN (payload_of items snapshot_complete))))"

definition fetch_azure_devops_work_cards :: "adapterlib \<Rightarrow> string \<Rightarrow> json net" where
  "fetch_azure_devops_work_cards al config_json =
     bindN (resultN (map_err (\<lambda>e. ''azure_devops config is not valid JSON: '' @ e) (al_azure_config al config_json)))
       (\<lambda>config.
     if az_adapter config \<noteq> Some ''azure_devops'' then failN ''azure_devops config must set adapter to azure_devops''
     else
       let wiql_url = azure_url config (az_wiql_url config) ''_apis/wit/wiql'';
           work_items_url = azure_url config (az_work_items_url config) ''_apis/wit/workitemsbatch'';
           timeout = client_timeout (az_timeout_seconds config) in
       bindN (resultN (require_url ''wiql_url'' wiql_url)) (\<lambda>_.
       bindN (resultN (require_url ''work_items_url'' work_items_url)) (\<lambda>_.
       bindN (resultN (azure_max_items (az_max_items config))) (\<lambda>max_items.
       bindN (resultN (wiql_url_with_max_items al wiql_url max_items)) (\<lambda>wiql_url.
       bindN (build_client al ''azure_devops'' timeout) (\<lambda>_.
       bindN (map_errN (\<lambda>e. ''azure_devops WIQL request failed: '' @ e)
                (send_azure_request al timeout wiql_url
                   (JObject [(''query'', JString (unwrap_or (az_wiql config) default_wiql))]) (azure_token config)))
         (azure_work_cards al config timeout work_items_url max_items)))))))"

section \<open>ERP messages\<close>

definition erp_message_body :: "adapterlib \<Rightarrow> json \<Rightarrow> string option" where
  "erp_message_body al item = joined_details
     (detail [] (item_string item [''body'', ''message'', ''description'', ''preview''])
      @ detail ''From: '' (person_display item [''requester'', ''sender'', ''from'', ''owner''])
      @ detail ''Status: '' (item_string item [''status'', ''state''])
      @ detail ''Due: '' (normalized_time_field al item [''due_at'', ''dueAt'', ''deadline'', ''expires_at'', ''expiresAt'']))"

definition erp_status_severity :: "json \<Rightarrow> string option" where
  "erp_status_severity item =
     Option.bind (item_string item [''status'', ''state'']) (\<lambda>status.
       let s = to_ascii_lowercase (trim status) in
       if s \<in> set [''critical'', ''urgent'', ''blocked'', ''overdue'', ''failed'', ''failure'', ''escalated''] then Some ''critical''
       else if s \<in> set [''pending'', ''waiting'', ''waiting_approval'', ''requires_action'', ''submitted'', ''open''] then Some ''warning''
       else if s \<in> set [''closed'', ''done'', ''approved'', ''completed'', ''resolved''] then Some ''info''
       else None)"

definition erp_message_severity :: "json \<Rightarrow> string" where
  "erp_message_severity item =
     (case or_else (item_string item [''severity'']) (item_string item [''priority'', ''importance'']) of
        Some s \<Rightarrow> normalize_notification_severity s ''warning''
      | None \<Rightarrow>
          (case erp_status_severity item of
             Some s \<Rightarrow> s
           | None \<Rightarrow>
               if unwrap_or (field_bool item [''requires_approval'', ''approval_required'', ''is_pending'']) False
               then ''warning'' else ''info''))"

definition notification_members ::
    "string \<Rightarrow> string \<Rightarrow> string option \<Rightarrow> string \<Rightarrow> bool option \<Rightarrow> string option \<Rightarrow> (string \<times> json) list" where
  "notification_members external_id title body severity is_read url =
     [(''external_id'', JString external_id), (''title'', JString title), (''body'', json_option body),
      (''severity'', JString severity), (''is_read'', JBool (unwrap_or is_read False)), (''url'', json_option url)]"

definition normalize_erp_message_notification :: "adapterlib \<Rightarrow> json \<Rightarrow> json" where
  "normalize_erp_message_notification al item =
     (let title = unwrap_or (item_string item [''title'', ''subject'', ''summary'', ''type'', ''request_type'', ''requestType''])
            ''ERP message'';
          external_id = notification_external_id ''erp'' item [''external_id'', ''id'', ''message_id'', ''messageId'',
            ''request_id'', ''requestId'', ''approval_id'', ''approvalId'', ''task_id'', ''ticket_id''] title in
      JObject (notification_members external_id title (erp_message_body al item) (erp_message_severity item)
        (field_bool item [''is_read'', ''isRead'', ''read'', ''seen''])
        (field_url item [''url'', ''web_url'', ''web_link'', ''webLink''])))"

definition erp_paths :: "(string \<times> string list) list" where
  "erp_paths = [(''/items'', [''items'']), (''/messages'', [''messages'']),
     (''/private_messages'', [''private_messages'']), (''/privateMessages'', [''privateMessages'']),
     (''/data/items'', [''data'', ''items'']), (''/data/messages'', [''data'', ''messages'']),
     (''/data/private_messages'', [''data'', ''private_messages'']),
     (''/data/privateMessages'', [''data'', ''privateMessages'']), (''/data'', [''data''])]"

definition erp_message_items :: "json \<Rightarrow> string + json list" where
  "erp_message_items response =
     (case json_as_array response of
        Some items \<Rightarrow> Inr items
      | None \<Rightarrow>
          (case find_map (\<lambda>(path, keys). map_option (\<lambda>v. (path, v)) (json_pointer keys response)) erp_paths of
             Some (path, v) \<Rightarrow> ok_or (json_as_array v)
               (''erp_private_messages response field '' @ path @ '' must be an array'')
           | None \<Rightarrow> Inl ''erp_private_messages response must include an explicit message collection array''))"

definition erp_private_messages_query_params ::
    "adapterlib \<Rightarrow> ErpPrivateMessagesConfig \<Rightarrow> (string \<times> string) list net" where
  "erp_private_messages_query_params al config =
     bindN (case given (or_else (ep_since config) (or_else (ep_updated_after config) (ep_received_after config))) of
         Some s \<Rightarrow> retN (Some s)
       | None \<Rightarrow>
           (case ep_lookback_hours config of
              None \<Rightarrow> retN None
            | Some h \<Rightarrow> bindN (nowN al) (\<lambda>now. retN (Some (al_show_graph al (now - seconds (3600 * clamp_int 1 720 h)))))))
       (\<lambda>since.
     retN ((case since of Some s \<Rightarrow> [(''since'', s)] | None \<Rightarrow> [])
       @ (case ep_unread_only config of Some b \<Rightarrow> [(''unread_only'', if b then ''true'' else ''false'')] | None \<Rightarrow> [])
       @ (case or_else (ep_limit config) (ep_top config) of
            Some n \<Rightarrow> [(''limit'', show_int (clamp_int 1 100 n))] | None \<Rightarrow> [])))"

definition erp_private_messages_url :: "adapterlib \<Rightarrow> ErpPrivateMessagesConfig \<Rightarrow> string net" where
  "erp_private_messages_url al config =
     bindN (resultN (ok_or (given (or_else (ep_messages_url config) (or_else (ep_private_messages_url config) (ep_url config))))
              ''erp_private_messages config must set messages_url, private_messages_url, or url'')) (\<lambda>base_url.
     bindN (resultN (require_url ''messages_url'' base_url)) (\<lambda>_.
     bindN (erp_private_messages_query_params al config) (\<lambda>params.
     retN (append_query_params base_url params))))"

definition send_erp_private_messages_request ::
    "adapterlib \<Rightarrow> int \<Rightarrow> string \<Rightarrow> string option \<Rightarrow> string option \<Rightarrow> string option \<Rightarrow> json net" where
  "send_erp_private_messages_request al timeout url bearer api_key api_key_header =
     bindN (case filter_option (\<lambda>k. trim k \<noteq> []) api_key of
         None \<Rightarrow> retN []
       | Some key \<Rightarrow> bindN (resultN (ok_or (al_header_name al (unwrap_or (given api_key_header) ''x-api-key''))
             ''api_key_header must be a valid HTTP header name'')) (\<lambda>name. retN [(name, key)])) (\<lambda>headers.
     send_json_request al ''erp_private_messages''
       \<lparr>hq_method = ''GET'', hq_url = url, hq_timeout = timeout, hq_auth = bearer_auth bearer,
        hq_headers = headers, hq_body = EmptyBody\<rparr>)"

definition fetch_erp_private_messages :: "adapterlib \<Rightarrow> string \<Rightarrow> json net" where
  "fetch_erp_private_messages al config_json =
     bindN (resultN (map_err (\<lambda>e. ''erp_private_messages config is not valid JSON: '' @ e) (al_erp_config al config_json)))
       (\<lambda>config.
     if ep_adapter config \<notin> Some ` set [''erp_private_messages'', ''erp_messages_http'', ''erp_http'']
     then failN ''erp_private_messages config must set adapter to erp_private_messages''
     else
       let timeout = client_timeout (ep_timeout_seconds config) in
       bindN (erp_private_messages_url al config) (\<lambda>request_url.
       bindN (build_client al ''erp_private_messages'' timeout) (\<lambda>_.
       bindN (send_erp_private_messages_request al timeout request_url
                (or_else (ep_bearer_token config) (ep_token config)) (or_else (ep_api_key config) (ep_x_api_key config))
                (ep_api_key_header config)) (\<lambda>response.
       bindN (resultN (erp_message_items response)) (\<lambda>items.
       retN (payload_of (map (normalize_erp_message_notification al) items)
               (unwrap_or (ep_snapshot_complete config) False)))))))"

section \<open>Monitoring\<close>

definition send_monitoring_request :: "adapterlib \<Rightarrow> int \<Rightarrow> string \<Rightarrow> string option \<Rightarrow> string option \<Rightarrow> json net" where
  "send_monitoring_request al timeout url bearer api_key =
     send_json_request al ''monitoring''
       \<lparr>hq_method = ''GET'', hq_url = url, hq_timeout = timeout, hq_auth = bearer_auth bearer,
        hq_headers = (case filter_option (\<lambda>k. trim k \<noteq> []) api_key of Some k \<Rightarrow> [(''x-api-key'', k)] | None \<Rightarrow> []),
        hq_body = EmptyBody\<rparr>"

definition monitoring_items :: "json \<Rightarrow> json list" where
  "monitoring_items response =
     unwrap_or (Option.bind (or_else (json_get ''items'' response) (json_get ''services'' response)) json_as_array) []
     @ unwrap_or (json_as_array response) []"

definition normalize_monitoring_health :: "string \<Rightarrow> string" where
  "normalize_monitoring_health status =
     (let s = to_ascii_lowercase status in
      if s \<in> set [''ok'', ''up'', ''green'', ''healthy'', ''passing'', ''available''] then ''healthy''
      else if s \<in> set [''warn'', ''warning'', ''yellow'', ''degraded'', ''unstable''] then ''degraded''
      else if s \<in> set [''critical'', ''down'', ''red'', ''error'', ''failed'', ''failing'', ''offline'', ''unhealthy'']
      then ''down'' else ''unknown'')"

definition normalize_monitoring_service :: "adapterlib \<Rightarrow> json \<Rightarrow> i32 option \<Rightarrow> json" where
  "normalize_monitoring_service al item default_maintainer_id =
     (let external_id = unwrap_or (item_string item [''external_id'', ''id'', ''slug'', ''name'']) ''unknown-service'';
          name = unwrap_or (item_string item [''name'', ''display_name'', ''service'']) external_id;
          slug = stable_slug (item_string item [''slug'']) [external_id, name];
          maintainer_id = or_else (field_i32 item [''maintainer_id'']) default_maintainer_id in
      JObject [(''external_id'', JString external_id), (''maintainer_id'', JInt (unwrap_or maintainer_id 0)),
        (''slug'', JString slug), (''name'', JString name),
        (''lifecycle_status'', JString (unwrap_or (map_option normalize_lifecycle
           (item_string item [''lifecycle_status'', ''lifecycle''])) ''active'')),
        (''health_status'', JString (unwrap_or (map_option normalize_monitoring_health
           (item_string item [''health_status'', ''status'', ''health'', ''state''])) ''unknown'')),
        (''description'', json_option (item_string item [''description'', ''summary''])),
        (''repository_url'', json_option (item_string item [''repository_url'', ''repo_url'', ''repository''])),
        (''dashboard_url'', json_option (item_string item [''dashboard_url'', ''dashboard'', ''url''])),
        (''runbook_url'', json_option (item_string item [''runbook_url'', ''runbook''])),
        (''last_checked_at'', json_option (Option.bind (item_string item [''last_checked_at'', ''checked_at'', ''updated_at''])
           (normalize_naive_datetime al)))])"

definition fetch_monitoring_service_health :: "adapterlib \<Rightarrow> string \<Rightarrow> json net" where
  "fetch_monitoring_service_health al config_json =
     bindN (resultN (map_err (\<lambda>e. ''monitoring config is not valid JSON: '' @ e) (al_monitoring_config al config_json)))
       (\<lambda>config.
     if mo_adapter config \<noteq> Some ''monitoring'' then failN ''monitoring config must set adapter to monitoring''
     else
       let timeout = client_timeout (mo_timeout_seconds config) in
       bindN (resultN (ok_or (mo_url config) ''monitoring config must set url'')) (\<lambda>url.
       bindN (resultN (require_url ''url'' url)) (\<lambda>_.
       bindN (build_client al ''monitoring'' timeout) (\<lambda>_.
       bindN (send_monitoring_request al timeout url (or_else (mo_bearer_token config) (mo_token config)) (mo_api_key config))
         (\<lambda>response.
       retN (JObject [(''items'', JArray (map (\<lambda>item. normalize_monitoring_service al item (mo_default_maintainer_id config))
         (monitoring_items response)))]))))))"

section \<open>Samples\<close>

datatype SampleNotificationKind = Calendar | OutlookMail | ErpMessages

fun sample_adapter_name :: "SampleNotificationKind \<Rightarrow> string" where
  "sample_adapter_name Calendar = ''calendar_sample''"
| "sample_adapter_name OutlookMail = ''outlook_mail_sample''"
| "sample_adapter_name ErpMessages = ''erp_messages_sample''"

fun item_keys :: "SampleNotificationKind \<Rightarrow> string list" where
  "item_keys Calendar = [''items'', ''events'', ''meetings'']"
| "item_keys OutlookMail = [''items'', ''messages'', ''mail'']"
| "item_keys ErpMessages = [''items'', ''messages'', ''private_messages'']"

definition sample_notification_items :: "json \<Rightarrow> SampleNotificationKind \<Rightarrow> json list option" where
  "sample_notification_items config kind =
     find_map (\<lambda>k. Option.bind (json_get k config) json_as_array) (item_keys kind)"

definition calendar_body :: "adapterlib \<Rightarrow> json \<Rightarrow> string option" where
  "calendar_body al item =
     or_else (item_string item [''body'', ''description'', ''preview'']) (joined_details
       (detail ''Organizer: '' (person_display item [''organizer'', ''organizer_name'', ''from''])
        @ detail ''Location: '' (item_string item [''location'', ''room''])
        @ detail ''Starts: '' (normalized_time_field al item [''starts_at'', ''start_at'', ''start_time'', ''start''])
        @ detail ''Ends: '' (normalized_time_field al item [''ends_at'', ''end_at'', ''end_time'', ''end''])))"

definition mail_body :: "json \<Rightarrow> string option" where
  "mail_body item =
     (case (person_display item [''from'', ''sender''],
            item_string item [''body'', ''body_preview'', ''bodyPreview'', ''preview'', ''summary'']) of
        (Some sender, Some preview) \<Rightarrow> Some (''From: '' @ sender @ '' | '' @ preview)
      | (Some sender, None) \<Rightarrow> Some (''From: '' @ sender)
      | (None, preview) \<Rightarrow> preview)"

definition sample_severity :: "json \<Rightarrow> string" where
  "sample_severity item = unwrap_or (map_option (\<lambda>v. normalize_notification_severity v ''info'')
     (item_string item [''severity'', ''importance'', ''priority''])) ''info''"

definition normalize_calendar_notification :: "adapterlib \<Rightarrow> json \<Rightarrow> json" where
  "normalize_calendar_notification al item =
     (let title = unwrap_or (item_string item [''title'', ''subject'', ''summary'', ''name'']) ''Calendar event'';
          external_id = notification_external_id ''calendar'' item
            [''external_id'', ''id'', ''event_id'', ''uid'', ''ical_uid''] title in
      JObject (notification_members external_id title (calendar_body al item) (sample_severity item)
          (field_bool item [''is_read'', ''read'', ''seen''])
          (field_url item [''url'', ''web_url'', ''web_link'', ''webLink'', ''join_url'', ''online_meeting_url''])
        @ [(''organizer'', json_option (person_display item [''organizer'', ''organizer_name'', ''from''])),
           (''location'', json_option (item_string item [''location'', ''room''])),
           (''starts_at'', json_option (normalized_time_field al item [''starts_at'', ''start_at'', ''start_time'', ''start''])),
           (''ends_at'', json_option (normalized_time_field al item [''ends_at'', ''end_at'', ''end_time'', ''end''])),
           (''time_zone'', json_option (item_string item [''time_zone'', ''timeZone''])),
           (''is_all_day'', JBool (unwrap_or (field_bool item [''is_all_day'', ''isAllDay'']) False)),
           (''is_cancelled'', JBool (unwrap_or (field_bool item [''is_cancelled'', ''isCancelled'']) False)),
           (''web_url'', json_option (field_url item [''url'', ''web_url'', ''web_link'', ''webLink''])),
           (''join_url'', json_option (field_url item [''join_url'', ''online_meeting_url'']))]))"

definition normalize_outlook_mail_notification :: "json \<Rightarrow> json" where
  "normalize_outlook_mail_notification item =
     (let title = unwrap_or (item_string item [''title'', ''subject'']) ''Outlook mail message'';
          external_id = notification_external_id ''mail'' item
            [''external_id'', ''id'', ''message_id'', ''internet_message_id''] title in
      JObject (notification_members external_id title (mail_body item) (sample_severity item)
        (field_bool item [''is_read'', ''isRead'', ''read'', ''seen''])
        (field_url item [''url'', ''web_url'', ''web_link'', ''webLink''])))"

definition normalize_sample_notification :: "adapterlib \<Rightarrow> SampleNotificationKind \<Rightarrow> json \<Rightarrow> json" where
  "normalize_sample_notification al kind item = (case kind of
       Calendar \<Rightarrow> normalize_calendar_notification al item
     | OutlookMail \<Rightarrow> normalize_outlook_mail_notification item
     | ErpMessages \<Rightarrow> normalize_erp_message_notification al item)"

definition default_sample_notifications :: "adapterlib \<Rightarrow> SampleNotificationKind \<Rightarrow> json list net" where
  "default_sample_notifications al kind = (case kind of
       Calendar \<Rightarrow>
         bindN (nowN al) (\<lambda>now.
         let starts_at = now + seconds 900; ends_at = starts_at + seconds 1800 in
         retN [JObject (notification_members ''calendar-platform-standup'' ''Calendar: Platform standup''
             (Some ''Organizer: Taylor Lin | Location: Teams'') ''info'' (Some False)
             (Some ''https://calendar.example.test/events/platform-standup'')
           @ [(''organizer'', JString ''Taylor Lin''), (''location'', JString ''Teams''),
              (''starts_at'', JString (al_show_secs al starts_at)), (''ends_at'', JString (al_show_secs al ends_at)),
              (''time_zone'', JString ''UTC''), (''is_all_day'', JBool False), (''is_cancelled'', JBool False),
              (''web_url'', JString ''https://calendar.example.test/events/platform-standup''),
              (''join_url'', JString ''https://teams.example.test/platform-standup'')])])
     | OutlookMail \<Rightarrow>
         retN [JObject (notification_members ''mail-release-brief'' ''Mail: Release brief ready for review''
           (Some ''From: release-bot@example.test | API deploy window moved to 15:30.'') ''warning'' (Some False)
           (Some ''https://outlook.example.test/mail/release-brief''))]
     | ErpMessages \<Rightarrow>
         retN [JObject (notification_members ''erp-access-approval'' ''ERP: Deployment access approval waiting''
           (Some ''Sample ERP private message. Configure erp_private_messages for a real HTTP endpoint.'')
           ''warning'' (Some False) None)])"

definition fetch_sample_notifications :: "adapterlib \<Rightarrow> string \<Rightarrow> SampleNotificationKind \<Rightarrow> json net" where
  "fetch_sample_notifications al config_json kind =
     bindN (resultN (map_err (\<lambda>e. sample_adapter_name kind @ '' config is not valid JSON: '' @ e)
              (cx_parse (al_cx al) config_json))) (\<lambda>config.
     bindN (case sample_notification_items config kind of
         Some items \<Rightarrow> retN (map (normalize_sample_notification al kind) items)
       | None \<Rightarrow> default_sample_notifications al kind) (\<lambda>items.
     retN (payload_of items True)))"

section \<open>The dispatcher\<close>

definition mapN :: "('a \<Rightarrow> 'b) \<Rightarrow> 'a net \<Rightarrow> 'b net" where
  "mapN f m = bindN m (\<lambda>x. retN (f x))"

definition unsupported :: "string \<Rightarrow> string \<Rightarrow> 'a net" where
  "unsupported adapter target = failN (adapter @ '' adapter does not support target '' @ target)"

definition sample_for :: "adapterlib \<Rightarrow> string \<Rightarrow> string \<Rightarrow> bool \<Rightarrow> SampleNotificationKind \<Rightarrow> (json option \<times> string option) net" where
  "sample_for al target config_json supported kind =
     (if supported then mapN adapter_payload (fetch_sample_notifications al config_json kind)
      else unsupported (sample_adapter_name kind) target)"

definition fetch_connector_payload ::
    "adapterlib \<Rightarrow> string \<Rightarrow> string \<Rightarrow> (json option \<times> string option) net" where
  "fetch_connector_payload al target config_json =
     bindN (resultN (map_err (\<lambda>e. ''connector config is not valid JSON: '' @ e) (al_adapter_config al config_json)))
       (\<lambda>adapter. case adapter of
          None \<Rightarrow> retN (None, None)
        | Some name \<Rightarrow>
            if name = ''azure_devops'' then
              (if target = ''work_cards'' then mapN adapter_payload (fetch_azure_devops_work_cards al config_json)
               else unsupported ''azure_devops'' target)
            else if name = ''monitoring'' then
              (if target = ''service_health'' then mapN adapter_payload (fetch_monitoring_service_health al config_json)
               else unsupported ''monitoring'' target)
            else if name \<in> set [''microsoft_graph_calendar'', ''graph_calendar'', ''outlook_calendar''] then
              (if target \<in> set [''notifications'', ''calendar_events''] then fetch_microsoft_graph_calendar_events al config_json
               else unsupported ''microsoft_graph_calendar'' target)
            else if name \<in> set [''microsoft_graph_mail'', ''graph_mail'', ''outlook_mail''] then
              (if target = ''notifications'' then fetch_microsoft_graph_mail_messages al config_json
               else unsupported ''microsoft_graph_mail'' target)
            else if name \<in> set [''erp_private_messages'', ''erp_messages_http'', ''erp_http''] then
              (if target = ''notifications'' then mapN adapter_payload (fetch_erp_private_messages al config_json)
               else unsupported ''erp_private_messages'' target)
            else if name \<in> set [''calendar_sample'', ''calendar''] then
              sample_for al target config_json (target \<in> set [''notifications'', ''calendar_events'']) Calendar
            else if name \<in> set [''outlook_mail_sample'', ''outlook''] then
              sample_for al target config_json (target = ''notifications'') OutlookMail
            else if name \<in> set [''erp_messages_sample'', ''erp_messages'', ''erp''] then
              sample_for al target config_json (target = ''notifications'') ErpMessages
            else failN (''connector adapter '' @ name @ '' is not supported''))"

text \<open>The adapters as the runtime calls them: each call is a network session of its own.\<close>

definition adapter_fetch ::
    "(nat \<Rightarrow> adapterlib) \<Rightarrow> string \<Rightarrow> string \<Rightarrow> nat \<Rightarrow> string + (json option \<times> string option)" where
  "adapter_fetch als target config_json n =
     fst (fetch_connector_payload (als n) target config_json \<lparr>ns_sent = [], ns_reads = 0\<rparr>)"

end
