(* ===== verification/Config_Properties.thy ===== *)
theory Config_Properties
  imports App_Config
begin

text \<open>
  What the server can rely on once its configuration was accepted, and why a test never writes to a
  database that is not meant for tests.
\<close>

lemma bindS_Inr_iff: "bindS r f = Inr y \<longleftrightarrow> (\<exists>x. r = Inr x \<and> f x = Inr y)"
  by (simp add: bindS_def split: sum.splits)

lemma reject_if_Inr_iff: "reject_if b m = Inr u \<longleftrightarrow> \<not> b"
  by (simp add: reject_if_def)

lemma filter_option_Some_iff: "filter_option p x = Some v \<longleftrightarrow> x = Some v \<and> p v"
  by (auto simp: filter_option_def split: option.splits)

lemma parse_positive_Inr: "parse_positive parse name v d = Inr n \<Longrightarrow> 0 < d \<Longrightarrow> 0 < n"
  by (auto simp: parse_positive_def filter_option_def split: option.splits if_splits)

lemma parse_bounded_Inr: "parse_bounded_positive_i64 name v d lo hi = Inr n \<Longrightarrow> lo \<le> n \<and> n \<le> hi"
  by (auto simp: parse_bounded_positive_i64_def bindS_Inr_iff split: if_splits)

section \<open>Endpoints and keys\<close>

definition secure_endpoint :: "urllib \<Rightarrow> string \<Rightarrow> bool" where
  "secure_endpoint ul text \<longleftrightarrow> (\<exists>u. ul_parse ul text = Some u \<and> ur_scheme u = ''https'' \<and> ur_host u \<noteq> None
     \<and> ur_username u = [] \<and> ur_password u = None)"

lemma production_url:
  "validate_auth_url ul name text ''production'' b = Inr () \<Longrightarrow> secure_endpoint ul text"
  by (auto simp: validate_auth_url_def secure_endpoint_def split: option.splits if_splits)

lemma production_endpoints:
  "endpoint_checks ul ''production'' es = Inr () \<Longrightarrow> list_all (secure_endpoint ul \<circ> snd) es"
proof (induction es rule: rev_induct)
  case (snoc e es)
  have "endpoint_checks ul ''production'' (es @ [e]) = bindS (endpoint_checks ul ''production'' es) (\<lambda>_.
      bindS (reject_if (int (length (snd e)) > 2048) (fst e @ '' must be at most 2048 bytes'')) (\<lambda>_.
      validate_auth_url ul (fst e) (snd e) ''production'' False))"
    by (simp add: endpoint_checks_def split_beta)
  with snoc show ?case by (auto simp: bindS_Inr_iff production_url)
qed simp

definition strong_key :: "string \<Rightarrow> bool" where
  "strong_key key \<longleftrightarrow> 32 \<le> length key \<and> 8 \<le> card (set key)"

lemma connector_key_strong: "validate_connector_secret_key key = Inr () \<Longrightarrow> strong_key key"
  by (auto simp: validate_connector_secret_key_def strong_key_def weak_secret_def length_remdups_card_conv
      MIN_CONNECTOR_SECRET_KEY_BYTES_def split: if_splits)

lemma auth_key_strong: "validate_auth_secret name key = Inr () \<Longrightarrow> strong_key key"
  by (auto simp: validate_auth_secret_def strong_key_def weak_secret_def length_remdups_card_conv
      MIN_AUTH_SECRET_KEY_BYTES_def split: if_splits)

definition hardened_entra :: "urllib \<Rightarrow> EntraConfig \<Rightarrow> bool" where
  "hardened_entra ul e \<longleftrightarrow> en_client_secret e \<noteq> None \<and> (en_jit_provisioning e \<longrightarrow> en_required_role e \<noteq> None)
     \<and> list_all (secure_endpoint ul)
          [en_redirect_uri e, en_issuer e, en_authorization_url e, en_token_url e, en_jwks_url e]"

lemma entra_bounds:
  assumes "entra_from_source ul read environment = Inr e"
  shows "strong_key (en_transaction_key e) \<and> 60 \<le> en_transaction_ttl_seconds e \<and> en_transaction_ttl_seconds e \<le> 1800
    \<and> en_clock_skew_seconds e \<le> 300"
  using assms unfolding entra_from_source_def Let_def bindS_Inr_iff
  by (clarsimp dest!: parse_bounded_Inr auth_key_strong)

lemma entra_production:
  assumes "entra_from_source ul read ''production'' = Inr e"
  shows "hardened_entra ul e"
  using assms unfolding entra_from_source_def Let_def bindS_Inr_iff reject_if_Inr_iff
  by (clarsimp simp: hardened_entra_def dest!: production_url production_endpoints)

section \<open>The accepted configuration\<close>

lemma accepted_shape:
  assumes "AppConfig_from_source ul read = Inr c"
  obtains e ttl v1 sessions secure v2 failures v3 account v4 window v5 lockout password enabled entra where
    "e \<in> set SUPPORTED_ENVIRONMENTS" and "0 < ttl"
    and "parse_bounded_positive_i64 ''AUTH_MAX_ACTIVE_SESSIONS_PER_USER'' v1
      DEFAULT_AUTH_MAX_ACTIVE_SESSIONS_PER_USER 1 100 = Inr sessions"
    and "\<not> (e = ''production'' \<and> \<not> secure)"
    and "parse_positive_i32 ''AUTH_LOGIN_MAX_FAILURES'' v2 DEFAULT_AUTH_LOGIN_MAX_FAILURES = Inr failures"
    and "parse_positive_i32 ''AUTH_LOGIN_ACCOUNT_MAX_FAILURES'' v3 DEFAULT_AUTH_LOGIN_ACCOUNT_MAX_FAILURES = Inr account"
    and "\<not> account < failures * 2"
    and "parse_positive_i64 ''AUTH_LOGIN_WINDOW_SECONDS'' v4 DEFAULT_AUTH_LOGIN_WINDOW_SECONDS = Inr window"
    and "parse_positive_i64 ''AUTH_LOGIN_LOCKOUT_SECONDS'' v5 DEFAULT_AUTH_LOGIN_LOCKOUT_SECONDS = Inr lockout"
    and "(if enabled then bindS (entra_from_source ul read e) (\<lambda>x. Inr (Some x)) else Inr None) = Inr entra"
    and "\<not> (\<not> password \<and> entra = None)" and "production_checks read e = Inr ()"
    and "c = \<lparr>ac_environment = e, ac_auth_token_ttl_seconds = ttl,
          ac_auth_max_active_sessions_per_user = sessions, ac_auth_cookie_secure = secure,
          ac_auth_login_max_failures = failures, ac_auth_login_account_max_failures = account,
          ac_auth_login_window_seconds = window, ac_auth_login_lockout_seconds = lockout,
          ac_auth_password_login_enabled = password, ac_entra = entra\<rparr>"
  using assms unfolding AppConfig_from_source_def Let_def bindS_Inr_iff reject_if_Inr_iff sum.inject not_le not_not
  apply (elim exE conjE)
  apply (rule that)
              apply assumption+
   apply simp
  apply (erule sym)
  done

lemma accepted_parts:
  assumes "AppConfig_from_source ul read = Inr c"
  shows "0 < ac_auth_token_ttl_seconds c"
    "1 \<le> ac_auth_max_active_sessions_per_user c" "ac_auth_max_active_sessions_per_user c \<le> 100"
    "0 < ac_auth_login_max_failures c" "2 * ac_auth_login_max_failures c \<le> ac_auth_login_account_max_failures c"
    "0 < ac_auth_login_window_seconds c" "0 < ac_auth_login_lockout_seconds c"
    "ac_auth_password_login_enabled c \<or> ac_entra c \<noteq> None"
    "ac_environment c = ''production'' \<Longrightarrow> ac_auth_cookie_secure c"
    "ac_entra c = Some x \<Longrightarrow> entra_from_source ul read (ac_environment c) = Inr x"
    "production_checks read (ac_environment c) = Inr ()"
proof -
  obtain e ttl v1 sessions secure v2 failures v3 account v4 window v5 lockout password enabled entra where
    "e \<in> set SUPPORTED_ENVIRONMENTS" and ttl: "0 < ttl"
    and ses: "parse_bounded_positive_i64 ''AUTH_MAX_ACTIVE_SESSIONS_PER_USER'' v1
      DEFAULT_AUTH_MAX_ACTIVE_SESSIONS_PER_USER 1 100 = Inr sessions"
    and sec: "\<not> (e = ''production'' \<and> \<not> secure)"
    and fl: "parse_positive_i32 ''AUTH_LOGIN_MAX_FAILURES'' v2 DEFAULT_AUTH_LOGIN_MAX_FAILURES = Inr failures"
    and "parse_positive_i32 ''AUTH_LOGIN_ACCOUNT_MAX_FAILURES'' v3 DEFAULT_AUTH_LOGIN_ACCOUNT_MAX_FAILURES = Inr account"
    and acc: "\<not> account < failures * 2"
    and win: "parse_positive_i64 ''AUTH_LOGIN_WINDOW_SECONDS'' v4 DEFAULT_AUTH_LOGIN_WINDOW_SECONDS = Inr window"
    and loc: "parse_positive_i64 ''AUTH_LOGIN_LOCKOUT_SECONDS'' v5 DEFAULT_AUTH_LOGIN_LOCKOUT_SECONDS = Inr lockout"
    and ent: "(if enabled then bindS (entra_from_source ul read e) (\<lambda>x. Inr (Some x)) else Inr None) = Inr entra"
    and way: "\<not> (\<not> password \<and> entra = None)" and pro: "production_checks read e = Inr ()"
    and c: "c = \<lparr>ac_environment = e, ac_auth_token_ttl_seconds = ttl,
          ac_auth_max_active_sessions_per_user = sessions, ac_auth_cookie_secure = secure,
          ac_auth_login_max_failures = failures, ac_auth_login_account_max_failures = account,
          ac_auth_login_window_seconds = window, ac_auth_login_lockout_seconds = lockout,
          ac_auth_password_login_enabled = password, ac_entra = entra\<rparr>"
    by (rule accepted_shape [OF assms])
  note defaults = DEFAULT_AUTH_LOGIN_MAX_FAILURES_def DEFAULT_AUTH_LOGIN_WINDOW_SECONDS_def
    DEFAULT_AUTH_LOGIN_LOCKOUT_SECONDS_def
  have "0 < failures" "0 < window" "0 < lockout"
    using fl win loc unfolding parse_positive_i32_def parse_positive_i64_def
    by (auto dest!: parse_positive_Inr simp: defaults)
  then show "0 < ac_auth_login_max_failures c" "0 < ac_auth_login_window_seconds c"
    "0 < ac_auth_login_lockout_seconds c" by (simp_all add: c)
  show "0 < ac_auth_token_ttl_seconds c" "1 \<le> ac_auth_max_active_sessions_per_user c"
    "ac_auth_max_active_sessions_per_user c \<le> 100"
    "2 * ac_auth_login_max_failures c \<le> ac_auth_login_account_max_failures c"
    using ttl acc parse_bounded_Inr [OF ses] by (simp_all add: c)
  show "ac_auth_password_login_enabled c \<or> ac_entra c \<noteq> None" "production_checks read (ac_environment c) = Inr ()"
    using way pro by (simp_all add: c)
  show "ac_environment c = ''production'' \<Longrightarrow> ac_auth_cookie_secure c" using sec by (simp add: c)
  show "ac_entra c = Some x \<Longrightarrow> entra_from_source ul read (ac_environment c) = Inr x"
    using ent by (auto simp: c bindS_Inr_iff split: if_splits)
qed

lemma production_key:
  assumes "production_checks read ''production'' = Inr ()"
  shows "\<exists>key. read ''CONNECTOR_SECRET_KEY'' = Inr (Some key) \<and> strong_key key"
  using assms unfolding production_checks_def bindS_Inr_iff
  by (auto simp: bindS_Inr_iff filter_option_Some_iff connector_key_strong split: option.splits)

text \<open>C16: A configuration the server starts with has positive lifetimes and limits, at least twice as many
  failures for an account as for a client, and a way to sign in. In production the session cookie is
  sent over HTTPS only, the key that encrypts the secrets of connectors has at least 32 bytes, 8 of them
  different, and sign-in with Entra talks to HTTPS endpoints without embedded credentials,
  authenticates itself with a secret and provisions accounts only for a required role.\<close>

theorem accepted_configuration_is_sane_and_hardened:
  assumes "AppConfig_from_source ul read = Inr c"
  shows "0 < ac_auth_token_ttl_seconds c \<and> 1 \<le> ac_auth_max_active_sessions_per_user c
    \<and> ac_auth_max_active_sessions_per_user c \<le> 100 \<and> 0 < ac_auth_login_max_failures c
    \<and> 2 * ac_auth_login_max_failures c \<le> ac_auth_login_account_max_failures c
    \<and> 0 < ac_auth_login_window_seconds c \<and> 0 < ac_auth_login_lockout_seconds c
    \<and> (ac_auth_password_login_enabled c \<or> ac_entra c \<noteq> None)
    \<and> (\<forall>e. ac_entra c = Some e \<longrightarrow> strong_key (en_transaction_key e) \<and> 60 \<le> en_transaction_ttl_seconds e
         \<and> en_transaction_ttl_seconds e \<le> 1800 \<and> en_clock_skew_seconds e \<le> 300)
    \<and> (ac_environment c = ''production'' \<longrightarrow> ac_auth_cookie_secure c
         \<and> (\<exists>key. read ''CONNECTOR_SECRET_KEY'' = Inr (Some key) \<and> strong_key key)
         \<and> (\<forall>e. ac_entra c = Some e \<longrightarrow> hardened_entra ul e))"
  using accepted_parts [OF assms] entra_bounds entra_production production_key by metis

section \<open>Tests\<close>

text \<open>In the test environment a database URL is accepted only if it names its database explicitly, and
  the name contains the word \<open>test\<close> between separators; the connection is used only if the server it
  reached answers with exactly that name. Outside the test environment the guard does not interfere.\<close>

theorem tests_use_test_databases_only:
  assumes "validate_test_database_url ul environment text source = Inr target"
  shows "if environment = ''test''
    then \<exists>x. target = Some x \<and> database_name_from_url ul text = Inr (td_database_name x)
      \<and> has_standalone_test_segment (td_database_name x)
      \<and> (\<forall>answer. verify_test_database_connection answer x source = Inr () \<longleftrightarrow> answer = Inr (td_database_name x))
    else target = None"
proof (cases "environment = ''test''")
  case True
  then obtain n where "database_name_from_url ul text = Inr n" and n: "has_standalone_test_segment n"
    and "target = Some \<lparr>td_database_name = n\<rparr>"
    using assms by (auto simp: validate_test_database_url_def split: sum.splits if_splits)
  moreover have "verify_test_database_connection answer \<lparr>td_database_name = n\<rparr> source = Inr ()
      \<longleftrightarrow> answer = Inr n" for answer
    using n by (auto simp: verify_test_database_connection_def validate_actual_test_database_name_def split: sum.splits)
  ultimately show ?thesis using True by simp
next
  case False
  then show ?thesis using assms by (simp add: validate_test_database_url_def)
qed

end
