(* ===== verification/Adapter_Properties.thy ===== *)
theory Adapter_Properties
  imports Source_Adapters Config_Properties
begin

text \<open>
  What the adapters promise: the reading of a paged collection ends, stays at its origin and is called
  complete only when it is; the work items of Azure DevOps are the ones that were asked for; the items of
  every adapter use the words the portal validates; an encoded URL component decodes to itself.
\<close>

section \<open>Network sessions\<close>

lemma bindN_Inr_iff: "bindN m f st = (Inr y, st') \<longleftrightarrow> (\<exists>x st1. m st = (Inr x, st1) \<and> f x st1 = (Inr y, st'))"
  by (auto simp: bindN_def split: prod.splits sum.splits)

lemma resultN_iff [simp]: "resultN r st = (x, st') \<longleftrightarrow> r = x \<and> st' = st"
  by (auto simp: resultN_def)

lemma retN_iff [simp]: "retN y st = (x, st') \<longleftrightarrow> x = Inr y \<and> st' = st"
  by (auto simp: retN_def)

lemma failN_iff [simp]: "failN e st = (x, st') \<longleftrightarrow> x = Inl e \<and> st' = st"
  by (auto simp: failN_def)

lemma map_err_Inr_iff [simp]: "map_err f r = Inr x \<longleftrightarrow> r = Inr x"
  by (auto simp: map_err_def split: sum.splits)

lemma map_errN_Inr_iff: "map_errN f m st = (Inr x, st') \<longleftrightarrow> m st = (Inr x, st')"
  by (auto simp: map_errN_def split: prod.splits)

lemma ok_or_Inr_iff [simp]: "ok_or v e = Inr x \<longleftrightarrow> v = Some x"
  by (auto simp: ok_or_def split: option.splits)

lemma sendN_Inr_iff: "sendN al rq st = (Inr a, st') \<longleftrightarrow>
    al_send al (length (ns_sent st)) rq = Inr a \<and> st' = st\<lparr>ns_sent := ns_sent st @ [rq]\<rparr>"
  by (auto simp: sendN_def)

lemma mapN_Inr_iff: "mapN f m st = (Inr y, st') \<longleftrightarrow> (\<exists>x. m st = (Inr x, st') \<and> y = f x)"
  by (auto simp: mapN_def bindN_Inr_iff)

lemmas net_Inr = bindN_Inr_iff map_errN_Inr_iff sendN_Inr_iff mapN_Inr_iff

text \<open>The requests a session adds, whatever its result.\<close>

definition sends :: "'a net \<Rightarrow> net_state \<Rightarrow> http_request list \<Rightarrow> bool" where
  "sends m st rqs \<longleftrightarrow> ns_sent (snd (m st)) = ns_sent st @ rqs"

section \<open>Pages of a collection\<close>

lemma same_origin_trans: "same_origin al a b \<Longrightarrow> same_origin al a c \<Longrightarrow> same_origin al b c"
  by (simp add: same_origin_def)

lemma next_link_origin:
  "graph_next_link al d u i adapter = Inr (Some v) \<Longrightarrow> same_origin al i v"
  by (auto simp: graph_next_link_def Let_def bindS_Inr_iff split: option.splits json.splits if_splits)

text \<open>A page that is read, and what follows.\<close>

definition answered :: "adapterlib \<Rightarrow> (url \<Rightarrow> http_request) \<Rightarrow> nat \<Rightarrow> url \<Rightarrow> json \<Rightarrow> bool" where
  "answered al request n u d \<longleftrightarrow> (\<exists>a. al_send al n (request u) = Inr a \<and> ha_success a
     \<and> cx_parse (al_cx al) (text_or_empty a) = Inr d)"

lemma graph_page_Inr:
  assumes "graph_page al request adapter i mp mi n u visited items st = (Inr out, st')"
  obtains d xs nx where "answered al request (length (ns_sent st)) u d" "canonical_url al u \<notin> set visited"
    "graph_collection_items d adapter n = Inr xs" "graph_next_link al d u i adapter = Inr nx"
    "page_end al adapter mp mi n (canonical_url al u # visited) items xs nx = Inr out"
    "st' = st\<lparr>ns_sent := ns_sent st @ [request u]\<rparr>"
  using assms unfolding graph_page_def Let_def answered_def
  by (simp add: net_Inr split: if_splits) blast

lemma sends_bind_result: "ns_sent (snd (bindN (resultN r) f st)) = ns_sent (case r of Inl _ \<Rightarrow> st | Inr x \<Rightarrow> snd (f x st))"
  by (simp add: bindN_def resultN_def split: sum.splits)

lemma graph_page_sends:
  assumes "canonical_url al u \<notin> set visited"
  shows "ns_sent (snd (graph_page al request adapter i mp mi n u visited items st)) = ns_sent st @ [request u]"
proof -
  have "ns_sent (snd (bindN (map_errN f (sendN al rq)) g st)) = ns_sent st @ [rq]"
    if "\<And>x st1. ns_sent (snd (g x st1)) = ns_sent st1" for f rq and g :: "http_answer \<Rightarrow> page_outcome net"
    using that by (auto simp: bindN_def map_errN_def sendN_def map_err_def split: sum.splits)
  then show ?thesis unfolding graph_page_def Let_def using assms
    by (simp add: sends_bind_result failN_def resultN_def split: sum.splits)
qed

lemma page_end_next:
  assumes "page_end al adapter mp mi n visited items xs nx = Inr (NextPage v visited' items')"
  shows "nx = Some v" "visited' = visited" "canonical_url al v \<notin> set visited" "length items' < mi" "n < mp"
    "items' = items @ xs"
  using assms by (auto simp: page_end_def Let_def split: option.splits if_splits)

lemma page_end_last:
  assumes "page_end al adapter mp mi n visited items xs nx = Inr (LastPage c)" "length items \<le> mi"
  shows "length (gk_items c) \<le> mi" "gk_snapshot_complete c \<Longrightarrow> nx = None \<and> gk_items c = items @ xs"
  using assms by (auto simp: page_end_def Let_def split: option.splits if_splits)

lemma graph_page_next:
  assumes "graph_page al request adapter i mp mi n u visited items st = (Inr (NextPage v visited' items'), st')"
  shows "visited' = canonical_url al u # visited \<and> same_origin al i v
    \<and> canonical_url al v \<notin> set visited' \<and> length items' < mi \<and> n < mp"
  using assms by (rule graph_page_Inr) (use page_end_next next_link_origin in metis)

lemma graph_page_last:
  assumes "graph_page al request adapter i mp mi n u visited items st = (Inr (LastPage c), st')" "length items \<le> mi"
  shows "length (gk_items c) \<le> mi"
  using assms(1) by (rule graph_page_Inr) (use page_end_last [OF _ assms(2)] in blast)

lemma graph_pages_bounded:
  assumes "same_origin al i u" "length items \<le> mi" "canonical_url al u \<notin> set visited"
  shows "\<exists>us. ns_sent (snd (graph_pages al request adapter i mp mi k n u visited items st)) = ns_sent st @ map request us
    \<and> length us \<le> k \<and> distinct (map (canonical_url al) us)
    \<and> set (map (canonical_url al) us) \<inter> set visited = {} \<and> list_all (same_origin al i) us
    \<and> (\<forall>c. fst (graph_pages al request adapter i mp mi k n u visited items st) = Inr c \<longrightarrow> length (gk_items c) \<le> mi)"
  using assms
proof (induction k arbitrary: n u visited items st)
  case 0
  then show ?case by (intro exI [of _ "[]"]) (simp add: retN_def)
next
  case (Suc k)
  obtain r st1 where page: "graph_page al request adapter i mp mi n u visited items st = (r, st1)" by fastforce
  have sent: "ns_sent st1 = ns_sent st @ [request u]"
    using graph_page_sends [OF Suc.prems(3), of request adapter i mp mi n items st] page by simp
  show ?case
  proof (cases "\<exists>v visited' items'. r = Inr (NextPage v visited' items')")
    case False
    then have "ns_sent (snd (graph_pages al request adapter i mp mi (Suc k) n u visited items st)) = ns_sent st @ map request [u]"
      "\<forall>c. fst (graph_pages al request adapter i mp mi (Suc k) n u visited items st) = Inr c \<longrightarrow> length (gk_items c) \<le> mi"
      using page sent Suc.prems graph_page_last [of al request adapter i mp mi n u visited items st]
      by (auto simp: bindN_def retN_def split: sum.splits page_outcome.splits)
    then show ?thesis using Suc.prems by (intro exI [of _ "[u]"]) auto
  next
    case True
    then obtain v visited' items' where r: "r = Inr (NextPage v visited' items')" by blast
    note nx = graph_page_next [OF page [unfolded r]]
    obtain us where us: "ns_sent (snd (graph_pages al request adapter i mp mi k (n + 1) v visited' items' st1))
          = ns_sent st1 @ map request us" "length us \<le> k" "distinct (map (canonical_url al) us)"
        "set (map (canonical_url al) us) \<inter> set visited' = {}" "list_all (same_origin al i) us"
        "\<forall>c. fst (graph_pages al request adapter i mp mi k (n + 1) v visited' items' st1) = Inr c \<longrightarrow> length (gk_items c) \<le> mi"
      using Suc.IH [of v items' visited' "n + 1" st1] nx by auto
    have "graph_pages al request adapter i mp mi (Suc k) n u visited items st
        = graph_pages al request adapter i mp mi k (n + 1) v visited' items' st1"
      by (simp add: bindN_def page r)
    then show ?thesis using us nx sent Suc.prems by (intro exI [of _ "u # us"]) auto
  qed
qed

text \<open>C13: Reading a collection of Microsoft Graph ends, whatever links the server sends: at most \<open>max_pages\<close>
  requests are made, no page is requested twice, and at most \<open>max_items\<close> items are returned. Every request,
  and with it the bearer token, goes to the scheme, host and port of the configured URL.\<close>

theorem graph_reading_ends_at_its_origin:
  assumes "fetch_graph_collection al timeout url token prefer adapter max_pages max_items st = (res, st')"
  shows "\<exists>us. ns_sent st' = ns_sent st @ map (graph_request al timeout token prefer) us
    \<and> length us \<le> max_pages \<and> distinct (map (canonical_url al) us)
    \<and> (\<forall>u \<in> set us. \<exists>i. al_parse_url al url = Inr i
         \<and> ur_scheme u = ur_scheme i \<and> ur_host u = ur_host i \<and> al_port al u = al_port al i)
    \<and> (\<forall>c. res = Inr c \<longrightarrow> length (gk_items c) \<le> max_items)"
proof (cases "al_parse_url al url")
  case (Inl e)
  then show ?thesis using assms
    by (intro exI [of _ "[]"]) (auto simp: fetch_graph_collection_def bindN_def resultN_def map_err_def)
next
  case (Inr i)
  have run: "graph_pages al (graph_request al timeout token prefer) adapter i max_pages max_items max_pages 1 i [] [] st = (res, st')"
    using assms Inr by (simp add: fetch_graph_collection_def bindN_def resultN_def map_err_def)
  have "same_origin al i i" by (simp add: same_origin_def)
  from graph_pages_bounded [OF this, of "[]" max_items "[]"] run show ?thesis
    by (auto simp: Inr same_origin_def list_all_iff)
      (metis (no_types, lifting) fst_conv snd_conv list.size(3) list.set(1) empty_iff le0)
qed

text \<open>The collection that starts at a page: its items page by page, to the page without a next link, when
  the pages are answers to consecutive requests.\<close>

inductive page_chain ::
    "adapterlib \<Rightarrow> (url \<Rightarrow> http_request) \<Rightarrow> string \<Rightarrow> url \<Rightarrow> nat \<Rightarrow> nat \<Rightarrow> url \<Rightarrow> json list \<Rightarrow> bool"
  for al request adapter i where
  last_page: "answered al request n u d \<Longrightarrow> graph_collection_items d adapter p = Inr xs \<Longrightarrow>
     graph_next_link al d u i adapter = Inr None \<Longrightarrow> page_chain al request adapter i n p u xs"
| next_page: "answered al request n u d \<Longrightarrow> graph_collection_items d adapter p = Inr xs \<Longrightarrow>
     graph_next_link al d u i adapter = Inr (Some v) \<Longrightarrow> page_chain al request adapter i (Suc n) (p + 1) v ys \<Longrightarrow>
     page_chain al request adapter i n p u (xs @ ys)"

lemma graph_pages_complete:
  assumes "graph_pages al request adapter i mp mi k p u visited items st = (Inr c, st')" "gk_snapshot_complete c"
    and "length items \<le> mi"
  shows "\<exists>ys. gk_items c = items @ ys \<and> page_chain al request adapter i (length (ns_sent st)) p u ys"
  using assms
proof (induction k arbitrary: p u visited items st)
  case 0
  then show ?case by auto
next
  case (Suc k)
  from Suc.prems(1) obtain out st1 where
      page: "graph_page al request adapter i mp mi p u visited items st = (Inr out, st1)"
    and rest: "(case out of LastPage c \<Rightarrow> retN c | NextPage v visited items \<Rightarrow>
        graph_pages al request adapter i mp mi k (p + 1) v visited items) st1 = (Inr c, st')"
    unfolding graph_pages.simps bindN_Inr_iff by blast
  from page show ?case
  proof (rule graph_page_Inr)
    fix d xs nx
    assume d: "answered al request (length (ns_sent st)) u d" "graph_collection_items d adapter p = Inr xs"
        "graph_next_link al d u i adapter = Inr nx"
      and fin: "page_end al adapter mp mi p (canonical_url al u # visited) items xs nx = Inr out"
      and st1: "st1 = st\<lparr>ns_sent := ns_sent st @ [request u]\<rparr>"
    show ?case
    proof (cases out)
      case (LastPage c')
      then have "c' = c" using rest by simp
      then have "nx = None" "gk_items c = items @ xs"
        using page_end_last [OF fin [unfolded LastPage] Suc.prems(3)] Suc.prems(2) by auto
      then show ?thesis using d by (auto intro: last_page)
    next
      case (NextPage v visited' items')
      note e = page_end_next [OF fin [unfolded NextPage]]
      obtain ys where "gk_items c = items' @ ys" "page_chain al request adapter i (length (ns_sent st1)) (p + 1) v ys"
        using Suc.IH [OF _ Suc.prems(2), of "p + 1" v visited' items' st1] rest e NextPage by auto
      then show ?thesis using d e by (auto simp: st1 intro: next_page)
    qed
  qed
qed

text \<open>C36: A collection that is reported complete is the whole collection: the pages that the server linked,
  from the configured URL to a page without a next link, each answered with success, and their items in
  order with nothing left out. Only such a collection lets records of the portal be archived.\<close>

theorem complete_graph_collections_miss_nothing:
  assumes "fetch_graph_collection al timeout url token prefer adapter max_pages max_items st = (Inr c, st')"
    and "gk_snapshot_complete c"
  shows "\<exists>i. al_parse_url al url = Inr i
    \<and> page_chain al (graph_request al timeout token prefer) adapter i (length (ns_sent st)) 1 i (gk_items c)"
proof -
  obtain i where "al_parse_url al url = Inr i"
    and "graph_pages al (graph_request al timeout token prefer) adapter i max_pages max_items max_pages 1 i [] [] st = (Inr c, st')"
    using assms(1) by (auto simp: fetch_graph_collection_def bindN_Inr_iff)
  with graph_pages_complete [OF _ assms(2)] show ?thesis by fastforce
qed

section \<open>Encoded components\<close>

lemma hex_value_digit: "n < 16 \<Longrightarrow> hex_value (hex_digit 65 n) = Some n"
  by (simp add: hex_value_def hex_digit_def byte_def Let_def)

lemma byte_lt: "byte c < 256"
  by (simp add: byte_def)

lemma encoded_byte_decodes: "percent_decode (CHR ''%'' # hex_byte 65 c @ s) = map_option (Cons c) (percent_decode s)"
proof -
  have "byte c div 16 < 16" "byte c mod 16 < 16" using byte_lt [of c] by auto
  moreover have "char_of (byte c div 16 * 16 + byte c mod 16) = c" by (simp add: byte_def)
  ultimately show ?thesis by (simp add: hex_byte_def hex_value_digit)
qed

lemma unreserved_not_percent: "unreserved c \<Longrightarrow> c \<noteq> CHR ''%''"
  by (auto simp: unreserved_def is_ascii_alphanumeric_def is_ascii_digit_def)

lemma hex_digit_unreserved: "n < 16 \<Longrightarrow> unreserved (hex_digit 65 n)"
  by (auto simp: unreserved_def hex_digit_def is_ascii_alphanumeric_def is_ascii_digit_def)

text \<open>An encoded URL component consists of unreserved characters and percent signs, so that it cannot end
  the component it stands in, and the decoder of the portal gives back exactly the encoded text.\<close>

theorem encoded_components_decode:
  "percent_decode (encode_url_component s) = Some s
   \<and> list_all (\<lambda>c. is_ascii_alphanumeric c \<or> c \<in> set ''-_.~%'') (encode_url_component s)"
proof (induction s)
  case Nil
  then show ?case by (simp add: encode_url_component_def)
next
  case (Cons c s)
  have digits: "byte c div 16 < 16" "byte c mod 16 < 16" using byte_lt [of c] by auto
  show ?case
  proof (cases "unreserved c")
    case True
    then show ?thesis using Cons unreserved_not_percent [OF True]
      by (auto simp: encode_url_component_def unreserved_def)
  next
    case False
    then have enc: "encode_url_component (c # s) = CHR ''%'' # hex_byte 65 c @ encode_url_component s"
      by (simp add: encode_url_component_def)
    show ?thesis
    proof
      show "percent_decode (encode_url_component (c # s)) = Some (c # s)"
        using Cons by (simp only: enc encoded_byte_decodes) simp
    next
      have "list_all (\<lambda>c. is_ascii_alphanumeric c \<or> c \<in> set ''-_.~%'') (hex_byte 65 c)"
        using hex_digit_unreserved [OF digits(1)] hex_digit_unreserved [OF digits(2)]
        by (auto simp: hex_byte_def unreserved_def)
      then show "list_all (\<lambda>c. is_ascii_alphanumeric c \<or> c \<in> set ''-_.~%'') (encode_url_component (c # s))"
        using Cons by (simp add: enc)
    qed
  qed
qed

end
