(* ===== verification/Adapter_Items.thy ===== *)
theory Adapter_Items
  imports Adapter_Properties
begin

text \<open>
  The items the adapters hand to the import: which work items of Azure DevOps they are, and that the items
  of every adapter are made of the words the portal validates.
\<close>

section \<open>Work items of Azure DevOps\<close>

lemma json_as_array_Some: "json_as_array v = Some xs \<longleftrightarrow> v = JArray xs"
  by (cases v) (auto simp: json_as_array_def)

lemma collect_ids_Inr:
  assumes "collect_ids m k items seen ids = Inr r" "distinct ids" "set ids \<subseteq> set seen" "length ids \<le> m"
  shows "\<exists>listed. map numeric_id items = map Some listed \<and> distinct r \<and> length r \<le> m
    \<and> set r \<subseteq> set ids \<union> set listed
    \<and> (length ids + length items \<le> m \<longrightarrow> set r = set ids \<union> (set listed - set seen))"
  using assms
proof (induction m k items seen ids rule: collect_ids.induct)
  case (1 m k seen ids)
  then show ?case by auto
next
  case (2 m k item rest seen ids)
  then obtain i where i: "numeric_id item = Some i" by (auto split: option.splits)
  let ?ids = "if i \<notin> set seen \<and> length ids < m then ids @ [i] else ids"
  have pre: "distinct ?ids" "set ?ids \<subseteq> set (i # seen)" "length ?ids \<le> m" using "2.prems" by auto
  obtain listed where l: "map numeric_id rest = map Some listed" "distinct r" "length r \<le> m"
      "set r \<subseteq> set ?ids \<union> set listed"
      "length ?ids + length rest \<le> m \<longrightarrow> set r = set ?ids \<union> (set listed - set (i # seen))"
    using "2.IH" [OF i _ pre] "2.prems"(1) i by auto
  have "set r = set ids \<union> (set (i # listed) - set seen)" if "length ids + length (item # rest) \<le> m"
    using l(5) that "2.prems"(3) by (auto split: if_splits)
  then show ?case using l i by (intro exI [of _ "i # listed"]) (auto split: if_splits)
qed

lemma concat_chunks: "0 < n \<Longrightarrow> concat (chunks n xs) = xs"
proof (induction n xs rule: chunks.induct)
  case (1 n xs)
  then show ?case by (cases "xs = []") (simp_all add: chunks.simps [of n xs] chunks.simps [of n "[]"])
qed

definition keyed :: "(i64 \<times> json) list \<Rightarrow> bool" where
  "keyed found \<longleftrightarrow> (\<forall>i x. map_of found i = Some x \<longrightarrow> numeric_id x = Some i)"

lemma keyed_update: "keyed found \<Longrightarrow> numeric_id x = Some i \<Longrightarrow> keyed (AList.update i x found)"
  by (simp add: keyed_def update_conv')

lemma keyed_delete: "keyed found \<Longrightarrow> keyed (AList.delete i found)"
  by (simp add: keyed_def delete_conv')

lemma items_by_id_keyed: "items_by_id b k items found = Inr r \<Longrightarrow> keyed found \<Longrightarrow> keyed r"
  by (induction items arbitrary: k found) (auto split: option.splits intro: keyed_update)

lemma take_requested_Inr:
  "take_requested b f ids found = Inr r \<Longrightarrow> keyed found \<Longrightarrow> \<exists>src. r = map f src \<and> map numeric_id src = map Some ids"
proof (induction ids arbitrary: found r)
  case Nil
  then show ?case by simp
next
  case (Cons i ids)
  then obtain x more where x: "map_of found i = Some x" and more: "take_requested b f ids (AList.delete i found) = Inr more"
    and r: "r = f x # more" by (auto simp: bindS_Inr_iff split: option.splits)
  obtain src where "more = map f src" "map numeric_id src = map Some ids"
    using Cons.IH [OF more keyed_delete [OF Cons.prems(2)]] by blast
  then show ?case using x r Cons.prems(2) by (intro exI [of _ "x # src"]) (auto simp: keyed_def)
qed

lemma azure_batch_Inr:
  assumes "azure_batch b f ids d = Inr r"
  shows "\<exists>src. r = map f src \<and> map numeric_id src = map Some ids"
proof -
  from assms obtain vs found where "items_by_id b 0 vs [] = Inr found" "take_requested b f ids found = Inr r"
    by (auto simp: azure_batch_def bindS_Inr_iff)
  moreover have "keyed []" by (simp add: keyed_def)
  ultimately show ?thesis using items_by_id_keyed take_requested_Inr by blast
qed

lemma azure_batches_Inr:
  assumes "azure_batches al send f wanted c k batches items st = (Inr r, st')"
  shows "\<exists>src. r = items @ map f src \<and> map numeric_id src = map Some (concat batches)"
  using assms
proof (induction batches arbitrary: k items st)
  case Nil
  then show ?case by simp
next
  case (Cons ids rest)
  from Cons.prems obtain b d more st1 where "azure_batch b f ids d = Inr more"
    and "azure_batches al send f wanted c (Suc k) rest (items @ more) st1 = (Inr r, st')"
    unfolding azure_batches.simps Let_def by (simp only: net_Inr resultN_iff) blast
  with azure_batch_Inr Cons.IH obtain src src' where "more = map f src" "map numeric_id src = map Some ids"
    "r = (items @ more) @ map f src'" "map numeric_id src' = map Some (concat rest)" by metis
  then show ?case by (intro exI [of _ "src @ src'"]) auto
qed

text \<open>The answer to a request of the session that is JSON.\<close>

definition json_answer :: "adapterlib \<Rightarrow> nat \<Rightarrow> http_request \<Rightarrow> json \<Rightarrow> bool" where
  "json_answer al n rq d \<longleftrightarrow> (\<exists>a t. al_send al n rq = Inr a \<and> ha_success a \<and> ha_text a = Inr t
     \<and> cx_parse (al_cx al) t = Inr d)"

lemma send_json_Inr:
  assumes "send_json_request al adapter rq st = (Inr d, st')"
  shows "json_answer al (length (ns_sent st)) rq d \<and> ns_sent st' = ns_sent st @ [rq]"
  using assms unfolding send_json_request_def json_answer_def
  by (auto simp: net_Inr answer_json_def bindS_Inr_iff split: if_splits)

lemma azure_work_cards_Inr:
  assumes "azure_work_cards al config timeout u m d st = (Inr payload, st')"
  shows "\<exists>work listed ids src. json_get ''workItems'' d = Some (JArray work) \<and> map numeric_id work = map Some listed
    \<and> distinct ids \<and> set ids \<subseteq> set listed \<and> length ids \<le> m \<and> map numeric_id src = map Some ids
    \<and> payload = payload_of (map (azure_item config) src) (length work < m) \<and> (length work < m \<longrightarrow> set ids = set listed)"
proof -
  let ?send = "azure_batches al (\<lambda>body. send_azure_request al timeout u body (azure_token config))
      (azure_item config) (JArray (map JString (requested_fields config)))"
  from assms obtain work ids where arr: "explicit_array d ''workItems''
        ''azure_devops WIQL response must include an explicit workItems array''
        ''azure_devops WIQL response field workItems must be an array'' = Inr work"
    and ids: "collect_ids m 0 work [] [] = Inr ids"
    and rest: "(if ids = [] then retN (payload_of [] (length work < m))
      else bindN (?send ((length ids + WORK_ITEMS_BATCH_SIZE - 1) div WORK_ITEMS_BATCH_SIZE) 0
        (chunks WORK_ITEMS_BATCH_SIZE ids) []) (\<lambda>items. retN (payload_of items (length work < m)))) st = (Inr payload, st')"
    unfolding azure_work_cards_def Let_def by (simp only: bindN_Inr_iff [of "resultN _"] resultN_iff) blast
  have work: "json_get ''workItems'' d = Some (JArray work)"
    using arr by (auto simp: explicit_array_def bindS_Inr_iff json_as_array_Some)
  obtain listed where l: "map numeric_id work = map Some listed" "distinct ids" "length ids \<le> m"
      "set ids \<subseteq> set listed" "length work \<le> m \<longrightarrow> set ids = set listed"
    using collect_ids_Inr [OF ids] by auto
  have "\<exists>src. payload = payload_of (map (azure_item config) src) (length work < m) \<and> map numeric_id src = map Some ids"
  proof (cases "ids = []")
    case True
    then show ?thesis using rest by (intro exI [of _ "[]"]) simp
  next
    case False
    from rest False obtain items st1 where
        "?send ((length ids + WORK_ITEMS_BATCH_SIZE - 1) div WORK_ITEMS_BATCH_SIZE) 0
          (chunks WORK_ITEMS_BATCH_SIZE ids) [] st = (Inr items, st1)" "payload = payload_of items (length work < m)"
      by (auto simp: bindN_Inr_iff)
    then show ?thesis using azure_batches_Inr concat_chunks [of WORK_ITEMS_BATCH_SIZE ids]
      by (fastforce simp: WORK_ITEMS_BATCH_SIZE_def)
  qed
  then show ?thesis using work l by (metis less_imp_le)
qed

lemma azure_fetch_Inr:
  assumes "fetch_azure_devops_work_cards al config_json st = (Inr payload, st')"
  obtains config m rq d st1 where "al_azure_config al config_json = Inr config" "azure_max_items (az_max_items config) = Inr m"
    "json_answer al (length (ns_sent st)) rq d"
    "azure_work_cards al config (client_timeout (az_timeout_seconds config))
       (azure_url config (az_work_items_url config) ''_apis/wit/workitemsbatch'') m d st1 = (Inr payload, st')"
proof -
  from assms obtain config m w d st1 where "al_azure_config al config_json = Inr config"
    "azure_max_items (az_max_items config) = Inr m"
    and send: "send_azure_request al (client_timeout (az_timeout_seconds config)) w
       (JObject [(''query'', JString (unwrap_or (az_wiql config) default_wiql))]) (azure_token config) st = (Inr d, st1)"
    and "azure_work_cards al config (client_timeout (az_timeout_seconds config))
       (azure_url config (az_work_items_url config) ''_apis/wit/workitemsbatch'') m d st1 = (Inr payload, st')"
    unfolding fetch_azure_devops_work_cards_def Let_def build_client_def
    by (simp only: net_Inr resultN_iff failN_iff map_err_Inr_iff sum.inject sum.distinct split: if_splits) blast
  with that send_json_Inr [OF send [unfolded send_azure_request_def]] show thesis by blast
qed

text \<open>C37: The work cards that come from Azure DevOps are work items that the query listed, each once and at
  most the number \<open>m\<close> the configuration sets (1000 when it sets none; the fetch refuses a number outside 1 to
  10000): every listed item that was asked for came back under its own id, or the
  fetch fails. The snapshot is called complete exactly when the query returned fewer items than it was
  allowed to, and then every listed item is among the cards.\<close>

theorem azure_cards_are_the_listed_items:
  assumes "fetch_azure_devops_work_cards al config_json st = (Inr payload, st')"
  shows "\<exists>config rq d work listed ids src m. al_azure_config al config_json = Inr config
    \<and> json_answer al (length (ns_sent st)) rq d \<and> json_get ''workItems'' d = Some (JArray work)
    \<and> map numeric_id work = map Some listed \<and> map numeric_id src = map Some ids
    \<and> int m = (case az_max_items config of Some configured \<Rightarrow> configured | None \<Rightarrow> 1000) \<and> 1 \<le> m \<and> m \<le> 10000
    \<and> distinct ids \<and> set ids \<subseteq> set listed \<and> length ids \<le> m
    \<and> json_get ''items'' payload = Some (JArray (map (azure_item config) src))
    \<and> map (json_get ''external_id'' \<circ> azure_item config) src = map (\<lambda>i. Some (JString (show_int i))) ids
    \<and> json_get ''snapshot_complete'' payload = Some (JBool (length work < m))
    \<and> (length work < m \<longrightarrow> set ids = set listed)"
proof -
  obtain config m rq d st1 where config: "al_azure_config al config_json = Inr config"
    and m: "azure_max_items (az_max_items config) = Inr m" and d: "json_answer al (length (ns_sent st)) rq d"
    and cards: "azure_work_cards al config (client_timeout (az_timeout_seconds config))
       (azure_url config (az_work_items_url config) ''_apis/wit/workitemsbatch'') m d st1 = (Inr payload, st')"
    using assms by (rule azure_fetch_Inr)
  obtain work listed ids src where w: "json_get ''workItems'' d = Some (JArray work)" "map numeric_id work = map Some listed"
      "distinct ids" "set ids \<subseteq> set listed" "length ids \<le> m" and src: "map numeric_id src = map Some ids"
    and payload: "payload = payload_of (map (azure_item config) src) (length work < m)"
    and complete: "length work < m \<longrightarrow> set ids = set listed"
    using azure_work_cards_Inr [OF cards] by blast
  have "int m = (case az_max_items config of Some configured \<Rightarrow> configured | None \<Rightarrow> 1000) \<and> 1 \<le> m \<and> m \<le> 10000"
    using m by (auto simp: azure_max_items_def AZURE_MAX_ALLOWED_ITEMS_def AZURE_DEFAULT_MAX_ITEMS_def unwrap_or_def Let_def
        split: if_splits option.splits)
  moreover have "json_get ''external_id'' (azure_item config x) = Some (JString (show_int i))" if "numeric_id x = Some i" for x i
    using that by (simp add: azure_item_def normalize_azure_work_item_def json_get_def unwrap_or_def Let_def)
  then have "map (json_get ''external_id'' \<circ> azure_item config) src = map (\<lambda>i. Some (JString (show_int i))) ids"
    using src by (induction src arbitrary: ids) auto
  ultimately show ?thesis using config d w src complete
    by (intro exI [of _ config] exI [of _ rq] exI [of _ d] exI [of _ work] exI [of _ listed] exI [of _ ids] exI [of _ src] exI [of _ m])
      (simp add: payload payload_of_def json_get_def)
qed

section \<open>Words of the portal\<close>

definition word_of :: "string \<Rightarrow> string list \<Rightarrow> json \<Rightarrow> bool" where
  "word_of key words item \<longleftrightarrow> (\<exists>w \<in> set words. json_get key item = Some (JString w))"

definition named_item :: "json \<Rightarrow> bool" where
  "named_item item \<longleftrightarrow> (\<exists>w. w \<noteq> [] \<and> json_get ''external_id'' item = Some (JString w))"

text \<open>What the import checks of the words of an item, per target.\<close>

definition portal_item :: "string \<Rightarrow> json \<Rightarrow> bool" where
  "portal_item target item \<longleftrightarrow> named_item item \<and>
     (if target = ''work_cards'' then word_of ''status'' [''todo'', ''in_progress'', ''blocked'', ''done''] item
        \<and> word_of ''priority'' [''low'', ''medium'', ''high'', ''urgent''] item
      else if target = ''service_health'' then word_of ''lifecycle_status'' [''active'', ''deprecated'', ''archived''] item
        \<and> word_of ''health_status'' [''healthy'', ''degraded'', ''down'', ''unknown''] item
      else word_of ''severity'' [''info'', ''warning'', ''critical''] item)"

lemma item_string_nonempty: "item_string item names = Some v \<Longrightarrow> v \<noteq> []"
  by (auto simp: item_string_def filter_option_Some_iff)

lemma external_id_nonempty: "notification_external_id kind item names title \<noteq> []"
  by (auto simp: notification_external_id_def unwrap_or_def item_string_nonempty split: option.splits)

lemma show_int_nonempty: "show_int n \<noteq> []"
  by (auto simp: show_int_def show_nat.simps [of "nat n"])

lemma severity_word: "fallback \<in> set [''info'', ''warning'', ''critical''] \<Longrightarrow>
    normalize_notification_severity v fallback \<in> set [''info'', ''warning'', ''critical'']"
  unfolding normalize_notification_severity_def Let_def by simp

lemma graph_severity_word: "graph_severity item \<in> set [''info'', ''warning'', ''critical'']"
  by (simp add: graph_severity_def split: option.split)

lemma graph_severities:
  "graph_calendar_severity item \<in> set [''info'', ''warning'', ''critical'']"
  "graph_mail_severity item \<in> set [''info'', ''warning'', ''critical'']"
  using graph_severity_word [of item]
  by (simp_all add: graph_calendar_severity_def graph_mail_severity_def split: option.split)

lemma sample_severity_word: "sample_severity item \<in> set [''info'', ''warning'', ''critical'']"
  using severity_word [of "''info''"] by (simp add: sample_severity_def unwrap_or_def split: option.split)

lemma erp_severity_word: "erp_message_severity item \<in> set [''info'', ''warning'', ''critical'']"
proof -
  have "s \<in> set [''info'', ''warning'', ''critical'']" if "erp_status_severity item = Some s" for s
    using that by (auto simp: erp_status_severity_def Let_def bind_eq_Some_conv split: if_splits)
  then show ?thesis using severity_word [of "''warning''"]
    by (simp add: erp_message_severity_def unwrap_or_def split: option.split)
qed

lemma portal_note:
  assumes "external_id \<noteq> []" "severity \<in> set [''info'', ''warning'', ''critical'']"
    and "json_get ''external_id'' item = Some (JString external_id)" "json_get ''severity'' item = Some (JString severity)"
    and "target \<noteq> ''work_cards''" "target \<noteq> ''service_health''"
  shows "portal_item target item"
  using assms by (auto simp: portal_item_def named_item_def word_of_def)

lemma portal_notes:
  assumes "target \<noteq> ''work_cards''" "target \<noteq> ''service_health''"
  shows "portal_item target (normalize_graph_calendar_event al item)"
    "portal_item target (normalize_graph_mail_message al item)"
    "portal_item target (normalize_erp_message_notification al item)"
    "portal_item target (normalize_calendar_notification al item)"
    "portal_item target (normalize_outlook_mail_notification item)"
  by (rule portal_note [OF external_id_nonempty graph_severities(1) _ _ assms],
      simp_all add: normalize_graph_calendar_event_def Let_def json_get_def)
    (rule portal_note [OF external_id_nonempty graph_severities(2) _ _ assms]
       portal_note [OF external_id_nonempty erp_severity_word _ _ assms]
       portal_note [OF external_id_nonempty sample_severity_word _ _ assms],
     simp_all add: normalize_graph_mail_message_def normalize_erp_message_notification_def
       normalize_calendar_notification_def normalize_outlook_mail_notification_def notification_members_def
       Let_def json_get_def)+

lemma portal_card: "portal_item ''work_cards'' (azure_item config item)"
proof -
  have "azure_status m \<in> set [''todo'', ''in_progress'', ''blocked'', ''done'']" for m
    by (simp add: azure_status_def normalize_azure_state_def Let_def)
  moreover have "normalize_azure_priority p \<in> set [''low'', ''medium'', ''high'', ''urgent'']" for p
    by (simp add: normalize_azure_priority_def)
  ultimately show ?thesis
    by (auto simp: portal_item_def named_item_def word_of_def azure_item_def normalize_azure_work_item_def
        json_get_def Let_def show_int_nonempty)
qed

lemma portal_service: "portal_item ''service_health'' (normalize_monitoring_service al item m)"
proof -
  have "normalize_lifecycle s \<in> set [''active'', ''deprecated'', ''archived'']" for s
    by (simp add: normalize_lifecycle_def Let_def)
  moreover have "normalize_monitoring_health s \<in> set [''healthy'', ''degraded'', ''down'', ''unknown'']" for s
    by (simp add: normalize_monitoring_health_def Let_def)
  moreover have "unwrap_or (item_string item names) ''unknown-service'' \<noteq> []" for names
    by (auto simp: unwrap_or_def item_string_nonempty split: option.splits)
  ultimately show ?thesis
    by (simp add: portal_item_def named_item_def word_of_def normalize_monitoring_service_def json_get_def Let_def)
      (simp add: unwrap_or_def split: option.split)
qed

text \<open>A payload with items for a target.\<close>

definition portal_payload :: "string \<Rightarrow> json \<Rightarrow> bool" where
  "portal_payload target payload \<longleftrightarrow>
     (\<exists>items. json_get ''items'' payload = Some (JArray items) \<and> list_all (portal_item target) items)"

lemma portal_payload_of: "list_all (portal_item target) items \<Longrightarrow> portal_payload target (payload_of items b)"
  by (simp add: portal_payload_def payload_of_def json_get_def)

lemma portal_payload_map: "(\<And>x. portal_item target (f x)) \<Longrightarrow> list_all (portal_item target) (map f xs)"
  by (simp add: list_all_iff)

lemma azure_payload:
  assumes "fetch_azure_devops_work_cards al config_json st = (Inr payload, st')"
  shows "portal_payload ''work_cards'' payload"
proof -
  obtain config m d st1 where
    "azure_work_cards al config (client_timeout (az_timeout_seconds config))
       (azure_url config (az_work_items_url config) ''_apis/wit/workitemsbatch'') m d st1 = (Inr payload, st')"
    using assms by (rule azure_fetch_Inr)
  then obtain src b where "payload = payload_of (map (azure_item config) src) b"
    using azure_work_cards_Inr by blast
  then show ?thesis using portal_card by (simp add: portal_payload_of portal_payload_map)
qed

lemma monitoring_payload:
  assumes "fetch_monitoring_service_health al config_json st = (Inr payload, st')"
  shows "portal_payload ''service_health'' payload"
proof -
  obtain m xs where "payload = JObject [(''items'', JArray (map (\<lambda>x. normalize_monitoring_service al x m) xs))]"
    using assms unfolding fetch_monitoring_service_health_def Let_def
    by (simp only: bindN_Inr_iff retN_iff failN_iff sum.inject sum.distinct split: if_splits) blast
  then show ?thesis using portal_service
    by (simp add: portal_payload_def json_get_def portal_payload_map)
qed

lemma erp_payload:
  assumes "fetch_erp_private_messages al config_json st = (Inr payload, st')" "target = ''notifications''"
  shows "portal_payload target payload"
proof -
  obtain b xs where "payload = payload_of (map (normalize_erp_message_notification al) xs) b"
    using assms unfolding fetch_erp_private_messages_def Let_def
    by (simp only: bindN_Inr_iff retN_iff failN_iff sum.inject sum.distinct split: if_splits) blast
  then show ?thesis using portal_notes(3) [of target] assms(2) by (simp add: portal_payload_of portal_payload_map)
qed

lemma default_samples:
  assumes "default_sample_notifications al kind st = (Inr items, st')"
    and "target \<noteq> ''work_cards''" "target \<noteq> ''service_health''"
  shows "list_all (portal_item target) items"
  using assms
  by (cases kind) (auto simp: default_sample_notifications_def bindN_Inr_iff Let_def notification_members_def
      portal_item_def named_item_def word_of_def json_get_def)

lemma sample_payload:
  assumes "fetch_sample_notifications al config_json kind st = (Inr payload, st')"
    and "target \<noteq> ''work_cards''" "target \<noteq> ''service_health''"
  shows "portal_payload target payload"
proof -
  obtain config items st1 st2 where payload: "payload = payload_of items True"
    and items: "(case sample_notification_items config kind of
         Some items \<Rightarrow> retN (map (normalize_sample_notification al kind) items)
       | None \<Rightarrow> default_sample_notifications al kind) st1 = (Inr items, st2)"
    using assms(1) unfolding fetch_sample_notifications_def
    by (simp only: bindN_Inr_iff [of "resultN _"] bindN_Inr_iff [of "case _ of None \<Rightarrow> _ | Some x \<Rightarrow> _ x"] retN_iff sum.inject) blast
  have "portal_item target (normalize_sample_notification al kind x)" for x
    using portal_notes [OF assms(2,3)] by (cases kind) (simp_all add: normalize_sample_notification_def)
  then have "list_all (portal_item target) items"
    using items default_samples [OF _ assms(2,3)] by (auto simp: portal_payload_map split: option.splits)
  then show ?thesis by (simp add: payload portal_payload_of)
qed

lemma graph_payload_items:
  assumes "graph_payload al t adapter scope f v url limits st = (Inr (Some payload, u), st')"
    and "\<And>x. portal_item target (f x)"
  shows "portal_payload target payload"
proof -
  have "\<exists>c :: GraphCollection. payload = JObject [(''items'', JArray (map f (gk_items c))), (''snapshot_complete'', JBool (gk_snapshot_complete c))]"
    using assms(1) unfolding graph_payload_def Let_def
    by (simp only: bindN_Inr_iff retN_iff sum.inject prod.inject option.inject) blast
  then show ?thesis by (auto simp: portal_payload_def json_get_def portal_payload_map assms(2))
qed

lemma if_fail_Inr: "(if c then failN e else m) st = (Inr x, st') \<longleftrightarrow> \<not> c \<and> m st = (Inr x, st')"
  by (simp add: failN_def)

lemma calendar_payload:
  assumes "fetch_microsoft_graph_calendar_events al config_json st = (Inr (Some payload, u), st')"
    and "target \<noteq> ''work_cards''" "target \<noteq> ''service_health''"
  shows "portal_payload target payload"
proof -
  obtain t adapter scope v url limits st1 where
    "graph_payload al t adapter scope (normalize_graph_calendar_event al) v url limits st1 = (Inr (Some payload, u), st')"
    using assms(1) unfolding fetch_microsoft_graph_calendar_events_def Let_def
    by (simp only: bindN_Inr_iff if_fail_Inr) blast
  then show ?thesis by (rule graph_payload_items) (rule portal_notes(1) [OF assms(2,3)])
qed

lemma mail_payload:
  assumes "fetch_microsoft_graph_mail_messages al config_json st = (Inr (Some payload, u), st')"
    and "target \<noteq> ''work_cards''" "target \<noteq> ''service_health''"
  shows "portal_payload target payload"
proof -
  obtain t adapter scope v url limits st1 where
    "graph_payload al t adapter scope (normalize_graph_mail_message al) v url limits st1 = (Inr (Some payload, u), st')"
    using assms(1) unfolding fetch_microsoft_graph_mail_messages_def Let_def
    by (simp only: bindN_Inr_iff if_fail_Inr) blast
  then show ?thesis by (rule graph_payload_items) (rule portal_notes(2) [OF assms(2,3)])
qed

lemma mapN_payload: "mapN adapter_payload m st = (Inr (Some payload, u), st') \<Longrightarrow> m st = (Inr payload, st')"
  by (auto simp: mapN_Inr_iff adapter_payload_def)

lemma sample_for_payload:
  assumes "sample_for al target config_json supported kind st = (Inr (Some payload, u), st')"
    and "supported \<Longrightarrow> target \<noteq> ''work_cards'' \<and> target \<noteq> ''service_health''"
  shows "portal_payload target payload"
  using assms sample_payload [OF mapN_payload]
  by (simp add: sample_for_def unsupported_def split: if_splits)

lemma if_Inr_cases:
  assumes "(if c then a else b) st = r"
  obtains "c" "a st = r" | "\<not> c" "b st = r"
  using assms by (cases c) simp_all

lemma option_Inr_cases:
  assumes "(case x of None \<Rightarrow> a | Some y \<Rightarrow> b y) st = r"
  obtains "x = None" "a st = r" | y where "x = Some y" "b y st = r"
  using assms by (cases x) simp_all

lemma note_targets:
  "target \<in> set [''notifications'', ''calendar_events''] \<Longrightarrow> target \<noteq> ''work_cards'' \<and> target \<noteq> ''service_health''"
  "target = ''notifications'' \<Longrightarrow> target \<noteq> ''work_cards'' \<and> target \<noteq> ''service_health''"
  by auto

lemma no_payload:
  "unsupported a target st \<noteq> (Inr x, st')" "failN e st \<noteq> (Inr x, st')" "retN (None, v) st \<noteq> (Inr (Some payload, u), st')"
  by (simp_all add: unsupported_def failN_def)

lemma target_payload:
  "mapN adapter_payload (fetch_azure_devops_work_cards al config_json) st = (Inr (Some payload, u), st') \<Longrightarrow>
     target = ''work_cards'' \<Longrightarrow> portal_payload target payload"
  "mapN adapter_payload (fetch_monitoring_service_health al config_json) st = (Inr (Some payload, u), st') \<Longrightarrow>
     target = ''service_health'' \<Longrightarrow> portal_payload target payload"
  "mapN adapter_payload (fetch_erp_private_messages al config_json) st = (Inr (Some payload, u), st') \<Longrightarrow>
     target = ''notifications'' \<Longrightarrow> portal_payload target payload"
  "fetch_microsoft_graph_calendar_events al config_json st = (Inr (Some payload, u), st') \<Longrightarrow>
     target \<in> set [''notifications'', ''calendar_events''] \<Longrightarrow> portal_payload target payload"
  "fetch_microsoft_graph_mail_messages al config_json st = (Inr (Some payload, u), st') \<Longrightarrow>
     target = ''notifications'' \<Longrightarrow> portal_payload target payload"
      apply (simp only:, erule azure_payload [OF mapN_payload])
     apply (simp only:, erule monitoring_payload [OF mapN_payload])
    apply (erule (1) erp_payload [OF mapN_payload])
   apply (erule calendar_payload; drule note_targets(1); elim conjE; assumption)
  apply (erule mail_payload; drule note_targets(2); elim conjE; assumption)
  done

text \<open>C38: Whatever a connected system answers, the items an adapter hands to the import have a name and use
  only words the portal accepts: the status and priority of a work card, the severity of a notification
  or calendar event, the lifecycle and health of a service.\<close>

theorem adapter_items_use_the_words_of_the_portal:
  assumes "fetch_connector_payload al target config_json st = (Inr (Some payload, u), st')"
  shows "\<exists>items. json_get ''items'' payload = Some (JArray items) \<and> list_all (portal_item target) items"
proof -
  have "portal_payload target payload"
    using assms unfolding fetch_connector_payload_def bindN_Inr_iff
    by (elim exE conjE option_Inr_cases if_Inr_cases)
      (erule (1) target_payload | erule sample_for_payload, erule note_targets | simp only: no_payload)+
  then show ?thesis by (simp only: portal_payload_def)
qed

end
