(* ===== verification/Adapter_Scenario.thy ===== *)
theory Adapter_Scenario
  imports Adapter_Items
begin

text \<open>
  The adapters against a small network: a Graph collection of two pages and an Azure DevOps project with
  two work items, one of them listed twice. The guarantees of the adapters are applied to it.
\<close>

definition net_url :: "string \<Rightarrow> url" where
  "net_url s = \<lparr>ur_scheme = ''http'', ur_host = Some (takeWhile (\<lambda>c. c \<noteq> CHR ''/'') (drop 7 s)), ur_username = [],
     ur_password = None, ur_path = s, ur_query = None, ur_query_pairs = [], ur_fragment = None\<rparr>"

definition net_parse_url :: "string \<Rightarrow> string + url" where
  "net_parse_url s = (if absolute_http s then Inr (net_url s) else Inl ''relative URL without a base'')"

definition net_bodies :: "(string \<times> json) list" where
  "net_bodies =
     [(''http://g.test/a'', JObject [(''value'', JArray [JInt 1, JInt 2]), (''nextLink'', JString ''http://g.test/b'')]),
      (''http://g.test/b'', JObject [(''value'', JArray [JInt 3])]),
      (''http://az.test/w?t'', JObject [(''workItems'', JArray [JObject [(''id'', JInt 7)], JObject [(''id'', JInt 8)],
         JObject [(''id'', JInt 7)]])]),
      (''http://az.test/i'', JObject [(''value'', JArray [JObject [(''id'', JInt 8)], JObject [(''id'', JInt 7)]])])]"

definition net_crypto :: crypto where
  "net_crypto = \<lparr>cx_parse = (\<lambda>s. ok_or (map_of net_bodies s) ''expected value''), cx_print = (\<lambda>_. Inr []),
     cx_b64 = (\<lambda>s. s), cx_unb64 = Some, cx_sha256 = (\<lambda>s. s), cx_seal = (\<lambda>k n s. Some s), cx_open = (\<lambda>k n s. Some s),
     cx_uuid = (\<lambda>n. []), cx_utf8 = (\<lambda>s. True), cx_secret_key_var = None, cx_app_env_var = None\<rparr>"

definition net_azure_config :: AzureDevOpsConfig where
  "net_azure_config = \<lparr>az_adapter = Some ''azure_devops'', az_wiql_url = Some ''http://az.test/w'',
     az_work_items_url = Some ''http://az.test/i'', az_base_url = None, az_organization = None, az_project = None,
     az_api_version = None, az_personal_access_token = Some ''pat'', az_pat = None, az_wiql = None,
     az_web_url_base = None, az_due_date_field = None, az_assignee_user_mappings = [], az_max_items = Some 5,
     az_timeout_seconds = None\<rparr>"

definition net_lib :: adapterlib where
  "net_lib = \<lparr>al_cx = net_crypto, al_client = (\<lambda>_. Inr ()),
     al_send = (\<lambda>n rq. Inr \<lparr>ha_success = True, ha_status = ''200 OK'', ha_text = Inr (hq_url rq)\<rparr>),
     al_clock = (\<lambda>n. 0), al_header_name = Some, al_parse_url = net_parse_url, al_join = (\<lambda>u. net_parse_url),
     al_show_url = ur_path, al_port = (\<lambda>u. Some 80), al_with_pairs = (\<lambda>u ps. ur_path u @ ''?t''),
     al_rfc3339 = (\<lambda>s. None), al_naive = (\<lambda>f s. None), al_show_auto = (\<lambda>t. []), al_show_secs = (\<lambda>t. []),
     al_show_graph = (\<lambda>t. []), al_adapter_config = (\<lambda>s. Inr (Some s)), al_azure_config = (\<lambda>s. Inr net_azure_config),
     al_erp_config = (\<lambda>s. Inl s), al_monitoring_config = (\<lambda>s. Inl s), al_calendar_config = (\<lambda>s. Inl s),
     al_mail_config = (\<lambda>s. Inl s), al_token_response = (\<lambda>s. Inl s)\<rparr>"

definition no_requests :: net_state where
  "no_requests = \<lparr>ns_sent = [], ns_reads = 0\<rparr>"

definition two_pages :: "(string + GraphCollection) \<times> net_state" where
  "two_pages = fetch_graph_collection net_lib 10 ''http://g.test/a'' ''token'' None ''graph'' 5 4 no_requests"

lemma net_fields [simp]: "al_parse_url net_lib = net_parse_url" "al_azure_config net_lib s = Inr net_azure_config"
    "ns_sent no_requests = []"
  by (simp_all add: net_lib_def no_requests_def)

lemma two_pages_read: "fst two_pages = Inr \<lparr>gk_items = [JInt 1, JInt 2, JInt 3], gk_snapshot_complete = True\<rparr>"
  by code_simp

theorem graph_reading_ends_at_its_origin_witness:
  "\<exists>us c. fst two_pages = Inr c \<and> ns_sent (snd two_pages) = map (graph_request net_lib 10 ''token'' None) us
    \<and> length us \<le> 5 \<and> distinct (map (canonical_url net_lib) us)
    \<and> list_all (\<lambda>u. ur_host u = Some ''g.test'') us \<and> length (gk_items c) \<le> 4"
proof -
  have "fetch_graph_collection net_lib 10 ''http://g.test/a'' ''token'' None ''graph'' 5 4 no_requests
      = (fst two_pages, snd two_pages)" by (simp add: two_pages_def)
  from graph_reading_ends_at_its_origin [OF this] obtain us where us:
      "ns_sent (snd two_pages) = map (graph_request net_lib 10 ''token'' None) us" "length us \<le> 5"
      "distinct (map (canonical_url net_lib) us)" "\<And>c. fst two_pages = Inr c \<Longrightarrow> length (gk_items c) \<le> 4"
      "\<And>u. u \<in> set us \<Longrightarrow> \<exists>i. net_parse_url ''http://g.test/a'' = Inr i \<and> ur_host u = ur_host i"
    by (simp only: net_fields append_Nil) blast
  moreover have "ur_host i = Some ''g.test''" if "net_parse_url ''http://g.test/a'' = Inr i" for i
    using that by (auto simp: net_parse_url_def net_url_def absolute_http_def starts_with_def split: if_splits)
  ultimately have "list_all (\<lambda>u. ur_host u = Some ''g.test'') us" by (fastforce simp: list_all_iff)
  then show ?thesis using us(1-3) two_pages_read us(4) [OF two_pages_read] by blast
qed

theorem complete_graph_collections_miss_nothing_witness:
  "page_chain net_lib (graph_request net_lib 10 ''token'' None) ''graph'' (net_url ''http://g.test/a'') 0 1
     (net_url ''http://g.test/a'') [JInt 1, JInt 2, JInt 3]"
proof -
  have "fetch_graph_collection net_lib 10 ''http://g.test/a'' ''token'' None ''graph'' 5 4 no_requests
      = (Inr \<lparr>gk_items = [JInt 1, JInt 2, JInt 3], gk_snapshot_complete = True\<rparr>, snd two_pages)"
    using two_pages_read by (metis prod.collapse two_pages_def)
  from complete_graph_collections_miss_nothing [OF this] obtain i where
    "net_parse_url ''http://g.test/a'' = Inr i" and
    "page_chain net_lib (graph_request net_lib 10 ''token'' None) ''graph'' i 0 1 i [JInt 1, JInt 2, JInt 3]"
    by auto
  moreover have "absolute_http ''http://g.test/a''" by code_simp
  ultimately show ?thesis by (simp add: net_parse_url_def)
qed

definition azure_run :: "(string + json) \<times> net_state" where
  "azure_run = fetch_azure_devops_work_cards net_lib ''azure_devops'' no_requests"

definition two_cards :: json where
  "two_cards = payload_of (map (azure_item net_azure_config) [JObject [(''id'', JInt 7)], JObject [(''id'', JInt 8)]]) True"

lemma azure_run_result: "fst azure_run = Inr two_cards"
  by code_simp

theorem azure_cards_are_the_listed_items_witness:
  "\<exists>rq d work listed ids src m. json_answer net_lib 0 rq d \<and> json_get ''workItems'' d = Some (JArray work)
    \<and> map numeric_id work = map Some listed \<and> map numeric_id src = map Some ids
    \<and> distinct ids \<and> length ids \<le> m \<and> m = 5
    \<and> json_get ''items'' two_cards = Some (JArray (map (azure_item net_azure_config) src))
    \<and> length work < m \<and> set ids = set listed"
proof -
  have "fetch_azure_devops_work_cards net_lib ''azure_devops'' no_requests = (Inr two_cards, snd azure_run)"
    using azure_run_result by (metis prod.collapse azure_run_def)
  from azure_cards_are_the_listed_items [OF this]
  obtain config rq d work listed ids src m where "al_azure_config net_lib ''azure_devops'' = Inr config"
    and *: "json_answer net_lib (length (ns_sent no_requests)) rq d" "json_get ''workItems'' d = Some (JArray work)"
      "map numeric_id work = map Some listed" "map numeric_id src = map Some ids" "distinct ids" "length ids \<le> m"
      "int m = (case az_max_items config of Some configured \<Rightarrow> configured | None \<Rightarrow> 1000)"
      "json_get ''items'' two_cards = Some (JArray (map (azure_item config) src))"
      "json_get ''snapshot_complete'' two_cards = Some (JBool (length work < m))" "length work < m \<longrightarrow> set ids = set listed"
    by blast
  moreover have "config = net_azure_config" using calculation(1) by simp
  moreover have "json_get ''snapshot_complete'' two_cards = Some (JBool True)" by code_simp
  moreover have "az_max_items net_azure_config = Some 5" by (simp add: net_azure_config_def)
  ultimately have "length work < m" "m = 5" by simp_all
  then show ?thesis using * unfolding \<open>config = net_azure_config\<close> net_fields list.size(3) by blast
qed

theorem adapter_items_use_the_words_of_the_portal_witness:
  "\<exists>items. json_get ''items'' two_cards = Some (JArray items) \<and> list_all (portal_item ''work_cards'') items"
proof -
  have "fst (fetch_connector_payload net_lib ''work_cards'' ''azure_devops'' no_requests) = Inr (Some two_cards, None)"
    by code_simp
  then obtain st' where
    "fetch_connector_payload net_lib ''work_cards'' ''azure_devops'' no_requests = (Inr (Some two_cards, None), st')"
    by (metis prod.collapse)
  then show ?thesis by (rule adapter_items_use_the_words_of_the_portal)
qed

end
