(* ===== verification/Work_Queries.thy ===== *)
theory Work_Queries
  imports Directory Connector_Runs
begin

text \<open>
  The list queries of \<^verbatim>\<open>src/src/repositories.rs\<close> over services, health checks, work cards and the
  dashboard counters, with their scopes, orders, limits and pages.

  An ORDER BY is a sort by a key that encodes the direction and PostgreSQL's place for NULL (last when
  ascending, first when descending); a condition that compares with NULL is not true. Where the order
  leaves rows with equal keys free, the rows keep the order of the table.
\<close>

section \<open>Scopes\<close>

definition in_scope :: "i32 option \<Rightarrow> string option \<Rightarrow> i32 option \<Rightarrow> string \<Rightarrow> bool" where
  "in_scope maintainer_id source rec_maintainer rec_source \<longleftrightarrow>
     (case maintainer_id of Some m \<Rightarrow> rec_maintainer = Some m | None \<Rightarrow> True)
     \<and> matches_opt source rec_source"

section \<open>Services and their health checks\<close>

definition ServiceRepository_find_multiple :: "nat \<Rightarrow> Service list query" where
  "ServiceRepository_find_multiple limit =
     select_stmt (\<lambda>t. take limit (sort_key (\<lambda>v. - sv_updated_at v) (rows (services t))))"

definition ServiceRepository_find_for_maintainers :: "nat \<Rightarrow> i32 list \<Rightarrow> Service list query" where
  "ServiceRepository_find_for_maintainers limit maintainer_ids =
     (if maintainer_ids = [] then retM []
      else select_stmt (\<lambda>t. take limit (sort_key (\<lambda>v. - sv_updated_at v)
             (filter (\<lambda>v. sv_maintainer_id v \<in> set maintainer_ids) (rows (services t))))))"

definition ServiceRepository_find_health_snapshot_scoped ::
    "nat \<Rightarrow> i32 option \<Rightarrow> string option \<Rightarrow> Service list query" where
  "ServiceRepository_find_health_snapshot_scoped limit maintainer_id source = select_stmt (\<lambda>t.
     take limit (sort_key (\<lambda>v. - sv_updated_at v)
       (filter (\<lambda>v. in_scope maintainer_id source (Some (sv_maintainer_id v)) (sv_source v))
         (rows (services t)))))"

text \<open>The inner join with \<^verbatim>\<open>services\<close>: the check with the maintainer of its service.\<close>

definition joined_checks :: "tables \<Rightarrow> (ServiceHealthCheck \<times> i32) list" where
  "joined_checks t = List.map_filter (\<lambda>h.
     map_option (\<lambda>v. (h, sv_maintainer_id v)) (first_row (\<lambda>v. sv_id v = hc_service_id h) (rows (services t))))
     (rows (service_health_checks t))"

definition ServiceHealthCheckRepository_find_recent_scoped ::
    "nat \<Rightarrow> utc \<Rightarrow> i32 option \<Rightarrow> string option \<Rightarrow> ServiceHealthCheck list query" where
  "ServiceHealthCheckRepository_find_recent_scoped limit since maintainer_id source = select_stmt (\<lambda>t.
     take limit (sort_key (\<lambda>h. - hc_checked_at h) (map fst
       (filter (\<lambda>(h, m). since \<le> hc_checked_at h \<and> in_scope maintainer_id source (Some m) (hc_source h))
         (joined_checks t)))))"

definition ServiceHealthCheckRepository_find_by_run :: "i32 \<Rightarrow> ServiceHealthCheck list query" where
  "ServiceHealthCheckRepository_find_by_run connector_run_id = select_stmt (\<lambda>t.
     sort_key (\<lambda>h. - hc_checked_at h)
       (filter (\<lambda>h. hc_connector_run_id h = Some connector_run_id) (rows (service_health_checks t))))"

definition ServiceHealthCheckRepository_find_recent_for_maintainers ::
    "nat \<Rightarrow> utc \<Rightarrow> i32 list \<Rightarrow> ServiceHealthCheck list query" where
  "ServiceHealthCheckRepository_find_recent_for_maintainers limit since maintainer_ids =
     (if maintainer_ids = [] then retM []
      else select_stmt (\<lambda>t. take limit (sort_key (\<lambda>h. - hc_checked_at h) (map fst
             (filter (\<lambda>(h, m). since \<le> hc_checked_at h \<and> m \<in> set maintainer_ids) (joined_checks t))))))"

section \<open>Work cards\<close>

datatype WorkCardDueFilter = Overdue | Today | NextSevenDays | NoDueDate
datatype WorkCardSort = Attention | DueAsc | SourceUpdatedDesc

record MyWorkCardFilters =
  mf_status :: "string option"
  mf_due :: "WorkCardDueFilter option"
  mf_project :: "string option"
  mf_work_item_type :: "string option"
  mf_source :: "string option"
  mf_sort :: WorkCardSort
  mf_today_start :: utc
  mf_tomorrow_start :: utc
  mf_next_seven_days_end :: utc

record MyWorkCardPage =
  mp_items :: "WorkCard list"
  mp_total :: nat

record MyWorkCardFacetValues =
  mv_statuses :: "string list"
  mv_projects :: "string list"
  mv_work_item_types :: "string list"
  mv_sources :: "string list"

definition card_access :: "RecordAccessScope \<Rightarrow> WorkCard \<Rightarrow> bool" where
  "card_access access w = access_filter access (wc_owner_user_id w) (wc_maintainer_id w)"

definition my_work_base_query :: "RecordAccessScope \<Rightarrow> tables \<Rightarrow> WorkCard list" where
  "my_work_base_query access t =
     filter (\<lambda>w. wc_archived_at w = None \<and> wc_assignee_user_id w = Some (as_user_id access)
         \<and> card_access access w) (rows (work_cards t))"

definition due_in :: "utc option \<Rightarrow> utc \<Rightarrow> utc \<Rightarrow> bool" where
  "due_in due from until = (case due of Some d \<Rightarrow> from \<le> d \<and> d < until | None \<Rightarrow> False)"

definition due_before :: "utc option \<Rightarrow> utc \<Rightarrow> bool" where
  "due_before due limit = (case due of Some d \<Rightarrow> d < limit | None \<Rightarrow> False)"

definition due_matches :: "MyWorkCardFilters \<Rightarrow> WorkCard \<Rightarrow> bool" where
  "due_matches f w =
     (case mf_due f of
        Some Overdue \<Rightarrow> wc_status w \<noteq> ''done'' \<and> due_before (wc_due_at w) (mf_today_start f)
      | Some Today \<Rightarrow> due_in (wc_due_at w) (mf_today_start f) (mf_tomorrow_start f)
      | Some NextSevenDays \<Rightarrow> due_in (wc_due_at w) (mf_today_start f) (mf_next_seven_days_end f)
      | Some NoDueDate \<Rightarrow> wc_due_at w = None
      | None \<Rightarrow> True)"

definition apply_my_work_filters :: "MyWorkCardFilters \<Rightarrow> WorkCard list \<Rightarrow> WorkCard list" where
  "apply_my_work_filters f = filter (\<lambda>w.
     matches_opt (mf_status f) (wc_status w)
     \<and> (case mf_project f of Some p \<Rightarrow> wc_project w = Some p | None \<Rightarrow> True)
     \<and> (case mf_work_item_type f of Some k \<Rightarrow> wc_work_item_type w = Some k | None \<Rightarrow> True)
     \<and> matches_opt (mf_source f) (wc_source w)
     \<and> due_matches f w)"

text \<open>The place of a condition in a descending order: unknown first, then true, then false.\<close>

definition desc_condition :: "bool option \<Rightarrow> int" where
  "desc_condition c = (case c of None \<Rightarrow> 0 | Some True \<Rightarrow> 1 | Some False \<Rightarrow> 2)"

text \<open>\<^verbatim>\<open>status <> 'done' AND due_at < today\<close> as SQL evaluates it: unknown for an open card without a
  due date.\<close>

definition overdue_condition :: "utc \<Rightarrow> WorkCard \<Rightarrow> bool option" where
  "overdue_condition today w =
     (if wc_status w = ''done'' then Some False
      else map_option (\<lambda>d. d < today) (wc_due_at w))"

definition priority_rank :: "string \<Rightarrow> int" where
  "priority_rank p = (if p = ''urgent'' then 4 else if p = ''high'' then 3 else if p = ''medium'' then 2 else 1)"

definition desc_nulls_last :: "utc option \<Rightarrow> int \<times> int" where
  "desc_nulls_last v = (case v of None \<Rightarrow> (1, 0) | Some x \<Rightarrow> (0, - x))"

definition attention_key :: "utc \<Rightarrow> WorkCard \<Rightarrow> int \<times> int \<times> int \<times> int \<times> (int \<times> int) \<times> (int \<times> int) \<times> int" where
  "attention_key today w =
     (desc_condition (Some (wc_status w = ''blocked'')), desc_condition (overdue_condition today w),
      of_bool (wc_status w = ''done''), - priority_rank (wc_priority w),
      nulls_last (wc_due_at w), desc_nulls_last (wc_source_updated_at w), wc_id w)"

definition apply_my_work_sort :: "MyWorkCardFilters \<Rightarrow> WorkCard list \<Rightarrow> WorkCard list" where
  "apply_my_work_sort f =
     (case mf_sort f of
        Attention \<Rightarrow> sort_key (attention_key (mf_today_start f))
      | DueAsc \<Rightarrow> sort_key (\<lambda>w. (nulls_last (wc_due_at w), wc_id w))
      | SourceUpdatedDesc \<Rightarrow> sort_key (\<lambda>w. (desc_nulls_last (wc_source_updated_at w), - wc_id w)))"

definition page_of :: "i64 \<Rightarrow> i64 \<Rightarrow> 'r list \<Rightarrow> 'r list" where
  "page_of page page_size xs = take (nat page_size) (drop (nat ((page - 1) * page_size)) xs)"

definition WorkCardRepository_find_my_work ::
    "RecordAccessScope \<Rightarrow> MyWorkCardFilters \<Rightarrow> i64 \<Rightarrow> i64 \<Rightarrow> MyWorkCardPage query" where
  "WorkCardRepository_find_my_work access filters page page_size =
     bindM (select_stmt (\<lambda>t. length (apply_my_work_filters filters (my_work_base_query access t)))) (\<lambda>total.
     bindM (select_stmt (\<lambda>t. page_of page page_size
              (apply_my_work_sort filters (apply_my_work_filters filters (my_work_base_query access t)))))
       (\<lambda>items. retM \<lparr>mp_items = items, mp_total = total\<rparr>))"

definition facet :: "(WorkCard \<Rightarrow> string option) \<Rightarrow> RecordAccessScope \<Rightarrow> string list query" where
  "facet col access = select_stmt (\<lambda>t.
     sort (remdups (filter (\<lambda>v. v \<noteq> []) (List.map_filter col (my_work_base_query access t)))))"

definition WorkCardRepository_my_work_facets :: "RecordAccessScope \<Rightarrow> MyWorkCardFacetValues query" where
  "WorkCardRepository_my_work_facets access =
     bindM (select_stmt (\<lambda>t. sort (remdups (map wc_status (my_work_base_query access t))))) (\<lambda>statuses.
     bindM (facet wc_project access) (\<lambda>projects.
     bindM (facet wc_work_item_type access) (\<lambda>work_item_types.
     bindM (select_stmt (\<lambda>t. sort (remdups (map wc_source (my_work_base_query access t))))) (\<lambda>sources.
     retM \<lparr>mv_statuses = statuses, mv_projects = projects, mv_work_item_types = work_item_types,
           mv_sources = sources\<rparr>))))"

definition WorkCardRepository_find_multiple_for_access ::
    "nat \<Rightarrow> RecordAccessScope \<Rightarrow> WorkCard list query" where
  "WorkCardRepository_find_multiple_for_access limit access = select_stmt (\<lambda>t.
     take limit (sort_key (\<lambda>w. - wc_updated_at w)
       (filter (\<lambda>w. wc_archived_at w = None \<and> card_access access w) (rows (work_cards t)))))"

definition open_card :: "i32 option \<Rightarrow> string option \<Rightarrow> RecordAccessScope \<Rightarrow> WorkCard \<Rightarrow> bool" where
  "open_card maintainer_id source access w \<longleftrightarrow> wc_status w \<noteq> ''done'' \<and> wc_archived_at w = None
     \<and> in_scope maintainer_id source (wc_maintainer_id w) (wc_source w) \<and> card_access access w"

definition WorkCardRepository_find_open_for_access ::
    "nat \<Rightarrow> i32 option \<Rightarrow> string option \<Rightarrow> RecordAccessScope \<Rightarrow> WorkCard list query" where
  "WorkCardRepository_find_open_for_access limit maintainer_id source access = select_stmt (\<lambda>t.
     take limit (sort_key (\<lambda>w. - wc_updated_at w)
       (filter (open_card maintainer_id source access) (rows (work_cards t)))))"

definition WorkCardRepository_count_open_for_access ::
    "i32 option \<Rightarrow> string option \<Rightarrow> RecordAccessScope \<Rightarrow> nat query" where
  "WorkCardRepository_count_open_for_access maintainer_id source access = select_stmt (\<lambda>t.
     count_rows (open_card maintainer_id source access) (rows (work_cards t)))"

section \<open>Dashboard counters\<close>

definition services_scoped :: "(Service \<Rightarrow> bool) \<Rightarrow> i32 option \<Rightarrow> string option \<Rightarrow> nat query" where
  "services_scoped p maintainer_id source = select_stmt (\<lambda>t.
     count_rows (\<lambda>v. p v \<and> in_scope maintainer_id source (Some (sv_maintainer_id v)) (sv_source v))
       (rows (services t)))"

definition DashboardRepository_total_services_scoped :: "i32 option \<Rightarrow> string option \<Rightarrow> nat query" where
  "DashboardRepository_total_services_scoped = services_scoped (\<lambda>_. True)"

definition DashboardRepository_healthy_services_scoped :: "i32 option \<Rightarrow> string option \<Rightarrow> nat query" where
  "DashboardRepository_healthy_services_scoped = services_scoped (\<lambda>v. sv_health_status v = ''healthy'')"

definition DashboardRepository_degraded_services_scoped :: "i32 option \<Rightarrow> string option \<Rightarrow> nat query" where
  "DashboardRepository_degraded_services_scoped = services_scoped (\<lambda>v. sv_health_status v = ''degraded'')"

definition DashboardRepository_down_services_scoped :: "i32 option \<Rightarrow> string option \<Rightarrow> nat query" where
  "DashboardRepository_down_services_scoped = services_scoped (\<lambda>v. sv_health_status v = ''down'')"

definition DashboardRepository_active_packages_scoped :: "i32 option \<Rightarrow> nat query" where
  "DashboardRepository_active_packages_scoped maintainer_id = select_stmt (\<lambda>t.
     count_rows (\<lambda>p. pk_status p = ''active''
         \<and> (case maintainer_id of Some m \<Rightarrow> pk_maintainer_id p = m | None \<Rightarrow> True)) (rows (packages t)))"

end
