(* ===== verification/Catalog.thy ===== *)
theory Catalog
  imports Auth Secrets Work_Queries
begin

text \<open>
  \<^verbatim>\<open>src/src/rocket_routes/audit_logs.rs\<close>, \<^verbatim>\<open>services.rs\<close>, \<^verbatim>\<open>packages.rs\<close> and \<^verbatim>\<open>maintainers.rs\<close>: the
  handlers of the catalog with their permission checks, and the audit log they write.

  A handler runs on its own connection outside a transaction: every repository call is a step after
  which other requests may have changed the database. \<open>weblib\<close> holds the library functions the
  handlers call: the JSON printer, the JSON form of a time, the parsers of dates (days since the epoch)
  and of RFC 3339 times, and the lower-casing of SQL.
\<close>

record weblib =
  wl_json :: "json \<Rightarrow> string option"
  wl_show :: "json \<Rightarrow> string"
  wl_time :: "utc \<Rightarrow> json"
  wl_date :: "string \<Rightarrow> int option"
  wl_rfc3339 :: "string \<Rightarrow> utc option"
  wl_sql_lower :: "string \<Rightarrow> string"

definition callM :: "'a query \<Rightarrow> 'a api" where
  "callM m = stepM (liftM m)"

definition checked :: "('r \<Rightarrow> violations) \<Rightarrow> 'r \<Rightarrow> 'r api" where
  "checked validate request = resultM (validate_request validate request)"

section \<open>Audit log\<close>

definition record_audit_entry ::
    "weblib \<Rightarrow> AuthenticatedUser \<Rightarrow> string \<Rightarrow> string \<Rightarrow> string \<Rightarrow> (string \<times> json) list \<Rightarrow> unit api" where
  "record_audit_entry wl auth action resource_type resource_id metadata =
     bindM (callM (AuditLogRepository_create
              \<lparr>al_actor_user_id = Some (us_id (au_user auth)), al_action = action,
               al_resource_type = resource_type, al_resource_id = Some resource_id,
               al_metadata = wl_json wl (JObject metadata)\<rparr>)) (\<lambda>_. retM ())"

text \<open>The resource is named by its number in most calls, by its source for a connector.\<close>

definition record_audit_log ::
    "weblib \<Rightarrow> AuthenticatedUser \<Rightarrow> string \<Rightarrow> string \<Rightarrow> i32 \<Rightarrow> (string \<times> json) list \<Rightarrow> unit api" where
  "record_audit_log wl auth action resource_type resource_id metadata =
     record_audit_entry wl auth action resource_type (show_int resource_id) metadata"

definition record_system_audit_log ::
    "weblib \<Rightarrow> string \<Rightarrow> string \<Rightarrow> string \<Rightarrow> (string \<times> json) list \<Rightarrow> unit api" where
  "record_system_audit_log wl action resource_type resource_id metadata =
     bindM (callM (AuditLogRepository_create
              \<lparr>al_actor_user_id = None, al_action = action, al_resource_type = resource_type,
               al_resource_id = Some resource_id, al_metadata = wl_json wl (JObject metadata)\<rparr>)) (\<lambda>_. retM ())"

record AuditLogQuery =
  aq_resource_type :: "string option"
  aq_resource_id :: "string option"
  aq_actor_user_id :: "i32 option"
  aq_action :: "string option"
  aq_created_from :: "string option"
  aq_created_to :: "string option"

definition AuditLogQuery_validate :: "AuditLogQuery \<Rightarrow> violations" where
  "AuditLogQuery_validate q = checks
     [max_optional_len ''resource_type'' (aq_resource_type q) 64,
      max_optional_len ''resource_id'' (aq_resource_id q) 128,
      max_optional_len ''action'' (aq_action q) 64,
      max_optional_len ''created_from'' (aq_created_from q) 64,
      max_optional_len ''created_to'' (aq_created_to q) 64]"

definition trimmed_nonempty :: "string option \<Rightarrow> string option" where
  "trimmed_nonempty value =
     (case map_option trim value of Some v \<Rightarrow> if v = [] then None else Some v | None \<Rightarrow> None)"

definition parse_date_bound ::
    "weblib \<Rightarrow> string \<Rightarrow> string option \<Rightarrow> bool \<Rightarrow> ApiError + utc option" where
  "parse_date_bound wl field value end_of_day =
     (case trimmed_nonempty value of
        None \<Rightarrow> Inr None
      | Some v \<Rightarrow>
         (case wl_date wl v of
            Some d \<Rightarrow> Inr (Some (if end_of_day then days d + (days 1 - 1) else days d))
          | None \<Rightarrow>
             (case wl_rfc3339 wl v of
                Some x \<Rightarrow> Inr (Some x)
              | None \<Rightarrow> Inl (Validation [violation field
                  ''must be YYYY-MM-DD (UTC) or RFC3339 with an explicit offset'']))))"

definition get_audit_logs :: "weblib \<Rightarrow> AuthenticatedUser \<Rightarrow> AuditLogQuery \<Rightarrow> AuditLog list api" where
  "get_audit_logs wl auth query =
     bindM (require_admin auth) (\<lambda>_.
     bindM (checked AuditLogQuery_validate query) (\<lambda>query.
     bindM (resultM (parse_date_bound wl ''created_from'' (aq_created_from query) False)) (\<lambda>created_from.
     bindM (resultM (parse_date_bound wl ''created_to'' (aq_created_to query) True)) (\<lambda>created_to.
     if (case (created_from, created_to) of (Some a, Some b) \<Rightarrow> a > b | _ \<Rightarrow> False)
     then throwM (Validation [violation ''created_to'' ''must be after created_from''])
     else callM (AuditLogRepository_find_multiple 100
            \<lparr>af_resource_type = aq_resource_type query, af_resource_id = aq_resource_id query,
             af_actor_user_id = aq_actor_user_id query, af_action = aq_action query,
             af_created_from = created_from, af_created_to = created_to\<rparr>)))))"

section \<open>Services\<close>

definition service_metadata :: "Service \<Rightarrow> (string \<times> json) list" where
  "service_metadata v = [(''maintainer_id'', JInt (sv_maintainer_id v)), (''slug'', JString (sv_slug v)),
     (''health_status'', JString (sv_health_status v))]"

definition get_services :: "AuthenticatedUser \<Rightarrow> Service list api" where
  "get_services auth = callM (ServiceRepository_find_multiple 100)"

definition view_service :: "AuthenticatedUser \<Rightarrow> i32 \<Rightarrow> Service api" where
  "view_service auth i = callM (ServiceRepository_find i)"

definition create_service :: "weblib \<Rightarrow> AuthenticatedUser \<Rightarrow> NewService \<Rightarrow> Service api" where
  "create_service wl auth new_service =
     bindM (checked NewService_validate new_service) (\<lambda>new_service.
     bindM (require_maintainer_write_access auth (sv_maintainer_id new_service)) (\<lambda>_.
     bindM (callM (ServiceRepository_create new_service)) (\<lambda>service.
     bindM (record_audit_log wl auth ''create'' ''service'' (sv_id service) (service_metadata service)) (\<lambda>_.
     retM service))))"

definition update_service :: "weblib \<Rightarrow> AuthenticatedUser \<Rightarrow> i32 \<Rightarrow> NewService \<Rightarrow> Service api" where
  "update_service wl auth i service =
     bindM (checked NewService_validate service) (\<lambda>service.
     bindM (callM (ServiceRepository_find i)) (\<lambda>existing.
     bindM (require_maintainer_write_access auth (sv_maintainer_id existing)) (\<lambda>_.
     bindM (require_maintainer_write_access auth (sv_maintainer_id service)) (\<lambda>_.
     bindM (callM (ServiceRepository_update i service)) (\<lambda>service.
     bindM (record_audit_log wl auth ''update'' ''service'' (sv_id service) (service_metadata service)) (\<lambda>_.
     retM service))))))"

definition delete_service :: "weblib \<Rightarrow> AuthenticatedUser \<Rightarrow> i32 \<Rightarrow> unit api" where
  "delete_service wl auth i =
     bindM (callM (ServiceRepository_find i)) (\<lambda>service.
     bindM (require_maintainer_write_access auth (sv_maintainer_id service)) (\<lambda>_.
     bindM (callM (ServiceRepository_delete i)) (\<lambda>_.
     record_audit_log wl auth ''delete'' ''service'' i
       [(''maintainer_id'', JInt (sv_maintainer_id service)), (''slug'', JString (sv_slug service))])))"

record ServiceOwner =
  so_id :: i32
  so_display_name :: string
  so_email :: string

record ServiceHealthOverview =
  sh_status :: string
  sh_lifecycle_status :: string
  sh_last_checked_at :: "utc option"

record ServiceLinks =
  sl_repository_url :: "string option"
  sl_dashboard_url :: "string option"
  sl_runbook_url :: "string option"

record ServiceOverview =
  ov_service :: Service
  ov_owner :: ServiceOwner
  ov_maintainer :: Maintainer
  ov_maintainer_members :: "MaintainerMember list"
  ov_packages :: "Package list"
  ov_health :: ServiceHealthOverview
  ov_connector :: "Connector option"
  ov_recent_connector_runs :: "ConnectorRun list"
  ov_links :: ServiceLinks

definition service_overview_of ::
    "Service \<Rightarrow> Maintainer \<Rightarrow> MaintainerMember list \<Rightarrow> Package list \<Rightarrow> Connector option \<Rightarrow>
     ConnectorRun list \<Rightarrow> ServiceOverview" where
  "service_overview_of service maintainer members pkgs connector runs =
     \<lparr>ov_service = service,
      ov_owner = \<lparr>so_id = mt_id maintainer, so_display_name = mt_display_name maintainer,
        so_email = mt_email maintainer\<rparr>,
      ov_maintainer = maintainer, ov_maintainer_members = members, ov_packages = pkgs,
      ov_health = \<lparr>sh_status = sv_health_status service, sh_lifecycle_status = sv_lifecycle_status service,
        sh_last_checked_at = sv_last_checked_at service\<rparr>,
      ov_connector = connector, ov_recent_connector_runs = runs,
      ov_links = \<lparr>sl_repository_url = sv_repository_url service,
        sl_dashboard_url = sv_dashboard_url service, sl_runbook_url = sv_runbook_url service\<rparr>\<rparr>"

definition service_overview :: "AuthenticatedUser \<Rightarrow> i32 \<Rightarrow> ServiceOverview api" where
  "service_overview auth i =
     bindM (callM (ServiceRepository_find i)) (\<lambda>service.
     bindM (record_access_scope auth) (\<lambda>access.
     bindM (callM (MaintainerRepository_find (sv_maintainer_id service))) (\<lambda>maintainer.
     bindM (can_view_maintainer_members auth (sv_maintainer_id service)) (\<lambda>can_view.
     bindM (if can_view then callM (MaintainerMemberRepository_find_by_maintainer (sv_maintainer_id service))
            else retM []) (\<lambda>members.
     bindM (callM (PackageRepository_find_recent_for_maintainer 20 (Some (sv_maintainer_id service)))) (\<lambda>pkgs.
     bindM (handleM (stepM (ConnectorRepository_find_by_source (sv_source service)))
              (\<lambda>e. if e = NotFoundError then retM None else throwM (api_error_of e))
              (\<lambda>connector. retM (Some connector))) (\<lambda>found.
     let connector = (case found of
           Some c \<Rightarrow> if allows access (cn_owner_user_id c) (cn_maintainer_id c) then Some c else None
         | None \<Rightarrow> None) in
     bindM (if connector \<noteq> None
            then callM (ConnectorRunRepository_find_multiple_for_access 10 (Some (sv_source service))
                          (Some ''service_health'') access)
            else retM []) (\<lambda>runs.
     retM (service_overview_of service maintainer members pkgs connector runs)))))))))"

section \<open>Packages\<close>

definition package_metadata :: "Package \<Rightarrow> (string \<times> json) list" where
  "package_metadata p = [(''maintainer_id'', JInt (pk_maintainer_id p)), (''slug'', JString (pk_slug p)),
     (''status'', JString (pk_status p))]"

definition get_packages :: "AuthenticatedUser \<Rightarrow> Package list api" where
  "get_packages auth = callM (PackageRepository_find_multiple 100)"

definition view_package :: "AuthenticatedUser \<Rightarrow> i32 \<Rightarrow> Package api" where
  "view_package auth i = callM (PackageRepository_find i)"

definition create_package :: "weblib \<Rightarrow> AuthenticatedUser \<Rightarrow> NewPackage \<Rightarrow> Package api" where
  "create_package wl auth new_package =
     bindM (checked NewPackage_validate new_package) (\<lambda>new_package.
     bindM (require_maintainer_write_access auth (pk_maintainer_id new_package)) (\<lambda>_.
     bindM (callM (PackageRepository_create new_package)) (\<lambda>package.
     bindM (record_audit_log wl auth ''create'' ''package'' (pk_id package) (package_metadata package)) (\<lambda>_.
     retM package))))"

definition update_package :: "weblib \<Rightarrow> AuthenticatedUser \<Rightarrow> i32 \<Rightarrow> NewPackage \<Rightarrow> Package api" where
  "update_package wl auth i package =
     bindM (checked NewPackage_validate package) (\<lambda>package.
     bindM (callM (PackageRepository_find i)) (\<lambda>existing.
     bindM (require_maintainer_write_access auth (pk_maintainer_id existing)) (\<lambda>_.
     bindM (require_maintainer_write_access auth (pk_maintainer_id package)) (\<lambda>_.
     bindM (callM (PackageRepository_update i package)) (\<lambda>package.
     bindM (record_audit_log wl auth ''update'' ''package'' (pk_id package) (package_metadata package)) (\<lambda>_.
     retM package))))))"

definition delete_package :: "weblib \<Rightarrow> AuthenticatedUser \<Rightarrow> i32 \<Rightarrow> unit api" where
  "delete_package wl auth i =
     bindM (callM (PackageRepository_find i)) (\<lambda>package.
     bindM (require_maintainer_write_access auth (pk_maintainer_id package)) (\<lambda>_.
     bindM (callM (PackageRepository_delete i)) (\<lambda>_.
     record_audit_log wl auth ''delete'' ''package'' i
       [(''maintainer_id'', JInt (pk_maintainer_id package)), (''slug'', JString (pk_slug package))])))"

section \<open>Maintainers\<close>

record MaintainerMemberRequest =
  mr_user_id :: i32
  mr_role :: string

definition get_maintainers :: "AuthenticatedUser \<Rightarrow> Maintainer list api" where
  "get_maintainers auth = callM (MaintainerRepository_find_multiple 100)"

definition view_maintainer :: "AuthenticatedUser \<Rightarrow> i32 \<Rightarrow> Maintainer api" where
  "view_maintainer auth i = callM (MaintainerRepository_find i)"

definition create_maintainer :: "weblib \<Rightarrow> AuthenticatedUser \<Rightarrow> NewMaintainer \<Rightarrow> Maintainer api" where
  "create_maintainer wl auth new_maintainer =
     bindM (require_admin auth) (\<lambda>_.
     bindM (checked NewMaintainer_validate new_maintainer) (\<lambda>new_maintainer.
     bindM (callM (MaintainerRepository_create new_maintainer)) (\<lambda>maintainer.
     bindM (record_audit_log wl auth ''create'' ''maintainer'' (mt_id maintainer)
              [(''email'', JString (mt_email maintainer))]) (\<lambda>_.
     retM maintainer))))"

definition update_maintainer :: "weblib \<Rightarrow> AuthenticatedUser \<Rightarrow> i32 \<Rightarrow> NewMaintainer \<Rightarrow> Maintainer api" where
  "update_maintainer wl auth i maintainer =
     bindM (require_admin auth) (\<lambda>_.
     bindM (checked NewMaintainer_validate maintainer) (\<lambda>maintainer.
     bindM (callM (MaintainerRepository_update i maintainer)) (\<lambda>maintainer.
     bindM (record_audit_log wl auth ''update'' ''maintainer'' (mt_id maintainer)
              [(''email'', JString (mt_email maintainer))]) (\<lambda>_.
     retM maintainer))))"

definition delete_maintainer :: "weblib \<Rightarrow> AuthenticatedUser \<Rightarrow> i32 \<Rightarrow> unit api" where
  "delete_maintainer wl auth i =
     bindM (require_admin auth) (\<lambda>_.
     bindM (callM (MaintainerRepository_delete i)) (\<lambda>_.
     record_audit_log wl auth ''delete'' ''maintainer'' i []))"

definition get_maintainer_members :: "AuthenticatedUser \<Rightarrow> i32 \<Rightarrow> MaintainerMember list api" where
  "get_maintainer_members auth i =
     bindM (require_maintainer_owner_access auth i) (\<lambda>_.
     callM (MaintainerMemberRepository_find_by_maintainer i))"

definition upsert_maintainer_member ::
    "weblib \<Rightarrow> AuthenticatedUser \<Rightarrow> i32 \<Rightarrow> MaintainerMemberRequest \<Rightarrow> MaintainerMember api" where
  "upsert_maintainer_member wl auth i member =
     bindM (require_maintainer_owner_access auth i) (\<lambda>_.
     bindM (callM (MaintainerRepository_find i)) (\<lambda>_.
     bindM (callM (UserRepository_find (mr_user_id member))) (\<lambda>_.
     bindM (checked NewMaintainerMember_validate
              \<lparr>mm_maintainer_id = i, mm_user_id = mr_user_id member, mm_role = mr_role member\<rparr>) (\<lambda>new_member.
     bindM (callM (MaintainerMemberRepository_upsert new_member)) (\<lambda>member.
     bindM (record_audit_log wl auth ''upsert_member'' ''maintainer'' i
              [(''user_id'', JInt (mm_user_id member)), (''role'', JString (mm_role member))]) (\<lambda>_.
     retM member))))))"

definition delete_maintainer_member :: "weblib \<Rightarrow> AuthenticatedUser \<Rightarrow> i32 \<Rightarrow> i32 \<Rightarrow> unit api" where
  "delete_maintainer_member wl auth i user_id =
     bindM (require_maintainer_owner_access auth i) (\<lambda>_.
     bindM (callM (MaintainerMemberRepository_delete_by_maintainer_and_user i user_id)) (\<lambda>_.
     record_audit_log wl auth ''delete_member'' ''maintainer'' i [(''user_id'', JInt user_id)]))"

section \<open>The mounted handlers that change the catalog\<close>

datatype catalog_request =
    CreateService NewService | UpdateService i32 NewService | DeleteService i32
  | CreatePackage NewPackage | UpdatePackage i32 NewPackage | DeletePackage i32
  | CreateMaintainer NewMaintainer | UpdateMaintainer i32 NewMaintainer | DeleteMaintainer i32
  | UpsertMember i32 MaintainerMemberRequest | DeleteMember i32 i32

definition discard :: "'a api \<Rightarrow> unit api" where
  "discard m = bindM m (\<lambda>_. retM ())"

fun handle_catalog :: "weblib \<Rightarrow> AuthenticatedUser \<Rightarrow> catalog_request \<Rightarrow> unit api" where
  "handle_catalog wl auth (CreateService n) = discard (create_service wl auth n)"
| "handle_catalog wl auth (UpdateService i n) = discard (update_service wl auth i n)"
| "handle_catalog wl auth (DeleteService i) = delete_service wl auth i"
| "handle_catalog wl auth (CreatePackage n) = discard (create_package wl auth n)"
| "handle_catalog wl auth (UpdatePackage i n) = discard (update_package wl auth i n)"
| "handle_catalog wl auth (DeletePackage i) = delete_package wl auth i"
| "handle_catalog wl auth (CreateMaintainer n) = discard (create_maintainer wl auth n)"
| "handle_catalog wl auth (UpdateMaintainer i n) = discard (update_maintainer wl auth i n)"
| "handle_catalog wl auth (DeleteMaintainer i) = delete_maintainer wl auth i"
| "handle_catalog wl auth (UpsertMember i m) = discard (upsert_maintainer_member wl auth i m)"
| "handle_catalog wl auth (DeleteMember i u) = delete_maintainer_member wl auth i u"

end
