(* ===== verification/Worker.thy ===== *)
theory Worker
  imports Worker_Config Catalog
begin

text \<open>
  The background worker of \<^verbatim>\<open>src/src/rocket_routes/connectors/worker.rs\<close>: heartbeats, the retention pass,
  the scheduler, the execution of queued runs, and the cycle that puts them together.

  Parameters (\<open>worker_world\<close>): the monotonic clock behind \<^verbatim>\<open>Instant::now()\<close>, the answers of
  \<^verbatim>\<open>pg_try_advisory_xact_lock\<close>, the \<^verbatim>\<open>Debug\<close> form of an error, and the library functions of the runtime
  and of the audit log. The cut-off of a retention period is computed in unbounded integers: a period of
  more days than a \<^verbatim>\<open>DateTime\<close> can represent, for which \<^verbatim>\<open>chrono\<close> panics, is outside the model.
\<close>

record worker_world =
  ww_instant :: "nat \<Rightarrow> utc"
  ww_lock :: "nat \<Rightarrow> bool"
  ww_debug :: "ApiError \<Rightarrow> string"
  ww_runtime :: runtime
  ww_web :: weblib

definition instant_now :: "worker_world \<Rightarrow> ('e, utc) dbm" where
  "instant_now ww = bindM draw (\<lambda>k. retM (ww_instant ww k))"

section \<open>Heartbeats\<close>

record WorkerHeartbeatContext =
  hb_worker_id :: string
  hb_started_at :: utc
  hb_scheduler_enabled :: bool
  hb_retention_enabled :: bool

definition record_worker_heartbeat ::
    "WorkerHeartbeatContext \<Rightarrow> string \<Rightarrow> i32 option \<Rightarrow> string option \<Rightarrow> ConnectorWorker api" where
  "record_worker_heartbeat heartbeat status current_run_id last_error =
     callM (ConnectorWorkerRepository_upsert_heartbeat
       \<lparr>cw_worker_id = hb_worker_id heartbeat, cw_status = status,
        cw_scheduler_enabled = hb_scheduler_enabled heartbeat,
        cw_retention_enabled = hb_retention_enabled heartbeat,
        cw_current_run_id = current_run_id, cw_last_error = last_error,
        cw_started_at = hb_started_at heartbeat\<rparr>)"

section \<open>Retention\<close>

record ConnectorRetentionCleanup =
  rc_health_checks_deleted :: nat
  rc_runs_deleted :: nat
  rc_audit_logs_deleted :: nat
  rc_oidc_transactions_deleted :: nat
  rc_expired_sessions_deleted :: nat
  rc_login_throttle_buckets_deleted :: nat

datatype ConnectorRetentionCleanupAttempt =
  CleanupCompleted ConnectorRetentionCleanup | SkippedLockBusy | SkippedRecentlyCompleted

text \<open>\<^verbatim>\<open>Some(days)\<close> deletes what is older than the period, \<^verbatim>\<open>None\<close> keeps everything.\<close>

definition delete_expired_history :: "i64 option \<Rightarrow> utc \<Rightarrow> (utc \<Rightarrow> nat query) \<Rightarrow> nat api" where
  "delete_expired_history period now delete =
     (case period of Some d \<Rightarrow> liftM (delete (now - days d)) | None \<Rightarrow> retM 0)"

definition recently_completed :: "ConnectorRetentionPolicy \<Rightarrow> utc \<Rightarrow> MaintenanceRun option \<Rightarrow> bool" where
  "recently_completed policy now latest_success =
     (case latest_success of
        Some latest \<Rightarrow> num_seconds (now - mr_finished_at latest)
          < min (num_seconds (rp_cleanup_interval policy)) i64_max
      | None \<Rightarrow> False)"

definition maintenance_run ::
    "string \<Rightarrow> string \<Rightarrow> utc \<Rightarrow> utc \<Rightarrow> nat \<times> nat \<times> nat \<Rightarrow> string option \<Rightarrow> NewMaintenanceRun" where
  "maintenance_run status worker_id started_at finished_at deleted error_message =
     \<lparr>mr_task = ''retention_cleanup'', mr_status = status, mr_worker_id = Some worker_id,
      mr_started_at = started_at, mr_finished_at = finished_at,
      mr_duration_ms = max (num_milliseconds (finished_at - started_at)) 0,
      mr_health_checks_deleted = count_as_i32 (fst deleted),
      mr_connector_runs_deleted = count_as_i32 (fst (snd deleted)),
      mr_audit_logs_deleted = count_as_i32 (snd (snd deleted)),
      mr_error_message = error_message\<rparr>"

definition delete_expired_data :: "ConnectorRetentionPolicy \<Rightarrow> utc \<Rightarrow> ConnectorRetentionCleanup api" where
  "delete_expired_data policy now =
     bindM (delete_expired_history (rp_health_retention_days policy) now
              ServiceHealthCheckRepository_delete_older_than) (\<lambda>health_checks_deleted.
     bindM (delete_expired_history (rp_run_retention_days policy) now
              ConnectorRunRepository_delete_finished_older_than) (\<lambda>runs_deleted.
     bindM (delete_expired_history (rp_audit_log_retention_days policy) now
              AuditLogRepository_delete_older_than) (\<lambda>audit_logs_deleted.
     bindM (liftM (OidcLoginTransactionRepository_delete_expired now)) (\<lambda>oidc_transactions_deleted.
     bindM (liftM (SessionRepository_delete_expired now)) (\<lambda>expired_sessions_deleted.
     bindM (liftM (LoginThrottleRepository_prune_before (now - days DEFAULT_LOGIN_THROTTLE_RETENTION_DAYS)))
       (\<lambda>login_throttle_buckets_deleted.
     retM \<lparr>rc_health_checks_deleted = health_checks_deleted, rc_runs_deleted = runs_deleted,
           rc_audit_logs_deleted = audit_logs_deleted,
           rc_oidc_transactions_deleted = oidc_transactions_deleted,
           rc_expired_sessions_deleted = expired_sessions_deleted,
           rc_login_throttle_buckets_deleted = login_throttle_buckets_deleted\<rparr>))))))"

definition cleanup_connector_retention ::
    "worker_world \<Rightarrow> ConnectorRetentionPolicy \<Rightarrow> string \<Rightarrow> utc \<Rightarrow> ConnectorRetentionCleanupAttempt api" where
  "cleanup_connector_retention ww policy worker_id started_at = api_transaction (
     bindM (liftM (select_stmt (\<lambda>_. ()))) (\<lambda>_.
     bindM draw (\<lambda>k.
     if \<not> ww_lock ww k then retM SkippedLockBusy
     else
       bindM utc_now (\<lambda>now.
       bindM (liftM (MaintenanceRunRepository_find_latest_success ''retention_cleanup'')) (\<lambda>latest_success.
       if recently_completed policy now latest_success then retM SkippedRecentlyCompleted
       else
         bindM (delete_expired_data policy now) (\<lambda>cleanup.
         bindM utc_now (\<lambda>finished_at.
         bindM (liftM (MaintenanceRunRepository_create (maintenance_run ''success'' worker_id started_at
                  finished_at (rc_health_checks_deleted cleanup, rc_runs_deleted cleanup,
                    rc_audit_logs_deleted cleanup) None))) (\<lambda>_.
         retM (CleanupCompleted cleanup)))))))))"

definition record_retention_cleanup_failure ::
    "worker_world \<Rightarrow> string \<Rightarrow> utc \<Rightarrow> ApiError \<Rightarrow> MaintenanceRun api" where
  "record_retention_cleanup_failure ww worker_id started_at error =
     bindM utc_now (\<lambda>finished_at.
     callM (MaintenanceRunRepository_create (maintenance_run ''failed'' worker_id started_at finished_at
       (0, 0, 0) (Some (ww_debug ww error)))))"

section \<open>Scheduler\<close>

definition mark_without_run :: "utc \<Rightarrow> ConnectorConfig \<Rightarrow> i64 \<Rightarrow> nat \<Rightarrow> nat api" where
  "mark_without_run now config interval_seconds enqueued =
     bindM (liftM (ConnectorConfigRepository_mark_scheduled (cc_source config) now interval_seconds None))
       (\<lambda>_. retM enqueued)"

definition enqueue_config :: "runtime \<Rightarrow> utc \<Rightarrow> ConnectorConfig \<Rightarrow> nat \<Rightarrow> nat api" where
  "enqueue_config rt now config enqueued =
     (case Option.bind (cc_schedule_cron config) effective_schedule_interval_seconds of
        None \<Rightarrow> retM enqueued
      | Some interval_seconds \<Rightarrow>
          handleM (ConnectorRepository_find_by_source (cc_source config))
            (\<lambda>error. if error = NotFoundError then mark_without_run now config interval_seconds enqueued
                     else throwM (api_error_of error))
            (\<lambda>connector.
              if cn_status connector = ''paused'' \<or> \<not> cc_enabled config
              then mark_without_run now config interval_seconds enqueued
              else
                bindM (liftM (ConnectorRunRepository_has_pending (cc_source config) (cc_target config)))
                  (\<lambda>pending.
                if pending then retM enqueued
                else
                  bindM (create_queued_run rt (cc_source config) (cc_target config) ''scheduled'' None) (\<lambda>run.
                  bindM (liftM (ConnectorConfigRepository_mark_scheduled (cc_source config) now interval_seconds
                           (Some (cr_id run)))) (\<lambda>_.
                  retM (enqueued + 1))))))"

definition enqueue_due_scheduled_runs_locked :: "runtime \<Rightarrow> nat api" where
  "enqueue_due_scheduled_runs_locked rt =
     bindM utc_now (\<lambda>now.
     bindM (liftM (ConnectorConfigRepository_find_due_for_schedule now 10)) (\<lambda>configs.
     foldM (enqueue_config rt now) configs 0))"

definition enqueue_due_scheduled_runs :: "runtime \<Rightarrow> nat api" where
  "enqueue_due_scheduled_runs rt = api_transaction (enqueue_due_scheduled_runs_locked rt)"

section \<open>Executing queued runs\<close>

definition process_one_queued_run ::
    "worker_world \<Rightarrow> WorkerHeartbeatContext \<Rightarrow> ConnectorRunLeasePolicy \<Rightarrow> bool api" where
  "process_one_queued_run ww heartbeat lease_policy =
     bindM (callM (ConnectorRunRepository_claim_next_queued (hb_worker_id heartbeat)
              (lp_lease_seconds lease_policy))) (\<lambda>claimed.
     case claimed of
       None \<Rightarrow> retM False
     | Some run \<Rightarrow>
         bindM (ignoreM (record_worker_heartbeat heartbeat ''running'' (Some (cr_id run)) None)) (\<lambda>_.
         handleM (execute_leased_connector_run (ww_runtime ww) run (hb_worker_id heartbeat))
           (\<lambda>error.
             bindM (ignoreM (record_worker_heartbeat heartbeat ''error'' (Some (cr_id run))
                      (Some (ww_debug ww error)))) (\<lambda>_.
             throwM error))
           (\<lambda>_.
             bindM (record_system_audit_log (ww_web ww) ''worker_run'' ''connector_run'' (show_int (cr_id run))
                      [(''worker_id'', JString (hb_worker_id heartbeat))]) (\<lambda>_.
             bindM (ignoreM (record_worker_heartbeat heartbeat ''idle'' None None)) (\<lambda>_.
             retM True)))))"

section \<open>The worker loop\<close>

record ConnectorWorkerLoopConfig =
  wk_database_url :: string
  wk_poll_ms :: int
  wk_heartbeat_interval_seconds :: int
  wk_scheduler_enabled :: bool
  wk_retention_policy :: ConnectorRetentionPolicy
  wk_lease_policy :: ConnectorRunLeasePolicy
  wk_worker_id :: string
  wk_worker_started_at :: utc

definition heartbeat_context :: "ConnectorWorkerLoopConfig \<Rightarrow> WorkerHeartbeatContext" where
  "heartbeat_context config = \<lparr>hb_worker_id = wk_worker_id config, hb_started_at = wk_worker_started_at config,
     hb_scheduler_enabled = wk_scheduler_enabled config,
     hb_retention_enabled = ConnectorRetentionPolicy_enabled (wk_retention_policy config)\<rparr>"

text \<open>The variables of the loop that outlive a cycle, and the state of the cycle.\<close>

record worker_loop =
  wl_retention :: RetentionAttemptSchedule
  wl_last_heartbeat :: "utc option"
  wl_cycle :: WorkerCycleState

definition failed_in :: "WorkerCycleOperation \<Rightarrow> worker_loop \<Rightarrow> worker_loop" where
  "failed_in operation st = st\<lparr>wl_cycle := record_failure operation (wl_cycle st)\<rparr>"

text \<open>A heartbeat whose failure is only logged; its success moves the time of the last heartbeat.\<close>

definition beat ::
    "worker_world \<Rightarrow> WorkerHeartbeatContext \<Rightarrow> string \<Rightarrow> string option \<Rightarrow> worker_loop \<Rightarrow> worker_loop api" where
  "beat ww heartbeat status last_error st =
     handleM (record_worker_heartbeat heartbeat status None last_error) (\<lambda>_. retM st)
       (\<lambda>_. bindM (instant_now ww) (\<lambda>now. retM (st\<lparr>wl_last_heartbeat := Some now\<rparr>)))"

definition recovery_phase :: "ConnectorWorkerLoopConfig \<Rightarrow> worker_loop \<Rightarrow> worker_loop api" where
  "recovery_phase config st =
     handleM (callM (ConnectorRunRepository_recover_expired_leases
                (lp_retry_base_seconds (wk_lease_policy config))
                (lp_retry_max_seconds (wk_lease_policy config)) 100))
       (\<lambda>_. retM (failed_in LeaseRecovery st)) (\<lambda>_. retM st)"

definition outcome_of :: "ConnectorRetentionCleanupAttempt \<Rightarrow> RetentionAttemptOutcome" where
  "outcome_of attempt = (case attempt of CleanupCompleted _ \<Rightarrow> RetentionCompleted
     | SkippedLockBusy \<Rightarrow> RetentionLockBusy | SkippedRecentlyCompleted \<Rightarrow> RetentionRecent)"

definition reschedule ::
    "worker_world \<Rightarrow> ConnectorWorkerLoopConfig \<Rightarrow> RetentionAttemptOutcome \<Rightarrow> worker_loop \<Rightarrow> worker_loop api" where
  "reschedule ww config outcome st = bindM (instant_now ww) (\<lambda>now.
     retM (st\<lparr>wl_retention := record_outcome outcome (wk_retention_policy config) now (wl_retention st)\<rparr>))"

definition retention_phase ::
    "worker_world \<Rightarrow> ConnectorWorkerLoopConfig \<Rightarrow> worker_loop \<Rightarrow> worker_loop api" where
  "retention_phase ww config st =
     (let heartbeat = heartbeat_context config in
      if \<not> can_continue_connector_work (wl_cycle st) then retM st
      else
        bindM (instant_now ww) (\<lambda>now.
        if \<not> is_due (wl_retention st) now then retM st
        else
          bindM utc_now (\<lambda>cleanup_started_at.
          bindM (ignoreM (record_worker_heartbeat heartbeat ''retention_cleanup'' None None)) (\<lambda>_.
          handleM (stepM (cleanup_connector_retention ww (wk_retention_policy config) (wk_worker_id config)
                     cleanup_started_at))
            (\<lambda>error.
              bindM (reschedule ww config RetentionFailed st) (\<lambda>st.
              bindM (ignoreM (record_retention_cleanup_failure ww (wk_worker_id config) cleanup_started_at error)) (\<lambda>_.
              bindM (beat ww heartbeat ''error'' (Some (ww_debug ww error)) st) (\<lambda>st.
              retM (failed_in RetentionCleanup st)))))
            (\<lambda>attempt.
              bindM (reschedule ww config (outcome_of attempt) st)
                (beat ww heartbeat ''idle'' None))))))"

definition scheduler_phase ::
    "worker_world \<Rightarrow> ConnectorWorkerLoopConfig \<Rightarrow> worker_loop \<Rightarrow> worker_loop api" where
  "scheduler_phase ww config st =
     (if can_continue_connector_work (wl_cycle st) \<and> wk_scheduler_enabled config then
        handleM (stepM (enqueue_due_scheduled_runs (ww_runtime ww)))
          (\<lambda>_. retM (failed_in SchedulerPass st)) (\<lambda>_. retM st)
      else retM st)"

fun queue_loop ::
    "nat \<Rightarrow> worker_world \<Rightarrow> ConnectorWorkerLoopConfig \<Rightarrow> worker_loop \<Rightarrow> worker_loop api" where
  "queue_loop 0 ww config st = retM st"
| "queue_loop (Suc n) ww config st =
     handleM (process_one_queued_run ww (heartbeat_context config) (wk_lease_policy config))
       (\<lambda>_. retM (failed_in ConnectorQueue st))
       (\<lambda>found. if found then bindM (instant_now ww) (\<lambda>now. queue_loop n ww config (st\<lparr>wl_last_heartbeat := Some now\<rparr>))
                else retM st)"

definition queue_phase ::
    "worker_world \<Rightarrow> ConnectorWorkerLoopConfig \<Rightarrow> worker_loop \<Rightarrow> worker_loop api" where
  "queue_phase ww config st =
     (if can_continue_connector_work (wl_cycle st) then queue_loop 5 ww config st else retM st)"

text \<open>The end of a cycle: \<open>True\<close> when the loop leaves the connection.\<close>

definition heartbeat_phase ::
    "worker_world \<Rightarrow> ConnectorWorkerLoopConfig \<Rightarrow> worker_loop \<Rightarrow> (bool \<times> worker_loop) api" where
  "heartbeat_phase ww config st =
     (if \<not> can_continue_connector_work (wl_cycle st) then retM (True, st)
      else
        bindM (case wl_last_heartbeat st of None \<Rightarrow> retM 0 | Some _ \<Rightarrow> instant_now ww) (\<lambda>now.
        if heartbeat_due (wl_last_heartbeat st) (seconds (wk_heartbeat_interval_seconds config)) now then
          handleM (record_worker_heartbeat (heartbeat_context config) ''idle'' None None)
            (\<lambda>_. retM (True, st))
            (\<lambda>_. bindM (instant_now ww) (\<lambda>now. retM (False, st\<lparr>wl_last_heartbeat := Some now\<rparr>)))
        else retM (False, st)))"

definition worker_cycle ::
    "worker_world \<Rightarrow> ConnectorWorkerLoopConfig \<Rightarrow> worker_loop \<Rightarrow> (bool \<times> worker_loop) api" where
  "worker_cycle ww config st =
     bindM (recovery_phase config (st\<lparr>wl_cycle := \<lparr>wy_reconnect_required = False\<rparr>\<rparr>)) (\<lambda>st.
     bindM (retention_phase ww config st) (\<lambda>st.
     bindM (scheduler_phase ww config st) (\<lambda>st.
     bindM (queue_phase ww config st) (heartbeat_phase ww config))))"

text \<open>A connection that was established: the first heartbeat, then at most \<open>fuel\<close> cycles, until one
  leaves the connection. The loop of the program has no bound.\<close>

fun worker_cycles ::
    "nat \<Rightarrow> worker_world \<Rightarrow> ConnectorWorkerLoopConfig \<Rightarrow> worker_loop \<Rightarrow> (bool \<times> worker_loop) api" where
  "worker_cycles 0 ww config st = retM (False, st)"
| "worker_cycles (Suc fuel) ww config st =
     bindM (worker_cycle ww config st) (\<lambda>(left, st).
     if left then retM (True, st) else bindM yieldM (\<lambda>_. worker_cycles fuel ww config st))"

definition worker_connection ::
    "nat \<Rightarrow> worker_world \<Rightarrow> ConnectorWorkerLoopConfig \<Rightarrow> RetentionAttemptSchedule \<Rightarrow> (bool \<times> worker_loop) api" where
  "worker_connection fuel ww config schedule =
     bindM (beat ww (heartbeat_context config) ''idle'' None
              \<lparr>wl_retention = schedule, wl_last_heartbeat = None, wl_cycle = \<lparr>wy_reconnect_required = False\<rparr>\<rparr>)
       (worker_cycles fuel ww config)"

section \<open>Start\<close>

text \<open>The start of the worker up to its loop: \<open>None\<close> when it is disabled. \<open>app_config\<close> is the outcome of
  \<^verbatim>\<open>AppConfig::from_env\<close>, \<open>uuid\<close> and \<open>now\<close> are the values drawn for the identity of the worker.\<close>

definition run_connector_worker_forever ::
    "process_env \<Rightarrow> string + unit \<Rightarrow> string \<Rightarrow> utc \<Rightarrow> string + ConnectorWorkerLoopConfig option" where
  "run_connector_worker_forever vars app_config uuid now =
     bindS (strict_env_flag vars ''CONNECTOR_WORKER_ENABLED'' True) (\<lambda>worker_enabled.
     if \<not> worker_enabled then Inr None
     else
       bindS app_config (\<lambda>_.
       bindS (case filter_option (\<lambda>v. \<not> is_blank v) (var_ok vars ''DATABASE_URL'') of
                Some v \<Rightarrow> Inr v
              | None \<Rightarrow> Inl ''connector worker requires DATABASE_URL when enabled'') (\<lambda>database_url.
       bindS (ConnectorRunLeasePolicy_from_env vars) (\<lambda>lease_policy.
       Inr (Some \<lparr>wk_database_url = database_url,
         wk_poll_ms = env_u64 vars ''CONNECTOR_WORKER_POLL_MS'' 500,
         wk_heartbeat_interval_seconds = env_u64 vars ''CONNECTOR_WORKER_HEARTBEAT_INTERVAL_SECONDS''
           DEFAULT_WORKER_HEARTBEAT_INTERVAL_SECONDS,
         wk_scheduler_enabled = env_flag vars ''CONNECTOR_SCHEDULER_ENABLED'' True,
         wk_retention_policy = ConnectorRetentionPolicy_from_env vars,
         wk_lease_policy = lease_policy,
         wk_worker_id = ''connector-worker-'' @ uuid,
         wk_worker_started_at = now\<rparr>)))))"

section \<open>Helpers for tests on a database\<close>

text \<open>Public functions that run one operation of the worker behind \<open>ensure_safe_test_database\<close>. Their errors
  are strings; \<open>tg_shown\<close> prints an error of the database.\<close>

record test_guard =
  tg_vars :: process_env
  tg_shown :: "DieselError \<Rightarrow> string"
  tg_database :: "nat \<Rightarrow> string"

datatype GuardedRetentionCleanupResult =
  GuardedCompleted "nat \<times> nat \<times> nat \<times> nat \<times> nat \<times> nat" | GuardedLockBusy | GuardedRecentlyCompleted

definition guardedM :: "test_guard \<Rightarrow> string \<Rightarrow> ('e, 'a) dbm \<Rightarrow> ('e \<Rightarrow> string) \<Rightarrow> (string, 'a) dbm" where
  "guardedM tg operation m message =
     bindM (ensure_safe_test_database (tg_vars tg) (tg_shown tg) (tg_database tg) operation) (\<lambda>_.
     handleM m (\<lambda>e. throwM (message e)) retM)"

definition run_guarded_retention_cleanup_for_test ::
    "test_guard \<Rightarrow> worker_world \<Rightarrow> i64 option \<Rightarrow> i64 option \<Rightarrow> i64 option \<Rightarrow> string \<Rightarrow>
     (string, GuardedRetentionCleanupResult) dbm" where
  "run_guarded_retention_cleanup_for_test tg ww health_days run_days audit_log_days worker_id =
     bindM (guardedM tg ''retention test cleanup''
       (bindM utc_now (cleanup_connector_retention ww
          \<lparr>rp_health_retention_days = health_days, rp_run_retention_days = run_days,
           rp_audit_log_retention_days = audit_log_days,
           rp_cleanup_interval = seconds DEFAULT_RETENTION_CLEANUP_INTERVAL_SECONDS\<rparr> worker_id))
       (\<lambda>e. ''retention test cleanup failed: '' @ ww_debug ww e)) (\<lambda>attempt.
     retM (case attempt of
         CleanupCompleted c \<Rightarrow> GuardedCompleted (rc_health_checks_deleted c, rc_runs_deleted c,
           rc_audit_logs_deleted c, rc_oidc_transactions_deleted c, rc_expired_sessions_deleted c,
           rc_login_throttle_buckets_deleted c)
       | SkippedLockBusy \<Rightarrow> GuardedLockBusy
       | SkippedRecentlyCompleted \<Rightarrow> GuardedRecentlyCompleted))"

definition claim_connector_run_for_test :: "test_guard \<Rightarrow> string \<Rightarrow> i64 \<Rightarrow> (string, i32 option) dbm" where
  "claim_connector_run_for_test tg worker_id lease_seconds =
     bindM (guardedM tg ''connector lease claim test'' (ConnectorRunRepository_claim_next_queued worker_id lease_seconds)
       (\<lambda>e. ''connector lease claim test failed: '' @ tg_shown tg e)) (\<lambda>run. retM (map_option cr_id run))"

definition recover_connector_runs_for_test :: "test_guard \<Rightarrow> i64 \<Rightarrow> i64 \<Rightarrow> (string, nat \<times> nat \<times> nat) dbm" where
  "recover_connector_runs_for_test tg retry_base_seconds retry_max_seconds =
     bindM (guardedM tg ''connector lease recovery test''
       (ConnectorRunRepository_recover_expired_leases retry_base_seconds retry_max_seconds 100)
       (\<lambda>e. ''connector lease recovery test failed: '' @ tg_shown tg e)) (\<lambda>stats.
     retM (st_requeued stats, st_failed stats, st_cancelled stats))"

definition request_connector_run_cancel_for_test :: "test_guard \<Rightarrow> i32 \<Rightarrow> (string, string option) dbm" where
  "request_connector_run_cancel_for_test tg run_id =
     bindM (guardedM tg ''connector cancellation test'' (ConnectorRunRepository_request_cancel run_id)
       (\<lambda>e. ''connector cancellation test failed: '' @ tg_shown tg e)) (\<lambda>run. retM (map_option cr_status run))"

end
