(* ===== verification/Connector_Routes.thy ===== *)
theory Connector_Routes
  imports Connector_Config Worker
begin

text \<open>
  \<^verbatim>\<open>src/src/rocket_routes/connectors/routes.rs\<close> and the responses of
  \<^verbatim>\<open>src/src/rocket_routes/connectors/types.rs\<close>: the administration of connectors and of their configurations, the
  runs an administrator starts, retries and cancels, and the imports that are posted to the portal.

  A handler runs on its own connection outside a transaction, as in \<open>Catalog\<close>: every call is followed by
  steps of other processes. The number drawn before a configuration is encrypted selects the random
  values of the nonces.
\<close>

section \<open>Responses\<close>

record ConnectorWorkerStatus =
  ws_worker :: ConnectorWorker
  ws_seconds_since_last_seen :: i64
  ws_is_stale :: bool

definition ConnectorWorkerStatus_from_worker :: "ConnectorWorker \<Rightarrow> utc \<Rightarrow> i64 \<Rightarrow> ConnectorWorkerStatus" where
  "ConnectorWorkerStatus_from_worker worker now stale_after_seconds =
     (let seconds_since_last_seen = max (num_seconds (now - cw_last_seen_at worker)) 0 in
      \<lparr>ws_worker = worker, ws_seconds_since_last_seen = seconds_since_last_seen,
       ws_is_stale = (seconds_since_last_seen > stale_after_seconds)\<rparr>)"

record ConnectorOperationsResponse =
  op_stale_after_seconds :: i64
  op_workers :: "ConnectorWorkerStatus list"
  op_maintenance_runs :: "MaintenanceRun list"

record ConnectorRunDetail =
  rd_run :: ConnectorRun
  rd_items :: "ConnectorRunItem list"
  rd_item_errors :: "ConnectorRunItemError list"
  rd_health_checks :: "ServiceHealthCheck list"

text \<open>A configuration as it is shown: the row with its secrets redacted.\<close>

definition ConnectorConfigResponse_from :: "crypto \<Rightarrow> ConnectorConfig \<Rightarrow> ConnectorConfig" where
  "ConnectorConfigResponse_from cx config = config\<lparr>cc_config := redact_connector_config cx (cc_config config)\<rparr>"

definition queued_response :: "ConnectorRun \<Rightarrow> ConnectorRunExecutionResponse" where
  "queued_response run = \<lparr>rr_source = cr_source run, rr_target = cr_target run, rr_imported = 0,
     rr_failed = 0, rr_run = run, rr_data = [], rr_items = [], rr_errors = [], rr_item_errors = []\<rparr>"

section \<open>Connectors\<close>

definition get_connectors :: "AuthenticatedUser \<Rightarrow> Connector list api" where
  "get_connectors auth =
     bindM (record_access_scope auth) (\<lambda>access.
     callM (ConnectorRepository_find_multiple_for_access 100 access))"

definition get_connector_operations :: "process_env \<Rightarrow> AuthenticatedUser \<Rightarrow> ConnectorOperationsResponse api" where
  "get_connector_operations vars auth =
     bindM (require_admin auth) (\<lambda>_.
     bindM utc_now (\<lambda>now.
     bindM (callM (ConnectorWorkerRepository_find_recent 20)) (\<lambda>workers.
     bindM (callM (MaintenanceRunRepository_find_recent 20 (Some ''retention_cleanup''))) (\<lambda>maintenance.
     let stale = connector_worker_stale_after_seconds vars in
     retM \<lparr>op_stale_after_seconds = stale,
           op_workers = map (\<lambda>w. ConnectorWorkerStatus_from_worker w now stale) workers,
           op_maintenance_runs = maintenance\<rparr>))))"

definition view_connector :: "AuthenticatedUser \<Rightarrow> string \<Rightarrow> Connector api" where
  "view_connector auth source =
     bindM (resultM (validate_source source)) (\<lambda>source.
     bindM (callM (ConnectorRepository_find_by_source source)) (\<lambda>connector.
     bindM (record_access_scope auth) (\<lambda>access.
     if \<not> allows access (cn_owner_user_id connector) (cn_maintainer_id connector) then throwM NotFound
     else retM connector)))"

text \<open>The owner of a scope must exist.\<close>

definition check_scope_owner :: "string \<Rightarrow> i32 option \<Rightarrow> i32 option \<Rightarrow> unit api" where
  "check_scope_owner scope_type owner_user_id maintainer_id =
     (if scope_type = ''user'' then
        (case owner_user_id of None \<Rightarrow> throwM BadRequest
         | Some u \<Rightarrow> bindM (callM (UserRepository_find u)) (\<lambda>_. retM ()))
      else if scope_type = ''maintainer'' then
        (case maintainer_id of None \<Rightarrow> throwM BadRequest
         | Some m \<Rightarrow> bindM (callM (MaintainerRepository_find m)) (\<lambda>_. retM ()))
      else retM ())"

definition json_option_int :: "i32 option \<Rightarrow> json" where
  "json_option_int v = (case v of Some i \<Rightarrow> JInt i | None \<Rightarrow> JNull)"

definition scope_metadata :: "Connector \<Rightarrow> (string \<times> json) list" where
  "scope_metadata c = [(''scope_type'', JString (cn_scope_type c)),
     (''owner_user_id'', json_option_int (cn_owner_user_id c)),
     (''maintainer_id'', json_option_int (cn_maintainer_id c))]"

definition create_connector :: "weblib \<Rightarrow> AuthenticatedUser \<Rightarrow> NewConnector \<Rightarrow> Connector api" where
  "create_connector wl auth connector =
     bindM (require_admin auth) (\<lambda>_.
     bindM (checked NewConnector_validate connector) (\<lambda>connector.
     bindM (check_scope_owner (cn_scope_type connector) (cn_owner_user_id connector) (cn_maintainer_id connector)) (\<lambda>_.
     bindM (callM (ConnectorRepository_create connector)) (\<lambda>connector.
     bindM (record_audit_entry wl auth ''create'' ''connector'' (cn_source connector)
              ([(''kind'', JString (cn_kind connector)), (''status'', JString (cn_status connector))]
               @ scope_metadata connector)) (\<lambda>_.
     retM connector)))))"

definition update_connector :: "weblib \<Rightarrow> AuthenticatedUser \<Rightarrow> string \<Rightarrow> ConnectorUpdate \<Rightarrow> Connector api" where
  "update_connector wl auth source connector =
     bindM (require_admin auth) (\<lambda>_.
     bindM (resultM (validate_source source)) (\<lambda>source.
     bindM (checked ConnectorUpdate_validate connector) (\<lambda>connector.
     bindM (callM (ConnectorRepository_update_by_source source connector)) (\<lambda>connector.
     bindM (record_audit_entry wl auth ''update'' ''connector'' (cn_source connector)
              [(''kind'', JString (cn_kind connector)), (''status'', JString (cn_status connector))]) (\<lambda>_.
     retM connector)))))"

definition update_connector_scope ::
    "weblib \<Rightarrow> AuthenticatedUser \<Rightarrow> string \<Rightarrow> ConnectorScopeUpdate \<Rightarrow> Connector api" where
  "update_connector_scope wl auth source scope =
     bindM (require_admin auth) (\<lambda>_.
     bindM (resultM (validate_source source)) (\<lambda>source.
     bindM (checked ConnectorScopeUpdate_validate scope) (\<lambda>scope.
     bindM (check_scope_owner (su_scope_type scope) (su_owner_user_id scope) (su_maintainer_id scope)) (\<lambda>_.
     bindM (callM (ConnectorRepository_find_by_source source)) (\<lambda>previous.
     bindM (callM (ConnectorRepository_update_scope source (su_scope_type scope) (su_owner_user_id scope)
              (su_maintainer_id scope))) (\<lambda>connector.
     bindM (record_audit_entry wl auth ''update_scope'' ''connector'' (cn_source connector)
              [(''previous'', JObject (scope_metadata previous)), (''current'', JObject (scope_metadata connector))]) (\<lambda>_.
     retM connector)))))))"

definition delete_connector :: "weblib \<Rightarrow> AuthenticatedUser \<Rightarrow> string \<Rightarrow> unit api" where
  "delete_connector wl auth source =
     bindM (require_admin auth) (\<lambda>_.
     bindM (resultM (validate_source source)) (\<lambda>source.
     bindM (callM (ConnectorRepository_delete_by_source source)) (\<lambda>_.
     record_audit_entry wl auth ''delete'' ''connector'' source [])))"

section \<open>Configurations\<close>

definition get_connector_config :: "crypto \<Rightarrow> AuthenticatedUser \<Rightarrow> string \<Rightarrow> ConnectorConfig api" where
  "get_connector_config cx auth source =
     bindM (require_admin auth) (\<lambda>_.
     bindM (resultM (validate_source source)) (\<lambda>source.
     bindM (callM (ConnectorConfigRepository_find_by_source source)) (\<lambda>config.
     retM (ConnectorConfigResponse_from cx config))))"

definition config_error :: "string + 'a \<Rightarrow> 'a api" where
  "config_error r = resultM (map_sum (validation_error ''config'') id r)"

definition existing_config :: "string \<Rightarrow> ConnectorConfig option api" where
  "existing_config source = handleM (stepM (ConnectorConfigRepository_find_by_source source))
     (\<lambda>e. if e = NotFoundError then retM None else throwM (api_error_of e)) (\<lambda>c. retM (Some c))"

definition upsert_connector_config ::
    "crypto \<Rightarrow> weblib \<Rightarrow> AuthenticatedUser \<Rightarrow> string \<Rightarrow> ConnectorConfigUpdate \<Rightarrow> ConnectorConfig api" where
  "upsert_connector_config cx wl auth source config =
     bindM (require_admin auth) (\<lambda>_.
     bindM (resultM (validate_source source)) (\<lambda>source.
     bindM (callM (ConnectorRepository_find_by_source source)) (\<lambda>_.
     bindM (existing_config source) (\<lambda>existing.
     bindM (checked (ConnectorConfigUpdate_validate cx) config) (\<lambda>config.
     bindM (config_error (preserve_redacted_connector_config cx (cf_config config)
              (map_option cc_config existing))) (\<lambda>preserved.
     bindM draw (\<lambda>k.
     bindM (config_error (fst (encrypt_connector_config cx preserved k))) (\<lambda>encrypted.
     bindM (callM (ConnectorConfigRepository_upsert_by_source source (config\<lparr>cf_config := encrypted\<rparr>))) (\<lambda>config.
     bindM (record_audit_entry wl auth ''upsert_config'' ''connector'' source
              [(''target'', JString (cc_target config)), (''enabled'', JBool (cc_enabled config)),
               (''schedule_cron'', case cc_schedule_cron config of Some s \<Rightarrow> JString s | None \<Rightarrow> JNull)]) (\<lambda>_.
     retM (ConnectorConfigResponse_from cx config)))))))))))"

section \<open>Runs\<close>

definition validate_opt :: "(string \<Rightarrow> ApiError + string) \<Rightarrow> string option \<Rightarrow> string option api" where
  "validate_opt v x = (case x of None \<Rightarrow> retM None | Some y \<Rightarrow> bindM (resultM (v y)) (\<lambda>z. retM (Some z)))"

definition get_connector_runs ::
    "AuthenticatedUser \<Rightarrow> string option \<Rightarrow> string option \<Rightarrow> ConnectorRun list api" where
  "get_connector_runs auth source target =
     bindM (require_admin auth) (\<lambda>_.
     bindM (validate_opt validate_source source) (\<lambda>source.
     bindM (validate_opt validate_target target) (\<lambda>target.
     callM (ConnectorRunRepository_find_multiple 100 source target))))"

definition get_connector_run :: "AuthenticatedUser \<Rightarrow> i32 \<Rightarrow> ConnectorRunDetail api" where
  "get_connector_run auth i =
     bindM (require_admin auth) (\<lambda>_.
     bindM (callM (ConnectorRunRepository_find i)) (\<lambda>run.
     bindM (callM (ConnectorRunItemRepository_find_by_run i)) (\<lambda>items.
     bindM (callM (ConnectorRunItemErrorRepository_find_by_run i)) (\<lambda>item_errors.
     bindM (callM (ServiceHealthCheckRepository_find_by_run i)) (\<lambda>health_checks.
     retM \<lparr>rd_run = run, rd_items = items, rd_item_errors = item_errors, rd_health_checks = health_checks\<rparr>)))))"

definition connector_run_is_retryable :: "string \<Rightarrow> bool" where
  "connector_run_is_retryable status \<longleftrightarrow> status \<in> set [''failed'', ''partial_success'', ''cancelled'']"

definition retry_connector_run ::
    "runtime \<Rightarrow> weblib \<Rightarrow> AuthenticatedUser \<Rightarrow> i32 \<Rightarrow> ConnectorRunExecutionResponse api" where
  "retry_connector_run rt wl auth i =
     bindM (require_admin auth) (\<lambda>_.
     bindM (callM (ConnectorRunRepository_find i)) (\<lambda>original.
     if \<not> connector_run_is_retryable (cr_status original)
     then throwM (validation_error ''status'' ''must be failed, partial_success, or cancelled'')
     else
     bindM (callM (ConnectorRepository_find_by_source (cr_source original))) (\<lambda>connector.
     if cn_status connector = ''paused'' then throwM (validation_error ''status'' ''is paused'')
     else
     bindM (if cr_payload original = None then
              bindM (callM (ConnectorConfigRepository_find_by_source (cr_source original))) (\<lambda>config.
              if \<not> cc_enabled config then throwM (validation_error ''enabled'' ''must be true'') else retM ())
            else retM ()) (\<lambda>_.
     bindM (stepM (create_queued_retry_run rt (cr_source original) (cr_target original) (cr_payload original)
              (cr_id original))) (\<lambda>run.
     bindM (record_audit_log wl auth ''retry'' ''connector_run'' (cr_id run)
              [(''source'', JString (cr_source run)), (''target'', JString (cr_target run)),
               (''original_run_id'', JInt (cr_id original))]) (\<lambda>_.
     retM (queued_response run)))))))"

definition cancel_connector_run :: "weblib \<Rightarrow> AuthenticatedUser \<Rightarrow> i32 \<Rightarrow> ConnectorRun api" where
  "cancel_connector_run wl auth i =
     bindM (require_admin auth) (\<lambda>_.
     bindM (callM (ConnectorRunRepository_find i)) (\<lambda>run.
     if cr_status run \<notin> set [''queued'', ''running'']
     then throwM (validation_error ''status'' ''must be queued or running'')
     else
     bindM (callM (ConnectorRunRepository_request_cancel i)) (\<lambda>cancelled.
     case cancelled of
       None \<Rightarrow> throwM (validation_error ''status'' ''must still be queued or running'')
     | Some run \<Rightarrow>
         bindM (record_audit_log wl auth ''cancel'' ''connector_run'' (cr_id run)
                  [(''source'', JString (cr_source run)), (''target'', JString (cr_target run)),
                   (''status'', JString (cr_status run)),
                   (''cancel_requested_at'', case cr_cancel_requested_at run of Some x \<Rightarrow> wl_time wl x | None \<Rightarrow> JNull)]) (\<lambda>_.
         retM run))))"

record ManualConnectorRunRequest =
  mq_mode :: string
  mq_target :: "string option"
  mq_payload :: "json option"

definition default_run_mode :: string where "default_run_mode = ''execute''"

definition ManualConnectorRunRequest_validate :: "ManualConnectorRunRequest \<Rightarrow> violations" where
  "ManualConnectorRunRequest_validate q = checks
     ([required ''mode'' (mq_mode q), max_len ''mode'' (mq_mode q) 32,
       one_of ''mode'' (mq_mode q) [''execute'', ''queue'']]
      @ (case mq_target q of None \<Rightarrow> []
         | Some t \<Rightarrow> [max_len ''target'' t 64, one_of ''target'' t connector_targets]))"

definition counts_metadata :: "ConnectorRunExecutionResponse \<Rightarrow> (string \<times> json) list" where
  "counts_metadata r = [(''source'', JString (rr_source r)), (''target'', JString (rr_target r)),
     (''status'', JString (cr_status (rr_run r))), (''success_count'', JInt (cr_success_count (rr_run r))),
     (''failure_count'', JInt (cr_failure_count (rr_run r)))]"

definition run_connector ::
    "runtime \<Rightarrow> weblib \<Rightarrow> AuthenticatedUser \<Rightarrow> string \<Rightarrow> ManualConnectorRunRequest \<Rightarrow>
     ConnectorRunExecutionResponse api" where
  "run_connector rt wl auth source request =
     bindM (require_admin auth) (\<lambda>_.
     bindM (resultM (validate_source source)) (\<lambda>source.
     bindM (callM (ConnectorRepository_find_by_source source)) (\<lambda>connector.
     bindM (callM (ConnectorConfigRepository_find_by_source source)) (\<lambda>config.
     bindM (checked ManualConnectorRunRequest_validate request) (\<lambda>request.
     bindM (case mq_target request of Some t \<Rightarrow> resultM (validate_target t) | None \<Rightarrow> retM (cc_target config)) (\<lambda>target.
     if cn_status connector = ''paused'' then throwM (validation_error ''status'' ''is paused'')
     else if \<not> cc_enabled config then throwM (validation_error ''enabled'' ''must be true'')
     else
       let payload = map_option (wl_show wl) (mq_payload request) in
       if mq_mode request = ''queue'' then
         bindM (stepM (create_queued_run rt source target ''manual'' payload)) (\<lambda>run.
         bindM (record_audit_log wl auth ''queue_run'' ''connector_run'' (cr_id run)
                  [(''source'', JString source), (''target'', JString target), (''trigger'', JString ''manual'')]) (\<lambda>_.
         retM ((queued_response run)\<lparr>rr_source := source, rr_target := target\<rparr>)))
       else
         bindM (stepM (create_running_run source target ''manual'' payload)) (\<lambda>run.
         bindM (execute_claimed_connector_run rt run) (\<lambda>response.
         bindM (record_audit_log wl auth ''run'' ''connector_run'' (cr_id (rr_run response))
                  (counts_metadata response)) (\<lambda>_.
         retM response)))))))))"

section \<open>Imports\<close>

text \<open>The four import handlers differ in their target, the items they execute and the audit entry.\<close>

definition import_records ::
    "weblib \<Rightarrow> AuthenticatedUser \<Rightarrow> string \<Rightarrow> string \<Rightarrow> (string \<Rightarrow> i32 \<Rightarrow> ConnectorExecution api) \<Rightarrow>
     (ConnectorRunExecutionResponse \<Rightarrow> (string \<times> json) list) \<Rightarrow> ConnectorRunExecutionResponse api" where
  "import_records wl auth source target execute metadata =
     bindM (require_admin auth) (\<lambda>_.
     bindM (resultM (validate_source source)) (\<lambda>source.
     bindM (stepM (create_running_run source target ''import'' None)) (\<lambda>run.
     bindM (handleM (stepM (api_transaction (
                bindM (execute source (cr_id run)) (finish_connector_run source target run))))
              (\<lambda>error.
                bindM (callM (ConnectorRunRepository_cancellation_requested (cr_id run))) (\<lambda>requested.
                if requested then settle_cancelled_connector_run (cr_id run) else throwM error))
              retM) (\<lambda>response.
     bindM (record_audit_log wl auth ''import'' ''connector_run'' (cr_id (rr_run response)) (metadata response)) (\<lambda>_.
     retM response)))))"

definition snapshot_metadata :: "ConnectorRunExecutionResponse \<Rightarrow> (string \<times> json) list" where
  "snapshot_metadata r = counts_metadata r
     @ [(''snapshot_complete'', case cr_snapshot_complete (rr_run r) of Some b \<Rightarrow> JBool b | None \<Rightarrow> JNull),
        (''archived_count'', JInt (cr_archived_count (rr_run r)))]"

definition import_calendar_events ::
    "runtime \<Rightarrow> weblib \<Rightarrow> AuthenticatedUser \<Rightarrow> string \<Rightarrow> CalendarEventImportItem ImportRequest \<Rightarrow>
     ConnectorRunExecutionResponse api" where
  "import_calendar_events rt wl auth source request = import_records wl auth source ''calendar_events''
     (\<lambda>source run_id. execute_calendar_event_items rt source run_id (rq_items request) (rq_snapshot_complete request))
     snapshot_metadata"

definition import_work_cards ::
    "runtime \<Rightarrow> weblib \<Rightarrow> AuthenticatedUser \<Rightarrow> string \<Rightarrow> WorkCardImportItem ImportRequest \<Rightarrow>
     ConnectorRunExecutionResponse api" where
  "import_work_cards rt wl auth source request = import_records wl auth source ''work_cards''
     (\<lambda>source run_id. execute_work_card_items rt source run_id (rq_items request) (rq_snapshot_complete request))
     snapshot_metadata"

definition import_notifications ::
    "runtime \<Rightarrow> weblib \<Rightarrow> AuthenticatedUser \<Rightarrow> string \<Rightarrow> NotificationImportItem ImportRequest \<Rightarrow>
     ConnectorRunExecutionResponse api" where
  "import_notifications rt wl auth source request = import_records wl auth source ''notifications''
     (\<lambda>source run_id. execute_notification_items rt source run_id (rq_items request) (rq_snapshot_complete request))
     snapshot_metadata"

definition import_service_health ::
    "runtime \<Rightarrow> weblib \<Rightarrow> AuthenticatedUser \<Rightarrow> string \<Rightarrow> ServiceHealthImportItem list \<Rightarrow>
     ConnectorRunExecutionResponse api" where
  "import_service_health rt wl auth source items = import_records wl auth source ''service_health''
     (\<lambda>source run_id. execute_service_health_items rt source run_id items) counts_metadata"

section \<open>All the requests\<close>

datatype connector_request =
    CreateConnector NewConnector | UpdateConnector string ConnectorUpdate
  | UpdateConnectorScope string ConnectorScopeUpdate | DeleteConnector string
  | UpsertConfig string ConnectorConfigUpdate | RetryRun i32 | CancelRun i32
  | RunConnector string ManualConnectorRunRequest
  | ImportCalendar string "CalendarEventImportItem ImportRequest"
  | ImportWorkCards string "WorkCardImportItem ImportRequest"
  | ImportNotifications string "NotificationImportItem ImportRequest"
  | ImportServiceHealth string "ServiceHealthImportItem list"

fun handle_connector :: "runtime \<Rightarrow> weblib \<Rightarrow> AuthenticatedUser \<Rightarrow> connector_request \<Rightarrow> unit api" where
  "handle_connector rt wl auth (CreateConnector n) = discard (create_connector wl auth n)"
| "handle_connector rt wl auth (UpdateConnector s u) = discard (update_connector wl auth s u)"
| "handle_connector rt wl auth (UpdateConnectorScope s u) = discard (update_connector_scope wl auth s u)"
| "handle_connector rt wl auth (DeleteConnector s) = delete_connector wl auth s"
| "handle_connector rt wl auth (UpsertConfig s c) = discard (upsert_connector_config (rt_cx rt) wl auth s c)"
| "handle_connector rt wl auth (RetryRun i) = discard (retry_connector_run rt wl auth i)"
| "handle_connector rt wl auth (CancelRun i) = discard (cancel_connector_run wl auth i)"
| "handle_connector rt wl auth (RunConnector s q) = discard (run_connector rt wl auth s q)"
| "handle_connector rt wl auth (ImportCalendar s q) = discard (import_calendar_events rt wl auth s q)"
| "handle_connector rt wl auth (ImportWorkCards s q) = discard (import_work_cards rt wl auth s q)"
| "handle_connector rt wl auth (ImportNotifications s q) = discard (import_notifications rt wl auth s q)"
| "handle_connector rt wl auth (ImportServiceHealth s q) = discard (import_service_health rt wl auth s q)"

end
