(* ===== verification/Connector_OAuth.thy ===== *)
theory Connector_OAuth
  imports Connector_Routes Graph_Adapters
begin

text \<open>
  \<^verbatim>\<open>src/src/rocket_routes/connectors/oauth.rs\<close>: an administrator connects a connector to Microsoft Graph. The
  first request stores a pending state in the configuration of the connector and returns the URL of the
  authorization page; the callback exchanges the code for tokens and stores them in the configuration.

  The client of \<^verbatim>\<open>reqwest\<close>, the JSON forms of the state and of the answer, base64, random values and the
  RFC 3339 form of times are fields of \<open>oauthlib\<close>; a request over HTTP and a random value get a number of
  their own. URL encoding is that of \<open>Adapter_Shared\<close>: \<^verbatim>\<open>append_query_params\<close> and \<^verbatim>\<open>encode_url_component\<close> have
  the same text in both files. Times have no bounds, as elsewhere.
\<close>

section \<open>Data\<close>

record MicrosoftTokenResponse =
  mt_access_token :: "string option"
  mt_token_type :: "string option"
  mt_expires_in :: "i64 option"
  mt_refresh_token :: "string option"
  mt_scope :: "string option"
  mt_error :: "string option"
  mt_error_description :: "string option"

record MicrosoftOAuthState =
  os_source :: string
  os_nonce :: string
  os_issued_at :: string

record MicrosoftOAuthAuthorizeRequest =
  oq_redirect_uri :: string
  oq_prompt :: "string option"

record MicrosoftOAuthAuthorizeResponse =
  oz_authorization_url :: string
  oz_state :: string
  oz_redirect_uri :: string
  oz_scope :: string
  oz_expires_at :: utc

record MicrosoftOAuthCallbackRequest =
  ob_code :: "string option"
  ob_state :: string
  ob_redirect_uri :: string
  ob_error :: "string option"
  ob_error_description :: "string option"

record MicrosoftOAuthCallbackResponse =
  oy_source :: string
  oy_config :: ConnectorConfig

record oauthlib =
  oa_cx :: crypto
  oa_client :: "string + unit"
  oa_post :: "nat \<Rightarrow> string \<Rightarrow> (string \<times> string) list \<Rightarrow> string + http_answer"
  oa_token_response :: "string \<Rightarrow> string + MicrosoftTokenResponse"
  oa_uuid :: "nat \<Rightarrow> string"
  oa_b64 :: "string \<Rightarrow> string"
  oa_unb64 :: "string \<Rightarrow> string option"
  oa_print_state :: "MicrosoftOAuthState \<Rightarrow> string + string"
  oa_parse_state :: "string \<Rightarrow> MicrosoftOAuthState option"
  oa_rfc3339 :: "string \<Rightarrow> utc option"
  oa_show_secs :: "utc \<Rightarrow> string"

definition redirect_checks :: "string \<Rightarrow> (violations \<Rightarrow> violations) list" where
  "redirect_checks uri =
     [required ''redirect_uri'' uri, max_len ''redirect_uri'' uri 512,
      push_if (\<not> absolute_http uri) ''redirect_uri'' ''must be an absolute HTTP URL'']"

definition MicrosoftOAuthAuthorizeRequest_validate :: "MicrosoftOAuthAuthorizeRequest \<Rightarrow> violations" where
  "MicrosoftOAuthAuthorizeRequest_validate r =
     checks (redirect_checks (oq_redirect_uri r) @ [max_optional_len ''prompt'' (oq_prompt r) 64])"

definition MicrosoftOAuthCallbackRequest_validate :: "MicrosoftOAuthCallbackRequest \<Rightarrow> violations" where
  "MicrosoftOAuthCallbackRequest_validate r =
     checks ([required ''state'' (ob_state r), max_len ''state'' (ob_state r) 1024]
       @ redirect_checks (ob_redirect_uri r)
       @ [max_optional_len ''code'' (ob_code r) 8192, max_optional_len ''error'' (ob_error r) 256,
          max_optional_len ''error_description'' (ob_error_description r) 2048])"

section \<open>Reading a configuration\<close>

definition config_field :: "json \<Rightarrow> string list \<Rightarrow> string option" where
  "config_field config names =
     filter_option (\<lambda>v. v \<noteq> []) (Option.bind (field_value config names) (\<lambda>v. case v of
       JString s \<Rightarrow> Some (trim s) | JInt n \<Rightarrow> Some (show_int n) | JFloat t \<Rightarrow> Some t | _ \<Rightarrow> None))"

definition graph_tenant :: "json \<Rightarrow> string" where
  "graph_tenant config = unwrap_or (config_field config [''tenant_id'', ''tenant'', ''directory_id'']) ''organizations''"

definition microsoft_authorization_url :: "json \<Rightarrow> string" where
  "microsoft_authorization_url config =
     (case config_field config [''authorization_url'', ''authorize_url'', ''oauth_authorize_url''] of
        Some u \<Rightarrow> u
      | None \<Rightarrow> ''https://login.microsoftonline.com/'' @ encode_url_component (graph_tenant config)
          @ ''/oauth2/v2.0/authorize'')"

definition microsoft_token_url :: "json \<Rightarrow> string" where
  "microsoft_token_url config =
     (case config_field config [''token_url'', ''oauth_token_url''] of
        Some u \<Rightarrow> u
      | None \<Rightarrow> ''https://login.microsoftonline.com/'' @ encode_url_component (graph_tenant config)
          @ ''/oauth2/v2.0/token'')"

definition default_scope_for_adapter :: "string \<Rightarrow> string option" where
  "default_scope_for_adapter adapter =
     (if adapter \<in> set [''microsoft_graph_calendar'', ''graph_calendar'', ''outlook_calendar'']
      then Some ''https://graph.microsoft.com/Calendars.Read offline_access''
      else if adapter \<in> set [''microsoft_graph_mail'', ''graph_mail'', ''outlook_mail'']
      then Some ''https://graph.microsoft.com/Mail.Read offline_access''
      else None)"

definition oauth_scope :: "json \<Rightarrow> string option" where
  "oauth_scope config =
     or_else (config_field config [''scope'', ''scopes''])
       (filter_option (\<lambda>v. v \<noteq> [])
          (map_option (\<lambda>xs. join_str '' '' (filter (\<lambda>v. v \<noteq> []) (map trim (List.map_filter json_as_str xs))))
             (Option.bind (json_get ''scopes'' config) json_as_array)))"

definition require_http_url :: "string \<Rightarrow> string \<Rightarrow> unit api" where
  "require_http_url field value =
     (if absolute_http value then retM () else throwM (validation_error field ''must be an absolute HTTP URL''))"

text \<open>\<^verbatim>\<open>ok_or_else(|| validation_error(field, message))\<close> and \<^verbatim>\<open>map_err(|e| validation_error_dynamic(field, e))\<close>.\<close>

definition needM :: "'a option \<Rightarrow> string \<Rightarrow> string \<Rightarrow> 'a api" where
  "needM x field message = (case x of Some v \<Rightarrow> retM v | None \<Rightarrow> throwM (validation_error field message))"

definition refuse_with :: "string \<Rightarrow> string + 'a \<Rightarrow> 'a api" where
  "refuse_with field r = resultM (map_sum (validation_error field) id r)"

definition decrypt_config_json :: "crypto \<Rightarrow> string \<Rightarrow> json api" where
  "decrypt_config_json cx config =
     bindM (config_error (decrypt_connector_config cx config)) (\<lambda>config. config_error (cx_parse cx config))"

definition encrypt_connector_config_json :: "crypto \<Rightarrow> json \<Rightarrow> string api" where
  "encrypt_connector_config_json cx config =
     bindM (config_error (cx_print cx config)) (\<lambda>config.
     bindM draw (\<lambda>k. config_error (fst (encrypt_connector_config cx config k))))"

text \<open>The scope to ask for, after the adapter has been found.\<close>

definition requested_scope :: "json \<Rightarrow> string api" where
  "requested_scope config =
     bindM (needM (config_field config [''adapter'']) ''config''
              ''must set adapter to microsoft_graph_calendar or microsoft_graph_mail'') (\<lambda>adapter_name.
     bindM (needM (default_scope_for_adapter adapter_name) ''config''
              ''adapter must be microsoft_graph_calendar or microsoft_graph_mail'') (\<lambda>default_scope.
     retM (unwrap_or (oauth_scope config) default_scope)))"

section \<open>The state\<close>

definition encode_oauth_state :: "oauthlib \<Rightarrow> string \<Rightarrow> string api" where
  "encode_oauth_state oa source =
     bindM draw (\<lambda>k.
     bindM utc_now (\<lambda>now.
     bindM (refuse_with ''state'' (oa_print_state oa
              \<lparr>os_source = source, os_nonce = oa_uuid oa k, os_issued_at = oa_show_secs oa now\<rparr>)) (\<lambda>encoded.
     retM (oa_b64 oa encoded))))"

definition decode_oauth_state :: "oauthlib \<Rightarrow> string \<Rightarrow> MicrosoftOAuthState option" where
  "decode_oauth_state oa state = Option.bind (oa_unb64 oa state) (oa_parse_state oa)"

definition validate_pending_oauth_state :: "oauthlib \<Rightarrow> json \<Rightarrow> string \<Rightarrow> string \<Rightarrow> unit api" where
  "validate_pending_oauth_state oa config state redirect_uri =
     bindM (needM (config_field config [''oauth_state'']) ''state'' ''does not match a pending OAuth connection'')
       (\<lambda>stored_state.
     if stored_state \<noteq> state then throwM (validation_error ''state'' ''does not match a pending OAuth connection'')
     else
       bindM (needM (config_field config [''oauth_redirect_uri'']) ''redirect_uri'' ''does not match pending OAuth state'')
         (\<lambda>stored_redirect_uri.
       if stored_redirect_uri \<noteq> redirect_uri
       then throwM (validation_error ''redirect_uri'' ''does not match pending OAuth state'')
       else
         bindM (needM (Option.bind (config_field config [''oauth_state_expires_at'']) (oa_rfc3339 oa)) ''state''
                  ''is missing or has expired'') (\<lambda>expires_at.
         bindM utc_now (\<lambda>now.
         if expires_at \<le> now then throwM (validation_error ''state'' ''has expired'') else retM ()))))"

definition pending_members ::
    "string \<Rightarrow> string \<Rightarrow> string \<Rightarrow> (string \<times> json) list \<Rightarrow> (string \<times> json) list" where
  "pending_members state expires_at redirect_uri ms =
     AList.delete ''oauth_last_error''
       (put_string ''oauth_redirect_uri'' redirect_uri
         (put_string ''oauth_state_expires_at'' expires_at
           (put_string ''oauth_state'' state (put_string ''oauth_provider'' ''microsoft'' ms))))"

section \<open>The first request\<close>

definition start_microsoft_oauth ::
    "oauthlib \<Rightarrow> weblib \<Rightarrow> AuthenticatedUser \<Rightarrow> string \<Rightarrow> MicrosoftOAuthAuthorizeRequest \<Rightarrow>
     MicrosoftOAuthAuthorizeResponse api" where
  "start_microsoft_oauth oa wl auth source request =
     bindM (require_admin auth) (\<lambda>_.
     bindM (resultM (validate_source source)) (\<lambda>source.
     bindM (checked MicrosoftOAuthAuthorizeRequest_validate request) (\<lambda>request.
     bindM (callM (ConnectorRepository_find_by_source source)) (\<lambda>_.
     bindM (callM (ConnectorConfigRepository_find_by_source source)) (\<lambda>config.
     bindM (decrypt_config_json (oa_cx oa) (cc_config config)) (\<lambda>config_value.
     bindM (requested_scope config_value) (\<lambda>scope.
     bindM (needM (config_field config_value [''client_id'', ''application_id'', ''app_id'']) ''config''
              ''must set client_id before OAuth connect'') (\<lambda>client_id.
     let authorization_url = microsoft_authorization_url config_value in
     bindM (require_http_url ''authorization_url'' authorization_url) (\<lambda>_.
     bindM (encode_oauth_state oa source) (\<lambda>state.
     bindM utc_now (\<lambda>now.
     let expires_at = now + seconds 600;
         redirect_uri = oq_redirect_uri request;
         authorization_url = append_query_params authorization_url
           [(''client_id'', client_id), (''response_type'', ''code''), (''redirect_uri'', redirect_uri),
            (''response_mode'', ''query''), (''scope'', scope), (''state'', state),
            (''prompt'', unwrap_or (given (oq_prompt request)) ''select_account'')] in
     bindM (needM (json_as_object config_value) ''config'' ''must be a JSON object'') (\<lambda>members.
     bindM (encrypt_connector_config_json (oa_cx oa)
              (JObject (pending_members state (oa_show_secs oa expires_at) redirect_uri members))) (\<lambda>encrypted_config.
     bindM (callM (ConnectorConfigRepository_update_config source encrypted_config)) (\<lambda>_.
     bindM (record_audit_entry wl auth ''oauth_authorize'' ''connector'' source
              [(''provider'', JString ''microsoft''), (''scope'', JString scope)]) (\<lambda>_.
     retM \<lparr>oz_authorization_url = authorization_url, oz_state = state, oz_redirect_uri = redirect_uri,
           oz_scope = scope, oz_expires_at = expires_at\<rparr>)))))))))))))))"

section \<open>The callback\<close>

definition returned_error :: "string option \<Rightarrow> string option \<Rightarrow> string option" where
  "returned_error error description =
     map_option (\<lambda>e. e @ '': '' @ unwrap_or (given description) ''no error description'') (given error)"

definition refuse_error :: "string \<Rightarrow> string option \<Rightarrow> string option \<Rightarrow> unit api" where
  "refuse_error who error description =
     (case returned_error error description of
        Some e \<Rightarrow> throwM (validation_error ''oauth'' (who @ '' returned '' @ e))
      | None \<Rightarrow> retM ())"

definition exchange_authorization_code ::
    "oauthlib \<Rightarrow> string \<Rightarrow> string \<Rightarrow> string option \<Rightarrow> string \<Rightarrow> string \<Rightarrow> string \<Rightarrow> MicrosoftTokenResponse api" where
  "exchange_authorization_code oa token_url client_id client_secret code redirect_uri scope =
     bindM (refuse_with ''oauth'' (oa_client oa)) (\<lambda>_.
     let form = [(''client_id'', client_id), (''grant_type'', ''authorization_code''), (''code'', code),
           (''redirect_uri'', redirect_uri), (''scope'', scope)]
         @ (case client_secret of Some x \<Rightarrow> [(''client_secret'', x)] | None \<Rightarrow> []) in
     bindM outside_call (\<lambda>n.
     bindM (refuse_with ''oauth'' (oa_post oa n token_url form)) (\<lambda>answer.
     let body = text_or_empty answer in
     if \<not> ha_success answer
     then throwM (validation_error ''oauth''
       (''Microsoft token endpoint returned '' @ ha_status answer @ '': '' @ body))
     else
       bindM (refuse_with ''oauth'' (map_err (\<lambda>e. ''Microsoft token response was not valid JSON: '' @ e)
                (oa_token_response oa body))) (\<lambda>token_response.
       bindM (refuse_error ''Microsoft token endpoint'' (mt_error token_response)
                (mt_error_description token_response)) (\<lambda>_.
       retM token_response)))))"

definition connected_members ::
    "MicrosoftTokenResponse \<Rightarrow> string \<Rightarrow> string \<Rightarrow> string \<Rightarrow> string \<Rightarrow> (string \<times> json) list \<Rightarrow> (string \<times> json) list" where
  "connected_members r access_token refresh_token expires_at now ms =
     fold AList.delete [''oauth_state'', ''oauth_state_expires_at'', ''oauth_redirect_uri'', ''oauth_last_error'']
       (put_given ''scope'' (mt_scope r)
         (put_given ''token_type'' (mt_token_type r)
           (put_string ''oauth_connected_at'' now
             (put_string ''token_refreshed_at'' now
               (put_string ''access_token_expires_at'' expires_at
                 (put_string ''refresh_token'' refresh_token (put_string ''access_token'' access_token ms)))))))"

definition apply_token_response :: "oauthlib \<Rightarrow> json \<Rightarrow> MicrosoftTokenResponse \<Rightarrow> json api" where
  "apply_token_response oa config r =
     bindM (needM (given (mt_access_token r)) ''oauth'' ''token response did not include access_token'') (\<lambda>access_token.
     bindM (needM (given (mt_refresh_token r)) ''oauth''
              ''token response did not include refresh_token; confirm offline_access was consented'') (\<lambda>refresh_token.
     let expires_in = max (unwrap_or (mt_expires_in r) 3600) 60 in
     bindM utc_now (\<lambda>now.
     bindM (needM (json_as_object config) ''config'' ''must be a JSON object'') (\<lambda>members.
     retM (JObject (connected_members r access_token refresh_token
       (oa_show_secs oa (now + seconds expires_in)) (oa_show_secs oa now) members))))))"

definition finish_microsoft_oauth ::
    "oauthlib \<Rightarrow> weblib \<Rightarrow> AuthenticatedUser \<Rightarrow> MicrosoftOAuthCallbackRequest \<Rightarrow> MicrosoftOAuthCallbackResponse api" where
  "finish_microsoft_oauth oa wl auth request =
     bindM (require_admin auth) (\<lambda>_.
     bindM (checked MicrosoftOAuthCallbackRequest_validate request) (\<lambda>request.
     bindM (refuse_error ''Microsoft OAuth'' (ob_error request) (ob_error_description request)) (\<lambda>_.
     bindM (needM (given (ob_code request)) ''code'' ''is required'') (\<lambda>code.
     bindM (needM (decode_oauth_state oa (ob_state request)) ''state'' ''is invalid'') (\<lambda>state.
     bindM (resultM (validate_source (os_source state))) (\<lambda>source.
     bindM (callM (ConnectorRepository_find_by_source source)) (\<lambda>_.
     bindM (callM (ConnectorConfigRepository_find_by_source source)) (\<lambda>config.
     bindM (decrypt_config_json (oa_cx oa) (cc_config config)) (\<lambda>config_value.
     bindM (validate_pending_oauth_state oa config_value (ob_state request) (ob_redirect_uri request)) (\<lambda>_.
     bindM (needM (config_field config_value [''client_id'', ''application_id'', ''app_id'']) ''config''
              ''must set client_id before OAuth callback'') (\<lambda>client_id.
     bindM (requested_scope config_value) (\<lambda>scope.
     let token_url = microsoft_token_url config_value in
     bindM (require_http_url ''token_url'' token_url) (\<lambda>_.
     bindM (exchange_authorization_code oa token_url client_id (config_field config_value [''client_secret'']) code
              (ob_redirect_uri request) scope) (\<lambda>token_response.
     bindM (apply_token_response oa config_value token_response) (\<lambda>config_value.
     bindM (encrypt_connector_config_json (oa_cx oa) config_value) (\<lambda>encrypted_config.
     bindM (callM (ConnectorConfigRepository_update_config source encrypted_config)) (\<lambda>config.
     bindM (record_audit_entry wl auth ''oauth_connect'' ''connector'' source
              [(''provider'', JString ''microsoft'')]) (\<lambda>_.
     retM \<lparr>oy_source = source, oy_config = ConnectorConfigResponse_from (oa_cx oa) config\<rparr>))))))))))))))))))"

end
