(* ===== verification/Run_Execution.thy ===== *)
theory Run_Execution
  imports Runtime
begin

text \<open>
  The runtime keeps the contract of the run queue: creating, executing, settling and cancelling a run
  are \<open>run_operation\<close>s, whatever the adapters answer, whatever the server refuses, and whatever the
  other processes do within the same contract.
\<close>

section \<open>Computations that leave the queue alone\<close>

named_theorems spares_rule \<open>computations that leave the table of runs alone\<close>

lemma spares_basic [spares_rule]:
  "spares_runs (retM x)" "spares_runs (throwM e)" "spares_runs (expect_row r)" "spares_runs (resultM q)"
  "spares_runs (select_stmt f)" "spares_runs utc_now"
  unfolding spares_runs_def by (intro allI keeps_rule)+

lemma spares_bind [spares_rule]:
  "spares_runs m \<Longrightarrow> (\<And>x. spares_runs (f x)) \<Longrightarrow> spares_runs (bindM m f)"
  unfolding spares_runs_def by (blast intro: keeps_rule)

lemma spares_handle [spares_rule]:
  "spares_runs m \<Longrightarrow> (\<And>e. spares_runs (h e)) \<Longrightarrow> (\<And>x. spares_runs (f x)) \<Longrightarrow>
   spares_runs (handleM m h f)"
  unfolding spares_runs_def by (blast intro: keeps_rule)

lemma spares_wrap [spares_rule]:
  "spares_runs m \<Longrightarrow> spares_runs (liftM m)" "spares_runs m \<Longrightarrow> spares_runs (optionalM m)"
  "spares_runs m \<Longrightarrow> spares_runs (query_transaction m)"
  unfolding spares_runs_def by (blast intro: keeps_rule)+

lemma spares_foldM [spares_rule]:
  "(\<And>x acc. spares_runs (f x acc)) \<Longrightarrow> spares_runs (foldM f xs acc)"
  unfolding spares_runs_def by (blast intro: keeps_foldM)

lemma spares_if [spares_rule]:
  "spares_runs m \<Longrightarrow> spares_runs n \<Longrightarrow> spares_runs (if b then m else n)"
  by simp

lemma spares_case_option [spares_rule]:
  "spares_runs m \<Longrightarrow> (\<And>x. spares_runs (f x)) \<Longrightarrow>
   spares_runs (case r of None \<Rightarrow> m | Some x \<Rightarrow> f x)"
  by (cases r) simp_all

lemma spares_case_sum [spares_rule]:
  "(\<And>e. spares_runs (h e)) \<Longrightarrow> (\<And>x. spares_runs (f x)) \<Longrightarrow>
   spares_runs (case r of Inl e \<Rightarrow> h e | Inr x \<Rightarrow> f x)"
  by (cases r) simp_all

definition other_table :: "(('r table \<Rightarrow> 'r table) \<Rightarrow> tables \<Rightarrow> tables) \<Rightarrow> bool" where
  "other_table upd \<longleftrightarrow> (\<forall>f t. connector_runs (upd f t) = connector_runs t)"

lemma other_tables [spares_rule]:
  "other_table connectors_update" "other_table connector_configs_update"
  "other_table connector_run_items_update" "other_table connector_run_item_errors_update"
  "other_table calendar_events_update" "other_table work_cards_update"
  "other_table notifications_update" "other_table services_update"
  "other_table service_health_checks_update" "other_table connector_workers_update"
  "other_table maintenance_runs_update" "other_table audit_logs_update"
  by (simp_all add: other_table_def)

lemma spares_stmts [spares_rule]:
  "other_table upd \<Longrightarrow> spares_runs (insert_stmt get upd chk mk)"
  "other_table upd \<Longrightarrow> spares_runs (update_stmt get upd chk p f)"
  "other_table upd \<Longrightarrow> spares_runs (upsert_stmt get upd chk c mk f)"
  "other_table upd \<Longrightarrow> spares_runs (stmt (insert_rows get upd chk mks))"
  unfolding spares_runs_def other_table_def
  by (auto intro!: keeps_insert_stmt keeps_update_stmt keeps_upsert_stmt keeps_insert_rows)

lemma spares_rows [spares_rule]:
  "spares_runs (find_keyed get p)"
  "other_table upd \<Longrightarrow> spares_runs (create_row get upd chk mk)"
  "other_table upd \<Longrightarrow> spares_runs (update_row get upd chk rid created mk i)"
  "other_table upd \<Longrightarrow> spares_runs (archive_rows get upd chk stale arch)"
  unfolding find_keyed_def create_row_def update_row_def archive_rows_def comp_def
  by (intro spares_rule; assumption)+

lemma spares_repositories [spares_rule]:
  "spares_runs (ConnectorRepository_find_by_source source)"
  "spares_runs (ConnectorConfigRepository_find_by_source source)"
  "spares_runs (ConnectorRepository_find_or_create_default source kind)"
  "spares_runs (ConnectorRepository_touch_run_state source kind status finished)"
  "spares_runs (ConnectorConfigRepository_update_config source config)"
  "spares_runs (ConnectorConfigRepository_mark_scheduled source at interval run)"
  "spares_runs (ConnectorRunRepository_find i)"
  "spares_runs (ConnectorRunRepository_execution_is_active i w)"
  "spares_runs (ConnectorRunRepository_cancellation_requested i)"
  "spares_runs (ConnectorRunRepository_has_pending source target)"
  "spares_runs (ConnectorRunItemErrorRepository_create_many es)"
  "spares_runs (ConnectorRunItemRepository_create_many is)"
  unfolding ConnectorRepository_find_by_source_def ConnectorConfigRepository_find_by_source_def
    ConnectorRepository_find_or_create_default_def ConnectorRepository_touch_run_state_def
    ConnectorConfigRepository_update_config_def ConnectorConfigRepository_mark_scheduled_def
    ConnectorRunRepository_find_def ConnectorRunRepository_execution_is_active_def
    ConnectorRunRepository_cancellation_requested_def ConnectorRunRepository_has_pending_def
    ConnectorRunItemErrorRepository_create_many_def ConnectorRunItemRepository_create_many_def
    Let_def comp_def
  by (intro spares_rule)+

lemma spares_records [spares_rule]:
  "spares_runs (CalendarEventRepository_upsert_from_connector e)"
  "spares_runs (WorkCardRepository_upsert_from_connector w)"
  "spares_runs (NotificationRepository_upsert_from_connector n)"
  "spares_runs (ServiceRepository_upsert_from_connector_with_health_check v i raw)"
  "spares_runs (CalendarEventRepository_archive_missing_for_connector_run c i)"
  "spares_runs (WorkCardRepository_archive_missing_for_connector_run c i)"
  "spares_runs (NotificationRepository_archive_missing_for_connector_run c i)"
  unfolding CalendarEventRepository_upsert_from_connector_def
    CalendarEventRepository_find_by_source_external_id_def CalendarEventRepository_create_def
    CalendarEventRepository_update_def WorkCardRepository_upsert_from_connector_def
    WorkCardRepository_find_by_source_external_id_def WorkCardRepository_create_def
    WorkCardRepository_update_def NotificationRepository_upsert_from_connector_def
    NotificationRepository_find_by_source_external_id_def NotificationRepository_create_def
    NotificationRepository_update_def ServiceRepository_upsert_from_connector_with_health_check_def
    ServiceRepository_create_def ServiceRepository_update_def
    ServiceHealthCheckRepository_create_def
    CalendarEventRepository_archive_missing_for_connector_run_def
    WorkCardRepository_archive_missing_for_connector_run_def
    NotificationRepository_archive_missing_for_connector_run_def Let_def
  by (intro spares_rule)+

lemma spares_import_item [spares_rule]:
  "(\<And>n. spares_runs (upsert n)) \<Longrightarrow> spares_runs (import_item e raw v upsert ext rid js acc)"
  unfolding import_item_def by (intro spares_rule) (auto intro: spares_rule)

lemma spares_execute_payload [spares_rule]:
  "spares_runs (execute_payload_for_target rt source target i payload)"
  unfolding execute_payload_for_target_def execute_calendar_event_items_def
    execute_work_card_items_def execute_notification_items_def execute_service_health_items_def
    import_calendar_item_def import_work_card_item_def import_notification_item_def
    import_service_item_def reconcile_def Let_def prod.case
  by (intro spares_rule)

section \<open>The contract\<close>

named_theorems after_rule \<open>computations that keep to the contract of the run queue\<close>

lemmas after_basic [after_rule] = keeps_rule

lemma after_spares [after_rule]: "spares_runs m \<Longrightarrow> keeps env (runs_after t0) m"
  by (rule spares_runs_after)

lemma after_step [after_rule]:
  assumes "rely env" and "keeps env (runs_after t0) m"
  shows "keeps env (runs_after t0) (stepM m)"
proof (rule keepsI)
  fix s r s' assume a: "runs_after t0 (tabs s)" and run: "stepM m env s = (r, s')"
  obtain x s1 where m: "m env s = (x, s1)" by force
  have "runs_after t0 (tabs s1)" using keepsD [OF assms(2) a m] .
  moreover have "tabs s' = env_other env (tick s1) (tabs s1)"
    using run m by (auto simp: stepM_def)
  ultimately show "runs_after t0 (tabs s')"
    using assms(1) unfolding runs_after_def rely_def by (metis runs_evolves_inv rtranclp_trans)
qed

lemma after_outside_call [after_rule]: "rely env \<Longrightarrow> keeps env (runs_after t0) outside_call"
  unfolding outside_call_def runs_after_def rely_def
  by (rule keepsI) (auto intro: rtranclp_trans runs_evolves_inv)

text \<open>A new run is born queued with attempts left, or running for the handler that created it.\<close>

lemma max_attempts_positive: "0 < configured_connector_run_max_attempts var"
  by (auto simp: configured_connector_run_max_attempts_def split: option.splits)

lemma queued_run_born: "born_new (queued_run rt source target trigger payload parent started)"
  using max_attempts_positive [of "rt_max_attempts_var rt"]
  by (simp add: born_new_def born_def queued_run_def run_ok_def run_is_active_def run_statuses_def
      NewConnectorRun.extend_def ConnectorRun.fields_def)

lemma running_run_born: "born_new (running_run source target trigger payload started)"
  by (simp add: born_new_def born_def running_run_def run_ok_def run_is_active_def run_statuses_def
      NewConnectorRun.extend_def ConnectorRun.fields_def)

lemma lock_connector_pure: "pureM (lock_connector source)"
  by (simp add: lock_connector_def ConnectorRepository_find_by_source_def)

lemma find_run_pure: "pureM (ConnectorRunRepository_find i)"
  by (simp add: ConnectorRunRepository_find_def)

lemma after_create [after_rule]:
  "born_new n \<Longrightarrow> keeps env (runs_after t0) (ConnectorRunRepository_create_if_no_pending n)"
  unfolding ConnectorRunRepository_create_if_no_pending_def
  by (rule keeps_after_transaction) (rule create_body_evolves [OF _ lock_connector_pure])

lemma bindM_assoc: "bindM (bindM m f) g = bindM m (\<lambda>x. bindM (f x) g)"
  by (auto simp: bindM_def fun_eq_iff split: prod.splits sum.splits)

lemma after_create_retry [after_rule]:
  assumes "born_new n"
  shows "keeps env (runs_after t0) (ConnectorRunRepository_create_retry parent n)"
proof -
  have "bindM (lock_connector (cr_source n)) (\<lambda>_. bindM (ConnectorRunRepository_find parent)
      (\<lambda>_. insert_unless_pending n))
    = bindM (bindM (lock_connector (cr_source n)) (\<lambda>_. ConnectorRunRepository_find parent))
      (\<lambda>_. insert_unless_pending n)"
    by (simp add: bindM_assoc)
  moreover have "pureM (bindM (lock_connector (cr_source n)) (\<lambda>_. ConnectorRunRepository_find parent))"
    by (simp add: lock_connector_pure find_run_pure)
  ultimately show ?thesis
    unfolding ConnectorRunRepository_create_retry_def
    using create_body_evolves assms by (auto intro!: keeps_after_transaction)
qed

interpretation create_queued:
  run_operation "create_queued_run_with_parent rt source target trigger payload parent"
  for rt source target trigger payload parent
  by (unfold_locales, unfold create_queued_run_with_parent_def created_or_active_def Let_def)
     (intro after_rule queued_run_born)

interpretation create_running: run_operation "create_running_run source target trigger payload"
  for source target trigger payload
  by (unfold_locales, unfold create_running_run_def created_or_active_def)
     (intro after_rule running_run_born spares_rule)

text \<open>The state a run is settled with is final.\<close>

lemma count_as_i32_nonneg: "0 \<le> count_as_i32 n"
  by (simp add: count_as_i32_def i32_max_def)

lemma final_state_settles: "settles (final_state run execution finished_at)"
  by (simp add: settles_def final_state_def run_outcome_def Let_def count_as_i32_nonneg)

lemma after_finalize [after_rule]:
  "settles st \<Longrightarrow> keeps env (runs_after t0) (ConnectorRunRepository_finalize_if_active i w st)"
  by (rule keeps_runs_after) (rule finalize_evolves)

interpretation finish:
  run_operation "finish_connector_run_for_owner source target run execution worker_id"
  for source target run execution worker_id
  by (unfold_locales, unfold finish_connector_run_for_owner_def)
     (intro after_rule final_state_settles spares_rule)

interpretation settle_cancelled: run_operation "cancelled_response_or_ownership_error run_id worker_id"
  for run_id worker_id
  by (unfold_locales, unfold cancelled_response_or_ownership_error_def Let_def)
     (intro after_rule mark_cancelled.after spares_rule)

lemma after_load_payload [after_rule]:
  "rely env \<Longrightarrow> keeps env (runs_after t0) (load_payload_for_claimed_run rt run)"
  unfolding load_payload_for_claimed_run_def by (intro after_rule spares_rule)

lemma after_run_transaction [after_rule]:
  "rely env \<Longrightarrow> keeps env (runs_after t0) (run_transaction rt run worker_id prepared)"
  unfolding run_transaction_def by (intro after_rule finish.after spares_rule)

interpretation execute: run_operation "execute_connector_run rt run worker_id" for rt run worker_id
  by (unfold_locales, unfold execute_connector_run_def)
     (intro after_rule settle_cancelled.after spares_rule)

end
