(* ===== verification/Run_Results.thy ===== *)
theory Run_Results
  imports Run_Execution Transactions
begin

text \<open>
  What the operations of the run queue return and write when they succeed: which run a claim takes,
  who settles a run, what recovery does, and when a run may be created.
\<close>

section \<open>The claim\<close>

lemma one_row_least:
  assumes "one_row (sort_key f xs) = Some x"
  shows "x \<in> set xs \<and> (\<forall>y \<in> set xs. f x \<le> f y)"
proof -
  obtain ys where ys: "sort_key f xs = x # ys"
    using assms by (auto simp: one_row_def split: list.splits)
  have "sorted (map f (x # ys))" using ys sorted_sort_key by metis
  moreover have "set (x # ys) = set xs" using ys set_sort by metis
  ultimately show ?thesis by auto
qed

lemma one_row_None: "one_row (sort_key f xs) = None \<longleftrightarrow> xs = []"
  by (cases "sort_key f xs") (auto simp: one_row_def dest: arg_cong [where f = set])

lemma claim_result:
  assumes run: "ConnectorRunRepository_claim_next_queued w l env s = (Inr x, s')"
    and inv: "runs_inv (tabs s)"
  defines "now \<equiv> env_clock env (Suc (tick s))" and "rs \<equiv> rows (connector_runs (tabs s))"
  shows "(x = None \<longrightarrow> tabs s' = tabs s \<and> (\<forall>r \<in> set rs. \<not> claimable now r))
    \<and> (\<forall>r. x = Some r \<longrightarrow> (\<exists>q \<in> set rs. claimable now q
         \<and> (\<forall>p \<in> set rs. claimable now p \<longrightarrow> claim_key q \<le> claim_key p)
         \<and> r = claim_row now w l q q
         \<and> rows (connector_runs (tabs s')) = update_rows (\<lambda>p. cr_id p = cr_id q) (\<lambda>_. r) rs))"
proof -
  have "straight (claim_body w l)"
    unfolding claim_body_def update_runs_def by (intro straight_rule)
  then obtain s0 s1 where t0: "tabs s0 = tabs s" "tick s0 = Suc (tick s)"
    and body: "claim_body w l env s0 = (Inr x, s1)" and t1: "tabs s' = tabs s1"
    using run unfolding claim_transaction query_transaction_def by (rule transaction_committed)
  have now: "env_clock env (tick s0) = now" by (simp add: now_def t0)
  let ?pick = "\<lambda>t. one_row (sort_key claim_key (filter (claimable now) (rows (connector_runs t))))"
  obtain queued s2 where sel: "select_stmt ?pick env (s0\<lparr>tick := Suc (tick s0)\<rparr>) = (Inr queued, s2)"
    and rest: "(case queued of None \<Rightarrow> retM None
     | Some q \<Rightarrow> bindM (update_runs (\<lambda>r. cr_id r = cr_id q) (claim_row now w l q))
           (\<lambda>rs. bindM (expect_row (one_row rs)) (\<lambda>r. retM (Some r)))) env s2 = (Inr x, s1)"
    using body unfolding claim_body_def by (auto simp: now elim!: bindM_result_Inr)
  have t2: "tabs s2 = tabs s" and q: "queued = ?pick (tabs s)"
    using select_stmt_Inr [OF sel] t0 by simp_all
  show ?thesis
  proof (cases queued)
    case None
    then have "filter (claimable now) rs = []"
      using q one_row_None [of claim_key "filter (claimable now) rs"] by (simp add: rs_def)
    with None rest t2 t1 show ?thesis by (auto simp: filter_empty_conv)
  next
    case (Some c)
    have c: "c \<in> set rs" "claimable now c"
      "\<forall>p \<in> set rs. claimable now p \<longrightarrow> claim_key c \<le> claim_key p"
      using one_row_least [of claim_key "filter (claimable now) rs" c] q Some rs_def by auto
    from rest Some obtain ys r s3 where
      u: "update_runs (\<lambda>r. cr_id r = cr_id c) (claim_row now w l c) env s2 = (Inr ys, s3)"
      and e: "expect_row (one_row ys) env s3 = (Inr r, s1)" and x: "x = Some r"
      by (auto elim!: bindM_result_Inr)
    note upd = update_stmt_Inr [OF u [unfolded update_runs_def]]
    have same: "p = c" if "p \<in> set rs" "cr_id p = cr_id c" for p
      using runs_inv_same_id [OF inv] that c(1) by (auto simp: rs_def)
    have "r \<in> set ys" "s1 = s3" using expect_one_row [OF e] by simp_all
    then have r: "r = claim_row now w l c c" using upd same t2 by (auto simp: rs_def)
    have "rows (connector_runs (tabs s')) = update_rows (\<lambda>p. cr_id p = cr_id c) (\<lambda>_. r) rs"
      using upd t1 t2 \<open>s1 = s3\<close> same r by (auto simp: rs_def update_rows_def)
    with c r x show ?thesis by auto
  qed
qed

section \<open>Settling\<close>

lemma now_update_result:
  assumes "bindM utc_now (\<lambda>now. bindM (update_runs (p now) (f now)) (\<lambda>rs. retM (g rs))) env s = (Inr x, s')"
  defines "now \<equiv> env_clock env (tick s)" and "rs \<equiv> rows (connector_runs (tabs s))"
  shows "x = g (map (f now) (filter (p now) rs))"
    and "rows (connector_runs (tabs s')) = update_rows (p now) (f now) rs"
proof -
  obtain ys where u: "update_runs (p now) (f now) env (s\<lparr>tick := Suc (tick s)\<rparr>) = (Inr ys, s')"
    and x: "x = g ys"
    using assms(1) unfolding now_def by (auto elim!: bindM_result_Inr)
  show "x = g (map (f now) (filter (p now) rs))"
    and "rows (connector_runs (tabs s')) = update_rows (p now) (f now) rs"
    using update_stmt_Inr [OF u [unfolded update_runs_def]] x by (simp_all add: rs_def)
qed

lemma update_rows_none: "(\<And>r. r \<in> set rs \<Longrightarrow> \<not> p r) \<Longrightarrow> update_rows p f rs = rs"
  by (induction rs) (auto simp: update_rows_def)

lemma one_row_map_filter:
  "one_row (map f (filter p rs)) = map_option f (first_row p rs)"
  by (induction rs) (auto simp: one_row_def first_row_def)

lemma finalize_result:
  assumes "ConnectorRunRepository_finalize_if_active i w st env s = (Inr x, s')"
  defines "now \<equiv> env_clock env (tick s)" and "rs \<equiv> rows (connector_runs (tabs s))"
  shows "x = map_option (finalize_row now st) (first_row (execution_active now i w) rs)"
    and "rows (connector_runs (tabs s')) = update_rows (execution_active now i w) (finalize_row now st) rs"
  using now_update_result [OF assms(1) [unfolded ConnectorRunRepository_finalize_if_active_def]]
  by (simp_all add: now_def rs_def one_row_map_filter)

lemma finalize_Some:
  assumes "ConnectorRunRepository_finalize_if_active i w st env s = (Inr (Some r), s')"
  obtains q where "q \<in> set (rows (connector_runs (tabs s)))"
    and "execution_active (env_clock env (tick s)) i w q"
    and "r = finalize_row (env_clock env (tick s)) st q"
proof -
  have "map_option (finalize_row (env_clock env (tick s)) st)
      (first_row (execution_active (env_clock env (tick s)) i w) (rows (connector_runs (tabs s)))) = Some r"
    using finalize_result(1) [OF assms] by simp
  then obtain q where "first_row (execution_active (env_clock env (tick s)) i w)
      (rows (connector_runs (tabs s))) = Some q" and "r = finalize_row (env_clock env (tick s)) st q"
    by auto
  with first_row_Some [OF this(1)] that show ?thesis by blast
qed

lemma mark_cancelled_result:
  assumes "ConnectorRunRepository_mark_cancelled_if_requested i w env s = (Inr x, s')"
  defines "now \<equiv> env_clock env (tick s)" and "rs \<equiv> rows (connector_runs (tabs s))"
  defines "p \<equiv> \<lambda>r. cr_id r = i \<and> cr_status r = ''running'' \<and> cr_worker_id r = w
     \<and> cr_cancel_requested_at r \<noteq> None"
  shows "x = map_option (mark_cancelled_row now) (first_row p rs)"
    and "rows (connector_runs (tabs s')) = update_rows p (mark_cancelled_row now) rs"
  using now_update_result
    [OF assms(1) [unfolded ConnectorRunRepository_mark_cancelled_if_requested_def]]
  by (simp_all add: now_def rs_def p_def one_row_map_filter)

section \<open>Recovery\<close>

definition stats_total :: "ConnectorRunRecoveryStats \<Rightarrow> nat" where
  "stats_total st = st_requeued st + st_failed st + st_cancelled st"

lemma fold_bump_total: "stats_total (fold bump rs st) = stats_total st + length rs"
  by (induction rs arbitrary: st) (auto simp: bump_def stats_total_def)

lemma straight_recover: "straight (recover_body b m limit)"
  unfolding recover_body_def recover_one_def update_runs_def by (intro straight_rule)

lemma recover_result:
  assumes "ConnectorRunRepository_recover_expired_leases b m limit env s = (Inr stats, s')"
    and "runs_inv (tabs s)"
  defines "now \<equiv> env_clock env (Suc (tick s))" and "rs \<equiv> rows (connector_runs (tabs s))"
  defines "batch \<equiv> expired_batch now limit (tabs s)"
  shows "stats = fold bump batch \<lparr>st_requeued = 0, st_failed = 0, st_cancelled = 0\<rparr>"
    and "rows (connector_runs (tabs s')) = update_rows (\<lambda>r. r \<in> set batch) (recovered_row now b m) rs"
proof -
  obtain s0 s1 where t0: "tabs s0 = tabs s" "tick s0 = Suc (tick s)"
    and body: "recover_body b m limit env s0 = (Inr stats, s1)" and t1: "tabs s' = tabs s1"
    using straight_recover assms(1) unfolding recover_transaction query_transaction_def
    by (rule transaction_committed)
  have inv: "runs_inv (tabs s0)" using assms(2) t0 by simp
  note r = recover_body_Inr [OF body inv, unfolded Let_def t0 now_def [symmetric] batch_def [symmetric]
      rs_def [symmetric]]
  then show "stats = fold bump batch \<lparr>st_requeued = 0, st_failed = 0, st_cancelled = 0\<rparr>" by simp
  have "cr_id r \<in> set (map cr_id batch) \<longleftrightarrow> r \<in> set batch" if "r \<in> set rs" for r
    using expired_batch_props(1) [OF assms(2), of now limit] runs_inv_same_id [OF assms(2)] that
    by (auto simp: batch_def rs_def)
  then show "rows (connector_runs (tabs s')) = update_rows (\<lambda>r. r \<in> set batch) (recovered_row now b m) rs"
    using r t1 by (auto simp: update_rows_def)
qed

text \<open>When the limit covers them all, the batch is every expired run.\<close>

lemma expired_batch_all:
  assumes "count_rows (lease_expired now) (rows (connector_runs t)) \<le> limit"
  shows "set (expired_batch now limit t) = {r \<in> set (rows (connector_runs t)). lease_expired now r}"
    and "length (expired_batch now limit t) = count_rows (lease_expired now) (rows (connector_runs t))"
  using assms by (auto simp: expired_batch_def count_rows_def)

section \<open>Creation\<close>

lemma straight_insert_unless_pending: "straight (insert_unless_pending n)"
  unfolding insert_unless_pending_def ConnectorRunRepository_has_pending_def insert_run_def
  by (intro straight_rule)

lemma create_if_no_pending_result:
  assumes "ConnectorRunRepository_create_if_no_pending n env s = (Inr x, s')"
  defines "rs \<equiv> rows (connector_runs (tabs s))"
  shows "(x = None \<longrightarrow> tabs s' = tabs s \<and> count_rows (pending_for (cr_source n) (cr_target n)) rs > 0)
    \<and> (\<forall>r. x = Some r \<longrightarrow>
        r = NewConnectorRun.extend n (ConnectorRun.fields (seq (connector_runs (tabs s))))
        \<and> rows (connector_runs (tabs s')) = rs @ [r]
        \<and> count_rows (pending_for (cr_source n) (cr_target n)) rs = 0)"
proof -
  have "straight (bindM (lock_connector (cr_source n)) (\<lambda>_. insert_unless_pending n))"
    unfolding lock_connector_def ConnectorRepository_find_by_source_def
    by (intro straight_rule straight_insert_unless_pending)
  then obtain s0 s1 where t0: "tabs s0 = tabs s"
    and body: "bindM (lock_connector (cr_source n)) (\<lambda>_. insert_unless_pending n) env s0 = (Inr x, s1)"
    and t1: "tabs s' = tabs s1"
    using assms(1) unfolding ConnectorRunRepository_create_if_no_pending_def query_transaction_def
    by (rule transaction_committed)
  obtain c s2 where lock: "lock_connector (cr_source n) env s0 = (Inr c, s2)"
    and ins: "insert_unless_pending n env s2 = (Inr x, s1)"
    using body by (rule bindM_result_Inr)
  have t2: "tabs s2 = tabs s" using pureM_tabs [OF lock_connector_pure lock] t0 by simp
  show ?thesis using insert_unless_pending_Inr [OF ins] t1 t2 by (auto simp: rs_def)
qed

end
