(* ===== verification/Login.thy ===== *)
theory Login
  imports Auth Secrets
begin

text \<open>
  The sessions half of \<^verbatim>\<open>src/src/rocket_routes/authorization.rs\<close>: password login with its throttle, the
  session it establishes, logout and revocation, and the routes that describe the user.

  The changes a handler makes to the cookie jar are part of its result. The connection pool, the
  semaphore that bounds concurrent password verifications and the thread that runs Argon2 are the
  fields of \<open>login_world\<close>: every use gets a number and may fail.
\<close>

section \<open>Credentials and clients\<close>

record Credentials =
  cr_username :: string
  cr_password :: string

definition Credentials_validate :: "Credentials \<Rightarrow> violations" where
  "Credentials_validate c = checks
     [required ''username'' (cr_username c),
      required ''password'' (cr_password c),
      max_len ''username'' (cr_username c) 64,
      max_len ''password'' (cr_password c) 1024]"

record LoginClientContext =
  lc_ip_address :: "string option"
  lc_user_agent :: "string option"

definition login_client_context :: "string option \<Rightarrow> string option \<Rightarrow> LoginClientContext" where
  "login_client_context client_ip user_agent =
     \<lparr>lc_ip_address = client_ip, lc_user_agent = map_option (take_chars 512) user_agent\<rparr>"

record LoginResponse =
  lr_expires_at :: utc
  lr_auth_method :: string

datatype permit = Permit | PermitTimeout | SemaphoreClosed

record login_world =
  lw_pool :: "nat \<Rightarrow> bool"
  lw_permit :: "nat \<Rightarrow> permit"
  lw_join :: "nat \<Rightarrow> bool"

definition acquire :: "login_world \<Rightarrow> unit api" where
  "acquire w = bindM outside_call (\<lambda>n.
     case lw_permit w n of
       Permit \<Rightarrow> retM ()
     | PermitTimeout \<Rightarrow> throwM (AuthenticationCapacityLimited 1)
     | SemaphoreClosed \<Rightarrow> throwM Internal)"

definition checkout_connection :: "login_world \<Rightarrow> unit api" where
  "checkout_connection w = bindM outside_call (\<lambda>n.
     if lw_pool w n then retM () else throwM ServiceUnavailable)"

section \<open>Cookies\<close>

record cookie =
  ck_name :: string
  ck_value :: string
  ck_path :: string
  ck_http_only :: bool
  ck_secure :: bool
  ck_same_site :: string
  ck_max_age :: "i64 option"

datatype cookie_change = CookieAdd cookie | CookieRemove cookie

definition session_cookie :: "string \<Rightarrow> AppConfig \<Rightarrow> cookie" where
  "session_cookie token config =
     \<lparr>ck_name = session_cookie_name config, ck_value = token, ck_path = ''/'', ck_http_only = True,
      ck_secure = ac_auth_cookie_secure config, ck_same_site = ''Lax'',
      ck_max_age = Some (ac_auth_token_ttl_seconds config)\<rparr>"

definition session_cookie_removal :: "string \<Rightarrow> AppConfig \<Rightarrow> cookie" where
  "session_cookie_removal name config =
     \<lparr>ck_name = name, ck_value = [], ck_path = ''/'', ck_http_only = True,
      ck_secure = ac_auth_cookie_secure config, ck_same_site = ''Lax'', ck_max_age = None\<rparr>"

definition clear_legacy_session_cookie :: "AppConfig \<Rightarrow> cookie_change list" where
  "clear_legacy_session_cookie config =
     (if ac_environment config = ''production''
      then [CookieRemove (session_cookie_removal SESSION_COOKIE_NAME config)] else [])"

definition clear_session_cookies :: "AppConfig \<Rightarrow> cookie_change list" where
  "clear_session_cookies config =
     CookieRemove (session_cookie_removal (session_cookie_name config) config)
       # clear_legacy_session_cookie config"

section \<open>Throttle buckets\<close>

record LoginThrottleBuckets =
  tb_client :: string
  tb_account :: string

definition nul :: char where
  "nul = CHR 0x00"

definition login_throttle_bucket_hash ::
    "authlib \<Rightarrow> string \<Rightarrow> string \<Rightarrow> string option \<Rightarrow> string" where
  "login_throttle_bucket_hash au scope username client_ip =
     (let input = ''portal-login-throttle:v2'' @ nul # scope @ nul # username;
          input = (case client_ip of None \<Rightarrow> input | Some ip \<Rightarrow> (input @ [nul]) @ ip)
      in au_sha256_hex au input)"

definition login_throttle_buckets_for :: "authlib \<Rightarrow> string \<Rightarrow> string option \<Rightarrow> LoginThrottleBuckets" where
  "login_throttle_buckets_for au username client_ip =
     (let username = au_lower au (trim username);
          client_ip = (case client_ip of None \<Rightarrow> ''unknown-client'' | Some ip \<Rightarrow> ip)
      in \<lparr>tb_client = login_throttle_bucket_hash au ''username-client'' username (Some client_ip),
          tb_account = login_throttle_bucket_hash au ''account'' username None\<rparr>)"

text \<open>\<^verbatim>\<open>Option::max\<close>: \<^verbatim>\<open>None\<close> is the least value.\<close>

fun max_option :: "i64 option \<Rightarrow> i64 option \<Rightarrow> i64 option" where
  "max_option None y = y"
| "max_option x None = x"
| "max_option (Some a) (Some b) = Some (max a b)"

section \<open>Login\<close>

definition generate_token :: "authlib \<Rightarrow> ('e, string) dbm" where
  "generate_token au = bindM draw (\<lambda>a. bindM draw (\<lambda>b. retM (au_uuid au a @ au_uuid au b)))"

definition establish_session ::
    "authlib \<Rightarrow> AppConfig \<Rightarrow> i32 \<Rightarrow> string \<Rightarrow> LoginClientContext \<Rightarrow>
     ((string \<times> utc) \<times> cookie_change list) api" where
  "establish_session au config user_id auth_method client =
     bindM utc_now (\<lambda>now.
     bindM (generate_token au) (\<lambda>token.
     let expires_at = now + seconds (ac_auth_token_ttl_seconds config) in
     bindM (stepM (liftM (SessionRepository_create au
              \<lparr>cs_user_id = user_id, cs_token = token, cs_expires_at = expires_at,
               cs_max_active_sessions = ac_auth_max_active_sessions_per_user config,
               cs_auth_method = auth_method, cs_ip_address = lc_ip_address client,
               cs_user_agent = lc_user_agent client\<rparr>))) (\<lambda>_.
     retM ((token, expires_at),
           clear_legacy_session_cookie config @ [CookieAdd (session_cookie token config)]))))"

text \<open>The first checkout: stale buckets are pruned, a locked client or account is refused, the user is
  looked up.\<close>

definition login_lookup ::
    "authlib \<Rightarrow> LoginThrottleBuckets \<Rightarrow> string \<Rightarrow> utc \<Rightarrow> User option api" where
  "login_lookup au buckets username now =
     bindM (ignoreM (stepM (LoginThrottleRepository_prune_before (now - days 1)))) (\<lambda>_.
     bindM (stepM (liftM (LoginThrottleRepository_retry_after_seconds (tb_client buckets) now)))
       (\<lambda>client_retry_after.
     bindM (stepM (liftM (LoginThrottleRepository_retry_after_seconds (tb_account buckets) now)))
       (\<lambda>account_retry_after.
     case max_option client_retry_after account_retry_after of
       Some retry_after_seconds \<Rightarrow> throwM (RateLimited retry_after_seconds)
     | None \<Rightarrow>
         handleM (stepM (UserRepository_find_by_username au username))
           (\<lambda>e. if e = NotFoundError then retM None else throwM (api_error_of e))
           (\<lambda>user. retM (Some user)))))"

text \<open>The verification runs without a connection, one permit held.\<close>

definition login_verify :: "authlib \<Rightarrow> login_world \<Rightarrow> User option \<Rightarrow> string \<Rightarrow> bool api" where
  "login_verify au w user supplied_password =
     (let encoded_password = (case user of Some u \<Rightarrow> us_password u | None \<Rightarrow> au_dummy_hash au) in
      bindM (acquire w) (\<lambda>_.
      bindM outside_call (\<lambda>n.
      if \<not> lw_join w n then throwM Internal
      else (case au_verify au encoded_password supplied_password of
              Inl _ \<Rightarrow> throwM Internal
            | Inr password_matches \<Rightarrow> retM password_matches))))"

definition login_failed :: "AppConfig \<Rightarrow> LoginThrottleBuckets \<Rightarrow> 'a api" where
  "login_failed config buckets =
     bindM utc_now (\<lambda>now.
     bindM (stepM (liftM (LoginThrottleRepository_record_failure (tb_client buckets) now
              (ac_auth_login_max_failures config) (ac_auth_login_window_seconds config)
              (ac_auth_login_lockout_seconds config)))) (\<lambda>client_retry_after.
     bindM (stepM (liftM (LoginThrottleRepository_record_failure (tb_account buckets) now
              (ac_auth_login_account_max_failures config) (ac_auth_login_window_seconds config)
              (ac_auth_login_lockout_seconds config)))) (\<lambda>account_retry_after.
     case max_option client_retry_after account_retry_after of
       Some retry_after_seconds \<Rightarrow> throwM (RateLimited retry_after_seconds)
     | None \<Rightarrow> throwM Unauthorized)))"

definition login_succeeded ::
    "authlib \<Rightarrow> AppConfig \<Rightarrow> LoginThrottleBuckets \<Rightarrow> User \<Rightarrow> LoginClientContext \<Rightarrow>
     (LoginResponse \<times> cookie_change list) api" where
  "login_succeeded au config buckets user client =
     bindM (stepM (liftM (LoginThrottleRepository_clear (tb_client buckets)))) (\<lambda>_.
     bindM (stepM (liftM (LoginThrottleRepository_clear (tb_account buckets)))) (\<lambda>_.
     bindM (establish_session au config (us_id user) ''password'' client) (\<lambda>((_, expires_at), cookies).
     retM (\<lparr>lr_expires_at = expires_at, lr_auth_method = ''password''\<rparr>, cookies))))"

definition login ::
    "authlib \<Rightarrow> login_world \<Rightarrow> AppConfig \<Rightarrow> LoginClientContext \<Rightarrow> Credentials \<Rightarrow>
     (LoginResponse \<times> cookie_change list) api" where
  "login au w config client credentials =
     (if \<not> ac_auth_password_login_enabled config then throwM Forbidden
      else
        bindM (resultM (validate_request Credentials_validate credentials)) (\<lambda>credentials.
        bindM utc_now (\<lambda>now.
        let username = canonical_username au (cr_username credentials);
            buckets = login_throttle_buckets_for au username (lc_ip_address client) in
        bindM (checkout_connection w) (\<lambda>_.
        bindM (login_lookup au buckets username now) (\<lambda>user.
        bindM (login_verify au w user (cr_password credentials)) (\<lambda>password_matches.
        bindM (checkout_connection w) (\<lambda>_.
        case user of
          Some user \<Rightarrow> if password_matches then login_succeeded au config buckets user client
                       else login_failed config buckets
        | None \<Rightarrow> login_failed config buckets)))))))"

section \<open>Logout\<close>

definition logout :: "authlib \<Rightarrow> AppConfig \<Rightarrow> AuthenticatedUser \<Rightarrow> cookie_change list api" where
  "logout au config auth =
     bindM (stepM (liftM (SessionRepository_delete_by_token au (au_token auth)))) (\<lambda>_.
     retM (clear_session_cookies config))"

definition revoke_all_sessions ::
    "AppConfig \<Rightarrow> AuthenticatedUser \<Rightarrow> (nat \<times> cookie_change list) api" where
  "revoke_all_sessions config auth =
     bindM (stepM (liftM (SessionRepository_delete_by_user (us_id (au_user auth))))) (\<lambda>revoked_sessions.
     retM (revoked_sessions, clear_session_cookies config))"

section \<open>Describing the user\<close>

record MeCapabilities =
  mc_manage_connectors :: bool
  mc_view_audit :: bool
  mc_manage_maintainers :: bool
  mc_view_user_directory :: bool

record MeMaintainerAccess =
  ma_maintainer_id :: i32
  ma_role :: string
  ma_can_write :: bool
  ma_can_manage_members :: bool

record MeResponse =
  me_id :: i32
  me_username :: string
  me_expires_at :: utc
  me_auth_method :: string
  me_roles :: "string list"
  me_capabilities :: MeCapabilities
  me_maintainer_access :: "MeMaintainerAccess list"

definition build_me_response :: "AuthenticatedUser \<Rightarrow> MaintainerMember list \<Rightarrow> MeResponse" where
  "build_me_response auth memberships =
     (let admin = is_admin auth;
          maintainer_access = map (\<lambda>m.
            \<lparr>ma_maintainer_id = mm_maintainer_id m, ma_role = mm_role m,
             ma_can_write = (admin \<or> mm_role m \<in> set [''owner'', ''maintainer'']),
             ma_can_manage_members = (admin \<or> mm_role m = ''owner'')\<rparr>) memberships
      in \<lparr>me_id = us_id (au_user auth), me_username = us_username (au_user auth),
          me_expires_at = se_expires_at (au_session auth),
          me_auth_method = se_auth_method (au_session auth),
          me_roles = map ro_code (au_roles auth),
          me_capabilities =
            \<lparr>mc_manage_connectors = admin, mc_view_audit = admin, mc_manage_maintainers = admin,
             mc_view_user_directory = (admin \<or> list_ex (\<lambda>m. mm_role m = ''owner'') memberships)\<rparr>,
          me_maintainer_access = sort_key ma_maintainer_id maintainer_access\<rparr>)"

definition me :: "AuthenticatedUser \<Rightarrow> MeResponse api" where
  "me auth = bindM (stepM (liftM (MaintainerMemberRepository_find_by_user (us_id (au_user auth)))))
     (\<lambda>memberships. retM (build_me_response auth memberships))"

record UserSummary =
  um_id :: i32
  um_username :: string
  um_roles :: "string list"
  um_created_at :: utc

definition user_summary :: "User \<times> (UserRole \<times> Role) list \<Rightarrow> UserSummary" where
  "user_summary = (\<lambda>(user, roles).
     \<lparr>um_id = us_id user, um_username = us_username user, um_roles = map (ro_code \<circ> snd) roles,
      um_created_at = us_created_at user\<rparr>)"

definition users_route :: "AuthenticatedUser \<Rightarrow> UserSummary list api" where
  "users_route auth =
     bindM (require_user_directory_access auth) (\<lambda>_.
     bindM (stepM (liftM UserRepository_find_with_roles)) (\<lambda>found.
     retM (sort_key um_username (map user_summary found))))"

end
