(* ===== verification/Session_Properties.thy ===== *)
theory Session_Properties
  imports Sessions
begin

text \<open>
  What sessions, throttling and login transactions guarantee: a user never has more stored sessions
  than the limit, a burst of failures locks the bucket for the whole lockout, and an OpenID login
  transaction is used at most once.
\<close>

section \<open>Evicting the oldest sessions\<close>

lemma evict_take:
  fixes key :: "'r \<Rightarrow> 'k :: linorder" and rid :: "'r \<Rightarrow> 'i" and p k
  assumes "distinct (map rid xs)"
  defines "old \<equiv> take k (sort_key key (filter p xs))"
  defines "rest \<equiv> filter (\<lambda>x. rid x \<notin> set (map rid old)) xs"
  shows "count_rows p rest = count_rows p xs - k"
    and "\<And>x. x \<in> set xs \<Longrightarrow> \<not> p x \<Longrightarrow> x \<in> set rest"
    and "\<And>x y. x \<in> set xs \<Longrightarrow> x \<notin> set rest \<Longrightarrow> y \<in> set rest \<Longrightarrow> p y \<Longrightarrow> p x \<and> key x \<le> key y"
proof -
  let ?l = "sort_key key (filter p xs)"
  have dx: "distinct xs" and inj: "inj_on rid (set xs)"
    using assms(1) by (auto simp: distinct_map)
  have sub: "set old \<subseteq> {x \<in> set xs. p x}"
    unfolding old_def using set_take_subset [of k ?l] by auto
  have mem: "rid x \<in> set (map rid old) \<longleftrightarrow> x \<in> set old" if "x \<in> set xs" for x
    using that sub inj by (auto simp: inj_on_def)
  then have rest: "rest = filter (\<lambda>x. x \<notin> set old) xs"
    unfolding rest_def by (auto intro: filter_cong)
  have dl: "distinct ?l" using dx by simp
  have "set (filter p rest) = set (drop k ?l)"
  proof -
    have "set ?l = set old \<union> set (drop k ?l)"
      unfolding old_def using append_take_drop_id [of k ?l] set_append by metis
    moreover have "set old \<inter> set (drop k ?l) = {}"
      unfolding old_def using dl set_take_disj_set_drop_if_distinct by blast
    ultimately show ?thesis by (auto simp: rest)
  qed
  then have "length (filter p rest) = length (drop k ?l)"
    using dx dl by (metis distinct_card distinct_drop distinct_filter rest)
  then show "count_rows p rest = count_rows p xs - k" by (simp add: count_rows_def)
  show "x \<in> set rest" if "x \<in> set xs" "\<not> p x" for x
    using that sub by (auto simp: rest)
  show "p x \<and> key x \<le> key y" if x: "x \<in> set xs" "x \<notin> set rest" and y: "y \<in> set rest" "p y" for x y
  proof -
    have "x \<in> set old" using x by (simp add: rest)
    moreover have "y \<in> set (drop k ?l)" using \<open>set (filter p rest) = set (drop k ?l)\<close> y by auto
    moreover have "sorted (map key (take k ?l @ drop k ?l))" using sorted_sort_key [of key] by simp
    ultimately show ?thesis
      using sub unfolding old_def map_append sorted_append by auto
  qed
qed

lemma delete_sessions_Inr:
  assumes "delete_sessions p env s = (Inr n, s')"
  shows "tabs s' = sessions_update (\<lambda>tb. tb\<lparr>rows := delete_rows p (rows tb)\<rparr>) (tabs s)"
proof -
  obtain gone s1 where "delete_stmt sessions sessions_update no_restriction no_action p env s
      = (Inr gone, s1)" and "s1 = s'"
    using assms unfolding delete_sessions_def by (auto elim!: bindM_result_Inr)
  then show ?thesis using delete_stmt_Inr by (fastforce simp: no_action_def)
qed

lemma evict_oldest_Inr:
  assumes "evict_oldest u now k env s = (Inr x, s')"
  shows "tabs s' = sessions_update (\<lambda>tb. tb\<lparr>rows := filter (\<lambda>x. se_id x \<notin> set (map se_id
     (take (nat k) (sort_key session_age_key (filter (session_active u now) (rows tb)))))) (rows tb)\<rparr>) (tabs s)"
proof (cases "k > 0")
  case True
  let ?old = "\<lambda>t. map se_id (take (nat k) (sort_key session_age_key
      (filter (session_active u now) (rows (sessions t)))))"
  obtain ids s1 n where sel: "select_stmt ?old env s = (Inr ids, s1)"
    and del: "delete_sessions (\<lambda>x. se_id x \<in> set ids) env s1 = (Inr n, s')"
    using assms True unfolding evict_oldest_def by (auto elim!: bindM_result_Inr)
  have ids: "ids = ?old (tabs s)" "tabs s1 = tabs s" using select_stmt_Inr [OF sel] by simp_all
  show ?thesis
    using delete_sessions_Inr [OF del] unfolding ids by (simp add: delete_rows_def)
next
  case False
  then have "s' = s" using assms by (simp add: evict_oldest_def)
  with False show ?thesis by simp
qed

definition session_ids_ok :: "Session table \<Rightarrow> bool" where
  "session_ids_ok tb \<longleftrightarrow> distinct (map se_id (rows tb)) \<and> (\<forall>x \<in> set (rows tb). se_id x < seq tb)"

text \<open>The rows of the table after a creation: expired sessions of the user gone, then the oldest.\<close>

definition unexpired_rows :: "i32 \<Rightarrow> utc \<Rightarrow> Session list \<Rightarrow> Session list" where
  "unexpired_rows u now rs = delete_rows (\<lambda>x. se_user_id x = u \<and> se_expires_at x \<le> now) rs"

definition evicted_rows :: "i32 \<Rightarrow> utc \<Rightarrow> i64 \<Rightarrow> Session list \<Rightarrow> Session list" where
  "evicted_rows u now m rs = filter (\<lambda>x. se_id x \<notin> set (map se_id (take
     (nat (int (count_rows (session_active u now) rs) - m + 1))
     (sort_key session_age_key (filter (session_active u now) rs))))) rs"

lemma session_create_result:
  assumes run: "SessionRepository_create au c env s = (Inr x, s')"
  obtains now cr where "1 \<le> cs_max_active_sessions c"
    and "x = NewSession.extend (new_session au c now) (Session.fields (seq (sessions (tabs s))) cr)"
    and "sessions (tabs s') = \<lparr>rows = evicted_rows (cs_user_id c) now (cs_max_active_sessions c)
      (unexpired_rows (cs_user_id c) now (rows (sessions (tabs s)))) @ [x],
      seq = seq (sessions (tabs s)) + 1\<rparr>"
    and "tabs s' = (tabs s)\<lparr>sessions := sessions (tabs s')\<rparr>"
    and "session_violation ((tabs s)\<lparr>sessions := (sessions (tabs s))\<lparr>rows :=
      evicted_rows (cs_user_id c) now (cs_max_active_sessions c)
        (unexpired_rows (cs_user_id c) now (rows (sessions (tabs s))))\<rparr>\<rparr>) x = None"
proof -
  let ?u = "cs_user_id c" and ?m = "cs_max_active_sessions c"
  let ?body = "bindM advisory_lock (\<lambda>_.
        bindM utc_now (\<lambda>now.
        bindM (delete_sessions (\<lambda>x. se_user_id x = ?u \<and> se_expires_at x \<le> now)) (\<lambda>_.
        bindM (select_stmt (\<lambda>t. count_rows (session_active ?u now) (rows (sessions t))))
          (\<lambda>active_count.
        bindM (evict_oldest ?u now (max (int active_count - ?m + 1) 0)) (\<lambda>_.
        bindM utc_now (\<lambda>created_at.
        insert_stmt sessions sessions_update session_violation
          (\<lambda>i. NewSession.extend (new_session au c now) (Session.fields i created_at))))))))"
  have m: "1 \<le> ?m" and tx: "query_transaction ?body env s = (Inr x, s')"
    using run unfolding SessionRepository_create_def by (auto split: if_splits)
  have "straight ?body"
    unfolding advisory_lock_def delete_sessions_def evict_oldest_def by (intro straight_rule)
  then obtain s0 s1 where t0: "tabs s0 = tabs s" and body: "?body env s0 = (Inr x, s1)"
    and t1: "tabs s' = tabs s1"
    using tx unfolding query_transaction_def by (rule transaction_committed)
  obtain z0 sa now sb n sc ac sd z1 se cr sf where
      lock: "advisory_lock env s0 = (Inr z0, sa)" and now: "(utc_now :: utc query) env sa = (Inr now, sb)"
    and del: "delete_sessions (\<lambda>x. se_user_id x = ?u \<and> se_expires_at x \<le> now) env sb = (Inr n, sc)"
    and cnt: "select_stmt (\<lambda>t. count_rows (session_active ?u now) (rows (sessions t))) env sc = (Inr ac, sd)"
    and ev: "evict_oldest ?u now (max (int ac - ?m + 1) 0) env sd = (Inr z1, se)"
    and cr: "(utc_now :: utc query) env se = (Inr cr, sf)"
    and ins: "insert_stmt sessions sessions_update session_violation
          (\<lambda>i. NewSession.extend (new_session au c now) (Session.fields i cr)) env sf = (Inr x, s1)"
    using body unfolding bindM_Inr_iff by blast
  have nat: "nat (max i 0) = nat i" for i by simp
  have tb: "tabs sb = tabs s"
    using lock now t0 by (auto simp: advisory_lock_def dest: select_stmt_tabs)
  have tc: "sessions (tabs sc) = (sessions (tabs s))\<lparr>rows := unexpired_rows ?u now (rows (sessions (tabs s)))\<rparr>"
    using delete_sessions_Inr [OF del] tb by (simp add: unexpired_rows_def)
  have ac: "ac = count_rows (session_active ?u now) (unexpired_rows ?u now (rows (sessions (tabs s))))"
    and td: "tabs sd = tabs sc"
    using select_stmt_Inr [OF cnt] tc by simp_all
  have te: "tabs sf = (tabs s)\<lparr>sessions := (sessions (tabs s))\<lparr>rows := evicted_rows ?u now ?m
      (unexpired_rows ?u now (rows (sessions (tabs s))))\<rparr>\<rparr>"
    using evict_oldest_Inr [OF ev] cr td tc delete_sessions_Inr [OF del] tb unfolding nat
    by (auto simp: evicted_rows_def ac)
  have x: "x = NewSession.extend (new_session au c now) (Session.fields (seq (sessions (tabs s))) cr)"
    and ok: "session_violation (tabs sf) x = None"
    and t': "tabs s' = sessions_update (\<lambda>tb. tb\<lparr>rows := rows tb @ [x], seq := seq tb + 1\<rparr>) (tabs sf)"
    using insert_stmt_Inr [OF ins] t1 te by (simp, blast, simp)
  have new: "sessions (tabs s') = \<lparr>rows = evicted_rows ?u now ?m
      (unexpired_rows ?u now (rows (sessions (tabs s)))) @ [x], seq = seq (sessions (tabs s)) + 1\<rparr>"
    unfolding t' te by simp
  show ?thesis
    by (rule that [OF m x new]) (use t' te ok in simp_all)
qed

text \<open>Creating a session keeps the number of stored sessions of the user within the limit: expired
  sessions of the user are removed, then the oldest active ones until there is room; the new session
  is stored under the hash of its token, and the sessions of all other users are untouched.\<close>

theorem session_capacity:
  assumes run: "SessionRepository_create au c env s = (Inr x, s')"
    and ids: "session_ids_ok (sessions (tabs s))"
  shows "int (count_rows (\<lambda>r. se_user_id r = cs_user_id c) (rows (sessions (tabs s'))))
      \<le> cs_max_active_sessions c
    \<and> x \<in> set (rows (sessions (tabs s'))) \<and> se_token_hash x = session_token_hash au (cs_token c)
    \<and> session_ids_ok (sessions (tabs s'))
    \<and> filter (\<lambda>r. se_user_id r \<noteq> cs_user_id c) (rows (sessions (tabs s')))
      = filter (\<lambda>r. se_user_id r \<noteq> cs_user_id c) (rows (sessions (tabs s)))
    \<and> (\<exists>now. \<forall>gone \<in> set (rows (sessions (tabs s))). \<forall>kept \<in> set (rows (sessions (tabs s'))).
         gone \<notin> set (rows (sessions (tabs s'))) \<longrightarrow> kept \<noteq> x \<longrightarrow> se_user_id kept = cs_user_id c \<longrightarrow>
         se_user_id gone = cs_user_id c
         \<and> (se_expires_at gone \<le> now \<or> session_age_key gone \<le> session_age_key kept))"
proof -
  let ?u = "cs_user_id c" and ?m = "cs_max_active_sessions c"
  obtain now cr where m: "1 \<le> ?m"
    and x: "x = NewSession.extend (new_session au c now) (Session.fields (seq (sessions (tabs s))) cr)"
    and t0: "sessions (tabs s') = \<lparr>rows = evicted_rows ?u now ?m
      (unexpired_rows ?u now (rows (sessions (tabs s)))) @ [x], seq = seq (sessions (tabs s)) + 1\<rparr>"
    using run by (rule session_create_result)
  let ?r = "rows (sessions (tabs s))" and ?key = session_age_key and ?active = "session_active ?u now"
  define r1 where "r1 = unexpired_rows ?u now ?r"
  define k where "k = nat (int (count_rows ?active r1) - ?m + 1)"
  define r2 where "r2 = filter (\<lambda>x. se_id x \<notin> set (map se_id (take k (sort_key ?key (filter ?active r1))))) r1"
  have t': "sessions (tabs s') = \<lparr>rows = r2 @ [x], seq = seq (sessions (tabs s)) + 1\<rparr>"
    unfolding t0 r1_def [symmetric] evicted_rows_def k_def [symmetric] r2_def ..
  have xs: "se_user_id x = ?u" "se_token_hash x = session_token_hash au (cs_token c)"
    "se_id x = seq (sessions (tabs s))"
    by (simp_all add: x new_session_def NewSession.extend_def Session.fields_def)
  have d1: "distinct (map se_id r1)" and bound: "\<forall>x \<in> set r1. se_id x < seq (sessions (tabs s))"
    using ids by (auto simp: session_ids_ok_def r1_def unexpired_rows_def delete_rows_def distinct_map_filter)
  note ev = evict_take [OF d1, where k = k and key = ?key and p = ?active, folded r2_def]
  have sub: "set r2 \<subseteq> set r1" by (auto simp: r2_def)
  have user: "se_user_id r = ?u \<longleftrightarrow> ?active r" if "r \<in> set r1" for r
    using that by (auto simp: r1_def unexpired_rows_def session_active_def)
  have "count_rows (\<lambda>r. se_user_id r = ?u) r2 = count_rows ?active r2"
    using user sub by (intro count_rows_cong) auto
  then have "int (count_rows (\<lambda>r. se_user_id r = ?u) r2) \<le> ?m - 1"
    using ev(1) m by (auto simp: k_def)
  then have 1: "int (count_rows (\<lambda>r. se_user_id r = ?u) (rows (sessions (tabs s')))) \<le> ?m"
    by (simp add: t' xs)
  have 2: "session_ids_ok (sessions (tabs s'))"
    using d1 bound sub by (auto simp: session_ids_ok_def t' xs r2_def distinct_map_filter)
  have 3: "filter (\<lambda>r. se_user_id r \<noteq> ?u) (rows (sessions (tabs s'))) = filter (\<lambda>r. se_user_id r \<noteq> ?u) ?r"
  proof -
    have "filter (\<lambda>r. se_user_id r \<noteq> ?u) r2 = filter (\<lambda>r. se_user_id r \<noteq> ?u) r1"
      unfolding r2_def filter_filter
      using ev(2) user by (intro filter_cong) (auto simp: r2_def)
    then show ?thesis by (auto simp: t' xs r1_def unexpired_rows_def delete_rows_def intro: filter_cong)
  qed
  have 4: "se_user_id gone = ?u \<and> (se_expires_at gone \<le> now \<or> ?key gone \<le> ?key kept)"
    if "gone \<in> set ?r" "kept \<in> set (rows (sessions (tabs s')))"
      "gone \<notin> set (rows (sessions (tabs s')))" "kept \<noteq> x" "se_user_id kept = ?u" for gone kept
  proof (cases "gone \<in> set r1")
    case True
    then show ?thesis
      using that ev(3) [OF True, of kept] user sub by (auto simp: t')
  next
    case False
    then show ?thesis using that(1) by (auto simp: r1_def unexpired_rows_def)
  qed
  have "x \<in> set (rows (sessions (tabs s')))" by (simp add: t')
  with 1 2 3 4 xs(2) show ?thesis by blast
qed

section \<open>Throttling\<close>

abbreviation bucket_of :: "string \<Rightarrow> tables \<Rightarrow> LoginThrottleBucket option" where
  "bucket_of h t \<equiv> first_row (\<lambda>b. lt_bucket_hash b = h) (rows (login_throttle_buckets t))"

lemma first_row_update:
  "(\<And>x. p x \<Longrightarrow> p (f x)) \<Longrightarrow> first_row p (update_rows p f xs) = map_option f (first_row p xs)"
  by (induction xs) (simp_all add: first_row_def)

lemma first_row_append: "first_row p xs = None \<Longrightarrow> p x \<Longrightarrow> first_row p (xs @ [x]) = Some x"
  by (induction xs) (auto simp: first_row_def split: if_splits)

lemma upsert_stmt_Inr:
  assumes "upsert_stmt get upd chk p mk f env s = (Inr x, s')"
  shows "case first_row p (rows (get (tabs s))) of
      None \<Rightarrow> x = mk (seq (get (tabs s)))
        \<and> tabs s' = upd (\<lambda>tb. tb\<lparr>rows := rows tb @ [x], seq := seq tb + 1\<rparr>) (tabs s)
    | Some r \<Rightarrow> x = f r \<and> tabs s' = upd (\<lambda>tb. tb\<lparr>rows := update_rows p f (rows tb)\<rparr>) (tabs s)"
  using assms unfolding upsert_stmt_def
  by (auto dest!: stmt_Inr simp: Let_def split: option.splits)

lemma record_failure_result:
  assumes "LoginThrottleRepository_record_failure h now m w l env s = (Inr r, s')"
  defines "b \<equiv> bump_bucket now m w l (case bucket_of h (tabs s) of None \<Rightarrow> new_bucket h now | Some b \<Rightarrow> b)"
  shows "bucket_of h (tabs s') = Some b" and "r = map_option (until_seconds now) (lt_locked_until b)"
proof -
  let ?p = "\<lambda>b. lt_bucket_hash b = h"
  let ?set = "\<lambda>bumped b. b\<lparr>lt_failure_count := lt_failure_count bumped,
      lt_window_started_at := lt_window_started_at bumped,
      lt_locked_until := lt_locked_until bumped, lt_updated_at := now\<rparr>"
  let ?body = "bindM (upsert_stmt login_throttle_buckets login_throttle_buckets_update throttle_violation
              ?p (\<lambda>_. new_bucket h now) id) (\<lambda>_.
     bindM (find_keyed login_throttle_buckets ?p) (\<lambda>bucket.
     let bumped = bump_bucket now m w l bucket in
     bindM (update_stmt login_throttle_buckets login_throttle_buckets_update throttle_violation
              ?p (?set bumped)) (\<lambda>_.
     retM (map_option (until_seconds now) (lt_locked_until bumped)))))"
  have "straight ?body"
    unfolding find_keyed_def Let_def by (intro straight_rule)
  then obtain s0 s1 where t0: "tabs s0 = tabs s" and body: "?body env s0 = (Inr r, s1)"
    and t1: "tabs s' = tabs s1"
    using assms(1) unfolding LoginThrottleRepository_record_failure_def query_transaction_def
    by (rule transaction_committed)
  obtain x sa q sb rs where
      ups: "upsert_stmt login_throttle_buckets login_throttle_buckets_update throttle_violation
        ?p (\<lambda>_. new_bucket h now) id env s0 = (Inr x, sa)"
    and fnd: "find_keyed login_throttle_buckets ?p env sa = (Inr q, sb)"
    and upd: "update_stmt login_throttle_buckets login_throttle_buckets_update throttle_violation
        ?p (?set (bump_bucket now m w l q)) env sb = (Inr rs, s1)"
    and r: "r = map_option (until_seconds now) (lt_locked_until (bump_bucket now m w l q))"
    using body unfolding bindM_Inr_iff Let_def by auto
  have "bucket_of h (tabs sa) = Some (case bucket_of h (tabs s) of None \<Rightarrow> new_bucket h now | Some b \<Rightarrow> b)"
    using upsert_stmt_Inr [OF ups] t0
    by (auto simp: first_row_append first_row_update new_bucket_def split: option.splits)
  then have q: "q = (case bucket_of h (tabs s) of None \<Rightarrow> new_bucket h now | Some b \<Rightarrow> b)"
    and fq: "bucket_of h (tabs sb) = Some q"
    using find_keyed_Inr [OF fnd] by simp_all
  have "?set (bump_bucket now m w l q) q = bump_bucket now m w l q"
    by (simp add: bump_bucket_def Let_def)
  then show "bucket_of h (tabs s') = Some b"
    using update_stmt_Inr [OF upd] fq q t1 by (simp add: first_row_update b_def)
  show "r = map_option (until_seconds now) (lt_locked_until b)"
    using r q by (simp add: b_def)
qed

lemma foldM_append: "foldM f (xs @ ys) acc = bindM (foldM f xs acc) (foldM f ys)"
proof (induction xs arbitrary: acc)
  case Nil
  then show ?case by (simp add: bindM_def fun_eq_iff)
next
  case (Cons x xs)
  then show ?case by (auto simp: bindM_def fun_eq_iff split: prod.splits sum.splits)
qed

definition record_failures ::
    "string \<Rightarrow> i32 \<Rightarrow> i64 \<Rightarrow> i64 \<Rightarrow> utc list \<Rightarrow> i64 option query" where
  "record_failures h m w l moments =
     foldM (\<lambda>now _. LoginThrottleRepository_record_failure h now m w l) moments None"

lemma record_failures_bucket:
  assumes "record_failures h m w l moments env s = (Inr r, s')"
    and "bucket_of h (tabs s) = None" and "moments \<noteq> []" and "sorted moments"
    and "last moments < hd moments + seconds w" and "int (length moments) \<le> i32_max"
  shows "\<exists>b. bucket_of h (tabs s') = Some b \<and> lt_failure_count b = int (length moments)
    \<and> lt_window_started_at b = hd moments
    \<and> lt_locked_until b = (if m \<le> int (length moments) then Some (last moments + seconds l) else None)"
  using assms
proof (induction moments arbitrary: r s' rule: rev_induct)
  case Nil
  then show ?case by simp
next
  case (snoc t ts)
  obtain x s1 where pre: "record_failures h m w l ts env s = (Inr x, s1)"
    and last: "LoginThrottleRepository_record_failure h t m w l env s1 = (Inr r, s')"
    using snoc.prems(1) unfolding record_failures_def foldM_append
    by (auto simp: bindM_Inr_iff)
  show ?case
  proof (cases "ts = []")
    case True
    then have "tabs s1 = tabs s" using pre by (simp add: record_failures_def)
    then show ?thesis
      using record_failure_result(1) [OF last] snoc.prems(2) True snoc.prems(5,6)
      by (auto simp: bump_bucket_def new_bucket_def Let_def saturating_add_i32_def clamp_int_def
          i32_max_def i32_min_def)
  next
    case False
    then have hd: "hd (ts @ [t]) = hd ts" and "last ts \<le> t"
      using snoc.prems(4) by (simp_all add: sorted_append)
    then have "last ts < hd ts + seconds w" using snoc.prems(5) False by simp
    then obtain b where b: "bucket_of h (tabs s1) = Some b" "lt_failure_count b = int (length ts)"
      "lt_window_started_at b = hd ts"
      "lt_locked_until b = (if m \<le> int (length ts) then Some (last ts + seconds l) else None)"
      using snoc.IH [OF pre snoc.prems(2) False] snoc.prems(4,6) by (auto simp: sorted_append)
    then have "bucket_of h (tabs s') = Some (bump_bucket t m w l b)"
      using record_failure_result(1) [OF last] by simp
    moreover have "\<not> hd ts \<le> t - seconds w" using snoc.prems(5) hd False by simp
    ultimately show ?thesis
      using b snoc.prems(6) False
      by (auto simp: bump_bucket_def Let_def saturating_add_i32_def clamp_int_def i32_max_def i32_min_def)
  qed
qed

text \<open>A burst of failed logins within one window locks the bucket exactly when it reaches the
  limit, and then for the whole lockout after the last failure: until then, a login is told how long
  to wait, at least one second.\<close>

theorem failures_lock_the_bucket:
  assumes "record_failures h m w l moments env s = (Inr r, s1)"
    and "bucket_of h (tabs s) = None" and "moments \<noteq> []" and "sorted moments"
    and "last moments < hd moments + seconds w" and "int (length moments) \<le> i32_max"
    and "LoginThrottleRepository_retry_after_seconds h now env' s1 = (Inr z, s2)"
  shows "z = (if m \<le> int (length moments) \<and> now < last moments + seconds l
      then Some (until_seconds now (last moments + seconds l)) else None)
    \<and> (\<forall>k. z = Some k \<longrightarrow> 1 \<le> k)"
proof -
  obtain b where b: "bucket_of h (tabs s1) = Some b"
    "lt_locked_until b = (if m \<le> int (length moments) then Some (last moments + seconds l) else None)"
    using record_failures_bucket [OF assms(1-6)] by blast
  have "z = (case Option.bind (bucket_of h (tabs s1)) lt_locked_until of
        None \<Rightarrow> None
      | Some locked_until \<Rightarrow> if locked_until > now then Some (until_seconds now locked_until) else None)"
    using assms(7) unfolding LoginThrottleRepository_retry_after_seconds_def bindM_Inr_iff
    by (auto dest!: select_stmt_Inr)
  with b show ?thesis by (auto simp: until_seconds_def split: if_splits)
qed

section \<open>OpenID login transactions\<close>

lemma consume_result:
  assumes run: "OidcLoginTransactionRepository_consume sh bh now env s = (r, s')"
  defines "q \<equiv> rows (oidc_login_transactions (tabs s))"
  shows "r = Inr x \<Longrightarrow> x \<in> set q \<and> consumable sh bh now x
      \<and> rows (oidc_login_transactions (tabs s')) = delete_rows (consumable sh bh now) q"
    and "r = Inl e \<Longrightarrow> oidc_login_transactions (tabs s') = oidc_login_transactions (tabs s)"
proof -
  obtain y sa where del: "delete_stmt oidc_login_transactions oidc_login_transactions_update no_restriction
      no_action (consumable sh bh now) env s = (y, sa)" by force
  note defs = OidcLoginTransactionRepository_consume_def bindM_def expect_row_def one_row_def no_action_def
  have "(r = Inr x \<longrightarrow> x \<in> set q \<and> consumable sh bh now x
      \<and> rows (oidc_login_transactions (tabs s')) = delete_rows (consumable sh bh now) q)
    \<and> (r = Inl e \<longrightarrow> oidc_login_transactions (tabs s') = oidc_login_transactions (tabs s))"
  proof (cases y)
    case (Inl e')
    then have "tabs sa = tabs s" using del unfolding delete_stmt_def by (blast dest: stmt_Inl_tabs)
    then show ?thesis using run del Inl by (auto simp: defs)
  next
    case (Inr gone)
    note d = delete_stmt_Inr [OF del [unfolded Inr]]
    show ?thesis
    proof (cases gone)
      case Nil
      then have "delete_rows (consumable sh bh now) q = q"
        using d unfolding q_def delete_rows_def
        by (metis (mono_tags, lifting) filter_True filter_empty_conv)
      then show ?thesis using run del Inr Nil d by (auto simp: defs q_def)
    next
      case (Cons a rest)
      then have "a \<in> set (filter (consumable sh bh now) q)" using d q_def by (metis list.set_intros(1))
      then show ?thesis using run del Inr Cons d by (auto simp: defs q_def)
    qed
  qed
  then show "r = Inr x \<Longrightarrow> x \<in> set q \<and> consumable sh bh now x
      \<and> rows (oidc_login_transactions (tabs s')) = delete_rows (consumable sh bh now) q"
    and "r = Inl e \<Longrightarrow> oidc_login_transactions (tabs s') = oidc_login_transactions (tabs s)"
    by blast+
qed

text \<open>A login transaction is used at most once: consuming it requires the state, the browser binding
  and the time to match, removes it, and any later attempt with the same state fails; an attempt that
  fails removes nothing.\<close>

theorem login_transaction_is_single_use:
  assumes "OidcLoginTransactionRepository_consume sh bh now env s = (r, s1)"
    and "distinct (map ot_state_hash (rows (oidc_login_transactions (tabs s))))"
  shows "case r of
      Inl e \<Rightarrow> oidc_login_transactions (tabs s1) = oidc_login_transactions (tabs s)
    | Inr x \<Rightarrow> x \<in> set (rows (oidc_login_transactions (tabs s))) \<and> consumable sh bh now x
        \<and> rows (oidc_login_transactions (tabs s1)) = remove1 x (rows (oidc_login_transactions (tabs s)))
        \<and> (\<forall>bh' now' env' r' s2. OidcLoginTransactionRepository_consume sh bh' now' env' s1 = (r', s2)
             \<longrightarrow> (\<exists>e. r' = Inl e))"
proof -
  let ?t = "\<lambda>s. rows (oidc_login_transactions (tabs s))"
  show ?thesis
  proof (cases r)
    case (Inl e)
    then show ?thesis using consume_result(2) [OF assms(1)] by simp
  next
    case (Inr x)
    then have x: "x \<in> set (?t s)" "consumable sh bh now x"
      and t1: "?t s1 = delete_rows (consumable sh bh now) (?t s)"
      using consume_result(1) [OF assms(1)] by auto
    have same: "y = x" if "y \<in> set (?t s)" "ot_state_hash y = sh" for y
      using that x assms(2) by (auto simp: distinct_map inj_on_def consumable_def)
    have rm: "?t s1 = remove1 x (?t s)"
    proof -
      have one: "consumable sh bh now y \<longleftrightarrow> x = y" if "y \<in> set (?t s)" for y
        using that same [OF that] x by (auto simp: consumable_def)
      have "?t s1 = filter (\<lambda>y. x \<noteq> y) (?t s)"
        unfolding t1 delete_rows_def by (rule filter_cong [OF refl]) (simp add: one)
      also have "\<dots> = remove1 x (?t s)"
        using assms(2) by (simp add: distinct_map distinct_remove1_removeAll removeAll_filter_not_eq)
      finally show ?thesis .
    qed
    have "\<exists>e. r' = Inl e" if again: "OidcLoginTransactionRepository_consume sh bh' now' env' s1 = (r', s2)"
      for bh' now' env' r' s2
    proof (rule ccontr)
      assume "\<not> (\<exists>e. r' = Inl e)"
      then obtain y where "r' = Inr y" by (cases r') auto
      then have "y \<in> set (?t s1)" "ot_state_hash y = sh"
        using consume_result(1) [OF again] by (auto simp: consumable_def)
      then show False using same x by (auto simp: t1 consumable_def)
    qed
    then show ?thesis using x rm Inr by simp
  qed
qed

text \<open>The number of pending OpenID logins stays within its limit: a new one is stored only while
  fewer than the limit are pending; otherwise it is refused, and no pending login is dropped in either
  case.\<close>

theorem pending_logins_bounded:
  assumes "OidcLoginTransactionRepository_create_bounded n now limit env s = (Inr x, s')"
  shows "case x of
      None \<Rightarrow> limit \<le> int (count_rows (\<lambda>r. now < ot_expires_at r) (rows (oidc_login_transactions (tabs s))))
        \<and> rows (oidc_login_transactions (tabs s'))
          = filter (\<lambda>r. now < ot_expires_at r) (rows (oidc_login_transactions (tabs s)))
    | Some r \<Rightarrow> int (length (rows (oidc_login_transactions (tabs s')))) \<le> limit
        \<and> rows (oidc_login_transactions (tabs s'))
          = filter (\<lambda>r. now < ot_expires_at r) (rows (oidc_login_transactions (tabs s))) @ [r]
        \<and> NewOidcLoginTransaction.truncate r = n"
proof -
  let ?live = "\<lambda>r. now < ot_expires_at r" and ?t = "\<lambda>s. rows (oidc_login_transactions (tabs s))"
  let ?ins = "\<lambda>created_at. insert_stmt oidc_login_transactions oidc_login_transactions_update oidc_violation
                (\<lambda>_. NewOidcLoginTransaction.extend n (OidcLoginTransaction.fields created_at))"
  let ?body = "bindM advisory_lock (\<lambda>_.
     bindM (OidcLoginTransactionRepository_delete_expired now) (\<lambda>_.
     bindM (select_stmt (\<lambda>t. count_rows ?live (rows (oidc_login_transactions t)))) (\<lambda>pending.
     if int pending \<ge> limit then retM None
     else bindM utc_now (\<lambda>created_at. bindM (?ins created_at) (\<lambda>x. retM (Some x))))))"
  have "straight ?body"
    unfolding advisory_lock_def OidcLoginTransactionRepository_delete_expired_def by (intro straight_rule)
  then obtain s0 s1 where t0: "tabs s0 = tabs s" and body: "?body env s0 = (Inr x, s1)"
    and t1: "tabs s' = tabs s1"
    using assms unfolding OidcLoginTransactionRepository_create_bounded_def query_transaction_def
    by (rule transaction_committed)
  obtain z sa gone sb c sc where lock: "advisory_lock env s0 = (Inr z, sa)"
    and del: "delete_stmt oidc_login_transactions oidc_login_transactions_update no_restriction no_action
        (\<lambda>x. ot_expires_at x \<le> now) env sa = (Inr gone, sb)"
    and cnt: "select_stmt (\<lambda>t. count_rows ?live (rows (oidc_login_transactions t))) env sb = (Inr c, sc)"
    and rest: "(if int c \<ge> limit then retM None
     else bindM utc_now (\<lambda>created_at. bindM (?ins created_at) (\<lambda>x. retM (Some x)))) env sc = (Inr x, s1)"
    using body unfolding bindM_Inr_iff OidcLoginTransactionRepository_delete_expired_def by auto
  have ta: "tabs sa = tabs s" using lock t0 by (auto simp: advisory_lock_def dest: select_stmt_tabs)
  have tb: "?t sb = filter ?live (?t s)"
    using delete_stmt_Inr [OF del] ta by (simp add: no_action_def delete_rows_def not_le)
  have tc: "tabs sc = tabs sb" and c: "c = count_rows ?live (?t s)"
    using select_stmt_Inr [OF cnt] tb by (simp_all add: count_rows_def)
  show ?thesis
  proof (cases "int c \<ge> limit")
    case True
    then show ?thesis using rest tb tc t1 c by auto
  next
    case False
    then obtain cr y sd where ins: "?ins cr env sd = (Inr y, s1)" and sd: "tabs sd = tabs sc" and x: "x = Some y"
      using rest by (auto simp: bindM_Inr_iff)
    have "?t s' = filter ?live (?t s) @ [y]" and "y = NewOidcLoginTransaction.extend n (OidcLoginTransaction.fields cr)"
      using insert_stmt_Inr [OF ins] sd tc tb t1 by simp_all
    then show ?thesis
      using False x c by (auto simp: count_rows_def NewOidcLoginTransaction.extend_def
          NewOidcLoginTransaction.truncate_def OidcLoginTransaction.fields_def)
  qed
qed

end
