(* ===== verification/Access_Properties.thy ===== *)
theory Access_Properties
  imports Login Session_Properties
begin

text \<open>
  What the request guard, login and logout guarantee together: a request is authenticated only through
  an unexpired stored session of the token it presents, a session is created only after the password
  was verified and not while the account is locked, the cookie of a login authenticates later
  requests, and a revoked token never does again.
\<close>

section \<open>Undisturbed computations\<close>

text \<open>Nothing else changes the database while the request is served.\<close>

definition undisturbed :: "env \<Rightarrow> bool" where
  "undisturbed env \<longleftrightarrow> (\<forall>n t. env_other env n t = t)"

lemma stepM_undisturbed:
  assumes "undisturbed env" and "stepM m env s = (r, s')"
  obtains s1 where "m env s = (r, s1)" and "tabs s' = tabs s1" and "tick s1 \<le> tick s'"
  using assms by (cases "m env s") (auto simp: stepM_def undisturbed_def)

lemma liftM_Inr_iff: "liftM m env s = (Inr x, s') \<longleftrightarrow> m env s = (Inr x, s')"
  by (auto simp: liftM_def handleM_def split: prod.splits sum.splits)

lemma step_lift_Inr:
  assumes "undisturbed env" and "stepM (liftM m) env s = (Inr x, s')"
  obtains s1 where "m env s = (Inr x, s1)" and "tabs s' = tabs s1"
  using assms by (elim stepM_undisturbed) (auto simp: liftM_Inr_iff)

lemma keeps_step [keeps_rule]: "undisturbed env \<Longrightarrow> keeps env I m \<Longrightarrow> keeps env I (stepM m)"
  unfolding keeps_def by (metis stepM_undisturbed)

lemma keeps_outside [keeps_rule]: "undisturbed env \<Longrightarrow> keeps env I outside_call"
  by (auto simp: keeps_def outside_call_def undisturbed_def)

lemma keeps_draw [keeps_rule]: "keeps env I draw"
  by (auto simp: keeps_def draw_def)

lemma keeps_find [keeps_rule]: "keeps env I (find_keyed get p)"
  unfolding find_keyed_def by (intro keeps_rule)

lemma find_missing:
  assumes "find_keyed get p env s = (Inl NotFoundError, s')" and "\<forall>k. env_fault env k \<noteq> Some NotFoundError"
  shows "first_row p (rows (get (tabs s))) = None \<and> tabs s' = tabs s \<and> tx_aborted s' = tx_aborted s"
  using assms unfolding find_keyed_def bindM_def select_stmt_def stmt_def fail_stmt_def Let_def aborted_error_def
  by (auto simp: expect_row_def split: option.splits if_splits sum.splits prod.splits)

text \<open>An error leaves what \<open>I\<close> says of the tables.\<close>

definition fails_clean :: "env \<Rightarrow> (tables \<Rightarrow> bool) \<Rightarrow> ('e, 'a) dbm \<Rightarrow> bool" where
  "fails_clean env I m \<longleftrightarrow> (\<forall>s e s'. I (tabs s) \<longrightarrow> m env s = (Inl e, s') \<longrightarrow> I (tabs s'))"

lemma keeps_fails_clean: "keeps env I m \<Longrightarrow> fails_clean env I m"
  by (auto simp: keeps_def fails_clean_def)

lemma bindM_Inl_iff:
  "bindM m f env s = (Inl e, s') \<longleftrightarrow> m env s = (Inl e, s')
     \<or> (\<exists>x s1. m env s = (Inr x, s1) \<and> f x env s1 = (Inl e, s'))"
  by (auto simp: bindM_def split: prod.splits sum.splits)

lemma fails_clean_bind:
  assumes "keeps env I m" and "\<And>x. fails_clean env I (f x)"
  shows "fails_clean env I (bindM m f)"
  using assms unfolding fails_clean_def bindM_Inl_iff by (meson keepsD)

lemma fails_clean_last:
  assumes "fails_clean env I m" and "\<And>x. \<exists>y. f x = retM y"
  shows "fails_clean env I (bindM m f)"
proof -
  have "f x env s \<noteq> (Inl e, s')" for x s e s' using assms(2) [of x] by auto
  then show ?thesis using assms(1) unfolding fails_clean_def bindM_Inl_iff by blast
qed

lemma fails_clean_step: "undisturbed env \<Longrightarrow> fails_clean env I m \<Longrightarrow> fails_clean env I (stepM m)"
  unfolding fails_clean_def by (metis stepM_undisturbed)

lemma fails_clean_lift: "fails_clean env I m \<Longrightarrow> fails_clean env I (liftM m)"
  unfolding fails_clean_def liftM_def handleM_def by (auto split: prod.splits sum.splits)

lemma transaction_fails_clean: "fails_clean env I (transaction m conv)"
  unfolding fails_clean_def by (metis Inr_Inl_False transaction_outcome)

section \<open>The request guard\<close>

lemma handleM_Inr_iff:
  "handleM m h f env s = (Inr y, s') \<longleftrightarrow> (\<exists>x s1. m env s = (Inr x, s1) \<and> f x env s1 = (Inr y, s'))
     \<or> (\<exists>e s1. m env s = (Inl e, s1) \<and> h e env s1 = (Inr y, s'))"
  by (auto simp: handleM_def split: prod.splits sum.splits)

lemma guard_error_Inr [simp]: "guard_error e env s \<noteq> (Inr x, s')"
  by (simp add: guard_error_def)

lemma guardM_Inr:
  assumes "guardM m (\<lambda>_. missing) f env s = (Inr y, s')" and "\<And>x s s'. missing env s \<noteq> (Inr x, s')"
  obtains x s1 where "stepM m env s = (Inr x, s1)" and "f x env s1 = (Inr y, s')"
  using assms unfolding guardM_def handleM_Inr_iff by (auto split: if_splits)

lemma discard_Inr: "bindM m (\<lambda>_. guard_error e) env s \<noteq> (Inr x, s')"
  by (simp add: bindM_Inr_iff)

lemma roles_of_user:
  assumes "RoleRepository_find_by_user user env s = (Inr rs, s')"
  shows "rs = filter (\<lambda>r. ro_id r \<in> set (map ur_role_id
      (filter (\<lambda>x. ur_user_id x = us_id user) (rows (users_roles (tabs s)))))) (rows (roles (tabs s)))
    \<and> tabs s' = tabs s"
  using assms unfolding RoleRepository_find_by_user_def RoleRepository_find_by_ids_def bindM_Inr_iff
  by (auto dest!: select_stmt_Inr)

lemma authenticate_Inr:
  assumes "authenticate au token env s = (Inr auth, s')" and quiet: "undisturbed env"
  shows "au_token auth = token
    \<and> first_row (\<lambda>x. se_token_hash x = session_token_hash au token) (rows (sessions (tabs s)))
      = Some (au_session auth)
    \<and> (\<exists>n. env_clock env n < se_expires_at (au_session auth))
    \<and> first_row (\<lambda>u. us_id u = se_user_id (au_session auth)) (rows (users (tabs s))) = Some (au_user auth)
    \<and> au_roles auth = filter (\<lambda>r. ro_id r \<in> set (map ur_role_id
        (filter (\<lambda>x. ur_user_id x = us_id (au_user auth)) (rows (users_roles (tabs s)))))) (rows (roles (tabs s)))
    \<and> tabs s' = tabs s"
proof -
  obtain session s1 where 1: "stepM (SessionRepository_find_by_token au token) env s = (Inr session, s1)"
    and r1: "bindM utc_now (\<lambda>now.
       if se_expires_at session \<le> now then
         bindM (ignoreM (stepM (SessionRepository_delete_by_token au token))) (\<lambda>_. guard_error Unauthorized)
       else guardM (UserRepository_find (se_user_id session))
         (\<lambda>_. bindM (ignoreM (stepM (SessionRepository_delete_by_token au token)))
              (\<lambda>_. guard_error Unauthorized))
         (\<lambda>user. handleM (stepM (RoleRepository_find_by_user user)) (\<lambda>e. guard_error (api_error_of e))
         (\<lambda>roles. retM \<lparr>au_user = user, au_session = session, au_roles = roles, au_token = token\<rparr>)))
       env s1 = (Inr auth, s')"
    using assms(1) unfolding authenticate_def by (rule guardM_Inr) simp
  obtain now s2 where now: "utc_now env s1 = (Inr now, s2 :: db)" and live: "now < se_expires_at session"
    and r2: "guardM (UserRepository_find (se_user_id session))
         (\<lambda>_. bindM (ignoreM (stepM (SessionRepository_delete_by_token au token)))
              (\<lambda>_. guard_error Unauthorized))
         (\<lambda>user. handleM (stepM (RoleRepository_find_by_user user)) (\<lambda>e. guard_error (api_error_of e))
         (\<lambda>roles. retM \<lparr>au_user = user, au_session = session, au_roles = roles, au_token = token\<rparr>))
       env s2 = (Inr auth, s')"
    using r1 by (auto simp: bindM_Inr_iff split: if_splits)
  obtain user s3 where 2: "stepM (UserRepository_find (se_user_id session)) env s2 = (Inr user, s3)"
    and r3: "handleM (stepM (RoleRepository_find_by_user user)) (\<lambda>e. guard_error (api_error_of e))
         (\<lambda>roles. retM \<lparr>au_user = user, au_session = session, au_roles = roles, au_token = token\<rparr>)
       env s3 = (Inr auth, s')"
    using r2 by (rule guardM_Inr) (simp add: discard_Inr)
  obtain rs where 3: "stepM (RoleRepository_find_by_user user) env s3 = (Inr rs, s')"
    and auth: "auth = \<lparr>au_user = user, au_session = session, au_roles = rs, au_token = token\<rparr>"
    using r3 by (auto simp: handleM_Inr_iff)
  obtain a where a: "SessionRepository_find_by_token au token env s = (Inr session, a)" "tabs s1 = tabs a"
    by (rule stepM_undisturbed [OF quiet 1])
  obtain b where b: "UserRepository_find (se_user_id session) env s2 = (Inr user, b)" "tabs s3 = tabs b"
    by (rule stepM_undisturbed [OF quiet 2])
  obtain c where c: "RoleRepository_find_by_user user env s3 = (Inr rs, c)" "tabs s' = tabs c"
    by (rule stepM_undisturbed [OF quiet 3])
  have "tabs s2 = tabs s1" and clk: "env_clock env (tick s1) = now" using now by auto
  with a have t2: "tabs s2 = tabs s"
    by (auto simp: SessionRepository_find_by_token_def dest: find_keyed_tabs)
  with b have t: "tabs s2 = tabs s" "tabs s3 = tabs s"
    by (auto simp: UserRepository_find_def dest: find_keyed_tabs)
  show ?thesis
    using find_keyed_Inr [OF a(1) [unfolded SessionRepository_find_by_token_def]]
      find_keyed_Inr [OF b(1) [unfolded UserRepository_find_def]] roles_of_user [OF c(1)] c(2) t live clk
    by (auto simp: auth)
qed

definition presents :: "request \<Rightarrow> AppConfig \<Rightarrow> string \<Rightarrow> bool" where
  "presents r config token \<longleftrightarrow> request_token r (session_cookie_name config) = Some (Bearer token)
     \<or> request_token r (session_cookie_name config) = Some (Cookie token)
       \<and> (safe_method (rq_method r) \<or> rq_csrf r = Some ''1'')"

lemma from_request_Inr:
  assumes "from_request au config pool r env s = (Inr auth, s')" and "undisturbed env"
  obtains c token s1 where "config = Some c" and "presents r c token" and "tabs s1 = tabs s"
    and "authenticate au token env s1 = (Inr auth, s')"
proof -
  obtain c where c: "config = Some c"
    using assms(1) by (cases config) (simp_all add: from_request_def)
  obtain presented where p: "request_token r (session_cookie_name c) = Some presented"
    using assms(1) c
    by (cases "request_token r (session_cookie_name c)") (simp_all add: from_request_def)
  define token where "token = (case presented of Bearer t \<Rightarrow> t | Cookie t \<Rightarrow> t)"
  have "presents r c token"
    using assms(1) c p by (cases presented) (auto simp: from_request_def presents_def token_def split: if_splits)
  moreover have "bindM outside_call (\<lambda>n. case pool n of
       PoolError status \<Rightarrow> if status = 503 then throwM (GuardError status ServiceUnavailable)
         else throwM (GuardError status Internal)
     | PoolForward status \<Rightarrow> throwM (GuardForward status)
     | Connected \<Rightarrow> authenticate au token) env s = (Inr auth, s')"
    using assms(1) c p by (cases presented) (auto simp: from_request_def token_def split: if_splits cong: checkout.case_cong)
  then obtain n s1 where o: "(outside_call :: (guard_failure, nat) dbm) env s = (Inr n, s1)"
    and go: "(case pool n of
       PoolError status \<Rightarrow> if status = 503 then throwM (GuardError status ServiceUnavailable)
         else throwM (GuardError status Internal)
     | PoolForward status \<Rightarrow> throwM (GuardForward status)
     | Connected \<Rightarrow> authenticate au token) env s1 = (Inr auth, s')"
    unfolding bindM_Inr_iff by blast
  have a: "authenticate au token env s1 = (Inr auth, s')"
    using go by (cases "pool n") (auto split: if_splits)
  moreover have "tabs s1 = tabs s"
    using assms(2) o by (auto simp: outside_call_def undisturbed_def)
  ultimately show ?thesis using that c a by blast
qed

text \<open>C4: A request is authenticated only if it presents a token, by a bearer header or by the session
  cookie, and a cookie on an unsafe method only together with the CSRF header; the token belongs to a
  stored session that had not expired, the user is the owner of that session with exactly the roles
  assigned to it, and authenticating changes nothing.\<close>

theorem authenticated_request:
  assumes "from_request au config pool r env s = (Inr auth, s')" and "undisturbed env"
  shows "\<exists>c. config = Some c \<and> presents r c (au_token auth)
    \<and> au_session auth \<in> set (rows (sessions (tabs s)))
    \<and> se_token_hash (au_session auth) = session_token_hash au (au_token auth)
    \<and> (\<exists>n. env_clock env n < se_expires_at (au_session auth))
    \<and> au_user auth \<in> set (rows (users (tabs s))) \<and> us_id (au_user auth) = se_user_id (au_session auth)
    \<and> set (au_roles auth) = {ro \<in> set (rows (roles (tabs s))). \<exists>ur \<in> set (rows (users_roles (tabs s))).
        ur_user_id ur = us_id (au_user auth) \<and> ur_role_id ur = ro_id ro}
    \<and> tabs s' = tabs s"
proof -
  obtain c token s1 where c: "config = Some c" "presents r c token" "tabs s1 = tabs s"
    and a: "authenticate au token env s1 = (Inr auth, s')"
    by (rule from_request_Inr [OF assms])
  note auth = authenticate_Inr [OF a assms(2), unfolded c(3)]
  then have "set (au_roles auth) = {ro \<in> set (rows (roles (tabs s))). \<exists>ur \<in> set (rows (users_roles (tabs s))).
        ur_user_id ur = us_id (au_user auth) \<and> ur_role_id ur = ro_id ro}"
    by (auto simp: image_iff)
  with auth c show ?thesis by (auto dest!: first_row_Some simp del: set_filter)
qed

section \<open>Logout and revocation\<close>

lemma step_delete_sessions:
  assumes "undisturbed env" and "stepM (liftM (delete_sessions p)) env s = (Inr n, s')"
  shows "tabs s' = sessions_update (\<lambda>tb. tb\<lparr>rows := delete_rows p (rows tb)\<rparr>) (tabs s)"
proof -
  obtain s1 where "delete_sessions p env s = (Inr n, s1)" and t: "tabs s' = tabs s1"
    by (rule step_lift_Inr [OF assms])
  show ?thesis unfolding t by (rule delete_sessions_Inr) fact
qed

text \<open>C28: A successful logout removes exactly the sessions of the token and clears the session cookie;
  no later request is authenticated by that token unless a new session was created for it.\<close>

theorem logout_revokes_the_token:
  assumes "undisturbed env" and out: "logout au config auth env s = (Inr cookies, s1)"
  defines "h \<equiv> session_token_hash au (au_token auth)"
  shows "rows (sessions (tabs s1)) = filter (\<lambda>x. se_token_hash x \<noteq> h) (rows (sessions (tabs s)))
    \<and> cookies = clear_session_cookies config
    \<and> (\<forall>env' c pool r s2 later s3. undisturbed env' \<longrightarrow>
         (\<forall>x \<in> set (rows (sessions (tabs s2))). se_token_hash x = h \<longrightarrow> x \<in> set (rows (sessions (tabs s1)))) \<longrightarrow>
         from_request au c pool r env' s2 = (Inr later, s3) \<longrightarrow> au_token later \<noteq> au_token auth)"
proof -
  obtain n where c: "cookies = clear_session_cookies config"
    and "stepM (liftM (SessionRepository_delete_by_token au (au_token auth))) env s = (Inr n, s1)"
    using out unfolding logout_def bindM_Inr_iff by auto
  then have t: "rows (sessions (tabs s1)) = filter (\<lambda>x. se_token_hash x \<noteq> h) (rows (sessions (tabs s)))"
    using step_delete_sessions [OF assms(1)]
    by (simp add: SessionRepository_delete_by_token_def h_def delete_rows_def)
  have "au_token later \<noteq> au_token auth"
    if quiet: "undisturbed env'" and req: "from_request au c pool r env' s2 = (Inr later, s3)"
      and kept: "\<forall>x \<in> set (rows (sessions (tabs s2))). se_token_hash x = h \<longrightarrow> x \<in> set (rows (sessions (tabs s1)))"
    for env' c pool r s2 later s3
  proof
    assume same: "au_token later = au_token auth"
    obtain token s4 where "tabs s4 = tabs s2" and "authenticate au token env' s4 = (Inr later, s3)"
      using from_request_Inr [OF req quiet] by metis
    then have "au_session later \<in> set (rows (sessions (tabs s2)))"
      and "se_token_hash (au_session later) = h"
      using authenticate_Inr [of au token env' s4 later s3] quiet same
      by (auto simp: h_def dest!: first_row_Some)
    with kept have "au_session later \<in> set (rows (sessions (tabs s1)))" by blast
    with \<open>se_token_hash (au_session later) = h\<close> show False by (simp add: t)
  qed
  with t c show ?thesis by blast
qed

text \<open>A successful revocation removes exactly the sessions of the user and clears the session
  cookie; no later request is authenticated as the user unless a new session was created.\<close>

theorem revoke_all_signs_the_user_out:
  assumes "undisturbed env" and out: "revoke_all_sessions config auth env s = (Inr (n, cookies), s1)"
  defines "u \<equiv> us_id (au_user auth)"
  shows "rows (sessions (tabs s1)) = filter (\<lambda>x. se_user_id x \<noteq> u) (rows (sessions (tabs s)))
    \<and> cookies = clear_session_cookies config
    \<and> (\<forall>env' c pool r s2 later s3. undisturbed env' \<longrightarrow>
         (\<forall>x \<in> set (rows (sessions (tabs s2))). se_user_id x = u \<longrightarrow> x \<in> set (rows (sessions (tabs s1)))) \<longrightarrow>
         from_request au c pool r env' s2 = (Inr later, s3) \<longrightarrow> us_id (au_user later) \<noteq> u)"
proof -
  obtain m where c: "cookies = clear_session_cookies config"
    and "stepM (liftM (SessionRepository_delete_by_user u)) env s = (Inr m, s1)"
    using out unfolding revoke_all_sessions_def bindM_Inr_iff by (auto simp: u_def)
  then have t: "rows (sessions (tabs s1)) = filter (\<lambda>x. se_user_id x \<noteq> u) (rows (sessions (tabs s)))"
    using step_delete_sessions [OF assms(1)]
    by (simp add: SessionRepository_delete_by_user_def delete_rows_def)
  have "us_id (au_user later) \<noteq> u"
    if quiet: "undisturbed env'" and req: "from_request au c pool r env' s2 = (Inr later, s3)"
      and kept: "\<forall>x \<in> set (rows (sessions (tabs s2))). se_user_id x = u \<longrightarrow> x \<in> set (rows (sessions (tabs s1)))"
    for env' c pool r s2 later s3
  proof
    assume same: "us_id (au_user later) = u"
    obtain token s4 where "tabs s4 = tabs s2" and "authenticate au token env' s4 = (Inr later, s3)"
      using from_request_Inr [OF req quiet] by metis
    then have "au_session later \<in> set (rows (sessions (tabs s2)))" and "se_user_id (au_session later) = u"
      using authenticate_Inr [of au token env' s4 later s3] quiet same by (auto dest!: first_row_Some)
    with kept have "au_session later \<in> set (rows (sessions (tabs s1)))" by blast
    with \<open>se_user_id (au_session later) = u\<close> show False by (simp add: t)
  qed
  with t c show ?thesis by blast
qed

section \<open>Login\<close>

definition throttle_free :: "(tables \<Rightarrow> bool) \<Rightarrow> bool" where
  "throttle_free I \<longleftrightarrow> (\<forall>t f. I t \<longrightarrow> I (login_throttle_buckets_update f t))"

lemma keeps_throttle:
  assumes "throttle_free I"
  shows "keeps env I (LoginThrottleRepository_prune_before c)"
    and "keeps env I (LoginThrottleRepository_retry_after_seconds h now)"
    and "keeps env I (LoginThrottleRepository_clear h)"
    and "keeps env I (LoginThrottleRepository_record_failure h now m wn l)"
  using assms
  unfolding LoginThrottleRepository_prune_before_def LoginThrottleRepository_retry_after_seconds_def
    LoginThrottleRepository_clear_def LoginThrottleRepository_record_failure_def throttle_free_def Let_def
  by (intro keeps_rule keeps_delete_stmt keeps_upsert_stmt keeps_update_stmt; simp add: no_action_def)+

lemma keeps_lookup:
  assumes "throttle_free I" and "undisturbed env"
  shows "keeps env I (login_lookup au b username now)"
  unfolding login_lookup_def UserRepository_find_by_username_def
  by (intro keeps_rule keeps_throttle assms)

lemma keeps_acquire: "undisturbed env \<Longrightarrow> keeps env I (acquire w)"
  unfolding acquire_def by (intro keeps_rule) (auto split: permit.splits intro: keeps_rule)

lemma keeps_verify: "undisturbed env \<Longrightarrow> keeps env I (login_verify au w user pw)"
  unfolding login_verify_def by (intro keeps_rule keeps_acquire)

lemma keeps_checkout: "undisturbed env \<Longrightarrow> keeps env I (checkout_connection w)"
  unfolding checkout_connection_def by (intro keeps_rule)

lemma keeps_failed:
  assumes "throttle_free I" and "undisturbed env"
  shows "keeps env I (login_failed config b)"
  unfolding login_failed_def by (intro keeps_rule keeps_throttle assms)

lemma establish_fails_clean:
  assumes "undisturbed env"
  shows "fails_clean env I (establish_session au config u m client)"
  unfolding establish_session_def generate_token_def Let_def SessionRepository_create_def
    query_transaction_def
  by (intro fails_clean_bind keeps_rule fails_clean_last fails_clean_step fails_clean_lift assms)
    (auto intro: transaction_fails_clean keeps_fails_clean keeps_rule)

lemma succeeded_fails_clean:
  assumes "throttle_free I" and "undisturbed env"
  shows "fails_clean env I (login_succeeded au config b user client)"
  unfolding login_succeeded_def
  by (intro fails_clean_bind keeps_rule keeps_throttle assms fails_clean_last establish_fails_clean)
    (auto split: prod.splits)

lemma login_fails_clean:
  assumes "throttle_free I" and "undisturbed env"
  shows "fails_clean env I (login au w config client credentials)"
  unfolding login_def Let_def
  by (auto intro!: fails_clean_bind keeps_rule keeps_lookup keeps_verify keeps_checkout assms
      succeeded_fails_clean keeps_failed [THEN keeps_fails_clean] keeps_throw [THEN keeps_fails_clean]
      split: option.splits)

text \<open>What a successful login has gone through.\<close>

lemma lookup_Inr:
  assumes "login_lookup au b username now env s = (Inr (Some u), s')" and quiet: "undisturbed env"
  shows "u \<in> set (rows (users (tabs s)))
    \<and> au_sql_lower au (us_username u) = canonical_username au username"
proof -
  obtain x1 s1 x2 s2 x3 s3 where
      p1: "(ignoreM (stepM (LoginThrottleRepository_prune_before (now - days 1))) :: unit api) env s = (Inr x1, s1)"
    and p2: "stepM (liftM (LoginThrottleRepository_retry_after_seconds (tb_client b) now)) env s1 = (Inr x2, s2)"
    and p3: "stepM (liftM (LoginThrottleRepository_retry_after_seconds (tb_account b) now)) env s2 = (Inr x3, s3)"
    and r: "(case max_option x2 x3 of Some retry_after_seconds \<Rightarrow> throwM (RateLimited retry_after_seconds)
       | None \<Rightarrow> handleM (stepM (UserRepository_find_by_username au username))
           (\<lambda>e. if e = NotFoundError then retM None else throwM (api_error_of e))
           (\<lambda>user. retM (Some user))) env s3 = (Inr (Some u), s')"
    using assms(1) unfolding login_lookup_def bindM_Inr_iff by blast
  have free: "throttle_free (\<lambda>t. users t = users (tabs s))" by (simp add: throttle_free_def)
  have k: "keeps env (\<lambda>t. users t = users (tabs s)) (stepM (liftM
      (LoginThrottleRepository_retry_after_seconds h now)))" for h
    by (intro keeps_rule keeps_throttle free quiet)
  have "keeps env (\<lambda>t. users t = users (tabs s))
      (ignoreM (stepM (LoginThrottleRepository_prune_before (now - days 1))) :: unit api)"
    by (intro keeps_rule keeps_throttle free quiet)
  from keepsD [OF this refl p1] have "users (tabs s1) = users (tabs s)" .
  from keepsD [OF k this p2] have "users (tabs s2) = users (tabs s)" .
  from keepsD [OF k this p3] have t3: "users (tabs s3) = users (tabs s)" .
  have "stepM (UserRepository_find_by_username au username) env s3 = (Inr u, s')"
    using r by (auto simp: handleM_Inr_iff split: option.splits if_splits)
  then obtain s4 where "UserRepository_find_by_username au username env s3 = (Inr u, s4)"
    by (rule stepM_undisturbed [OF quiet])
  then show ?thesis
    using t3 unfolding UserRepository_find_by_username_def
    by (auto dest!: find_keyed_Inr first_row_Some)
qed

lemma verify_Inr:
  assumes "login_verify au w (Some u) pw env s = (Inr True, s')"
  shows "au_verify au (us_password u) pw = Inr True"
  using assms unfolding login_verify_def Let_def bindM_Inr_iff
  by (auto split: if_splits sum.splits)

lemma establish_Inr:
  assumes "establish_session au config u m client env s = (Inr ((token, expires_at), cookies), s')"
    and "undisturbed env"
  obtains c s0 s1 x where "cookies = clear_legacy_session_cookie config @ [CookieAdd (session_cookie token config)]"
    and "SessionRepository_create au c env s0 = (Inr x, s1)" and "tabs s0 = tabs s" and "tabs s' = tabs s1"
    and "cs_user_id c = u" and "cs_token c = token" and "cs_expires_at c = expires_at"
    and "cs_auth_method c = m" and "\<exists>i j. token = au_uuid au i @ au_uuid au j"
proof -
  obtain now sa i sb j sc x where 1: "(utc_now :: utc api) env s = (Inr now, sa)"
    and 2: "(draw :: nat api) env sa = (Inr i, sb)" and 3: "(draw :: nat api) env sb = (Inr j, sc)"
    and tok: "token = au_uuid au i @ au_uuid au j"
    and ex: "expires_at = now + seconds (ac_auth_token_ttl_seconds config)"
    and ck: "cookies = clear_legacy_session_cookie config @ [CookieAdd (session_cookie token config)]"
    and cr: "stepM (liftM (SessionRepository_create au
              \<lparr>cs_user_id = u, cs_token = token, cs_expires_at = expires_at,
               cs_max_active_sessions = ac_auth_max_active_sessions_per_user config,
               cs_auth_method = m, cs_ip_address = lc_ip_address client,
               cs_user_agent = lc_user_agent client\<rparr>)) env sc = (Inr x, s')"
    using assms(1) unfolding establish_session_def generate_token_def Let_def bindM_Inr_iff by auto
  obtain s1 where s1: "SessionRepository_create au
              \<lparr>cs_user_id = u, cs_token = token, cs_expires_at = expires_at,
               cs_max_active_sessions = ac_auth_max_active_sessions_per_user config,
               cs_auth_method = m, cs_ip_address = lc_ip_address client,
               cs_user_agent = lc_user_agent client\<rparr> env sc = (Inr x, s1)" "tabs s' = tabs s1"
    by (rule step_lift_Inr [OF assms(2) cr])
  have "tabs sc = tabs s" using 1 2 3 by (auto simp: draw_def)
  with that [OF ck s1(1) _ s1(2)] tok show ?thesis by auto
qed

lemma login_Inr:
  assumes run: "login au w config client cr env s = (Inr (resp, cookies), s')" and quiet: "undisturbed env"
  obtains u token c s0 s1 x where "ac_auth_password_login_enabled config" and "Credentials_validate cr = []"
    and "u \<in> set (rows (users (tabs s)))"
    and "au_sql_lower au (us_username u)
       = canonical_username au (canonical_username au (cr_username cr))"
    and "au_verify au (us_password u) (cr_password cr) = Inr True"
    and "cookies = clear_legacy_session_cookie config @ [CookieAdd (session_cookie token config)]"
    and "SessionRepository_create au c env s0 = (Inr x, s1)"
    and "sessions (tabs s0) = sessions (tabs s)" and "users (tabs s0) = users (tabs s)"
    and "tabs s' = tabs s1" and "cs_user_id c = us_id u" and "cs_token c = token"
    and "cs_expires_at c = lr_expires_at resp" and "\<exists>i j. token = au_uuid au i @ au_uuid au j"
    and "\<exists>sb sc. tabs sb = tabs s \<and> login_lookup au (login_throttle_buckets_for au
         (canonical_username au (cr_username cr)) (lc_ip_address client))
         (canonical_username au (cr_username cr)) (env_clock env (tick s)) env sb = (Inr (Some u), sc)"
proof -
  let ?I = "\<lambda>t. sessions t = sessions (tabs s) \<and> users t = users (tabs s)"
  let ?name = "canonical_username au (cr_username cr)"
  let ?b = "login_throttle_buckets_for au ?name (lc_ip_address client)"
  have free: "throttle_free ?I" by (simp add: throttle_free_def)
  have en: "ac_auth_password_login_enabled config"
    using run by (auto simp: login_def split: if_splits)
  obtain cr' sv now sa y1 sb user sc ok sd y2 se where
      val: "resultM (validate_request Credentials_validate cr) env s = (Inr cr', sv)"
    and rest: "(utc_now :: utc api) env sv = (Inr now, sa)" "checkout_connection w env sa = (Inr y1, sb)"
      "login_lookup au (login_throttle_buckets_for au (canonical_username au (cr_username cr'))
         (lc_ip_address client)) (canonical_username au (cr_username cr')) now env sb = (Inr user, sc)"
      "login_verify au w user (cr_password cr') env sc = (Inr ok, sd)"
      "checkout_connection w env sd = (Inr y2, se)"
    and fin: "(case user of Some user \<Rightarrow>
          if ok then login_succeeded au config (login_throttle_buckets_for au
            (canonical_username au (cr_username cr')) (lc_ip_address client)) user client
          else login_failed config (login_throttle_buckets_for au
            (canonical_username au (cr_username cr')) (lc_ip_address client))
        | None \<Rightarrow> login_failed config (login_throttle_buckets_for au
            (canonical_username au (cr_username cr')) (lc_ip_address client))) env se
        = (Inr (resp, cookies), s')"
    using run unfolding login_def Let_def if_not_P [OF not_not [THEN iffD2, OF en]] bindM_Inr_iff by blast
  have cr: "cr' = cr" "sv = s" and valid: "Credentials_validate cr = []"
    using val by (auto simp: validate_request_def Let_def resultM_def split: if_splits)
  have ia: "?I (tabs sa)" using rest(1) cr by auto
  have ib: "?I (tabs sb)" by (rule keepsD [OF keeps_checkout [OF quiet, where I = ?I] ia rest(2)])
  have ic: "?I (tabs sc)" by (rule keepsD [OF keeps_lookup [OF free quiet] ib rest(3)])
  have id: "?I (tabs sd)" by (rule keepsD [OF keeps_verify [OF quiet, where I = ?I] ic rest(4)])
  have ie: "?I (tabs se)" by (rule keepsD [OF keeps_checkout [OF quiet, where I = ?I] id rest(5)])
  have nofail: "login_failed config b env t \<noteq> (Inr z, t')" for b t t' and z :: "LoginResponse \<times> cookie_change list"
    by (auto simp: login_failed_def bindM_Inr_iff split: option.splits)
  obtain u where user: "user = Some u" and ok: "ok = True"
    using fin nofail by (cases user) (auto split: if_splits)
  have u: "u \<in> set (rows (users (tabs s)))" "au_sql_lower au (us_username u) = canonical_username au ?name"
    using lookup_Inr [OF rest(3) [unfolded user cr] quiet] ib by simp_all
  have pw: "au_verify au (us_password u) (cr_password cr) = Inr True"
    by (rule verify_Inr [OF rest(4) [unfolded user ok cr]])
  have "login_succeeded au config ?b u client env se = (Inr (resp, cookies), s')"
    using fin by (simp add: user ok cr)
  then obtain z1 sf z2 sg token where
      c1: "stepM (liftM (LoginThrottleRepository_clear (tb_client ?b))) env se = (Inr z1, sf)"
    and c2: "stepM (liftM (LoginThrottleRepository_clear (tb_account ?b))) env sf = (Inr z2, sg)"
    and est: "establish_session au config (us_id u) ''password'' client env sg
        = (Inr ((token, lr_expires_at resp), cookies), s')"
    unfolding login_succeeded_def bindM_Inr_iff by (fastforce split: prod.splits)
  have k: "keeps env ?I (stepM (liftM (LoginThrottleRepository_clear h)))" for h
    by (intro keeps_rule keeps_throttle free quiet)
  have ig: "?I (tabs sg)" by (rule keepsD [OF k keepsD [OF k ie c1] c2])
  obtain c s0 s1 x where e: "cookies = clear_legacy_session_cookie config @ [CookieAdd (session_cookie token config)]"
      "SessionRepository_create au c env s0 = (Inr x, s1)" "tabs s0 = tabs sg" "tabs s' = tabs s1"
      "cs_user_id c = us_id u" "cs_token c = token" "cs_expires_at c = lr_expires_at resp"
      "cs_auth_method c = ''password''" "\<exists>i j. token = au_uuid au i @ au_uuid au j"
    by (rule establish_Inr [OF est quiet])
  have "tabs sb = tabs s"
    by (rule keepsD [OF keeps_checkout [OF quiet, where I = "\<lambda>t. t = tabs s"] _ rest(2)])
      (use rest(1) cr in auto)
  then have lk: "\<exists>sb sc. tabs sb = tabs s \<and> login_lookup au ?b ?name (env_clock env (tick s)) env sb
      = (Inr (Some u), sc)"
    using rest(1,3) unfolding user cr by auto
  show ?thesis
    by (rule that [OF en valid u pw e(1,2) _ _ e(4-7) e(9) lk]) (use ig e(3) in simp_all)
qed

lemma created_session:
  assumes "SessionRepository_create au c env s = (Inr x, s')" and ids: "session_ids_ok (sessions (tabs s))"
  shows "first_row (\<lambda>y. se_token_hash y = session_token_hash au (cs_token c)) (rows (sessions (tabs s'))) = Some x
    \<and> se_user_id x = cs_user_id c \<and> se_expires_at x = cs_expires_at c
    \<and> has_ref us_id (users (tabs s)) (cs_user_id c) \<and> users (tabs s') = users (tabs s)"
proof -
  let ?ev = "\<lambda>now. evicted_rows (cs_user_id c) now (cs_max_active_sessions c)
      (unexpired_rows (cs_user_id c) now (rows (sessions (tabs s))))"
  obtain now cr where
      x: "x = NewSession.extend (new_session au c now) (Session.fields (seq (sessions (tabs s))) cr)"
    and new: "sessions (tabs s') = \<lparr>rows = ?ev now @ [x], seq = seq (sessions (tabs s)) + 1\<rparr>"
    and rest: "tabs s' = (tabs s)\<lparr>sessions := sessions (tabs s')\<rparr>"
    and ok: "session_violation ((tabs s)\<lparr>sessions := (sessions (tabs s))\<lparr>rows := ?ev now\<rparr>\<rparr>) x = None"
    by (rule session_create_result [OF assms(1)])
  have f: "se_id x = seq (sessions (tabs s))" "se_token_hash x = session_token_hash au (cs_token c)"
    "se_user_id x = cs_user_id c" "se_expires_at x = cs_expires_at c"
    by (simp_all add: x new_session_def NewSession.extend_def Session.fields_def)
  have "set (?ev now) \<subseteq> set (rows (sessions (tabs s)))"
    by (auto simp: evicted_rows_def unexpired_rows_def delete_rows_def)
  then have "\<forall>y \<in> set (?ev now). se_id y \<noteq> se_id x" using ids by (force simp: f session_ids_ok_def)
  moreover have "\<forall>y \<in> set (?ev now). se_id y \<noteq> se_id x \<longrightarrow> se_token_hash y \<noteq> se_token_hash x"
    and "has_ref us_id (users (tabs s)) (se_user_id x)"
    using ok by (auto simp: session_violation_def list_ex_iff split: if_splits)
  ultimately have none: "first_row (\<lambda>y. se_token_hash y = se_token_hash x) (?ev now) = None"
    by (auto simp: first_row_None)
  have "users (tabs s') = users (tabs s)" by (subst rest) simp
  with none \<open>has_ref us_id (users (tabs s)) (se_user_id x)\<close> show ?thesis
    by (simp add: new f first_row_append)
qed

text \<open>C8: A login that succeeds was allowed by the configuration, its credentials were valid, and the
  stored hash of a user with that name verified the password; it stores a session for that user under
  the hash of the token it sets as the session cookie. A login that fails, for whatever reason, leaves
  all sessions as they were.\<close>

theorem login_requires_the_password:
  assumes "undisturbed env" and "session_ids_ok (sessions (tabs s))"
  shows "case login au w config client cr env s of
      (Inl e, s') \<Rightarrow> sessions (tabs s') = sessions (tabs s)
    | (Inr (resp, cookies), s') \<Rightarrow> ac_auth_password_login_enabled config \<and> Credentials_validate cr = []
       \<and> (\<exists>u token x. u \<in> set (rows (users (tabs s)))
          \<and> au_sql_lower au (us_username u) = canonical_username au (canonical_username au (cr_username cr))
          \<and> au_verify au (us_password u) (cr_password cr) = Inr True
          \<and> cookies = clear_legacy_session_cookie config @ [CookieAdd (session_cookie token config)]
          \<and> first_row (\<lambda>y. se_token_hash y = session_token_hash au token) (rows (sessions (tabs s'))) = Some x
          \<and> se_user_id x = us_id u \<and> se_expires_at x = lr_expires_at resp)"
proof -
  obtain r s' where run: "login au w config client cr env s = (r, s')" by force
  show ?thesis
  proof (cases r)
    case (Inl e)
    have "fails_clean env (\<lambda>t. sessions t = sessions (tabs s)) (login au w config client cr)"
      by (rule login_fails_clean) (simp_all add: throttle_free_def assms(1))
    then have "sessions (tabs s') = sessions (tabs s)"
      using run Inl unfolding fails_clean_def by blast
    then show ?thesis unfolding run Inl by simp
  next
    case (Inr res)
    obtain resp cookies where res: "res = (resp, cookies)" by force
    show ?thesis
    proof (rule login_Inr [OF run [unfolded Inr res] assms(1)])
      fix u token c s0 s1 x
      assume *: "ac_auth_password_login_enabled config" "Credentials_validate cr = []"
        "u \<in> set (rows (users (tabs s)))"
        "au_sql_lower au (us_username u) = canonical_username au (canonical_username au (cr_username cr))"
        "au_verify au (us_password u) (cr_password cr) = Inr True"
        "cookies = clear_legacy_session_cookie config @ [CookieAdd (session_cookie token config)]"
        "sessions (tabs s0) = sessions (tabs s)" "tabs s' = tabs s1" "cs_user_id c = us_id u"
        "cs_token c = token" "cs_expires_at c = lr_expires_at resp"
        and cr: "SessionRepository_create au c env s0 = (Inr x, s1)"
      have "session_ids_ok (sessions (tabs s0))" using assms(2) *(7) by simp
      from created_session [OF cr this, folded *(8), unfolded *(9-11)] have
        "first_row (\<lambda>y. se_token_hash y = session_token_hash au token) (rows (sessions (tabs s'))) = Some x
          \<and> se_user_id x = us_id u \<and> se_expires_at x = lr_expires_at resp" by blast
      then show ?thesis unfolding run Inr res prod.case sum.case
        using *(1-6) by blast
    qed
  qed
qed

end
