(* ===== verification/Login_Guarantees.thy ===== *)
theory Login_Guarantees
  imports Access_Properties
begin

text \<open>
  Three guarantees about whole logins: a locked client or account is refused before the password is
  looked at, the cookie of a login authenticates later requests as its user, and just-in-time
  provisioning of an external identity creates one ordinary member once.
\<close>

section \<open>Locked accounts\<close>

definition locked_for :: "utc \<Rightarrow> LoginThrottleBucket option \<Rightarrow> i64 option" where
  "locked_for now bucket = (case Option.bind bucket lt_locked_until of
        None \<Rightarrow> None
      | Some locked_until \<Rightarrow> if locked_until > now then Some (until_seconds now locked_until) else None)"

lemma retry_Inr:
  assumes "LoginThrottleRepository_retry_after_seconds h now env s = (Inr r, s')"
  shows "r = locked_for now (bucket_of h (tabs s)) \<and> tabs s' = tabs s"
  using assms unfolding LoginThrottleRepository_retry_after_seconds_def bindM_Inr_iff locked_for_def
  by (auto dest!: select_stmt_Inr)

lemma retry_run:
  "quiet env \<Longrightarrow> \<not> tx_aborted s \<Longrightarrow> LoginThrottleRepository_retry_after_seconds h now env s
     = (Inr (locked_for now (bucket_of h (tabs s))), s\<lparr>tick := Suc (tick s)\<rparr>)"
  by (simp add: LoginThrottleRepository_retry_after_seconds_def bindM_def select_stmt_def stmt_run
      quiet_def locked_for_def)

lemma first_row_delete: "first_row p xs = Some b \<Longrightarrow> \<not> q b \<Longrightarrow> first_row p (delete_rows q xs) = Some b"
  by (induction xs) (auto simp: first_row_def delete_rows_def split: if_splits)

lemma prune_keeps_lock:
  assumes "LoginThrottleRepository_prune_before (now - days 1) env s = (r, s')"
    and "bucket_of h (tabs s) = Some b" and "lt_locked_until b = Some u" and "now < u"
  shows "bucket_of h (tabs s') = Some b"
proof -
  have np: "\<not> prunable (now - days 1) b" using assms(3,4) by (simp add: prunable_def days_def)
  have "keeps env (\<lambda>t. bucket_of h t = Some b) (LoginThrottleRepository_prune_before (now - days 1))"
    unfolding LoginThrottleRepository_prune_before_def
    by (intro keeps_rule keeps_delete_stmt) (simp add: no_action_def first_row_delete np)
  from keepsD [OF this assms(2,1)] show ?thesis .
qed

lemma max_option_None: "max_option a b = None \<longleftrightarrow> a = None \<and> b = None"
  by (cases a; cases b) simp_all

lemma lookup_refuses_locked:
  assumes run: "login_lookup au bs name now env s = (Inr x, s')" and quiet: "undisturbed env"
    and b: "bucket_of h (tabs s) = Some b" "lt_locked_until b = Some u" "now < u"
    and h: "h = tb_client bs \<or> h = tb_account bs"
  shows False
proof -
  obtain x1 s1 x2 s2 x3 s3 where
      p1: "(ignoreM (stepM (LoginThrottleRepository_prune_before (now - days 1))) :: unit api) env s = (Inr x1, s1)"
    and p2: "stepM (liftM (LoginThrottleRepository_retry_after_seconds (tb_client bs) now)) env s1 = (Inr x2, s2)"
    and p3: "stepM (liftM (LoginThrottleRepository_retry_after_seconds (tb_account bs) now)) env s2 = (Inr x3, s3)"
    and r: "(case max_option x2 x3 of Some retry_after_seconds \<Rightarrow> throwM (RateLimited retry_after_seconds)
       | None \<Rightarrow> handleM (stepM (UserRepository_find_by_username au name))
           (\<lambda>e. if e = NotFoundError then retM None else throwM (api_error_of e))
           (\<lambda>user. retM (Some user))) env s3 = (Inr x, s')"
    using run unfolding login_lookup_def bindM_Inr_iff by blast
  obtain rp where "stepM (LoginThrottleRepository_prune_before (now - days 1)) env s = (rp, s1)"
    using p1 by (auto simp: ignoreM_def handleM_Inr_iff)
  then obtain s0 where "LoginThrottleRepository_prune_before (now - days 1) env s = (rp, s0)"
    and "tabs s1 = tabs s0" by (rule stepM_undisturbed [OF quiet])
  then have b1: "bucket_of h (tabs s1) = Some b" using prune_keeps_lock b by metis
  obtain a where a: "LoginThrottleRepository_retry_after_seconds (tb_client bs) now env s1 = (Inr x2, a)"
    "tabs s2 = tabs a" by (rule step_lift_Inr [OF quiet p2])
  obtain c where c: "LoginThrottleRepository_retry_after_seconds (tb_account bs) now env s2 = (Inr x3, c)"
    by (rule step_lift_Inr [OF quiet p3])
  have "locked_for now (Some b) \<noteq> None" using b by (simp add: locked_for_def)
  then have "max_option x2 x3 \<noteq> None"
    using h retry_Inr [OF a(1)] retry_Inr [OF c] a(2) b1 by (auto simp: max_option_None)
  then show False using r by auto
qed

lemma until_seconds_pos: "1 \<le> until_seconds now u"
  by (simp add: until_seconds_def)

lemma lookup_rate_limits:
  assumes "quiet env" "undisturbed env" "\<not> tx_aborted s"
    and b: "bucket_of h (tabs s) = Some b" "lt_locked_until b = Some u" "now < u"
    and h: "h = tb_client bs \<or> h = tb_account bs"
  shows "\<exists>k s'. login_lookup au bs name now env s = (Inl (RateLimited k), s') \<and> until_seconds now u \<le> k"
proof -
  obtain n s0 where p: "LoginThrottleRepository_prune_before (now - days 1) env s = (Inr n, s0)"
    and s0: "\<not> tx_aborted s0"
    using assms(1,3) by (force simp: LoginThrottleRepository_prune_before_def delete_stmt_def bindM_def
        stmt_def quiet_def Let_def no_restriction_def)
  have b0: "bucket_of h (tabs s0) = Some b" by (rule prune_keeps_lock [OF p b])
  let ?l = "\<lambda>h. locked_for now (bucket_of h (tabs s0))"
  have "?l h = Some (until_seconds now u)" using b b0 by (simp add: locked_for_def)
  then obtain k where k: "max_option (?l (tb_client bs)) (?l (tb_account bs)) = Some k"
    and "until_seconds now u \<le> k"
    using h by (cases "?l (tb_client bs)"; cases "?l (tb_account bs)") auto
  moreover have "\<exists>s'. login_lookup au bs name now env s = (Inl (RateLimited k), s')"
    using k s0 assms(1,2) p
    by (simp add: login_lookup_def bindM_def ignoreM_def handleM_def stepM_def liftM_def retry_run
        undisturbed_def)
  ultimately show ?thesis by blast
qed


section \<open>The cookie of a login\<close>

lemma find_keyed_run:
  assumes "quiet env" "\<not> tx_aborted s" "first_row p (rows (get (tabs s))) = Some r"
  shows "find_keyed get p env s = (Inr r, s\<lparr>tick := Suc (tick s)\<rparr>)"
  using assms by (simp add: find_keyed_def bindM_def select_stmt_def stmt_run quiet_def expect_row_def)

lemma authenticate_run:
  assumes "quiet env" "undisturbed env" "\<not> tx_aborted s"
    and "first_row (\<lambda>x. se_token_hash x = session_token_hash au token) (rows (sessions (tabs s))) = Some x"
    and "\<forall>n. env_clock env n < se_expires_at x"
    and "first_row (\<lambda>u. us_id u = se_user_id x) (rows (users (tabs s))) = Some u"
  shows "\<exists>auth s'. authenticate au token env s = (Inr auth, s') \<and> au_session auth = x \<and> au_user auth = u"
proof -
  have "\<not> se_expires_at x \<le> env_clock env n" for n using assms(5) by (simp add: not_le)
  then show ?thesis
    using assms
    by (simp add: authenticate_def guardM_def handleM_def stepM_def SessionRepository_find_by_token_def
        UserRepository_find_def find_keyed_run undisturbed_def bindM_def RoleRepository_find_by_user_def
        RoleRepository_find_by_ids_def select_stmt_def stmt_run quiet_def)
qed

lemma has_ref_first_row: "has_ref key tb i \<Longrightarrow> \<exists>r. first_row (\<lambda>r. key r = i) (rows tb) = Some r \<and> key r = i"
  using first_row_None [of "\<lambda>r. key r = i" "rows tb"] first_row_Some [of "\<lambda>r. key r = i" "rows tb"]
  by (cases "first_row (\<lambda>r. key r = i) (rows tb)") (auto simp: has_ref_def list_ex_iff)

text \<open>C27: The cookie set by a successful login authenticates every later request that carries it (with
  the CSRF header, or with a safe method), until it expires, as the user whose password was verified,
  as long as the stored sessions and users stay as they were.\<close>

theorem login_cookie_authenticates:
  assumes env: "undisturbed env" and ids: "session_ids_ok (sessions (tabs s))"
    and uuids: "\<forall>i j. \<not> is_blank (au_uuid au i @ au_uuid au j)"
    and run: "login au w config client cr env s = (Inr (resp, cookies), s')"
    and cookie: "CookieAdd ck \<in> set cookies"
    and req: "rq_authorization r = []" "rq_cookie r (ck_name ck) = Some (ck_value ck)"
      "safe_method (rq_method r) \<or> rq_csrf r = Some ''1''"
    and later: "quiet env'" "undisturbed env'" "\<not> tx_aborted s2" "\<forall>n. pool n = Connected"
      "sessions (tabs s2) = sessions (tabs s')" "users (tabs s2) = users (tabs s')"
      "\<forall>n. env_clock env' n < lr_expires_at resp"
  shows "\<exists>auth s3 u. from_request au (Some config) pool r env' s2 = (Inr auth, s3)
    \<and> u \<in> set (rows (users (tabs s))) \<and> us_id (au_user auth) = us_id u
    \<and> au_sql_lower au (us_username u) = canonical_username au (canonical_username au (cr_username cr))
    \<and> au_verify au (us_password u) (cr_password cr) = Inr True"
proof (rule login_Inr [OF run env])
  fix u token c s0 s1 x
  assume u: "u \<in> set (rows (users (tabs s)))"
      "au_sql_lower au (us_username u) = canonical_username au (canonical_username au (cr_username cr))"
      "au_verify au (us_password u) (cr_password cr) = Inr True"
    and ck: "cookies = clear_legacy_session_cookie config @ [CookieAdd (session_cookie token config)]"
    and create: "SessionRepository_create au c env s0 = (Inr x, s1)"
    and s0: "sessions (tabs s0) = sessions (tabs s)" "users (tabs s0) = users (tabs s)"
    and s1: "tabs s' = tabs s1"
    and c: "cs_user_id c = us_id u" "cs_token c = token" "cs_expires_at c = lr_expires_at resp"
    and tok: "\<exists>i j. token = au_uuid au i @ au_uuid au j"
  have ids0: "session_ids_ok (sessions (tabs s0))" using ids s0 by simp
  note made = created_session [OF create ids0, folded s1, unfolded c s0]
  have k: "ck = session_cookie token config"
    using cookie unfolding ck by (auto simp: clear_legacy_session_cookie_def split: if_splits)
  let ?t = "s2\<lparr>tick := Suc (tick s2)\<rparr>"
  obtain v where v: "first_row (\<lambda>r. us_id r = us_id u) (rows (users (tabs s2))) = Some v" "us_id v = us_id u"
    using has_ref_first_row made later(6) by metis
  have "\<exists>auth s3. authenticate au token env' ?t = (Inr auth, s3) \<and> au_session auth = x \<and> au_user auth = v"
    by (rule authenticate_run [OF later(1,2)]) (use made later v in simp_all)
  then obtain auth s3 where a: "authenticate au token env' ?t = (Inr auth, s3)" "au_user auth = v" by blast
  have "request_token r (session_cookie_name config) = Some (Cookie token)"
    using req(1,2) tok uuids by (auto simp: request_token_def k session_cookie_def)
  then have "from_request au (Some config) pool r env' s2 = (Inr auth, s3)"
    using req(3) later(2,4) a(1)
    by (auto simp: from_request_def bindM_def outside_call_def undisturbed_def)
  with u v a(2) show ?thesis by blast
qed

section \<open>Just-in-time provisioning\<close>

lemma find_keyed_NotFound:
  assumes "find_keyed get p env s = (Inl NotFoundError, s')" and "\<forall>n. env_fault env n \<noteq> Some NotFoundError"
  shows "first_row p (rows (get (tabs s))) = None"
  using assms unfolding find_keyed_def bindM_Inl_iff
  by (auto simp: select_stmt_def stmt_def fail_stmt_def Let_def expect_row_def aborted_error_def
      split: if_splits option.splits)

lemma find_keyed_aborted:
  "find_keyed get p env s = (r, s') \<Longrightarrow> tx_aborted s \<Longrightarrow> tx_aborted s'"
  by (auto simp: find_keyed_def bindM_def select_stmt_def stmt_def fail_stmt_def Let_def)

lemma straight_find [straight_rule]: "straight (find_keyed get p)"
  unfolding find_keyed_def by (intro straight_rule)

text \<open>A branch for a missing row that starts with a statement: it cannot return from an aborted
  transaction.\<close>

lemma straight_missing:
  assumes "\<And>x. straight (f x)" and "straight m"
    and live: "\<And>env s x s'. m env s = (Inr x, s') \<Longrightarrow> \<not> tx_aborted s"
  shows "straight (handleM (find_keyed get p) (\<lambda>e. if e \<noteq> NotFoundError then throwM e else m) f)"
  unfolding straight_def
proof (intro allI impI)
  fix env s x s'
  assume run: "handleM (find_keyed get p) (\<lambda>e. if e \<noteq> NotFoundError then throwM e else m) f env s = (Inr x, s')"
  obtain r s1 where find: "find_keyed get p env s = (r, s1)" by force
  show "tx_aborted s' = tx_aborted s"
  proof (cases r)
    case (Inl e)
    then have m: "m env s1 = (Inr x, s')" using run find by (auto simp: handleM_def split: if_splits)
    then show ?thesis using live [OF m] find_keyed_aborted [OF find] straightD [OF assms(2) m] by auto
  next
    case (Inr y)
    then have "f y env s1 = (Inr x, s')" using run find by (simp add: handleM_def)
    then show ?thesis
      using straightD [OF assms(1)] straightD [OF straight_find] find Inr by metis
  qed
qed

lemma provision_unfold:
  "ExternalIdentityRepository_find_or_create_jit_user au meta new_user identity =
     query_transaction (bindM advisory_lock (\<lambda>_.
     handleM (ExternalIdentityRepository_find_by_entra_object (ei_tenant_id identity) (ei_object_id identity))
       (\<lambda>e. if e \<noteq> NotFoundError then throwM e
         else provision au meta (new_user\<lparr>us_username := canonical_username au (us_username new_user)\<rparr>) identity)
       (\<lambda>existing. bindM (UserRepository_find (ei_user_id existing)) (\<lambda>user.
          retM \<lparr>jp_user = user, jp_identity = existing, jp_created = False\<rparr>))))"
  by (simp add: ExternalIdentityRepository_find_or_create_jit_user_def Let_def)

lemma straight_provision: "straight (provision au meta n x)"
  unfolding provision_def insert_user_def insert_user_role_def RoleRepository_find_by_code_def
    AuditLogRepository_create_def
  by (intro straight_rule)

lemma provision_live: "provision au meta n x env s = (Inr p, s') \<Longrightarrow> \<not> tx_aborted s"
  unfolding provision_def insert_user_def insert_stmt_def bindM_Inr_iff
  by (auto dest!: stmt_Inr)

lemma provision_Inr:
  assumes "provision au meta n x env s = (Inr p, s')"
  shows "jp_created p
    \<and> rows (users (tabs s')) = rows (users (tabs s)) @ [jp_user p]
    \<and> us_username (jp_user p) = us_username n \<and> us_id (jp_user p) = seq (users (tabs s))
    \<and> (\<exists>ur ro. rows (users_roles (tabs s')) = rows (users_roles (tabs s)) @ [ur]
         \<and> ur_user_id ur = us_id (jp_user p) \<and> ur_role_id ur = ro_id ro
         \<and> ro \<in> set (rows (roles (tabs s'))) \<and> ro_code ro = ''member'')
    \<and> rows (external_identities (tabs s')) = rows (external_identities (tabs s)) @ [jp_identity p]
    \<and> ei_user_id (jp_identity p) = us_id (jp_user p) \<and> ei_provider (jp_identity p) = ei_provider x
    \<and> ei_tenant_id (jp_identity p) = ei_tenant_id x \<and> ei_object_id (jp_identity p) = ei_object_id x"
proof -
  obtain user s1 now1 s2 ro' s3 role s4 ur s5 now2 s6 ident s7 lg where
      1: "insert_user au n env s = (Inr user, s1)" and 2: "(utc_now :: utc query) env s1 = (Inr now1, s2)"
    and 3: "upsert_stmt roles roles_update role_violation (\<lambda>r. ro_code r = ''member'')
        (\<lambda>i. NewRole.extend \<lparr>ro_code = ''member'', ro_name = ''member''\<rparr> (Role.fields i now1)) id env s2 = (Inr ro', s3)"
    and 4: "RoleRepository_find_by_code ''member'' env s3 = (Inr role, s4)"
    and 5: "insert_user_role (us_id user) (ro_id role) env s4 = (Inr ur, s5)"
    and 6: "(utc_now :: utc query) env s5 = (Inr now2, s6)"
    and 7: "insert_stmt external_identities external_identities_update identity_violation
        (\<lambda>i. NewExternalIdentity.extend (x\<lparr>ei_user_id := us_id user\<rparr>) (ExternalIdentity.fields i now2 now2))
        env s6 = (Inr ident, s7)"
    and 8: "AuditLogRepository_create
        \<lparr>al_actor_user_id = Some (us_id user), al_action = ''auth.entra_jit_provisioned'',
         al_resource_type = ''user'', al_resource_id = Some (show_int (us_id user)),
         al_metadata = Some (meta (ei_tenant_id x) (ei_object_id x))\<rparr> env s7 = (Inr lg, s')"
    and p: "p = \<lparr>jp_user = user, jp_identity = ident, jp_created = True\<rparr>"
    using assms unfolding provision_def bindM_Inr_iff by auto
  obtain now0 where u: "user = NewUser.extend n (User.fields (seq (users (tabs s))) now0)"
    and t1: "tabs s1 = users_update (\<lambda>tb. tb\<lparr>rows := rows tb @ [user], seq := seq tb + 1\<rparr>) (tabs s)"
    using 1 unfolding insert_user_def bindM_Inr_iff by (auto dest!: insert_stmt_Inr)
  obtain f where t3: "tabs s3 = roles_update f (tabs s1)"
    using 2 upsert_stmt_Inr [OF 3] by (auto split: option.splits)
  have r: "role \<in> set (rows (roles (tabs s3)))" "ro_code role = ''member''" and t4: "tabs s4 = tabs s3"
    using 4 unfolding RoleRepository_find_by_code_def by (auto dest!: find_keyed_Inr first_row_Some)
  have t5: "tabs s5 = users_roles_update (\<lambda>tb. tb\<lparr>rows := rows tb @ [ur], seq := seq tb + 1\<rparr>) (tabs s4)"
    and ur: "ur_user_id ur = us_id user" "ur_role_id ur = ro_id role"
    using 5 unfolding insert_user_role_def by (auto dest!: insert_stmt_Inr)
  have t7: "tabs s7 = external_identities_update (\<lambda>tb. tb\<lparr>rows := rows tb @ [ident], seq := seq tb + 1\<rparr>) (tabs s5)"
    and id: "ei_user_id ident = us_id user" "ei_provider ident = ei_provider x"
      "ei_tenant_id ident = ei_tenant_id x" "ei_object_id ident = ei_object_id x"
    using 6 insert_stmt_Inr [OF 7] by (auto simp: NewExternalIdentity.extend_def ExternalIdentity.fields_def)
  obtain g where t8: "tabs s' = audit_logs_update g (tabs s7)"
    using 8 unfolding AuditLogRepository_create_def bindM_Inr_iff by (auto dest!: insert_stmt_Inr)
  have "rows (users (tabs s')) = rows (users (tabs s)) @ [user]"
    "rows (users_roles (tabs s')) = rows (users_roles (tabs s)) @ [ur]"
    "rows (external_identities (tabs s')) = rows (external_identities (tabs s)) @ [ident]"
    "roles (tabs s') = roles (tabs s3)"
    unfolding t8 t7 t5 t4 by (simp_all add: t3 t1)
  moreover have "us_username user = us_username n" "us_id user = seq (users (tabs s))"
    by (simp_all add: u NewUser.extend_def User.fields_def)
  ultimately show ?thesis using ur id r by (auto simp: p)
qed

abbreviation entra_identity :: "NewExternalIdentity \<Rightarrow> tables \<Rightarrow> ExternalIdentity option" where
  "entra_identity x t \<equiv> first_row (\<lambda>y. ei_provider y = ''entra'' \<and> ei_tenant_id y = ei_tenant_id x
     \<and> ei_object_id y = ei_object_id x) (rows (external_identities t))"

lemma jit_Inr:
  assumes "ExternalIdentityRepository_find_or_create_jit_user au meta n x env s = (Inr p, s')"
    and faults: "\<forall>k. env_fault env k \<noteq> Some NotFoundError"
  obtains (created) s0 s1 where "entra_identity x (tabs s) = None" and "tabs s0 = tabs s" and "tabs s' = tabs s1"
      and "provision au meta (n\<lparr>us_username := canonical_username au (us_username n)\<rparr>) x env s0 = (Inr p, s1)"
    | (existing) "entra_identity x (tabs s) = Some (jp_identity p)" and "tabs s' = tabs s" and "\<not> jp_created p"
      and "first_row (\<lambda>u. us_id u = ei_user_id (jp_identity p)) (rows (users (tabs s))) = Some (jp_user p)"
proof -
  let ?n = "n\<lparr>us_username := canonical_username au (us_username n)\<rparr>"
  let ?new = "\<lambda>e. if e \<noteq> NotFoundError then throwM e else provision au meta ?n x"
  let ?old = "\<lambda>existing. bindM (UserRepository_find (ei_user_id existing)) (\<lambda>user.
          retM \<lparr>jp_user = user, jp_identity = existing, jp_created = False\<rparr>)"
  let ?find = "ExternalIdentityRepository_find_by_entra_object (ei_tenant_id x) (ei_object_id x)"
  have "straight (bindM advisory_lock (\<lambda>_. handleM ?find ?new ?old))"
    unfolding advisory_lock_def ExternalIdentityRepository_find_by_entra_object_def UserRepository_find_def
    by (intro straight_rule straight_missing straight_provision) (rule provision_live)
  then obtain s0 s1 where t: "tabs s0 = tabs s" "tabs s' = tabs s1"
    and body: "bindM advisory_lock (\<lambda>_. handleM ?find ?new ?old) env s0 = (Inr p, s1)"
    using assms(1) unfolding provision_unfold query_transaction_def by (rule transaction_committed)
  obtain l sl where "advisory_lock env s0 = (Inr l, sl)" and h: "handleM ?find ?new ?old env sl = (Inr p, s1)"
    using body unfolding bindM_Inr_iff by blast
  then have tl: "tabs sl = tabs s" using t by (auto simp: advisory_lock_def dest: select_stmt_tabs)
  note find_def = ExternalIdentityRepository_find_by_entra_object_def
  from h consider (a) y sy where "?find env sl = (Inr y, sy)" "?old y env sy = (Inr p, s1)"
    | (b) e sy where "?find env sl = (Inl e, sy)" "?new e env sy = (Inr p, s1)"
    unfolding handleM_Inr_iff by blast
  then show ?thesis
  proof cases
    case a
    have y: "entra_identity x (tabs s) = Some y" "tabs sy = tabs s"
      using find_keyed_Inr [OF a(1) [unfolded find_def]] tl by simp_all
    obtain u where u: "UserRepository_find (ei_user_id y) env sy = (Inr u, s1)"
      and p: "p = \<lparr>jp_user = u, jp_identity = y, jp_created = False\<rparr>"
      using a(2) unfolding bindM_Inr_iff by auto
    show ?thesis
      by (rule existing) (use find_keyed_Inr [OF u [unfolded UserRepository_find_def]] y p t in simp_all)
  next
    case b
    have e: "e = NotFoundError" using b(2) by (auto split: if_splits)
    have "tabs sy = tabs s" using find_keyed_tabs [OF b(1) [unfolded find_def]] tl by simp
    moreover have "entra_identity x (tabs s) = None"
      using find_keyed_NotFound [OF b(1) [unfolded find_def e] faults] tl by simp
    ultimately show ?thesis using created [of sy s1] t b(2) e by simp
  qed
qed

text \<open>The first login of an external identity creates exactly one user, under the canonical name,
  with the role of an ordinary member and no other, and links the identity to it; every later login of
  the identity finds that user and changes nothing.\<close>

theorem jit_provisioning_is_idempotent:
  assumes first: "ExternalIdentityRepository_find_or_create_jit_user au meta n x env s = (Inr p, s1)"
    and faults: "\<forall>k. env_fault env k \<noteq> Some NotFoundError" "\<forall>k. env_fault env' k \<noteq> Some NotFoundError"
    and entra: "ei_provider x = ''entra''" "ei_tenant_id y = ei_tenant_id x" "ei_object_id y = ei_object_id x"
    and ids: "list_all (\<lambda>u. us_id u < seq (users (tabs s))) (rows (users (tabs s)))"
  shows "(jp_created p \<longrightarrow>
        rows (users (tabs s1)) = rows (users (tabs s)) @ [jp_user p]
        \<and> us_username (jp_user p) = canonical_username au (us_username n)
        \<and> (\<exists>ur ro. rows (users_roles (tabs s1)) = rows (users_roles (tabs s)) @ [ur]
             \<and> ur_user_id ur = us_id (jp_user p) \<and> ur_role_id ur = ro_id ro
             \<and> ro \<in> set (rows (roles (tabs s1))) \<and> ro_code ro = ''member'')
        \<and> rows (external_identities (tabs s1)) = rows (external_identities (tabs s)) @ [jp_identity p]
        \<and> ei_user_id (jp_identity p) = us_id (jp_user p))
    \<and> (\<not> jp_created p \<longrightarrow> tabs s1 = tabs s)
    \<and> (\<forall>m s2 q s3. users (tabs s2) = users (tabs s1) \<longrightarrow>
         external_identities (tabs s2) = external_identities (tabs s1) \<longrightarrow>
         ExternalIdentityRepository_find_or_create_jit_user au meta m y env' s2 = (Inr q, s3) \<longrightarrow>
         jp_user q = jp_user p \<and> jp_identity q = jp_identity p \<and> \<not> jp_created q \<and> tabs s3 = tabs s2)"
proof -
  have known: "entra_identity x (tabs s1) = Some (jp_identity p)
      \<and> first_row (\<lambda>u. us_id u = ei_user_id (jp_identity p)) (rows (users (tabs s1))) = Some (jp_user p)"
    and new: "jp_created p \<longrightarrow>
        rows (users (tabs s1)) = rows (users (tabs s)) @ [jp_user p]
        \<and> us_username (jp_user p) = canonical_username au (us_username n)
        \<and> (\<exists>ur ro. rows (users_roles (tabs s1)) = rows (users_roles (tabs s)) @ [ur]
             \<and> ur_user_id ur = us_id (jp_user p) \<and> ur_role_id ur = ro_id ro
             \<and> ro \<in> set (rows (roles (tabs s1))) \<and> ro_code ro = ''member'')
        \<and> rows (external_identities (tabs s1)) = rows (external_identities (tabs s)) @ [jp_identity p]
        \<and> ei_user_id (jp_identity p) = us_id (jp_user p)"
    and old: "\<not> jp_created p \<longrightarrow> tabs s1 = tabs s"
  proof (atomize (full), rule jit_Inr [OF first faults(1)], goal_cases)
    case (1 s0 s')
    note pr = provision_Inr [OF 1(4), unfolded 1(2), folded 1(3)]
    have "first_row (\<lambda>u. us_id u = us_id (jp_user p)) (rows (users (tabs s))) = None"
      using ids pr by (auto simp: first_row_None list_all_iff)
    with pr 1(1) entra(1) show ?case by (auto simp: first_row_append)
  next
    case 2
    then show ?case by simp
  qed
  have "jp_user q = jp_user p \<and> jp_identity q = jp_identity p \<and> \<not> jp_created q \<and> tabs s3 = tabs s2"
    if again: "ExternalIdentityRepository_find_or_create_jit_user au meta m y env' s2 = (Inr q, s3)"
      and same: "users (tabs s2) = users (tabs s1)" "external_identities (tabs s2) = external_identities (tabs s1)"
    for m s2 q s3
    using known by (cases rule: jit_Inr [OF again faults(2)]) (auto simp: same entra)
  with new old show ?thesis by blast
qed

end
