(* ===== verification/Worker_Properties.thy ===== *)
theory Worker_Properties
  imports Worker Run_Results Login_Guarantees
begin

text \<open>
  The scheduler: one pass enqueues exactly the due configurations it selects and may run, and moves
  their next time; the ones it may not run keep their place. Retention: a pass removes exactly what its
  policy says, and a skipped or failed one removes nothing. The state of the worker: the bounds of its
  lease policy and of its retries.
\<close>

section \<open>The scheduler\<close>

definition interval_of :: "ConnectorConfig \<Rightarrow> i64 option" where
  "interval_of c = Option.bind (cc_schedule_cron c) effective_schedule_interval_seconds"

definition connector_of :: "tables \<Rightarrow> ConnectorConfig \<Rightarrow> Connector option" where
  "connector_of t c = first_row (\<lambda>k. cn_source k = cc_source c) (rows (connectors t))"

definition resting :: "tables \<Rightarrow> ConnectorConfig \<Rightarrow> bool" where
  "resting t c = (case connector_of t c of None \<Rightarrow> True | Some k \<Rightarrow> cn_status k = ''paused'' \<or> \<not> cc_enabled c)"

definition has_active_run :: "tables \<Rightarrow> ConnectorConfig \<Rightarrow> bool" where
  "has_active_run t c \<longleftrightarrow> count_rows (pending_for (cc_source c) (cc_target c)) (rows (connector_runs t)) > 0"

definition runnable :: "tables \<Rightarrow> ConnectorConfig \<Rightarrow> bool" where
  "runnable t c \<longleftrightarrow> interval_of c \<noteq> None \<and> \<not> resting t c \<and> \<not> has_active_run t c"

text \<open>What keeps a due configuration from being scheduled or moved on.\<close>

definition stuck :: "tables \<Rightarrow> ConnectorConfig \<Rightarrow> bool" where
  "stuck t c \<longleftrightarrow> interval_of c = None \<or> (\<not> resting t c \<and> has_active_run t c)"

definition selected :: "utc \<Rightarrow> tables \<Rightarrow> ConnectorConfig list" where
  "selected now t = take 10 (sort_key (\<lambda>c. nulls_last (cc_next_run_at c))
     (filter (config_is_due now) (rows (connector_configs t))))"

definition scheduled_run :: "ConnectorConfig \<Rightarrow> ConnectorRun \<Rightarrow> bool" where
  "scheduled_run c r \<longleftrightarrow> cr_source r = cc_source c \<and> cr_target r = cc_target c \<and> cr_status r = ''queued''
     \<and> cr_trigger r = ''scheduled'' \<and> cr_payload r = None \<and> cr_attempt_count r = 0"

definition due_view :: "tables \<Rightarrow> (string \<times> utc option) list" where
  "due_view t = map (\<lambda>d. (cc_source d, cc_next_run_at d)) (rows (connector_configs t))"

definition moved :: "utc \<Rightarrow> ConnectorConfig \<Rightarrow> string \<times> utc option \<Rightarrow> string \<times> utc option" where
  "moved now c d = (if fst d = cc_source c then (fst d, map_option (\<lambda>i. now + seconds i) (interval_of c)) else d)"

lemma mark_scheduled_Inr:
  assumes "ConnectorConfigRepository_mark_scheduled (cc_source c) now i run_id env s = (Inr d, s')"
    and "interval_of c = Some i"
  shows "due_view (tabs s') = map (moved now c) (due_view (tabs s))"
    and "connectors (tabs s') = connectors (tabs s) \<and> connector_runs (tabs s') = connector_runs (tabs s)"
  using assms unfolding ConnectorConfigRepository_mark_scheduled_def Let_def bindM_Inr_iff comp_def
  by (auto dest!: update_stmt_Inr expect_one_row
      simp: due_view_def update_rows_def moved_def)

lemma find_source_missing:
  assumes "ConnectorRepository_find_by_source (cc_source c) env s = (Inl NotFoundError, s')"
    and "\<forall>k. env_fault env k \<noteq> Some NotFoundError"
  shows "connector_of (tabs s) c = None"
  using assms
  by (auto simp: ConnectorRepository_find_by_source_def connector_of_def bindM_def select_stmt_def stmt_def
      fail_stmt_def Let_def expect_row_def aborted_error_def split: if_splits option.splits)

lemma find_source:
  assumes "ConnectorRepository_find_by_source (cc_source c) env s = (x, s')"
  shows "tabs s' = tabs s" and "\<And>k. x = Inr k \<Longrightarrow> connector_of (tabs s) c = Some k"
  using assms find_keyed_Inr [of connectors "\<lambda>k. cn_source k = cc_source c"] find_keyed_tabs [of connectors "\<lambda>k. cn_source k = cc_source c"]
  unfolding ConnectorRepository_find_by_source_def find_keyed_def connector_of_def by auto

lemma mark_without_run_Inr:
  assumes "mark_without_run now c i k env s = (Inr n, s')" and "interval_of c = Some i"
  shows "n = k \<and> due_view (tabs s') = map (moved now c) (due_view (tabs s))
    \<and> connectors (tabs s') = connectors (tabs s) \<and> connector_runs (tabs s') = connector_runs (tabs s)"
  using assms mark_scheduled_Inr unfolding mark_without_run_def bindM_Inr_iff liftM_Inr_iff by fastforce

lemma create_queued_run_Inr:
  assumes "create_queued_run rt (cc_source c) (cc_target c) ''scheduled'' None env s = (Inr r, s')"
  shows "rows (connector_runs (tabs s')) = rows (connector_runs (tabs s)) @ [r] \<and> scheduled_run c r
    \<and> connectors (tabs s') = connectors (tabs s) \<and> connector_configs (tabs s') = connector_configs (tabs s)"
proof -
  let ?I = "\<lambda>t. connectors t = connectors (tabs s) \<and> connector_configs t = connector_configs (tabs s)"
  have "keeps env ?I (create_queued_run rt (cc_source c) (cc_target c) ''scheduled'' None)"
    unfolding create_queued_run_def create_queued_run_with_parent_def Let_def option.case
      ConnectorRunRepository_create_if_no_pending_def lock_connector_def insert_unless_pending_def
      ConnectorRepository_find_by_source_def ConnectorRunRepository_has_pending_def insert_run_def
      created_or_active_def
    by (intro keeps_rule keeps_insert_stmt) simp
  from keepsD [OF this _ assms] have I: "?I (tabs s')" by simp
  obtain now where c: "bindM (liftM (ConnectorRunRepository_create_if_no_pending
       (queued_run rt (cc_source c) (cc_target c) ''scheduled'' None None now))) created_or_active env
       (s\<lparr>tick := Suc (tick s)\<rparr>) = (Inr r, s')"
    using assms unfolding create_queued_run_def create_queued_run_with_parent_def Let_def by (auto simp: bindM_Inr_iff)
  then have "ConnectorRunRepository_create_if_no_pending
       (queued_run rt (cc_source c) (cc_target c) ''scheduled'' None None now) env
       (s\<lparr>tick := Suc (tick s)\<rparr>) = (Inr (Some r), s')"
    by (auto simp: bindM_Inr_iff liftM_Inr_iff created_or_active_def split: option.splits)
  from create_if_no_pending_result [OF this] I show ?thesis
    by (auto simp: scheduled_run_def queued_run_def NewConnectorRun.extend_def ConnectorRun.fields_def)
qed

text \<open>One configuration: what becomes of the runs, of the schedule and of the count.\<close>

lemma enqueue_config_Inr:
  assumes "enqueue_config rt now c k env s = (Inr n, s')" and "\<forall>k. env_fault env k \<noteq> Some NotFoundError"
  shows "\<exists>new. rows (connector_runs (tabs s')) = rows (connector_runs (tabs s)) @ new \<and> n = k + length new
      \<and> list_all2 scheduled_run (if runnable (tabs s) c then [c] else []) new
      \<and> connectors (tabs s') = connectors (tabs s)
      \<and> due_view (tabs s') = (if stuck (tabs s) c then due_view (tabs s) else map (moved now c) (due_view (tabs s)))
      \<and> (stuck (tabs s) c \<longrightarrow> tabs s' = tabs s)"
proof (cases "interval_of c")
  case None
  then show ?thesis
    using assms(1) by (auto simp: enqueue_config_def interval_of_def [symmetric] runnable_def stuck_def)
next
  case (Some i)
  obtain x s1 where find: "ConnectorRepository_find_by_source (cc_source c) env s = (x, s1)" by force
  note t1 = find_source(1) [OF find]
  show ?thesis
  proof (cases x)
    case (Inl e)
    then have e: "e = NotFoundError" and m: "mark_without_run now c i k env s1 = (Inr n, s')"
      using assms(1) find Some by (auto simp: enqueue_config_def interval_of_def [symmetric] handleM_def split: if_splits)
    then have "resting (tabs s) c"
      using find_source_missing find Inl assms(2) by (fastforce simp: resting_def)
    then show ?thesis
      using mark_without_run_Inr [OF m Some] t1 Some by (simp add: runnable_def stuck_def)
  next
    case (Inr con)
    have con: "connector_of (tabs s) c = Some con" using find_source(2) [OF find Inr] .
    show ?thesis
    proof (cases "resting (tabs s) c")
      case True
      then have m: "mark_without_run now c i k env s1 = (Inr n, s')"
        using assms(1) find Some Inr con
        by (auto simp: enqueue_config_def interval_of_def [symmetric] handleM_def resting_def)
      then show ?thesis
        using mark_without_run_Inr [OF m Some] t1 Some True by (simp add: runnable_def stuck_def)
    next
      case False
      let ?rest = "\<lambda>pending. if pending then retM k
        else bindM (create_queued_run rt (cc_source c) (cc_target c) ''scheduled'' None) (\<lambda>run.
             bindM (liftM (ConnectorConfigRepository_mark_scheduled (cc_source c) now i (Some (cr_id run)))) (\<lambda>_.
             retM (k + 1)))"
      have "bindM (liftM (ConnectorRunRepository_has_pending (cc_source c) (cc_target c))) ?rest env s1 = (Inr n, s')"
        using assms(1) find Some Inr con False
        by (auto simp: enqueue_config_def interval_of_def [symmetric] handleM_def resting_def)
      then obtain p s2 where "ConnectorRunRepository_has_pending (cc_source c) (cc_target c) env s1 = (Inr p, s2)"
        and rest: "?rest p env s2 = (Inr n, s')"
        unfolding bindM_Inr_iff liftM_Inr_iff by blast
      then have p: "p = has_active_run (tabs s) c" and t2: "tabs s2 = tabs s"
        unfolding ConnectorRunRepository_has_pending_def bindM_Inr_iff
        by (auto dest!: select_stmt_Inr simp: t1 has_active_run_def)
      show ?thesis
      proof (cases p)
        case True
        then show ?thesis using rest p t2 Some False by (simp add: runnable_def stuck_def)
      next
        case pending: False
        then obtain r s3 d where r: "create_queued_run rt (cc_source c) (cc_target c) ''scheduled'' None env s2 = (Inr r, s3)"
          and d: "ConnectorConfigRepository_mark_scheduled (cc_source c) now i (Some (cr_id r)) env s3 = (Inr d, s')"
          and n: "n = k + 1"
          using rest by (auto simp: bindM_Inr_iff liftM_Inr_iff)
        show ?thesis
          using create_queued_run_Inr [OF r] mark_scheduled_Inr [OF d Some] t2 p pending Some False n
          by (intro exI [of _ "[r]"]) (simp add: runnable_def stuck_def due_view_def)
      qed
    qed
  qed
qed


text \<open>A run for one source does not concern the configurations of other sources.\<close>

lemma runs_of_others:
  assumes "connectors t' = connectors t" and "rows (connector_runs t') = rows (connector_runs t) @ new"
    and "\<forall>r \<in> set new. cr_source r \<noteq> cc_source c"
  shows "runnable t' c = runnable t c" and "stuck t' c = stuck t c"
proof -
  have "resting t' c = resting t c" using assms(1) by (simp add: resting_def connector_of_def)
  moreover have "has_active_run t' c = has_active_run t c"
    using assms(2,3) by (auto simp: has_active_run_def count_rows_def pending_for_def filter_empty_conv)
  ultimately show "runnable t' c = runnable t c" "stuck t' c = stuck t c" by (simp_all add: runnable_def stuck_def)
qed

lemma enqueue_all_Inr:
  assumes "foldM (enqueue_config rt now) cs k env s = (Inr n, s')" and "distinct (map cc_source cs)"
    and "\<forall>k. env_fault env k \<noteq> Some NotFoundError"
  shows "\<exists>new. rows (connector_runs (tabs s')) = rows (connector_runs (tabs s)) @ new \<and> n = k + length new
      \<and> list_all2 scheduled_run (filter (runnable (tabs s)) cs) new
      \<and> due_view (tabs s') = fold (\<lambda>c. map (moved now c)) (filter (\<lambda>c. \<not> stuck (tabs s) c) cs) (due_view (tabs s))"
  using assms(1,2)
proof (induction cs arbitrary: k s)
  case Nil
  then show ?case by simp
next
  case (Cons c cs)
  then obtain m s1 where one: "enqueue_config rt now c k env s = (Inr m, s1)"
    and rest: "foldM (enqueue_config rt now) cs m env s1 = (Inr n, s')"
    by (auto simp: bindM_Inr_iff)
  obtain new1 where new1: "rows (connector_runs (tabs s1)) = rows (connector_runs (tabs s)) @ new1"
    "m = k + length new1" "list_all2 scheduled_run (if runnable (tabs s) c then [c] else []) new1"
    "connectors (tabs s1) = connectors (tabs s)"
    "due_view (tabs s1) = (if stuck (tabs s) c then due_view (tabs s) else map (moved now c) (due_view (tabs s)))"
    using enqueue_config_Inr [OF one assms(3)] by blast
  have src: "\<forall>r \<in> set new1. cr_source r = cc_source c"
    using new1(3) by (auto simp: scheduled_run_def list_all2_Cons1 split: if_splits)
  have "runnable (tabs s1) d = runnable (tabs s) d \<and> stuck (tabs s1) d = stuck (tabs s) d" if "d \<in> set cs" for d
    using runs_of_others [OF new1(4,1), of d] src that Cons.prems(2) by (force simp: image_iff)
  then have same: "filter (runnable (tabs s1)) cs = filter (runnable (tabs s)) cs"
    "filter (\<lambda>c. \<not> stuck (tabs s1) c) cs = filter (\<lambda>c. \<not> stuck (tabs s) c) cs"
    by (auto intro: filter_cong)
  obtain new where new: "rows (connector_runs (tabs s')) = rows (connector_runs (tabs s1)) @ new"
    "n = m + length new" "list_all2 scheduled_run (filter (runnable (tabs s)) cs) new"
    "due_view (tabs s') = fold (\<lambda>c. map (moved now c)) (filter (\<lambda>c. \<not> stuck (tabs s) c) cs) (due_view (tabs s1))"
    using Cons.IH [OF rest] Cons.prems(2) unfolding same by auto
  have "list_all2 scheduled_run (filter (runnable (tabs s)) (c # cs)) (new1 @ new)"
    using list_all2_appendI [OF new1(3) new(3)] by (simp split: if_splits)
  then show ?case
    using new new1(1,2,5) by (intro exI [of _ "new1 @ new"]) (simp split: if_splits)
qed

lemma fold_moved:
  assumes "distinct (map cc_source cs)"
  shows "fold (\<lambda>c. map (moved now c)) cs view = map (\<lambda>d. case find (\<lambda>c. cc_source c = fst d) cs of
      Some c \<Rightarrow> (fst d, map_option (\<lambda>i. now + seconds i) (interval_of c)) | None \<Rightarrow> d) view"
  using assms
proof (induction cs arbitrary: view)
  case Nil
  then show ?case by simp
next
  case (Cons c cs)
  have "find (\<lambda>d. cc_source d = cc_source c) cs = None"
    using Cons.prems by (simp add: find_None_iff) (metis imageI)
  then show ?case using Cons by (auto simp: moved_def comp_def split: option.splits)
qed

lemma find_moving:
  assumes "distinct (map cc_source cs)" and "set sel \<subseteq> set cs" and "d \<in> set cs"
  shows "(case find (\<lambda>c. cc_source c = cc_source d) (filter (\<lambda>c. \<not> p c) sel) of
        Some c \<Rightarrow> (cc_source d, g c) | None \<Rightarrow> (cc_source d, h d))
      = (cc_source d, if d \<in> set sel \<and> \<not> p d then g d else h d)"
proof (cases "find (\<lambda>c. cc_source c = cc_source d) (filter (\<lambda>c. \<not> p c) sel)")
  case None
  then have "d \<notin> set (filter (\<lambda>c. \<not> p c) sel)" by (auto simp: find_None_iff)
  then show ?thesis unfolding None by auto
next
  case (Some c)
  from first_row_Some [unfolded first_row_def, OF this]
  have c: "c \<in> set sel" "\<not> p c" "cc_source c = cc_source d" by auto
  with assms have "c = d" by (metis distinct_map inj_onD subsetD)
  with Some c show ?thesis by simp
qed

lemma straight_more [straight_rule]:
  "straight m \<Longrightarrow> straight (liftM m)" "straight draw" "straight (transaction n conv)"
proof -
  show "straight m \<Longrightarrow> straight (liftM m)" by (auto simp: straight_def liftM_Inr_iff)
  show "straight draw" by (auto simp: straight_def draw_def)
  show "straight (transaction n conv)"
    unfolding straight_def transaction_def
    by (auto simp: select_stmt_def stmt_def fail_stmt_def Let_def
        split: sum.splits prod.splits option.splits if_splits)
qed

lemma straight_enqueue: "straight (enqueue_due_scheduled_runs_locked rt)"
proof -
  have mark: "straight (mark_without_run now c i k)" for now c i k
    unfolding mark_without_run_def ConnectorConfigRepository_mark_scheduled_def Let_def comp_def
    by (intro straight_rule)
  have live: "\<not> tx_aborted s" if "mark_without_run now c i k env s = (Inr x, s')" for now c i k env s x s'
    using that unfolding mark_without_run_def ConnectorConfigRepository_mark_scheduled_def Let_def comp_def
      bindM_Inr_iff liftM_Inr_iff update_stmt_def by (auto dest!: stmt_Inr)
  have "straight (enqueue_config rt now c k)" for now c k
  proof -
    define rest where "rest i connector = (if cn_status connector = ''paused'' \<or> \<not> cc_enabled c
        then mark_without_run now c i k
        else bindM (liftM (ConnectorRunRepository_has_pending (cc_source c) (cc_target c))) (\<lambda>pending.
          if pending then retM k
          else bindM (create_queued_run rt (cc_source c) (cc_target c) ''scheduled'' None) (\<lambda>run.
            bindM (liftM (ConnectorConfigRepository_mark_scheduled (cc_source c) now i (Some (cr_id run)))) (\<lambda>_.
            retM (k + 1)))))" for i and connector :: Connector
    have rest: "straight (rest i connector)" for i connector
      unfolding rest_def create_queued_run_def create_queued_run_with_parent_def Let_def option.case
        ConnectorRunRepository_create_if_no_pending_def query_transaction_def created_or_active_def
        ConnectorRunRepository_has_pending_def ConnectorConfigRepository_mark_scheduled_def comp_def
      by (intro straight_rule mark)
    have "tx_aborted s' = tx_aborted s" if run: "enqueue_config rt now c k env s = (Inr x, s')" for env s x s'
    proof (cases "interval_of c")
      case None
      then show ?thesis using run by (simp add: enqueue_config_def interval_of_def)
    next
      case (Some i)
      obtain r s1 where find: "find_keyed connectors (\<lambda>k. cn_source k = cc_source c) env s = (r, s1)" by force
      have eq: "enqueue_config rt now c k = handleM (find_keyed connectors (\<lambda>k. cn_source k = cc_source c))
          (\<lambda>error. if error = NotFoundError then mark_without_run now c i k else throwM (api_error_of error)) (rest i)"
        unfolding enqueue_config_def interval_of_def [symmetric] Some option.case rest_def
          ConnectorRepository_find_by_source_def find_keyed_def by (rule refl)
      show ?thesis
      proof (cases r)
        case (Inl e)
        then have m: "mark_without_run now c i k env s1 = (Inr x, s')"
          using run find unfolding eq by (auto simp: handleM_def split: if_splits)
        then show ?thesis using live [OF m] find_keyed_aborted [OF find] straightD [OF mark m] by auto
      next
        case (Inr y)
        then have "rest i y env s1 = (Inr x, s')" using run find unfolding eq by (simp add: handleM_def)
        then show ?thesis using straightD [OF rest] straightD [OF straight_find] find Inr by metis
      qed
    qed
    then show ?thesis unfolding straight_def by blast
  qed
  then show ?thesis
    unfolding enqueue_due_scheduled_runs_locked_def ConnectorConfigRepository_find_due_for_schedule_def
    by (intro straight_rule)
qed

lemma selected_distinct:
  assumes "distinct (map cc_source (rows (connector_configs t)))"
  shows "distinct (map cc_source (selected now t))" and "set (selected now t) \<subseteq> set (rows (connector_configs t))"
proof -
  have inj: "inj_on cc_source (set (rows (connector_configs t)))" and "distinct (rows (connector_configs t))"
    using assms by (simp_all add: distinct_map)
  then have "distinct (selected now t)" unfolding selected_def by simp
  moreover show sub: "set (selected now t) \<subseteq> set (rows (connector_configs t))"
    unfolding selected_def by (auto dest!: in_set_takeD)
  ultimately show "distinct (map cc_source (selected now t))"
    using inj_on_subset [OF inj sub] by (simp add: distinct_map)
qed

lemma enqueue_pass:
  assumes "enqueue_due_scheduled_runs rt env s = (Inr n, s')"
  obtains s0 s1 where "tabs s0 = tabs s" and "tabs s' = tabs s1"
    and "foldM (enqueue_config rt (env_clock env (Suc (tick s)))) (selected (env_clock env (Suc (tick s))) (tabs s)) 0
      env s0 = (Inr n, s1)"
proof -
  let ?now = "env_clock env (Suc (tick s))"
  obtain s0 s1 where t: "tabs s0 = tabs s" "tick s0 = Suc (tick s)" "tabs s' = tabs s1"
    and run: "enqueue_due_scheduled_runs_locked rt env s0 = (Inr n, s1)"
    using transaction_committed [OF straight_enqueue assms [unfolded enqueue_due_scheduled_runs_def api_transaction_def]]
    by metis
  obtain cs s2 where "ConnectorConfigRepository_find_due_for_schedule ?now 10 env (s0\<lparr>tick := Suc (tick s0)\<rparr>) = (Inr cs, s2)"
    and f: "foldM (enqueue_config rt ?now) cs 0 env s2 = (Inr n, s1)"
    using run unfolding enqueue_due_scheduled_runs_locked_def by (auto simp: bindM_Inr_iff liftM_Inr_iff t(2))
  then have "cs = selected ?now (tabs s)" and "tabs s2 = tabs s"
    unfolding ConnectorConfigRepository_find_due_for_schedule_def selected_def
    by (auto dest!: select_stmt_Inr simp: t(1))
  then show thesis using that [of s2 s1] f t(3) by simp
qed

text \<open>C11: A pass of the scheduler takes at most ten due configurations in the order of their next time.
  It enqueues one run for each of them that may run (a readable schedule, a connector that is there and
  not paused, no active run), and for no other, and moves the next time of every one it is not stuck on
  by the interval of its schedule, which is at least a minute; every other configuration keeps its next
  time. The reported number is the number of runs.\<close>

theorem scheduler_pass:
  assumes "enqueue_due_scheduled_runs rt env s = (Inr n, s')" and "\<forall>k. env_fault env k \<noteq> Some NotFoundError"
    and unique: "distinct (map cc_source (rows (connector_configs (tabs s))))"
  defines "now \<equiv> env_clock env (Suc (tick s))"
  shows "\<exists>new. rows (connector_runs (tabs s')) = rows (connector_runs (tabs s)) @ new \<and> n = length new
      \<and> list_all2 scheduled_run (filter (runnable (tabs s)) (selected now (tabs s))) new
      \<and> due_view (tabs s') = map (\<lambda>d. (cc_source d,
            if d \<in> set (selected now (tabs s)) \<and> \<not> stuck (tabs s) d
            then map_option (\<lambda>i. now + seconds i) (interval_of d) else cc_next_run_at d))
          (rows (connector_configs (tabs s)))
      \<and> (\<forall>d i. interval_of d = Some i \<longrightarrow> 60 \<le> i)"
proof -
  obtain s0 s1 where t: "tabs s0 = tabs s" "tabs s' = tabs s1"
    and run: "foldM (enqueue_config rt now) (selected now (tabs s)) 0 env s0 = (Inr n, s1)"
    using enqueue_pass [OF assms(1)] unfolding now_def .
  note sel = selected_distinct [OF unique, of now]
  let ?moving = "filter (\<lambda>c. \<not> stuck (tabs s) c) (selected now (tabs s))"
  obtain new where new: "rows (connector_runs (tabs s')) = rows (connector_runs (tabs s)) @ new" "n = length new"
    "list_all2 scheduled_run (filter (runnable (tabs s)) (selected now (tabs s))) new"
    and view: "due_view (tabs s') = fold (\<lambda>c. map (moved now c)) ?moving (due_view (tabs s))"
    using enqueue_all_Inr [OF run sel(1) assms(2)] t by auto
  have "due_view (tabs s') = map (\<lambda>d. case find (\<lambda>c. cc_source c = cc_source d) ?moving of
        Some c \<Rightarrow> (cc_source d, map_option (\<lambda>i. now + seconds i) (interval_of c))
      | None \<Rightarrow> (cc_source d, cc_next_run_at d)) (rows (connector_configs (tabs s)))"
    unfolding view unfolding fold_moved [OF distinct_map_filter [OF sel(1)]]
    unfolding due_view_def map_map comp_def fst_conv by (rule refl)
  also have "\<dots> = map (\<lambda>d. (cc_source d,
            if d \<in> set (selected now (tabs s)) \<and> \<not> stuck (tabs s) d
            then map_option (\<lambda>i. now + seconds i) (interval_of d) else cc_next_run_at d))
          (rows (connector_configs (tabs s)))"
    by (rule map_cong [OF refl]) (rule find_moving [OF unique sel(2)])
  finally have "due_view (tabs s') = map (\<lambda>d. (cc_source d,
            if d \<in> set (selected now (tabs s)) \<and> \<not> stuck (tabs s) d
            then map_option (\<lambda>i. now + seconds i) (interval_of d) else cc_next_run_at d))
          (rows (connector_configs (tabs s)))" .
  moreover have "60 \<le> i" if "interval_of d = Some i" for d i
    using that by (auto simp: interval_of_def effective_schedule_interval_seconds_def
        MIN_CONNECTOR_SCHEDULE_INTERVAL_SECONDS_def split: Option.bind_splits)
  ultimately show ?thesis using new by blast
qed

text \<open>A pass that selects only configurations it is stuck on enqueues nothing and changes nothing:
  however many other configurations are due, every later pass selects the same ones again until one of
  them is repaired or its active run ends.\<close>

theorem stuck_configs_starve_the_others:
  assumes "enqueue_due_scheduled_runs rt env s = (Inr n, s')" and "\<forall>k. env_fault env k \<noteq> Some NotFoundError"
    and "list_all (stuck (tabs s)) (selected (env_clock env (Suc (tick s))) (tabs s))"
  shows "n = 0 \<and> tabs s' = tabs s"
proof -
  have "m = k \<and> tabs s1 = tabs s0"
    if "foldM (enqueue_config rt now) cs k env s0 = (Inr m, s1)" "list_all (stuck (tabs s0)) cs" for now cs k s0 m s1
    using that
  proof (induction cs arbitrary: k s0)
    case Nil
    then show ?case by simp
  next
    case (Cons c cs)
    then obtain m' s2 where one: "enqueue_config rt now c k env s0 = (Inr m', s2)"
      and rest: "foldM (enqueue_config rt now) cs m' env s2 = (Inr m, s1)" by (auto simp: bindM_Inr_iff)
    have st: "stuck (tabs s0) c" using Cons.prems(2) by simp
    then have "tabs s2 = tabs s0" "m' = k"
      using enqueue_config_Inr [OF one assms(2)] by (auto simp: runnable_def stuck_def)
    with Cons.IH [OF rest] Cons.prems(2) show ?case by simp
  qed
  with enqueue_pass [OF assms(1)] assms(3) show ?thesis by metis
qed


section \<open>Retention\<close>

text \<open>What a period of days makes of a test against a cut-off.\<close>

definition outlived :: "i64 option \<Rightarrow> utc \<Rightarrow> (utc \<Rightarrow> 'r \<Rightarrow> bool) \<Rightarrow> 'r \<Rightarrow> bool" where
  "outlived period now older r = (case period of Some d \<Rightarrow> older (now - days d) r | None \<Rightarrow> False)"

lemma delete_history_Inr:
  assumes "delete_expired_history period now del env s = (Inr n, s')"
    and "\<And>c. del c = bindM (delete_stmt get upd restricted on_delete (older c)) (\<lambda>gone. retM (length gone))"
    and "\<And>t. on_delete [] t = t" and "\<And>t. upd (\<lambda>tb. tb) t = t"
  shows "n = length (filter (outlived period now older) (rows (get (tabs s))))
    \<and> tabs s' = on_delete (filter (outlived period now older) (rows (get (tabs s))))
        (upd (\<lambda>tb. tb\<lparr>rows := delete_rows (outlived period now older) (rows tb)\<rparr>) (tabs s))"
proof (cases period)
  case None
  then show ?thesis using assms by (simp add: delete_expired_history_def outlived_def delete_rows_def)
next
  case (Some d)
  have "outlived period now older = older (now - days d)" by (simp add: fun_eq_iff outlived_def Some)
  then show ?thesis
    using assms(1) unfolding delete_expired_history_def Some option.case liftM_Inr_iff assms(2) bindM_Inr_iff
    by (auto dest!: delete_stmt_Inr)
qed

lemma runs_on_delete_Nil: "runs_on_delete [] t = t"
proof -
  have "null_if_in {} = (\<lambda>x. x)" by (simp add: fun_eq_iff null_if_in_def split: option.splits)
  then show ?thesis by (simp add: runs_on_delete_def Let_def map_rows_def filter_rows_def)
qed

lemma runs_on_delete_tables [simp]:
  "audit_logs (runs_on_delete g t) = audit_logs t" "sessions (runs_on_delete g t) = sessions t"
  "oidc_login_transactions (runs_on_delete g t) = oidc_login_transactions t"
  "login_throttle_buckets (runs_on_delete g t) = login_throttle_buckets t"
  "maintenance_runs (runs_on_delete g t) = maintenance_runs t"
  "map cr_id (rows (connector_runs (runs_on_delete g t))) = map cr_id (rows (connector_runs t))"
  "map hc_id (rows (service_health_checks (runs_on_delete g t))) = map hc_id (rows (service_health_checks t))"
  by (simp_all add: runs_on_delete_def Let_def map_rows_def comp_def)

text \<open>The tables after a pass at a time, and the numbers it reports.\<close>

definition purged :: "ConnectorRetentionPolicy \<Rightarrow> utc \<Rightarrow> ConnectorRetentionCleanup \<Rightarrow> tables \<Rightarrow> tables \<Rightarrow> bool" where
  "purged policy now cleanup t t' \<longleftrightarrow>
     (let old_check = outlived (rp_health_retention_days policy) now (\<lambda>c h. hc_checked_at h < c);
          old_run = outlived (rp_run_retention_days policy) now finished_before;
          old_log = outlived (rp_audit_log_retention_days policy) now (\<lambda>c a. al_created_at a < c) in
      map hc_id (rows (service_health_checks t')) = map hc_id (delete_rows old_check (rows (service_health_checks t)))
      \<and> map cr_id (rows (connector_runs t')) = map cr_id (delete_rows old_run (rows (connector_runs t)))
      \<and> rows (audit_logs t') = delete_rows old_log (rows (audit_logs t))
      \<and> rows (sessions t') = filter (\<lambda>x. now < se_expires_at x) (rows (sessions t))
      \<and> rows (oidc_login_transactions t') = filter (\<lambda>x. now < ot_expires_at x) (rows (oidc_login_transactions t))
      \<and> rows (login_throttle_buckets t') = delete_rows (prunable (now - days 30)) (rows (login_throttle_buckets t))
      \<and> rc_health_checks_deleted cleanup = count_rows old_check (rows (service_health_checks t))
      \<and> rc_runs_deleted cleanup = count_rows old_run (rows (connector_runs t))
      \<and> rc_audit_logs_deleted cleanup = count_rows old_log (rows (audit_logs t)))"

lemma delete_expired_data_Inr:
  assumes "delete_expired_data policy now env s = (Inr cleanup, s')"
  shows "purged policy now cleanup (tabs s) (tabs s') \<and> maintenance_runs (tabs s') = maintenance_runs (tabs s)"
proof -
  obtain a s1 b s2 c s3 d s4 e s5 g where
    1: "delete_expired_history (rp_health_retention_days policy) now
          ServiceHealthCheckRepository_delete_older_than env s = (Inr a, s1)" and
    2: "delete_expired_history (rp_run_retention_days policy) now
          ConnectorRunRepository_delete_finished_older_than env s1 = (Inr b, s2)" and
    3: "delete_expired_history (rp_audit_log_retention_days policy) now
          AuditLogRepository_delete_older_than env s2 = (Inr c, s3)" and
    4: "OidcLoginTransactionRepository_delete_expired now env s3 = (Inr d, s4)" and
    5: "SessionRepository_delete_expired now env s4 = (Inr e, s5)" and
    6: "LoginThrottleRepository_prune_before (now - days DEFAULT_LOGIN_THROTTLE_RETENTION_DAYS) env s5 = (Inr g, s')" and
    cl: "rc_health_checks_deleted cleanup = a" "rc_runs_deleted cleanup = b" "rc_audit_logs_deleted cleanup = c"
    using assms unfolding delete_expired_data_def bindM_Inr_iff liftM_Inr_iff by auto
  note h1 = delete_history_Inr [OF 1 ServiceHealthCheckRepository_delete_older_than_def, simplified no_action_def, simplified]
  note h2 = delete_history_Inr [OF 2 ConnectorRunRepository_delete_finished_older_than_def runs_on_delete_Nil, simplified]
  note h3 = delete_history_Inr [OF 3 AuditLogRepository_delete_older_than_def, simplified no_action_def, simplified]
  have h4: "tabs s4 = (tabs s3)\<lparr>oidc_login_transactions := (oidc_login_transactions (tabs s3))
      \<lparr>rows := filter (\<lambda>x. now < ot_expires_at x) (rows (oidc_login_transactions (tabs s3)))\<rparr>\<rparr>"
    using 4 unfolding OidcLoginTransactionRepository_delete_expired_def bindM_Inr_iff
    by (auto dest!: delete_stmt_Inr simp: no_action_def delete_rows_def not_le)
  have h5: "tabs s5 = (tabs s4)\<lparr>sessions := (sessions (tabs s4))
      \<lparr>rows := filter (\<lambda>x. now < se_expires_at x) (rows (sessions (tabs s4)))\<rparr>\<rparr>"
    using 5 unfolding SessionRepository_delete_expired_def delete_sessions_def bindM_Inr_iff
    by (auto dest!: delete_stmt_Inr simp: no_action_def delete_rows_def not_le)
  have h6: "tabs s' = login_throttle_buckets_update (\<lambda>tb. tb\<lparr>rows := delete_rows
      (prunable (now - days DEFAULT_LOGIN_THROTTLE_RETENTION_DAYS)) (rows tb)\<rparr>) (tabs s5)"
    using 6 unfolding LoginThrottleRepository_prune_before_def bindM_Inr_iff
    by (auto dest!: delete_stmt_Inr simp: no_action_def)
  show ?thesis
    unfolding purged_def Let_def cl count_rows_def using h1 h2 h3 by (simp add: h6 h5 h4 DEFAULT_LOGIN_THROTTLE_RETENTION_DAYS_def)
qed


lemma straight_cleanup: "straight (delete_expired_data policy now)"
  unfolding delete_expired_data_def delete_expired_history_def OidcLoginTransactionRepository_delete_expired_def
    SessionRepository_delete_expired_def delete_sessions_def LoginThrottleRepository_prune_before_def
    ServiceHealthCheckRepository_delete_older_than_def ConnectorRunRepository_delete_finished_older_than_def
    AuditLogRepository_delete_older_than_def
  by (intro straight_rule)

lemma purged_maintenance [simp]:
  "purged policy now cleanup t (maintenance_runs_update f t') = purged policy now cleanup t t'"
  by (simp add: purged_def)

text \<open>The successful pass the interval counts from: the one whose entry was stored last.\<close>

definition latest_success :: "string \<Rightarrow> tables \<Rightarrow> MaintenanceRun \<Rightarrow> bool" where
  "latest_success task t m \<longleftrightarrow> m \<in> set (rows (maintenance_runs t)) \<and> mr_task m = task \<and> mr_status m = ''success''
     \<and> list_all (\<lambda>x. mr_task x = task \<and> mr_status x = ''success'' \<longrightarrow> mr_created_at x \<le> mr_created_at m)
         (rows (maintenance_runs t))"

lemma select_stmt_tick: "select_stmt f env s = (Inr x, s') \<Longrightarrow> x = f (tabs s) \<and> tabs s' = tabs s \<and> tick s' = Suc (tick s)"
  by (auto simp: select_stmt_def stmt_def fail_stmt_def Let_def split: if_splits option.splits)

lemma latest_success_Inr:
  assumes "MaintenanceRunRepository_find_latest_success task env s = (Inr latest, s')"
  shows "tabs s' = tabs s" and "case latest of Some m \<Rightarrow> latest_success task (tabs s) m
    | None \<Rightarrow> list_all (\<lambda>x. \<not> (mr_task x = task \<and> mr_status x = ''success'')) (rows (maintenance_runs (tabs s)))"
proof -
  let ?l = "sort_key (\<lambda>m. - mr_created_at m)
       (filter (\<lambda>m. mr_task m = task \<and> mr_status m = ''success'') (rows (maintenance_runs (tabs s))))"
  have l: "latest = one_row ?l" and t: "tabs s' = tabs s"
    using assms unfolding MaintenanceRunRepository_find_latest_success_def by (auto dest!: select_stmt_Inr)
  show "tabs s' = tabs s" by (rule t)
  have srt: "sorted (map (\<lambda>m. - mr_created_at m) ?l)" by simp
  have mem: "x \<in> set ?l \<longleftrightarrow> x \<in> set (rows (maintenance_runs (tabs s))) \<and> mr_task x = task \<and> mr_status x = ''success''" for x
    by auto
  show "case latest of Some m \<Rightarrow> latest_success task (tabs s) m
    | None \<Rightarrow> list_all (\<lambda>x. \<not> (mr_task x = task \<and> mr_status x = ''success'')) (rows (maintenance_runs (tabs s)))"
  proof (cases ?l)
    case Nil
    then have "\<not> (mr_task x = task \<and> mr_status x = ''success'')" if "x \<in> set (rows (maintenance_runs (tabs s)))" for x
      using mem [of x] that unfolding Nil by auto
    then show ?thesis using l unfolding Nil one_row_def by (simp add: list_all_iff)
  next
    case (Cons m ms)
    have "mr_created_at x \<le> mr_created_at m" if "x \<in> set ?l" for x
      using srt that unfolding Cons by auto
    moreover have "m \<in> set ?l" unfolding Cons by simp
    ultimately have "latest_success task (tabs s) m" using mem by (auto simp: latest_success_def list_all_iff)
    then show ?thesis using l unfolding Cons one_row_def by simp
  qed
qed

lemma cleanup_steps:
  assumes "bindM (liftM (select_stmt (\<lambda>_. ()))) (\<lambda>_. bindM draw (\<lambda>k.
     if \<not> ww_lock ww k then retM SkippedLockBusy
     else bindM utc_now (\<lambda>now. bindM (liftM (MaintenanceRunRepository_find_latest_success task))
       (found now)))) env s = (Inr attempt, s')"
  obtains (busy) "attempt = SkippedLockBusy" and "tabs s' = tabs s"
    | (owner) latest s2 where "tabs s2 = tabs s" and "found (env_clock env (tick s + 2)) latest env s2 = (Inr attempt, s')"
        and "case latest of Some m \<Rightarrow> latest_success task (tabs s) m
          | None \<Rightarrow> list_all (\<lambda>x. \<not> (mr_task x = task \<and> mr_status x = ''success'')) (rows (maintenance_runs (tabs s)))"
proof -
  obtain s1 where t1: "tabs s1 = tabs s" "tick s1 = Suc (tick s)" and run: "(if \<not> ww_lock ww (tick s1) then retM SkippedLockBusy
     else bindM utc_now (\<lambda>now. bindM (liftM (MaintenanceRunRepository_find_latest_success task))
       (found now))) env (s1\<lparr>tick := Suc (tick s1)\<rparr>) = (Inr attempt, s')"
    using assms unfolding bindM_Inr_iff liftM_Inr_iff
    by (auto dest!: select_stmt_tick simp: draw_def)
  show thesis
  proof (cases "ww_lock ww (tick s1)")
    case False
    then show ?thesis using run t1 busy by auto
  next
    case True
    then obtain latest s2 where f: "MaintenanceRunRepository_find_latest_success task env
        (s1\<lparr>tick := Suc (Suc (tick s1))\<rparr>) = (Inr latest, s2)"
      and g: "found (env_clock env (Suc (tick s1))) latest env s2 = (Inr attempt, s')"
      using run by (auto simp: bindM_Inr_iff liftM_Inr_iff)
    show ?thesis
      using owner [of s2 latest] latest_success_Inr [OF f] g t1 by (cases latest) simp_all
  qed
qed

text \<open>C29: A completed retention pass removed exactly the health checks, finished runs and audit entries
  that are older than their periods, the expired sessions and logins in progress, and the login buckets
  nobody touched for thirty days, all measured at the clock reading taken after the lock was obtained, and
  appended one successful entry with these numbers to the history. It did so only if there was no successful
  pass before, or the last one finished at least the cleanup interval before that reading, in whole seconds.
  A pass is skipped as done only if the last successful one finished within the interval. A pass that fails,
  or is skipped because another worker has the lock or did the work, changes nothing.\<close>

theorem retention_pass:
  assumes "cleanup_connector_retention ww policy worker_id started_at env s = (r, s')"
    and "now = env_clock env (tick s + 3)"
  shows "case r of
      Inr (CleanupCompleted cleanup) \<Rightarrow> purged policy now cleanup (tabs s) (tabs s')
        \<and> (list_all (\<lambda>x. \<not> (mr_task x = ''retention_cleanup'' \<and> mr_status x = ''success'')) (rows (maintenance_runs (tabs s)))
           \<or> (\<exists>l. latest_success ''retention_cleanup'' (tabs s) l
                \<and> min (num_seconds (rp_cleanup_interval policy)) i64_max \<le> num_seconds (now - mr_finished_at l)))
        \<and> (\<exists>m. rows (maintenance_runs (tabs s')) = rows (maintenance_runs (tabs s)) @ [m]
          \<and> mr_task m = ''retention_cleanup'' \<and> mr_status m = ''success'' \<and> mr_worker_id m = Some worker_id
          \<and> mr_health_checks_deleted m = count_as_i32 (rc_health_checks_deleted cleanup)
          \<and> mr_connector_runs_deleted m = count_as_i32 (rc_runs_deleted cleanup)
          \<and> mr_audit_logs_deleted m = count_as_i32 (rc_audit_logs_deleted cleanup))
    | Inr SkippedRecentlyCompleted \<Rightarrow> tabs s' = tabs s \<and> (\<exists>l. latest_success ''retention_cleanup'' (tabs s) l
        \<and> num_seconds (now - mr_finished_at l) < min (num_seconds (rp_cleanup_interval policy)) i64_max)
    | _ \<Rightarrow> tabs s' = tabs s"
proof (cases r)
  case (Inl e)
  then show ?thesis
    using assms unfolding cleanup_connector_retention_def api_transaction_def
    by (auto elim: transaction_outcome)
next
  case (Inr attempt)
  let ?found = "\<lambda>now latest. if recently_completed policy now latest then retM SkippedRecentlyCompleted
       else bindM (delete_expired_data policy now) (\<lambda>cleanup.
         bindM utc_now (\<lambda>finished_at.
         bindM (liftM (MaintenanceRunRepository_create (maintenance_run ''success'' worker_id started_at
                  finished_at (rc_health_checks_deleted cleanup, rc_runs_deleted cleanup,
                    rc_audit_logs_deleted cleanup) None))) (\<lambda>_.
         retM (CleanupCompleted cleanup))))"
  let ?body = "bindM (liftM (select_stmt (\<lambda>_. ()))) (\<lambda>_. bindM draw (\<lambda>k.
     if \<not> ww_lock ww k then retM SkippedLockBusy
     else bindM utc_now (\<lambda>now. bindM (liftM (MaintenanceRunRepository_find_latest_success ''retention_cleanup''))
       (?found now))))"
  have straight: "straight ?body"
    unfolding MaintenanceRunRepository_find_latest_success_def MaintenanceRunRepository_create_def
    by (intro straight_rule straight_cleanup)
  obtain s0 s1 where t: "tabs s0 = tabs s" "tabs s' = tabs s1" and k: "tick s0 = Suc (tick s)"
    and run: "?body env s0 = (Inr attempt, s1)"
    using straightD [OF straight] assms(1) [unfolded cleanup_connector_retention_def api_transaction_def Inr]
    by (rule transaction_committed_at)
  from run show ?thesis
  proof (cases rule: cleanup_steps)
    case busy
    then show ?thesis using t Inr by simp
  next
    case (owner latest s2)
    have now: "env_clock env (tick s0 + 2) = now" using k assms(2) by (simp add: eval_nat_numeral)
    show ?thesis
    proof (cases "recently_completed policy now latest")
      case True
      then obtain m where m: "latest = Some m" by (auto simp: recently_completed_def split: option.splits)
      then show ?thesis using owner True t Inr now by (auto simp: recently_completed_def)
    next
      case False
      then have run: "?found now latest env s2 = (Inr attempt, s1)" using owner(2) now by simp
      obtain cleanup s3 where att: "attempt = CleanupCompleted cleanup" and del: "delete_expired_data policy now env s2 = (Inr cleanup, s3)"
        and new: "\<exists>m. rows (maintenance_runs (tabs s1)) = rows (maintenance_runs (tabs s3)) @ [m]
          \<and> mr_task m = ''retention_cleanup'' \<and> mr_status m = ''success'' \<and> mr_worker_id m = Some worker_id
          \<and> mr_health_checks_deleted m = count_as_i32 (rc_health_checks_deleted cleanup)
          \<and> mr_connector_runs_deleted m = count_as_i32 (rc_runs_deleted cleanup)
          \<and> mr_audit_logs_deleted m = count_as_i32 (rc_audit_logs_deleted cleanup)"
        and pur: "purged policy now cleanup (tabs s2) (tabs s3) \<Longrightarrow> purged policy now cleanup (tabs s2) (tabs s1)"
        using run False unfolding MaintenanceRunRepository_create_def
        by (auto dest!: insert_stmt_Inr
            simp: maintenance_run_def NewMaintenanceRun.extend_def MaintenanceRun.fields_def bindM_Inr_iff liftM_Inr_iff)
      have "list_all (\<lambda>x. \<not> (mr_task x = ''retention_cleanup'' \<and> mr_status x = ''success'')) (rows (maintenance_runs (tabs s)))
           \<or> (\<exists>l. latest_success ''retention_cleanup'' (tabs s) l
                \<and> min (num_seconds (rp_cleanup_interval policy)) i64_max \<le> num_seconds (now - mr_finished_at l))"
        using owner(3) False t by (cases latest) (auto simp: recently_completed_def)
      moreover have "purged policy now cleanup (tabs s) (tabs s')" "maintenance_runs (tabs s3) = maintenance_runs (tabs s)"
        using delete_expired_data_Inr [OF del] pur owner(1) t by simp_all
      ultimately show ?thesis using new att Inr t by simp
    qed
  qed
qed

end
