(* ===== verification/Inbox.thy ===== *)
theory Inbox
  imports Catalog
begin

text \<open>
  \<^verbatim>\<open>NotificationReceiptRepository\<close> and the queries of \<^verbatim>\<open>NotificationRepository\<close> in
  \<^verbatim>\<open>src/src/repositories.rs\<close>, with the handlers of \<^verbatim>\<open>src/src/rocket_routes/notifications.rs\<close>: every user
  reads, dismisses, snoozes and restores notifications through a receipt of their own.
\<close>

section \<open>Receipts\<close>

definition receipt_for :: "i32 \<Rightarrow> i32 \<Rightarrow> NotificationReceipt \<Rightarrow> bool" where
  "receipt_for notification_id user_id r \<longleftrightarrow> nr_notification_id r = notification_id \<and> nr_user_id r = user_id"

definition NotificationReceiptRepository_find ::
    "i32 \<Rightarrow> i32 \<Rightarrow> NotificationReceipt option query" where
  "NotificationReceiptRepository_find notification_id user_id =
     optionalM (find_keyed notification_receipts (receipt_for notification_id user_id))"

definition NotificationReceiptRepository_find_for_user_and_notifications ::
    "i32 \<Rightarrow> i32 list \<Rightarrow> NotificationReceipt list query" where
  "NotificationReceiptRepository_find_for_user_and_notifications user_id notification_ids =
     (if notification_ids = [] then retM []
      else select_stmt (\<lambda>t. filter (\<lambda>r. nr_user_id r = user_id \<and> nr_notification_id r \<in> set notification_ids)
             (rows (notification_receipts t))))"

text \<open>\<^verbatim>\<open>INSERT ... ON CONFLICT (notification_id, user_id) DO UPDATE\<close>; the time columns of a new row default
  to the time of the statement.\<close>

definition upsert_receipt ::
    "i32 \<Rightarrow> i32 \<Rightarrow> utc option \<times> utc option \<times> utc option \<Rightarrow>
     (NotificationReceipt \<Rightarrow> NotificationReceipt) \<Rightarrow> NotificationReceipt query" where
  "upsert_receipt notification_id user_id fresh change = bindM utc_now (\<lambda>inserted_at.
     upsert_stmt notification_receipts notification_receipts_update receipt_violation
       (receipt_for notification_id user_id)
       (\<lambda>i. case fresh of (read_at, dismissed_at, snoozed_until) \<Rightarrow>
          \<lparr>nr_id = i, nr_notification_id = notification_id, nr_user_id = user_id, nr_read_at = read_at,
           nr_dismissed_at = dismissed_at, nr_snoozed_until = snoozed_until,
           nr_created_at = inserted_at, nr_updated_at = inserted_at\<rparr>)
       change)"

definition NotificationReceiptRepository_mark_read :: "i32 \<Rightarrow> i32 \<Rightarrow> NotificationReceipt query" where
  "NotificationReceiptRepository_mark_read notification_id user_id = bindM utc_now (\<lambda>now.
     upsert_receipt notification_id user_id (Some now, None, None)
       (\<lambda>r. r\<lparr>nr_read_at := Some now, nr_updated_at := now\<rparr>))"

definition NotificationReceiptRepository_mark_unread :: "i32 \<Rightarrow> i32 \<Rightarrow> NotificationReceipt query" where
  "NotificationReceiptRepository_mark_unread notification_id user_id = bindM utc_now (\<lambda>now.
     upsert_receipt notification_id user_id (None, None, None)
       (\<lambda>r. r\<lparr>nr_read_at := None, nr_updated_at := now\<rparr>))"

definition NotificationReceiptRepository_dismiss :: "i32 \<Rightarrow> i32 \<Rightarrow> NotificationReceipt query" where
  "NotificationReceiptRepository_dismiss notification_id user_id = bindM utc_now (\<lambda>now.
     upsert_receipt notification_id user_id (None, Some now, None)
       (\<lambda>r. r\<lparr>nr_dismissed_at := Some now, nr_snoozed_until := None, nr_updated_at := now\<rparr>))"

definition NotificationReceiptRepository_snooze :: "i32 \<Rightarrow> i32 \<Rightarrow> utc \<Rightarrow> NotificationReceipt query" where
  "NotificationReceiptRepository_snooze notification_id user_id snoozed_until = bindM utc_now (\<lambda>now.
     upsert_receipt notification_id user_id (None, None, Some snoozed_until)
       (\<lambda>r. r\<lparr>nr_dismissed_at := None, nr_snoozed_until := Some snoozed_until, nr_updated_at := now\<rparr>))"

definition NotificationReceiptRepository_restore :: "i32 \<Rightarrow> i32 \<Rightarrow> NotificationReceipt query" where
  "NotificationReceiptRepository_restore notification_id user_id = bindM utc_now (\<lambda>now.
     upsert_receipt notification_id user_id (None, None, None)
       (\<lambda>r. r\<lparr>nr_dismissed_at := None, nr_snoozed_until := None, nr_updated_at := now\<rparr>))"

section \<open>Searching literally\<close>

fun replace_char :: "char \<Rightarrow> string \<Rightarrow> string \<Rightarrow> string" where
  "replace_char c new [] = []"
| "replace_char c new (x # xs) = (if x = c then new @ replace_char c new xs else x # replace_char c new xs)"

definition backslash :: char where
  "backslash = CHR 0x5C"

definition escape_like :: "string \<Rightarrow> string" where
  "escape_like search = replace_char CHR ''_'' [backslash, CHR ''_'']
     (replace_char CHR ''%'' [backslash, CHR ''%''] (replace_char backslash [backslash, backslash] search))"

definition search_pattern :: "string \<Rightarrow> string" where
  "search_pattern search = ''%'' @ escape_like search @ ''%''"

text \<open>\<^verbatim>\<open>LIKE\<close>: \<open>%\<close> stands for any text, \<open>_\<close> for one character, a backslash makes the next character
  literal; a pattern that ends with a backslash matches nothing here (the server refuses it).
  \<^verbatim>\<open>ILIKE\<close> compares the lower-cased text with the lower-cased pattern.\<close>

fun like :: "string \<Rightarrow> string \<Rightarrow> bool" where
  "like [] t = (t = [])"
| "like (p # ps) t =
     (if p = CHR ''%'' then like ps t \<or> (case t of [] \<Rightarrow> False | _ # t' \<Rightarrow> like (p # ps) t')
      else if p = CHR ''_'' then (case t of [] \<Rightarrow> False | _ # t' \<Rightarrow> like ps t')
      else if p = backslash then
        (case (ps, t) of (q # ps', c # t') \<Rightarrow> c = q \<and> like ps' t' | _ \<Rightarrow> False)
      else (case t of [] \<Rightarrow> False | c # t' \<Rightarrow> c = p \<and> like ps t'))"

definition ilike :: "weblib \<Rightarrow> string \<Rightarrow> string \<Rightarrow> bool" where
  "ilike wl pattern value = like (wl_sql_lower wl pattern) (wl_sql_lower wl value)"

section \<open>The inbox\<close>

record InboxFilters =
  if_state :: string
  if_search :: "string option"
  if_source :: "string option"
  if_severity :: "string option"

text \<open>The columns of the left join with the receipts of the user.\<close>

definition receipt_of :: "tables \<Rightarrow> i32 \<Rightarrow> Notification \<Rightarrow> NotificationReceipt option" where
  "receipt_of t user_id n = first_row (receipt_for (nt_id n) user_id) (rows (notification_receipts t))"

definition dismissed :: "NotificationReceipt option \<Rightarrow> bool" where
  "dismissed r \<longleftrightarrow> Option.bind r nr_dismissed_at \<noteq> None"

definition asleep :: "utc \<Rightarrow> NotificationReceipt option \<Rightarrow> bool" where
  "asleep now r = (case Option.bind r nr_snoozed_until of Some u \<Rightarrow> now < u | None \<Rightarrow> False)"

definition read_by :: "NotificationReceipt option \<Rightarrow> bool" where
  "read_by r \<longleftrightarrow> Option.bind r nr_read_at \<noteq> None"

definition note_access :: "RecordAccessScope \<Rightarrow> Notification \<Rightarrow> bool" where
  "note_access access n = access_filter access (nt_owner_user_id n) (nt_maintainer_id n)"

definition inbox_state :: "string \<Rightarrow> utc \<Rightarrow> Notification \<Rightarrow> NotificationReceipt option \<Rightarrow> bool" where
  "inbox_state state now n r \<longleftrightarrow>
     (if state = ''archived'' then nt_archived_at n \<noteq> None else nt_archived_at n = None)
     \<and> (if state = ''unread'' then \<not> dismissed r \<and> \<not> asleep now r \<and> \<not> nt_is_read n \<and> \<not> read_by r
        else if state = ''read'' then \<not> dismissed r \<and> \<not> asleep now r \<and> (nt_is_read n \<or> read_by r)
        else if state = ''snoozed'' then \<not> dismissed r \<and> asleep now r
        else if state = ''dismissed'' then dismissed r
        else True)"

definition inbox_matches ::
    "weblib \<Rightarrow> RecordAccessScope \<Rightarrow> InboxFilters \<Rightarrow> utc \<Rightarrow> Notification \<Rightarrow> NotificationReceipt option \<Rightarrow> bool" where
  "inbox_matches wl access filters now n r \<longleftrightarrow> note_access access n \<and> inbox_state (if_state filters) now n r
     \<and> matches_opt (if_source filters) (nt_source n) \<and> matches_opt (if_severity filters) (nt_severity n)
     \<and> (case if_search filters of
          None \<Rightarrow> True
        | Some search \<Rightarrow> ilike wl (search_pattern search) (nt_title n)
            \<or> (case nt_body n of Some b \<Rightarrow> ilike wl (search_pattern search) b | None \<Rightarrow> False))"

definition inbox_rows ::
    "weblib \<Rightarrow> RecordAccessScope \<Rightarrow> InboxFilters \<Rightarrow> utc \<Rightarrow> tables \<Rightarrow> Notification list" where
  "inbox_rows wl access filters now t =
     filter (\<lambda>n. inbox_matches wl access filters now n (receipt_of t (as_user_id access) n))
       (rows (notifications t))"

definition NotificationRepository_inbox_for_access ::
    "weblib \<Rightarrow> RecordAccessScope \<Rightarrow> InboxFilters \<Rightarrow> i64 \<Rightarrow> i64 \<Rightarrow> (NotificationView list \<times> nat) query" where
  "NotificationRepository_inbox_for_access wl access filters page page_size = bindM utc_now (\<lambda>now.
     bindM (select_stmt (\<lambda>t. length (inbox_rows wl access filters now t))) (\<lambda>total.
     bindM (select_stmt (\<lambda>t. map (\<lambda>n. NotificationView_from_record n (receipt_of t (as_user_id access) n))
              (page_of page page_size (sort_key (\<lambda>n. (- nt_updated_at n, - nt_id n))
                 (inbox_rows wl access filters now t))))) (\<lambda>views.
     retM (views, total))))"

definition actionable ::
    "i32 option \<Rightarrow> string option \<Rightarrow> RecordAccessScope \<Rightarrow> utc \<Rightarrow> tables \<Rightarrow> Notification \<Rightarrow> bool" where
  "actionable maintainer_id source access now t n \<longleftrightarrow>
     (let r = receipt_of t (as_user_id access) n in
      \<not> nt_is_read n \<and> nt_archived_at n = None \<and> \<not> read_by r \<and> \<not> dismissed r \<and> \<not> asleep now r
      \<and> in_scope maintainer_id source (nt_maintainer_id n) (nt_source n) \<and> note_access access n)"

definition NotificationRepository_with_receipts ::
    "i32 \<Rightarrow> Notification list \<Rightarrow> NotificationView list query" where
  "NotificationRepository_with_receipts user_id notes =
     bindM (NotificationReceiptRepository_find_for_user_and_notifications user_id (map nt_id notes)) (\<lambda>receipts.
     retM (map (\<lambda>n. NotificationView_from_record n
                 (map_of (rev (map (\<lambda>r. (nr_notification_id r, r)) receipts)) (nt_id n))) notes))"

definition NotificationRepository_find_actionable_for_access ::
    "nat \<Rightarrow> i32 option \<Rightarrow> string option \<Rightarrow> RecordAccessScope \<Rightarrow> NotificationView list query" where
  "NotificationRepository_find_actionable_for_access limit maintainer_id source access = bindM utc_now (\<lambda>now.
     bindM (select_stmt (\<lambda>t. take limit (sort_key (\<lambda>n. - nt_updated_at n)
              (filter (actionable maintainer_id source access now t) (rows (notifications t)))))) (\<lambda>notes.
     NotificationRepository_with_receipts (as_user_id access) notes))"

definition NotificationRepository_count_actionable_for_access ::
    "i32 option \<Rightarrow> string option \<Rightarrow> RecordAccessScope \<Rightarrow> nat query" where
  "NotificationRepository_count_actionable_for_access maintainer_id source access = bindM utc_now (\<lambda>now.
     select_stmt (\<lambda>t. count_rows (actionable maintainer_id source access now t) (rows (notifications t))))"

definition NotificationRepository_view_for_user :: "Notification \<Rightarrow> i32 \<Rightarrow> NotificationView query" where
  "NotificationRepository_view_for_user n user_id =
     bindM (NotificationReceiptRepository_find (nt_id n) user_id) (\<lambda>receipt.
     retM (NotificationView_from_record n receipt))"

section \<open>Handlers\<close>

record InboxQuery =
  iq_state :: "string option"
  iq_search :: "string option"
  iq_source :: "string option"
  iq_severity :: "string option"
  iq_page :: "i64 option"
  iq_page_size :: "i64 option"

definition choice_of :: "string \<Rightarrow> string option \<Rightarrow> string list \<Rightarrow> violations \<Rightarrow> violations" where
  "choice_of field value choices errors =
     push_if (case value of Some v \<Rightarrow> v \<notin> set choices | None \<Rightarrow> False) field
       (''must be one of '' @ join_str '', '' choices) errors"

definition outside_range :: "i64 option \<Rightarrow> i64 \<Rightarrow> i64 \<Rightarrow> bool" where
  "outside_range value lo hi = (case value of Some v \<Rightarrow> \<not> (lo \<le> v \<and> v \<le> hi) | None \<Rightarrow> False)"

definition InboxQuery_validate :: "InboxQuery \<Rightarrow> violations" where
  "InboxQuery_validate q = checks
     [choice_of ''state'' (iq_state q) [''unread'', ''read'', ''snoozed'', ''dismissed'', ''all'', ''archived''],
      choice_of ''severity'' (iq_severity q) [''info'', ''warning'', ''critical''],
      max_optional_len ''search'' (iq_search q) 200,
      max_optional_len ''source'' (iq_source q) 64,
      push_if (outside_range (iq_page q) 1 1000000) ''page'' ''must be from 1 to 1000000'',
      push_if (outside_range (iq_page_size q) 1 100) ''page_size'' ''must be from 1 to 100'']"

record InboxResponse =
  ir_items :: "NotificationView list"
  ir_total :: nat
  ir_page :: i64
  ir_page_size :: i64

definition get_inbox :: "weblib \<Rightarrow> AuthenticatedUser \<Rightarrow> InboxQuery \<Rightarrow> InboxResponse api" where
  "get_inbox wl auth query =
     bindM (checked InboxQuery_validate query) (\<lambda>query.
     bindM (record_access_scope auth) (\<lambda>access.
     let page = (case iq_page query of Some p \<Rightarrow> p | None \<Rightarrow> 1);
         page_size = (case iq_page_size query of Some p \<Rightarrow> p | None \<Rightarrow> 25);
         filters = \<lparr>if_state = (case iq_state query of Some x \<Rightarrow> x | None \<Rightarrow> ''unread''),
                    if_search = trimmed_nonempty (iq_search query),
                    if_source = trimmed_nonempty (iq_source query), if_severity = iq_severity query\<rparr> in
     bindM (callM (NotificationRepository_inbox_for_access wl access filters page page_size)) (\<lambda>(items, total).
     retM \<lparr>ir_items = items, ir_total = total, ir_page = page, ir_page_size = page_size\<rparr>)))"

definition find_accessible_notification :: "AuthenticatedUser \<Rightarrow> i32 \<Rightarrow> Notification api" where
  "find_accessible_notification auth i =
     bindM (callM (NotificationRepository_find i)) (\<lambda>n.
     bindM (record_access_scope auth) (\<lambda>access.
     if \<not> allows access (nt_owner_user_id n) (nt_maintainer_id n) then throwM NotFound else retM n))"

definition optional_time :: "weblib \<Rightarrow> utc option \<Rightarrow> json" where
  "optional_time wl v = (case v of Some x \<Rightarrow> wl_time wl x | None \<Rightarrow> JNull)"

definition record_receipt_audit ::
    "weblib \<Rightarrow> AuthenticatedUser \<Rightarrow> string \<Rightarrow> i32 \<Rightarrow> NotificationReceipt \<Rightarrow> unit api" where
  "record_receipt_audit wl auth action notification_id receipt =
     record_audit_log wl auth action ''notification'' notification_id
       [(''user_id'', JInt (us_id (au_user auth))), (''read_at'', optional_time wl (nr_read_at receipt)),
        (''dismissed_at'', optional_time wl (nr_dismissed_at receipt)),
        (''snoozed_until'', optional_time wl (nr_snoozed_until receipt))]"

definition get_notifications :: "AuthenticatedUser \<Rightarrow> NotificationView list api" where
  "get_notifications auth =
     bindM (record_access_scope auth) (\<lambda>access.
     callM (NotificationRepository_find_actionable_for_access 100 None None access))"

definition view_notification :: "AuthenticatedUser \<Rightarrow> i32 \<Rightarrow> NotificationView api" where
  "view_notification auth i =
     bindM (find_accessible_notification auth i) (\<lambda>n.
     callM (NotificationRepository_view_for_user n (us_id (au_user auth))))"

text \<open>The four handlers that only differ in the receipt they write.\<close>

definition receipt_action ::
    "weblib \<Rightarrow> AuthenticatedUser \<Rightarrow> i32 \<Rightarrow> string \<Rightarrow> (i32 \<Rightarrow> i32 \<Rightarrow> NotificationReceipt query) \<Rightarrow>
     NotificationView api" where
  "receipt_action wl auth i action write =
     bindM (find_accessible_notification auth i) (\<lambda>n.
     bindM (callM (write i (us_id (au_user auth)))) (\<lambda>receipt.
     bindM (record_receipt_audit wl auth action i receipt) (\<lambda>_.
     retM (NotificationView_from_record n (Some receipt)))))"

definition mark_notification_read :: "weblib \<Rightarrow> AuthenticatedUser \<Rightarrow> i32 \<Rightarrow> NotificationView api" where
  "mark_notification_read wl auth i = receipt_action wl auth i ''mark_read'' NotificationReceiptRepository_mark_read"

definition mark_notification_unread :: "weblib \<Rightarrow> AuthenticatedUser \<Rightarrow> i32 \<Rightarrow> NotificationView api" where
  "mark_notification_unread wl auth i =
     receipt_action wl auth i ''mark_unread'' NotificationReceiptRepository_mark_unread"

definition dismiss_notification :: "weblib \<Rightarrow> AuthenticatedUser \<Rightarrow> i32 \<Rightarrow> NotificationView api" where
  "dismiss_notification wl auth i = receipt_action wl auth i ''dismiss'' NotificationReceiptRepository_dismiss"

definition restore_notification :: "weblib \<Rightarrow> AuthenticatedUser \<Rightarrow> i32 \<Rightarrow> NotificationView api" where
  "restore_notification wl auth i = receipt_action wl auth i ''restore'' NotificationReceiptRepository_restore"

text \<open>The validator of a snooze reads the clock.\<close>

definition NotificationSnoozeRequest_validate :: "utc \<Rightarrow> utc \<Rightarrow> violations" where
  "NotificationSnoozeRequest_validate now snoozed_until =
     (if snoozed_until \<le> now then [violation ''snoozed_until'' ''must be in the future''] else [])"

definition snooze_notification :: "weblib \<Rightarrow> AuthenticatedUser \<Rightarrow> i32 \<Rightarrow> utc \<Rightarrow> NotificationView api" where
  "snooze_notification wl auth i snoozed_until =
     bindM (find_accessible_notification auth i) (\<lambda>n.
     bindM utc_now (\<lambda>now.
     bindM (checked (NotificationSnoozeRequest_validate now) snoozed_until) (\<lambda>snoozed_until.
     bindM (callM (NotificationReceiptRepository_snooze i (us_id (au_user auth)) snoozed_until)) (\<lambda>receipt.
     bindM (record_receipt_audit wl auth ''snooze'' i receipt) (\<lambda>_.
     retM (NotificationView_from_record n (Some receipt)))))))"

definition notification_metadata :: "Notification \<Rightarrow> (string \<times> json) list" where
  "notification_metadata n = [(''source'', JString (nt_source n)), (''severity'', JString (nt_severity n)),
     (''is_read'', JBool (nt_is_read n))]"

definition create_notification :: "weblib \<Rightarrow> AuthenticatedUser \<Rightarrow> NewNotification \<Rightarrow> Notification api" where
  "create_notification wl auth new_notification =
     bindM (require_admin auth) (\<lambda>_.
     bindM (checked NewNotification_validate new_notification) (\<lambda>new_notification.
     bindM (callM (NotificationRepository_create new_notification)) (\<lambda>n.
     bindM (record_audit_log wl auth ''create'' ''notification'' (nt_id n) (notification_metadata n)) (\<lambda>_.
     retM n))))"

definition update_notification :: "weblib \<Rightarrow> AuthenticatedUser \<Rightarrow> i32 \<Rightarrow> NewNotification \<Rightarrow> Notification api" where
  "update_notification wl auth i notification =
     bindM (require_admin auth) (\<lambda>_.
     bindM (checked NewNotification_validate notification) (\<lambda>notification.
     bindM (callM (NotificationRepository_find i)) (\<lambda>existing.
     let notification = notification\<lparr>nt_connector_id := nt_connector_id existing,
           nt_owner_user_id := nt_owner_user_id existing, nt_maintainer_id := nt_maintainer_id existing,
           nt_source_updated_at := nt_source_updated_at existing,
           nt_last_seen_run_id := nt_last_seen_run_id existing, nt_archived_at := nt_archived_at existing\<rparr> in
     bindM (callM (NotificationRepository_update i notification)) (\<lambda>n.
     bindM (record_audit_log wl auth ''update'' ''notification'' (nt_id n) (notification_metadata n)) (\<lambda>_.
     retM n)))))"

definition delete_notification :: "weblib \<Rightarrow> AuthenticatedUser \<Rightarrow> i32 \<Rightarrow> unit api" where
  "delete_notification wl auth i =
     bindM (require_admin auth) (\<lambda>_.
     bindM (callM (NotificationRepository_find i)) (\<lambda>n.
     bindM (callM (NotificationRepository_delete i)) (\<lambda>_.
     record_audit_log wl auth ''delete'' ''notification'' i
       [(''source'', JString (nt_source n)), (''severity'', JString (nt_severity n))])))"

text \<open>The mounted actions on one notification.\<close>

datatype inbox_action = MarkRead | MarkUnread | Dismiss | Snooze utc | Restore

fun handle_inbox :: "weblib \<Rightarrow> AuthenticatedUser \<Rightarrow> i32 \<Rightarrow> inbox_action \<Rightarrow> NotificationView api" where
  "handle_inbox wl auth i MarkRead = mark_notification_read wl auth i"
| "handle_inbox wl auth i MarkUnread = mark_notification_unread wl auth i"
| "handle_inbox wl auth i Dismiss = dismiss_notification wl auth i"
| "handle_inbox wl auth i (Snooze u) = snooze_notification wl auth i u"
| "handle_inbox wl auth i Restore = restore_notification wl auth i"

end
