(* ===== verification/Catalog_Properties.thy ===== *)
theory Catalog_Properties
  imports Catalog Access_Properties
begin

text \<open>
  Who may change the catalog: a request without the needed role or membership fails and changes
  nothing, and every change that is reported as done left exactly one entry in the audit log.
\<close>

section \<open>The permission model\<close>

definition member_with :: "string list \<Rightarrow> AuthenticatedUser \<Rightarrow> i32 \<Rightarrow> tables \<Rightarrow> bool" where
  "member_with allowed auth maintainer_id t \<longleftrightarrow> is_admin auth
     \<or> (case first_row (\<lambda>m. mm_maintainer_id m = maintainer_id \<and> mm_user_id m = us_id (au_user auth))
          (rows (maintainer_members t)) of Some m \<Rightarrow> mm_role m \<in> set allowed | None \<Rightarrow> False)"

abbreviation may_write :: "AuthenticatedUser \<Rightarrow> i32 \<Rightarrow> tables \<Rightarrow> bool" where
  "may_write \<equiv> member_with [''owner'', ''maintainer'']"

abbreviation may_own :: "AuthenticatedUser \<Rightarrow> i32 \<Rightarrow> tables \<Rightarrow> bool" where
  "may_own \<equiv> member_with [''owner'']"

definition on_row :: "'r table \<Rightarrow> ('r \<Rightarrow> bool) \<Rightarrow> ('r \<Rightarrow> bool) \<Rightarrow> bool" where
  "on_row tb p q = (case first_row p (rows tb) of Some r \<Rightarrow> q r | None \<Rightarrow> False)"

fun permitted :: "AuthenticatedUser \<Rightarrow> catalog_request \<Rightarrow> tables \<Rightarrow> bool" where
  "permitted auth (CreateService n) t = may_write auth (sv_maintainer_id n) t"
| "permitted auth (UpdateService i n) t =
     (on_row (services t) (\<lambda>v. sv_id v = i) (\<lambda>v. may_write auth (sv_maintainer_id v) t)
      \<and> may_write auth (sv_maintainer_id n) t)"
| "permitted auth (DeleteService i) t =
     on_row (services t) (\<lambda>v. sv_id v = i) (\<lambda>v. may_write auth (sv_maintainer_id v) t)"
| "permitted auth (CreatePackage n) t = may_write auth (pk_maintainer_id n) t"
| "permitted auth (UpdatePackage i n) t =
     (on_row (packages t) (\<lambda>v. pk_id v = i) (\<lambda>v. may_write auth (pk_maintainer_id v) t)
      \<and> may_write auth (pk_maintainer_id n) t)"
| "permitted auth (DeletePackage i) t =
     on_row (packages t) (\<lambda>v. pk_id v = i) (\<lambda>v. may_write auth (pk_maintainer_id v) t)"
| "permitted auth (CreateMaintainer n) t = is_admin auth"
| "permitted auth (UpdateMaintainer i n) t = is_admin auth"
| "permitted auth (DeleteMaintainer i) t = is_admin auth"
| "permitted auth (UpsertMember i m) t = may_own auth i t"
| "permitted auth (DeleteMember i u) t = may_own auth i t"

fun audited_as :: "catalog_request \<Rightarrow> string \<times> string" where
  "audited_as (CreateService _) = (''create'', ''service'')"
| "audited_as (UpdateService _ _) = (''update'', ''service'')"
| "audited_as (DeleteService _) = (''delete'', ''service'')"
| "audited_as (CreatePackage _) = (''create'', ''package'')"
| "audited_as (UpdatePackage _ _) = (''update'', ''package'')"
| "audited_as (DeletePackage _) = (''delete'', ''package'')"
| "audited_as (CreateMaintainer _) = (''create'', ''maintainer'')"
| "audited_as (UpdateMaintainer _ _) = (''update'', ''maintainer'')"
| "audited_as (DeleteMaintainer _) = (''delete'', ''maintainer'')"
| "audited_as (UpsertMember _ _) = (''upsert_member'', ''maintainer'')"
| "audited_as (DeleteMember _ _) = (''delete_member'', ''maintainer'')"

definition one_entry :: "AuthenticatedUser \<Rightarrow> string \<times> string \<Rightarrow> tables \<Rightarrow> tables \<Rightarrow> bool" where
  "one_entry auth a t t' \<longleftrightarrow> (\<exists>entry. rows (audit_logs t') = rows (audit_logs t) @ [entry]
     \<and> al_actor_user_id entry = Some (us_id (au_user auth))
     \<and> (al_action entry, al_resource_type entry) = a)"

section \<open>Handlers behind a check\<close>

text \<open>From the tables \<open>t\<close>: without the permission \<open>P\<close> the code fails and leaves \<open>t\<close>; a success was
  permitted and is audited.\<close>

definition protected ::
    "env \<Rightarrow> AuthenticatedUser \<Rightarrow> string \<times> string \<Rightarrow> tables \<Rightarrow> bool \<Rightarrow> 'a api \<Rightarrow> bool" where
  "protected env auth a t P m \<longleftrightarrow> (\<forall>s r s'. tabs s = t \<longrightarrow> m env s = (r, s') \<longrightarrow>
     (\<not> P \<longrightarrow> tabs s' = t \<and> isl r) \<and> (\<not> isl r \<longrightarrow> P \<and> one_entry auth a t (tabs s')))"

lemma protected_read:
  assumes "keeps env (\<lambda>u. u = t) m"
    and "\<And>x s s'. tabs s = t \<Longrightarrow> m env s = (Inr x, s') \<Longrightarrow> protected env auth a t P (f x)"
  shows "protected env auth a t P (bindM m f)"
  unfolding protected_def
proof (intro allI impI)
  fix s r s'
  assume t: "tabs s = t" and run: "bindM m f env s = (r, s')"
  obtain q s1 where m: "m env s = (q, s1)" by force
  have t1: "tabs s1 = t" using keepsD [OF assms(1) t m] .
  show "(\<not> P \<longrightarrow> tabs s' = t \<and> isl r) \<and> (\<not> isl r \<longrightarrow> P \<and> one_entry auth a t (tabs s'))"
  proof (cases q)
    case (Inl e)
    then show ?thesis using run m t1 by (auto simp: bindM_def)
  next
    case (Inr x)
    then have "f x env s1 = (r, s')" using run m by (simp add: bindM_def)
    then show ?thesis using assms(2) [OF t m [unfolded Inr]] t1 unfolding protected_def by blast
  qed
qed

lemma protected_write:
  assumes "P" and "keeps env (\<lambda>u. audit_logs u = audit_logs t) m"
    and "\<And>x s s' y. audit_logs (tabs s) = audit_logs t \<Longrightarrow> f x env s = (Inr y, s') \<Longrightarrow> one_entry auth a t (tabs s')"
  shows "protected env auth a t P (bindM m f)"
  unfolding protected_def
proof (intro allI impI conjI)
  fix s r s'
  assume t: "tabs s = t" and run: "bindM m f env s = (r, s')"
  show "\<not> P \<Longrightarrow> tabs s' = t" "\<not> P \<Longrightarrow> isl r" using assms(1) by simp_all
  assume "\<not> isl r"
  then obtain y where "r = Inr y" by (cases r) auto
  then obtain x s1 where m: "m env s = (Inr x, s1)" and "f x env s1 = (Inr y, s')"
    using run by (auto simp: bindM_Inr_iff)
  moreover have "audit_logs (tabs s1) = audit_logs t" using keepsD [OF assms(2) _ m] t by simp
  ultimately show "P" "one_entry auth a t (tabs s')" using assms(1,3) by blast+
qed

lemma protected_discard: "protected env auth a t P m \<Longrightarrow> protected env auth a t P (discard m)"
proof -
  assume p: "protected env auth a t P m"
  have "\<exists>q. m env s = (q, s') \<and> isl q = isl r" if "discard m env s = (r, s')" for s r s'
    using that by (cases "m env s"; cases "fst (m env s)") (auto simp: discard_def bindM_def)
  with p show ?thesis unfolding protected_def by metis
qed

lemma audit_entry_of:
  assumes "undisturbed env" and "record_audit_entry wl auth act ty i md env s = (Inr u, s')"
    and "audit_logs (tabs s) = audit_logs t"
  shows "one_entry auth (act, ty) t (tabs s')"
proof -
  let ?a = "\<lparr>al_actor_user_id = Some (us_id (au_user auth)), al_action = act, al_resource_type = ty,
      al_resource_id = Some i, al_metadata = wl_json wl (JObject md)\<rparr>"
  obtain e where "stepM (liftM (AuditLogRepository_create ?a)) env s = (Inr e, s')"
    using assms(2) unfolding record_audit_entry_def callM_def bindM_Inr_iff by auto
  then obtain s1 where "AuditLogRepository_create ?a env s = (Inr e, s1)" and t: "tabs s' = tabs s1"
    by (rule step_lift_Inr [OF assms(1)])
  then show ?thesis
    using assms(3) unfolding AuditLogRepository_create_def bindM_Inr_iff t one_entry_def
    by (auto dest!: insert_stmt_Inr simp: NewAuditLog.extend_def AuditLog.fields_def)
qed

lemmas audit_entry = audit_entry_of [where i = "show_int j" for j, folded record_audit_log_def]

lemma audit_then_return:
  assumes "undisturbed env"
    and "bindM (record_audit_log wl auth act ty i md) (\<lambda>_. retM z) env s = (Inr y, s')"
    and "audit_logs (tabs s) = audit_logs t"
  shows "one_entry auth (act, ty) t (tabs s')"
  using assms audit_entry unfolding bindM_Inr_iff by fastforce

lemma keeps_call [keeps_rule]: "undisturbed env \<Longrightarrow> keeps env I m \<Longrightarrow> keeps env I (callM m)"
  unfolding callM_def by (intro keeps_rule)

lemma keeps_checked [keeps_rule]: "keeps env I (checked v r)"
  unfolding checked_def by (intro keeps_rule)

lemma keeps_gate:
  "undisturbed env \<Longrightarrow> keeps env I (require_maintainer_member_role auth i allowed)"
  "keeps env I (require_admin auth)"
  unfolding require_maintainer_member_role_def require_admin_def
    MaintainerMemberRepository_find_by_maintainer_and_user_def
  by (intro keeps_rule; simp)+

lemma gate_Inr:
  assumes "undisturbed env" and "require_maintainer_member_role auth i allowed env s = (Inr x, s')"
  shows "member_with allowed auth i (tabs s)"
proof (cases "is_admin auth")
  case False
  then obtain m where m: "stepM (MaintainerMemberRepository_find_by_maintainer_and_user i (us_id (au_user auth))) env s
      = (Inr m, s')" and "mm_role m \<in> set allowed"
    using assms(2) by (auto simp: require_maintainer_member_role_def handleM_Inr_iff split: if_splits)
  obtain s1 where "MaintainerMemberRepository_find_by_maintainer_and_user i (us_id (au_user auth)) env s = (Inr m, s1)"
    by (rule stepM_undisturbed [OF assms(1) m])
  then show ?thesis
    using \<open>mm_role m \<in> set allowed\<close> unfolding MaintainerMemberRepository_find_by_maintainer_and_user_def
    by (auto dest!: find_keyed_Inr simp: member_with_def)
qed (simp add: member_with_def)

lemma admin_gate_Inr: "require_admin auth env s = (Inr x, s') \<Longrightarrow> is_admin auth"
  by (simp add: require_admin_def split: if_splits)

lemma call_find_Inr:
  assumes "undisturbed env" and "callM (find_keyed get p) env s = (Inr r, s')"
  shows "first_row p (rows (get (tabs s))) = Some r"
  using step_lift_Inr [OF assms(1) assms(2) [unfolded callM_def]] find_keyed_Inr by metis

lemma keeps_audit_of_writes:
  "keeps env (\<lambda>u. audit_logs u = x) (ServiceRepository_create ns)"
  "keeps env (\<lambda>u. audit_logs u = x) (ServiceRepository_update i ns)"
  "keeps env (\<lambda>u. audit_logs u = x) (ServiceRepository_delete i)"
  "keeps env (\<lambda>u. audit_logs u = x) (PackageRepository_create np)"
  "keeps env (\<lambda>u. audit_logs u = x) (PackageRepository_update i np)"
  "keeps env (\<lambda>u. audit_logs u = x) (PackageRepository_delete i)"
  "keeps env (\<lambda>u. audit_logs u = x) (MaintainerRepository_create nm)"
  "keeps env (\<lambda>u. audit_logs u = x) (MaintainerRepository_update i nm)"
  "keeps env (\<lambda>u. audit_logs u = x) (MaintainerRepository_delete i)"
  "keeps env (\<lambda>u. audit_logs u = x) (MaintainerMemberRepository_upsert mm)"
  "keeps env (\<lambda>u. audit_logs u = x) (MaintainerMemberRepository_delete_by_maintainer_and_user i j)"
  unfolding ServiceRepository_create_def ServiceRepository_update_def ServiceRepository_delete_def
    PackageRepository_create_def PackageRepository_update_def PackageRepository_delete_def
    MaintainerRepository_create_def MaintainerRepository_update_def MaintainerRepository_delete_def
    MaintainerMemberRepository_upsert_def MaintainerMemberRepository_delete_by_maintainer_and_user_def
    create_row_def update_row_def removed_def comp_def
  by (intro keeps_rule keeps_insert_stmt keeps_update_stmt keeps_upsert_stmt keeps_delete_stmt;
      simp add: no_action_def services_on_delete_def maintainers_on_delete_def drop_owned_def Let_def
        notifications_on_delete_def connectors_on_delete_def)+

section \<open>The shapes of the handlers\<close>

lemma checked_Inr: "checked v r env s = (Inr x, s') \<Longrightarrow> x = r"
  by (auto simp: checked_def resultM_def validate_request_def Let_def split: if_splits)

lemma protected_create:
  assumes u: "undisturbed env" and w: "\<And>x. keeps env (\<lambda>b. audit_logs b = audit_logs t) (op x)"
    and p: "member_with allowed auth (g r) t \<Longrightarrow> P"
  shows "protected env auth (act, ty) t P (bindM (checked v r) (\<lambda>x.
     bindM (require_maintainer_member_role auth (g x) allowed) (\<lambda>_.
     bindM (callM (op x)) (\<lambda>y. bindM (record_audit_log wl auth act ty (k y) (md y)) (\<lambda>_. retM y)))))"
  by (rule protected_read [OF keeps_checked], rule protected_read [OF keeps_gate(1) [OF u]],
      rule protected_write [OF _ keeps_call [OF u w]])
    (use p checked_Inr gate_Inr [OF u] audit_then_return [OF u] in metis)+

lemma protected_update:
  assumes u: "undisturbed env" and w: "\<And>x. keeps env (\<lambda>b. audit_logs b = audit_logs t) (op x)"
    and p: "\<And>old. first_row q (rows (get t)) = Some old \<Longrightarrow> member_with allowed auth (g' old) t \<Longrightarrow>
      member_with allowed auth (g r) t \<Longrightarrow> P"
  shows "protected env auth (act, ty) t P (bindM (checked v r) (\<lambda>x.
     bindM (callM (find_keyed get q)) (\<lambda>old.
     bindM (require_maintainer_member_role auth (g' old) allowed) (\<lambda>_.
     bindM (require_maintainer_member_role auth (g x) allowed) (\<lambda>_.
     bindM (callM (op x)) (\<lambda>y. bindM (record_audit_log wl auth act ty (k y) (md y)) (\<lambda>_. retM y)))))))"
  by (rule protected_read [OF keeps_checked], rule protected_read [OF keeps_call [OF u keeps_find]],
      rule protected_read [OF keeps_gate(1) [OF u]], rule protected_read [OF keeps_gate(1) [OF u]],
      rule protected_write [OF _ keeps_call [OF u w]])
    (use p checked_Inr gate_Inr [OF u] call_find_Inr [OF u] audit_then_return [OF u] in metis)+

lemma protected_delete:
  assumes u: "undisturbed env" and w: "keeps env (\<lambda>b. audit_logs b = audit_logs t) op"
    and p: "\<And>old. first_row q (rows (get t)) = Some old \<Longrightarrow> member_with allowed auth (g' old) t \<Longrightarrow> P"
  shows "protected env auth (act, ty) t P (bindM (callM (find_keyed get q)) (\<lambda>old.
     bindM (require_maintainer_member_role auth (g' old) allowed) (\<lambda>_.
     bindM (callM op) (\<lambda>_. record_audit_log wl auth act ty i (md old)))))"
  by (rule protected_read [OF keeps_call [OF u keeps_find]], rule protected_read [OF keeps_gate(1) [OF u]],
      rule protected_write [OF _ keeps_call [OF u w]])
    (use p gate_Inr [OF u] call_find_Inr [OF u] audit_entry [OF u] in metis)+

lemma protected_admin:
  assumes u: "undisturbed env" and w: "\<And>x. keeps env (\<lambda>b. audit_logs b = audit_logs t) (op x)"
  shows "protected env auth (act, ty) t (is_admin auth) (bindM (require_admin auth) (\<lambda>_.
     bindM (checked v r) (\<lambda>x. bindM (callM (op x)) (\<lambda>y.
     bindM (record_audit_log wl auth act ty (k y) (md y)) (\<lambda>_. retM y)))))"
  by (rule protected_read [OF keeps_gate(2)], rule protected_read [OF keeps_checked],
      rule protected_write [OF _ keeps_call [OF u w]])
    (use admin_gate_Inr audit_then_return [OF u] in metis)+

lemma protected_admin_delete:
  assumes u: "undisturbed env" and w: "keeps env (\<lambda>b. audit_logs b = audit_logs t) op"
  shows "protected env auth (act, ty) t (is_admin auth) (bindM (require_admin auth) (\<lambda>_.
     bindM (callM op) (\<lambda>_. record_audit_log wl auth act ty i md)))"
  by (rule protected_read [OF keeps_gate(2)], rule protected_write [OF _ keeps_call [OF u w]])
    (use admin_gate_Inr audit_entry [OF u] in metis)+

lemma protected_member_delete:
  assumes u: "undisturbed env" and w: "keeps env (\<lambda>b. audit_logs b = audit_logs t) op"
  shows "protected env auth (act, ty) t (member_with allowed auth i t)
     (bindM (require_maintainer_member_role auth i allowed) (\<lambda>_.
     bindM (callM op) (\<lambda>_. record_audit_log wl auth act ty k md)))"
  by (rule protected_read [OF keeps_gate(1) [OF u]], rule protected_write [OF _ keeps_call [OF u w]])
    (use gate_Inr [OF u] audit_entry [OF u] in metis)+

lemma protected_member_upsert:
  assumes u: "undisturbed env" and w: "\<And>x. keeps env (\<lambda>b. audit_logs b = audit_logs t) (op x)"
  shows "protected env auth (act, ty) t (member_with allowed auth i t)
     (bindM (require_maintainer_member_role auth i allowed) (\<lambda>_.
     bindM (callM (find_keyed get q)) (\<lambda>_. bindM (callM (find_keyed get' q')) (\<lambda>_.
     bindM (checked v r) (\<lambda>x. bindM (callM (op x)) (\<lambda>y.
     bindM (record_audit_log wl auth act ty k (md y)) (\<lambda>_. retM y)))))))"
  by (rule protected_read [OF keeps_gate(1) [OF u]], rule protected_read [OF keeps_call [OF u keeps_find]],
      rule protected_read [OF keeps_call [OF u keeps_find]], rule protected_read [OF keeps_checked],
      rule protected_write [OF _ keeps_call [OF u w]])
    (use gate_Inr [OF u] audit_then_return [OF u] in metis)+

lemmas catalog_handler_defs = create_service_def update_service_def delete_service_def
  create_package_def update_package_def delete_package_def create_maintainer_def update_maintainer_def
  delete_maintainer_def upsert_maintainer_member_def delete_maintainer_member_def
  require_maintainer_write_access_def require_maintainer_owner_access_def
  ServiceRepository_find_def PackageRepository_find_def MaintainerRepository_find_def UserRepository_find_def

lemma handlers_protected:
  assumes u: "undisturbed env"
  shows "protected env auth (audited_as r) t (permitted auth r t) (handle_catalog wl auth r)"
  by (cases r; simp only: handle_catalog.simps permitted.simps audited_as.simps catalog_handler_defs)
    (intro protected_discard protected_create protected_update protected_delete protected_admin
      protected_admin_delete protected_member_delete protected_member_upsert u keeps_audit_of_writes;
      simp add: on_row_def)+

text \<open>C5: Changing a service or a package needs the role owner or maintainer in the team that has it, and
  in the team that gets it, changing the members of a team needs the role owner in it, and changing a
  team needs an administrator. A request without the permission fails and leaves the database as it
  was; a request that succeeds was permitted and left exactly one entry in the audit log, with its
  action, its kind of resource and its user.\<close>

theorem catalog_changes_are_authorized_and_audited:
  assumes "undisturbed env" and "handle_catalog wl auth r env s = (res, s')"
  shows "(\<not> permitted auth r (tabs s) \<longrightarrow> isl res \<and> tabs s' = tabs s)
    \<and> (\<not> isl res \<longrightarrow> permitted auth r (tabs s) \<and> one_entry auth (audited_as r) (tabs s) (tabs s'))"
  using handlers_protected [OF assms(1), of auth r "tabs s" wl] assms(2) unfolding protected_def by blast

end
