(* ===== verification/Inbox_Properties.thy ===== *)
theory Inbox_Properties
  imports Inbox Catalog_Properties
begin

text \<open>
  The inbox: a search finds exactly the notifications that contain the text, an action changes the state
  of one notification for one user only, and the pages of a list make up the list.
\<close>

section \<open>Literal search\<close>

definition escape_one :: "char \<Rightarrow> string" where
  "escape_one c = (if c \<in> {backslash, CHR ''%'', CHR ''_''} then [backslash, c] else [c])"

lemma escape_like_Cons: "escape_like (c # s) = escape_one c @ escape_like s"
  by (auto simp: escape_like_def escape_one_def backslash_def)

lemma escape_like_Nil: "escape_like [] = []"
  by (simp add: escape_like_def)

lemma like_escape_one:
  "like (escape_one c @ p) t \<longleftrightarrow> (case t of [] \<Rightarrow> False | d # t' \<Rightarrow> d = c \<and> like p t')"
  by (cases t) (auto simp: escape_one_def backslash_def split: list.splits)

lemma like_escape: "like (escape_like s @ p) t \<longleftrightarrow> (\<exists>rest. t = s @ rest \<and> like p rest)"
proof (induction s arbitrary: t)
  case Nil
  then show ?case by (simp add: escape_like_Nil)
next
  case (Cons c s)
  show ?case
    using Cons.IH by (cases t) (auto simp: escape_like_Cons like_escape_one)
qed

lemma like_percent: "like (CHR ''%'' # p) t \<longleftrightarrow> (\<exists>a b. t = a @ b \<and> like p b)"
proof (induction t)
  case Nil
  then show ?case by simp
next
  case (Cons c t)
  have "(\<exists>a b. c # t = a @ b \<and> like p b) \<longleftrightarrow> like p (c # t) \<or> (\<exists>a b. t = a @ b \<and> like p b)"
    by (metis append_Cons append_Nil list.distinct(1) list.inject neq_Nil_conv)
  with Cons show ?case by simp
qed

lemma like_any: "like ''%'' t"
  unfolding like_percent by (rule exI [of _ t]) auto

text \<open>C30: A search of the inbox takes the text literally, wildcards and backslashes included: it matches
  exactly the values that contain the text, up to the case folding of the server (which treats a
  pattern character by character).\<close>

theorem search_is_literal:
  assumes "wl_sql_lower wl (search_pattern s) = search_pattern (wl_sql_lower wl s)"
  shows "ilike wl (search_pattern s) v \<longleftrightarrow> (\<exists>a b. wl_sql_lower wl v = a @ wl_sql_lower wl s @ b)"
proof -
  have "like (search_pattern x) t \<longleftrightarrow> (\<exists>a b. t = a @ x @ b)" for x t
    unfolding search_pattern_def append_Cons append_Nil like_percent like_escape
    by (simp add: like.simps(1) del: like.simps(2)) blast
  then show ?thesis by (simp only: ilike_def assms)
qed

section \<open>Actions on a notification\<close>

text \<open>What an action makes of the receipt: read, dismissed, asleep at a time.\<close>

fun action_effect :: "inbox_action \<Rightarrow> NotificationReceipt option \<Rightarrow> NotificationReceipt option \<Rightarrow> bool" where
  "action_effect MarkRead r r' \<longleftrightarrow> read_by r' \<and> dismissed r' = dismissed r \<and> (\<forall>now. asleep now r' = asleep now r)"
| "action_effect MarkUnread r r' \<longleftrightarrow> \<not> read_by r' \<and> dismissed r' = dismissed r \<and> (\<forall>now. asleep now r' = asleep now r)"
| "action_effect Dismiss r r' \<longleftrightarrow> read_by r' = read_by r \<and> dismissed r' \<and> (\<forall>now. \<not> asleep now r')"
| "action_effect (Snooze u) r r' \<longleftrightarrow> read_by r' = read_by r \<and> \<not> dismissed r' \<and> (\<forall>now. asleep now r' \<longleftrightarrow> now < u)"
| "action_effect Restore r r' \<longleftrightarrow> read_by r' = read_by r \<and> \<not> dismissed r' \<and> (\<forall>now. \<not> asleep now r')"

lemma first_row_other:
  "(\<And>x. p x \<Longrightarrow> \<not> q x) \<Longrightarrow> (\<And>x. p x \<Longrightarrow> \<not> q (f x)) \<Longrightarrow> first_row q (update_rows p f xs) = first_row q xs"
  by (induction xs) (auto simp: first_row_def update_rows_def)

lemma first_row_append_other: "\<not> q x \<Longrightarrow> first_row q (xs @ [x]) = first_row q xs"
  by (induction xs) (auto simp: first_row_def)

abbreviation receipt_at :: "tables \<Rightarrow> i32 \<Rightarrow> i32 \<Rightarrow> NotificationReceipt option" where
  "receipt_at t k v \<equiv> first_row (receipt_for k v) (rows (notification_receipts t))"

lemma upsert_receipt_Inr:
  assumes run: "upsert_receipt i u fresh change env s = (Inr r, s')"
    and same: "\<And>x. receipt_for i u (change x) = receipt_for i u x"
  shows "receipt_at (tabs s') i u = Some r"
    and "case receipt_at (tabs s) i u of Some x \<Rightarrow> r = change x
      | None \<Rightarrow> (nr_read_at r, nr_dismissed_at r, nr_snoozed_until r) = fresh"
    and "\<And>k v. (k, v) \<noteq> (i, u) \<Longrightarrow> receipt_at (tabs s') k v = receipt_at (tabs s) k v"
    and "tabs s' = (tabs s)\<lparr>notification_receipts := notification_receipts (tabs s')\<rparr>"
proof -
  obtain now where ups: "upsert_stmt notification_receipts notification_receipts_update receipt_violation
       (receipt_for i u)
       (\<lambda>k. case fresh of (read_at, dismissed_at, snoozed_until) \<Rightarrow>
          \<lparr>nr_id = k, nr_notification_id = i, nr_user_id = u, nr_read_at = read_at,
           nr_dismissed_at = dismissed_at, nr_snoozed_until = snoozed_until,
           nr_created_at = now, nr_updated_at = now\<rparr>) change env (s\<lparr>tick := Suc (tick s)\<rparr>) = (Inr r, s')"
    using run unfolding upsert_receipt_def bindM_Inr_iff by auto
  have other: "receipt_for i u x \<Longrightarrow> \<not> receipt_for k v x" if "(k, v) \<noteq> (i, u)" for k v x
    using that by (auto simp: receipt_for_def)
  have all: "receipt_at (tabs s') i u = Some r
      \<and> (case receipt_at (tabs s) i u of Some x \<Rightarrow> r = change x
         | None \<Rightarrow> (nr_read_at r, nr_dismissed_at r, nr_snoozed_until r) = fresh)
      \<and> (\<forall>k v. (k, v) \<noteq> (i, u) \<longrightarrow> receipt_at (tabs s') k v = receipt_at (tabs s) k v)
      \<and> tabs s' = (tabs s)\<lparr>notification_receipts := notification_receipts (tabs s')\<rparr>"
  proof (cases "receipt_at (tabs s) i u")
    case None
    then have r: "r = (case fresh of (read_at, dismissed_at, snoozed_until) \<Rightarrow>
          \<lparr>nr_id = seq (notification_receipts (tabs s)), nr_notification_id = i, nr_user_id = u,
           nr_read_at = read_at, nr_dismissed_at = dismissed_at, nr_snoozed_until = snoozed_until,
           nr_created_at = now, nr_updated_at = now\<rparr>)"
      and t: "tabs s' = notification_receipts_update (\<lambda>tb. tb\<lparr>rows := rows tb @ [r], seq := seq tb + 1\<rparr>) (tabs s)"
      using upsert_stmt_Inr [OF ups] by (auto simp:)
    have "receipt_for i u r" by (auto simp: r receipt_for_def split: prod.splits)
    then show ?thesis
      using None other
      by (auto simp: t first_row_append first_row_append_other)
        (auto simp: r split: prod.splits)
  next
    case (Some x)
    then have r: "r = change x"
      and t: "tabs s' = notification_receipts_update (\<lambda>tb. tb\<lparr>rows := update_rows (receipt_for i u) change (rows tb)\<rparr>) (tabs s)"
      using upsert_stmt_Inr [OF ups] by (auto simp:)
    have "receipt_at (tabs s') k v = receipt_at (tabs s) k v" if "(k, v) \<noteq> (i, u)" for k v
      unfolding t using other [OF that] same by (simp add: first_row_other)
    then show ?thesis
      using Some r by (simp add: t first_row_update same)
  qed
  show "receipt_at (tabs s') i u = Some r"
    and "case receipt_at (tabs s) i u of Some x \<Rightarrow> r = change x
      | None \<Rightarrow> (nr_read_at r, nr_dismissed_at r, nr_snoozed_until r) = fresh"
    and "\<And>k v. (k, v) \<noteq> (i, u) \<Longrightarrow> receipt_at (tabs s') k v = receipt_at (tabs s) k v"
    and "tabs s' = (tabs s)\<lparr>notification_receipts := notification_receipts (tabs s')\<rparr>"
    using all by blast+
qed

fun receipt_write :: "inbox_action \<Rightarrow> i32 \<Rightarrow> i32 \<Rightarrow> NotificationReceipt query" where
  "receipt_write MarkRead = NotificationReceiptRepository_mark_read"
| "receipt_write MarkUnread = NotificationReceiptRepository_mark_unread"
| "receipt_write Dismiss = NotificationReceiptRepository_dismiss"
| "receipt_write (Snooze z) = (\<lambda>i u. NotificationReceiptRepository_snooze i u z)"
| "receipt_write Restore = NotificationReceiptRepository_restore"

lemmas receipt_write_defs = NotificationReceiptRepository_mark_read_def
  NotificationReceiptRepository_mark_unread_def NotificationReceiptRepository_dismiss_def
  NotificationReceiptRepository_snooze_def NotificationReceiptRepository_restore_def

text \<open>Every action is an upsert: the columns of a new receipt and the change of an old one.\<close>

fun receipt_fresh :: "utc \<Rightarrow> inbox_action \<Rightarrow> utc option \<times> utc option \<times> utc option" where
  "receipt_fresh now MarkRead = (Some now, None, None)"
| "receipt_fresh now Dismiss = (None, Some now, None)"
| "receipt_fresh now (Snooze z) = (None, None, Some z)"
| "receipt_fresh now _ = (None, None, None)"

fun receipt_change :: "utc \<Rightarrow> inbox_action \<Rightarrow> NotificationReceipt \<Rightarrow> NotificationReceipt" where
  "receipt_change now MarkRead = (\<lambda>r. r\<lparr>nr_read_at := Some now, nr_updated_at := now\<rparr>)"
| "receipt_change now MarkUnread = (\<lambda>r. r\<lparr>nr_read_at := None, nr_updated_at := now\<rparr>)"
| "receipt_change now Dismiss = (\<lambda>r. r\<lparr>nr_dismissed_at := Some now, nr_snoozed_until := None, nr_updated_at := now\<rparr>)"
| "receipt_change now (Snooze z) = (\<lambda>r. r\<lparr>nr_dismissed_at := None, nr_snoozed_until := Some z, nr_updated_at := now\<rparr>)"
| "receipt_change now Restore = (\<lambda>r. r\<lparr>nr_dismissed_at := None, nr_snoozed_until := None, nr_updated_at := now\<rparr>)"

lemma receipt_write_shape:
  "receipt_write a i u = bindM utc_now (\<lambda>now. upsert_receipt i u (receipt_fresh now a) (receipt_change now a))"
  by (cases a) (simp_all add: receipt_write_defs)

lemma receipt_change_key: "receipt_for i u (receipt_change now a x) = receipt_for i u x"
  by (cases a) (simp_all add: receipt_for_def)

lemma receipt_effect:
  "action_effect a (Some x) (Some (receipt_change now a x))"
  "(nr_read_at q, nr_dismissed_at q, nr_snoozed_until q) = receipt_fresh now a \<Longrightarrow> action_effect a None (Some q)"
  by (cases a; simp add: read_by_def dismissed_def asleep_def)+

lemma receipt_writes:
  assumes "receipt_write a i u env s = (Inr r, s')"
  shows "receipt_at (tabs s') i u = Some r \<and> action_effect a (receipt_at (tabs s) i u) (Some r)
    \<and> (\<forall>k v. (k, v) \<noteq> (i, u) \<longrightarrow> receipt_at (tabs s') k v = receipt_at (tabs s) k v)
    \<and> tabs s' = (tabs s)\<lparr>notification_receipts := notification_receipts (tabs s')\<rparr>"
proof -
  obtain now s0 where run: "upsert_receipt i u (receipt_fresh now a) (receipt_change now a) env s0 = (Inr r, s')"
    and s0: "tabs s0 = tabs s"
    using assms unfolding receipt_write_shape bindM_Inr_iff by auto
  note w = upsert_receipt_Inr [OF run receipt_change_key, unfolded s0]
  have "action_effect a (receipt_at (tabs s) i u) (Some r)"
    using w(2) receipt_effect by (cases "receipt_at (tabs s) i u") auto
  with w(1,3,4) show ?thesis by blast
qed

lemma notifications_receipts_update:
  "notifications (notification_receipts_update f t) = notifications t"
  by simp

lemma handle_inbox_Inr:
  assumes "handle_inbox wl auth i a env s = (Inr view, s')"
  obtains n s1 s2 act r s3 where "find_accessible_notification auth i env s = (Inr n, s1)"
    and "tabs s2 = tabs s1" and "callM (receipt_write a i (us_id (au_user auth))) env s2 = (Inr r, s3)"
    and "record_receipt_audit wl auth act i r env s3 = (Inr (), s')"
proof (cases "\<exists>z. a = Snooze z")
  case True
  then obtain z where a: "a = Snooze z" by blast
  obtain n s1 r s3 where "find_accessible_notification auth i env s = (Inr n, s1)"
    and "callM (receipt_write a i (us_id (au_user auth))) env (s1\<lparr>tick := Suc (tick s1)\<rparr>) = (Inr r, s3)"
    and "record_receipt_audit wl auth ''snooze'' i r env s3 = (Inr (), s')"
    using assms unfolding a by (auto simp: snooze_notification_def bindM_Inr_iff checked_def resultM_def
        validate_request_def Let_def split: if_splits)
  then show ?thesis using that [of n s1 "s1\<lparr>tick := Suc (tick s1)\<rparr>"] by auto
next
  case False
  then obtain act where "receipt_action wl auth i act (receipt_write a) env s = (Inr view, s')"
    using assms by (cases a) (auto simp: mark_notification_read_def mark_notification_unread_def
        dismiss_notification_def restore_notification_def)
  then obtain n s1 r s3 where "find_accessible_notification auth i env s = (Inr n, s1)"
    and "callM (receipt_write a i (us_id (au_user auth))) env s1 = (Inr r, s3)"
    and "record_receipt_audit wl auth act i r env s3 = (Inr (), s')"
    unfolding receipt_action_def bindM_Inr_iff by auto
  then show ?thesis using that [of n s1 s1] by blast
qed

definition scope_of :: "AuthenticatedUser \<Rightarrow> tables \<Rightarrow> RecordAccessScope" where
  "scope_of auth t = \<lparr>as_user_id = us_id (au_user auth), as_is_admin = is_admin auth,
     as_maintainer_ids = map mm_maintainer_id (sort_key mm_maintainer_id
       (filter (\<lambda>m. mm_user_id m = us_id (au_user auth)) (rows (maintainer_members t))))\<rparr>"

lemma scope_Inr:
  assumes "undisturbed env" and "record_access_scope auth env s = (Inr a, s')"
  shows "a = scope_of auth (tabs s) \<and> tabs s' = tabs s"
proof -
  obtain ms where m: "stepM (liftM (MaintainerMemberRepository_find_by_user (us_id (au_user auth)))) env s = (Inr ms, s')"
    and a: "a = \<lparr>as_user_id = us_id (au_user auth), as_is_admin = is_admin auth,
        as_maintainer_ids = map mm_maintainer_id ms\<rparr>"
    using assms(2) unfolding record_access_scope_def bindM_Inr_iff by auto
  obtain s1 where "MaintainerMemberRepository_find_by_user (us_id (au_user auth)) env s = (Inr ms, s1)"
    and "tabs s' = tabs s1" by (rule step_lift_Inr [OF assms(1) m])
  then show ?thesis
    using select_stmt_Inr by (fastforce simp: MaintainerMemberRepository_find_by_user_def a scope_of_def)
qed

lemma accessible_Inr:
  assumes "undisturbed env" and "find_accessible_notification auth i env s = (Inr n, s')"
  shows "first_row (\<lambda>n. nt_id n = i) (rows (notifications (tabs s))) = Some n
    \<and> allows (scope_of auth (tabs s)) (nt_owner_user_id n) (nt_maintainer_id n) \<and> tabs s' = tabs s"
proof -
  obtain n' s1 a where f: "callM (NotificationRepository_find i) env s = (Inr n', s1)"
    and sc: "record_access_scope auth env s1 = (Inr a, s')"
    and "n' = n" "allows a (nt_owner_user_id n) (nt_maintainer_id n)"
    using assms(2) unfolding find_accessible_notification_def bindM_Inr_iff by (auto split: if_splits)
  moreover have "tabs s1 = tabs s"
    using keepsD [OF keeps_call [OF assms(1) keeps_find, where I = "\<lambda>t. t = tabs s"]
        refl f [unfolded NotificationRepository_find_def]] .
  ultimately show ?thesis
    using call_find_Inr [OF assms(1) f [unfolded NotificationRepository_find_def]] scope_Inr [OF assms(1) sc]
    by auto
qed

text \<open>C18: An action on a notification (read, unread, dismiss, snooze, restore) succeeds only for a
  notification the user may see, and has exactly its effect on that notification for that user: the
  state of every other notification, and of every notification for every other user, stays as it was,
  and so do the notifications themselves.\<close>

theorem inbox_actions_are_private:
  assumes env: "undisturbed env" and run: "handle_inbox wl auth i a env s = (Inr view, s')"
  shows "\<exists>n. first_row (\<lambda>n. nt_id n = i) (rows (notifications (tabs s))) = Some n
    \<and> allows (scope_of auth (tabs s)) (nt_owner_user_id n) (nt_maintainer_id n)
    \<and> action_effect a (receipt_of (tabs s) (us_id (au_user auth)) n) (receipt_of (tabs s') (us_id (au_user auth)) n)
    \<and> notifications (tabs s') = notifications (tabs s)
    \<and> (\<forall>v m. nt_id m \<noteq> i \<or> v \<noteq> us_id (au_user auth) \<longrightarrow> receipt_of (tabs s') v m = receipt_of (tabs s) v m)"
proof -
  let ?u = "us_id (au_user auth)"
  obtain n s1 s2 act r s3 where acc: "find_accessible_notification auth i env s = (Inr n, s1)"
    and s2: "tabs s2 = tabs s1" and call: "callM (receipt_write a i ?u) env s2 = (Inr r, s3)"
    and audit: "record_receipt_audit wl auth act i r env s3 = (Inr (), s')"
    by (rule handle_inbox_Inr [OF run])
  obtain s4 where wr: "receipt_write a i ?u env s2 = (Inr r, s4)" and s4: "tabs s3 = tabs s4"
    by (rule step_lift_Inr [OF env call [unfolded callM_def]])
  have n: "first_row (\<lambda>n. nt_id n = i) (rows (notifications (tabs s))) = Some n"
    "allows (scope_of auth (tabs s)) (nt_owner_user_id n) (nt_maintainer_id n)" and s1: "tabs s1 = tabs s"
    using accessible_Inr [OF env acc] by simp_all
  then have i: "nt_id n = i" by (auto dest: first_row_Some)
  note eff = receipt_writes [OF wr, unfolded s2 s1, folded s4]
  have k: "keeps env (\<lambda>t. notifications t = notifications (tabs s3) \<and> notification_receipts t = notification_receipts (tabs s3))
      (record_receipt_audit wl auth act i r)"
    unfolding record_receipt_audit_def record_audit_log_def record_audit_entry_def AuditLogRepository_create_def
    by (intro keeps_rule env keeps_insert_stmt) simp
  have s': "notifications (tabs s') = notifications (tabs s3)"
    "notification_receipts (tabs s') = notification_receipts (tabs s3)"
    using keepsD [OF k _ audit] by simp_all
  have s3: "notifications (tabs s3) = notifications (tabs s)" using eff by (metis notifications_receipts_update)
  show ?thesis
    using n i eff s' s3 unfolding receipt_of_def by auto
qed

end
