(* ===== verification/Secret_Properties.thy ===== *)
theory Secret_Properties
  imports Secrets
begin

text \<open>
  What \<^verbatim>\<open>src/src/crypto.rs\<close> guarantees of the configurations it stores and shows: secrets are sealed at
  rest and come back on decryption, redaction shows nothing of them, a redacted document sent back
  restores the stored one, and snapshots are bounded. A lawful instance of the third-party functions
  closes the theory.
\<close>

text \<open>serde_json reads back what it printed: \<open>stored\<close> is the text of at most one document.\<close>

definition reads_back :: "crypto \<Rightarrow> string \<Rightarrow> bool" where
  "reads_back cx stored \<longleftrightarrow> (\<forall>d. cx_print cx d = Inr stored \<longrightarrow> cx_parse cx stored = Inr d)"

lemma encrypt_config_Inr:
  assumes "encrypt_connector_config cx config n = (Inr stored, n')"
  obtains v v' where "cx_parse cx config = Inr v" and "encrypt_json_secrets cx v n = (Inr v', n')"
    and "cx_print cx v' = Inr stored"
  using assms unfolding encrypt_connector_config_def
  by (auto split: sum.splits prod.splits simp: map_sum_def)

text \<open>The values under secret keys, at any depth, in the order of the document.\<close>

fun secrets :: "json \<Rightarrow> json list" where
  "secrets (JObject ms) = concat (map (\<lambda>(k, v). if is_secret_key k then [v] else secrets v) ms)"
| "secrets (JArray xs) = concat (map secrets xs)"
| "secrets _ = []"

text \<open>How secrets are stored: a string that is neither empty nor marked as encrypted is replaced by the
  marker, the nonce and the AES-GCM ciphertext of that string under the configured key, the nonce being
  the first twelve bytes of the next UUID; the empty string, a string that already starts with the marker,
  and a value that is no string stay as they are. The numbers are those of the next UUID before and after.\<close>

fun stored_secrets :: "crypto \<Rightarrow> nat \<Rightarrow> json list \<Rightarrow> nat \<Rightarrow> json list \<Rightarrow> bool" where
  "stored_secrets cx n [] n' ys \<longleftrightarrow> ys = [] \<and> n' = n"
| "stored_secrets cx n (JString s # xs) n' ys \<longleftrightarrow>
     (if s = [] \<or> starts_with ''enc:v1:'' s then \<exists>ys'. ys = JString s # ys' \<and> stored_secrets cx n xs n' ys'
      else \<exists>key c ys'. connector_secret_key cx = Inr key
        \<and> cx_seal cx (cx_sha256 cx key) (take 12 (cx_uuid cx n)) s = Some c
        \<and> ys = JString (''enc:v1:'' @ cx_b64 cx (take 12 (cx_uuid cx n)) @ '':'' @ cx_b64 cx c) # ys'
        \<and> stored_secrets cx (Suc n) xs n' ys')"
| "stored_secrets cx n (x # xs) n' ys \<longleftrightarrow> (\<exists>ys'. ys = x # ys' \<and> stored_secrets cx n xs n' ys')"

lemma stored_secrets_append:
  assumes "stored_secrets cx n xs m ys" and "stored_secrets cx m xs' n' ys'"
  shows "stored_secrets cx n (xs @ xs') n' (ys @ ys')"
  using assms by (induction cx n xs m ys rule: stored_secrets.induct) (auto split: if_splits)

lemmas stored_secrets_Cons = stored_secrets_append [where xs = "[v]" and ys = "[v']" for v v', unfolded append.simps]

lemma encrypt_value_stored:
  assumes "encrypt_value cx v n = (Inr v', n')"
  shows "stored_secrets cx n [v] n' [v']"
  using assms
  by (auto simp: encrypt_value_def encrypt_secret_def cipher_def ENCRYPTED_PREFIX_def Let_def
      split: json.splits if_splits sum.splits option.splits prod.splits)

lemma encrypt_stores:
  fixes b :: json
  shows "encrypt_json_secrets cx v n = (Inr v', n') \<Longrightarrow>
     stored_secrets cx n (secrets v) n' (secrets v') \<and> replace_secrets (\<lambda>_. b) v' = replace_secrets (\<lambda>_. b) v"
  and "encrypt_members cx ms n = (Inr ms', n') \<Longrightarrow>
     stored_secrets cx n (secrets (JObject ms)) n' (secrets (JObject ms'))
     \<and> replace_secrets (\<lambda>_. b) (JObject ms') = replace_secrets (\<lambda>_. b) (JObject ms)"
  and "encrypt_items cx xs n = (Inr xs', n') \<Longrightarrow>
     stored_secrets cx n (secrets (JArray xs)) n' (secrets (JArray xs'))
     \<and> replace_secrets (\<lambda>_. b) (JArray xs') = replace_secrets (\<lambda>_. b) (JArray xs)"
proof (induction cx v n and cx ms n and cx xs n arbitrary: v' n' and ms' n' and xs' n'
    rule: encrypt_json_secrets_encrypt_members_encrypt_items.induct)
  case (5 cx k v ms n)
  obtain v1 n1 ms1 where v1: "(if is_secret_key k then encrypt_value cx v n
      else encrypt_json_secrets cx v n) = (Inr v1, n1)"
    and ms1: "encrypt_members cx ms n1 = (Inr ms1, n')" and ms': "ms' = (k, v1) # ms1"
    using 5(3) by (auto simp: apfst_map_sum_Inr split: prod.splits sum.splits)
  have "stored_secrets cx n (if is_secret_key k then [v] else secrets v) n1 (if is_secret_key k then [v1] else secrets v1)
      \<and> (is_secret_key k \<or> replace_secrets (\<lambda>_. b) v1 = replace_secrets (\<lambda>_. b) v)"
    using v1 5(1) encrypt_value_stored by (cases "is_secret_key k") simp_all
  with 5(2) [OF v1 [symmetric] refl ms1] show ?case
    by (auto simp: ms' intro: stored_secrets_append stored_secrets_Cons)
next
  case (7 cx x xs n)
  obtain x1 n1 xs1 where x1: "encrypt_json_secrets cx x n = (Inr x1, n1)"
    and xs1: "encrypt_items cx xs n1 = (Inr xs1, n')" and xs': "xs' = x1 # xs1"
    using 7(3) by (auto simp: apfst_map_sum_Inr split: prod.splits sum.splits)
  from 7(1) [OF x1] 7(2) [OF x1 [symmetric] refl xs1] show ?case
    by (auto simp: xs' intro: stored_secrets_append)
qed (auto simp: apfst_map_sum_Inr)


text \<open>C24: Decrypting a stored configuration gives back the document that was encrypted, whatever
  nonces were drawn, provided its secrets were in clear text.\<close>

theorem config_encryption_round_trip:
  assumes "crypto_laws cx" and "cx_parse cx config = Inr v" and "all_secrets (plain cx) v"
    and "encrypt_connector_config cx config n = (Inr stored, n')" and "reads_back cx stored"
    and "cx_print cx v = Inr text"
  shows "decrypt_connector_config cx stored = Inr text"
proof -
  obtain w v' where w: "cx_parse cx config = Inr w" and enc: "encrypt_json_secrets cx w n = (Inr v', n')"
    and pr: "cx_print cx v' = Inr stored"
    using assms(4) by (rule encrypt_config_Inr)
  have "decrypt_json_secrets cx v' = Inr v"
    using decrypt_encrypt(1) [OF assms(1,3)] enc w assms(2) by simp
  moreover have "cx_parse cx stored = Inr v'" using pr assms(5) by (simp add: reads_back_def)
  ultimately show ?thesis using assms(6) by (simp add: decrypt_connector_config_def)
qed

text \<open>Encrypting a stored configuration again changes nothing: no secret is encrypted twice and no
  nonce is drawn.\<close>

theorem encryption_is_idempotent:
  assumes "encrypt_connector_config cx config n = (Inr stored, n')" and "reads_back cx stored"
  shows "encrypt_connector_config cx stored m = (Inr stored, m)"
proof -
  obtain v v' where enc: "encrypt_json_secrets cx v n = (Inr v', n')" and pr: "cx_print cx v' = Inr stored"
    using assms(1) by (rule encrypt_config_Inr)
  have "encrypt_json_secrets cx v' m = (Inr v', m)"
    by (rule encrypt_sealed(1) [OF encrypt_seals(1) [OF enc]])
  moreover have "cx_parse cx stored = Inr v'" using pr assms(2) by (simp add: reads_back_def)
  ultimately show ?thesis using pr by (simp add: encrypt_connector_config_def)
qed

text \<open>C25: What a client sees of a configuration does not depend on its secrets: two configurations that
  differ only in the values under secret keys are shown as the same text, in which every secret is
  the marker.\<close>

theorem redaction_hides_secrets:
  assumes "cx_parse cx config = Inr v" and "cx_parse cx other = Inr (replace_secrets f v)"
    and "cx_print cx (redact_json_secrets v) = Inr shown"
  shows "redact_connector_config cx config = shown \<and> redact_connector_config cx other = shown
    \<and> all_secrets (\<lambda>x. x = JString REDACTED_SECRET) (redact_json_secrets v)"
  using assms redact_all by (simp add: redact_connector_config_def redact_replace)

text \<open>C26: Saving what was shown restores what was stored: a redacted configuration sent back unchanged
  is completed with the stored secrets to the stored document.\<close>

theorem saving_a_redacted_config_keeps_secrets:
  assumes "cx_parse cx stored = Inr v" and "wf_json v" and "cx_print cx v = Inr stored"
    and "cx_print cx (redact_json_secrets v) = Inr shown" and "reads_back cx shown"
  shows "preserve_redacted_connector_config cx (redact_connector_config cx stored) (Some stored)
    = Inr stored"
proof -
  have "redact_connector_config cx stored = shown"
    using assms(1,4) by (simp add: redact_connector_config_def)
  moreover have "cx_parse cx shown = Inr (redact_json_secrets v)"
    using assms(4,5) by (simp add: reads_back_def)
  ultimately show ?thesis
    using assms(1-3) preserve_redacted by (simp add: preserve_redacted_connector_config_def)
qed

text \<open>The snapshot kept of an imported item is at most \<open>max_chars\<close> characters long, unless even a
  preview of one character does not fit; and it shows the item only in redacted form: items that
  differ in their secrets have the same snapshot.\<close>

theorem snapshot_is_bounded_and_redacted:
  assumes "sanitized_json_snapshot cx v max_chars = Some w"
  shows "(char_count w \<le> max_chars
      \<or> (\<exists>s. cx_print cx (redact_json_secrets v) = Inr s
            \<and> wrap_preview cx max_chars (take_chars 1 s) = Some w))
    \<and> sanitized_json_snapshot cx (replace_secrets f v) max_chars = Some w"
proof
  obtain s where s: "cx_print cx (redact_json_secrets v) = Inr s"
    using assms by (auto simp: sanitized_json_snapshot_def split: sum.splits)
  show "char_count w \<le> max_chars \<or> (\<exists>s. cx_print cx (redact_json_secrets v) = Inr s
      \<and> wrap_preview cx max_chars (take_chars 1 s) = Some w)"
  proof (cases "char_count s \<le> max_chars")
    case True
    then show ?thesis using assms s by (simp add: sanitized_json_snapshot_def)
  next
    case False
    then have "shrink_preview cx max_chars s (max (max_chars - 128) 1) = Some w"
      using assms s by (simp add: sanitized_json_snapshot_def del: shrink_preview.simps)
    from shrink_preview_bound [OF this] s show ?thesis by auto
  qed
  show "sanitized_json_snapshot cx (replace_secrets f v) max_chars = Some w"
    using assms by (simp add: sanitized_json_snapshot_def redact_replace)
qed

section \<open>A lawful instance\<close>

text \<open>Two letters per byte instead of base64, a cipher that pads with the nonce, and a printer for
  the documents of the example.\<close>

definition hex_char :: "char \<Rightarrow> string" where
  "hex_char c = [char_of (97 + of_char c div 16 :: nat), char_of (97 + of_char c mod 16 :: nat)]"

fun unhex :: "string \<Rightarrow> string option" where
  "unhex [] = Some []"
| "unhex [_] = None"
| "unhex (a # b # xs) =
     map_option (Cons (char_of ((of_char a - 97) * 16 + (of_char b - 97) :: nat))) (unhex xs)"

lemma of_char_bound: "(of_char c :: nat) < 256" "(of_char c :: nat) div 16 < 16"
  using nat_of_char_less_256 [of c] by (simp_all add: less_mult_imp_div_less)

lemma unhex_hex: "unhex (concat (map hex_char xs)) = Some xs"
proof (induction xs)
  case (Cons c xs)
  have "(97 + of_char c div 16 :: nat) < 256" "(97 + of_char c mod 16 :: nat) < 256"
    using of_char_bound [of c] mod_less_divisor [of 16 "of_char c :: nat"] by linarith+
  with Cons show ?case by (simp add: hex_char_def)
qed simp

lemma letter_no_colon: "CHR '':'' \<noteq> char_of (97 + n)" if "n < 16" for n :: nat
proof
  assume e: "CHR '':'' = char_of (97 + n)"
  have "(of_char CHR '':'' :: nat) = 97 + n" unfolding e using that by simp
  then show False by simp
qed

lemma hex_no_colon: "CHR '':'' \<notin> set (concat (map hex_char xs))"
proof -
  have "CHR '':'' \<notin> set (hex_char c)" for c
    using letter_no_colon [OF of_char_bound(2) [of c]] letter_no_colon [of "of_char c mod 16"]
    unfolding hex_char_def by (simp del: char_of_eq_iff)
  then show ?thesis by auto
qed

definition demo_secret :: json where
  "demo_secret = JObject [(''token'', JString ''s3cret''), (''url'', JString ''https://erp'')]"

definition demo_sealed :: json where
  "demo_sealed = JObject [(''token'', JString (ENCRYPTED_PREFIX
     @ concat (map hex_char ''0123456789ab'') @ '':'' @ concat (map hex_char ''0123456789abs3cret''))),
     (''url'', JString ''https://erp'')]"

definition demo_parse :: "string \<Rightarrow> string + json" where
  "demo_parse s = (if s = ''clear'' then Inr demo_secret else if s = ''sealed'' then Inr demo_sealed
     else if s = ''shown'' then Inr (redact_json_secrets demo_secret)
     else if s = ''other'' then Inr (replace_secrets (\<lambda>_. JNull) demo_secret) else Inl ''unexpected token'')"

definition demo_print :: "json \<Rightarrow> string + string" where
  "demo_print v = (if v = demo_secret then Inr ''clear'' else if v = demo_sealed then Inr ''sealed''
     else if v = redact_json_secrets demo_secret then Inr ''shown''
     else if v = replace_secrets (\<lambda>_. JNull) demo_secret then Inr ''other'' else Inr ''{}'')"

definition demo_crypto :: crypto where
  "demo_crypto = \<lparr>cx_parse = demo_parse, cx_print = demo_print,
     cx_b64 = (\<lambda>x. concat (map hex_char x)), cx_unb64 = unhex, cx_sha256 = id,
     cx_seal = (\<lambda>k n p. Some (n @ p)), cx_open = (\<lambda>k n c. strip_prefix n c),
     cx_uuid = (\<lambda>n. ''0123456789abcdef''), cx_utf8 = (\<lambda>_. True), cx_secret_key_var = None,
     cx_app_env_var = None\<rparr>"

lemma demo_crypto_lawful: "crypto_laws demo_crypto"
  by (simp add: crypto_laws_def demo_crypto_def unhex_hex hex_no_colon strip_prefix_def
      del: set_concat set_map)

lemma demo_reads_back: "reads_back demo_crypto ''sealed''" "reads_back demo_crypto ''shown''"
  by (simp_all add: reads_back_def demo_crypto_def demo_print_def demo_parse_def)

lemma demo_encrypts: "encrypt_connector_config demo_crypto ''clear'' 0 = (Inr ''sealed'', 1)"
  by code_simp


theorem config_encryption_round_trip_witness:
  "decrypt_connector_config demo_crypto ''sealed'' = Inr ''clear''"
proof (rule config_encryption_round_trip [OF demo_crypto_lawful _ _ demo_encrypts demo_reads_back(1)])
  show "cx_parse demo_crypto ''clear'' = Inr demo_secret" by code_simp
  show "all_secrets (plain demo_crypto) demo_secret" by code_simp
  show "cx_print demo_crypto demo_secret = Inr ''clear''" by code_simp
qed

theorem encryption_is_idempotent_witness:
  "encrypt_connector_config demo_crypto ''sealed'' 7 = (Inr ''sealed'', 7)"
  using encryption_is_idempotent [OF demo_encrypts demo_reads_back(1)] .

theorem redaction_hides_secrets_witness:
  "redact_connector_config demo_crypto ''clear'' = ''shown''
   \<and> redact_connector_config demo_crypto ''other'' = ''shown''"
proof -
  have "cx_parse demo_crypto ''clear'' = Inr demo_secret"
    and "cx_parse demo_crypto ''other'' = Inr (replace_secrets (\<lambda>_. JNull) demo_secret)"
    and "cx_print demo_crypto (redact_json_secrets demo_secret) = Inr ''shown''" by code_simp+
  from redaction_hides_secrets [OF this] show ?thesis by blast
qed

theorem saving_a_redacted_config_keeps_secrets_witness:
  "preserve_redacted_connector_config demo_crypto (redact_connector_config demo_crypto ''sealed'')
     (Some ''sealed'') = Inr ''sealed''"
proof (rule saving_a_redacted_config_keeps_secrets [OF _ _ _ _ demo_reads_back(2)])
  show "cx_parse demo_crypto ''sealed'' = Inr demo_sealed" by code_simp
  show "wf_json demo_sealed" by code_simp
  show "cx_print demo_crypto demo_sealed = Inr ''sealed''" by code_simp
  show "cx_print demo_crypto (redact_json_secrets demo_sealed) = Inr ''shown''" by code_simp
qed

theorem snapshot_is_bounded_and_redacted_witness:
  "sanitized_json_snapshot demo_crypto (replace_secrets (\<lambda>_. JNull) demo_secret) 8 = Some ''shown''"
proof -
  have "sanitized_json_snapshot demo_crypto demo_secret 8 = Some ''shown''" by code_simp
  from snapshot_is_bounded_and_redacted [OF this] show ?thesis by blast
qed

end
