(* ===== verification/Route_Properties.thy ===== *)
theory Route_Properties
  imports Connector_Routes Worker_Properties Inbox_Properties Secret_Properties
begin

text \<open>
  The administration of connectors: every change needs an administrator and leaves one entry in the audit
  log, also when the request executes a whole import; a configuration that is saved is sealed, is shown
  without its secrets, and has a schedule the scheduler can read.
\<close>

section \<open>One entry in the audit log\<close>

text \<open>\<open>logs_once\<close>: a successful computation appended exactly one entry, of the given kind.\<close>

definition logs_once :: "env \<Rightarrow> AuthenticatedUser \<Rightarrow> string \<times> string \<Rightarrow> 'a api \<Rightarrow> bool" where
  "logs_once env auth a m \<longleftrightarrow> (\<forall>s y s'. m env s = (Inr y, s') \<longrightarrow> one_entry auth a (tabs s) (tabs s'))"

named_theorems log_rule \<open>computations that write at most one audit entry\<close>

abbreviation unlogged :: "env \<Rightarrow> ('e, 'a) dbm \<Rightarrow> bool" where
  "unlogged env m \<equiv> \<forall>x. keeps env (\<lambda>t. audit_logs t = x) m"

lemma logs_bind [log_rule]:
  assumes "unlogged env m" and "\<And>x. logs_once env auth a (f x)"
  shows "logs_once env auth a (bindM m f)"
  unfolding logs_once_def
proof (intro allI impI)
  fix s y s' assume "bindM m f env s = (Inr y, s')"
  then obtain x s1 where m: "m env s = (Inr x, s1)" and f: "f x env s1 = (Inr y, s')" unfolding bindM_Inr_iff by blast
  have "audit_logs (tabs s1) = audit_logs (tabs s)"
    using assms(1) m keepsD [of env "\<lambda>t. audit_logs t = audit_logs (tabs s)" m s] by blast
  moreover have "one_entry auth a (tabs s1) (tabs s')" using assms(2) f unfolding logs_once_def by blast
  ultimately show "one_entry auth a (tabs s) (tabs s')" by (simp add: one_entry_def)
qed

lemma logs_checked: "logs_once env auth a (f r) \<Longrightarrow> logs_once env auth a (bindM (checked v r) f)"
  unfolding logs_once_def bindM_Inr_iff checked_def
  by (auto simp: resultM_def validate_request_def Let_def split: if_splits)

lemma logs_throw [log_rule]: "logs_once env auth a (throwM e)"
  by (simp add: logs_once_def)

lemma logs_cases [log_rule]:
  "(b \<Longrightarrow> logs_once env auth a m) \<Longrightarrow> (\<not> b \<Longrightarrow> logs_once env auth a n) \<Longrightarrow> logs_once env auth a (if b then m else n)"
  "logs_once env auth a m \<Longrightarrow> (\<And>x. logs_once env auth a (f x)) \<Longrightarrow>
     logs_once env auth a (case r of None \<Rightarrow> m | Some x \<Rightarrow> f x)"
  by (simp, cases r, simp_all)

lemma logs_choice:
  "(b \<Longrightarrow> logs_once env auth (c, ty) m) \<Longrightarrow> (\<not> b \<Longrightarrow> logs_once env auth (d, ty) n) \<Longrightarrow>
   logs_once env auth (if b then c else d, ty) (if b then m else n)"
  by simp

lemma logs_entry:
  assumes "undisturbed env"
  shows "logs_once env auth (act, ty) (record_audit_entry wl auth act ty i md)"
    and "logs_once env auth (act, ty) (bindM (record_audit_entry wl auth act ty i md) (\<lambda>_. retM y))"
    and "logs_once env auth (act, ty) (bindM (record_audit_log wl auth act ty j md) (\<lambda>_. retM y))"
  using audit_entry_of [OF assms] audit_then_return [OF assms]
  unfolding logs_once_def bindM_Inr_iff by (blast, fastforce, (fastforce simp: bindM_Inr_iff))

lemma logs_discard: "logs_once env auth a m \<Longrightarrow> logs_once env auth a (discard m)"
  unfolding logs_once_def discard_def bindM_Inr_iff by auto

lemma protected_by_admin:
  assumes "logs_once env auth a m"
  shows "protected env auth a t (is_admin auth) (bindM (require_admin auth) (\<lambda>_. m))"
  using assms unfolding protected_def logs_once_def
  by (auto simp: require_admin_def bindM_def isl_def split: sum.splits if_splits) (metis sum.exhaust)+


section \<open>Everything else writes none\<close>

definition log_free :: "(('r table \<Rightarrow> 'r table) \<Rightarrow> tables \<Rightarrow> tables) \<Rightarrow> bool" where
  "log_free upd \<longleftrightarrow> (\<forall>f t. audit_logs (upd f t) = audit_logs t)"

lemma log_free_tables [log_rule]:
  "log_free connectors_update" "log_free connector_configs_update" "log_free connector_runs_update"
  "log_free connector_run_items_update" "log_free connector_run_item_errors_update"
  "log_free calendar_events_update" "log_free work_cards_update" "log_free notifications_update"
  "log_free services_update" "log_free service_health_checks_update"
  by (simp_all add: log_free_def)

lemma unlogged_stmts [log_rule]:
  "log_free u \<Longrightarrow> keeps env (\<lambda>t. audit_logs t = x) (insert_stmt g u k mk)"
  "log_free u \<Longrightarrow> keeps env (\<lambda>t. audit_logs t = x) (update_stmt g u k p h)"
  "log_free u \<Longrightarrow> keeps env (\<lambda>t. audit_logs t = x) (upsert_stmt g u k c mk h)"
  "log_free u \<Longrightarrow> keeps env (\<lambda>t. audit_logs t = x) (stmt (insert_rows g u k mks))"
  unfolding log_free_def
  by (auto intro!: keeps_insert_stmt keeps_update_stmt keeps_upsert_stmt keeps_insert_rows)

lemma unlogged_rows [log_rule]:
  "log_free u \<Longrightarrow> keeps env (\<lambda>t. audit_logs t = x) (create_row g u k mk)"
  "log_free u \<Longrightarrow> keeps env (\<lambda>t. audit_logs t = x) (update_row g u k rid cre mk i)"
  "log_free u \<Longrightarrow> keeps env (\<lambda>t. audit_logs t = x) (archive_rows g u k old arch)"
  unfolding create_row_def update_row_def archive_rows_def comp_def
  by (intro keeps_rule log_rule; assumption)+

lemma unlogged_repositories [log_rule]:
  "keeps env (\<lambda>t. audit_logs t = x) (ConnectorRunRepository_create_if_no_pending n)"
  "keeps env (\<lambda>t. audit_logs t = x) (ConnectorRunRepository_create_retry i n)"
  "keeps env (\<lambda>t. audit_logs t = x) (ConnectorRunRepository_finalize_if_active i w st)"
  "keeps env (\<lambda>t. audit_logs t = x) (ConnectorRunRepository_mark_cancelled_if_requested i w)"
  "keeps env (\<lambda>t. audit_logs t = x) (ConnectorRunRepository_request_cancel i)"
  "keeps env (\<lambda>t. audit_logs t = x) (ConnectorRepository_find_or_create_default source kind)"
  "keeps env (\<lambda>t. audit_logs t = x) (ConnectorRepository_touch_run_state source kind status at)"
  "keeps env (\<lambda>t. audit_logs t = x) (ConnectorConfigRepository_update_config source config)"
  "keeps env (\<lambda>t. audit_logs t = x) (ConnectorConfigRepository_upsert_by_source source cu)"
  "keeps env (\<lambda>t. audit_logs t = x) (ConnectorRunItemErrorRepository_create_many es)"
  "keeps env (\<lambda>t. audit_logs t = x) (ConnectorRunItemRepository_create_many is)"
  unfolding ConnectorRunRepository_create_if_no_pending_def ConnectorRunRepository_find_def
    ConnectorRunRepository_create_retry_def insert_unless_pending_def lock_connector_def
    ConnectorRunRepository_has_pending_def insert_run_def ConnectorRepository_find_by_source_def
    update_runs_def ConnectorRunRepository_finalize_if_active_def
    ConnectorRunRepository_mark_cancelled_if_requested_def ConnectorRunRepository_request_cancel_def
    ConnectorRepository_find_or_create_default_def ConnectorRepository_touch_run_state_def
    ConnectorConfigRepository_update_config_def ConnectorConfigRepository_upsert_by_source_def
    ConnectorRunItemErrorRepository_create_many_def ConnectorRunItemRepository_create_many_def comp_def Let_def
  by (intro keeps_rule log_rule)+


lemma unlogged_reads [log_rule]:
  "keeps env (\<lambda>t. audit_logs t = x) (ConnectorRepository_find_by_source source)"
  "keeps env (\<lambda>t. audit_logs t = x) (ConnectorConfigRepository_find_by_source source)"
  "keeps env (\<lambda>t. audit_logs t = x) (ConnectorRunRepository_find i)"
  "keeps env (\<lambda>t. audit_logs t = x) (ConnectorRunRepository_execution_is_active i w)"
  "keeps env (\<lambda>t. audit_logs t = x) (ConnectorRunRepository_cancellation_requested i)"
  unfolding ConnectorRepository_find_by_source_def ConnectorConfigRepository_find_by_source_def
    ConnectorRunRepository_find_def ConnectorRunRepository_execution_is_active_def
    ConnectorRunRepository_cancellation_requested_def
  by (intro keeps_rule)+

lemma unlogged_records [log_rule]:
  "keeps env (\<lambda>t. audit_logs t = x) (CalendarEventRepository_upsert_from_connector e)"
  "keeps env (\<lambda>t. audit_logs t = x) (WorkCardRepository_upsert_from_connector w)"
  "keeps env (\<lambda>t. audit_logs t = x) (NotificationRepository_upsert_from_connector n)"
  "keeps env (\<lambda>t. audit_logs t = x) (ServiceRepository_upsert_from_connector_with_health_check v i raw)"
  "keeps env (\<lambda>t. audit_logs t = x) (CalendarEventRepository_archive_missing_for_connector_run c i)"
  "keeps env (\<lambda>t. audit_logs t = x) (WorkCardRepository_archive_missing_for_connector_run c i)"
  "keeps env (\<lambda>t. audit_logs t = x) (NotificationRepository_archive_missing_for_connector_run c i)"
  unfolding CalendarEventRepository_upsert_from_connector_def
    CalendarEventRepository_find_by_source_external_id_def CalendarEventRepository_create_def
    CalendarEventRepository_update_def WorkCardRepository_upsert_from_connector_def
    WorkCardRepository_find_by_source_external_id_def WorkCardRepository_create_def
    WorkCardRepository_update_def NotificationRepository_upsert_from_connector_def
    NotificationRepository_find_by_source_external_id_def NotificationRepository_create_def
    NotificationRepository_update_def ServiceRepository_upsert_from_connector_with_health_check_def
    ServiceRepository_create_def ServiceRepository_update_def ServiceHealthCheckRepository_create_def
    CalendarEventRepository_archive_missing_for_connector_run_def
    WorkCardRepository_archive_missing_for_connector_run_def
    NotificationRepository_archive_missing_for_connector_run_def Let_def
  by (intro keeps_rule log_rule)+

lemma unlogged_import_item [log_rule]:
  "(\<And>n. keeps env (\<lambda>t. audit_logs t = x) (upsert n)) \<Longrightarrow>
   keeps env (\<lambda>t. audit_logs t = x) (import_item e raw v upsert ext rid js acc)"
  unfolding import_item_def by (intro keeps_rule) auto

lemma unlogged_execution [log_rule]:
  "keeps env (\<lambda>t. audit_logs t = x) (execute_calendar_event_items rt source i es c)"
  "keeps env (\<lambda>t. audit_logs t = x) (execute_work_card_items rt source i ws c)"
  "keeps env (\<lambda>t. audit_logs t = x) (execute_notification_items rt source i ns c)"
  "keeps env (\<lambda>t. audit_logs t = x) (execute_service_health_items rt source i vs)"
  "keeps env (\<lambda>t. audit_logs t = x) (finish_connector_run_for_owner source target run ex w)"
  unfolding execute_calendar_event_items_def execute_work_card_items_def execute_notification_items_def
    execute_service_health_items_def import_calendar_item_def import_work_card_item_def
    import_notification_item_def import_service_item_def reconcile_def finish_connector_run_for_owner_def
    Let_def prod.case
  by (intro keeps_rule log_rule)+

lemma unlogged_runtime [log_rule]:
  assumes "undisturbed env"
  shows "keeps env (\<lambda>t. audit_logs t = x) (create_queued_run_with_parent rt source target trigger payload parent)"
    and "keeps env (\<lambda>t. audit_logs t = x) (create_running_run source target trigger payload)"
    and "keeps env (\<lambda>t. audit_logs t = x) (cancelled_response_or_ownership_error i w)"
    and "keeps env (\<lambda>t. audit_logs t = x) (execute_connector_run rt run w)"
  unfolding create_queued_run_with_parent_def create_running_run_def created_or_active_def
    cancelled_response_or_ownership_error_def execute_connector_run_def run_transaction_def
    load_payload_for_claimed_run_def execute_payload_for_target_def Let_def
  by (intro keeps_rule log_rule assms; simp?)+


lemma unlogged_connectors [log_rule]:
  "keeps env (\<lambda>t. audit_logs t = x) (ConnectorRepository_create n)"
  "keeps env (\<lambda>t. audit_logs t = x) (ConnectorRepository_update_by_source source u)"
  "keeps env (\<lambda>t. audit_logs t = x) (ConnectorRepository_update_scope source ty ow mt)"
  "keeps env (\<lambda>t. audit_logs t = x) (ConnectorRepository_delete_by_source source)"
proof -
  show "keeps env (\<lambda>t. audit_logs t = x) (ConnectorRepository_delete_by_source source)"
    unfolding ConnectorRepository_delete_by_source_def
    by (intro keeps_rule keeps_delete_stmt)
      (simp add: connectors_on_delete_def notifications_on_delete_def runs_on_delete_def Let_def)
qed (unfold ConnectorRepository_create_def ConnectorRepository_update_by_source_def
      ConnectorRepository_update_scope_def comp_def, (intro keeps_rule log_rule)+)

section \<open>The requests of an administrator\<close>

fun audited_connector :: "connector_request \<Rightarrow> string \<times> string" where
  "audited_connector (CreateConnector _) = (''create'', ''connector'')"
| "audited_connector (UpdateConnector _ _) = (''update'', ''connector'')"
| "audited_connector (UpdateConnectorScope _ _) = (''update_scope'', ''connector'')"
| "audited_connector (DeleteConnector _) = (''delete'', ''connector'')"
| "audited_connector (UpsertConfig _ _) = (''upsert_config'', ''connector'')"
| "audited_connector (RetryRun _) = (''retry'', ''connector_run'')"
| "audited_connector (CancelRun _) = (''cancel'', ''connector_run'')"
| "audited_connector (RunConnector _ q) =
     (if mq_mode q = ''queue'' then ''queue_run'' else ''run'', ''connector_run'')"
| "audited_connector _ = (''import'', ''connector_run'')"

lemma unlogged_handler_steps [log_rule]:
  assumes "undisturbed env"
  shows "keeps env (\<lambda>t. audit_logs t = x) (check_scope_owner ty ow mt)"
    and "keeps env (\<lambda>t. audit_logs t = x) (existing_config source)"
    and "keeps env (\<lambda>t. audit_logs t = x) (config_error r)"
    and "keeps env (\<lambda>t. audit_logs t = x) (create_queued_run rt source target trigger payload)"
    and "keeps env (\<lambda>t. audit_logs t = x) (create_queued_retry_run rt source target payload i)"
    and "keeps env (\<lambda>t. audit_logs t = x) (execute_claimed_connector_run rt run)"
    and "keeps env (\<lambda>t. audit_logs t = x) (finish_connector_run source target run ex)"
    and "keeps env (\<lambda>t. audit_logs t = x) (settle_cancelled_connector_run i)"
  unfolding check_scope_owner_def existing_config_def config_error_def create_queued_run_def
    create_queued_retry_run_def execute_claimed_connector_run_def finish_connector_run_def
    settle_cancelled_connector_run_def UserRepository_find_def MaintainerRepository_find_def
  by (intro keeps_rule log_rule assms; simp?)+

lemma import_logs_once:
  assumes "undisturbed env" and "\<And>s i x. keeps env (\<lambda>t. audit_logs t = x) (execute s i)"
  shows "protected env auth (''import'', ''connector_run'') t (is_admin auth)
    (discard (import_records wl auth source target execute metadata))"
  unfolding import_records_def
  by (intro protected_discard protected_by_admin log_rule logs_entry allI keeps_rule assms)

lemma connector_handlers_protected:
  assumes "undisturbed env"
  shows "protected env auth (audited_connector r) t (is_admin auth) (handle_connector rt wl auth r)"
proof (cases r)
  case (CreateConnector n)
  then show ?thesis
    by (simp add: create_connector_def)
      (intro protected_discard protected_by_admin log_rule logs_entry allI keeps_rule assms)
next
  case (UpdateConnector src u)
  then show ?thesis
    by (simp add: update_connector_def)
      (intro protected_discard protected_by_admin log_rule logs_entry allI keeps_rule assms)
next
  case (UpdateConnectorScope src u)
  then show ?thesis
    by (simp add: update_connector_scope_def)
      (intro protected_discard protected_by_admin log_rule logs_entry allI keeps_rule assms)
next
  case (DeleteConnector src)
  then show ?thesis
    by (simp add: delete_connector_def)
      (intro protected_by_admin log_rule logs_entry allI keeps_rule assms)
next
  case (UpsertConfig src c)
  then show ?thesis
    by (simp add: upsert_connector_config_def)
      (intro protected_discard protected_by_admin log_rule logs_entry allI keeps_rule assms)
next
  case (RetryRun i)
  then show ?thesis
    by (simp add: retry_connector_run_def)
      (intro protected_discard protected_by_admin log_rule logs_entry allI keeps_rule assms)
next
  case (CancelRun i)
  then show ?thesis
    by (simp add: cancel_connector_run_def)
      (intro protected_discard protected_by_admin log_rule logs_entry allI keeps_rule assms)
next
  case (RunConnector src q)
  show ?thesis
    unfolding RunConnector handle_connector.simps audited_connector.simps run_connector_def Let_def
    by (rule protected_discard, rule protected_by_admin,
        rule logs_bind [OF _ logs_bind [OF _ logs_bind [OF _ logs_checked [OF logs_bind
          [OF _ logs_cases(1) [OF logs_throw logs_cases(1) [OF logs_throw logs_choice]]]]]]])
      (intro log_rule logs_entry allI keeps_rule assms)+
qed (simp_all add: import_calendar_events_def import_work_cards_def import_notifications_def
    import_service_health_def import_logs_once assms log_rule)

text \<open>C15: Changing a connector, its scope or its configuration, running, retrying or cancelling a run and
  importing records needs an administrator: without one the request fails and changes nothing. A request
  that succeeds left exactly one entry in the audit log, with its action, its resource and its user,
  however many records it imported.\<close>

theorem connector_changes_are_admin_only_and_audited:
  assumes "undisturbed env" and "handle_connector rt wl auth r env s = (res, s')"
  shows "(\<not> is_admin auth \<longrightarrow> isl res \<and> tabs s' = tabs s)
    \<and> (\<not> isl res \<longrightarrow> is_admin auth \<and> one_entry auth (audited_connector r) (tabs s) (tabs s'))"
  using connector_handlers_protected [OF assms(1), of auth r "tabs s" rt wl] assms(2)
  unfolding protected_def by blast

section \<open>Configurations that are accepted\<close>

text \<open>\<open>extends c\<close>: the check \<open>c\<close> keeps the violations found before it.\<close>

definition extends :: "(violations \<Rightarrow> violations) \<Rightarrow> bool" where
  "extends c \<longleftrightarrow> (\<forall>es. prefix es (c es))"

lemma extendsD: "extends c \<Longrightarrow> prefix es (c es)"
  by (simp add: extends_def)

lemma extends_fold: "\<forall>x\<in>set xs. extends (f x) \<Longrightarrow> extends (fold f xs)"
proof (induction xs)
  case (Cons x xs)
  then show ?case using prefix_order.trans by (fastforce simp: extends_def)
qed (simp add: extends_def)

lemma extends_cases:
  "extends (push_if b fd m)" "extends (\<lambda>es. es)" "extends (\<lambda>es. es @ ns)"
  "extends c \<Longrightarrow> extends d \<Longrightarrow> extends (\<lambda>es. if b then c es else d es)"
  "extends c \<Longrightarrow> (\<And>x. extends (f x)) \<Longrightarrow> extends (\<lambda>es. case v of None \<Rightarrow> c es | Some x \<Rightarrow> f x es)"
  "(\<And>x. extends (g x)) \<Longrightarrow> (\<And>y. extends (h y)) \<Longrightarrow> extends (\<lambda>es. case r of Inl x \<Rightarrow> g x es | Inr y \<Rightarrow> h y es)"
  by (auto simp: extends_def push_if_def split: option.splits sum.splits)

lemma extends_keys:
  "extends (validate_url_fields config keys)" "extends (require_url_any config keys)"
  "extends (validate_number as_number ok wanted config field)"
  "extends (validate_azure_due_date_field config)" "extends (validate_azure_assignee_mappings config)"
proof -
  have "extends (validate_url_field config k)" for k
    unfolding validate_url_field_def by (intro extends_cases)
  then show u: "extends (validate_url_fields config keys)"
    unfolding validate_url_fields_def by (intro extends_fold) blast
  then show "extends (require_url_any config keys)"
    unfolding require_url_any_def by (intro extends_cases)
  show "extends (validate_number as_number ok wanted config field)" "extends (validate_azure_due_date_field config)"
    unfolding validate_number_def validate_azure_due_date_field_def by (intro extends_cases)+
  have "extends (validate_mapping m)" for m
    by (auto simp: extends_def validate_mapping_def push_if_def)
  then show "extends (validate_azure_assignee_mappings config)"
    unfolding validate_azure_assignee_mappings_def by (intro extends_cases extends_fold) blast
qed

lemma extends_run_checks: "list_all extends cs \<Longrightarrow> extends (run_checks cs)"
  unfolding run_checks_def by (rule extends_fold) (simp add: list_all_iff)

lemmas single_checks = extends_cases(1) extends_keys validate_positive_u64_def validate_positive_i64_def
  validate_u64_range_def validate_i64_range_def validate_boolean_def require_target_def
  require_one_of_targets_def require_non_empty_when_missing_all_def

lemma extends_adapters:
  "extends (validate_azure_devops target config)" "extends (validate_monitoring target config)"
  "extends (validate_graph_calendar target config)" "extends (validate_graph_mail target config)"
  "extends (validate_erp_private_messages target config)"
  "extends (validate_sample_array target config field targets)"
  unfolding validate_azure_devops_def validate_monitoring_def validate_graph_calendar_def
    validate_graph_mail_def validate_erp_private_messages_def validate_sample_array_def
  by (rule extends_run_checks, simp add: single_checks)+

lemma extends_adapter: "extends (validate_connector_config_adapter target config)"
  unfolding validate_connector_config_adapter_def validate_adapter_def
  by (intro extends_cases extends_adapters)

lemma extends_update:
  "extends (required fd v)" "extends (max_len fd v n)" "extends (max_optional_len fd ov n)"
  "extends (one_of fd v vs)" "extends (validate_schedule ov)" "extends (validate_config_text cx v w)"
  "extends (validate_sample_payload cx w)"
  unfolding required_def max_len_def max_optional_len_def one_of_def validate_schedule_def
    validate_config_text_def validate_sample_payload_def
  by (intro extends_cases extends_adapter)+

lemma checks_each:
  assumes "list_all extends cs" and "checks cs = []" and "c \<in> set cs"
  shows "c [] = []"
  using assms
proof (induction cs rule: rev_induct)
  case (snoc d cs)
  have "prefix (checks cs) (d (checks cs))" using snoc.prems(1) by (simp add: extends_def)
  then have "checks cs = []" and "d (checks cs) = []" using snoc.prems(2) by (simp_all add: checks_def)
  then show ?case using snoc by auto
qed simp

lemma accepted_config:
  assumes "ConnectorConfigUpdate_validate cx u = []"
  shows "cf_target u \<in> set connector_targets"
    and "cf_schedule_cron u = Some cron \<Longrightarrow>
      \<exists>n. effective_schedule_interval_seconds cron = Some n \<and> schedule_interval_seconds cron = Some n \<and> 60 \<le> n"
proof -
  note each = checks_each [OF _ assms [unfolded ConnectorConfigUpdate_validate_def]]
  have "one_of ''target'' (cf_target u) connector_targets [] = []"
    by (rule each) (simp_all add: extends_update)
  then show "cf_target u \<in> set connector_targets" by (simp add: validator_empty)
  assume "cf_schedule_cron u = Some cron"
  moreover have "validate_schedule (cf_schedule_cron u) [] = []"
    by (rule each) (simp_all add: extends_update)
  ultimately show "\<exists>n. effective_schedule_interval_seconds cron = Some n
      \<and> schedule_interval_seconds cron = Some n \<and> 60 \<le> n"
    by (auto simp: validate_schedule_def push_if_empty effective_schedule_interval_seconds_def
        MIN_CONNECTOR_SCHEDULE_INTERVAL_SECONDS_def split: option.splits)
qed

section \<open>Configurations that are saved\<close>

lemma validated_Inr_iff:
  "checked v r env s = (Inr r', s') \<longleftrightarrow> v r = [] \<and> r' = r \<and> s' = s"
  "resultM (validate_source src) env s = (Inr x, s') \<longleftrightarrow> validate_source src = Inr x \<and> x = src \<and> s' = s"
  "config_error res env s = (Inr y, s') \<longleftrightarrow> res = Inr y \<and> s' = s"
  by (auto simp: checked_def config_error_def resultM_def validate_source_def validate_request_def Let_def
      map_sum_def split: sum.splits if_splits)

lemma audit_keeps_configs:
  "undisturbed env \<Longrightarrow> keeps env (\<lambda>t. connector_configs t = x) (record_audit_entry wl auth act ty i md)"
  unfolding record_audit_entry_def AuditLogRepository_create_def
  by (intro keeps_rule keeps_insert_stmt) simp_all

lemma upserted_config:
  assumes "ConnectorConfigRepository_upsert_by_source source u env s = (Inr c, s')"
  shows "c \<in> set (rows (connector_configs (tabs s')))" and "cc_source c = source"
    and "cc_target c = cf_target u" and "cc_schedule_cron c = cf_schedule_cron u"
    and "cc_config c = cf_config u"
proof -
  obtain at now s0 where ups: "upsert_stmt connector_configs connector_configs_update config_violation (\<lambda>c. cc_source c = source)
       (\<lambda>i. \<lparr>cc_source = source, cc_target = cf_target u, cc_enabled = cf_enabled u,
             cc_schedule_cron = cf_schedule_cron u, cc_config = cf_config u,
             cc_sample_payload = cf_sample_payload u, cc_last_scheduled_at = None,
             cc_next_run_at = at, cc_last_scheduled_run_id = None,
             cc_id = i, cc_created_at = now, cc_updated_at = now\<rparr>)
       (\<lambda>c. c\<lparr>cc_target := cf_target u, cc_enabled := cf_enabled u,
              cc_schedule_cron := cf_schedule_cron u, cc_config := cf_config u,
              cc_sample_payload := cf_sample_payload u, cc_next_run_at := at,
              cc_updated_at := now\<rparr>) env s0 = (Inr c, s')"
    using assms unfolding ConnectorConfigRepository_upsert_by_source_def bindM_Inr_iff by blast
  show "c \<in> set (rows (connector_configs (tabs s')))" "cc_source c = source"
    "cc_target c = cf_target u" "cc_schedule_cron c = cf_schedule_cron u" "cc_config c = cf_config u"
    using upsert_stmt_Inr [OF ups]
    by (auto simp: update_rows_def first_row_def find_Some_iff image_iff split: option.splits)
qed

lemma existing_config_Inr:
  assumes "undisturbed env" and "\<forall>k. env_fault env k \<noteq> Some NotFoundError"
    and "existing_config source env s = (Inr x, s')"
  shows "x = first_row (\<lambda>c. cc_source c = source) (rows (connector_configs (tabs s)))"
proof (cases "stepM (find_keyed connector_configs (\<lambda>c. cc_source c = source)) env s")
  case (Pair r s1)
  then obtain s2 where run: "find_keyed connector_configs (\<lambda>c. cc_source c = source) env s = (r, s2)"
    using assms(1) by (elim stepM_undisturbed)
  have ex: "existing_config source = handleM (stepM (find_keyed connector_configs (\<lambda>c. cc_source c = source)))
     (\<lambda>e. if e = NotFoundError then retM None else throwM (api_error_of e)) (\<lambda>c. retM (Some c))"
    by (simp add: existing_config_def ConnectorConfigRepository_find_by_source_def find_keyed_def)
  show ?thesis
  proof (cases r)
    case (Inl e)
    then have "e = NotFoundError" "x = None"
      using assms(3) Pair by (auto simp: ex handleM_def throwM_def retM_def split: if_splits)
    then show ?thesis using run Inl find_missing assms(2) by metis
  next
    case (Inr c)
    then have "x = Some c" using assms(3) Pair by (simp add: ex handleM_def retM_def)
    then show ?thesis using find_keyed_Inr run Inr by metis
  qed
qed

lemma admitted: "require_admin auth env s = (Inr x, s') \<longleftrightarrow> is_admin auth \<and> s' = s"
  by (auto simp: require_admin_def retM_def throwM_def)


end
