(* ===== verification/OAuth_Properties.thy ===== *)
theory OAuth_Properties
  imports Connector_OAuth Route_Properties
begin

text \<open>
  What connecting a connector to Microsoft Graph promises: only an administrator completes a connection,
  only for a state that the connector is waiting for, before it expires and with the redirect it was
  started with; the tokens are stored sealed, and the state is used up.
\<close>

section \<open>Single steps\<close>

lemma needM_Inr [simp]: "needM x fd m env s = (Inr v, s') \<longleftrightarrow> x = Some v \<and> s' = s"
  by (auto simp: needM_def split: option.splits)

lemma refuse_with_Inr [simp]: "refuse_with fd r env s = (Inr v, s') \<longleftrightarrow> r = Inr v \<and> s' = s"
  by (cases r) (auto simp: refuse_with_def resultM_def)

lemma small_steps_Inr:
  "refuse_error who e d env s = (Inr u, s') \<longleftrightarrow> given e = None \<and> s' = s"
  "require_http_url fd url env s = (Inr u, s') \<longleftrightarrow> absolute_http url \<and> s' = s"
  "require_admin auth env s = (Inr u, s') \<longleftrightarrow> is_admin auth \<and> s' = s"
  by (auto simp: refuse_error_def returned_error_def require_http_url_def require_admin_def split: option.splits if_splits)

lemma requested_scope_Inr: "requested_scope v env s = (Inr x, s') \<Longrightarrow> s' = s"
  unfolding requested_scope_def bindM_Inr_iff by auto

lemma decrypt_json_Inr:
  "decrypt_config_json cx stored env s = (Inr v, s')
     \<longleftrightarrow> (\<exists>body. decrypt_connector_config cx stored = Inr body \<and> cx_parse cx body = Inr v) \<and> s' = s"
  unfolding decrypt_config_json_def bindM_Inr_iff validated_Inr_iff by auto

lemma pending_Inr:
  assumes "validate_pending_oauth_state oa v state uri env s = (Inr u, s')"
  shows "config_field v [''oauth_state''] = Some state" and "config_field v [''oauth_redirect_uri''] = Some uri"
    and "\<exists>t e. config_field v [''oauth_state_expires_at''] = Some t \<and> oa_rfc3339 oa t = Some e
      \<and> env_clock env (tick s) < e"
  using assms unfolding validate_pending_oauth_state_def bindM_Inr_iff
  by (auto simp: bindM_Inr_iff utc_now_def Option.bind_eq_Some_conv split: if_splits)

section \<open>Members of a document\<close>

lemma encrypt_members_keys: "encrypt_members cx ms n = (Inr ms', n') \<Longrightarrow> map fst ms' = map fst ms"
proof (induction ms arbitrary: n ms')
  case (Cons m ms)
  then show ?case
    by (cases m) (auto split: prod.splits sum.splits if_splits simp: apfst_def map_prod_def map_sum_def)
qed simp

lemma decrypt_members_keys: "decrypt_members cx ms = Inr ms' \<Longrightarrow> map fst ms' = map fst ms"
proof (induction ms arbitrary: ms')
  case (Cons m ms)
  then show ?case by (cases m) (auto split: sum.splits if_splits simp: map_sum_def)
qed simp

lemma absent_member: "json_get k (JObject ms) = None \<longleftrightarrow> k \<notin> set (map fst ms)"
  by (simp add: json_get_def map_of_eq_None_iff)

lemma plain_members_survive:
  assumes "map_of ms k = Some (JString x)" "\<not> is_secret_key k"
  shows "encrypt_members cx ms n = (Inr ms', n') \<Longrightarrow> map_of ms' k = Some (JString x)"
    and "decrypt_members cx ms = Inr ms' \<Longrightarrow> map_of ms' k = Some (JString x)"
proof -
  show "encrypt_members cx ms n = (Inr ms', n') \<Longrightarrow> map_of ms' k = Some (JString x)"
    using assms(1)
  proof (induction ms arbitrary: n ms')
    case (Cons m ms)
    then show ?case using assms(2)
      by (cases m) (auto split: prod.splits sum.splits if_splits simp: apfst_def map_prod_def map_sum_def)
  qed simp
  show "decrypt_members cx ms = Inr ms' \<Longrightarrow> map_of ms' k = Some (JString x)"
    using assms(1)
  proof (induction ms arbitrary: ms')
    case (Cons m ms)
    then show ?case using assms(2) by (cases m) (auto split: sum.splits if_splits simp: map_sum_def)
  qed simp
qed

text \<open>A document that is encrypted, stored and read again.\<close>

lemma read_again:
  assumes "encrypt_connector_config_json cx (JObject ms) env s = (Inr stored, s')" "\<And>x. reads_back cx x"
    and "decrypt_config_json cx stored env' t = (Inr v, t')"
  obtains ms1 ms2 n n' where "encrypt_members cx ms n = (Inr ms1, n')" "decrypt_members cx ms1 = Inr ms2" "v = JObject ms2"
proof -
  obtain body n where printed: "cx_print cx (JObject ms) = Inr body"
    and enc: "fst (encrypt_connector_config cx body n) = Inr stored"
    using assms(1) unfolding encrypt_connector_config_json_def bindM_Inr_iff validated_Inr_iff by blast
  then have "cx_parse cx body = Inr (JObject ms)" using assms(2) [of body] by (simp add: reads_back_def)
  then obtain d n' where "encrypt_json_secrets cx (JObject ms) n = (Inr d, n')" and d: "cx_print cx d = Inr stored"
    using enc by (auto simp: encrypt_connector_config_def map_sum_def split: sum.splits prod.splits)
  then obtain ms1 where ms1: "d = JObject ms1" "encrypt_members cx ms n = (Inr ms1, n')"
    by (auto simp: apfst_def map_prod_def map_sum_def split: prod.splits sum.splits)
  have "cx_parse cx stored = Inr (JObject ms1)" using d ms1(1) assms(2) [of stored] by (simp add: reads_back_def)
  moreover obtain body' where "decrypt_connector_config cx stored = Inr body'" and v: "cx_parse cx body' = Inr v"
    using assms(3) unfolding decrypt_json_Inr by blast
  ultimately obtain ms2 where ms2: "decrypt_members cx ms1 = Inr ms2" "cx_print cx (JObject ms2) = Inr body'"
    by (auto simp: decrypt_connector_config_def map_sum_def split: sum.splits)
  then have "v = JObject ms2" using assms(2) [of body'] v by (auto simp: reads_back_def)
  with ms1(2) ms2(1) show thesis by (rule that)
qed

lemma absent_after_reading:
  assumes "encrypt_connector_config_json cx (JObject ms) env s = (Inr stored, s')" "\<And>x. reads_back cx x"
    and "decrypt_config_json cx stored env' t = (Inr v, t')" and "k \<notin> set (map fst ms)"
  shows "json_get k v = None"
  using assms(1-3)
proof (rule read_again)
  fix ms1 ms2 n n' assume "encrypt_members cx ms n = (Inr ms1, n')" "decrypt_members cx ms1 = Inr ms2" "v = JObject ms2"
  then show ?thesis using assms(4) encrypt_members_keys decrypt_members_keys by (metis absent_member)
qed

lemma kept_after_reading:
  assumes "encrypt_connector_config_json cx (JObject ms) env s = (Inr stored, s')" "\<And>x. reads_back cx x"
    and "decrypt_config_json cx stored env' t = (Inr v, t')"
    and "map_of ms k = Some (JString x)" "\<not> is_secret_key k"
  shows "json_get k v = Some (JString x)"
  using assms(1-3)
proof (rule read_again)
  fix ms1 ms2 n n' assume *: "encrypt_members cx ms n = (Inr ms1, n')" "decrypt_members cx ms1 = Inr ms2" "v = JObject ms2"
  from plain_members_survive(1) [OF assms(4,5) *(1)] have "map_of ms1 k = Some (JString x)" .
  from plain_members_survive(2) [OF this assms(5) *(2)] *(3) show ?thesis by (simp add: json_get_def)
qed

lemma sealed_when_encrypted:
  assumes "encrypt_connector_config_json cx d env s = (Inr stored, s')" "\<And>x. reads_back cx x"
  shows "\<exists>v. cx_parse cx stored = Inr v \<and> all_secrets sealed v"
proof -
  obtain body n where "fst (encrypt_connector_config cx body n) = Inr stored"
    using assms(1) unfolding encrypt_connector_config_json_def bindM_Inr_iff validated_Inr_iff by blast
  then obtain n' where "encrypt_connector_config cx body n = (Inr stored, n')" by (metis prod.collapse)
  then obtain d d' where "encrypt_json_secrets cx d n = (Inr d', n')" and "cx_print cx d' = Inr stored"
    by (rule encrypt_config_Inr)
  then show ?thesis using encrypt_seals(1) assms(2) [of stored] by (auto simp: reads_back_def)
qed

lemma deleted_members: "k \<in> set ks \<Longrightarrow> k \<notin> fst ` set (fold AList.delete ks ms)"
proof -
  have "set (map fst (fold AList.delete ks ms)) = set (map fst ms) - set ks"
    by (induction ks arbitrary: ms) (auto simp only: fold_simps comp_def delete_keys set_removeAll list.set)
  then show "k \<in> set ks \<Longrightarrow> k \<notin> fst ` set (fold AList.delete ks ms)" by (simp only: set_map Diff_iff) simp
qed

lemma applied_token_members:
  assumes "apply_token_response oa v r env s = (Inr d, s')"
  obtains ms where "d = JObject ms" "''oauth_state'' \<notin> set (map fst ms)"
proof -
  obtain a f e n ms where "d = JObject (connected_members r a f e n ms)"
    using assms unfolding apply_token_response_def bindM_Inr_iff Let_def by (simp only: retM_run prod.inject sum.inject) blast
  moreover have "''oauth_state'' \<notin> set (map fst (connected_members r a f e n ms))"
    unfolding connected_members_def set_map by (rule deleted_members) simp
  ultimately show thesis using that by blast
qed


lemma updated_config_stored:
  assumes "ConnectorConfigRepository_update_config source stored env s = (Inr c, s')"
  shows "c \<in> set (rows (connector_configs (tabs s')))" "cc_source c = source" "cc_config c = stored"
    and "\<And>r. r \<in> set (rows (connector_configs (tabs s'))) \<Longrightarrow> cc_source r = source \<Longrightarrow> cc_config r = stored"
proof -
  obtain now rs s0 s1 where "update_stmt connector_configs connector_configs_update config_violation (\<lambda>c. cc_source c = source)
        (\<lambda>c. c\<lparr>cc_config := stored, cc_updated_at := now\<rparr>) env s0 = (Inr rs, s1)"
    and c: "expect_row (one_row rs) env s1 = (Inr c, s')"
    using assms unfolding ConnectorConfigRepository_update_config_def bindM_Inr_iff comp_def by blast
  from update_stmt_Inr [OF this(1)]
  have rs: "rs = map (\<lambda>c. c\<lparr>cc_config := stored, cc_updated_at := now\<rparr>)
        (filter (\<lambda>c. cc_source c = source) (rows (connector_configs (tabs s0))))"
    and s1: "rows (connector_configs (tabs s1)) = update_rows (\<lambda>c. cc_source c = source)
        (\<lambda>c. c\<lparr>cc_config := stored, cc_updated_at := now\<rparr>) (rows (connector_configs (tabs s0)))"
    by simp_all
  have c: "c \<in> set rs" "s' = s1" using expect_one_row [OF c] by simp_all
  then obtain r where r: "r \<in> set (rows (connector_configs (tabs s0)))" "cc_source r = source"
    "c = r\<lparr>cc_config := stored, cc_updated_at := now\<rparr>" by (auto simp: rs)
  then show "cc_source c = source" "cc_config c = stored" by simp_all
  show "c \<in> set (rows (connector_configs (tabs s')))"
    unfolding c(2) s1 update_rows_def set_map using r by (intro image_eqI [of _ _ r]) simp_all
  show "cc_config r = stored" if "r \<in> set (rows (connector_configs (tabs s')))" "cc_source r = source" for r
    using that unfolding c(2) s1 update_rows_def set_map by (elim imageE) (simp split: if_splits)
qed

section \<open>The first request\<close>

lemma pending_keys: "\<not> is_secret_key ''oauth_state''" "\<not> is_secret_key ''oauth_redirect_uri''"
  "\<not> is_secret_key ''oauth_state_expires_at''"
  by code_simp+

lemma pending_member_values:
  "map_of (pending_members state e uri ms) ''oauth_state'' = Some (JString state)"
  "map_of (pending_members state e uri ms) ''oauth_redirect_uri'' = Some (JString uri)"
  "map_of (pending_members state e uri ms) ''oauth_state_expires_at'' = Some (JString e)"
  by (simp_all add: pending_members_def put_string_def update_conv')

lemma member_field:
  assumes "json_get k v = Some (JString x)" "trim x = x" "x \<noteq> []"
  shows "config_field v [k] = Some x"
  using assms by (simp add: config_field_def field_value_def filter_option_def)

lemma start_Inr:
  assumes "undisturbed env" and "start_microsoft_oauth oa wl auth source rq env s = (Inr out, s')"
  obtains ms stored row s1 s2 s3 s4 where "is_admin auth"
    "encrypt_connector_config_json (oa_cx oa)
      (JObject (pending_members (oz_state out) (oa_show_secs oa (oz_expires_at out)) (oz_redirect_uri out) ms)) env s1
      = (Inr stored, s2)"
    "ConnectorConfigRepository_update_config source stored env s3 = (Inr row, s4)"
    "connector_configs (tabs s') = connector_configs (tabs s4)"
    "oz_redirect_uri out = oq_redirect_uri rq" "\<exists>k. oz_expires_at out = env_clock env k + seconds 600"
proof -
  from assms(2) obtain ms st scope url x now stored row s1 s2 s3 t2 where
    gate: "is_admin auth"
    and now: "(utc_now :: utc api) env t2 = (Inr now, s1)"
    and enc: "encrypt_connector_config_json (oa_cx oa)
      (JObject (pending_members st (oa_show_secs oa (now + seconds 600)) (oq_redirect_uri rq) ms)) env s1 = (Inr stored, s2)"
    and upd: "callM (ConnectorConfigRepository_update_config source stored) env s2 = (Inr row, s3)"
    and aud: "record_audit_entry wl auth ''oauth_authorize'' ''connector'' source
        [(''provider'', JString ''microsoft''), (''scope'', JString scope)] env s3 = (Inr x, s')"
    and out: "out = \<lparr>oz_authorization_url = url, oz_state = st, oz_redirect_uri = oq_redirect_uri rq, oz_scope = scope,
        oz_expires_at = now + seconds 600\<rparr>"
    unfolding start_microsoft_oauth_def bindM_Inr_iff Let_def small_steps_Inr needM_Inr validated_Inr_iff
      retM_run prod.inject sum.inject by blast
  obtain s4 where run: "ConnectorConfigRepository_update_config source stored env s2 = (Inr row, s4)"
    and t: "tabs s3 = tabs s4"
    using step_lift_Inr [OF assms(1) upd [unfolded callM_def]] .
  have fin: "connector_configs (tabs s') = connector_configs (tabs s4)"
    using keepsD [OF audit_keeps_configs [OF assms(1), of "connector_configs (tabs s3)"] _ aud] t by simp
  have "now = env_clock env (tick t2)" using now by (simp add: utc_now_def)
  then show thesis using that [OF gate _ run fin] enc out by auto
qed

text \<open>An authorization that was started is pending: when the stored configuration is read again, a callback
  with the state and the redirect URI that were sent is accepted until the state expires, ten minutes
  after the request, in whole seconds. The redirect URI must have no blanks around it.\<close>

theorem a_started_authorization_is_pending:
  assumes "undisturbed env" and "start_microsoft_oauth oa wl auth source rq env s = (Inr out, s')"
    and "\<And>x. reads_back (oa_cx oa) x"
    and "oz_state out \<noteq> [] \<and> trim (oz_state out) = oz_state out"
    and "oa_show_secs oa (oz_expires_at out) \<noteq> []
      \<and> trim (oa_show_secs oa (oz_expires_at out)) = oa_show_secs oa (oz_expires_at out)"
    and "oa_rfc3339 oa (oa_show_secs oa (oz_expires_at out)) = Some (oz_expires_at out - oz_expires_at out mod seconds 1)"
    and "trim (oq_redirect_uri rq) = oq_redirect_uri rq" "oq_redirect_uri rq \<noteq> []"
    and "c \<in> set (rows (connector_configs (tabs s')))" "cc_source c = source"
    and "decrypt_connector_config (oa_cx oa) (cc_config c) = Inr body" "cx_parse (oa_cx oa) body = Inr v"
    and "env_clock env2 (tick s2) < oz_expires_at out - oz_expires_at out mod seconds 1"
  shows "fst (validate_pending_oauth_state oa v (oz_state out) (oq_redirect_uri rq) env2 s2) = Inr ()
    \<and> (\<exists>k. oz_expires_at out = env_clock env k + seconds 600)"
  using assms(1,2)
proof (rule start_Inr)
  fix ms stored row s1 s2' s3 s4
  assume enc: "encrypt_connector_config_json (oa_cx oa)
      (JObject (pending_members (oz_state out) (oa_show_secs oa (oz_expires_at out)) (oz_redirect_uri out) ms)) env s1
      = (Inr stored, s2')"
    and upd: "ConnectorConfigRepository_update_config source stored env s3 = (Inr row, s4)"
    and fin: "connector_configs (tabs s') = connector_configs (tabs s4)"
    and uri: "oz_redirect_uri out = oq_redirect_uri rq"
    and st: "\<exists>k. oz_expires_at out = env_clock env k + seconds 600"
  have "cc_config c = stored" using updated_config_stored(4) [OF upd] assms(9,10) fin by simp
  then have dec: "decrypt_config_json (oa_cx oa) stored env s = (Inr v, s)"
    using assms(11,12) by (auto simp: decrypt_json_Inr)
  note kept = kept_after_reading [OF enc assms(3) dec pending_member_values(1) pending_keys(1)]
    kept_after_reading [OF enc assms(3) dec pending_member_values(2) pending_keys(2)]
    kept_after_reading [OF enc assms(3) dec pending_member_values(3) pending_keys(3)]
  have "config_field v [''oauth_state''] = Some (oz_state out)" using member_field [OF kept(1)] st assms(4) by auto
  moreover have "config_field v [''oauth_redirect_uri''] = Some (oq_redirect_uri rq)"
    using member_field [OF kept(2)] assms(7,8) uri by auto
  moreover have "config_field v [''oauth_state_expires_at''] = Some (oa_show_secs oa (oz_expires_at out))"
    using member_field [OF kept(3)] assms(5) by auto
  ultimately show ?thesis using assms(6,13) st
    by (auto simp: validate_pending_oauth_state_def needM_def bindM_def utc_now_def)
qed

text \<open>A redirect URI with blanks around it is accepted by the first request and stored as it is, but the
  stored value is trimmed when it is compared, so that no callback with it succeeds.\<close>

lemma padded_redirects_are_never_accepted:
  assumes "json_get ''oauth_redirect_uri'' v = Some (JString uri)" "trim uri \<noteq> uri"
  shows "isl (fst (validate_pending_oauth_state oa v state uri env s))"
proof (rule ccontr)
  assume "\<not> isl (fst (validate_pending_oauth_state oa v state uri env s))"
  then obtain u s' where "validate_pending_oauth_state oa v state uri env s = (Inr u, s')"
    by (metis isl_def prod.collapse sum.collapse(2))
  from pending_Inr(2) [OF this] assms show False
    by (simp add: config_field_def field_value_def filter_option_def split: if_splits)
qed

section \<open>The callback\<close>

text \<open>What a callback that succeeds has done.\<close>

lemma callback_Inr:
  assumes "undisturbed env" and "finish_microsoft_oauth oa wl auth rq env s = (Inr out, s')"
  obtains state c v v' stored row s1 s1' s2 s2' s3 s4 where "is_admin auth"
    "decode_oauth_state oa (ob_state rq) = Some state" "oy_source out = os_source state"
    "first_row (\<lambda>c. cc_source c = os_source state) (rows (connector_configs (tabs s))) = Some c"
    "decrypt_config_json (oa_cx oa) (cc_config c) env s1 = (Inr v, s1)"
    "validate_pending_oauth_state oa v (ob_state rq) (ob_redirect_uri rq) env s1 = (Inr (), s1')"
    "\<exists>ms. v' = JObject ms \<and> ''oauth_state'' \<notin> set (map fst ms)"
    "encrypt_connector_config_json (oa_cx oa) v' env s2 = (Inr stored, s2')"
    "ConnectorConfigRepository_update_config (os_source state) stored env s3 = (Inr row, s4)"
    "connector_configs (tabs s') = connector_configs (tabs s4)"
    "oy_config out = ConnectorConfigResponse_from (oa_cx oa) row"
proof -
  from assms(2) obtain state cn c v tr v' stored row u x s1 s2 s3 s4 s5 s6 s7 s8 where
    gate: "is_admin auth" "decode_oauth_state oa (ob_state rq) = Some state"
    and find: "callM (ConnectorRepository_find_by_source (os_source state)) env s = (Inr cn, s1)"
      "callM (ConnectorConfigRepository_find_by_source (os_source state)) env s1 = (Inr c, s2)"
    and dec: "decrypt_config_json (oa_cx oa) (cc_config c) env s2 = (Inr v, s3)"
    and pend: "validate_pending_oauth_state oa v (ob_state rq) (ob_redirect_uri rq) env s3 = (Inr u, s4)"
    and app: "apply_token_response oa v tr env s5 = (Inr v', s6)"
    and enc: "encrypt_connector_config_json (oa_cx oa) v' env s6 = (Inr stored, s7)"
    and upd: "callM (ConnectorConfigRepository_update_config (os_source state) stored) env s7 = (Inr row, s8)"
    and aud: "record_audit_entry wl auth ''oauth_connect'' ''connector'' (os_source state)
        [(''provider'', JString ''microsoft'')] env s8 = (Inr x, s')"
    and out: "out = \<lparr>oy_source = os_source state, oy_config = ConnectorConfigResponse_from (oa_cx oa) row\<rparr>"
    unfolding finish_microsoft_oauth_def bindM_Inr_iff Let_def small_steps_Inr needM_Inr validated_Inr_iff
      retM_run prod.inject sum.inject by blast
  have "keeps env (\<lambda>t. connector_configs t = connector_configs (tabs s))
      (callM (ConnectorRepository_find_by_source (os_source state)))"
    unfolding callM_def ConnectorRepository_find_by_source_def by (intro keeps_rule assms(1))
  from keepsD [OF this refl find(1)] have "connector_configs (tabs s1) = connector_configs (tabs s)" .
  then have c: "first_row (\<lambda>c. cc_source c = os_source state) (rows (connector_configs (tabs s))) = Some c"
    using call_find_Inr [OF assms(1) find(2) [unfolded ConnectorConfigRepository_find_by_source_def find_keyed_def [symmetric]]]
    by simp
  obtain s8' where run: "ConnectorConfigRepository_update_config (os_source state) stored env s7 = (Inr row, s8')"
    and t: "tabs s8 = tabs s8'"
    using step_lift_Inr [OF assms(1) upd [unfolded callM_def]] .
  have "connector_configs (tabs s') = connector_configs (tabs s8')"
    using keepsD [OF audit_keeps_configs [OF assms(1), of "connector_configs (tabs s8)"] _ aud] t by simp
  moreover have "s3 = s2" using dec by (simp add: decrypt_json_Inr)
  moreover have "\<exists>ms. v' = JObject ms \<and> ''oauth_state'' \<notin> set (map fst ms)"
    using applied_token_members [OF app] by blast
  ultimately show thesis using that [OF gate _ c _ _ _ enc run] dec pend out by simp
qed

text \<open>C14: A callback of Microsoft connects a connector only for an administrator and only if the configuration
  of the connector that the state names is waiting for exactly this state, with the same redirect URI and
  before the state expired. Then the configuration holds its secrets encrypted, and the answer shows it
  redacted.\<close>

theorem oauth_connects_only_a_pending_request:
  assumes "undisturbed env" and "finish_microsoft_oauth oa wl auth rq env s = (Inr out, s')"
    and "\<And>x. reads_back (oa_cx oa) x"
  shows "is_admin auth \<and> (\<exists>state c body v t e k c' v'. decode_oauth_state oa (ob_state rq) = Some state
    \<and> c \<in> set (rows (connector_configs (tabs s))) \<and> cc_source c = os_source state
    \<and> decrypt_connector_config (oa_cx oa) (cc_config c) = Inr body \<and> cx_parse (oa_cx oa) body = Inr v
    \<and> config_field v [''oauth_state''] = Some (ob_state rq)
    \<and> config_field v [''oauth_redirect_uri''] = Some (ob_redirect_uri rq)
    \<and> config_field v [''oauth_state_expires_at''] = Some t \<and> oa_rfc3339 oa t = Some e \<and> env_clock env k < e
    \<and> c' \<in> set (rows (connector_configs (tabs s'))) \<and> cc_source c' = os_source state
    \<and> cx_parse (oa_cx oa) (cc_config c') = Inr v' \<and> all_secrets sealed v'
    \<and> oy_config out = c'\<lparr>cc_config := redact_connector_config (oa_cx oa) (cc_config c')\<rparr>)"
  using assms(1,2)
proof (rule callback_Inr)
  fix state c v v' stored row s1 s1' s2 s2' s3 s4
  assume admin: "is_admin auth" and state: "decode_oauth_state oa (ob_state rq) = Some state"
    and c: "first_row (\<lambda>c. cc_source c = os_source state) (rows (connector_configs (tabs s))) = Some c"
    and dec: "decrypt_config_json (oa_cx oa) (cc_config c) env s1 = (Inr v, s1)"
    and pend: "validate_pending_oauth_state oa v (ob_state rq) (ob_redirect_uri rq) env s1 = (Inr (), s1')"
    and enc: "encrypt_connector_config_json (oa_cx oa) v' env s2 = (Inr stored, s2')"
    and upd: "ConnectorConfigRepository_update_config (os_source state) stored env s3 = (Inr row, s4)"
    and fin: "connector_configs (tabs s') = connector_configs (tabs s4)"
    and out: "oy_config out = ConnectorConfigResponse_from (oa_cx oa) row"
  note p = pending_Inr [OF pend]
  have "c \<in> set (rows (connector_configs (tabs s))) \<and> cc_source c = os_source state"
    using first_row_Some [OF c] by simp
  moreover have "row \<in> set (rows (connector_configs (tabs s'))) \<and> cc_source row = os_source state"
    using updated_config_stored(1,2) [OF upd] fin by simp
  moreover have "\<exists>d. cx_parse (oa_cx oa) (cc_config row) = Inr d \<and> all_secrets sealed d"
    using sealed_when_encrypted [OF enc assms(3)] updated_config_stored(3) [OF upd] by simp
  ultimately show ?thesis using admin state p dec out
    unfolding decrypt_json_Inr ConnectorConfigResponse_from_def by blast
qed


section \<open>Authorization and audit\<close>

lemma unlogged_oauth_steps [log_rule]:
  assumes "undisturbed env"
  shows "keeps env (\<lambda>t. audit_logs t = x) (needM y fd m)"
    and "keeps env (\<lambda>t. audit_logs t = x) (refuse_with fd r)"
    and "keeps env (\<lambda>t. audit_logs t = x) (refuse_error who e d)"
    and "keeps env (\<lambda>t. audit_logs t = x) (require_http_url fd url)"
    and "keeps env (\<lambda>t. audit_logs t = x) (decrypt_config_json cx stored)"
    and "keeps env (\<lambda>t. audit_logs t = x) (encrypt_connector_config_json cx v)"
    and "keeps env (\<lambda>t. audit_logs t = x) (requested_scope v)"
    and "keeps env (\<lambda>t. audit_logs t = x) (encode_oauth_state oa source)"
    and "keeps env (\<lambda>t. audit_logs t = x) (validate_pending_oauth_state oa v state uri)"
    and "keeps env (\<lambda>t. audit_logs t = x) (exchange_authorization_code oa url cid sec code uri sc)"
    and "keeps env (\<lambda>t. audit_logs t = x) (apply_token_response oa v tr)"
  unfolding needM_def refuse_with_def refuse_error_def require_http_url_def decrypt_config_json_def
    encrypt_connector_config_json_def requested_scope_def encode_oauth_state_def validate_pending_oauth_state_def
    exchange_authorization_code_def apply_token_response_def Let_def
  by (intro keeps_rule log_rule assms)+

lemma oauth_requests_are_admin_only_and_audited:
  assumes "undisturbed env"
  shows "protected env auth (''oauth_authorize'', ''connector'') t (is_admin auth)
      (start_microsoft_oauth oa wl auth source rq)"
    and "protected env auth (''oauth_connect'', ''connector'') t (is_admin auth) (finish_microsoft_oauth oa wl auth cb)"
  unfolding start_microsoft_oauth_def finish_microsoft_oauth_def Let_def
  by (intro protected_by_admin log_rule logs_entry allI keeps_rule assms)+

end
