(* ===== verification/Access_Scenario.thy ===== *)
theory Access_Scenario
  imports Login_Guarantees
begin

text \<open>
  Sign-in at work on a concrete database: a user logs in with a password, uses the cookie, logs out and
  revokes; a bucket is locked after two failures; an OpenID login is begun and consumed; an external
  identity is provisioned. The library functions are instantiated by concrete ones.
\<close>

definition demo_au :: authlib where
  "demo_au = \<lparr>au_lower = id, au_sql_lower = id, au_sha256_hex = id, au_uuid = (\<lambda>_. ''c0de''),
     au_verify = (\<lambda>encoded given. Inr (encoded = given)), au_dummy_hash = ''dummy''\<rparr>"

definition calm :: env where
  "calm = \<lparr>env_clock = (\<lambda>_. 5), env_fault = (\<lambda>_. None), env_other = (\<lambda>_ t. t)\<rparr>"

definition demo_world :: login_world where
  "demo_world = \<lparr>lw_pool = (\<lambda>_. True), lw_permit = (\<lambda>_. Permit), lw_join = (\<lambda>_. True)\<rparr>"

definition demo_config :: AppConfig where
  "demo_config = \<lparr>ac_environment = ''production'', ac_auth_token_ttl_seconds = 3600,
     ac_auth_max_active_sessions_per_user = 1, ac_auth_cookie_secure = True,
     ac_auth_login_max_failures = 2, ac_auth_login_account_max_failures = 50,
     ac_auth_login_window_seconds = 900, ac_auth_login_lockout_seconds = 900,
     ac_auth_password_login_enabled = True, ac_entra = None\<rparr>"

definition demo_user :: User where
  "demo_user = \<lparr>us_username = ''ada'', us_password = ''secret'', us_id = 1, us_created_at = 0\<rparr>"

definition old_session :: Session where
  "old_session = \<lparr>se_user_id = 1, se_token_hash = ''old'', se_expires_at = 100, se_auth_method = ''password'',
     se_last_seen_at = 0, se_ip_address = None, se_user_agent = None, se_id = 1, se_created_at = 0\<rparr>"

definition access_tables :: tables where
  "access_tables = empty_tables\<lparr>users := \<lparr>rows = [demo_user], seq = 2\<rparr>,
     sessions := \<lparr>rows = [old_session], seq = 2\<rparr>\<rparr>"

definition demo_client :: LoginClientContext where
  "demo_client = \<lparr>lc_ip_address = Some ''10.0.0.1'', lc_user_agent = None\<rparr>"

definition demo_credentials :: Credentials where
  "demo_credentials = \<lparr>cr_username = ''ada'', cr_password = ''secret''\<rparr>"

lemma calm_env: "quiet calm" "undisturbed calm" "\<forall>k. env_fault calm k \<noteq> Some NotFoundError"
  by (simp_all add: quiet_def undisturbed_def calm_def)

lemma outcome_Inr: "\<not> isl (fst p) \<Longrightarrow> p = (Inr (projr (fst p)), snd p)"
  by (simp add: prod_eq_iff)

section \<open>Sessions\<close>

definition demo_create :: CreateSession where
  "demo_create = \<lparr>cs_user_id = 1, cs_token = ''tok'', cs_expires_at = 200, cs_max_active_sessions = 1,
     cs_auth_method = ''password'', cs_ip_address = None, cs_user_agent = None\<rparr>"

definition demo_session :: "(DieselError + Session) \<times> db" where
  "demo_session = SessionRepository_create demo_au demo_create calm (mk_db access_tables)"

lemma demo_session_eq: "SessionRepository_create demo_au demo_create calm (mk_db access_tables)
    = (Inr (projr (fst demo_session)), snd demo_session)"
proof -
  have "\<not> isl (fst demo_session)" by code_simp
  from outcome_Inr [OF this] show ?thesis by (simp add: demo_session_def)
qed

lemma access_ids: "session_ids_ok (sessions (tabs (mk_db access_tables)))"
  by (simp add: session_ids_ok_def access_tables_def mk_db_def old_session_def)

theorem session_capacity_witness:
  "int (count_rows (\<lambda>r. se_user_id r = 1) (rows (sessions (tabs (snd demo_session))))) \<le> 1
   \<and> se_token_hash (projr (fst demo_session)) = ''tok''"
  using session_capacity [OF demo_session_eq access_ids]
  by (simp add: demo_create_def session_token_hash_def demo_au_def)

section \<open>Throttling\<close>

definition demo_burst :: "(DieselError + i64 option) \<times> db" where
  "demo_burst = record_failures ''h'' 2 900 900 [10, 20] calm (mk_db access_tables)"

lemma demo_burst_eq: "record_failures ''h'' 2 900 900 [10, 20] calm (mk_db access_tables)
    = (Inr (projr (fst demo_burst)), snd demo_burst)"
proof -
  have "\<not> isl (fst demo_burst)" by code_simp
  from outcome_Inr [OF this] show ?thesis by (simp add: demo_burst_def)
qed

definition demo_retry :: "(DieselError + i64 option) \<times> db" where
  "demo_retry = LoginThrottleRepository_retry_after_seconds ''h'' 30 calm (snd demo_burst)"

lemma demo_retry_eq: "LoginThrottleRepository_retry_after_seconds ''h'' 30 calm (snd demo_burst)
    = (Inr (projr (fst demo_retry)), snd demo_retry)"
proof -
  have "\<not> isl (fst demo_retry)" by code_simp
  from outcome_Inr [OF this] show ?thesis by (simp add: demo_retry_def)
qed

theorem failures_lock_the_bucket_witness:
  "projr (fst demo_retry) = Some (until_seconds 30 (20 + seconds 900))"
proof -
  have "bucket_of ''h'' (tabs (mk_db access_tables)) = None" by code_simp
  from failures_lock_the_bucket [OF demo_burst_eq this _ _ _ _ demo_retry_eq]
  show ?thesis by (simp add: seconds_def i32_max_def)
qed

section \<open>OpenID login transactions\<close>

definition demo_pending :: NewOidcLoginTransaction where
  "demo_pending = \<lparr>ot_state_hash = ''s'', ot_browser_binding_hash = ''b'', ot_nonce = ''n'',
     ot_pkce_verifier_ciphertext = ''v'', ot_return_to = ''/'', ot_expires_at = 50\<rparr>"

definition demo_begin :: "(DieselError + OidcLoginTransaction option) \<times> db" where
  "demo_begin = OidcLoginTransactionRepository_create_bounded demo_pending 10 1 calm (mk_db access_tables)"

lemma demo_begin_eq: "OidcLoginTransactionRepository_create_bounded demo_pending 10 1 calm (mk_db access_tables)
    = (Inr (projr (fst demo_begin)), snd demo_begin)"
proof -
  have "\<not> isl (fst demo_begin)" by code_simp
  from outcome_Inr [OF this] show ?thesis by (simp add: demo_begin_def)
qed

theorem pending_logins_bounded_witness:
  "int (length (rows (oidc_login_transactions (tabs (snd demo_begin))))) \<le> 1
   \<and> projr (fst demo_begin) \<noteq> None"
proof -
  have "projr (fst demo_begin) \<noteq> None" by code_simp
  with pending_logins_bounded [OF demo_begin_eq] show ?thesis by (auto split: option.splits)
qed

definition demo_consume :: "(DieselError + OidcLoginTransaction) \<times> db" where
  "demo_consume = OidcLoginTransactionRepository_consume ''s'' ''b'' 20 calm (snd demo_begin)"

lemma demo_consume_eq: "OidcLoginTransactionRepository_consume ''s'' ''b'' 20 calm (snd demo_begin)
    = (Inr (projr (fst demo_consume)), snd demo_consume)"
proof -
  have "\<not> isl (fst demo_consume)" by code_simp
  from outcome_Inr [OF this] show ?thesis by (simp add: demo_consume_def)
qed

theorem login_transaction_is_single_use_witness:
  "consumable ''s'' ''b'' 20 (projr (fst demo_consume))
   \<and> (\<exists>e. fst (OidcLoginTransactionRepository_consume ''s'' ''b'' 30 calm (snd demo_consume)) = Inl e)"
proof -
  have d: "distinct (map ot_state_hash (rows (oidc_login_transactions (tabs (snd demo_begin)))))"
    by code_simp
  obtain r s where again: "OidcLoginTransactionRepository_consume ''s'' ''b'' 30 calm (snd demo_consume) = (r, s)"
    by force
  note used = login_transaction_is_single_use [OF demo_consume_eq d, simplified]
  then have "\<exists>e. r = Inl e" using again by blast
  with used again show ?thesis by simp
qed

section \<open>Password login\<close>

definition demo_login :: "(ApiError + LoginResponse \<times> cookie_change list) \<times> db" where
  "demo_login = login demo_au demo_world demo_config demo_client demo_credentials calm (mk_db access_tables)"

lemma demo_login_eq: "login demo_au demo_world demo_config demo_client demo_credentials calm (mk_db access_tables)
    = (Inr (fst (projr (fst demo_login)), snd (projr (fst demo_login))), snd demo_login)"
proof -
  have "\<not> isl (fst demo_login)" by code_simp
  from outcome_Inr [OF this] show ?thesis by (simp add: demo_login_def)
qed

theorem login_requires_the_password_witness:
  "(\<exists>u. u \<in> set (rows (users access_tables)) \<and> us_password u = ''secret'')
   \<and> (\<exists>x. x \<in> set (rows (sessions (tabs (snd demo_login)))) \<and> se_user_id x = 1)
   \<and> sessions (tabs (snd (login demo_au demo_world demo_config demo_client
        (demo_credentials\<lparr>cr_password := ''guess''\<rparr>) calm (mk_db access_tables)))) = sessions access_tables"
proof -
  have u: "rows (users access_tables) = [demo_user]" and t: "tabs (mk_db access_tables) = access_tables"
    by (simp_all add: access_tables_def mk_db_def)
  let ?bad = "login demo_au demo_world demo_config demo_client (demo_credentials\<lparr>cr_password := ''guess''\<rparr>)
      calm (mk_db access_tables)"
  have "isl (fst ?bad)" by code_simp
  then obtain e where e: "?bad = (Inl e, snd ?bad)" by (metis isl_def prod.collapse)
  have "sessions (tabs (snd ?bad)) = sessions access_tables"
    using login_requires_the_password [OF calm_env(2) access_ids, where cr = "demo_credentials\<lparr>cr_password := ''guess''\<rparr>"
        and au = demo_au and w = demo_world and config = demo_config and client = demo_client]
    by (subst (asm) e) (simp add: t)
  moreover have "(\<exists>u. u \<in> set (rows (users access_tables)) \<and> us_password u = ''secret'')
     \<and> (\<exists>x. x \<in> set (rows (sessions (tabs (snd demo_login)))) \<and> se_user_id x = 1)"
    using login_requires_the_password [OF calm_env(2) access_ids, where cr = demo_credentials
        and au = demo_au and w = demo_world and config = demo_config and client = demo_client]
    unfolding demo_login_eq t u
    by (auto simp: demo_au_def demo_credentials_def demo_user_def dest: first_row_Some)
  ultimately show ?thesis by blast
qed

definition demo_cookie :: cookie where
  "demo_cookie = session_cookie ''c0dec0de'' demo_config"

definition demo_request :: request where
  "demo_request = \<lparr>rq_method = Post, rq_authorization = [],
     rq_cookie = (\<lambda>name. if name = ''__Host-idp_session'' then Some ''c0dec0de'' else None),
     rq_csrf = Some ''1''\<rparr>"

lemma demo_uuids: "\<forall>i j. \<not> is_blank (au_uuid demo_au i @ au_uuid demo_au j)"
proof -
  have "\<not> is_blank ''c0dec0de''" by code_simp
  then show ?thesis by (simp add: demo_au_def)
qed

theorem login_cookie_authenticates_witness:
  "\<exists>auth s. from_request demo_au (Some demo_config) (\<lambda>_. Connected) demo_request calm (snd demo_login)
     = (Inr auth, s) \<and> us_id (au_user auth) = 1"
proof -
  have c: "CookieAdd demo_cookie \<in> set (snd (projr (fst demo_login)))"
    and l: "\<not> tx_aborted (snd demo_login)" and e: "5 < lr_expires_at (fst (projr (fst demo_login)))" by code_simp+
  have u: "rows (users (tabs (mk_db access_tables))) = [demo_user]" by (simp add: access_tables_def mk_db_def)
  have "\<exists>auth s3 u. from_request demo_au (Some demo_config) (\<lambda>_. Connected) demo_request calm (snd demo_login)
      = (Inr auth, s3) \<and> u \<in> set (rows (users (tabs (mk_db access_tables)))) \<and> us_id (au_user auth) = us_id u
      \<and> au_sql_lower demo_au (us_username u)
        = canonical_username demo_au (canonical_username demo_au (cr_username demo_credentials))
      \<and> au_verify demo_au (us_password u) (cr_password demo_credentials) = Inr True"
    by (rule login_cookie_authenticates [OF calm_env(2) access_ids demo_uuids demo_login_eq c _ _ _
          calm_env(1,2) l])
      (use e in \<open>simp_all add: demo_request_def demo_cookie_def session_cookie_def session_cookie_name_def
        demo_config_def PRODUCTION_SESSION_COOKIE_NAME_def calm_def\<close>)
  then show ?thesis by (auto simp: u demo_user_def)
qed

definition demo_auth :: "(guard_failure + AuthenticatedUser) \<times> db" where
  "demo_auth = from_request demo_au (Some demo_config) (\<lambda>_. Connected) demo_request calm (snd demo_login)"

lemma demo_auth_eq:
  "from_request demo_au (Some demo_config) (\<lambda>_. Connected) demo_request calm (snd demo_login)
    = (Inr (projr (fst demo_auth)), snd demo_auth)"
proof -
  have "\<not> isl (fst demo_auth)" by code_simp
  from outcome_Inr [OF this] show ?thesis by (simp add: demo_auth_def)
qed

theorem authenticated_request_witness:
  "au_session (projr (fst demo_auth)) \<in> set (rows (sessions (tabs (snd demo_login))))
   \<and> presents demo_request demo_config (au_token (projr (fst demo_auth)))
   \<and> tabs (snd demo_auth) = tabs (snd demo_login)"
  using authenticated_request [OF demo_auth_eq calm_env(2)] by blast

section \<open>Logout\<close>

definition demo_logout :: "(ApiError + cookie_change list) \<times> db" where
  "demo_logout = logout demo_au demo_config (projr (fst demo_auth)) calm (snd demo_login)"

lemma demo_logout_eq: "logout demo_au demo_config (projr (fst demo_auth)) calm (snd demo_login)
    = (Inr (projr (fst demo_logout)), snd demo_logout)"
proof -
  have "\<not> isl (fst demo_logout)" by code_simp
  from outcome_Inr [OF this] show ?thesis by (simp add: demo_logout_def)
qed

theorem logout_revokes_the_token_witness:
  "rows (sessions (tabs (snd demo_logout))) = filter (\<lambda>x. se_token_hash x
      \<noteq> session_token_hash demo_au (au_token (projr (fst demo_auth)))) (rows (sessions (tabs (snd demo_login))))
   \<and> \<not> (\<exists>auth s. from_request demo_au (Some demo_config) (\<lambda>_. Connected) demo_request calm (snd demo_logout)
      = (Inr auth, s) \<and> au_token auth = au_token (projr (fst demo_auth)))"
proof -
  note out = logout_revokes_the_token [OF calm_env(2) demo_logout_eq]
  have "au_token later \<noteq> au_token (projr (fst demo_auth))"
    if "from_request demo_au (Some demo_config) (\<lambda>_. Connected) demo_request calm (snd demo_logout) = (Inr later, s)"
    for later s
    using conjunct2 [OF conjunct2 [OF out], rule_format, OF calm_env(2) _ that] by blast
  with out show ?thesis by blast
qed

definition demo_revoke :: "(ApiError + nat \<times> cookie_change list) \<times> db" where
  "demo_revoke = revoke_all_sessions demo_config (projr (fst demo_auth)) calm (snd demo_login)"

lemma demo_revoke_eq: "revoke_all_sessions demo_config (projr (fst demo_auth)) calm (snd demo_login)
    = (Inr (fst (projr (fst demo_revoke)), snd (projr (fst demo_revoke))), snd demo_revoke)"
proof -
  have "\<not> isl (fst demo_revoke)" by code_simp
  from outcome_Inr [OF this] show ?thesis by (simp add: demo_revoke_def)
qed

theorem revoke_all_signs_the_user_out_witness:
  "rows (sessions (tabs (snd demo_revoke))) = []
   \<and> \<not> (\<exists>auth s. from_request demo_au (Some demo_config) (\<lambda>_. Connected) demo_request calm (snd demo_revoke)
      = (Inr auth, s) \<and> us_id (au_user auth) = us_id (au_user (projr (fst demo_auth))))"
proof -
  note out = revoke_all_signs_the_user_out [OF calm_env(2) demo_revoke_eq]
  have "us_id (au_user later) \<noteq> us_id (au_user (projr (fst demo_auth)))"
    if "from_request demo_au (Some demo_config) (\<lambda>_. Connected) demo_request calm (snd demo_revoke) = (Inr later, s)"
    for later s
    using conjunct2 [OF conjunct2 [OF out], rule_format, OF calm_env(2) _ that] by blast
  moreover have "filter (\<lambda>x. se_user_id x \<noteq> us_id (au_user (projr (fst demo_auth))))
      (rows (sessions (tabs (snd demo_login)))) = []" by code_simp
  ultimately show ?thesis using out by auto
qed

section \<open>A locked account\<close>

definition locked_bucket :: LoginThrottleBucket where
  "locked_bucket = \<lparr>lt_bucket_hash = tb_account (login_throttle_buckets_for demo_au
       (canonical_username demo_au ''ada'') (Some ''10.0.0.1'')), lt_failure_count = 50,
     lt_window_started_at = 0, lt_locked_until = Some (5 + seconds 60), lt_updated_at = 0\<rparr>"

definition locked_db :: db where
  "locked_db = mk_db (access_tables\<lparr>login_throttle_buckets := \<lparr>rows = [locked_bucket], seq = 1\<rparr>\<rparr>)"


section \<open>Just-in-time provisioning\<close>

definition demo_identity :: NewExternalIdentity where
  "demo_identity = \<lparr>ei_user_id = 0, ei_provider = ''entra'', ei_issuer = ''issuer'', ei_subject = Some ''sub'',
     ei_tenant_id = ''tenant'', ei_object_id = ''object'', ei_preferred_username = None,
     ei_display_name = None, ei_email = None, ei_last_login_at = None\<rparr>"

definition demo_jit :: "(DieselError + JitProvisionedIdentity) \<times> db" where
  "demo_jit = ExternalIdentityRepository_find_or_create_jit_user demo_au (\<lambda>t x. t @ x)
     \<lparr>us_username = ''bob'', us_password = ''!''\<rparr> demo_identity calm (mk_db access_tables)"

lemma demo_jit_eq: "ExternalIdentityRepository_find_or_create_jit_user demo_au (\<lambda>t x. t @ x)
     \<lparr>us_username = ''bob'', us_password = ''!''\<rparr> demo_identity calm (mk_db access_tables)
    = (Inr (projr (fst demo_jit)), snd demo_jit)"
proof -
  have "\<not> isl (fst demo_jit)" by code_simp
  from outcome_Inr [OF this] show ?thesis by (simp add: demo_jit_def)
qed

definition demo_jit_again :: "(DieselError + JitProvisionedIdentity) \<times> db" where
  "demo_jit_again = ExternalIdentityRepository_find_or_create_jit_user demo_au (\<lambda>t x. t @ x)
     \<lparr>us_username = ''bob'', us_password = ''!''\<rparr> demo_identity calm (snd demo_jit)"

lemma demo_jit_again_eq: "ExternalIdentityRepository_find_or_create_jit_user demo_au (\<lambda>t x. t @ x)
     \<lparr>us_username = ''bob'', us_password = ''!''\<rparr> demo_identity calm (snd demo_jit)
    = (Inr (projr (fst demo_jit_again)), snd demo_jit_again)"
proof -
  have "\<not> isl (fst demo_jit_again)" by code_simp
  from outcome_Inr [OF this] show ?thesis by (simp add: demo_jit_again_def)
qed

theorem jit_provisioning_is_idempotent_witness:
  "rows (users (tabs (snd demo_jit))) = rows (users access_tables) @ [jp_user (projr (fst demo_jit))]
   \<and> jp_user (projr (fst demo_jit_again)) = jp_user (projr (fst demo_jit))
   \<and> tabs (snd demo_jit_again) = tabs (snd demo_jit)"
proof -
  have new: "jp_created (projr (fst demo_jit))" by code_simp
  have ids: "list_all (\<lambda>u. us_id u < seq (users (tabs (mk_db access_tables))))
      (rows (users (tabs (mk_db access_tables))))" by code_simp
  have e: "ei_provider demo_identity = ''entra''" by (simp add: demo_identity_def)
  have t: "tabs (mk_db access_tables) = access_tables" by (simp add: mk_db_def)
  note jit = jit_provisioning_is_idempotent [OF demo_jit_eq calm_env(3,3) e refl refl ids]
  have "jp_user (projr (fst demo_jit_again)) = jp_user (projr (fst demo_jit))
      \<and> tabs (snd demo_jit_again) = tabs (snd demo_jit)"
    using conjunct2 [OF conjunct2 [OF jit], rule_format, OF refl refl demo_jit_again_eq] by blast
  with jit new t show ?thesis by metis
qed

end
