(* ===== verification/Work.thy ===== *)
theory Work
  imports Inbox
begin

text \<open>
  \<^verbatim>\<open>src/src/rocket_routes/work_cards.rs\<close> and \<^verbatim>\<open>calendar_events.rs\<close>: the lists and pages of work cards, the
  administration of cards, and the calendar window.
\<close>

section \<open>My work\<close>

definition DEFAULT_MY_WORK_PAGE_SIZE :: i64 where
  "DEFAULT_MY_WORK_PAGE_SIZE = 25"

definition MAX_MY_WORK_PAGE_SIZE :: i64 where
  "MAX_MY_WORK_PAGE_SIZE = 100"

definition MAX_MY_WORK_PAGE :: i64 where
  "MAX_MY_WORK_PAGE = 1000000"

record MyWorkCardQuery =
  mq_status :: "string option"
  mq_due :: "string option"
  mq_project :: "string option"
  mq_work_item_type :: "string option"
  mq_source :: "string option"
  mq_sort :: "string option"
  mq_page :: "i64 option"
  mq_page_size :: "i64 option"

definition validate_optional_choice ::
    "string \<Rightarrow> string option \<Rightarrow> string list \<Rightarrow> violations \<Rightarrow> violations" where
  "validate_optional_choice field value allowed errors =
     (case value of
        Some v \<Rightarrow> push_if (trim v \<notin> set allowed) field (''must be one of '' @ join_str '', '' allowed) errors
      | None \<Rightarrow> errors)"

definition not_blank_when_given :: "string \<Rightarrow> string option \<Rightarrow> violations \<Rightarrow> violations" where
  "not_blank_when_given field value errors =
     push_if (case value of Some v \<Rightarrow> trim v = [] | None \<Rightarrow> False) field ''must not be empty when provided'' errors"

definition MyWorkCardQuery_validate :: "MyWorkCardQuery \<Rightarrow> violations" where
  "MyWorkCardQuery_validate q = checks
     [validate_optional_choice ''status'' (mq_status q) [''todo'', ''in_progress'', ''blocked'', ''done''],
      validate_optional_choice ''due'' (mq_due q) [''overdue'', ''today'', ''next_7_days'', ''none''],
      validate_optional_choice ''sort'' (mq_sort q) [''attention'', ''due_asc'', ''source_updated_desc''],
      max_optional_len ''project'' (mq_project q) 128,
      max_optional_len ''work_item_type'' (mq_work_item_type q) 128,
      max_optional_len ''source'' (mq_source q) 64,
      not_blank_when_given ''project'' (mq_project q),
      not_blank_when_given ''work_item_type'' (mq_work_item_type q),
      not_blank_when_given ''source'' (mq_source q),
      push_if (outside_range (mq_page q) 1 MAX_MY_WORK_PAGE) ''page''
        (''must be from 1 to '' @ show_int MAX_MY_WORK_PAGE),
      push_if (outside_range (mq_page_size q) 1 MAX_MY_WORK_PAGE_SIZE) ''page_size''
        (''must be from 1 to '' @ show_int MAX_MY_WORK_PAGE_SIZE)]"

definition trimmed :: "string option \<Rightarrow> string option" where
  "trimmed value = map_option trim value"

definition parse_due :: "string option \<Rightarrow> ApiError + WorkCardDueFilter option" where
  "parse_due due =
     (case map_option trim due of
        None \<Rightarrow> Inr None
      | Some d \<Rightarrow>
          if d = ''overdue'' then Inr (Some Overdue) else if d = ''today'' then Inr (Some Today)
          else if d = ''next_7_days'' then Inr (Some NextSevenDays)
          else if d = ''none'' then Inr (Some NoDueDate) else Inl BadRequest)"

definition parse_sort :: "string option \<Rightarrow> ApiError + WorkCardSort" where
  "parse_sort s =
     (case map_option trim s of
        None \<Rightarrow> Inr Attention
      | Some d \<Rightarrow>
          if d = ''due_asc'' then Inr DueAsc else if d = ''source_updated_desc'' then Inr SourceUpdatedDesc
          else if d = ''attention'' then Inr Attention else Inl BadRequest)"

text \<open>Midnight (UTC) of the day of a time.\<close>

definition day_start :: "utc \<Rightarrow> utc" where
  "day_start now = days (now div days 1)"

record MyWorkCardsResponse =
  mw_items :: "WorkCard list"
  mw_total :: nat
  mw_page :: i64
  mw_page_size :: i64
  mw_facets :: MyWorkCardFacetValues

definition get_work_cards :: "AuthenticatedUser \<Rightarrow> WorkCard list api" where
  "get_work_cards auth =
     bindM (record_access_scope auth) (\<lambda>access.
     callM (WorkCardRepository_find_multiple_for_access 100 access))"

definition get_my_work_cards :: "AuthenticatedUser \<Rightarrow> MyWorkCardQuery \<Rightarrow> MyWorkCardsResponse api" where
  "get_my_work_cards auth query =
     bindM (checked MyWorkCardQuery_validate query) (\<lambda>query.
     bindM (record_access_scope auth) (\<lambda>access.
     let page = (case mq_page query of Some p \<Rightarrow> p | None \<Rightarrow> 1);
         page_size = (case mq_page_size query of Some p \<Rightarrow> p | None \<Rightarrow> DEFAULT_MY_WORK_PAGE_SIZE) in
     bindM utc_now (\<lambda>now.
     let today_start = day_start now in
     bindM (resultM (parse_due (mq_due query))) (\<lambda>due.
     bindM (resultM (parse_sort (mq_sort query))) (\<lambda>sorting.
     let filters = \<lparr>mf_status = trimmed (mq_status query), mf_due = due, mf_project = trimmed (mq_project query),
           mf_work_item_type = trimmed (mq_work_item_type query), mf_source = trimmed (mq_source query),
           mf_sort = sorting, mf_today_start = today_start, mf_tomorrow_start = today_start + days 1,
           mf_next_seven_days_end = today_start + days 7\<rparr> in
     bindM (callM (WorkCardRepository_find_my_work access filters page page_size)) (\<lambda>found.
     bindM (callM (WorkCardRepository_my_work_facets access)) (\<lambda>facets.
     retM \<lparr>mw_items = mp_items found, mw_total = mp_total found, mw_page = page, mw_page_size = page_size,
           mw_facets = facets\<rparr>)))))))"

section \<open>Work cards\<close>

definition view_work_card :: "AuthenticatedUser \<Rightarrow> i32 \<Rightarrow> WorkCard api" where
  "view_work_card auth i =
     bindM (callM (WorkCardRepository_find i)) (\<lambda>w.
     bindM (record_access_scope auth) (\<lambda>access.
     if \<not> allows access (wc_owner_user_id w) (wc_maintainer_id w) then throwM NotFound else retM w))"

definition work_card_metadata :: "WorkCard \<Rightarrow> (string \<times> json) list" where
  "work_card_metadata w = [(''source'', JString (wc_source w)), (''status'', JString (wc_status w)),
     (''priority'', JString (wc_priority w))]"

definition create_work_card :: "weblib \<Rightarrow> AuthenticatedUser \<Rightarrow> NewWorkCard \<Rightarrow> WorkCard api" where
  "create_work_card wl auth new_work_card =
     bindM (require_admin auth) (\<lambda>_.
     bindM (checked NewWorkCard_validate new_work_card) (\<lambda>new_work_card.
     bindM (callM (WorkCardRepository_create new_work_card)) (\<lambda>w.
     bindM (record_audit_log wl auth ''create'' ''work_card'' (wc_id w) (work_card_metadata w)) (\<lambda>_.
     retM w))))"

definition update_work_card :: "weblib \<Rightarrow> AuthenticatedUser \<Rightarrow> i32 \<Rightarrow> NewWorkCard \<Rightarrow> WorkCard api" where
  "update_work_card wl auth i work_card =
     bindM (require_admin auth) (\<lambda>_.
     bindM (checked NewWorkCard_validate work_card) (\<lambda>work_card.
     bindM (callM (WorkCardRepository_find i)) (\<lambda>existing.
     let work_card = work_card\<lparr>wc_connector_id := wc_connector_id existing,
           wc_owner_user_id := wc_owner_user_id existing, wc_maintainer_id := wc_maintainer_id existing,
           wc_assignee_source_id := wc_assignee_source_id existing,
           wc_assignee_user_id := wc_assignee_user_id existing,
           wc_source_updated_at := wc_source_updated_at existing,
           wc_last_seen_run_id := wc_last_seen_run_id existing, wc_archived_at := wc_archived_at existing\<rparr> in
     bindM (callM (WorkCardRepository_update i work_card)) (\<lambda>w.
     bindM (record_audit_log wl auth ''update'' ''work_card'' (wc_id w) (work_card_metadata w)) (\<lambda>_.
     retM w)))))"

definition delete_work_card :: "weblib \<Rightarrow> AuthenticatedUser \<Rightarrow> i32 \<Rightarrow> unit api" where
  "delete_work_card wl auth i =
     bindM (require_admin auth) (\<lambda>_.
     bindM (callM (WorkCardRepository_find i)) (\<lambda>w.
     bindM (callM (WorkCardRepository_delete i)) (\<lambda>_.
     record_audit_log wl auth ''delete'' ''work_card'' i
       [(''source'', JString (wc_source w)), (''status'', JString (wc_status w))])))"

section \<open>Calendar\<close>

definition CALENDAR_WINDOW_BEFORE_HOURS :: i64 where
  "CALENDAR_WINDOW_BEFORE_HOURS = 18"

definition CALENDAR_WINDOW_AFTER_HOURS :: i64 where
  "CALENDAR_WINDOW_AFTER_HOURS = 42"

definition get_calendar_events :: "AuthenticatedUser \<Rightarrow> CalendarEvent list api" where
  "get_calendar_events auth =
     bindM (record_access_scope auth) (\<lambda>access.
     bindM utc_now (\<lambda>now.
     callM (CalendarEventRepository_find_upcoming_for_access 100
              (now - seconds (3600 * CALENDAR_WINDOW_BEFORE_HOURS))
              (now + seconds (3600 * CALENDAR_WINDOW_AFTER_HOURS)) None None access)))"

definition view_calendar_event :: "AuthenticatedUser \<Rightarrow> i32 \<Rightarrow> CalendarEvent api" where
  "view_calendar_event auth i =
     bindM (callM (CalendarEventRepository_find i)) (\<lambda>event.
     bindM (record_access_scope auth) (\<lambda>access.
     if ce_archived_at event \<noteq> None \<or> \<not> allows access (ce_owner_user_id event) (ce_maintainer_id event)
     then throwM NotFound else retM event))"

end
