(* ===== verification/Work_Properties.thy ===== *)
theory Work_Properties
  imports Work "HOL-Library.Multiset"
begin

text \<open>
  Lists of work: the pages of the list of a user make up the list, which holds exactly the cards the
  user is assigned and may see; and where the order by attention puts cards without a due date.
\<close>

section \<open>Pages\<close>

lemma upto_snoc: "[1..int (Suc k)] = [1..int k] @ [int (Suc k)]"
  by (simp add: upto_rec2)

lemma pages_concat:
  assumes "0 < page_size"
  shows "concat (map (\<lambda>p. page_of p page_size xs) [1..int k]) = take (k * nat page_size) xs"
proof (induction k)
  case 0
  then show ?case by simp
next
  case (Suc k)
  have "nat ((int (Suc k) - 1) * page_size) = k * nat page_size" using assms by (simp add: nat_mult_distrib)
  then have "page_of (int (Suc k)) page_size xs = take (nat page_size) (drop (k * nat page_size) xs)"
    by (simp add: page_of_def)
  moreover have "take (Suc k * nat page_size) xs
      = take (k * nat page_size) xs @ take (nat page_size) (drop (k * nat page_size) xs)"
    using take_add [of "k * nat page_size" "nat page_size" xs] by (simp add: add.commute)
  ultimately show ?case using Suc unfolding upto_snoc by simp
qed

lemma find_my_work_Inr:
  assumes "WorkCardRepository_find_my_work access f p page_size env s = (Inr pg, s')"
  shows "mp_items pg = page_of p page_size (apply_my_work_sort f (apply_my_work_filters f (my_work_base_query access (tabs s))))
    \<and> mp_total pg = length (apply_my_work_filters f (my_work_base_query access (tabs s)))"
  using assms unfolding WorkCardRepository_find_my_work_def bindM_Inr_iff
  by (auto dest!: select_stmt_Inr)

text \<open>The cards of the list of a user and the order they stand in, as the parameters of a request describe
  them: cards that are not archived, assigned to the user and visible to the user, with the requested status,
  project, type, source and due date; by due date with the undated ones last and then by id, by the last change
  at the source with the unknown ones last and then by descending id, or by attention.\<close>

definition due_as :: "MyWorkCardFilters \<Rightarrow> WorkCard \<Rightarrow> bool" where
  "due_as f w \<longleftrightarrow> (case (mf_due f, wc_due_at w) of
       (None, _) \<Rightarrow> True
     | (Some NoDueDate, d) \<Rightarrow> d = None
     | (Some Overdue, Some d) \<Rightarrow> d < mf_today_start f \<and> wc_status w \<noteq> ''done''
     | (Some Today, Some d) \<Rightarrow> mf_today_start f \<le> d \<and> d < mf_tomorrow_start f
     | (Some NextSevenDays, Some d) \<Rightarrow> mf_today_start f \<le> d \<and> d < mf_next_seven_days_end f
     | _ \<Rightarrow> False)"

definition on_my_list :: "RecordAccessScope \<Rightarrow> MyWorkCardFilters \<Rightarrow> WorkCard \<Rightarrow> bool" where
  "on_my_list access f w \<longleftrightarrow> wc_archived_at w = None \<and> wc_assignee_user_id w = Some (as_user_id access)
     \<and> allows access (wc_owner_user_id w) (wc_maintainer_id w)
     \<and> mf_status f \<in> {None, Some (wc_status w)} \<and> mf_source f \<in> {None, Some (wc_source w)}
     \<and> (mf_project f = None \<or> mf_project f = wc_project w)
     \<and> (mf_work_item_type f = None \<or> mf_work_item_type f = wc_work_item_type w) \<and> due_as f w"

definition listed_before :: "MyWorkCardFilters \<Rightarrow> WorkCard \<Rightarrow> WorkCard \<Rightarrow> bool" where
  "listed_before f v w \<longleftrightarrow>
     (case mf_sort f of
        Attention \<Rightarrow> attention_key (mf_today_start f) v < attention_key (mf_today_start f) w
      | DueAsc \<Rightarrow>
          (case (wc_due_at v, wc_due_at w) of
             (Some a, Some b) \<Rightarrow> a < b \<or> a = b \<and> wc_id v < wc_id w
           | (Some a, None) \<Rightarrow> True | (None, Some b) \<Rightarrow> False | (None, None) \<Rightarrow> wc_id v < wc_id w)
      | SourceUpdatedDesc \<Rightarrow>
          (case (wc_source_updated_at v, wc_source_updated_at w) of
             (Some a, Some b) \<Rightarrow> b < a \<or> a = b \<and> wc_id w < wc_id v
           | (Some a, None) \<Rightarrow> True | (None, Some b) \<Rightarrow> False | (None, None) \<Rightarrow> wc_id w < wc_id v))"

text \<open>Each order compares the id last, so that it orders cards with different ids strictly.\<close>

lemma sort_key_unique:
  fixes key :: "'r \<Rightarrow> 'k :: linorder"
  assumes "mset xs = mset ys" and "inj_on key (set xs)"
  shows "sort_key key xs = sort_key key ys"
  using assms by (intro sort_key_inj_key_eq) simp_all

lemma sort_key_strict:
  fixes key :: "'r \<Rightarrow> 'k :: linorder"
  assumes "distinct xs" and "inj_on key (set xs)" and "\<And>x y. key x < key y \<Longrightarrow> P x y"
  shows "sorted_wrt P (sort_key key xs)"
proof -
  have "sorted (map key (sort_key key xs))" "distinct (map key (sort_key key xs))"
    using assms(1,2) by (simp_all add: distinct_map)
  then have "sorted_wrt (<) (map key (sort_key key xs))" by (simp add: strict_sorted_iff)
  then show ?thesis unfolding sorted_wrt_map by (rule sorted_wrt_mono_rel [rotated]) (use assms(3) in auto)
qed

lemma my_work_keys_inj:
  assumes "inj_on wc_id S"
  shows "inj_on (attention_key today) S" "inj_on (\<lambda>w. (nulls_last (wc_due_at w), wc_id w)) S"
    "inj_on (\<lambda>w. (desc_nulls_last (wc_source_updated_at w), - wc_id w)) S"
  using assms by (simp_all add: inj_on_def attention_key_def)

lemma my_work_sort_unique:
  assumes "mset ws = mset vs" and "inj_on wc_id (set ws)"
  shows "apply_my_work_sort f ws = apply_my_work_sort f vs"
  using sort_key_unique [OF assms(1) my_work_keys_inj(1) [OF assms(2)]]
    sort_key_unique [OF assms(1) my_work_keys_inj(2) [OF assms(2)]]
    sort_key_unique [OF assms(1) my_work_keys_inj(3) [OF assms(2)]]
  by (cases "mf_sort f") (simp_all add: apply_my_work_sort_def)

lemma my_work_keys_order:
  "mf_sort f = Attention \<Longrightarrow> attention_key (mf_today_start f) v < attention_key (mf_today_start f) w \<Longrightarrow> listed_before f v w"
  "mf_sort f = DueAsc \<Longrightarrow> (nulls_last (wc_due_at v), wc_id v) < (nulls_last (wc_due_at w), wc_id w) \<Longrightarrow> listed_before f v w"
  "mf_sort f = SourceUpdatedDesc \<Longrightarrow> (desc_nulls_last (wc_source_updated_at v), - wc_id v)
     < (desc_nulls_last (wc_source_updated_at w), - wc_id w) \<Longrightarrow> listed_before f v w"
  by (auto simp: listed_before_def nulls_last_def desc_nulls_last_def split: option.splits)

lemma my_work_sort_order:
  assumes "distinct ws" and "inj_on wc_id (set ws)"
  shows "sorted_wrt (listed_before f) (apply_my_work_sort f ws)"
proof (cases "mf_sort f")
  case Attention
  show ?thesis unfolding apply_my_work_sort_def Attention WorkCardSort.case
    by (rule sort_key_strict [OF assms(1) my_work_keys_inj(1) [OF assms(2)] my_work_keys_order(1) [OF Attention]])
next
  case DueAsc
  show ?thesis unfolding apply_my_work_sort_def DueAsc WorkCardSort.case
    by (rule sort_key_strict [OF assms(1) my_work_keys_inj(2) [OF assms(2)] my_work_keys_order(2) [OF DueAsc]])
next
  case SourceUpdatedDesc
  show ?thesis unfolding apply_my_work_sort_def SourceUpdatedDesc WorkCardSort.case
    by (rule sort_key_strict [OF assms(1) my_work_keys_inj(3) [OF assms(2)] my_work_keys_order(3) [OF SourceUpdatedDesc]])
qed

lemma sort_set: "mset (apply_my_work_sort f ws) = mset ws" "length (apply_my_work_sort f ws) = length ws"
  by (cases "mf_sort f"; simp add: apply_my_work_sort_def)+

lemma my_work_found:
  assumes "list_all (\<lambda>w. record_scope_check (wc_owner_user_id w) (wc_maintainer_id w)) (rows (work_cards t))"
  shows "apply_my_work_filters f (my_work_base_query access t) = filter (on_my_list access f) (rows (work_cards t))"
proof -
  have acc: "card_access access w = allows access (wc_owner_user_id w) (wc_maintainer_id w)" if "w \<in> set (rows (work_cards t))" for w
    using that assms access_filter_allows by (simp add: card_access_def list_all_iff)
  have due: "due_matches f w = due_as f w" for w
    by (auto simp: due_matches_def due_as_def due_before_def due_in_def split: option.splits WorkCardDueFilter.splits)
  have opt: "matches_opt x y = (x \<in> {None, Some y})" for x y by (auto simp: matches_opt_def split: option.splits)
  have proj: "(case p of Some q \<Rightarrow> r = Some q | None \<Rightarrow> True) = (p = None \<or> p = r)" for p r :: "string option"
    by (auto split: option.splits)
  show ?thesis unfolding apply_my_work_filters_def my_work_base_query_def filter_filter
    by (rule filter_cong [OF refl]) (simp only: acc due opt proj on_my_list_def, blast)
qed

text \<open>C31: Read one after the other, the pages of the work of a user make up one list without gaps or
  repetitions, even if the database returns the rows of the table in another order for each page: every card
  that is not archived, is assigned to the user, may be seen by the user and fits the requested status, project,
  type, source and due date stands on it exactly once, no other card does, its length is the total every page
  reports, and it is in the requested order, which compares the ids of cards that are alike otherwise.\<close>

theorem my_work_pages_make_up_the_list:
  assumes "0 < page_size" and "1 \<le> k"
    and runs: "\<And>p. \<exists>env s s'. mset (rows (work_cards (tabs s))) = mset cards
      \<and> WorkCardRepository_find_my_work access f p page_size env s = (Inr (pg p), s')"
    and enough: "mp_total (pg 1) \<le> k * nat page_size"
    and ids: "distinct (map wc_id cards)"
    and scopes: "list_all (\<lambda>w. record_scope_check (wc_owner_user_id w) (wc_maintainer_id w)) cards"
  shows "set (concat (map (mp_items \<circ> pg) [1..int k])) = {w \<in> set cards. on_my_list access f w}
    \<and> distinct (map wc_id (concat (map (mp_items \<circ> pg) [1..int k])))
    \<and> length (concat (map (mp_items \<circ> pg) [1..int k])) = mp_total (pg i)
    \<and> sorted_wrt (listed_before f) (concat (map (mp_items \<circ> pg) [1..int k]))"
proof -
  let ?found = "filter (on_my_list access f) cards"
  let ?list = "apply_my_work_sort f ?found"
  have inj: "inj_on wc_id (set ?found)" and dist: "distinct ?found" "distinct (map wc_id ?found)"
    using ids by (auto simp: distinct_map inj_on_def)
  have pg: "mp_items (pg p) = page_of p page_size ?list" "mp_total (pg p) = length ?found" for p
  proof -
    obtain env s s' where perm: "mset (rows (work_cards (tabs s))) = mset cards"
      and run: "WorkCardRepository_find_my_work access f p page_size env s = (Inr (pg p), s')" using runs by blast
    have "set (rows (work_cards (tabs s))) = set cards" using perm by (metis set_mset_mset)
    then have found: "apply_my_work_filters f (my_work_base_query access (tabs s))
        = filter (on_my_list access f) (rows (work_cards (tabs s)))"
      using scopes by (intro my_work_found) (simp add: list_all_iff)
    have same: "mset (filter (on_my_list access f) (rows (work_cards (tabs s)))) = mset ?found" using perm by simp
    then have "apply_my_work_sort f (filter (on_my_list access f) (rows (work_cards (tabs s)))) = ?list"
      using my_work_sort_unique [OF same [symmetric] inj] by simp
    then show "mp_items (pg p) = page_of p page_size ?list" "mp_total (pg p) = length ?found"
      using find_my_work_Inr [OF run] mset_eq_length [OF same] found by simp_all
  qed
  have "concat (map (mp_items \<circ> pg) [1..int k]) = take (k * nat page_size) ?list"
    using pages_concat [OF assms(1)] by (simp add: pg comp_def)
  also have "\<dots> = ?list" using enough by (simp add: pg sort_set)
  finally have all: "concat (map (mp_items \<circ> pg) [1..int k]) = ?list" .
  have "set ?list = {w \<in> set cards. on_my_list access f w}"
    using arg_cong [OF sort_set(1), of set_mset f ?found] by simp
  moreover have "mset (map wc_id ?list) = mset (map wc_id ?found)" using sort_set(1) by simp
  then have "distinct (map wc_id ?list)" using dist(2) by (metis mset_eq_imp_distinct_iff)
  ultimately show ?thesis using all my_work_sort_order [OF dist(1) inj] by (simp add: pg sort_set)
qed

section \<open>The order by attention\<close>

lemma sorted_before:
  fixes key :: "'r \<Rightarrow> 'k :: linorder"
  assumes "sorted (map key l)" "a \<in> set l" "b \<in> set l" "key a < key b"
  shows "\<exists>xs ys zs. l = xs @ a # ys @ b # zs"
proof -
  obtain xs ys where l: "l = xs @ a # ys" using assms(2) by (meson split_list)
  have "b \<notin> set xs" using assms(1,4) by (auto simp: l sorted_append)
  moreover have "b \<noteq> a" using assms(4) by auto
  ultimately have "b \<in> set ys" using assms(3) by (simp add: l)
  then obtain us zs where "ys = us @ b # zs" by (meson split_list)
  then show ?thesis using l by auto
qed

text \<open>In the order by attention an open card without a due date always comes before every overdue
  card that is not blocked, whatever their priorities: the condition that should put overdue cards
  first is unknown for it, and the server puts unknown values first in a descending order.\<close>

theorem undated_cards_precede_overdue_cards:
  assumes "mf_sort f = Attention" and "a \<in> set ws" and "b \<in> set ws"
    and "wc_status a \<noteq> ''done''" and "wc_due_at a = None"
    and "wc_status b \<notin> {''done'', ''blocked''}" and "due_before (wc_due_at b) (mf_today_start f)"
  shows "\<exists>xs ys zs. apply_my_work_sort f ws = xs @ a # ys @ b # zs"
proof -
  have "attention_key (mf_today_start f) a < attention_key (mf_today_start f) b"
    using assms(4-7)
    by (auto simp: attention_key_def desc_condition_def overdue_condition_def due_before_def less_prod_def
        split: option.splits bool.splits)
  then show ?thesis
    using sorted_before [of "attention_key (mf_today_start f)" "apply_my_work_sort f ws"] assms(1-3)
    by (simp add: apply_my_work_sort_def)
qed

end
