(* ===== verification/Portal_Scenario.thy ===== *)
theory Portal_Scenario
  imports Access_Scenario Inbox_Properties Work_Properties
begin

text \<open>
  The portal at work on a concrete database: a member of a team and an outsider change the catalog, a
  user snoozes a notification, and the pages of a list of work are read.
\<close>

definition demo_wl :: weblib where
  "demo_wl = \<lparr>wl_json = (\<lambda>_. Some ''{}''), wl_show = (\<lambda>_. ''{}''), wl_time = JInt, wl_date = (\<lambda>_. None), wl_rfc3339 = (\<lambda>_. None),
     wl_sql_lower = to_ascii_lowercase\<rparr>"

definition demo_identity_of :: "i32 \<Rightarrow> AuthenticatedUser" where
  "demo_identity_of i = \<lparr>au_user = demo_user\<lparr>us_id := i\<rparr>, au_session = old_session, au_roles = [], au_token = ''t''\<rparr>"

definition demo_member :: MaintainerMember where
  "demo_member = \<lparr>mm_maintainer_id = 7, mm_user_id = 1, mm_role = ''maintainer'', mm_id = 1, mm_created_at = 0\<rparr>"

definition demo_service :: Service where
  "demo_service = \<lparr>sv_source = ''manual'', sv_external_id = None, sv_maintainer_id = 7, sv_slug = ''api'',
     sv_name = ''API'', sv_lifecycle_status = ''active'', sv_health_status = ''healthy'', sv_description = None,
     sv_repository_url = None, sv_dashboard_url = None, sv_runbook_url = None, sv_last_checked_at = None,
     sv_id = 3, sv_created_at = 0, sv_updated_at = 0\<rparr>"

definition demo_notification :: Notification where
  "demo_notification = \<lparr>nt_source = ''manual'', nt_external_id = None, nt_title = ''Deploy'', nt_body = None,
     nt_severity = ''info'', nt_is_read = False, nt_url = None, nt_connector_id = None,
     nt_owner_user_id = None, nt_maintainer_id = Some 7, nt_source_updated_at = None,
     nt_last_seen_run_id = None, nt_archived_at = None, nt_id = 4, nt_created_at = 0, nt_updated_at = 0\<rparr>"

definition portal_card :: "i32 \<Rightarrow> string \<Rightarrow> utc option \<Rightarrow> WorkCard" where
  "portal_card i priority due = \<lparr>wc_source = ''manual'', wc_external_id = None, wc_title = ''Card'',
     wc_status = ''todo'', wc_priority = priority, wc_assignee = None, wc_project = None,
     wc_work_item_type = None, wc_assignee_source_id = None, wc_assignee_user_id = Some 1, wc_due_at = due,
     wc_url = None, wc_connector_id = None, wc_owner_user_id = Some 1, wc_maintainer_id = None,
     wc_source_updated_at = None, wc_last_seen_run_id = None, wc_archived_at = None,
     wc_id = i, wc_created_at = 0, wc_updated_at = 0\<rparr>"

definition overdue_card :: WorkCard where "overdue_card = portal_card 1 ''urgent'' (Some 10)"
definition undated_card :: WorkCard where "undated_card = portal_card 2 ''low'' None"
definition later_card :: WorkCard where "later_card = portal_card 3 ''low'' (Some 900)"

definition portal_tables :: tables where
  "portal_tables = access_tables\<lparr>maintainer_members := \<lparr>rows = [demo_member], seq = 2\<rparr>,
     services := \<lparr>rows = [demo_service], seq = 4\<rparr>,
     notifications := \<lparr>rows = [demo_notification], seq = 5\<rparr>,
     work_cards := \<lparr>rows = [overdue_card, undated_card, later_card], seq = 4\<rparr>\<rparr>"

section \<open>The catalog\<close>

definition demo_delete :: "i32 \<Rightarrow> (ApiError + unit) \<times> db" where
  "demo_delete u = handle_catalog demo_wl (demo_identity_of u) (DeleteService 3) calm (mk_db portal_tables)"

lemma demo_delete_eq: "handle_catalog demo_wl (demo_identity_of u) (DeleteService 3) calm (mk_db portal_tables)
    = (fst (demo_delete u), snd (demo_delete u))"
  by (simp add: demo_delete_def)

theorem catalog_changes_are_authorized_and_audited_witness:
  "permitted (demo_identity_of 1) (DeleteService 3) portal_tables
   \<and> one_entry (demo_identity_of 1) (''delete'', ''service'') portal_tables (tabs (snd (demo_delete 1)))
   \<and> isl (fst (demo_delete 2)) \<and> tabs (snd (demo_delete 2)) = portal_tables"
proof -
  have t: "tabs (mk_db portal_tables) = portal_tables" by (simp add: mk_db_def)
  have "\<not> isl (fst (demo_delete 1))" and "\<not> permitted (demo_identity_of 2) (DeleteService 3) portal_tables"
    by code_simp+
  then show ?thesis
    using catalog_changes_are_authorized_and_audited [OF calm_env(2) demo_delete_eq [of 1]]
      catalog_changes_are_authorized_and_audited [OF calm_env(2) demo_delete_eq [of 2]] by (simp add: t)
qed

section \<open>The inbox\<close>

definition demo_snooze :: "(ApiError + NotificationView) \<times> db" where
  "demo_snooze = handle_inbox demo_wl (demo_identity_of 1) 4 (Snooze (seconds 60)) calm (mk_db portal_tables)"

lemma demo_snooze_eq: "handle_inbox demo_wl (demo_identity_of 1) 4 (Snooze (seconds 60)) calm (mk_db portal_tables)
    = (Inr (projr (fst demo_snooze)), snd demo_snooze)"
proof -
  have "\<not> isl (fst demo_snooze)" by code_simp
  from outcome_Inr [OF this] show ?thesis by (simp add: demo_snooze_def)
qed

theorem inbox_actions_are_private_witness:
  "asleep 59 (receipt_of (tabs (snd demo_snooze)) 1 demo_notification)
   \<and> receipt_of (tabs (snd demo_snooze)) 2 demo_notification = receipt_of portal_tables 2 demo_notification
   \<and> notifications (tabs (snd demo_snooze)) = notifications portal_tables"
proof -
  have t: "tabs (mk_db portal_tables) = portal_tables" "us_id (au_user (demo_identity_of 1)) = 1"
    by (simp_all add: mk_db_def demo_identity_of_def)
  have n: "first_row (\<lambda>n. nt_id n = 4) (rows (notifications portal_tables)) = Some demo_notification" by code_simp
  show ?thesis
    using inbox_actions_are_private [OF calm_env(2) demo_snooze_eq] by (simp add: t n seconds_def)
qed

theorem search_is_literal_witness:
  "ilike demo_wl (search_pattern ''50%'') ''at 50% OFF'' \<and> \<not> ilike demo_wl (search_pattern ''50%'') ''at 500''"
proof -
  have l: "wl_sql_lower demo_wl = to_ascii_lowercase" by (simp add: demo_wl_def)
  have same: "wl_sql_lower demo_wl (search_pattern ''50%'') = search_pattern (wl_sql_lower demo_wl ''50%'')"
    by code_simp
  have "to_ascii_lowercase ''at 50% OFF'' = ''at '' @ to_ascii_lowercase ''50%'' @ '' off''" by code_simp
  moreover have "\<not> sublist (to_ascii_lowercase ''50%'') (to_ascii_lowercase ''at 500'')"
    unfolding contains_str_sublist [symmetric] by code_simp
  ultimately show ?thesis
    unfolding search_is_literal [OF same] l sublist_def by blast
qed

section \<open>My work\<close>

definition demo_filters :: MyWorkCardFilters where
  "demo_filters = \<lparr>mf_status = None, mf_due = None, mf_project = None, mf_work_item_type = None,
     mf_source = None, mf_sort = Attention, mf_today_start = 100, mf_tomorrow_start = 200,
     mf_next_seven_days_end = 800\<rparr>"

definition demo_scope :: RecordAccessScope where
  "demo_scope = \<lparr>as_user_id = 1, as_is_admin = False, as_maintainer_ids = [7]\<rparr>"

text \<open>The rows of the table come in the opposite order for the second page.\<close>

definition page_tables :: "i64 \<Rightarrow> tables" where
  "page_tables p = (if p = 2 then portal_tables\<lparr>work_cards := \<lparr>rows = [later_card, undated_card, overdue_card], seq = 4\<rparr>\<rparr>
     else portal_tables)"

definition demo_page :: "i64 \<Rightarrow> MyWorkCardPage" where
  "demo_page p = projr (fst (WorkCardRepository_find_my_work demo_scope demo_filters p 2 calm (mk_db (page_tables p))))"

lemma demo_page_runs: "\<exists>env s s'. mset (rows (work_cards (tabs s))) = mset [overdue_card, undated_card, later_card]
   \<and> WorkCardRepository_find_my_work demo_scope demo_filters p 2 env s = (Inr (demo_page p), s')"
proof -
  have "\<not> isl (fst (WorkCardRepository_find_my_work demo_scope demo_filters p 2 calm (mk_db (page_tables p))))"
    by (simp add: WorkCardRepository_find_my_work_def bindM_def select_stmt_def stmt_def retM_def
        calm_def mk_db_def)
  from outcome_Inr [OF this]
  have "WorkCardRepository_find_my_work demo_scope demo_filters p 2 calm (mk_db (page_tables p))
      = (Inr (demo_page p), snd (WorkCardRepository_find_my_work demo_scope demo_filters p 2 calm (mk_db (page_tables p))))"
    unfolding demo_page_def .
  moreover have "mset (rows (work_cards (tabs (mk_db (page_tables p))))) = mset [overdue_card, undated_card, later_card]"
    by (simp add: mk_db_def page_tables_def portal_tables_def)
  ultimately show ?thesis by blast
qed

theorem my_work_pages_make_up_the_list_witness:
  "length (mp_items (demo_page 1) @ mp_items (demo_page 2)) = 3
   \<and> distinct (map wc_id (mp_items (demo_page 1) @ mp_items (demo_page 2)))
   \<and> set (mp_items (demo_page 1) @ mp_items (demo_page 2)) = {overdue_card, undated_card, later_card}"
proof -
  have c: "mp_total (demo_page 1) \<le> 2 * nat 2" "mp_total (demo_page 1) = 3"
    "distinct (map wc_id [overdue_card, undated_card, later_card])"
    "list_all (\<lambda>w. record_scope_check (wc_owner_user_id w) (wc_maintainer_id w)) [overdue_card, undated_card, later_card]"
    "list_all (on_my_list demo_scope demo_filters) [overdue_card, undated_card, later_card]"
    by code_simp+
  have i: "[1..int 2] = [1, 2]" by (simp add: upto.simps)
  show ?thesis
    using my_work_pages_make_up_the_list [OF _ _ demo_page_runs c(1,3,4), of 1] c(2,5)
    unfolding i by (auto simp del: mset.simps)
qed

theorem undated_cards_precede_overdue_cards_witness:
  "\<exists>xs ys zs. apply_my_work_sort demo_filters [overdue_card, undated_card] = xs @ undated_card # ys @ overdue_card # zs"
  by (rule undated_cards_precede_overdue_cards)
    (simp_all add: demo_filters_def overdue_card_def undated_card_def portal_card_def due_before_def)

end
