(* ===== verification/Run_System.thy ===== *)
theory Run_System
  imports Run_Results
begin

text \<open>
  The run queue as a transition system: request handlers and any number of workers apply the
  operations of \<open>Runtime\<close> and \<open>Connector_Runs\<close> in any order, each under its own clock, faults and
  interference. The theorems are what the queue guarantees in every reachable state.
\<close>

inductive system_step :: "tables \<Rightarrow> tables \<Rightarrow> bool" where
  queue: "rely env \<Longrightarrow> create_queued_run_with_parent rt source target trigger payload parent env s = (q, s') \<Longrightarrow>
     system_step (tabs s) (tabs s')"
| start: "rely env \<Longrightarrow> create_running_run source target trigger payload env s = (q, s') \<Longrightarrow>
     system_step (tabs s) (tabs s')"
| claim: "rely env \<Longrightarrow> ConnectorRunRepository_claim_next_queued w l env s = (oq, s') \<Longrightarrow>
     system_step (tabs s) (tabs s')"
| renew: "rely env \<Longrightarrow> ConnectorRunRepository_renew_lease i w l env s = (b, s') \<Longrightarrow>
     system_step (tabs s) (tabs s')"
| execute: "rely env \<Longrightarrow> execute_connector_run rt run owner env s = (x, s') \<Longrightarrow>
     system_step (tabs s) (tabs s')"
| finish: "rely env \<Longrightarrow> finish_connector_run_for_owner source target run execution owner env s = (x, s') \<Longrightarrow>
     system_step (tabs s) (tabs s')"
| cancel: "rely env \<Longrightarrow> ConnectorRunRepository_request_cancel i env s = (oq, s') \<Longrightarrow>
     system_step (tabs s) (tabs s')"
| settle: "rely env \<Longrightarrow> cancelled_response_or_ownership_error i owner env s = (x, s') \<Longrightarrow>
     system_step (tabs s) (tabs s')"
| recover: "rely env \<Longrightarrow>
     ConnectorRunRepository_recover_expired_leases retry_base retry_max limit env s = (st, s') \<Longrightarrow>
     system_step (tabs s) (tabs s')"
| purge: "rely env \<Longrightarrow> ConnectorRunRepository_delete_finished_older_than cutoff env s = (cnt, s') \<Longrightarrow>
     system_step (tabs s) (tabs s')"

abbreviation system_steps :: "tables \<Rightarrow> tables \<Rightarrow> bool" where
  "system_steps \<equiv> system_step\<^sup>*\<^sup>*"

inductive reachable :: "tables \<Rightarrow> bool" where
  initial: "connector_runs t = empty_table \<Longrightarrow> reachable t"
| step: "reachable t \<Longrightarrow> system_step t t' \<Longrightarrow> reachable t'"

lemma system_step_evolves: "system_step t t' \<Longrightarrow> runs_inv t \<Longrightarrow> runs_evolve\<^sup>*\<^sup>* t t'"
  by (induction rule: system_step.induct)
     (blast dest: create_queued.evolves(1) create_running.evolves(1) claim.evolves(1)
       renew.evolves(1) execute.evolves(1) finish.evolves(1) request_cancel.evolves(1)
       settle_cancelled.evolves(1) recover.evolves(1) delete_finished.evolves(1))+

lemma initial_inv: "connector_runs t = empty_table \<Longrightarrow> runs_inv t"
  by (simp add: runs_inv_def single_active_def empty_table_def)

lemma reachable_inv: "reachable t \<Longrightarrow> runs_inv t"
  by (induction rule: reachable.induct)
     (auto intro: initial_inv runs_evolves_inv dest: system_step_evolves)

lemma system_steps_evolve: "system_steps t t' \<Longrightarrow> runs_inv t \<Longrightarrow> runs_evolve\<^sup>*\<^sup>* t t' \<and> runs_inv t'"
proof (induction rule: rtranclp_induct)
  case base
  then show ?case by simp
next
  case (step y z)
  then show ?case
    using system_step_evolves [of y z] runs_evolves_inv [of y z] rtranclp_trans [of runs_evolve t y z]
    by blast
qed

lemma steps_origin:
  assumes "runs_inv t" and "runs_evolve\<^sup>*\<^sup>* t t'"
    and "r \<in> set (rows (connector_runs t))" and "r' \<in> set (rows (connector_runs t'))"
    and "cr_id r' = cr_id r"
  shows "run_steps r r'"
proof -
  have "cr_id r < seq (connector_runs t)" using assms(1,3) by (auto simp: runs_inv_def)
  with assms(4,5) obtain q where q: "q \<in> set (rows (connector_runs t))" "run_steps q r'"
    using runs_evolves_origin [OF assms(2)] by metis
  have "cr_id q = cr_id r"
    using run_steps_same_job [OF q(2)] assms(5) by (simp add: same_job_def)
  then have "q = r" using runs_inv_same_id [OF assms(1) q(1) assms(3)] by simp
  with q show ?thesis by simp
qed

section \<open>Safety\<close>

text \<open>C1: In every reachable state, for any source and target, at most one run is queued or running:
  two workers never execute the same import at the same time.\<close>

theorem at_most_one_active_run:
  assumes "reachable t"
  shows "count_rows (\<lambda>r. cr_source r = source \<and> cr_target r = target
      \<and> (cr_status r = ''queued'' \<or> cr_status r = ''running'')) (rows (connector_runs t)) \<le> 1"
proof -
  have "pending_for source target = (\<lambda>r. cr_source r = source \<and> cr_target r = target
      \<and> (cr_status r = ''queued'' \<or> cr_status r = ''running''))"
    by (auto simp: pending_for_def run_is_active_def)
  moreover have "count_rows (pending_for source target) (rows (connector_runs t)) \<le> 1"
    using reachable_inv [OF assms] by (simp add: runs_inv_def single_active_def)
  ultimately show ?thesis by simp
qed

text \<open>C21: In every reachable state every run is consistent: attempts stay between 0 and the maximum, a
  queued run has attempts left, no owner and no lease, a running run is unfinished, a settled run has
  a finishing time and no lease, and exactly the cancelled runs carry a cancellation time.\<close>

theorem reachable_runs_consistent:
  assumes "reachable t" and "r \<in> set (rows (connector_runs t))"
  shows "cr_status r \<in> set run_statuses
    \<and> 0 \<le> cr_attempt_count r \<and> cr_attempt_count r \<le> cr_max_attempts r
    \<and> (cr_status r = ''queued'' \<longrightarrow> cr_attempt_count r < cr_max_attempts r
       \<and> cr_worker_id r = None \<and> cr_lease_expires_at r = None \<and> cr_cancel_requested_at r = None)
    \<and> (cr_finished_at r = None \<longleftrightarrow> run_is_active r)
    \<and> (\<not> run_is_active r \<longrightarrow> cr_lease_expires_at r = None)
    \<and> (cr_status r = ''cancelled'' \<longleftrightarrow> cr_cancelled_at r \<noteq> None)"
  using reachable_inv [OF assms(1)] assms(2)
  by (auto simp: runs_inv_def run_ok_def run_is_active_def)

text \<open>A settled run never changes again, whatever the handlers and workers do: at most its
  reference to a parent run is cleared when the parent is purged.\<close>

theorem settled_runs_are_final:
  assumes "reachable t" and "system_steps t t'"
    and "r \<in> set (rows (connector_runs t))" and "\<not> run_is_active r"
    and "r' \<in> set (rows (connector_runs t'))" and "cr_id r' = cr_id r"
  shows "\<exists>p. r' = r\<lparr>cr_parent_run_id := p\<rparr>"
  using steps_origin [OF reachable_inv [OF assms(1)] _ assms(3,5,6)]
    system_steps_evolve [OF assms(2) reachable_inv [OF assms(1)]] run_steps_settled assms(4)
  by blast

text \<open>A run keeps its source, target, trigger, payload and maximum of attempts for ever, and its
  number of attempts never decreases.\<close>

theorem run_identity_is_stable:
  assumes "reachable t" and "system_steps t t'"
    and "r \<in> set (rows (connector_runs t))" and "r' \<in> set (rows (connector_runs t'))"
    and "cr_id r' = cr_id r"
  shows "same_job r r' \<and> cr_attempt_count r \<le> cr_attempt_count r'"
proof -
  have "run_steps r r'"
    using steps_origin [OF reachable_inv [OF assms(1)] _ assms(3-5)]
      system_steps_evolve [OF assms(2) reachable_inv [OF assms(1)]] by blast
  then show ?thesis using run_steps_same_job run_steps_attempts by blast
qed

section \<open>Counting claims\<close>

text \<open>\<open>claims i n t t'\<close>: on the way from \<open>t\<close> to \<open>t'\<close>, \<open>n\<close> claims returned the run \<open>i\<close>.\<close>

inductive claims :: "i32 \<Rightarrow> nat \<Rightarrow> tables \<Rightarrow> tables \<Rightarrow> bool" for i where
  none: "claims i 0 t t"
| other: "claims i n t t1 \<Longrightarrow> system_step t1 t2 \<Longrightarrow> claims i n t t2"
| claimed: "claims i n t (tabs s) \<Longrightarrow> rely env \<Longrightarrow>
     ConnectorRunRepository_claim_next_queued w l env s = (Inr (Some r), s') \<Longrightarrow> cr_id r = i \<Longrightarrow>
     claims i (Suc n) t (tabs s')"

lemma claims_bound:
  assumes "claims i n t t'" and "runs_inv t"
  shows "runs_inv t' \<and> (n > 0 \<longrightarrow> i < seq (connector_runs t'))
    \<and> (\<forall>r \<in> set (rows (connector_runs t')). cr_id r = i \<longrightarrow> int n \<le> cr_attempt_count r)"
  using assms
proof (induction rule: claims.induct)
  case (none t)
  then show ?case by (auto simp: runs_inv_def run_ok_def)
next
  case (other n t t1 t2)
  then have ev: "runs_evolve\<^sup>*\<^sup>* t1 t2" and inv1: "runs_inv t1" and inv2: "runs_inv t2"
    using system_step_evolves runs_evolves_inv by blast+
  have seq: "seq (connector_runs t1) \<le> seq (connector_runs t2)" by (rule runs_evolves_seq [OF ev])
  have "int n \<le> cr_attempt_count r"
    if r: "r \<in> set (rows (connector_runs t2))" "cr_id r = i" for r
  proof (cases "i < seq (connector_runs t1)")
    case True
    then obtain q where q: "q \<in> set (rows (connector_runs t1))" "run_steps q r"
      using runs_evolves_origin [OF ev r(1)] r(2) by blast
    have "cr_id q = i" using run_steps_same_job [OF q(2)] r(2) by (simp add: same_job_def)
    then show ?thesis
      using other.IH [OF other.prems] q run_steps_attempts [OF q(2)] by fastforce
  next
    case False
    then have "n = 0" using other.IH [OF other.prems] by auto
    then show ?thesis using inv2 r(1) by (auto simp: runs_inv_def run_ok_def)
  qed
  then show ?case using other.IH [OF other.prems] inv2 seq by auto
next
  case (claimed n t s env w l r s')
  then have inv: "runs_inv (tabs s)" by blast
  let ?now = "env_clock env (Suc (tick s))"
  obtain q where q: "q \<in> set (rows (connector_runs (tabs s)))" and r: "r = claim_row ?now w l q q"
    and rows': "rows (connector_runs (tabs s')) = update_rows (\<lambda>p. cr_id p = cr_id q) (\<lambda>_. r)
       (rows (connector_runs (tabs s)))"
    using claim_result [OF claimed.hyps(3) inv] by blast
  have inv': "runs_inv (tabs s')" using claim.evolves(2) claimed.hyps(2,3) inv by blast
  have qi: "cr_id q = i" using claimed.hyps(4) r by (simp add: claim_row_def)
  then have "int n \<le> cr_attempt_count q" using claimed.IH [OF claimed.prems] q by blast
  then have "int (Suc n) \<le> cr_attempt_count r" by (simp add: r claim_row_def)
  moreover have "p = r" if "p \<in> set (rows (connector_runs (tabs s')))" "cr_id p = i" for p
    using that qi by (auto simp: rows' update_rows_def split: if_splits)
  moreover have "r \<in> set (rows (connector_runs (tabs s')))"
    using q by (auto simp: rows' update_rows_def image_iff)
  then have "i < seq (connector_runs (tabs s'))"
    using inv' claimed.hyps(4) by (auto simp: runs_inv_def)
  ultimately show ?case using inv' by auto
qed

text \<open>C6: A run is handed out for execution at most \<open>cr_max_attempts\<close> times, however workers crash,
  leases expire and recovery requeues it.\<close>

theorem claims_at_most_max_attempts:
  assumes "reachable t" and "claims i n t t'"
    and "r \<in> set (rows (connector_runs t'))" and "cr_id r = i"
  shows "int n \<le> cr_max_attempts r"
proof -
  note b = claims_bound [OF assms(2) reachable_inv [OF assms(1)]]
  then have "int n \<le> cr_attempt_count r" using assms(3,4) by blast
  also have "\<dots> \<le> cr_max_attempts r" using b assms(3) by (auto simp: runs_inv_def run_ok_def)
  finally show ?thesis .
qed

section \<open>Claims, ownership and settlement\<close>

text \<open>When a run is due, and which of two due runs is served first.\<close>

definition is_due :: "utc \<Rightarrow> ConnectorRun \<Rightarrow> bool" where
  "is_due now r \<longleftrightarrow> cr_status r = ''queued'' \<and> cr_cancel_requested_at r = None
     \<and> cr_next_attempt_at r \<le> now \<and> cr_attempt_count r < cr_max_attempts r"

definition served_first :: "ConnectorRun \<Rightarrow> ConnectorRun \<Rightarrow> bool" where
  "served_first q p \<longleftrightarrow> cr_next_attempt_at q < cr_next_attempt_at p
     \<or> cr_next_attempt_at q = cr_next_attempt_at p \<and> (cr_started_at q < cr_started_at p
          \<or> cr_started_at q = cr_started_at p \<and> cr_id q \<le> cr_id p)"

lemma claimable_due: "claimable now r = is_due now r"
  by (auto simp: claimable_def is_due_def)

lemma claim_key_order: "claim_key q \<le> claim_key p \<longleftrightarrow> served_first q p"
  by (auto simp: claim_key_def served_first_def less_eq_prod_def)

text \<open>C10: A claim returns the due run with the smallest (next attempt, start, id): it becomes running,
  owned by the worker, with one more attempt and a lease from now; every other run is untouched. When
  it returns nothing, no run was due and the table is unchanged.\<close>

theorem claim_takes_first_due_run:
  assumes "reachable (tabs s)"
    and "ConnectorRunRepository_claim_next_queued w l env s = (Inr x, s')"
  shows "case x of
      None \<Rightarrow> tabs s' = tabs s \<and>
        (\<forall>p \<in> set (rows (connector_runs (tabs s))). \<not> is_due (env_clock env (Suc (tick s))) p)
    | Some r \<Rightarrow> \<exists>q \<in> set (rows (connector_runs (tabs s))).
        is_due (env_clock env (Suc (tick s))) q
        \<and> (\<forall>p \<in> set (rows (connector_runs (tabs s))).
             is_due (env_clock env (Suc (tick s))) p \<longrightarrow> served_first q p)
        \<and> cr_id r = cr_id q \<and> cr_status r = ''running'' \<and> cr_worker_id r = Some w
        \<and> cr_attempt_count r = cr_attempt_count q + 1
        \<and> cr_lease_expires_at r = Some (env_clock env (Suc (tick s)) + seconds l)
        \<and> rows (connector_runs (tabs s')) =
            map (\<lambda>p. if p = q then r else p) (rows (connector_runs (tabs s)))"
proof (cases x)
  case None
  then show ?thesis using claim_result [OF assms(2) reachable_inv [OF assms(1)]] by (simp add: claimable_due)
next
  case (Some r)
  let ?rs = "rows (connector_runs (tabs s))" and ?now = "env_clock env (Suc (tick s))"
  obtain q where q: "q \<in> set ?rs" "claimable ?now q"
      "\<forall>p \<in> set ?rs. claimable ?now p \<longrightarrow> claim_key q \<le> claim_key p"
      and r: "r = claim_row ?now w l q q"
      and rows': "rows (connector_runs (tabs s')) = update_rows (\<lambda>p. cr_id p = cr_id q) (\<lambda>_. r) ?rs"
    using claim_result [OF assms(2) reachable_inv [OF assms(1)]] Some by blast
  have "rows (connector_runs (tabs s')) = map (\<lambda>p. if p = q then r else p) ?rs"
    using runs_inv_same_id [OF reachable_inv [OF assms(1)] _ q(1)]
    by (auto simp: rows' update_rows_def)
  with q r Some show ?thesis by (auto simp: claim_row_def claimable_due claim_key_order)
qed

lemma liftM_Inr: "liftM m env s = (Inr x, s') \<longleftrightarrow> m env s = (Inr x, s')"
  by (auto simp: liftM_def handleM_def split: prod.splits sum.splits)

lemma finish_Inr:
  assumes "finish_connector_run_for_owner source target run ex w env s = (Inr resp, s')"
  obtains s1 where "ConnectorRunRepository_finalize_if_active (cr_id run) w
        (final_state run ex (env_clock env (tick s))) env (s\<lparr>tick := Suc (tick s)\<rparr>)
        = (Inr (Some (rr_run resp)), s1)"
    and "connector_runs (tabs s') = connector_runs (tabs s1)"
proof -
  let ?st = "final_state run ex (env_clock env (tick s))"
  obtain x s1 where fin: "ConnectorRunRepository_finalize_if_active (cr_id run) w ?st env
        (s\<lparr>tick := Suc (tick s)\<rparr>) = (Inr x, s1)"
    and rest: "(case x of None \<Rightarrow> throwM ServiceUnavailable
     | Some r \<Rightarrow>
         bindM (liftM (ConnectorRunItemErrorRepository_create_many
                  (error_rows (cr_id r) source target ex))) (\<lambda>item_errors.
         bindM (liftM (ConnectorRunItemRepository_create_many
                  (item_rows (cr_id r) source target ex))) (\<lambda>items.
         bindM (liftM (ConnectorRepository_touch_run_state source
                  (default_connector_kind source target) (cr_status r) (env_clock env (tick s)))) (\<lambda>_.
         retM \<lparr>rr_source = source, rr_target = target, rr_imported = length (ex_data ex),
            rr_failed = length (ex_errors ex), rr_run = r, rr_data = ex_data ex,
            rr_items = items, rr_errors = ex_errors ex, rr_item_errors = item_errors\<rparr>)))) env s1
      = (Inr resp, s')"
    using assms unfolding finish_connector_run_for_owner_def
    by (auto simp: liftM_Inr elim!: bindM_result_Inr)
  obtain r where x: "x = Some r" using rest by (cases x) simp_all
  obtain a b c s2 s3 s4 where
    "ConnectorRunItemErrorRepository_create_many (error_rows (cr_id r) source target ex) env s1
      = (Inr a, s2)"
    and "ConnectorRunItemRepository_create_many (item_rows (cr_id r) source target ex) env s2
      = (Inr b, s3)"
    and "ConnectorRepository_touch_run_state source (default_connector_kind source target)
      (cr_status r) (env_clock env (tick s)) env s3 = (Inr c, s4)"
    and "resp = \<lparr>rr_source = source, rr_target = target, rr_imported = length (ex_data ex),
            rr_failed = length (ex_errors ex), rr_run = r, rr_data = ex_data ex,
            rr_items = b, rr_errors = ex_errors ex, rr_item_errors = a\<rparr>" and "s4 = s'"
    using rest unfolding x by (auto simp: liftM_Inr elim!: bindM_result_Inr)
  moreover from this have "connector_runs (tabs s') = connector_runs (tabs s1)"
    using spares_runsD [OF spares_repositories(11)] spares_runsD [OF spares_repositories(12)]
      spares_runsD [OF spares_repositories(4)] by metis
  ultimately show ?thesis using that [of s1] fin x by simp
qed

text \<open>C9: Whoever settles a run owns it at that moment: the run is running, nobody asked to cancel it,
  and the worker holds its unexpired lease (a request handler: the run has no worker). The response
  and the table carry the outcome computed from the imported and the failed items.\<close>

theorem only_the_owner_settles:
  assumes "reachable (tabs s)"
    and "finish_connector_run_for_owner source target run ex w env s = (Inr resp, s')"
  shows "\<exists>q \<in> set (rows (connector_runs (tabs s))).
     cr_id q = cr_id run \<and> cr_status q = ''running'' \<and> cr_cancel_requested_at q = None
     \<and> (case w of None \<Rightarrow> cr_worker_id q = None
          | Some v \<Rightarrow> cr_worker_id q = Some v
              \<and> (\<exists>e. cr_lease_expires_at q = Some e \<and> env_clock env (Suc (tick s)) < e))
     \<and> cr_status (rr_run resp) = (if ex_errors ex = [] then ''success'' else if ex_data ex = [] then ''failed''
          else ''partial_success'')
     \<and> rows (connector_runs (tabs s')) =
         map (\<lambda>p. if p = q then rr_run resp else p) (rows (connector_runs (tabs s)))"
proof -
  let ?st = "final_state run ex (env_clock env (tick s))" and ?now = "env_clock env (Suc (tick s))"
  let ?rs = "rows (connector_runs (tabs s))"
  obtain s1 where fin: "ConnectorRunRepository_finalize_if_active (cr_id run) w ?st env
        (s\<lparr>tick := Suc (tick s)\<rparr>) = (Inr (Some (rr_run resp)), s1)"
    and same: "connector_runs (tabs s') = connector_runs (tabs s1)"
    using assms(2) by (rule finish_Inr)
  obtain q where q': "q \<in> set ?rs" "execution_active ?now (cr_id run) w q"
    and r: "rr_run resp = finalize_row ?now ?st q"
    using fin by (rule finalize_Some) simp
  have "execution_active ?now (cr_id run) w p \<longleftrightarrow> p = q" if "p \<in> set ?rs" for p
    using runs_inv_same_id [OF reachable_inv [OF assms(1)] that q'(1)] q'(2)
    by (auto simp: execution_active_def)
  then have "rows (connector_runs (tabs s')) = map (\<lambda>p. if p = q then rr_run resp else p) ?rs"
    using finalize_result(2) [OF fin] by (auto simp: same update_rows_def r)
  moreover have "cr_status (rr_run resp) = (if ex_errors ex = [] then ''success''
      else if ex_data ex = [] then ''failed'' else ''partial_success'')"
    by (simp add: r finalize_row_def final_state_def run_outcome_def Let_def)
  moreover have "case w of None \<Rightarrow> cr_worker_id q = None
      | Some v \<Rightarrow> cr_worker_id q = Some v \<and> (\<exists>e. cr_lease_expires_at q = Some e \<and> ?now < e)"
    using q'(2) by (auto simp: execution_active_def owned_by_def leased_by_def split: option.splits)
  ultimately show ?thesis using q' by (auto simp: execution_active_def)
qed

lemma finish_needs_active:
  assumes "finish_connector_run_for_owner source target run ex w env s = (x, s')"
    and "\<And>q. q \<in> set (rows (connector_runs (tabs s))) \<Longrightarrow> cr_id q = cr_id run \<Longrightarrow>
       cr_status q \<noteq> ''running'' \<or> cr_cancel_requested_at q \<noteq> None"
  shows "\<exists>e. x = Inl e"
proof (rule ccontr)
  assume "\<not> (\<exists>e. x = Inl e)"
  then obtain resp where "x = Inr resp" by (cases x) auto
  with assms(1) have "finish_connector_run_for_owner source target run ex w env s = (Inr resp, s')"
    by simp
  then show False
  proof (rule finish_Inr)
    fix s1 assume "ConnectorRunRepository_finalize_if_active (cr_id run) w
        (final_state run ex (env_clock env (tick s))) env (s\<lparr>tick := Suc (tick s)\<rparr>)
        = (Inr (Some (rr_run resp)), s1)"
    then obtain q where "q \<in> set (rows (connector_runs (tabs s)))"
      and "execution_active (env_clock env (Suc (tick s))) (cr_id run) w q"
      by (rule finalize_Some) simp
    with assms(2) [of q] show False by (auto simp: execution_active_def)
  qed
qed

text \<open>C2: A run is settled at most once: after a successful settlement, every later attempt to settle
  the same run, by anyone and after any activity of the system, fails.\<close>

theorem run_settled_at_most_once:
  assumes "reachable (tabs s)" and "rely env"
    and "finish_connector_run_for_owner source target run ex w env s = (Inr resp, s')"
    and "system_steps (tabs s') (tabs s2)" and "cr_id run2 = cr_id run"
    and "finish_connector_run_for_owner source2 target2 run2 ex2 w2 env2 s2 = (x, s3)"
  shows "\<exists>e. x = Inl e"
proof (rule finish_needs_active [OF assms(6)])
  fix q assume q: "q \<in> set (rows (connector_runs (tabs s2)))" "cr_id q = cr_id run2"
  have inv': "runs_inv (tabs s')"
    using finish.evolves(2) [OF assms(2) reachable_inv [OF assms(1)] assms(3)] .
  obtain s1 where fin: "ConnectorRunRepository_finalize_if_active (cr_id run) w
        (final_state run ex (env_clock env (tick s))) env (s\<lparr>tick := Suc (tick s)\<rparr>)
        = (Inr (Some (rr_run resp)), s1)"
    and same: "connector_runs (tabs s') = connector_runs (tabs s1)"
    using assms(3) by (rule finish_Inr)
  let ?now = "env_clock env (Suc (tick s))"
  obtain p where p: "p \<in> set (rows (connector_runs (tabs s)))" "execution_active ?now (cr_id run) w p"
    and r: "rr_run resp = finalize_row ?now (final_state run ex (env_clock env (tick s))) p"
    using fin by (rule finalize_Some) simp
  have "rr_run resp \<in> set (rows (connector_runs (tabs s')))"
    using finalize_result(2) [OF fin] p by (auto simp: same update_rows_def r image_iff)
  moreover have "\<not> run_is_active (rr_run resp)" "cr_id (rr_run resp) = cr_id run"
    using p by (simp_all add: r finalize_row_def final_state_def Let_def run_outcome_def
        run_is_active_def execution_active_def)
  ultimately have "\<not> run_is_active q"
    using steps_origin [OF inv' _ _ q(1), of "rr_run resp"] run_steps_active assms(5) q(2)
      system_steps_evolve [OF assms(4) inv'] by auto
  then show "cr_status q \<noteq> ''running'' \<or> cr_cancel_requested_at q \<noteq> None"
    by (auto simp: run_is_active_def)
qed

end
