(* ===== verification/Run_Guarantees.thy ===== *)
theory Run_Guarantees
  imports Run_System
begin

text \<open>
  Guarantees of single operations of the run queue, on every branch: cancellation, recovery of
  expired leases and its backoff, creation, and the execution of a run as a whole.
\<close>

section \<open>Cancellation\<close>

definition doomed :: "ConnectorRun \<Rightarrow> bool" where
  "doomed r \<longleftrightarrow> \<not> run_is_active r \<or> cr_status r = ''running'' \<and> cr_cancel_requested_at r \<noteq> None"

lemma run_trans_doomed: "run_trans r r' \<Longrightarrow> doomed r \<Longrightarrow> doomed r'"
proof (induction rule: run_trans.induct)
  case (finalize now i w r st)
  then show ?case by (auto simp: doomed_def guard_defs row_defs)
qed (simp_all add: doomed_def guard_defs row_defs)

lemma run_steps_doomed: "run_steps r r' \<Longrightarrow> doomed r \<Longrightarrow> doomed r'"
  by (induction rule: rtranclp_induct) (auto dest: run_trans_doomed)

lemma straight_cancel: "straight (cancel_body i)"
  unfolding cancel_body_def ConnectorRunRepository_find_def update_runs_def by (intro straight_rule)

lemma update_by_id_result:
  assumes "bindM (update_runs (\<lambda>r. cr_id r = i) f) (\<lambda>rs. bindM (expect_row (one_row rs))
      (\<lambda>r. retM (Some r))) env s = (Inr x, s')"
    and "runs_inv (tabs s)" and "q \<in> set (rows (connector_runs (tabs s)))" and "cr_id q = i"
  shows "x = Some (f q)"
    and "rows (connector_runs (tabs s')) = map (\<lambda>r. if r = q then f q else r)
      (rows (connector_runs (tabs s)))"
proof -
  obtain ys r s1 where u: "update_runs (\<lambda>r. cr_id r = i) f env s = (Inr ys, s1)"
    and e: "expect_row (one_row ys) env s1 = (Inr r, s')" and x: "x = Some r"
    using assms(1) by (auto elim!: bindM_result_Inr)
  note upd = update_stmt_Inr [OF u [unfolded update_runs_def]]
  have same: "cr_id p = i \<longleftrightarrow> p = q" if "p \<in> set (rows (connector_runs (tabs s)))" for p
    using runs_inv_same_id [OF assms(2) that assms(3)] assms(4) by auto
  have "r \<in> set ys" "s' = s1" using expect_one_row [OF e] by simp_all
  then show "x = Some (f q)" using upd same x by auto
  show "rows (connector_runs (tabs s')) = map (\<lambda>r. if r = q then f q else r)
      (rows (connector_runs (tabs s)))"
    using upd same \<open>s' = s1\<close> by (auto simp: update_rows_def)
qed

lemma cancel_result:
  assumes "ConnectorRunRepository_request_cancel i env s = (Inr x, s')" and "runs_inv (tabs s)"
  obtains q now where "q \<in> set (rows (connector_runs (tabs s)))" and "cr_id q = i"
    and "x = (if cr_status q = ''queued'' then Some (cancel_queued_row now q)
              else if cr_status q = ''running'' then Some (q\<lparr>cr_cancel_requested_at := Some now\<rparr>)
              else None)"
    and "rows (connector_runs (tabs s')) = map (\<lambda>r. if r = q then (case x of Some c \<Rightarrow> c | None \<Rightarrow> q)
       else r) (rows (connector_runs (tabs s)))"
proof -
  obtain s0 s1 where t0: "tabs s0 = tabs s" and body: "cancel_body i env s0 = (Inr x, s1)"
    and t1: "tabs s' = tabs s1"
    using straight_cancel assms(1) unfolding cancel_transaction query_transaction_def
    by (rule transaction_committed)
  obtain q s2 where find: "ConnectorRunRepository_find i env s0 = (Inr q, s2)"
    and rest: "bindM utc_now (\<lambda>now.
     if cr_status q = ''queued'' then
       bindM (update_runs (\<lambda>r. cr_id r = i) (cancel_queued_row now))
         (\<lambda>rs. bindM (expect_row (one_row rs)) (\<lambda>r. retM (Some r)))
     else if cr_status q = ''running'' then
       bindM (update_runs (\<lambda>r. cr_id r = i) (\<lambda>r. r\<lparr>cr_cancel_requested_at := Some now\<rparr>))
         (\<lambda>rs. bindM (expect_row (one_row rs)) (\<lambda>r. retM (Some r)))
     else retM None) env s2 = (Inr x, s1)"
    using body unfolding cancel_body_def by (rule bindM_result_Inr)
  let ?now = "env_clock env (tick s2)" and ?s2 = "s2\<lparr>tick := Suc (tick s2)\<rparr>"
  have q: "q \<in> set (rows (connector_runs (tabs s)))" "cr_id q = i" and t2: "tabs s2 = tabs s"
    using find_run_Inr [OF find] t0 by simp_all
  have inv2: "runs_inv (tabs ?s2)" and q2: "q \<in> set (rows (connector_runs (tabs ?s2)))"
    using assms(2) q t2 by simp_all
  consider (queued) "cr_status q = ''queued''" | (running) "cr_status q = ''running''"
    | (settled) "cr_status q \<noteq> ''queued''" "cr_status q \<noteq> ''running''" by blast
  then show ?thesis
  proof cases
    case queued
    with rest have "bindM (update_runs (\<lambda>r. cr_id r = i) (cancel_queued_row ?now))
        (\<lambda>rs. bindM (expect_row (one_row rs)) (\<lambda>r. retM (Some r))) env ?s2 = (Inr x, s1)"
      by (simp add: bindM_def)
    from update_by_id_result [OF this inv2 q2 q(2)] that [OF q, of ?now] queued t1 t2
    show ?thesis by simp
  next
    case running
    with rest have "bindM (update_runs (\<lambda>r. cr_id r = i) (\<lambda>r. r\<lparr>cr_cancel_requested_at := Some ?now\<rparr>))
        (\<lambda>rs. bindM (expect_row (one_row rs)) (\<lambda>r. retM (Some r))) env ?s2 = (Inr x, s1)"
      by (simp add: bindM_def)
    from update_by_id_result [OF this inv2 q2 q(2)] that [OF q, of ?now] running t1 t2
    show ?thesis by simp
  next
    case settled
    then have "x = None" "tabs s1 = tabs s" using rest t2 by (auto simp: bindM_def)
    moreover have "map (\<lambda>r. if r = q then (case x of None \<Rightarrow> q | Some c \<Rightarrow> c) else r) rs = rs" for rs
      using \<open>x = None\<close> by (induction rs) auto
    ultimately show ?thesis using that [OF q, of ?now] settled t1 by simp
  qed
qed

text \<open>C7: A cancellation that was accepted is final: from then on, whatever the system does, no attempt
  to settle the run as a success, a partial success or a failure succeeds.\<close>

theorem accepted_cancellation_prevents_completion:
  assumes "reachable (tabs s)" and "rely env"
    and "ConnectorRunRepository_request_cancel (cr_id run) env s = (Inr (Some c), s')"
    and "system_steps (tabs s') (tabs s2)"
    and "finish_connector_run_for_owner source target run ex w env2 s2 = (x, s3)"
  shows "\<exists>e. x = Inl e"
proof (rule finish_needs_active [OF assms(5)])
  fix r assume r: "r \<in> set (rows (connector_runs (tabs s2)))" "cr_id r = cr_id run"
  have inv: "runs_inv (tabs s)" by (rule reachable_inv [OF assms(1)])
  have inv': "runs_inv (tabs s')" using request_cancel.evolves(2) [OF assms(2) inv assms(3)] .
  obtain q now where q: "q \<in> set (rows (connector_runs (tabs s)))" "cr_id q = cr_id run"
    and c: "Some c = (if cr_status q = ''queued'' then Some (cancel_queued_row now q)
              else if cr_status q = ''running'' then Some (q\<lparr>cr_cancel_requested_at := Some now\<rparr>)
              else None)"
    and rows0: "rows (connector_runs (tabs s')) = map (\<lambda>r. if r = q then
         (case Some c of Some c \<Rightarrow> c | None \<Rightarrow> q) else r) (rows (connector_runs (tabs s)))"
    using assms(3) inv by (rule cancel_result)
  have rows': "rows (connector_runs (tabs s')) = map (\<lambda>r. if r = q then c else r)
       (rows (connector_runs (tabs s)))" using rows0 by simp
  have "doomed c" "cr_id c = cr_id run"
    using c q(2) by (auto simp: doomed_def run_is_active_def cancel_queued_row_def split: if_splits)
  moreover have "c \<in> set (rows (connector_runs (tabs s')))"
    using q(1) by (auto simp: rows' image_iff)
  ultimately have "doomed r"
    using steps_origin [OF inv' _ _ r(1), of c] run_steps_doomed r(2)
      system_steps_evolve [OF assms(4) inv'] by auto
  then show "cr_status r \<noteq> ''running'' \<or> cr_cancel_requested_at r \<noteq> None"
    by (auto simp: doomed_def run_is_active_def)
qed

section \<open>Recovery\<close>

lemma expired_batch_first:
  assumes "runs_inv t" and "r \<in> set (expired_batch now limit t)"
    and "q \<in> set (rows (connector_runs t))" "lease_expired now q" "q \<notin> set (expired_batch now limit t)"
  shows "(the (cr_lease_expires_at r), cr_id r) < (the (cr_lease_expires_at q), cr_id q)"
proof -
  note props = expired_batch_props [OF assms(1), of now limit]
  have "recovery_key r \<le> recovery_key q"
    using sort_split [of r limit recovery_key "filter (lease_expired now) (rows (connector_runs t))" q] assms(2-5)
    by (simp add: expired_batch_def)
  moreover have "cr_id r \<noteq> cr_id q"
    using runs_inv_same_id [OF assms(1)] props(1) assms(2,3,5) by blast
  moreover have "lease_expired now r" using props(3) assms(2) by blast
  ultimately show ?thesis using assms(4)
    by (auto simp: recovery_key_def lease_expired_def nulls_last_def split: option.splits)
qed

lemma recovered_row_unexpired: "\<not> lease_expired now (recovered_row now retry_base retry_max r)"
  by (auto simp: recovered_row_def row_defs lease_expired_def)


lemma retry_backoff:
  fixes a :: i32 and b m :: i64
  shows "1 \<le> bounded_retry_backoff_seconds a b m"
    and "bounded_retry_backoff_seconds a b m \<le> max m (max b 1)"
    and "a \<le> a' \<Longrightarrow> bounded_retry_backoff_seconds a b m \<le> bounded_retry_backoff_seconds a' b m"
    and "1 \<le> a \<Longrightarrow> a \<le> 31 \<Longrightarrow> 1 \<le> b \<Longrightarrow> b * 2 ^ nat (a - 1) \<le> m \<Longrightarrow> m \<le> i64_max \<Longrightarrow>
       bounded_retry_backoff_seconds a b m = b * 2 ^ nat (a - 1)"
proof -
  let ?e = "\<lambda>a. nat (clamp_int 0 30 (saturating_sub_i32 a 1))"
  have pos: "1 \<le> x * 2 ^ k" if "1 \<le> x" for x :: int and k
    using mult_mono [of 1 x 1 "2 ^ k"] that by simp
  have sat: "1 \<le> saturating_mul_i64 x y" if "1 \<le> x * y" for x y
    using that by (simp add: saturating_mul_i64_def clamp_int_def i64_max_def le_max_iff_disj)
  show "1 \<le> bounded_retry_backoff_seconds a b m"
    using sat [OF pos [of "max b 1" "?e a"]]
    by (simp add: bounded_retry_backoff_seconds_def Let_def le_max_iff_disj)
  show "bounded_retry_backoff_seconds a b m \<le> max m (max b 1)"
    by (simp add: bounded_retry_backoff_seconds_def Let_def)
  show "bounded_retry_backoff_seconds a b m \<le> bounded_retry_backoff_seconds a' b m" if "a \<le> a'"
  proof -
    have "?e a \<le> ?e a'"
      using that by (intro nat_mono) (auto simp: clamp_int_def saturating_sub_i32_def)
    then have "max b 1 * 2 ^ ?e a \<le> max b 1 * 2 ^ ?e a'" by (intro mult_left_mono) auto
    then have "saturating_mul_i64 (max b 1) (2 ^ ?e a) \<le> saturating_mul_i64 (max b 1) (2 ^ ?e a')"
      unfolding saturating_mul_i64_def clamp_int_def by (intro max.mono min.mono order_refl)
    then show ?thesis
      unfolding bounded_retry_backoff_seconds_def Let_def by (intro min.mono order_refl)
  qed
  show "bounded_retry_backoff_seconds a b m = b * 2 ^ nat (a - 1)"
    if "1 \<le> a" "a \<le> 31" "1 \<le> b" "b * 2 ^ nat (a - 1) \<le> m" "m \<le> i64_max"
  proof -
    have e: "?e a = nat (a - 1)"
      using that by (simp add: clamp_int_def saturating_sub_i32_def i32_min_def i32_max_def)
    have "max b 1 = b" using that(3) by simp
    have "saturating_mul_i64 b (2 ^ nat (a - 1)) = b * 2 ^ nat (a - 1)"
      using that(4,5) pos [OF that(3), of "nat (a - 1)"]
      by (simp add: saturating_mul_i64_def clamp_int_def i64_min_def)
    then show ?thesis
      using that(4) unfolding bounded_retry_backoff_seconds_def Let_def e \<open>max b 1 = b\<close>
      by (simp add: min_def le_max_iff_disj)
  qed
qed

text \<open>The backoff before a retry is between one second and the configured maximum (at least the
  base), never shrinks when attempts grow, and is exactly base times a power of two while that is
  below the maximum.\<close>

theorem retry_backoff_bounds:
  "1 \<le> bounded_retry_backoff_seconds a b m
   \<and> bounded_retry_backoff_seconds a b m \<le> max m (max b 1)
   \<and> (a \<le> a' \<longrightarrow> bounded_retry_backoff_seconds a b m \<le> bounded_retry_backoff_seconds a' b m)
   \<and> (1 \<le> a \<longrightarrow> a \<le> 31 \<longrightarrow> 1 \<le> b \<longrightarrow> b * 2 ^ nat (a - 1) \<le> m \<longrightarrow> m \<le> i64_max \<longrightarrow>
       bounded_retry_backoff_seconds a b m = b * 2 ^ nat (a - 1))"
  using retry_backoff by blast

text \<open>A run that recovery queues again becomes claimable: at any time from its backoff on, a claim
  may take it.\<close>

theorem requeued_run_becomes_claimable:
  assumes "lease_expired now r" and "cr_cancel_requested_at r = None"
    and "cr_attempt_count r < cr_max_attempts r"
    and "now + seconds (max retry_max (max retry_base 1)) \<le> later"
  shows "claimable later (recovered_row now retry_base retry_max r)"
proof -
  have "bounded_retry_backoff_seconds (cr_attempt_count r) retry_base retry_max
      \<le> max retry_max (max retry_base 1)"
    by (simp add: bounded_retry_backoff_seconds_def Let_def)
  then have "seconds (bounded_retry_backoff_seconds (cr_attempt_count r) retry_base retry_max)
      \<le> seconds (max retry_max (max retry_base 1))"
    by (simp add: seconds_def)
  then show ?thesis
    using assms by (simp add: recovered_row_def requeue_row_def claimable_def)
qed

section \<open>Creation\<close>

text \<open>Queueing a run either returns the new run, queued with no attempt made and at least one
  allowed, appended to the table when its source and target had no active run; or it fails and the
  table of runs is unchanged. With an active run present it cannot succeed.\<close>

theorem queueing_a_run:
  assumes "create_queued_run_with_parent rt source target trigger payload None env s = (x, s')"
  shows "case x of
      Inl e \<Rightarrow> connector_runs (tabs s') = connector_runs (tabs s)
    | Inr r \<Rightarrow> cr_source r = source \<and> cr_target r = target \<and> cr_status r = ''queued''
        \<and> cr_attempt_count r = 0 \<and> 0 < cr_max_attempts r \<and> cr_payload r = payload
        \<and> rows (connector_runs (tabs s')) = rows (connector_runs (tabs s)) @ [r]
        \<and> count_rows (pending_for source target) (rows (connector_runs (tabs s))) = 0"
proof -
  let ?n = "queued_run rt source target trigger payload None (env_clock env (tick s))"
  let ?s0 = "s\<lparr>tick := Suc (tick s)\<rparr>"
  obtain y s1 where c: "ConnectorRunRepository_create_if_no_pending ?n env ?s0 = (y, s1)" by force
  have run: "bindM (liftM (ConnectorRunRepository_create_if_no_pending ?n)) created_or_active env ?s0
      = (x, s')"
    using assms by (simp add: create_queued_run_with_parent_def Let_def bindM_def)
  show ?thesis
  proof (cases y)
    case (Inl e)
    then have "x = Inl (api_error_of e)" "s' = s1"
      using run c by (auto simp: liftM_def bindM_def handleM_def)
    moreover have "tabs s1 = tabs s"
      using c Inl unfolding ConnectorRunRepository_create_if_no_pending_def query_transaction_def
      by (auto elim: transaction_outcome)
    ultimately show ?thesis by simp
  next
    case (Inr v)
    then have k: "created_or_active v env s1 = (x, s')"
      using run c by (simp add: liftM_def bindM_def handleM_def)
    note res = create_if_no_pending_result [OF c [unfolded Inr]]
    show ?thesis
    proof (cases v)
      case None
      then show ?thesis using k res by (auto simp: created_or_active_def)
    next
      case (Some r)
      then have "x = Inr r" "s' = s1" using k by (auto simp: created_or_active_def)
      then show ?thesis
        using res Some max_attempts_positive
        by (auto simp: queued_run_def NewConnectorRun.extend_def ConnectorRun.fields_def)
    qed
  qed
qed

end
