(* ===== verification/Import_Properties.thy ===== *)
theory Import_Properties
  imports Run_Guarantees
begin

text \<open>
  The import of a payload: executions are atomic, a response always carries a settled run, and a
  complete snapshot that imports without an error leaves exactly its items alive.
\<close>

lemma bind_lift_Inr:
  assumes "bindM (liftM m) f env s = (Inr y, s')"
  obtains x s1 where "m env s = (Inr x, s1)" and "f x env s1 = (Inr y, s')"
  using assms by (rule bindM_result_Inr) (simp add: liftM_Inr that)

section \<open>Loops over items\<close>

context snapshot_table
begin

lemma import_item_clean:
  assumes run: "import_item e raw (validate_request V n) upsert ext rd js acc env s = (Inr acc', s')"
    and errors: "acc_errors acc' = []"
  obtains r s1 where "V n = []" and "upsert n env s = (Inr r, s')"
    and "acc_errors acc = []" and "length (acc_data acc') = Suc (length (acc_data acc))"
proof (cases "V n = []")
  case False
  then have "validate_request V n = Inl (Validation (V n))" by (simp add: validate_request_Inl)
  with run errors show ?thesis by (auto simp: import_item_def push_error_def)
next
  case True
  then have v: "validate_request V n = Inr n" by (simp add: validate_request_Inr)
  show ?thesis
  proof (cases "upsert n env s")
    case (Pair x s1)
    show ?thesis
    proof (cases x)
      case (Inl err)
      with run v Pair errors show ?thesis
        by (auto simp: import_item_def handleM_def push_error_def)
    next
      case (Inr r)
      with run v Pair have "(case js r of None \<Rightarrow> throwM Internal
          | Some v \<Rightarrow> retM (acc\<lparr>acc_items := acc_items acc @ [imported_run_item (ext r) (Some (rd r)) raw],
               acc_data := acc_data acc @ [v]\<rparr>)) env s1 = (Inr acc', s')"
        by (simp add: import_item_def handleM_def)
      then obtain j where "js r = Some j" by (cases "js r") simp_all
      with \<open>(case js r of None \<Rightarrow> _ | Some v \<Rightarrow> _) env s1 = (Inr acc', s')\<close>
      have "s' = s1" "acc_errors acc' = acc_errors acc" "acc_data acc' = acc_data acc @ [j]" by auto
      with that [of r] True Pair Inr errors show ?thesis by simp
    qed
  qed
qed

definition loop_step ::
    "('x \<Rightarrow> 'n option) \<Rightarrow> ('x \<Rightarrow> string) \<Rightarrow> ('x \<Rightarrow> string) \<Rightarrow> ('x \<Rightarrow> string option) \<Rightarrow> ('n \<Rightarrow> violations) \<Rightarrow>
     ('n \<Rightarrow> 'r query) \<Rightarrow> ('r \<Rightarrow> string option) \<Rightarrow> ('r \<Rightarrow> i32) \<Rightarrow> ('r \<Rightarrow> json option) \<Rightarrow> 'x \<Rightarrow> import_acc \<Rightarrow>
     import_acc api" where
  "loop_step new eid why raw V upsert ext rd js x acc = (case new x of
        None \<Rightarrow> retM (push_error (eid x) (why x) (raw x) acc)
      | Some n \<Rightarrow> import_item (eid x) (raw x) (validate_request V n) upsert ext rd js acc)"

lemma loop_step_clean:
  assumes "loop_step new eid why raw V upsert ext rd js x acc env s = (Inr acc', s')"
    and "acc_errors acc' = []"
  obtains n r where "new x = Some n" and "upsert n env s = (Inr r, s')" and "acc_errors acc = []"
    and "length (acc_data acc') = Suc (length (acc_data acc))"
proof (cases "new x")
  case None
  then show ?thesis using assms by (auto simp: loop_step_def push_error_def)
next
  case (Some n)
  then have "import_item (eid x) (raw x) (validate_request V n) upsert ext rd js acc env s = (Inr acc', s')"
    using assms(1) by (simp add: loop_step_def)
  then show ?thesis using assms(2)
    by (rule import_item_clean) (use that [OF Some] in blast)
qed

lemma loop_errors:
  assumes "foldM (loop_step new eid why raw V upsert ext rd js) xs acc env s = (Inr acc', s')"
    and "acc_errors acc' = []"
  shows "acc_errors acc = []"
  using assms(1)
proof (induction xs arbitrary: acc s)
  case Nil
  then show ?case using assms(2) by simp
next
  case (Cons x xs)
  obtain acc1 s1 where one: "loop_step new eid why raw V upsert ext rd js x acc env s = (Inr acc1, s1)"
    and rest: "foldM (loop_step new eid why raw V upsert ext rd js) xs acc1 env s1 = (Inr acc', s')"
    using Cons.prems by (auto elim: bindM_result_Inr)
  from one Cons.IH [OF rest] show ?case by (rule loop_step_clean)
qed

text \<open>What the loop relies on: the upsert of an item of the run updates the map.\<close>

definition upsert_law :: "('n \<Rightarrow> 'r query) \<Rightarrow> i32 \<Rightarrow> i32 \<Rightarrow> env \<Rightarrow> bool" where
  "upsert_law upsert c i env \<longleftrightarrow> (\<forall>n s r s'. of_run c i n \<longrightarrow> upsert n env s = (Inr r, s') \<longrightarrow>
     table_inv (tabs s) \<longrightarrow> view (tabs s') = put n (view (tabs s)) \<and> table_inv (tabs s'))"

lemma import_loop:
  assumes law: "upsert_law upsert c i env"
    and items: "\<forall>x \<in> set xs. \<forall>n. new x = Some n \<longrightarrow> of_run c i n"
    and run: "foldM (loop_step new eid why raw V upsert ext rd js) xs acc env s = (Inr acc', s')"
    and errors: "acc_errors acc' = []" and inv: "table_inv (tabs s)"
  shows "(\<forall>x \<in> set xs. new x \<noteq> None)
    \<and> view (tabs s') = fold put (map (the \<circ> new) xs) (view (tabs s)) \<and> table_inv (tabs s')
    \<and> length (acc_data acc') = length (acc_data acc) + length xs"
  using items run inv
proof (induction xs arbitrary: acc s)
  case Nil
  then show ?case by simp
next
  case (Cons x xs)
  obtain acc1 s1 where one: "loop_step new eid why raw V upsert ext rd js x acc env s = (Inr acc1, s1)"
    and rest: "foldM (loop_step new eid why raw V upsert ext rd js) xs acc1 env s1 = (Inr acc', s')"
    using Cons.prems(2) by (auto elim: bindM_result_Inr)
  obtain n r where n: "new x = Some n" and u: "upsert n env s = (Inr r, s1)"
    and len: "length (acc_data acc1) = Suc (length (acc_data acc))"
    using one loop_errors [OF rest errors] by (rule loop_step_clean)
  have "view (tabs s1) = put n (view (tabs s))" and inv1: "table_inv (tabs s1)"
    using law u Cons.prems(1,3) n unfolding upsert_law_def by auto
  then show ?case using Cons.IH [OF _ rest inv1] Cons.prems(1) n len by auto
qed

text \<open>After the loop, archiving leaves exactly the items of the snapshot alive.\<close>

lemma reconcile_clean:
  assumes run: "reconcile (Some True) arch acc env s = (Inr ex, s')" and "ex_errors ex = []"
  obtains cnt where "arch env s = (Inr cnt, s')" and "ex_archived_count ex = cnt"
    and "acc_errors acc = []" and "ex_data ex = acc_data acc"
proof -
  obtain cnt s1 where one: "(if should_reconcile (Some True) (length (acc_errors acc))
      then liftM arch else retM 0) env s = (Inr cnt, s1)"
    and ex: "ex = execution_of acc (Some True) cnt" and "s1 = s'"
    using run unfolding reconcile_def by (auto elim!: bindM_result_Inr)
  then have "acc_errors acc = []" using assms(2) by (simp add: execution_of_def)
  with one ex \<open>s1 = s'\<close> that [of cnt] show ?thesis
    by (simp add: should_reconcile_def liftM_Inr execution_of_def)
qed

lemma snapshot_reconciled:
  assumes law: "upsert_law upsert c i env"
    and items: "\<forall>x \<in> set xs. \<forall>n. new x = Some n \<longrightarrow> of_run c i n"
    and run: "bindM (foldM (loop_step new eid why raw V upsert ext rd js) xs empty_acc)
       (reconcile (Some True) (archive_rows get upd chk (\<lambda>r. stale c i (core r)) archive)) env s
       = (Inr ex, s')"
    and errors: "ex_errors ex = []" and inv: "table_inv (tabs s)"
    and fresh: "\<forall>r \<in> set (rows (get (tabs s))). seen_by (core r) \<noteq> Some i"
  shows "table_inv (tabs s')"
    and "(\<exists>r \<in> set (rows (get (tabs s'))). key (core r) = Some k \<and> live c (core r))
       \<longleftrightarrow> (\<exists>x \<in> set xs. \<exists>n. new x = Some n \<and> key n = Some k)"
    and "r \<in> set (rows (get (tabs s'))) \<Longrightarrow> key (core r) = Some k \<Longrightarrow> live c (core r) \<Longrightarrow>
       core r \<in> set (map (the \<circ> new) xs)"
    and "length (ex_data ex) = length xs" and "\<forall>x \<in> set xs. new x \<noteq> None"
proof -
  obtain acc s1 where loop: "foldM (loop_step new eid why raw V upsert ext rd js) xs empty_acc env s
      = (Inr acc, s1)"
    and rec: "reconcile (Some True) (archive_rows get upd chk (\<lambda>r. stale c i (core r)) archive)
      acc env s1 = (Inr ex, s')"
    using run by (rule bindM_result_Inr)
  obtain cnt where arch: "archive_rows get upd chk (\<lambda>r. stale c i (core r)) archive env s1 = (Inr cnt, s')"
    and acc: "acc_errors acc = []" "ex_data ex = acc_data acc"
    using rec errors by (rule reconcile_clean)
  note L = import_loop [OF law items loop acc(1) inv]
  have inv1: "table_inv (tabs s1)" using L by simp
  show all: "\<forall>x \<in> set xs. new x \<noteq> None" using L by simp
  note A = archive_refines [OF arch inv1]
  show inv': "table_inv (tabs s')" by (rule A(1))
  show "length (ex_data ex) = length xs" using L acc by (simp add: empty_acc_def)
  have final: "view (tabs s') = (\<lambda>k. map_option (\<lambda>n. if stale c i n
      then set_archived (env_clock env (tick s1)) n else n)
      (fold put (map (the \<circ> new) xs) (view (tabs s)) k))"
    using A(2) L by simp
  have of_run: "of_run c i n" if "n \<in> set (map (the \<circ> new) xs)" for n
    using that items all by auto
  have quiet: "seen_by n \<noteq> Some i" if "view (tabs s) k = Some n" for k n
    using that fresh view_iff [OF inv] by auto
  have R1: "(\<exists>n. view (tabs s') k = Some n \<and> live c n)
      \<longleftrightarrow> (\<exists>n \<in> set (map (the \<circ> new) xs). key n = Some k)" for k
    by (rule reconciled(1) [OF _ final]) (use of_run quiet in blast)+
  have R2: "n \<in> set (map (the \<circ> new) xs)" if "view (tabs s') k = Some n" "live c n" for k n
    by (rule reconciled(2) [OF _ final _ that]) (use of_run quiet in blast)+
  have "(\<exists>r \<in> set (rows (get (tabs s'))). key (core r) = Some k \<and> live c (core r))
      \<longleftrightarrow> (\<exists>n. view (tabs s') k = Some n \<and> live c n)"
    unfolding view_iff [OF inv'] by auto
  also have "\<dots> \<longleftrightarrow> (\<exists>n \<in> set (map (the \<circ> new) xs). key n = Some k)" by (rule R1)
  also have "\<dots> \<longleftrightarrow> (\<exists>x \<in> set xs. \<exists>n. new x = Some n \<and> key n = Some k)"
    using all by (simp, intro bex_cong refl) auto
  finally show "(\<exists>r \<in> set (rows (get (tabs s'))). key (core r) = Some k \<and> live c (core r))
       \<longleftrightarrow> (\<exists>x \<in> set xs. \<exists>n. new x = Some n \<and> key n = Some k)" .
  show "core r \<in> set (map (the \<circ> new) xs)"
    if "r \<in> set (rows (get (tabs s')))" "key (core r) = Some k" "live c (core r)"
    using R2 view_iff [OF inv', of k "core r"] that by blast
qed

end

section \<open>Work cards\<close>

lemma find_connector_Inr:
  assumes "ConnectorRepository_find_by_source source env s = (Inr c, s')"
  shows "first_row (\<lambda>c. cn_source c = source) (rows (connectors (tabs s))) = Some c \<and> tabs s' = tabs s"
  using assms find_keyed_Inr [of connectors "\<lambda>c. cn_source c = source"]
  by (simp add: ConnectorRepository_find_by_source_def find_keyed_def)

lemma work_card_law: "work_card.upsert_law WorkCardRepository_upsert_from_connector c i env"
  unfolding work_card.upsert_law_def
proof (intro allI impI)
  fix n s r s'
  assume assms: "work_card.of_run c i n" "WorkCardRepository_upsert_from_connector n env s = (Inr r, s')"
    "work_card.table_inv (tabs s)"
  obtain e where e: "wc_external_id n = Some e"
    using assms(1) by (auto simp: work_card.of_run_def work_card_key_def)
  have k: "work_card_key n = Some (wc_source n, e)" by (simp add: work_card_key_def e)
  show "work_card.view (tabs s') = work_card.put n (work_card.view (tabs s)) \<and> work_card.table_inv (tabs s')"
    using work_card.upsert_refines [OF assms(2) [unfolded work_card_upsert [OF e]] assms(3) k] k
    by (simp add: work_card.put_def)
qed

lemma import_work_card_loop:
  "import_work_card_item rt source connector run_id = work_card.loop_step
     (\<lambda>x. Some (new_work_card source connector run_id x)) wi_external_id (\<lambda>_. [])
     (\<lambda>x. raw_item_json rt (rt_work_item_json rt x)) NewWorkCard_validate
     WorkCardRepository_upsert_from_connector wc_external_id wc_id (rt_work_json rt)"
  by (simp add: fun_eq_iff import_work_card_item_def work_card.loop_step_def)

text \<open>The key of a row: its source and external id, when it has one.\<close>

definition work_card_ref :: "WorkCard \<Rightarrow> (string \<times> string) option" where
  "work_card_ref w = map_option (Pair (wc_source w)) (wc_external_id w)"

text \<open>C3: Importing a complete snapshot of work cards without an error reconciles the connector's cards:
  afterwards a card of the connector is live (not archived) exactly when the snapshot has an item
  with its external id; and every item was imported.\<close>

theorem complete_work_card_snapshot_is_reconciled:
  assumes run: "execute_work_card_items rt source run_id items (Some True) env s = (Inr ex, s')"
    and errors: "ex_errors ex = []"
    and inv: "serial_keys wc_id work_card_ref (work_cards (tabs s))"
    and connector: "first_row (\<lambda>c. cn_source c = source) (rows (connectors (tabs s))) = Some connector"
    and fresh: "\<forall>w \<in> set (rows (work_cards (tabs s))). wc_last_seen_run_id w \<noteq> Some run_id"
  shows "(\<forall>k. (\<exists>w \<in> set (rows (work_cards (tabs s'))). work_card_ref w = Some k
           \<and> wc_connector_id w = Some (cn_id connector) \<and> wc_archived_at w = None)
         \<longleftrightarrow> (\<exists>x \<in> set items. k = (source, wi_external_id x)))
    \<and> length (ex_data ex) = length items \<and> serial_keys wc_id work_card_ref (work_cards (tabs s'))"
proof -
  have ref: "work_card_ref = (\<lambda>r. work_card_key (NewWorkCard.truncate r))"
    by (simp add: fun_eq_iff work_card_ref_def work_card_key_def)
  obtain c s1 where find: "ConnectorRepository_find_by_source source env s = (Inr c, s1)"
    and rest: "bindM (foldM (import_work_card_item rt source c run_id) items empty_acc)
       (reconcile (Some True)
          (WorkCardRepository_archive_missing_for_connector_run (cn_id c) run_id)) env s1 = (Inr ex, s')"
    using run unfolding execute_work_card_items_def by (rule bind_lift_Inr)
  have c: "c = connector" and t1: "tabs s1 = tabs s"
    using find_connector_Inr [OF find] connector by simp_all
  have of_run: "\<forall>x \<in> set items. \<forall>n. Some (new_work_card source connector run_id x) = Some n \<longrightarrow>
      work_card.of_run (cn_id connector) run_id n"
    by (simp add: work_card.of_run_def new_work_card_def work_card_key_def)
  have inv1: "work_card.table_inv (tabs s1)"
    using inv t1 by (simp add: work_card.table_inv_serial ref)
  have fresh1: "\<forall>r \<in> set (rows (work_cards (tabs s1))). wc_last_seen_run_id (NewWorkCard.truncate r) \<noteq> Some run_id"
    using fresh t1 by simp
  note S = work_card.snapshot_reconciled [OF work_card_law of_run rest [unfolded c import_work_card_loop
      work_card_archive] errors inv1 fresh1]
  show ?thesis
    using S(1,2,4)
    by (auto simp: ref work_card.table_inv_serial work_card.live_def new_work_card_def work_card_key_def)
qed

section \<open>Notifications\<close>

lemma notification_law: "notification.upsert_law NotificationRepository_upsert_from_connector c i env"
  unfolding notification.upsert_law_def
proof (intro allI impI)
  fix n s r s'
  assume assms: "notification.of_run c i n" "NotificationRepository_upsert_from_connector n env s = (Inr r, s')"
    "notification.table_inv (tabs s)"
  obtain e where e: "nt_external_id n = Some e"
    using assms(1) by (auto simp: notification.of_run_def notification_key_def)
  have k: "notification_key n = Some (nt_source n, e)" by (simp add: notification_key_def e)
  show "notification.view (tabs s') = notification.put n (notification.view (tabs s)) \<and> notification.table_inv (tabs s')"
    using notification.upsert_refines [OF assms(2) [unfolded notification_upsert [OF e]] assms(3) k] k
    by (simp add: notification.put_def)
qed

lemma import_notification_loop:
  "import_notification_item rt source connector run_id = notification.loop_step
     (\<lambda>x. Some (new_notification source connector run_id x)) ni_external_id (\<lambda>_. [])
     (\<lambda>x. raw_item_json rt (rt_notification_item_json rt x)) NewNotification_validate
     NotificationRepository_upsert_from_connector nt_external_id nt_id (rt_notification_json rt)"
  by (simp add: fun_eq_iff import_notification_item_def notification.loop_step_def)

definition notification_ref :: "Notification \<Rightarrow> (string \<times> string) option" where
  "notification_ref w = map_option (Pair (nt_source w)) (nt_external_id w)"

text \<open>Importing a complete snapshot of notifications without an error reconciles the connector's notifications:
  afterwards a notification of the connector is live (not archived) exactly when the snapshot has an item
  with its external id; and every item was imported.\<close>

theorem complete_notification_snapshot_is_reconciled:
  assumes run: "execute_notification_items rt source run_id items (Some True) env s = (Inr ex, s')"
    and errors: "ex_errors ex = []"
    and inv: "serial_keys nt_id notification_ref (notifications (tabs s))"
    and connector: "first_row (\<lambda>c. cn_source c = source) (rows (connectors (tabs s))) = Some connector"
    and fresh: "\<forall>w \<in> set (rows (notifications (tabs s))). nt_last_seen_run_id w \<noteq> Some run_id"
  shows "(\<forall>k. (\<exists>w \<in> set (rows (notifications (tabs s'))). notification_ref w = Some k
           \<and> nt_connector_id w = Some (cn_id connector) \<and> nt_archived_at w = None)
         \<longleftrightarrow> (\<exists>x \<in> set items. k = (source, ni_external_id x)))
    \<and> length (ex_data ex) = length items \<and> serial_keys nt_id notification_ref (notifications (tabs s'))"
proof -
  have ref: "notification_ref = (\<lambda>r. notification_key (NewNotification.truncate r))"
    by (simp add: fun_eq_iff notification_ref_def notification_key_def)
  obtain c s1 where find: "ConnectorRepository_find_by_source source env s = (Inr c, s1)"
    and rest: "bindM (foldM (import_notification_item rt source c run_id) items empty_acc)
       (reconcile (Some True)
          (NotificationRepository_archive_missing_for_connector_run (cn_id c) run_id)) env s1 = (Inr ex, s')"
    using run unfolding execute_notification_items_def by (rule bind_lift_Inr)
  have c: "c = connector" and t1: "tabs s1 = tabs s"
    using find_connector_Inr [OF find] connector by simp_all
  have of_run: "\<forall>x \<in> set items. \<forall>n. Some (new_notification source connector run_id x) = Some n \<longrightarrow>
      notification.of_run (cn_id connector) run_id n"
    by (simp add: notification.of_run_def new_notification_def notification_key_def)
  have inv1: "notification.table_inv (tabs s1)"
    using inv t1 by (simp add: notification.table_inv_serial ref)
  have fresh1: "\<forall>r \<in> set (rows (notifications (tabs s1))). nt_last_seen_run_id (NewNotification.truncate r) \<noteq> Some run_id"
    using fresh t1 by simp
  note S = notification.snapshot_reconciled [OF notification_law of_run rest [unfolded c import_notification_loop
      notification_archive] errors inv1 fresh1]
  show ?thesis
    using S(1,2,4)
    by (auto simp: ref notification.table_inv_serial notification.live_def new_notification_def notification_key_def)
qed

section \<open>Calendar events\<close>

lemma calendar_law: "calendar.upsert_law CalendarEventRepository_upsert_from_connector c i env"
  unfolding calendar.upsert_law_def
proof (intro allI impI)
  fix n s r s'
  assume assms: "calendar.of_run c i n" "CalendarEventRepository_upsert_from_connector n env s = (Inr r, s')"
    "calendar.table_inv (tabs s)"
  have k: "calendar_key n = Some (ce_source n, ce_external_id n)" by (simp add: calendar_key_def)
  show "calendar.view (tabs s') = calendar.put n (calendar.view (tabs s)) \<and> calendar.table_inv (tabs s')"
    using calendar.upsert_refines [OF assms(2) [unfolded calendar_upsert] assms(3) k] k
    by (simp add: calendar.put_def)
qed

definition timed_event ::
    "string \<Rightarrow> Connector \<Rightarrow> i32 \<Rightarrow> CalendarEventImportItem \<Rightarrow> NewCalendarEvent option" where
  "timed_event source connector run_id x = (case (ii_starts_at x, ii_ends_at x) of
      (Some a, Some b) \<Rightarrow> Some (new_calendar_event source connector run_id a b x) | _ \<Rightarrow> None)"

lemma import_calendar_loop:
  "import_calendar_item rt source connector run_id = calendar.loop_step
     (timed_event source connector run_id) ii_external_id
     (\<lambda>_. ''starts_at and ends_at are required'')
     (\<lambda>x. raw_item_json rt (rt_calendar_item_json rt x)) NewCalendarEvent_validate
     CalendarEventRepository_upsert_from_connector (\<lambda>e. Some (ce_external_id e)) ce_id
     (rt_calendar_json rt)"
  by (simp add: fun_eq_iff import_calendar_item_def calendar.loop_step_def timed_event_def
      split: option.splits)

definition calendar_ref :: "CalendarEvent \<Rightarrow> (string \<times> string) option" where
  "calendar_ref w = Some (ce_source w, ce_external_id w)"

text \<open>Importing a complete snapshot of calendar events without an error reconciles the connector's events:
  afterwards an event of the connector is live (not archived) exactly when the snapshot has an item
  with its external id; and every item was imported.\<close>

theorem complete_calendar_snapshot_is_reconciled:
  assumes run: "execute_calendar_event_items rt source run_id items (Some True) env s = (Inr ex, s')"
    and errors: "ex_errors ex = []"
    and inv: "serial_keys ce_id calendar_ref (calendar_events (tabs s))"
    and connector: "first_row (\<lambda>c. cn_source c = source) (rows (connectors (tabs s))) = Some connector"
    and fresh: "\<forall>w \<in> set (rows (calendar_events (tabs s))). ce_last_seen_run_id w \<noteq> Some run_id"
  shows "(\<forall>k. (\<exists>w \<in> set (rows (calendar_events (tabs s'))). calendar_ref w = Some k
           \<and> ce_connector_id w = Some (cn_id connector) \<and> ce_archived_at w = None)
         \<longleftrightarrow> (\<exists>x \<in> set items. k = (source, ii_external_id x)))
    \<and> length (ex_data ex) = length items \<and> serial_keys ce_id calendar_ref (calendar_events (tabs s'))"
proof -
  have ref: "calendar_ref = (\<lambda>r. calendar_key (NewCalendarEvent.truncate r))"
    by (simp add: fun_eq_iff calendar_ref_def calendar_key_def)
  obtain c s1 where find: "ConnectorRepository_find_by_source source env s = (Inr c, s1)"
    and rest: "bindM (foldM (import_calendar_item rt source c run_id) items empty_acc)
       (reconcile (Some True)
          (CalendarEventRepository_archive_missing_for_connector_run (cn_id c) run_id)) env s1 = (Inr ex, s')"
    using run unfolding execute_calendar_event_items_def by (rule bind_lift_Inr)
  have c: "c = connector" and t1: "tabs s1 = tabs s"
    using find_connector_Inr [OF find] connector by simp_all
  have timed: "ce_source n = source \<and> ce_external_id n = ii_external_id x
      \<and> calendar.of_run (cn_id connector) run_id n"
    if "timed_event source connector run_id x = Some n" for x n
    using that by (auto simp: timed_event_def calendar.of_run_def new_calendar_event_def
        calendar_key_def split: option.splits)
  then have of_run: "\<forall>x \<in> set items. \<forall>n. timed_event source connector run_id x = Some n \<longrightarrow>
      calendar.of_run (cn_id connector) run_id n" by blast
  have inv1: "calendar.table_inv (tabs s1)"
    using inv t1 by (simp add: calendar.table_inv_serial ref)
  have fresh1: "\<forall>r \<in> set (rows (calendar_events (tabs s1))). ce_last_seen_run_id (NewCalendarEvent.truncate r) \<noteq> Some run_id"
    using fresh t1 by simp
  note S = calendar.snapshot_reconciled [OF calendar_law of_run rest [unfolded c import_calendar_loop
      calendar_archive] errors inv1 fresh1]
  have "(\<exists>x \<in> set items. \<exists>n. timed_event source connector run_id x = Some n \<and> calendar_key n = Some k)
      \<longleftrightarrow> (\<exists>x \<in> set items. k = (source, ii_external_id x))" for k
  proof (rule bex_cong [OF refl])
    fix x assume "x \<in> set items"
    then obtain n where n: "timed_event source connector run_id x = Some n" using S(5) by blast
    show "(\<exists>n. timed_event source connector run_id x = Some n \<and> calendar_key n = Some k)
        \<longleftrightarrow> k = (source, ii_external_id x)"
      using timed [OF n] n by (auto simp: calendar_key_def)
  qed
  then show ?thesis
    using S(1,2,4) by (simp add: ref calendar.table_inv_serial calendar.live_def)
qed

section \<open>Executions are atomic and durable\<close>


lemma transaction_Inr:
  assumes "transaction m conv env s = (Inr x, s')"
  obtains s0 s1 where "tabs s0 = tabs s" and "tx_depth s0 = Suc (tx_depth s)"
    and "\<not> tx_aborted s0" and "m env s0 = (Inr x, s1)" and "tx_aborted s1 \<or> tabs s' = tabs s1"
proof -
  obtain r0 s0 where sel: "select_stmt (\<lambda>_. ()) env s = (r0, s0)" by force
  then obtain u where r0: "r0 = Inr u"
    using assms by (cases r0) (simp_all add: transaction_def)
  have s0: "s0 = s\<lparr>tick := Suc (tick s)\<rparr>" "\<not> tx_aborted s"
    using sel r0 by (auto simp: select_stmt_def stmt_def fail_stmt_def Let_def
        split: if_splits option.splits)
  let ?s0 = "s0\<lparr>tx_depth := Suc (tx_depth s0)\<rparr>"
  obtain rm s1 where m: "m env ?s0 = (rm, s1)" by force
  obtain y where rm: "rm = Inr y"
    using assms sel r0 m by (cases rm) (simp_all add: transaction_def)
  have "y = x"
    using assms sel r0 m rm by (auto simp: transaction_def split: if_splits option.splits)
  moreover have "tabs s' = tabs s1" if "\<not> tx_aborted s1"
    using assms sel r0 m rm that by (auto simp: transaction_def split: option.splits)
  ultimately show ?thesis using that [of ?s0 s1] m rm s0 by (simp, blast)
qed

lemma touch_unaborted:
  assumes "ConnectorRepository_touch_run_state source kind status at env s = (Inr c, s')"
  shows "\<not> tx_aborted s'"
proof -
  have ins: "\<not> tx_aborted s2" if "insert_stmt g u k mk env s1 = (Inr r, s2)" for g u k mk s1 s2 and r :: 'r
    using that unfolding insert_stmt_def by (auto dest!: stmt_Inr)
  have upd: "\<not> tx_aborted s2"
    if "bindM (update_stmt g u k p f) (expect_row \<circ> one_row) env s1 = (Inr r, s2)"
    for g u k p f s1 s2 and r :: 'r
    using that unfolding update_stmt_def
    by (auto elim!: bindM_result_Inr dest!: stmt_Inr expect_one_row)
  obtain x s1 where find: "ConnectorRepository_find_by_source source env s = (x, s1)" by force
  show ?thesis
    using assms find unfolding ConnectorRepository_touch_run_state_def Let_def
    by (cases x) (auto simp: handleM_def bindM_def split: if_splits
        dest!: ins upd [unfolded bindM_def])
qed

lemma finish_unaborted:
  assumes "finish_connector_run_for_owner source target run ex w env s = (Inr resp, s')"
  shows "\<not> tx_aborted s'"
proof -
  obtain x s1 where rest: "(case x of None \<Rightarrow> throwM ServiceUnavailable
     | Some r \<Rightarrow>
         bindM (liftM (ConnectorRunItemErrorRepository_create_many
                  (error_rows (cr_id r) source target ex))) (\<lambda>item_errors.
         bindM (liftM (ConnectorRunItemRepository_create_many
                  (item_rows (cr_id r) source target ex))) (\<lambda>items.
         bindM (liftM (ConnectorRepository_touch_run_state source
                  (default_connector_kind source target) (cr_status r) (env_clock env (tick s)))) (\<lambda>_.
         retM \<lparr>rr_source = source, rr_target = target, rr_imported = length (ex_data ex),
            rr_failed = length (ex_errors ex), rr_run = r, rr_data = ex_data ex,
            rr_items = items, rr_errors = ex_errors ex, rr_item_errors = item_errors\<rparr>)))) env s1
      = (Inr resp, s')"
    using assms unfolding finish_connector_run_for_owner_def
    by (auto simp: liftM_Inr elim!: bindM_result_Inr)
  obtain r where x: "x = Some r" using rest by (cases x) simp_all
  obtain c s2 s3 where "ConnectorRepository_touch_run_state source (default_connector_kind source target)
      (cr_status r) (env_clock env (tick s)) env s2 = (Inr c, s3)" and "s3 = s'"
    using rest unfolding x by (auto simp: liftM_Inr elim!: bindM_result_Inr)
  then show ?thesis using touch_unaborted by blast
qed

text \<open>The last part of the transaction of an execution, on the tables the import left behind.\<close>

lemma run_transaction_Inr:
  assumes "run_transaction rt run w prepared env s = (Inr resp, s')"
  obtains ex s1 s2 where "finish_connector_run_for_owner (cr_source run) (cr_target run) run ex w env s1
      = (Inr resp, s2)" and "connector_runs (tabs s1) = connector_runs (tabs s)" and "tabs s' = tabs s2"
proof -
  let ?active = "liftM (ConnectorRunRepository_execution_is_active (cr_id run) w)"
  let ?load = "case prepared of Inl payload \<Rightarrow>
      execute_payload_for_target rt (cr_source run) (cr_target run) (cr_id run) payload
    | Inr execution \<Rightarrow> retM execution"
  obtain s0 s2 where t0: "tabs s0 = tabs s" "tx_depth s0 = Suc (tx_depth s)" "\<not> tx_aborted s0"
    and body: "bindM ?active (\<lambda>active. if \<not> active then throwM ServiceUnavailable
      else bindM ?load (\<lambda>execution. bindM ?active (\<lambda>active. if \<not> active then throwM ServiceUnavailable
        else finish_connector_run_for_owner (cr_source run) (cr_target run) run execution w))) env s0
      = (Inr resp, s2)" and t2: "tx_aborted s2 \<or> tabs s' = tabs s2"
    using assms unfolding run_transaction_def api_transaction_def by (rule transaction_Inr)
  obtain a sa where a: "?active env s0 = (Inr a, sa)"
    and body1: "(if \<not> a then throwM ServiceUnavailable
      else bindM ?load (\<lambda>execution. bindM ?active (\<lambda>active. if \<not> active then throwM ServiceUnavailable
        else finish_connector_run_for_owner (cr_source run) (cr_target run) run execution w))) env sa
      = (Inr resp, s2)"
    using body by (rule bindM_result_Inr)
  then have "a" by (cases a) simp_all
  with body1 have "bindM ?load (\<lambda>execution. bindM ?active (\<lambda>active.
      if \<not> active then throwM ServiceUnavailable
      else finish_connector_run_for_owner (cr_source run) (cr_target run) run execution w)) env sa
      = (Inr resp, s2)" by simp
  then obtain ex sb where l: "?load env sa = (Inr ex, sb)"
    and body2: "bindM ?active (\<lambda>active. if \<not> active then throwM ServiceUnavailable
      else finish_connector_run_for_owner (cr_source run) (cr_target run) run ex w) env sb = (Inr resp, s2)"
    by (rule bindM_result_Inr)
  obtain b sc where b: "?active env sb = (Inr b, sc)"
    and body3: "(if \<not> b then throwM ServiceUnavailable
      else finish_connector_run_for_owner (cr_source run) (cr_target run) run ex w) env sc = (Inr resp, s2)"
    using body2 by (rule bindM_result_Inr)
  then have "b" by (cases b) simp_all
  with body3 have f: "finish_connector_run_for_owner (cr_source run) (cr_target run) run ex w env sc
      = (Inr resp, s2)" by simp
  have active: "spares_runs ?active" by (intro spares_rule)
  have load: "spares_runs ?load" by (intro spares_rule)
  have "connector_runs (tabs sc) = connector_runs (tabs s)"
    using spares_runsD [OF active a] spares_runsD [OF load l] spares_runsD [OF active b] t0 by simp
  with that [OF f] t2 finish_unaborted [OF f] show ?thesis by blast
qed

text \<open>A reported outcome is stored: when the execution of a run returns a response, the run of the
  response is a row of the committed table, it is settled, and its status is success exactly when no
  item failed.\<close>

theorem reported_outcome_is_stored:
  assumes "run_transaction rt run w prepared env s = (Inr resp, s')"
  shows "rr_run resp \<in> set (rows (connector_runs (tabs s'))) \<and> cr_id (rr_run resp) = cr_id run
    \<and> \<not> run_is_active (rr_run resp)
    \<and> (cr_status (rr_run resp) = ''success'' \<longleftrightarrow> rr_errors resp = [])"
proof -
  obtain ex s1 s2 where f: "finish_connector_run_for_owner (cr_source run) (cr_target run) run ex w env s1
      = (Inr resp, s2)" and t: "tabs s' = tabs s2"
    using assms by (rule run_transaction_Inr)
  let ?st = "final_state run ex (env_clock env (tick s1))"
  obtain s3 where fin: "ConnectorRunRepository_finalize_if_active (cr_id run) w ?st env
        (s1\<lparr>tick := Suc (tick s1)\<rparr>) = (Inr (Some (rr_run resp)), s3)"
    and same: "connector_runs (tabs s2) = connector_runs (tabs s3)"
    using f by (rule finish_Inr)
  let ?now = "env_clock env (Suc (tick s1))"
  obtain q where q: "q \<in> set (rows (connector_runs (tabs s1)))" "execution_active ?now (cr_id run) w q"
    and r: "rr_run resp = finalize_row ?now ?st q"
    using fin by (rule finalize_Some) simp
  have "rr_run resp \<in> set (rows (connector_runs (tabs s')))"
    using finalize_result(2) [OF fin] q by (auto simp: t same update_rows_def r image_iff)
  moreover have "cr_id (rr_run resp) = cr_id run" "\<not> run_is_active (rr_run resp)"
    "cr_status (rr_run resp) = run_outcome (length (ex_data ex)) (length (ex_errors ex))"
    using q by (simp_all add: r finalize_row_def final_state_def Let_def run_outcome_def
        run_is_active_def execution_active_def)
  moreover have "rr_errors resp = ex_errors ex"
    using f unfolding finish_connector_run_for_owner_def
    by (auto elim!: bindM_result_Inr split: option.splits)
  ultimately show ?thesis by (auto simp: run_outcome_def)
qed

end
