(* ===== verification/Import_Errors.thy ===== *)
theory Import_Errors
  imports Import_Properties
begin

text \<open>
  Errors of single items. The loops of the runtime collect a database error of an item and go on, but
  they run inside one transaction: PostgreSQL refuses every statement after the failing one. A run
  of work cards is therefore committed only when every error it collected is a validation error.
\<close>

section \<open>Statements inside a transaction\<close>

definition tx_safe :: "('e, 'a) dbm \<Rightarrow> bool" where
  "tx_safe m \<longleftrightarrow> (\<forall>env s r s'. m env s = (r, s') \<longrightarrow>
     tx_depth s' = tx_depth s \<and> (tx_aborted s \<longrightarrow> tx_aborted s'))"

named_theorems tx_rule \<open>computations that stay in their transaction\<close>

lemma tx_safeD: "tx_safe m \<Longrightarrow> m env s = (r, s') \<Longrightarrow> tx_depth s' = tx_depth s \<and> (tx_aborted s \<longrightarrow> tx_aborted s')"
  by (simp add: tx_safe_def)

lemma tx_basic [tx_rule]:
  "tx_safe (retM x)" "tx_safe (throwM e)" "tx_safe utc_now" "tx_safe (stmt f)" "tx_safe (expect_row q)"
  by (auto simp: tx_safe_def stmt_def fail_stmt_def Let_def expect_row_def
      split: if_splits option.splits sum.splits)

lemma tx_bind [tx_rule]:
  assumes "tx_safe m" and "\<And>x. tx_safe (f x)"
  shows "tx_safe (bindM m f)"
  unfolding tx_safe_def
proof (intro allI impI)
  fix env s r s' assume run: "bindM m f env s = (r, s')"
  obtain x s1 where m: "m env s = (x, s1)" by force
  show "tx_depth s' = tx_depth s \<and> (tx_aborted s \<longrightarrow> tx_aborted s')"
  proof (cases x)
    case (Inl e)
    then show ?thesis using run m tx_safeD [OF assms(1) m] by (simp add: bindM_def)
  next
    case (Inr y)
    then have "f y env s1 = (r, s')" using run m by (simp add: bindM_def)
    from tx_safeD [OF assms(2) this] tx_safeD [OF assms(1) m] show ?thesis by simp
  qed
qed

lemma tx_handle [tx_rule]:
  assumes "tx_safe m" and "\<And>e. tx_safe (h e)" and "\<And>x. tx_safe (f x)"
  shows "tx_safe (handleM m h f)"
  unfolding tx_safe_def
proof (intro allI impI)
  fix env s r s' assume run: "handleM m h f env s = (r, s')"
  obtain x s1 where m: "m env s = (x, s1)" by force
  show "tx_depth s' = tx_depth s \<and> (tx_aborted s \<longrightarrow> tx_aborted s')"
  proof (cases x)
    case (Inl e)
    then have "h e env s1 = (r, s')" using run m by (simp add: handleM_def)
    from tx_safeD [OF assms(2) this] tx_safeD [OF assms(1) m] show ?thesis by simp
  next
    case (Inr y)
    then have "f y env s1 = (r, s')" using run m by (simp add: handleM_def)
    from tx_safeD [OF assms(3) this] tx_safeD [OF assms(1) m] show ?thesis by simp
  qed
qed

lemma tx_cases [tx_rule]:
  "tx_safe m \<Longrightarrow> tx_safe n \<Longrightarrow> tx_safe (if b then m else n)"
  "tx_safe m \<Longrightarrow> (\<And>x. tx_safe (f x)) \<Longrightarrow> tx_safe (case q of None \<Rightarrow> m | Some x \<Rightarrow> f x)"
  "(\<And>e. tx_safe (h e)) \<Longrightarrow> (\<And>x. tx_safe (g x)) \<Longrightarrow> tx_safe (case v of Inl e \<Rightarrow> h e | Inr x \<Rightarrow> g x)"
  by (simp, cases q, simp_all, cases v, simp_all)

lemma tx_lift [tx_rule]: "tx_safe m \<Longrightarrow> tx_safe (liftM m)"
  unfolding liftM_def by (intro tx_rule)

lemma tx_stmts [tx_rule]:
  "tx_safe (select_stmt g)" "tx_safe (insert_stmt get upd chk mk)" "tx_safe (update_stmt get upd chk p k)"
  unfolding select_stmt_def insert_stmt_def update_stmt_def by (rule tx_rule)+

lemma tx_rows [tx_rule]:
  "tx_safe (find_keyed get p)" "tx_safe (create_row get upd chk mk)"
  "tx_safe (update_row get upd chk rid created mk i)" "tx_safe (upsert_row get upd chk rid created p mk)"
  unfolding upsert_row_def find_keyed_def create_row_def update_row_def comp_def by (intro tx_rule)+

lemma stmt_error_aborts: "stmt f env s = (Inl e, s') \<Longrightarrow> 0 < tx_depth s \<Longrightarrow> tx_aborted s'"
  by (auto simp: stmt_def fail_stmt_def Let_def split: if_splits option.splits sum.splits)

text \<open>Inside a transaction a failing upsert of a record leaves the transaction aborted.\<close>

lemma upsert_error_aborts:
  assumes run: "upsert_row get upd chk rid created p mk env s = (Inl e, s')" and depth: "0 < tx_depth s"
  shows "tx_aborted s'"
proof -
  obtain x s1 where find: "find_keyed get p env s = (x, s1)" by force
  have d1: "0 < tx_depth s1" using tx_safeD [OF tx_rows(1) find] depth by simp
  show ?thesis
  proof (cases x)
    case (Inr q)
    have q: "q \<in> set (rows (get (tabs s1)))"
      using find_keyed_Inr [of get p env s q s1] find Inr by (auto dest: first_row_Some)
    have u: "update_row get upd chk rid created mk (rid q) env s1 = (Inl e, s')"
      using run find Inr by (simp add: upsert_row_def handleM_def)
    let ?s2 = "s1\<lparr>tick := Suc (tick s1)\<rparr>"
    obtain y s3 where us: "update_stmt get upd chk (\<lambda>r. rid r = rid q)
        (\<lambda>r. mk (created r) (env_clock env (tick s1)) (rid r)) env ?s2 = (y, s3)" by force
    show ?thesis
    proof (cases y)
      case (Inl e2)
      then have "s' = s3" using u us by (simp add: update_row_def bindM_def)
      then show ?thesis using us Inl d1 stmt_error_aborts unfolding update_stmt_def by fastforce
    next
      case (Inr ys)
      then have "ys \<noteq> []" using update_stmt_Inr [of get upd chk] us q by (fastforce simp: filter_empty_conv)
      then show ?thesis using u us Inr
        by (auto simp: update_row_def bindM_def one_row_def expect_row_def split: list.splits)
    qed
  next
    case (Inl e1)
    show ?thesis
    proof (cases "e1 = NotFoundError")
      case True
      then have "create_row get upd chk mk env s1 = (Inl e, s')"
        using run find Inl by (simp add: upsert_row_def handleM_def)
      then show ?thesis
        using d1 stmt_error_aborts by (fastforce simp: create_row_def bindM_def insert_stmt_def)
    next
      case False
      then have s': "s' = s1" using run find Inl by (simp add: upsert_row_def handleM_def)
      obtain z s2 where sel: "select_stmt (\<lambda>t. first_row p (rows (get t))) env s = (z, s2)" by force
      then obtain e2 where "z = Inl e2" "s1 = s2"
        using find Inl False by (cases z) (auto simp: find_keyed_def bindM_def expect_row_def
            split: option.splits)
      then show ?thesis using sel depth stmt_error_aborts s' unfolding select_stmt_def by blast
    qed
  qed
qed

section \<open>The loop over work cards\<close>

lemma tx_foldM [tx_rule]: "(\<And>x acc. tx_safe (f x acc)) \<Longrightarrow> tx_safe (foldM f xs acc)"
  by (induction xs arbitrary: acc) (simp_all add: tx_rule)

lemma tx_import_item [tx_rule]:
  "(\<And>n. tx_safe (upsert n)) \<Longrightarrow> tx_safe (import_item e raw v upsert ext rd js acc)"
  unfolding import_item_def by (intro tx_rule) auto

lemma tx_work_card [tx_rule]:
  "tx_safe (WorkCardRepository_upsert_from_connector n)"
  "tx_safe (import_work_card_item rt source c i x acc)"
proof -
  show u: "tx_safe (WorkCardRepository_upsert_from_connector n)" for n
    unfolding WorkCardRepository_upsert_from_connector_def WorkCardRepository_create_def
      WorkCardRepository_update_def WorkCardRepository_find_by_source_external_id_def
    by (intro tx_rule)
  show "tx_safe (import_work_card_item rt source c i x acc)"
    unfolding import_work_card_item_def by (intro tx_import_item u)
qed

definition rejected_card ::
    "string \<Rightarrow> Connector \<Rightarrow> i32 \<Rightarrow> WorkCardImportItem \<Rightarrow> ConnectorImportError \<Rightarrow> bool" where
  "rejected_card source connector run_id x e \<longleftrightarrow>
     NewWorkCard_validate (new_work_card source connector run_id x) \<noteq> []
     \<and> im_external_id e = Some (wi_external_id x)
     \<and> im_message e = api_error_message
         (Validation (NewWorkCard_validate (new_work_card source connector run_id x)))"

lemma import_work_card_errors:
  assumes run: "import_work_card_item rt source c i x acc env s = (Inr acc', s')"
    and depth: "0 < tx_depth s" and ok: "\<not> tx_aborted s'"
  shows "\<forall>e \<in> set (acc_errors acc'). e \<in> set (acc_errors acc) \<or> rejected_card source c i x e"
proof (cases "NewWorkCard_validate (new_work_card source c i x) = []")
  case False
  then have "validate_request NewWorkCard_validate (new_work_card source c i x)
      = Inl (Validation (NewWorkCard_validate (new_work_card source c i x)))"
    by (simp add: validate_request_Inl)
  with run False show ?thesis
    by (auto simp: import_work_card_item_def import_item_def push_error_def connector_error_def
        rejected_card_def)
next
  case True
  then have v: "validate_request NewWorkCard_validate (new_work_card source c i x)
      = Inr (new_work_card source c i x)" by (simp add: validate_request_Inr)
  have ext: "wc_external_id (new_work_card source c i x) = Some (wi_external_id x)"
    by (simp add: new_work_card_def)
  obtain y s1 where u: "WorkCardRepository_upsert_from_connector (new_work_card source c i x) env s = (y, s1)"
    by force
  show ?thesis
  proof (cases y)
    case (Inl e)
    then have "s' = s1" using run v u
      by (simp add: import_work_card_item_def import_item_def handleM_def)
    moreover have "tx_aborted s1"
      using upsert_error_aborts [OF u [unfolded Inl work_card_upsert [OF ext]] depth] .
    ultimately show ?thesis using ok by simp
  next
    case (Inr r)
    then show ?thesis using run v u
      by (auto simp: import_work_card_item_def import_item_def handleM_def split: option.splits)
  qed
qed

lemma import_work_cards_errors:
  assumes "foldM (import_work_card_item rt source c i) xs acc env s = (Inr acc', s')"
    and "0 < tx_depth s" and "\<not> tx_aborted s'"
  shows "\<forall>e \<in> set (acc_errors acc'). e \<in> set (acc_errors acc) \<or> (\<exists>x \<in> set xs. rejected_card source c i x e)"
  using assms
proof (induction xs arbitrary: acc s)
  case Nil
  then show ?case by simp
next
  case (Cons x xs)
  obtain acc1 s1 where one: "import_work_card_item rt source c i x acc env s = (Inr acc1, s1)"
    and rest: "foldM (import_work_card_item rt source c i) xs acc1 env s1 = (Inr acc', s')"
    using Cons.prems(1) by (auto elim: bindM_result_Inr)
  have d1: "0 < tx_depth s1" using tx_safeD [OF tx_work_card(2) one] Cons.prems(2) by simp
  have "tx_safe (foldM (import_work_card_item rt source c i) xs acc1)" by (intro tx_rule)
  from tx_safeD [OF this rest] Cons.prems(3) have "\<not> tx_aborted s1" by blast
  from import_work_card_errors [OF one Cons.prems(2) this] Cons.IH [OF rest d1 Cons.prems(3)]
  show ?case by fastforce
qed

text \<open>A committed run executed its payload inside the transaction and reports the errors of that execution.\<close>

lemma committed_execution:
  assumes "run_transaction rt run w (Inl payload) env s = (Inr resp, s')"
  obtains ex sa sb where "0 < tx_depth sa" "\<not> tx_aborted sb" "rr_errors resp = ex_errors ex"
    "execute_payload_for_target rt (cr_source run) (cr_target run) (cr_id run) payload env sa = (Inr ex, sb)"
proof -
  let ?active = "liftM (ConnectorRunRepository_execution_is_active (cr_id run) w)"
  let ?load = "execute_payload_for_target rt (cr_source run) (cr_target run) (cr_id run) payload"
  let ?finish = "\<lambda>ex. finish_connector_run_for_owner (cr_source run) (cr_target run) run ex w"
  have tx_active: "tx_safe ?active"
    unfolding ConnectorRunRepository_execution_is_active_def by (intro tx_rule)
  obtain s0 s2 where depth: "tx_depth s0 = Suc (tx_depth s)"
    and body: "bindM ?active (\<lambda>active. if \<not> active then throwM ServiceUnavailable
      else bindM ?load (\<lambda>ex. bindM ?active (\<lambda>active. if \<not> active then throwM ServiceUnavailable
        else ?finish ex))) env s0 = (Inr resp, s2)"
    using assms unfolding run_transaction_def api_transaction_def sum.case
    by (rule transaction_Inr) blast
  obtain a ex b sa sb sc where a: "?active env s0 = (Inr a, sa)" and l: "?load env sa = (Inr ex, sb)"
    and b: "?active env sb = (Inr b, sc)"
    and fin: "(if \<not> b then throwM ServiceUnavailable else ?finish ex) env sc = (Inr resp, s2)"
    using body by (auto elim!: bindM_result_Inr split: if_splits)
  have "rr_errors resp = ex_errors ex"
    using fin unfolding finish_connector_run_for_owner_def
    by (cases b) (auto elim!: bindM_result_Inr split: option.splits)
  moreover have "\<not> tx_aborted sb"
    using b unfolding ConnectorRunRepository_execution_is_active_def liftM_Inr select_stmt_def
    by (auto elim!: bindM_result_Inr dest!: stmt_Inr)
  moreover have "0 < tx_depth sa" using tx_safeD [OF tx_active a] depth by simp
  ultimately show thesis using that l by blast
qed

lemma executed_card_errors:
  assumes "execute_work_card_items rt source i items complete env s = (Inr ex, s')"
    and "0 < tx_depth s" "\<not> tx_aborted s'"
  shows "\<exists>connector. \<forall>e \<in> set (ex_errors ex). \<exists>x \<in> set items. rejected_card source connector i x e"
proof -
  obtain connector s1 where find: "ConnectorRepository_find_by_source source env s = (Inr connector, s1)"
    and rest: "bindM (foldM (import_work_card_item rt source connector i) items empty_acc) (reconcile complete
       (WorkCardRepository_archive_missing_for_connector_run (cn_id connector) i)) env s1 = (Inr ex, s')"
    using assms(1) unfolding execute_work_card_items_def by (rule bind_lift_Inr)
  obtain acc s2 where fold: "foldM (import_work_card_item rt source connector i) items empty_acc env s1 = (Inr acc, s2)"
    and rec: "reconcile complete (WorkCardRepository_archive_missing_for_connector_run (cn_id connector) i) acc env s2
      = (Inr ex, s')"
    using rest by (rule bindM_result_Inr)
  have "tx_safe (reconcile complete (WorkCardRepository_archive_missing_for_connector_run (cn_id connector) i) acc)"
    unfolding reconcile_def WorkCardRepository_archive_missing_for_connector_run_def archive_rows_def
    by (intro tx_rule)
  then have s2: "\<not> tx_aborted s2" using tx_safeD rec assms(3) by blast
  have "tx_safe (ConnectorRepository_find_by_source source)"
    unfolding ConnectorRepository_find_by_source_def by (intro tx_rule)
  then have d: "0 < tx_depth s1" using tx_safeD find assms(2) by fastforce
  have "ex_errors ex = acc_errors acc"
    using rec unfolding reconcile_def by (auto simp: execution_of_def elim!: bindM_result_Inr)
  with import_work_cards_errors [OF fold d s2] show ?thesis
    by (intro exI [of _ connector]) (simp add: empty_acc_def)
qed

text \<open>C23: A run of work cards that commits collected only validation errors: when the database refuses
  a single card (an assignee that is not a user, for instance), the loop collects the error and goes
  on, but the whole run fails and nothing of it is stored.\<close>

theorem committed_work_card_errors_are_validation_errors:
  assumes run: "run_transaction rt run w (Inl payload) env s = (Inr resp, s')"
    and target: "cr_target run = ''work_cards''" and decoded: "rt_work_request rt payload = Inr rq"
  shows "\<exists>connector. \<forall>e \<in> set (rr_errors resp).
     \<exists>x \<in> set (rq_items rq). rejected_card (cr_source run) connector (cr_id run) x e"
proof -
  obtain ex sa sb where ok: "0 < tx_depth sa" "\<not> tx_aborted sb" and errors: "rr_errors resp = ex_errors ex"
    and l: "execute_payload_for_target rt (cr_source run) (cr_target run) (cr_id run) payload env sa = (Inr ex, sb)"
    using run by (rule committed_execution)
  have "execute_work_card_items rt (cr_source run) (cr_id run) (rq_items rq) (rq_snapshot_complete rq) env sa = (Inr ex, sb)"
    using l by (simp add: execute_payload_for_target_def target decoded)
  from executed_card_errors [OF this ok] errors show ?thesis by simp
qed

end
