(* ===== verification/Scenario.thy ===== *)
theory Scenario
  imports Import_Errors Secret_Properties
begin

text \<open>
  A small concrete system, on which the theorems of the development are applied: one connector, one
  queued run, one worker, a clock that advances a second per reading, no faults, nobody else.
\<close>

definition demo_env :: env where
  "demo_env = \<lparr>env_clock = (\<lambda>n. int n * 1000000), env_fault = (\<lambda>_. None), env_other = (\<lambda>_ t. t)\<rparr>"

definition demo_rt :: runtime where
  "demo_rt = \<lparr>rt_cx = demo_crypto, rt_fetch = (\<lambda>_ _ _. Inr (None, None)),
     rt_calendar_request = (\<lambda>_. Inl ''?''), rt_work_request = (\<lambda>_. Inl ''?''),
     rt_notification_request = (\<lambda>_. Inr \<lparr>rq_items = [], rq_snapshot_complete = None\<rparr>),
     rt_service_request = (\<lambda>_. Inl ''?''), rt_calendar_item_json = (\<lambda>_. None),
     rt_work_item_json = (\<lambda>_. None), rt_notification_item_json = (\<lambda>_. None),
     rt_service_item_json = (\<lambda>_. None), rt_calendar_json = (\<lambda>_. Some JNull),
     rt_work_json = (\<lambda>_. Some JNull), rt_notification_json = (\<lambda>_. Some JNull),
     rt_service_json = (\<lambda>_. Some JNull), rt_rfc3339 = (\<lambda>_. None), rt_naive = (\<lambda>_ _. None),
     rt_show_utc = (\<lambda>_. ''''), rt_max_attempts_var = Some ''2''\<rparr>"

definition demo_tables :: tables where
  "demo_tables = empty_tables\<lparr>connectors := \<lparr>rows =
     [new_connector_row (default_connector ''erp'' ''erp'') 0 1], seq = 2\<rparr>\<rparr>"

definition demo_queued :: "(ApiError + ConnectorRun) \<times> db" where
  "demo_queued = create_queued_run_with_parent demo_rt ''erp'' ''notifications'' ''manual'' None None
     demo_env (mk_db demo_tables)"

definition demo_claimed :: "(DieselError + ConnectorRun option) \<times> db" where
  "demo_claimed = ConnectorRunRepository_claim_next_queued ''w1'' 60 demo_env (snd demo_queued)"

lemma demo_rely: "rely demo_env"
  by (simp add: rely_def demo_env_def)

lemma demo_initial: "connector_runs demo_tables = empty_table"
  by (simp add: demo_tables_def empty_tables_def)

definition demo_run :: ConnectorRun where
  "demo_run = NewConnectorRun.extend
     (queued_run demo_rt ''erp'' ''notifications'' ''manual'' None None 0) (ConnectorRun.fields 1)"

lemma demo_queued_result: "fst demo_queued = Inr demo_run"
  by code_simp

lemma demo_queued_runs: "connector_runs (tabs (snd demo_queued)) = \<lparr>rows = [demo_run], seq = 2\<rparr>"
  by code_simp

lemma demo_reachable0: "reachable (tabs (mk_db demo_tables))"
  by (rule reachable.initial) (simp add: mk_db_def demo_initial)

lemma demo_queue_step: "system_step (tabs (mk_db demo_tables)) (tabs (snd demo_queued))"
  unfolding demo_queued_def by (rule system_step.queue [OF demo_rely]) (rule prod.collapse [symmetric])

lemma demo_reachable1: "reachable (tabs (snd demo_queued))"
  using demo_reachable0 demo_queue_step by (rule reachable.step)

lemma demo_claim_step: "system_step (tabs (snd demo_queued)) (tabs (snd demo_claimed))"
  unfolding demo_claimed_def by (rule system_step.claim [OF demo_rely]) (rule prod.collapse [symmetric])

lemma demo_reachable2: "reachable (tabs (snd demo_claimed))"
  using demo_reachable1 demo_claim_step by (rule reachable.step)

definition demo_running :: ConnectorRun where
  "demo_running = claim_row 7000000 ''w1'' 60 demo_run demo_run"

lemma demo_claimed_result: "fst demo_claimed = Inr (Some demo_running)"
  by code_simp

lemma demo_claimed_runs: "connector_runs (tabs (snd demo_claimed)) = \<lparr>rows = [demo_running], seq = 2\<rparr>"
  by code_simp

definition demo_execution :: ConnectorExecution where
  "demo_execution = \<lparr>ex_data = [JNull], ex_items = [imported_run_item (Some ''m1'') (Some 1) None],
     ex_errors = [], ex_snapshot_complete = None, ex_archived_count = 0\<rparr>"

definition demo_finished :: "(ApiError + ConnectorRunExecutionResponse) \<times> db" where
  "demo_finished = finish_connector_run_for_owner ''erp'' ''notifications'' demo_running demo_execution
     (Some ''w1'') demo_env (snd demo_claimed)"

definition demo_done :: ConnectorRun where
  "demo_done = finalize_row 12000000 (final_state demo_running demo_execution 11000000) demo_running"

lemma demo_finish_step: "system_step (tabs (snd demo_claimed)) (tabs (snd demo_finished))"
  unfolding demo_finished_def by (rule system_step.finish [OF demo_rely]) (rule prod.collapse [symmetric])

lemma demo_reachable3: "reachable (tabs (snd demo_finished))"
  using demo_reachable2 demo_finish_step by (rule reachable.step)

lemma demo_finished_runs: "connector_runs (tabs (snd demo_finished)) = \<lparr>rows = [demo_done], seq = 2\<rparr>"
  by code_simp

definition demo_response :: ConnectorRunExecutionResponse where
  "demo_response = projr (fst demo_finished)"

lemma demo_finished_result: "fst demo_finished = Inr demo_response"
proof -
  have "\<not> isl (fst demo_finished)" by code_simp
  then show ?thesis by (simp add: demo_response_def)
qed

lemma demo_queued_eq: "create_queued_run_with_parent demo_rt ''erp'' ''notifications'' ''manual'' None None
     demo_env (mk_db demo_tables) = (Inr demo_run, snd demo_queued)"
  by (simp add: prod_eq_iff demo_queued_result flip: demo_queued_def)

lemma demo_claimed_eq: "ConnectorRunRepository_claim_next_queued ''w1'' 60 demo_env (snd demo_queued)
     = (Inr (Some demo_running), snd demo_claimed)"
  by (simp add: prod_eq_iff demo_claimed_result flip: demo_claimed_def)

lemma demo_finished_eq: "finish_connector_run_for_owner ''erp'' ''notifications'' demo_running
     demo_execution (Some ''w1'') demo_env (snd demo_claimed) = (Inr demo_response, snd demo_finished)"
  by (simp add: prod_eq_iff demo_finished_result flip: demo_finished_def)

section \<open>The run queue at work\<close>

theorem at_most_one_active_run_witness:
  "count_rows (pending_for ''erp'' ''notifications'') (rows (connector_runs (tabs (snd demo_claimed)))) = 1
   \<and> count_rows (\<lambda>r. cr_source r = ''erp'' \<and> cr_target r = ''notifications''
        \<and> (cr_status r = ''queued'' \<or> cr_status r = ''running''))
       (rows (connector_runs (tabs (snd demo_claimed)))) \<le> 1"
proof
  show "count_rows (pending_for ''erp'' ''notifications'')
      (rows (connector_runs (tabs (snd demo_claimed)))) = 1" by code_simp
qed (rule at_most_one_active_run [OF demo_reachable2])

theorem reachable_runs_consistent_witness:
  "demo_done \<in> set (rows (connector_runs (tabs (snd demo_finished)))) \<and> cr_finished_at demo_done \<noteq> None
   \<and> cr_lease_expires_at demo_done = None \<and> cr_attempt_count demo_done \<le> cr_max_attempts demo_done"
proof -
  have mem: "demo_done \<in> set (rows (connector_runs (tabs (snd demo_finished))))"
    by (simp add: demo_finished_runs)
  have "\<not> run_is_active demo_done" by code_simp
  then show ?thesis using reachable_runs_consistent [OF demo_reachable3 mem] mem by simp
qed

definition demo_again :: "(ApiError + ConnectorRun) \<times> db" where
  "demo_again = create_queued_run_with_parent demo_rt ''erp'' ''notifications'' ''manual'' None None
     demo_env (snd demo_finished)"

lemma demo_again_step: "system_steps (tabs (snd demo_finished)) (tabs (snd demo_again))"
  unfolding demo_again_def
  by (intro r_into_rtranclp system_step.queue [OF demo_rely]) (rule prod.collapse [symmetric])

lemma demo_again_runs: "\<exists>q. rows (connector_runs (tabs (snd demo_again))) = [demo_done, q]"
proof -
  have "length (rows (connector_runs (tabs (snd demo_again)))) = 2"
    and hd: "rows (connector_runs (tabs (snd demo_again))) ! 0 = demo_done" by code_simp+
  then show ?thesis by (auto simp: length_Suc_conv numeral_2_eq_2)
qed

lemma demo_again_mem: "demo_done \<in> set (rows (connector_runs (tabs (snd demo_again))))"
  using demo_again_runs by auto

lemma demo_done_mem: "demo_done \<in> set (rows (connector_runs (tabs (snd demo_finished))))"
  by (simp add: demo_finished_runs)

theorem settled_runs_are_final_witness:
  "\<not> run_is_active demo_done \<and> (\<exists>p. demo_done = demo_done\<lparr>cr_parent_run_id := p\<rparr>)
   \<and> length (rows (connector_runs (tabs (snd demo_again)))) = 2"
proof -
  have fin: "\<not> run_is_active demo_done" by code_simp
  have "\<exists>p. demo_done = demo_done\<lparr>cr_parent_run_id := p\<rparr>"
    using settled_runs_are_final [OF demo_reachable3 demo_again_step demo_done_mem fin demo_again_mem refl] .
  moreover have "length (rows (connector_runs (tabs (snd demo_again)))) = 2" by code_simp
  ultimately show ?thesis using fin by simp
qed

lemma demo_work_steps: "system_steps (tabs (snd demo_queued)) (tabs (snd demo_finished))"
  using demo_claim_step demo_finish_step by (meson rtranclp.rtrancl_into_rtrancl rtranclp.rtrancl_refl)

theorem run_identity_is_stable_witness:
  "same_job demo_run demo_done \<and> cr_attempt_count demo_run < cr_attempt_count demo_done"
proof -
  have "demo_run \<in> set (rows (connector_runs (tabs (snd demo_queued))))" by (simp add: demo_queued_runs)
  moreover have "cr_id demo_done = cr_id demo_run" by code_simp
  ultimately have "same_job demo_run demo_done"
    using run_identity_is_stable [OF demo_reachable1 demo_work_steps _ demo_done_mem] by simp
  moreover have "cr_attempt_count demo_run < cr_attempt_count demo_done" by code_simp
  ultimately show ?thesis by simp
qed

theorem claims_at_most_max_attempts_witness:
  "claims 1 1 (tabs (snd demo_queued)) (tabs (snd demo_claimed)) \<and> int 1 \<le> cr_max_attempts demo_running"
proof -
  have id: "cr_id demo_running = 1" by code_simp
  have c: "claims 1 (Suc 0) (tabs (snd demo_queued)) (tabs (snd demo_claimed))"
    using claims.claimed [OF claims.none demo_rely demo_claimed_eq id] .
  have "demo_running \<in> set (rows (connector_runs (tabs (snd demo_claimed))))"
    by (simp add: demo_claimed_runs)
  then show ?thesis using claims_at_most_max_attempts [OF demo_reachable1 c _ id] c by simp
qed

theorem claim_takes_first_due_run_witness:
  "\<exists>q \<in> set (rows (connector_runs (tabs (snd demo_queued)))).
     cr_id demo_running = cr_id q \<and> cr_status demo_running = ''running''
     \<and> cr_worker_id demo_running = Some ''w1'' \<and> cr_attempt_count demo_running = cr_attempt_count q + 1"
  using claim_takes_first_due_run [OF demo_reachable1 demo_claimed_eq] by auto

theorem only_the_owner_settles_witness:
  "\<exists>q \<in> set (rows (connector_runs (tabs (snd demo_claimed)))).
     cr_status q = ''running'' \<and> cr_worker_id q = Some ''w1''
     \<and> cr_status (rr_run demo_response) = ''success''"
  using only_the_owner_settles [OF demo_reachable2 demo_finished_eq]
  by (auto simp: demo_execution_def)

theorem run_settled_at_most_once_witness:
  "\<exists>e. fst (finish_connector_run_for_owner ''erp'' ''notifications'' demo_running demo_execution
       (Some ''w1'') demo_env (snd demo_again)) = Inl e"
  using run_settled_at_most_once [OF demo_reachable2 demo_rely demo_finished_eq demo_again_step refl
      prod.collapse [symmetric]] .

section \<open>Cancellation, recovery, creation\<close>

definition demo_cancelled :: "(DieselError + ConnectorRun option) \<times> db" where
  "demo_cancelled = ConnectorRunRepository_request_cancel (cr_id demo_running) demo_env (snd demo_claimed)"

lemma demo_cancelled_eq: "\<exists>c. ConnectorRunRepository_request_cancel (cr_id demo_running) demo_env
     (snd demo_claimed) = (Inr (Some c), snd demo_cancelled)"
proof -
  have "(case fst demo_cancelled of Inr (Some c) \<Rightarrow> True | _ \<Rightarrow> False)" by code_simp
  then obtain c where "fst demo_cancelled = Inr (Some c)" by (auto split: sum.splits option.splits)
  then have "demo_cancelled = (Inr (Some c), snd demo_cancelled)" by (simp add: prod_eq_iff)
  then show ?thesis unfolding demo_cancelled_def by blast
qed

theorem accepted_cancellation_prevents_completion_witness:
  "\<exists>e. fst (finish_connector_run_for_owner ''erp'' ''notifications'' demo_running demo_execution
       (Some ''w1'') demo_env (snd demo_cancelled)) = Inl e"
proof -
  obtain c where c: "ConnectorRunRepository_request_cancel (cr_id demo_running) demo_env
     (snd demo_claimed) = (Inr (Some c), snd demo_cancelled)" using demo_cancelled_eq by blast
  show ?thesis
    using accepted_cancellation_prevents_completion [OF demo_reachable2 demo_rely c rtranclp.rtrancl_refl
        prod.collapse [symmetric]] .
qed

text \<open>An hour later, with the worker gone.\<close>

definition late_env :: env where
  "late_env = demo_env\<lparr>env_clock := \<lambda>n. 3600000000 + int n * 1000000\<rparr>"

definition demo_recovered :: "(DieselError + ConnectorRunRecoveryStats) \<times> db" where
  "demo_recovered = ConnectorRunRepository_recover_expired_leases 30 900 100 late_env (snd demo_claimed)"


theorem retry_backoff_bounds_witness:
  "bounded_retry_backoff_seconds 3 30 900 = 120
   \<and> bounded_retry_backoff_seconds 3 30 900 \<le> bounded_retry_backoff_seconds 9 30 900"
  using retry_backoff_bounds [of 3 30 900 9] by (simp add: i64_max_def)

theorem requeued_run_becomes_claimable_witness:
  "claimable 5000000000 (recovered_row 3600000000 30 900 demo_running)"
proof (rule requeued_run_becomes_claimable)
  show "lease_expired 3600000000 demo_running" by code_simp
  show "cr_cancel_requested_at demo_running = None" by code_simp
  show "cr_attempt_count demo_running < cr_max_attempts demo_running" by code_simp
qed (simp add: seconds_def)

theorem queueing_a_run_witness:
  "rows (connector_runs (tabs (snd demo_queued))) = [] @ [demo_run] \<and> cr_status demo_run = ''queued''"
  using queueing_a_run [OF demo_queued_eq] by (simp add: mk_db_def demo_initial empty_table_def)

end
