(* ===== verification/Import_Scenario.thy ===== *)
theory Import_Scenario
  imports Scenario
begin

text \<open>
  The imports at work: complete snapshots that archive what they no longer contain, a run that commits
  with a rejected item, and a run whose transaction fails.
\<close>

definition demo_connector :: Connector where
  "demo_connector = new_connector_row (default_connector ''erp'' ''erp'') 0 1"

section \<open>Work cards\<close>

definition demo_card :: "string \<Rightarrow> WorkCardImportItem" where
  "demo_card x = \<lparr>wi_external_id = x, wi_title = ''Order'', wi_status = ''todo'', wi_priority = ''high'',
     wi_assignee = None, wi_project = None, wi_work_item_type = None, wi_assignee_source_id = None,
     wi_assignee_user_id = None, wi_due_at = None, wi_source_updated_at = None, wi_url = None\<rparr>"

definition old_card :: WorkCard where
  "old_card = work_card_row ((new_work_card ''erp'' demo_connector 1 (demo_card ''A''))
     \<lparr>wc_last_seen_run_id := None\<rparr>) 0 0 1"

definition card_state :: db where
  "card_state = mk_db ((tabs (snd demo_claimed))\<lparr>work_cards := \<lparr>rows = [old_card], seq = 2\<rparr>\<rparr>)"

definition demo_cards :: "(ApiError + ConnectorExecution) \<times> db" where
  "demo_cards = execute_work_card_items demo_rt ''erp'' 1 [demo_card ''B''] (Some True) demo_env card_state"

lemma demo_cards_eq: "execute_work_card_items demo_rt ''erp'' 1 [demo_card ''B''] (Some True) demo_env
     card_state = (Inr (projr (fst demo_cards)), snd demo_cards)"
proof -
  have "\<not> isl (fst demo_cards)" by code_simp
  then have "demo_cards = (Inr (projr (fst demo_cards)), snd demo_cards)" by (simp add: prod_eq_iff)
  then show ?thesis by (simp add: demo_cards_def)
qed

theorem complete_work_card_snapshot_is_reconciled_witness:
  "\<not> (\<exists>w \<in> set (rows (work_cards (tabs (snd demo_cards)))). work_card_ref w = Some (''erp'', ''A'')
        \<and> wc_connector_id w = Some (cn_id demo_connector) \<and> wc_archived_at w = None)
   \<and> (\<exists>w \<in> set (rows (work_cards (tabs (snd demo_cards)))). work_card_ref w = Some (''erp'', ''B'')
        \<and> wc_connector_id w = Some (cn_id demo_connector) \<and> wc_archived_at w = None)"
proof -
  have e: "ex_errors (projr (fst demo_cards)) = []" by code_simp
  have cards: "rows (work_cards (tabs card_state)) = [old_card]" "seq (work_cards (tabs card_state)) = 2"
    by code_simp+
  have k: "serial_keys wc_id work_card_ref (work_cards (tabs card_state))"
    unfolding serial_keys_def cards by (simp add: old_card_def)
  have c: "first_row (\<lambda>c. cn_source c = ''erp'') (rows (connectors (tabs card_state)))
      = Some demo_connector" by code_simp
  have "wc_last_seen_run_id old_card = None" by code_simp
  then have f: "\<forall>w \<in> set (rows (work_cards (tabs card_state))). wc_last_seen_run_id w \<noteq> Some 1"
    by (simp add: cards)
  show ?thesis
    using complete_work_card_snapshot_is_reconciled [OF demo_cards_eq e k c f]
    by (simp add: demo_card_def)
qed

section \<open>Notifications and calendar events\<close>

definition demo_note :: "string \<Rightarrow> NotificationImportItem" where
  "demo_note x = \<lparr>ni_external_id = x, ni_title = ''Order'', ni_body = None, ni_severity = ''info'',
     ni_is_read = False, ni_url = None\<rparr>"

definition old_note :: Notification where
  "old_note = notification_row ((new_notification ''erp'' demo_connector 1 (demo_note ''A''))
     \<lparr>nt_last_seen_run_id := None\<rparr>) 0 0 1"

definition note_state :: db where
  "note_state = mk_db ((tabs (snd demo_claimed))\<lparr>notifications := \<lparr>rows = [old_note], seq = 2\<rparr>\<rparr>)"

definition demo_notes :: "(ApiError + ConnectorExecution) \<times> db" where
  "demo_notes = execute_notification_items demo_rt ''erp'' 1 [demo_note ''B''] (Some True) demo_env note_state"

lemma demo_notes_eq: "execute_notification_items demo_rt ''erp'' 1 [demo_note ''B''] (Some True) demo_env
     note_state = (Inr (projr (fst demo_notes)), snd demo_notes)"
proof -
  have "\<not> isl (fst demo_notes)" by code_simp
  then have "demo_notes = (Inr (projr (fst demo_notes)), snd demo_notes)" by (simp add: prod_eq_iff)
  then show ?thesis by (simp add: demo_notes_def)
qed

theorem complete_notification_snapshot_is_reconciled_witness:
  "\<not> (\<exists>w \<in> set (rows (notifications (tabs (snd demo_notes)))). notification_ref w = Some (''erp'', ''A'')
        \<and> nt_connector_id w = Some (cn_id demo_connector) \<and> nt_archived_at w = None)
   \<and> (\<exists>w \<in> set (rows (notifications (tabs (snd demo_notes)))). notification_ref w = Some (''erp'', ''B'')
        \<and> nt_connector_id w = Some (cn_id demo_connector) \<and> nt_archived_at w = None)"
proof -
  have e: "ex_errors (projr (fst demo_notes)) = []" by code_simp
  have items: "rows (notifications (tabs note_state)) = [old_note]" "seq (notifications (tabs note_state)) = 2"
    by code_simp+
  have k: "serial_keys nt_id notification_ref (notifications (tabs note_state))"
    unfolding serial_keys_def items by (simp add: old_note_def)
  have c: "first_row (\<lambda>c. cn_source c = ''erp'') (rows (connectors (tabs note_state)))
      = Some demo_connector" by code_simp
  have "nt_last_seen_run_id old_note = None" by code_simp
  then have f: "\<forall>w \<in> set (rows (notifications (tabs note_state))). nt_last_seen_run_id w \<noteq> Some 1"
    by (simp add: items)
  show ?thesis
    using complete_notification_snapshot_is_reconciled [OF demo_notes_eq e k c f]
    by (simp add: demo_note_def)
qed

definition demo_event :: "string \<Rightarrow> CalendarEventImportItem" where
  "demo_event x = \<lparr>ii_external_id = x, ii_title = ''Standup'', ii_body = None, ii_organizer = None,
     ii_location = None, ii_starts_at = Some 0, ii_ends_at = Some 900000000, ii_time_zone = None,
     ii_is_all_day = False, ii_is_cancelled = False, ii_web_url = None, ii_join_url = None\<rparr>"

definition old_event :: CalendarEvent where
  "old_event = calendar_row ((new_calendar_event ''erp'' demo_connector 1 0 900000000 (demo_event ''A''))
     \<lparr>ce_last_seen_run_id := None\<rparr>) 0 0 1"

definition event_state :: db where
  "event_state = mk_db ((tabs (snd demo_claimed))\<lparr>calendar_events := \<lparr>rows = [old_event], seq = 2\<rparr>\<rparr>)"

definition demo_events :: "(ApiError + ConnectorExecution) \<times> db" where
  "demo_events = execute_calendar_event_items demo_rt ''erp'' 1 [demo_event ''B''] (Some True) demo_env
     event_state"

lemma demo_events_eq: "execute_calendar_event_items demo_rt ''erp'' 1 [demo_event ''B''] (Some True)
     demo_env event_state = (Inr (projr (fst demo_events)), snd demo_events)"
proof -
  have "\<not> isl (fst demo_events)" by code_simp
  then have "demo_events = (Inr (projr (fst demo_events)), snd demo_events)" by (simp add: prod_eq_iff)
  then show ?thesis by (simp add: demo_events_def)
qed

theorem complete_calendar_snapshot_is_reconciled_witness:
  "\<not> (\<exists>w \<in> set (rows (calendar_events (tabs (snd demo_events)))). calendar_ref w = Some (''erp'', ''A'')
        \<and> ce_connector_id w = Some (cn_id demo_connector) \<and> ce_archived_at w = None)
   \<and> (\<exists>w \<in> set (rows (calendar_events (tabs (snd demo_events)))). calendar_ref w = Some (''erp'', ''B'')
        \<and> ce_connector_id w = Some (cn_id demo_connector) \<and> ce_archived_at w = None)"
proof -
  have e: "ex_errors (projr (fst demo_events)) = []" by code_simp
  have events: "rows (calendar_events (tabs event_state)) = [old_event]"
    "seq (calendar_events (tabs event_state)) = 2" by code_simp+
  have k: "serial_keys ce_id calendar_ref (calendar_events (tabs event_state))"
    unfolding serial_keys_def events by (simp add: old_event_def)
  have c: "first_row (\<lambda>c. cn_source c = ''erp'') (rows (connectors (tabs event_state)))
      = Some demo_connector" by code_simp
  have "ce_last_seen_run_id old_event = None" by code_simp
  then have f: "\<forall>w \<in> set (rows (calendar_events (tabs event_state))). ce_last_seen_run_id w \<noteq> Some 1"
    by (simp add: events)
  show ?thesis
    using complete_calendar_snapshot_is_reconciled [OF demo_events_eq e k c f]
    by (simp add: demo_event_def)
qed

section \<open>Whole runs\<close>

definition bad_card :: WorkCardImportItem where
  "bad_card = (demo_card ''C'')\<lparr>wi_priority := ''whenever''\<rparr>"

definition card_rt :: runtime where
  "card_rt = demo_rt\<lparr>rt_work_request :=
     (\<lambda>_. Inr \<lparr>rq_items = [demo_card ''B'', bad_card], rq_snapshot_complete = None\<rparr>)\<rparr>"

definition card_run :: ConnectorRun where
  "card_run = demo_running\<lparr>cr_target := ''work_cards''\<rparr>"

definition card_run_state :: db where
  "card_run_state = mk_db ((tabs card_state)\<lparr>connector_runs := \<lparr>rows = [card_run], seq = 2\<rparr>\<rparr>)"

definition demo_committed :: "(ApiError + ConnectorRunExecutionResponse) \<times> db" where
  "demo_committed = run_transaction card_rt card_run (Some ''w1'') (Inl JNull) demo_env card_run_state"

lemma demo_committed_eq: "run_transaction card_rt card_run (Some ''w1'') (Inl JNull) demo_env card_run_state
     = (Inr (projr (fst demo_committed)), snd demo_committed)"
proof -
  have "\<not> isl (fst demo_committed)" by code_simp
  then have "demo_committed = (Inr (projr (fst demo_committed)), snd demo_committed)"
    by (simp add: prod_eq_iff)
  then show ?thesis by (simp add: demo_committed_def)
qed

theorem reported_outcome_is_stored_witness:
  "rr_run (projr (fst demo_committed)) \<in> set (rows (connector_runs (tabs (snd demo_committed))))
   \<and> cr_status (rr_run (projr (fst demo_committed))) \<noteq> ''success''"
proof -
  have "rr_errors (projr (fst demo_committed)) \<noteq> []" by code_simp
  then show ?thesis using reported_outcome_is_stored [OF demo_committed_eq] by blast
qed

theorem committed_work_card_errors_are_validation_errors_witness:
  "length (rr_errors (projr (fst demo_committed))) = 1
   \<and> (\<exists>connector. list_all (\<lambda>e. \<exists>x \<in> {demo_card ''B'', bad_card}.
        rejected_card (cr_source card_run) connector (cr_id card_run) x e)
        (rr_errors (projr (fst demo_committed))))"
proof -
  have t: "cr_target card_run = ''work_cards''" by code_simp
  have d: "rt_work_request card_rt JNull
      = Inr \<lparr>rq_items = [demo_card ''B'', bad_card], rq_snapshot_complete = None\<rparr>"
    by (simp add: card_rt_def)
  have "length (rr_errors (projr (fst demo_committed))) = 1" by code_simp
  then show ?thesis
    using committed_work_card_errors_are_validation_errors [OF demo_committed_eq t d]
    by (simp add: list_all_iff)
qed

text \<open>The server loses the connection at the commit.\<close>

definition lossy_env :: env where
  "lossy_env = demo_env\<lparr>env_fault := \<lambda>n. if n \<ge> 12 then Some (DatabaseError OtherKind ''connection lost'')
     else None\<rparr>"

definition demo_lost :: "(ApiError + ConnectorRunExecutionResponse) \<times> db" where
  "demo_lost = run_transaction card_rt card_run (Some ''w1'') (Inl JNull) lossy_env card_run_state"


end
