(* ===== verification/Route_Scenario.thy ===== *)
theory Route_Scenario
  imports Route_Properties Portal_Scenario Import_Scenario
begin

text \<open>
  The administration of connectors on a concrete database: a configuration saved by an administrator and
  refused to anybody else, and an import that is rejected as a whole and blocks its connector.
\<close>

definition demo_admin :: AuthenticatedUser where
  "demo_admin = (demo_identity_of 1)
     \<lparr>au_roles := [\<lparr>ro_code = ''admin'', ro_name = ''Admin'', ro_id = 1, ro_created_at = 0\<rparr>]\<rparr>"

definition route_tables :: tables where
  "route_tables = access_tables\<lparr>connectors := connectors demo_tables\<rparr>"

text \<open>Texts that name three documents, read back as the documents they name, and a cipher that reverses
  what it is given.\<close>

definition token_doc :: "string \<Rightarrow> json" where
  "token_doc v = JObject [(''token'', JString v)]"

definition route_crypto :: crypto where
  "route_crypto = demo_crypto\<lparr>
     cx_parse := (\<lambda>s. if s = ''items'' then Inr (JObject [(''items'', JArray [])])
        else if s = ''clear'' then Inr (token_doc ''pw'') else if s = ''sealed'' then Inr (token_doc ''enc:v1:n:wp'')
        else if s = ''shown'' then Inr (token_doc REDACTED_SECRET) else Inl ''unexpected token''),
     cx_print := (\<lambda>v. if v = token_doc ''pw'' then Inr ''clear'' else if v = token_doc ''enc:v1:n:wp'' then Inr ''sealed''
        else if v = token_doc REDACTED_SECRET then Inr ''shown'' else Inl ''unprintable''),
     cx_uuid := (\<lambda>_. ''n''), cx_b64 := (\<lambda>x. x), cx_seal := (\<lambda>k n p. Some (rev p)),
     cx_unb64 := Some, cx_open := (\<lambda>k n c. Some (rev c))\<rparr>"

lemma route_reads_back: "reads_back route_crypto stored"
  unfolding reads_back_def route_crypto_def by auto

definition route_rt :: runtime where
  "route_rt = demo_rt\<lparr>rt_cx := route_crypto\<rparr>"

definition demo_update :: ConnectorConfigUpdate where
  "demo_update = \<lparr>cf_target = ''notifications'', cf_enabled = True, cf_schedule_cron = Some ''@every 5m'',
     cf_config = ''clear'', cf_sample_payload = ''items''\<rparr>"

section \<open>Saving a configuration\<close>

definition demo_save :: "(ApiError + ConnectorConfig) \<times> db" where
  "demo_save = upsert_connector_config route_crypto demo_wl demo_admin ''erp'' demo_update calm (mk_db route_tables)"

lemma demo_update_valid: "ConnectorConfigUpdate_validate route_crypto demo_update = []"
proof -
  have "list_all (\<lambda>c. c [] = [])
     [required ''target'' (cf_target demo_update), one_of ''target'' (cf_target demo_update) connector_targets,
      validate_schedule (cf_schedule_cron demo_update), required ''config'' (cf_config demo_update),
      required ''sample_payload'' (cf_sample_payload demo_update),
      validate_config_text route_crypto (cf_target demo_update) (cf_config demo_update),
      validate_sample_payload route_crypto (cf_sample_payload demo_update)]" by code_simp
  then show ?thesis
    by (simp add: ConnectorConfigUpdate_validate_def checks_simps max_len_def max_optional_len_def push_if_def
        demo_update_def)
qed

lemma demo_update_checked: "checked (ConnectorConfigUpdate_validate route_crypto) demo_update = retM demo_update"
  by (simp add: checked_def validate_request_def demo_update_valid resultM_def)

lemma demo_save_runs: "\<not> isl (fst demo_save)"
  unfolding demo_save_def upsert_connector_config_def demo_update_checked by code_simp

lemma demo_save_eq: "upsert_connector_config route_crypto demo_wl demo_admin ''erp'' demo_update calm (mk_db route_tables)
    = (Inr (projr (fst demo_save)), snd demo_save)"
  using outcome_Inr [OF demo_save_runs] by (simp add: demo_save_def)

lemma demo_save_document:
  "preserve_redacted_connector_config route_crypto (cf_config demo_update) None = Inr ''clear''" by code_simp

lemma demo_save_before:
  "first_row (\<lambda>c. cc_source c = ''erp'') (rows (connector_configs (tabs (mk_db route_tables)))) = None" by code_simp


definition demo_attempt :: "AuthenticatedUser \<Rightarrow> (ApiError + unit) \<times> db" where
  "demo_attempt auth = handle_connector route_rt demo_wl auth (UpsertConfig ''erp'' demo_update) calm (mk_db route_tables)"

lemma demo_attempt_eq: "handle_connector route_rt demo_wl auth (UpsertConfig ''erp'' demo_update) calm (mk_db route_tables)
    = (fst (demo_attempt auth), snd (demo_attempt auth))"
  by (simp add: demo_attempt_def)

theorem connector_changes_are_admin_only_and_audited_witness:
  "one_entry demo_admin (''upsert_config'', ''connector'') route_tables (tabs (snd (demo_attempt demo_admin)))
   \<and> isl (fst (demo_attempt (demo_identity_of 2))) \<and> tabs (snd (demo_attempt (demo_identity_of 2))) = route_tables"
proof -
  have t: "tabs (mk_db route_tables) = route_tables" by (simp add: mk_db_def)
  have "rt_cx route_rt = route_crypto" by (simp add: route_rt_def)
  then have "\<not> isl (fst (demo_attempt demo_admin))"
    using demo_save_eq by (simp add: demo_attempt_def discard_def bindM_def)
  moreover have "\<not> is_admin (demo_identity_of 2)" by code_simp
  ultimately show ?thesis
    using connector_changes_are_admin_only_and_audited [OF calm_env(2) demo_attempt_eq [of demo_admin]]
      connector_changes_are_admin_only_and_audited [OF calm_env(2) demo_attempt_eq [of "demo_identity_of 2"]]
    by (simp add: t)
qed

section \<open>An import that blocks its connector\<close>

text \<open>A card whose external id is longer than 128 characters fails its validation and is to be reported as
  one failed item of a finished run. The report itself is stored in a column of 128 characters: the
  transaction of the import fails, and the run that was inserted before it stays \<open>running\<close>. It has no
  lease, so that recovery never sees it; until an administrator cancels it, every import of the same
  target is refused.\<close>

definition long_import :: "(ApiError + ConnectorRunExecutionResponse) \<times> db" where
  "long_import = import_work_cards route_rt demo_wl demo_admin ''erp''
     \<lparr>rq_items = [demo_card (replicate 129 CHR ''x'')], rq_snapshot_complete = None\<rparr> calm (mk_db route_tables)"

definition next_import :: "(ApiError + ConnectorRunExecutionResponse) \<times> db" where
  "next_import = import_work_cards route_rt demo_wl demo_admin ''erp''
     \<lparr>rq_items = [demo_card ''B''], rq_snapshot_complete = None\<rparr> late_env
     (snd (ConnectorRunRepository_recover_expired_leases 30 900 100 late_env (snd long_import)))"

theorem an_oversized_item_blocks_the_target:
  "fst long_import = Inl (Database (DatabaseError OtherKind ''constraint violation''))
   \<and> (\<exists>r. rows (connector_runs (tabs (snd long_import))) = [r] \<and> cr_status r = ''running''
        \<and> cr_lease_expires_at r = None)
   \<and> fst next_import = Inl (validation_error ''status'' ''an active run already exists for source and target'')"
proof (intro conjI)
  show "fst long_import = Inl (Database (DatabaseError OtherKind ''constraint violation''))" by code_simp
  have "list_all (\<lambda>r. cr_status r = ''running'' \<and> cr_lease_expires_at r = None) (rows (connector_runs (tabs (snd long_import))))
     \<and> length (rows (connector_runs (tabs (snd long_import)))) = 1" by code_simp
  then show "\<exists>r. rows (connector_runs (tabs (snd long_import))) = [r] \<and> cr_status r = ''running''
      \<and> cr_lease_expires_at r = None" by (auto simp: length_Suc_conv)
  show "fst next_import = Inl (validation_error ''status'' ''an active run already exists for source and target'')"
    by code_simp
qed

end
