(* ===== verification/OAuth_Scenario.thy ===== *)
theory OAuth_Scenario
  imports OAuth_Properties Route_Scenario
begin

text \<open>
  A connector is connected to Microsoft Graph: an administrator starts the authorization, the callback
  stores the tokens, and the same callback is refused the second time.
\<close>

definition base_members :: "(string \<times> json) list" where
  "base_members = [(''adapter'', JString ''microsoft_graph_mail''), (''client_id'', JString ''c'')]"

definition demo_tokens :: MicrosoftTokenResponse where
  "demo_tokens = \<lparr>mt_access_token = Some ''at'', mt_token_type = None, mt_expires_in = None, mt_refresh_token = Some ''rt'',
     mt_scope = None, mt_error = None, mt_error_description = None\<rparr>"

definition waiting_members :: "(string \<times> json) list" where
  "waiting_members = pending_members ''s'' ''T'' ''http://p/cb'' base_members"

text \<open>Texts that name the documents of the scenario.\<close>

definition oauth_docs :: "(string \<times> json) list" where
  "oauth_docs = [(''base'', JObject base_members), (''waiting'', JObject waiting_members),
     (''clear'', JObject (connected_members demo_tokens ''at'' ''rt'' ''T'' ''T'' waiting_members)),
     (''sealed'', JObject (connected_members demo_tokens ''enc:v1:n:ta'' ''enc:v1:n:tr'' ''T'' ''T'' waiting_members))]"

definition oauth_crypto :: crypto where
  "oauth_crypto = route_crypto\<lparr>
     cx_parse := (\<lambda>s. ok_or (map_of oauth_docs s) ''unexpected token''),
     cx_print := (\<lambda>d. case List.find (\<lambda>p. snd p = d) oauth_docs of Some p \<Rightarrow> Inr (fst p) | None \<Rightarrow> Inl ''unprintable'')\<rparr>"

lemma oauth_reads_back: "reads_back oauth_crypto x"
proof -
  have d: "distinct (map fst oauth_docs)" by code_simp
  have "map_of oauth_docs x = Some e" if "List.find (\<lambda>p. snd p = e) oauth_docs = Some p" "fst p = x" for e p
  proof -
    from that(1) have "p \<in> set oauth_docs" "snd p = e" unfolding find_Some_iff by auto
    then have "(x, e) \<in> set oauth_docs" using that(2) by (metis prod.collapse)
    then show ?thesis by (rule map_of_is_SomeI [OF d])
  qed
  note named = this
  show ?thesis unfolding reads_back_def
  proof (intro allI impI)
    fix d assume "cx_print oauth_crypto d = Inr x"
    then obtain p where "List.find (\<lambda>p. snd p = d) oauth_docs = Some p" "fst p = x"
      by (cases "List.find (\<lambda>p. snd p = d) oauth_docs") (simp_all add: oauth_crypto_def)
    from named [OF this] show "cx_parse oauth_crypto x = Inr d" by (simp add: oauth_crypto_def ok_or_def)
  qed
qed

definition demo_oa :: oauthlib where
  "demo_oa = \<lparr>oa_cx = oauth_crypto, oa_client = Inr (),
     oa_post = (\<lambda>n url form. Inr \<lparr>ha_success = True, ha_status = ''200 OK'', ha_text = Inr ''tokens''\<rparr>),
     oa_token_response = (\<lambda>s. if s = ''tokens'' then Inr demo_tokens else Inl ''expected value''),
     oa_uuid = (\<lambda>n. ''u''), oa_b64 = (\<lambda>x. x), oa_unb64 = Some, oa_print_state = (\<lambda>st. Inr ''s''),
     oa_parse_state = (\<lambda>s. if s = ''s'' then Some \<lparr>os_source = ''erp'', os_nonce = ''u'', os_issued_at = ''T''\<rparr> else None),
     oa_rfc3339 = (\<lambda>s. if s = ''T'' then Some 600000000 else None), oa_show_secs = (\<lambda>t. ''T'')\<rparr>"

definition oauth_tables :: "string \<Rightarrow> tables" where
  "oauth_tables config = route_tables\<lparr>connector_configs := \<lparr>rows =
     [\<lparr>cc_source = ''erp'', cc_target = ''notifications'', cc_enabled = True, cc_schedule_cron = None,
       cc_config = config, cc_sample_payload = ''items'', cc_last_scheduled_at = None, cc_next_run_at = None,
       cc_last_scheduled_run_id = None, cc_id = 1, cc_created_at = 0, cc_updated_at = 0\<rparr>], seq = 2\<rparr>\<rparr>"

definition demo_authorize :: MicrosoftOAuthAuthorizeRequest where
  "demo_authorize = \<lparr>oq_redirect_uri = ''http://p/cb'', oq_prompt = None\<rparr>"

definition demo_callback :: MicrosoftOAuthCallbackRequest where
  "demo_callback = \<lparr>ob_code = Some ''k'', ob_state = ''s'', ob_redirect_uri = ''http://p/cb'', ob_error = None,
     ob_error_description = None\<rparr>"

lemma demo_requests_valid:
  "checked MicrosoftOAuthAuthorizeRequest_validate demo_authorize = retM demo_authorize"
  "checked MicrosoftOAuthCallbackRequest_validate demo_callback = retM demo_callback"
proof -
  have "list_all (\<lambda>c. c [] = []) [required ''state'' ''s'', required ''redirect_uri'' ''http://p/cb'',
      push_if (\<not> absolute_http ''http://p/cb'') ''redirect_uri'' ''must be an absolute HTTP URL'']" by code_simp
  then show "checked MicrosoftOAuthAuthorizeRequest_validate demo_authorize = retM demo_authorize"
    "checked MicrosoftOAuthCallbackRequest_validate demo_callback = retM demo_callback"
    by (simp_all add: checked_def validate_request_def MicrosoftOAuthAuthorizeRequest_validate_def
        MicrosoftOAuthCallbackRequest_validate_def redirect_checks_def checks_simps max_len_def max_optional_len_def
        push_if_def demo_authorize_def demo_callback_def resultM_def)
qed

definition demo_start :: "(ApiError + MicrosoftOAuthAuthorizeResponse) \<times> db" where
  "demo_start = start_microsoft_oauth demo_oa demo_wl demo_admin ''erp'' demo_authorize calm (mk_db (oauth_tables ''base''))"

definition demo_finish :: "(ApiError + MicrosoftOAuthCallbackResponse) \<times> db" where
  "demo_finish = finish_microsoft_oauth demo_oa demo_wl demo_admin demo_callback calm (mk_db (oauth_tables ''waiting''))"

lemma demo_start_runs: "\<not> isl (fst demo_start)"
  unfolding demo_start_def start_microsoft_oauth_def demo_requests_valid by code_simp

lemma demo_finish_runs: "\<not> isl (fst demo_finish)"
  unfolding demo_finish_def finish_microsoft_oauth_def demo_requests_valid by code_simp

lemma demo_start_eq: "start_microsoft_oauth demo_oa demo_wl demo_admin ''erp'' demo_authorize calm
    (mk_db (oauth_tables ''base'')) = (Inr (projr (fst demo_start)), snd demo_start)"
  using outcome_Inr [OF demo_start_runs] by (simp add: demo_start_def)

lemma demo_finish_eq: "finish_microsoft_oauth demo_oa demo_wl demo_admin demo_callback calm
    (mk_db (oauth_tables ''waiting'')) = (Inr (projr (fst demo_finish)), snd demo_finish)"
  using outcome_Inr [OF demo_finish_runs] by (simp add: demo_finish_def)

lemma demo_oa_reads_back: "reads_back (oa_cx demo_oa) x"
  using oauth_reads_back by (simp add: demo_oa_def)

lemma demo_start_state: "oz_state (projr (fst demo_start)) = ''s''"
  unfolding demo_start_def start_microsoft_oauth_def demo_requests_valid by code_simp

lemma demo_start_expiry: "oz_expires_at (projr (fst demo_start)) = 600000005"
  unfolding demo_start_def start_microsoft_oauth_def demo_requests_valid by code_simp

lemma demo_start_config: "map cc_config (rows (connector_configs (tabs (snd demo_start)))) = [''waiting'']"
  unfolding demo_start_def start_microsoft_oauth_def demo_requests_valid by code_simp

lemma demo_start_source: "map cc_source (rows (connector_configs (tabs (snd demo_start)))) = [''erp'']"
  unfolding demo_start_def start_microsoft_oauth_def demo_requests_valid by code_simp

theorem oauth_connects_only_a_pending_request_witness:
  "is_admin demo_admin \<and> (\<exists>state c body v t e k c' v'. decode_oauth_state demo_oa ''s'' = Some state
    \<and> c \<in> set (rows (connector_configs (tabs (mk_db (oauth_tables ''waiting''))))) \<and> cc_source c = os_source state
    \<and> decrypt_connector_config (oa_cx demo_oa) (cc_config c) = Inr body \<and> cx_parse (oa_cx demo_oa) body = Inr v
    \<and> config_field v [''oauth_state''] = Some ''s''
    \<and> config_field v [''oauth_state_expires_at''] = Some t \<and> oa_rfc3339 demo_oa t = Some e \<and> env_clock calm k < e
    \<and> c' \<in> set (rows (connector_configs (tabs (snd demo_finish)))) \<and> cc_source c' = os_source state
    \<and> cx_parse (oa_cx demo_oa) (cc_config c') = Inr v' \<and> all_secrets sealed v')"
proof -
  have st: "ob_state demo_callback = ''s''" by (simp add: demo_callback_def)
  show ?thesis
    using oauth_connects_only_a_pending_request [OF calm_env(2) demo_finish_eq demo_oa_reads_back] unfolding st by blast
qed


theorem a_started_authorization_is_pending_witness:
  "\<exists>c v. c \<in> set (rows (connector_configs (tabs (snd demo_start)))) \<and> cx_parse (oa_cx demo_oa) (cc_config c) = Inr v
    \<and> fst (validate_pending_oauth_state demo_oa v ''s'' ''http://p/cb'' calm (snd demo_start)) = Inr ()"
proof -
  obtain c where c: "c \<in> set (rows (connector_configs (tabs (snd demo_start))))" "cc_source c = ''erp''" "cc_config c = ''waiting''"
    using demo_start_config demo_start_source by (auto simp: map_eq_Cons_conv)
  have "trim ''s'' = ''s''" "trim ''T'' = ''T''" "trim ''http://p/cb'' = ''http://p/cb''" by code_simp+
  moreover have "decrypt_connector_config (oa_cx demo_oa) ''waiting'' = Inr ''waiting''"
    and v: "cx_parse (oa_cx demo_oa) ''waiting'' = Inr (JObject waiting_members)" by code_simp+
  ultimately have "fst (validate_pending_oauth_state demo_oa (JObject waiting_members) ''s'' ''http://p/cb'' calm (snd demo_start)) = Inr ()"
    using a_started_authorization_is_pending [OF calm_env(2) demo_start_eq demo_oa_reads_back _ _ _ _ _ c(1,2),
        of "''waiting''" "JObject waiting_members" calm "snd demo_start"]
    by (simp add: demo_start_state demo_start_expiry c(3) demo_authorize_def demo_oa_def seconds_def calm_def)
  with c v show ?thesis by metis
qed

end
