(* ===== verification/Commands.thy ===== *)
theory Commands
  imports App_Config Catalog
begin

text \<open>
  The commands of an operator: the commands on users of \<^verbatim>\<open>src/src/commands.rs\<close>, and
  \<^verbatim>\<open>src/src/bin/cli.rs\<close>, which reads the arguments and links users to identities of Entra.

  A command of \<^verbatim>\<open>commands.rs\<close> panics on every error; a panic is an error value here. What clap has parsed
  is the argument of a definition. The commands run on one connection, so that other processes act
  between their statements. The demonstration data of \<^verbatim>\<open>seed_demo_data\<close> is not modelled.
\<close>

section \<open>The connection\<close>

datatype panic = DatabasePanic DieselError | StartPanic string | HashPanic

type_synonym 'a command = "(panic, 'a) dbm"

text \<open>\<open>connect\<close> tells whether the connection was established and \<open>current_database\<close> what it names.\<close>

record dblink =
  dl_urls :: urllib
  dl_vars :: process_env
  dl_connect :: "string \<Rightarrow> bool"
  dl_current_database :: "DieselError + string"

definition load_db_connection :: "dblink \<Rightarrow> string + unit" where
  "load_db_connection dl =
     (case dl_vars dl ''DATABASE_URL'' of
        Inl _ \<Rightarrow> Inl ''Cannot load DB url environment''
      | Inr database_url \<Rightarrow>
          (let environment = unwrap_or (var_ok (dl_vars dl) ''APP_ENV'') ''development''; unsafe = (\<lambda>e. ''database safety check failed: '' @ e) in
           bindS (map_sum unsafe id (validate_test_database_url (dl_urls dl) environment database_url ''DATABASE_URL''))
             (\<lambda>test_target.
           if \<not> dl_connect dl database_url then Inl ''Cannot connect to Postgres''
           else (case test_target of
               None \<Rightarrow> Inr ()
             | Some target \<Rightarrow> map_sum unsafe id
                 (verify_test_database_connection (dl_current_database dl) target ''DATABASE_URL'')))))"

definition connected :: "dblink \<Rightarrow> unit command" where
  "connected dl = resultM (map_sum StartPanic id (load_db_connection dl))"

text \<open>\<^verbatim>\<open>.await.unwrap()\<close>\<close>

definition unwrapM :: "'a query \<Rightarrow> 'a command" where
  "unwrapM m = stepM (handleM m (\<lambda>e. throwM (DatabasePanic e)) retM)"

section \<open>Users\<close>

definition normalized_roles :: "string list \<Rightarrow> string list" where
  "normalized_roles role_codes =
     (let codes = concat (map (\<lambda>role. filter (\<lambda>r. r \<noteq> []) (map trim (split_on (\<lambda>c. c = CHR '','') role))) role_codes) in
      remdups_adj (sort (if codes = [] then [''admin'', ''member''] else codes)))"

text \<open>\<open>hash n\<close> is the hash of Argon2 with the salt of the \<open>n\<close>-th draw.\<close>

definition hash_password :: "(nat \<Rightarrow> string \<Rightarrow> string option) \<Rightarrow> string \<Rightarrow> string command" where
  "hash_password hash password =
     bindM draw (\<lambda>n. case hash n password of Some h \<Rightarrow> retM h | None \<Rightarrow> throwM HashPanic)"

definition create_user ::
    "authlib \<Rightarrow> (nat \<Rightarrow> string \<Rightarrow> string option) \<Rightarrow> dblink \<Rightarrow> string \<Rightarrow> string \<Rightarrow> string list \<Rightarrow> (User \<times> Role list) command" where
  "create_user au hash dl username password role_codes =
     bindM (connected dl) (\<lambda>_.
     bindM (hash_password hash password) (\<lambda>h.
     bindM (unwrapM (UserRepository_create au \<lparr>us_username = canonical_username au username, us_password = h\<rparr> role_codes)) (\<lambda>user.
     bindM (unwrapM (RoleRepository_find_by_user user)) (\<lambda>roles. retM (user, roles)))))"

definition ensured_user ::
    "authlib \<Rightarrow> (nat \<Rightarrow> string \<Rightarrow> string option) \<Rightarrow> string \<Rightarrow> string \<Rightarrow> bool \<Rightarrow> User command" where
  "ensured_user au hash username password reset_password =
     handleM (stepM (UserRepository_find_by_username au username))
       (\<lambda>e. if e = NotFoundError
          then bindM (hash_password hash password) (\<lambda>h.
            unwrapM (UserRepository_create au \<lparr>us_username = username, us_password = h\<rparr> []))
          else throwM (DatabasePanic e))
       (\<lambda>user. if reset_password
          then bindM (hash_password hash password) (\<lambda>h. unwrapM (UserRepository_update_password au (us_id user) h))
          else retM user)"

definition grant_role :: "User \<Rightarrow> string \<Rightarrow> unit command" where
  "grant_role user role_code =
     bindM (unwrapM (RoleRepository_find_or_create_by_code role_code)) (\<lambda>role.
     bindM (unwrapM (UserRoleRepository_assign_if_missing (us_id user) (ro_id role))) (\<lambda>_. retM ()))"

definition ensure_admin_user ::
    "authlib \<Rightarrow> (nat \<Rightarrow> string \<Rightarrow> string option) \<Rightarrow> dblink \<Rightarrow> string \<Rightarrow> string \<Rightarrow> string list \<Rightarrow> bool \<Rightarrow>
     (User \<times> Role list) command" where
  "ensure_admin_user au hash dl username password role_codes reset_password =
     bindM (connected dl) (\<lambda>_.
     bindM (ensured_user au hash (canonical_username au username) password reset_password) (\<lambda>user.
     bindM (foldM (\<lambda>code _. grant_role user code) (normalized_roles role_codes) ()) (\<lambda>_.
     bindM (unwrapM (RoleRepository_find_by_user user)) (\<lambda>roles. retM (user, roles)))))"

definition list_users :: "dblink \<Rightarrow> (i32 \<times> string \<times> string) list command" where
  "list_users dl =
     bindM (connected dl) (\<lambda>_.
     bindM (unwrapM UserRepository_find_with_roles) (\<lambda>us.
     retM (map (\<lambda>(user, rs). (us_id user, us_username user, join_str '','' (map (ro_code \<circ> snd) rs))) us)))"

definition delete_user :: "dblink \<Rightarrow> i32 \<Rightarrow> unit command" where
  "delete_user dl i = bindM (connected dl) (\<lambda>_. bindM (unwrapM (UserRepository_delete i)) (\<lambda>_. retM ()))"

text \<open>The arguments of \<^verbatim>\<open>ensure-admin\<close> with their fallbacks.\<close>

definition ensure_admin_arguments ::
    "process_env \<Rightarrow> string option \<Rightarrow> string option \<Rightarrow> string list option \<Rightarrow> bool \<Rightarrow> string \<times> string \<times> string list \<times> bool" where
  "ensure_admin_arguments vars username password given_roles reset =
     (unwrap_or (or_else username (var_ok vars ''SEED_ADMIN_USERNAME'')) ''admin'',
      unwrap_or (or_else password (var_ok vars ''SEED_ADMIN_PASSWORD'')) ''admin123'',
      unwrap_or (or_else given_roles (map_option (\<lambda>r. [r]) (var_ok vars ''SEED_ADMIN_ROLES''))) [''admin'', ''member''],
      reset \<or> vars ''SEED_ADMIN_RESET_PASSWORD'' = Inr ''true'')"

section \<open>Identities of Entra\<close>

datatype LinkEntraError =
  LinkConfig string | DatabaseConnection | DatabaseFailed | UserNotFound string | Conflict string

definition link_error_message :: "LinkEntraError \<Rightarrow> string" where
  "link_error_message e = (case e of
       LinkConfig m \<Rightarrow> m | UserNotFound m \<Rightarrow> m | Conflict m \<Rightarrow> m
     | DatabaseConnection \<Rightarrow> ''cannot connect to Postgres'' | DatabaseFailed \<Rightarrow> ''database operation failed'')"

datatype UserSelector = ById i32 | ByUsername string

datatype LinkOutcome = Created | SubjectAdded | AlreadyLinked

definition LinkOutcome_status :: "LinkOutcome \<Rightarrow> string" where
  "LinkOutcome_status outcome =
     (case outcome of Created \<Rightarrow> ''created'' | SubjectAdded \<Rightarrow> ''subject-added'' | AlreadyLinked \<Rightarrow> ''already-linked'')"

record CliUser =
  cu_id :: i32
  cu_username :: string

type_synonym 'a link = "(LinkEntraError, 'a) dbm"

definition linkM :: "'a query \<Rightarrow> 'a link" where
  "linkM m = handleM m (\<lambda>_. throwM DatabaseFailed) retM"

definition parse_subject :: "string \<Rightarrow> string + string" where
  "parse_subject value =
     (if value = [] then Inl ''subject must not be empty''
      else if char_count value > 255 then Inl ''subject must be at most 255 characters''
      else if has_control value then Inl ''subject must not contain control characters''
      else Inr value)"

definition selected_user :: "authlib \<Rightarrow> i32 option \<Rightarrow> string option \<Rightarrow> LinkEntraError + UserSelector" where
  "selected_user au user_id username =
     (case or_else (map_option ById user_id) (map_option (\<lambda>u. ByUsername (canonical_username au u)) username) of
        Some sel \<Rightarrow> Inr sel
      | None \<Rightarrow> Inl (LinkConfig ''a user selector is required''))"

definition selects :: "authlib \<Rightarrow> UserSelector \<Rightarrow> User \<Rightarrow> bool" where
  "selects au sel u = (case sel of
       ById i \<Rightarrow> us_id u = i
     | ByUsername name \<Rightarrow> au_sql_lower au (us_username u) = canonical_username au name)"

definition find_cli_user :: "authlib \<Rightarrow> UserSelector \<Rightarrow> CliUser link" where
  "find_cli_user au sel =
     handleM (find_keyed users (selects au sel))
       (\<lambda>e. if e = NotFoundError then throwM (UserNotFound ''target user does not exist'') else throwM DatabaseFailed)
       (\<lambda>u. retM \<lparr>cu_id = us_id u, cu_username = us_username u\<rparr>)"

definition entra_object :: "string \<Rightarrow> string \<Rightarrow> ExternalIdentity \<Rightarrow> bool" where
  "entra_object tenant_id object_id x \<longleftrightarrow>
     ei_provider x = ''entra'' \<and> ei_tenant_id x = tenant_id \<and> ei_object_id x = object_id"

definition find_entra_identity :: "string \<Rightarrow> string \<Rightarrow> ExternalIdentity option link" where
  "find_entra_identity tenant_id object_id =
     linkM (optionalM (find_keyed external_identities (entra_object tenant_id object_id)))"

definition find_entra_subject :: "string \<Rightarrow> string \<Rightarrow> ExternalIdentity option link" where
  "find_entra_subject issuer subject =
     linkM (optionalM (find_keyed external_identities
       (\<lambda>x. ei_provider x = ''entra'' \<and> ei_issuer x = issuer \<and> ei_subject x = Some subject)))"

definition add_subject :: "string \<Rightarrow> i32 \<Rightarrow> nat query" where
  "add_subject subject i = bindM utc_now (\<lambda>now.
     bindM (update_stmt external_identities external_identities_update identity_violation
              (\<lambda>x. ei_id x = i \<and> (ei_subject x = None \<or> ei_subject x = Some subject))
              (\<lambda>x. x\<lparr>ei_subject := Some subject, ei_updated_at := now\<rparr>)) (\<lambda>rs. retM (length rs)))"

definition resolve_existing_identity ::
    "ExternalIdentity \<Rightarrow> CliUser \<Rightarrow> string \<Rightarrow> string option \<Rightarrow> LinkOutcome link" where
  "resolve_existing_identity identity user issuer requested_subject =
     (if ei_user_id identity \<noteq> cu_id user
      then throwM (Conflict (''Entra identity is already linked to a different user (user_id=''
        @ show_int (ei_user_id identity) @ '')''))
      else if ei_issuer identity \<noteq> issuer
      then throwM (Conflict ''Entra identity issuer does not match the enabled configuration'')
      else (case (ei_subject identity, requested_subject) of
          (Some existing, Some requested) \<Rightarrow>
            if existing \<noteq> requested
            then throwM (Conflict ''Entra identity is already linked with a different subject'')
            else retM AlreadyLinked
        | (None, Some subject) \<Rightarrow>
            bindM (find_entra_subject issuer subject) (\<lambda>taken.
            if taken \<noteq> None then throwM (Conflict ''Entra subject is already linked to another identity'')
            else bindM (linkM (add_subject subject (ei_id identity))) (\<lambda>updated.
              if updated \<noteq> 1
              then throwM (Conflict ''Entra identity subject changed concurrently; no link was modified'')
              else retM SubjectAdded))
        | _ \<Rightarrow> retM AlreadyLinked))"

text \<open>\<^verbatim>\<open>INSERT ... ON CONFLICT DO NOTHING RETURNING id\<close>\<close>

definition insert_identity :: "NewExternalIdentity \<Rightarrow> i32 option query" where
  "insert_identity n = bindM utc_now (\<lambda>now. stmt (\<lambda>t.
     let x = NewExternalIdentity.extend n (ExternalIdentity.fields (seq (external_identities t)) now now) in
     case identity_violation t x of
       Some UniqueViolation \<Rightarrow> Inr (None, t)
     | Some k \<Rightarrow> Inl k
     | None \<Rightarrow> Inr (Some (ei_id x),
         external_identities_update (\<lambda>tb. tb\<lparr>rows := rows tb @ [x], seq := seq tb + 1\<rparr>) t)))"

definition linked_identity :: "CliUser \<Rightarrow> string \<Rightarrow> string \<Rightarrow> string \<Rightarrow> string option \<Rightarrow> NewExternalIdentity" where
  "linked_identity user issuer tenant_id object_id subject =
     \<lparr>ei_user_id = cu_id user, ei_provider = ''entra'', ei_issuer = issuer, ei_subject = subject,
      ei_tenant_id = tenant_id, ei_object_id = object_id, ei_preferred_username = None, ei_display_name = None,
      ei_email = None, ei_last_login_at = None\<rparr>"

definition refuse_taken_subject :: "string \<Rightarrow> string option \<Rightarrow> unit link" where
  "refuse_taken_subject issuer subject =
     (case subject of
        None \<Rightarrow> retM ()
      | Some sub \<Rightarrow> bindM (find_entra_subject issuer sub) (\<lambda>taken.
          if taken \<noteq> None then throwM (Conflict ''Entra subject is already linked to another identity'') else retM ()))"

definition create_entra_identity ::
    "CliUser \<Rightarrow> string \<Rightarrow> string \<Rightarrow> string \<Rightarrow> string option \<Rightarrow> LinkOutcome link" where
  "create_entra_identity user issuer tenant_id object_id subject =
     bindM (refuse_taken_subject issuer subject) (\<lambda>_.
     bindM (linkM (insert_identity (linked_identity user issuer tenant_id object_id subject))) (\<lambda>inserted.
     case inserted of
       Some _ \<Rightarrow> retM Created
     | None \<Rightarrow>
         bindM (find_entra_identity tenant_id object_id) (\<lambda>found.
         case found of
           None \<Rightarrow> throwM (Conflict ''Entra issuer or subject is already linked to another identity'')
         | Some identity \<Rightarrow> resolve_existing_identity identity user issuer subject)))"

definition link_action :: "LinkOutcome \<Rightarrow> string option" where
  "link_action outcome = (case outcome of
       Created \<Rightarrow> Some ''external_identity.linked''
     | SubjectAdded \<Rightarrow> Some ''external_identity.subject_added''
     | AlreadyLinked \<Rightarrow> None)"

definition write_link_audit :: "weblib \<Rightarrow> CliUser \<Rightarrow> string \<Rightarrow> string \<Rightarrow> LinkOutcome \<Rightarrow> unit link" where
  "write_link_audit wl user tenant_id object_id outcome =
     (case link_action outcome of
        None \<Rightarrow> retM ()
      | Some action \<Rightarrow>
          bindM (linkM (AuditLogRepository_create
            \<lparr>al_actor_user_id = None, al_action = action, al_resource_type = ''external_identity'',
             al_resource_id = Some (''entra:'' @ tenant_id @ '':'' @ object_id),
             al_metadata = Some (wl_show wl (JObject [(''operation'', JString (LinkOutcome_status outcome)),
               (''provider'', JString ''entra''), (''target_user_id'', JInt (cu_id user)),
               (''target_username'', JString (cu_username user)), (''tenant_id'', JString tenant_id),
               (''object_id'', JString object_id)]))\<rparr>)) (\<lambda>_. retM ()))"

text \<open>The closure that \<^verbatim>\<open>run_link_entra\<close> runs in a transaction.\<close>

definition link_steps ::
    "authlib \<Rightarrow> weblib \<Rightarrow> UserSelector \<Rightarrow> string \<Rightarrow> string \<Rightarrow> string \<Rightarrow> string option \<Rightarrow> (CliUser \<times> LinkOutcome) link" where
  "link_steps au wl sel issuer tenant_id object_id subject =
     bindM (linkM advisory_lock) (\<lambda>_.
     bindM (find_cli_user au sel) (\<lambda>user.
     bindM (find_entra_identity tenant_id object_id) (\<lambda>existing.
     bindM (case existing of
         Some identity \<Rightarrow> resolve_existing_identity identity user issuer subject
       | None \<Rightarrow> create_entra_identity user issuer tenant_id object_id subject) (\<lambda>outcome.
     bindM (if outcome \<noteq> AlreadyLinked then write_link_audit wl user tenant_id object_id outcome else retM ()) (\<lambda>_.
     retM (user, outcome))))))"

definition link_identity ::
    "authlib \<Rightarrow> weblib \<Rightarrow> UserSelector \<Rightarrow> string \<Rightarrow> string \<Rightarrow> string \<Rightarrow> string option \<Rightarrow> (CliUser \<times> LinkOutcome) link" where
  "link_identity au wl sel issuer tenant_id object_id subject =
     transaction (link_steps au wl sel issuer tenant_id object_id subject) (\<lambda>_. DatabaseFailed)"

definition refuse_config :: "string + 'a \<Rightarrow> 'a link" where
  "refuse_config r = resultM (map_sum LinkConfig id r)"

definition run_link_entra ::
    "authlib \<Rightarrow> weblib \<Rightarrow> dblink \<Rightarrow> i32 option \<Rightarrow> string option \<Rightarrow> string \<Rightarrow> string option \<Rightarrow> (CliUser \<times> LinkOutcome) link" where
  "run_link_entra au wl dl user_id username object_id subject =
     bindM (resultM (selected_user au user_id username)) (\<lambda>selector.
      bindM (refuse_config (AppConfig_from_env (dl_urls dl) (dl_vars dl))) (\<lambda>config.
      case ac_entra config of
        None \<Rightarrow> throwM (LinkConfig ''Entra authentication must be enabled before identities can be linked'')
      | Some entra \<Rightarrow>
          (case dl_vars dl ''DATABASE_URL'' of
             Inl _ \<Rightarrow> throwM (LinkConfig ''DATABASE_URL must be set'')
           | Inr database_url \<Rightarrow>
               bindM (refuse_config (validate_test_database_url (dl_urls dl) (ac_environment config) database_url
                        ''DATABASE_URL'')) (\<lambda>test_target.
               if \<not> dl_connect dl database_url then throwM DatabaseConnection
               else
                 bindM (case test_target of
                     None \<Rightarrow> retM ()
                   | Some target \<Rightarrow> refuse_config
                       (verify_test_database_connection (dl_current_database dl) target ''DATABASE_URL'')) (\<lambda>_.
                 link_identity au wl selector (en_issuer entra) (en_tenant_id entra) object_id subject)))))"

end
