(* ===== verification/Command_Properties.thy ===== *)
theory Command_Properties
  imports Commands Access_Properties
begin

text \<open>
  What linking a user to an identity of Entra promises: the identity belongs to the selected user, no
  other identity changes, and every change is recorded.
\<close>

section \<open>Single steps\<close>

text \<open>\<open>steady env m\<close>: a result of \<open>m\<close> does not come out of an aborted transaction.\<close>

definition steady :: "env \<Rightarrow> ('e, 'a) dbm \<Rightarrow> bool" where
  "steady env m \<longleftrightarrow> (\<forall>s x s'. m env s = (Inr x, s') \<longrightarrow> tx_aborted s' = tx_aborted s)"

named_theorems steady_rule \<open>code that never returns from an aborted transaction\<close>

lemma steady_basic [steady_rule]: "steady env (retM x)" "steady env (throwM e)"
  by (simp_all add: steady_def)

lemma steady_straight: "straight m \<Longrightarrow> steady env m"
  by (auto simp: steady_def straight_def)

lemma steady_bind [steady_rule]: "steady env m \<Longrightarrow> (\<And>x. steady env (f x)) \<Longrightarrow> steady env (bindM m f)"
  unfolding steady_def bindM_Inr_iff by metis

lemma steady_if [steady_rule]:
  "steady env m \<Longrightarrow> steady env n \<Longrightarrow> steady env (if b then m else n)"
  "steady env m \<Longrightarrow> (\<And>x. steady env (f x)) \<Longrightarrow> steady env (case r of None \<Rightarrow> m | Some x \<Rightarrow> f x)"
  by (simp, cases r, simp_all)

lemma linkM_Inr [simp]: "linkM m env s = (Inr x, s') \<longleftrightarrow> m env s = (Inr x, s')"
  by (auto simp: linkM_def handleM_Inr_iff)

lemma steady_link [steady_rule]: "steady env m \<Longrightarrow> steady env (linkM m)"
  by (simp add: steady_def)

lemma optional_find_Inr:
  assumes "optionalM (find_keyed get p) env s = (Inr r, s')" and "\<forall>k. env_fault env k \<noteq> Some NotFoundError"
  shows "r = first_row p (rows (get (tabs s))) \<and> tabs s' = tabs s \<and> tx_aborted s' = tx_aborted s"
proof (cases "find_keyed get p env s")
  case (Pair q s1)
  show ?thesis
  proof (cases q)
    case (Inl e)
    then show ?thesis using assms Pair find_missing [of get p env s s1]
      by (auto simp: optionalM_def handleM_def split: if_splits)
  next
    case (Inr x)
    have "straight (find_keyed get p)" unfolding find_keyed_def by (intro straight_rule)
    then show ?thesis using assms Pair Inr find_keyed_Inr [of get p env s x s1] straightD [of "find_keyed get p" env s x s1]
      by (auto simp: optionalM_def handleM_def)
  qed
qed

lemma cli_user_Inr:
  assumes "find_cli_user au sel env s = (Inr user, s')"
  shows "\<exists>u \<in> set (rows (users (tabs s))). selects au sel u \<and> us_id u = cu_id user \<and> us_username u = cu_username user"
    and "tabs s' = tabs s \<and> tx_aborted s' = tx_aborted s"
proof -
  obtain u where u: "find_keyed users (selects au sel) env s = (Inr u, s')" and user: "user = \<lparr>cu_id = us_id u, cu_username = us_username u\<rparr>"
    using assms unfolding find_cli_user_def handleM_Inr_iff by (auto split: if_splits)
  show "\<exists>u \<in> set (rows (users (tabs s))). selects au sel u \<and> us_id u = cu_id user \<and> us_username u = cu_username user"
    using find_keyed_Inr [OF u] first_row_Some [of "selects au sel" "rows (users (tabs s))" u] user by auto
  have "straight (find_keyed users (selects au sel))" unfolding find_keyed_def by (intro straight_rule)
  from straightD [OF this u] show "tabs s' = tabs s \<and> tx_aborted s' = tx_aborted s" using find_keyed_Inr [OF u] by simp
qed

section \<open>Linking\<close>

definition belongs :: "CliUser \<Rightarrow> string \<Rightarrow> string \<Rightarrow> string \<Rightarrow> string option \<Rightarrow> ExternalIdentity \<Rightarrow> bool" where
  "belongs user issuer tenant_id object_id subject x \<longleftrightarrow> entra_object tenant_id object_id x
     \<and> ei_user_id x = cu_id user \<and> ei_issuer x = issuer \<and> (subject \<noteq> None \<longrightarrow> ei_subject x = subject)"

text \<open>What a step of the linking does to the tables: the identity is there and belongs to the user, other
  identities and the audit log are as before, and nothing changes when it was linked already.\<close>

definition links ::
    "CliUser \<Rightarrow> string \<Rightarrow> string \<Rightarrow> string \<Rightarrow> string option \<Rightarrow> LinkOutcome \<Rightarrow> tables \<Rightarrow> tables \<Rightarrow> bool" where
  "links user issuer tenant_id object_id subject outcome t t' \<longleftrightarrow>
     (\<exists>x \<in> set (rows (external_identities t')). belongs user issuer tenant_id object_id subject x)
     \<and> filter (\<lambda>x. \<not> entra_object tenant_id object_id x) (rows (external_identities t'))
       = filter (\<lambda>x. \<not> entra_object tenant_id object_id x) (rows (external_identities t))
     \<and> (\<exists>f. t' = external_identities_update f t) \<and> (outcome = AlreadyLinked \<longrightarrow> t' = t)"

lemma same_tables_link:
  assumes "belongs user issuer tenant_id object_id subject x" "x \<in> set (rows (external_identities t))"
  shows "links user issuer tenant_id object_id subject outcome t t"
  using assms unfolding links_def by (auto intro: exI [of _ id])

lemma steady_subject [steady_rule]: "steady env (add_subject sub i)"
  unfolding add_subject_def by (intro steady_straight straight_rule)

lemma add_subject_Inr:
  assumes "add_subject sub i env s = (Inr n, s')"
  shows "\<exists>now. tabs s' = external_identities_update (\<lambda>tb. tb\<lparr>rows := update_rows
      (\<lambda>x. ei_id x = i \<and> (ei_subject x = None \<or> ei_subject x = Some sub))
      (\<lambda>x. x\<lparr>ei_subject := Some sub, ei_updated_at := now\<rparr>) (rows tb)\<rparr>) (tabs s)"
proof -
  obtain rs where "update_stmt external_identities external_identities_update identity_violation
      (\<lambda>x. ei_id x = i \<and> (ei_subject x = None \<or> ei_subject x = Some sub))
      (\<lambda>x. x\<lparr>ei_subject := Some sub, ei_updated_at := env_clock env (tick s)\<rparr>) env (s\<lparr>tick := Suc (tick s)\<rparr>) = (Inr rs, s')"
    using assms unfolding add_subject_def bindM_Inr_iff by (auto simp: utc_now_def)
  from update_stmt_Inr [OF this] show ?thesis by auto
qed

lemma subject_added_links:
  assumes "x \<in> set (rows (external_identities t))" "entra_object tenant_id object_id x" "ei_subject x = None"
    and "ei_user_id x = cu_id user" "ei_issuer x = issuer" "distinct (map ei_id (rows (external_identities t)))"
    and "t' = external_identities_update (\<lambda>tb. tb\<lparr>rows := update_rows
      (\<lambda>y. ei_id y = ei_id x \<and> (ei_subject y = None \<or> ei_subject y = Some sub))
      (\<lambda>y. y\<lparr>ei_subject := Some sub, ei_updated_at := now\<rparr>) (rows tb)\<rparr>) t"
  shows "links user issuer tenant_id object_id (Some sub) SubjectAdded t t'"
proof -
  let ?p = "\<lambda>y. ei_id y = ei_id x \<and> (ei_subject y = None \<or> ei_subject y = Some sub)"
  let ?f = "\<lambda>y. y\<lparr>ei_subject := Some sub, ei_updated_at := now\<rparr>"
  let ?rs = "rows (external_identities t)"
  have only: "y = x" if "y \<in> set ?rs" "?p y" for y
    using that assms(1,6) by (meson distinct_map inj_onD)
  have rows': "rows (external_identities t') = map (\<lambda>y. if ?p y then ?f y else y) ?rs"
    using assms(7) by (simp add: update_rows_def)
  have "?f x \<in> set (rows (external_identities t'))"
    unfolding rows' set_map using assms(1,3) by (intro image_eqI [of _ _ x]) simp_all
  moreover have "belongs user issuer tenant_id object_id (Some sub) (?f x)"
    using assms(2,4,5) by (simp add: belongs_def entra_object_def)
  moreover have "filter (\<lambda>x. \<not> entra_object tenant_id object_id x) (map (\<lambda>y. if ?p y then ?f y else y) ys)
      = filter (\<lambda>x. \<not> entra_object tenant_id object_id x) ys" if "set ys \<subseteq> set ?rs" for ys
    using that
  proof (induction ys)
    case (Cons y ys)
    then show ?case using only [of y] assms(2) by (auto simp: entra_object_def)
  qed simp
  ultimately show ?thesis unfolding links_def using rows' assms(7) by auto
qed

lemma resolve_links:
  assumes "resolve_existing_identity x user issuer subject env s = (Inr outcome, s')"
    and "x \<in> set (rows (external_identities (tabs s)))" "entra_object tenant_id object_id x"
    and "distinct (map ei_id (rows (external_identities (tabs s))))" "\<forall>k. env_fault env k \<noteq> Some NotFoundError"
  shows "links user issuer tenant_id object_id subject outcome (tabs s) (tabs s')"
proof -
  have own: "ei_user_id x = cu_id user" "ei_issuer x = issuer"
    using assms(1) by (auto simp: resolve_existing_identity_def split: if_splits)
  show ?thesis
  proof (cases "ei_subject x = None \<and> subject \<noteq> None")
    case True
    then obtain sub where sub: "subject = Some sub" by auto
    obtain taken n s1 where find: "find_entra_subject issuer sub env s = (Inr taken, s1)"
      and add: "add_subject sub (ei_id x) env s1 = (Inr n, s')" and o: "outcome = SubjectAdded"
      using assms(1) own True sub unfolding resolve_existing_identity_def
      by (auto simp: bindM_Inr_iff split: if_splits)
    have "tabs s1 = tabs s" using optional_find_Inr [OF find [unfolded find_entra_subject_def linkM_Inr] assms(5)] by simp
    with add_subject_Inr [OF add] subject_added_links [OF assms(2,3) _ own assms(4)] True show ?thesis
      by (auto simp: o sub)
  next
    case False
    then have "outcome = AlreadyLinked" "s' = s" "subject \<noteq> None \<longrightarrow> ei_subject x = subject"
      using assms(1) own unfolding resolve_existing_identity_def by (auto split: option.splits if_splits)
    then show ?thesis using same_tables_link [of user issuer tenant_id object_id subject x] own assms(2,3)
      by (simp add: belongs_def)
  qed
qed

lemma insert_identity_Inr:
  assumes "insert_identity n env s = (Inr r, s')"
  obtains (skipped) "r = None" "tabs s' = tabs s" "tx_aborted s' = tx_aborted s"
    | (inserted) x where "r \<noteq> None" "NewExternalIdentity.truncate x = n" "tx_aborted s' = tx_aborted s"
        "tabs s' = external_identities_update (\<lambda>tb. tb\<lparr>rows := rows tb @ [x], seq := seq tb + 1\<rparr>) (tabs s)"
proof -
  define x where "x = NewExternalIdentity.extend n (ExternalIdentity.fields (seq (external_identities (tabs s)))
      (env_clock env (tick s)) (env_clock env (tick s)))"
  have "NewExternalIdentity.truncate x = n" by (cases n) (simp add: x_def NewExternalIdentity.defs)
  moreover have "stmt (\<lambda>t. let x = NewExternalIdentity.extend n (ExternalIdentity.fields (seq (external_identities t))
          (env_clock env (tick s)) (env_clock env (tick s))) in
     case identity_violation t x of
       Some UniqueViolation \<Rightarrow> Inr (None, t)
     | Some k \<Rightarrow> Inl k
     | None \<Rightarrow> Inr (Some (ei_id x),
         external_identities_update (\<lambda>tb. tb\<lparr>rows := rows tb @ [x], seq := seq tb + 1\<rparr>) t)) env (s\<lparr>tick := Suc (tick s)\<rparr>) = (Inr r, s')"
    using assms unfolding insert_identity_def bindM_Inr_iff by (simp add: utc_now_def)
  from stmt_Inr [OF this] have "(case identity_violation (tabs s) x of
       Some UniqueViolation \<Rightarrow> Inr (None, tabs s)
     | Some k \<Rightarrow> Inl k
     | None \<Rightarrow> Inr (Some (ei_id x),
         external_identities_update (\<lambda>tb. tb\<lparr>rows := rows tb @ [x], seq := seq tb + 1\<rparr>) (tabs s))) = Inr (r, tabs s')"
    and "tx_aborted s' = tx_aborted s"
    by (auto simp: Let_def simp flip: x_def split: option.splits DatabaseErrorKind.splits)
  ultimately show thesis using that
    by (cases "identity_violation (tabs s) x") (auto split: DatabaseErrorKind.splits)
qed

lemma created_links:
  assumes "NewExternalIdentity.truncate x = linked_identity user issuer tenant_id object_id subject"
    and "t' = external_identities_update (\<lambda>tb. tb\<lparr>rows := rows tb @ [x], seq := seq tb + 1\<rparr>) t"
  shows "links user issuer tenant_id object_id subject Created t t'"
proof -
  have "belongs user issuer tenant_id object_id subject x"
    using assms(1) by (simp add: linked_identity_def belongs_def entra_object_def NewExternalIdentity.defs)
  then show ?thesis using assms(2) by (auto simp: links_def belongs_def)
qed

lemma subject_free_Inr:
  assumes "refuse_taken_subject issuer subject env s = (Inr u, s')" "\<forall>k. env_fault env k \<noteq> Some NotFoundError"
  shows "tabs s' = tabs s \<and> tx_aborted s' = tx_aborted s"
  using assms unfolding refuse_taken_subject_def find_entra_subject_def
  by (auto simp: bindM_Inr_iff dest!: optional_find_Inr split: option.splits if_splits)

lemma create_links:
  assumes "create_entra_identity user issuer tenant_id object_id subject env s = (Inr outcome, s')"
    and "distinct (map ei_id (rows (external_identities (tabs s))))" "\<forall>k. env_fault env k \<noteq> Some NotFoundError"
  shows "links user issuer tenant_id object_id subject outcome (tabs s) (tabs s')"
proof -
  obtain u r s1 s2 where free: "refuse_taken_subject issuer subject env s = (Inr u, s1)"
    and ins: "insert_identity (linked_identity user issuer tenant_id object_id subject) env s1 = (Inr r, s2)"
    and rest: "(case r of Some _ \<Rightarrow> retM Created
     | None \<Rightarrow> bindM (find_entra_identity tenant_id object_id) (\<lambda>found. case found of
           None \<Rightarrow> throwM (Conflict ''Entra issuer or subject is already linked to another identity'')
         | Some identity \<Rightarrow> resolve_existing_identity identity user issuer subject)) env s2 = (Inr outcome, s')"
    using assms(1) unfolding create_entra_identity_def bindM_Inr_iff linkM_Inr by blast
  have s1: "tabs s1 = tabs s" using subject_free_Inr [OF free assms(3)] by simp
  from ins show ?thesis
  proof (cases rule: insert_identity_Inr)
    case (inserted x)
    then show ?thesis using created_links [OF inserted(2,4)] rest s1 by auto
  next
    case skipped
    then obtain x s3 where "find_entra_identity tenant_id object_id env s2 = (Inr (Some x), s3)"
      and res: "resolve_existing_identity x user issuer subject env s3 = (Inr outcome, s')"
      using rest by (auto simp: bindM_Inr_iff split: option.splits)
    from optional_find_Inr [OF this(1) [unfolded find_entra_identity_def linkM_Inr] assms(3)]
    have x: "first_row (entra_object tenant_id object_id) (rows (external_identities (tabs s2))) = Some x" and s3: "tabs s3 = tabs s2"
      by simp_all
    have "tabs s3 = tabs s" using s3 skipped(2) s1 by simp
    then show ?thesis using resolve_links [OF res, of tenant_id object_id] first_row_Some [OF x] s3 assms(2,3) by simp
  qed
qed

section \<open>The whole transaction\<close>

lemma steady_find [steady_rule]:
  assumes "\<forall>k. env_fault env k \<noteq> Some NotFoundError"
  shows "steady env (find_entra_identity tenant_id object_id)" "steady env (find_entra_subject issuer sub)"
    "steady env (find_cli_user au sel)" "steady env (insert_identity n)"
  unfolding steady_def find_entra_identity_def find_entra_subject_def linkM_Inr
  using optional_find_Inr [OF _ assms] cli_user_Inr(2) insert_identity_Inr by (blast, blast, blast, metis)

lemma steady_resolve [steady_rule]:
  assumes "\<forall>k. env_fault env k \<noteq> Some NotFoundError"
  shows "steady env (resolve_existing_identity x user issuer subject)"
  unfolding resolve_existing_identity_def
  by (cases "ei_subject x"; cases subject) (simp_all add: steady_rule assms)

lemma steady_parts [steady_rule]:
  assumes "\<forall>k. env_fault env k \<noteq> Some NotFoundError"
  shows "steady env (create_entra_identity user issuer tenant_id object_id subject)"
    "steady env (write_link_audit wl user tenant_id object_id outcome)" "steady env (linkM advisory_lock)"
  unfolding create_entra_identity_def refuse_taken_subject_def write_link_audit_def advisory_lock_def AuditLogRepository_create_def
  by (intro steady_rule steady_straight straight_rule assms)+

lemma audit_written:
  assumes "write_link_audit wl user tenant_id object_id outcome env s = (Inr u, s')" "outcome \<noteq> AlreadyLinked"
  shows "\<exists>e. tabs s' = audit_logs_update (\<lambda>tb. tb\<lparr>rows := rows tb @ [e], seq := seq tb + 1\<rparr>) (tabs s)
    \<and> link_action outcome = Some (al_action e) \<and> al_resource_id e = Some (''entra:'' @ tenant_id @ '':'' @ object_id)"
proof -
  obtain action where a: "link_action outcome = Some action" using assms(2) by (cases outcome) (simp_all add: link_action_def)
  obtain e md where ins: "insert_stmt audit_logs audit_logs_update audit_violation
      (\<lambda>i. NewAuditLog.extend \<lparr>al_actor_user_id = None, al_action = action, al_resource_type = ''external_identity'',
        al_resource_id = Some (''entra:'' @ tenant_id @ '':'' @ object_id), al_metadata = md\<rparr>
        (AuditLog.fields i (env_clock env (tick s)))) env (s\<lparr>tick := Suc (tick s)\<rparr>) = (Inr e, s')"
    using assms(1) a unfolding write_link_audit_def AuditLogRepository_create_def by (auto simp: bindM_Inr_iff utc_now_def)
  from insert_stmt_Inr [OF ins] show ?thesis by (auto simp: a NewAuditLog.defs AuditLog.defs)
qed

lemma steady_link_steps:
  "\<forall>k. env_fault env k \<noteq> Some NotFoundError \<Longrightarrow> steady env (link_steps au wl sel issuer tenant_id object_id subject)"
  unfolding link_steps_def by (intro steady_rule)

lemma link_steps_Inr:
  assumes "link_steps au wl sel issuer tenant_id object_id subject env s = (Inr (user, outcome), s')"
    and faults: "\<forall>k. env_fault env k \<noteq> Some NotFoundError" and ids: "distinct (map ei_id (rows (external_identities (tabs s))))"
  obtains t where "\<exists>u \<in> set (rows (users (tabs s))). selects au sel u \<and> us_id u = cu_id user"
    "links user issuer tenant_id object_id subject outcome (tabs s) t"
    "outcome = AlreadyLinked \<and> tabs s' = t \<or> outcome \<noteq> AlreadyLinked \<and> (\<exists>e. tabs s' = audit_logs_update
        (\<lambda>tb. tb\<lparr>rows := rows tb @ [e], seq := seq tb + 1\<rparr>) t \<and> link_action outcome = Some (al_action e))"
proof -
  obtain l existing u s1 s2 s3 s4 where lock: "advisory_lock env s = (Inr l, s1)"
    and usr: "find_cli_user au sel env s1 = (Inr user, s2)"
    and find: "find_entra_identity tenant_id object_id env s2 = (Inr existing, s3)"
    and step: "(case existing of Some identity \<Rightarrow> resolve_existing_identity identity user issuer subject
       | None \<Rightarrow> create_entra_identity user issuer tenant_id object_id subject) env s3 = (Inr outcome, s4)"
    and aud: "(if outcome \<noteq> AlreadyLinked then write_link_audit wl user tenant_id object_id outcome else retM ()) env s4 = (Inr u, s')"
    using assms(1) unfolding link_steps_def bindM_Inr_iff linkM_Inr retM_run prod.inject sum.inject by blast
  have s1: "tabs s1 = tabs s" using lock unfolding advisory_lock_def by (rule select_stmt_tabs)
  have s3: "tabs s3 = tabs s"
    and ex: "existing = first_row (entra_object tenant_id object_id) (rows (external_identities (tabs s)))"
    using optional_find_Inr [OF find [unfolded find_entra_identity_def linkM_Inr] faults] cli_user_Inr(2) [OF usr] s1 by simp_all
  have "links user issuer tenant_id object_id subject outcome (tabs s) (tabs s4)"
  proof (cases existing)
    case None
    then have "create_entra_identity user issuer tenant_id object_id subject env s3 = (Inr outcome, s4)" using step by simp
    from create_links [OF this _ faults] show ?thesis using s3 ids by simp
  next
    case (Some x)
    then have res: "resolve_existing_identity x user issuer subject env s3 = (Inr outcome, s4)" using step by simp
    have "x \<in> set (rows (external_identities (tabs s3))) \<and> entra_object tenant_id object_id x"
      using first_row_Some [OF ex [symmetric, unfolded Some]] s3 by simp
    then show ?thesis using resolve_links [OF res _ _ _ faults] s3 ids by simp
  qed
  moreover have "outcome = AlreadyLinked \<and> tabs s' = tabs s4 \<or> outcome \<noteq> AlreadyLinked \<and> (\<exists>e. tabs s' = audit_logs_update
        (\<lambda>tb. tb\<lparr>rows := rows tb @ [e], seq := seq tb + 1\<rparr>) (tabs s4) \<and> link_action outcome = Some (al_action e))"
  proof (cases "outcome = AlreadyLinked")
    case False
    then have "write_link_audit wl user tenant_id object_id outcome env s4 = (Inr u, s')" using aud by simp
    from audit_written [OF this False] False show ?thesis by blast
  qed (use aud in simp)
  moreover have "\<exists>u \<in> set (rows (users (tabs s))). selects au sel u \<and> us_id u = cu_id user"
    using cli_user_Inr(1) [OF usr] s1 by auto
  ultimately show thesis using that by blast
qed

text \<open>C40: Linking a user to an identity of Entra is all or nothing. When it fails, nothing has changed. When it
  succeeds, the identity of the given tenant and object belongs to the selected user with the issuer of
  the configuration and the subject that was asked for, no other identity has changed, and a change was
  recorded by one entry in the audit log; an identity that belongs to somebody else is never taken over.\<close>

theorem linked_identities_belong_to_the_selected_user:
  assumes "link_identity au wl sel issuer tenant_id object_id subject env s = (res, s')"
    and "\<forall>k. env_fault env k \<noteq> Some NotFoundError" "distinct (map ei_id (rows (external_identities (tabs s))))"
  shows "(isl res \<longrightarrow> tabs s' = tabs s) \<and> (\<forall>user outcome. res = Inr (user, outcome) \<longrightarrow>
    (\<exists>u \<in> set (rows (users (tabs s))). selects au sel u \<and> us_id u = cu_id user)
    \<and> (\<exists>x \<in> set (rows (external_identities (tabs s'))). ei_provider x = ''entra'' \<and> ei_tenant_id x = tenant_id
         \<and> ei_object_id x = object_id \<and> ei_user_id x = cu_id user \<and> ei_issuer x = issuer
         \<and> (subject \<noteq> None \<longrightarrow> ei_subject x = subject))
    \<and> filter (\<lambda>x. \<not> entra_object tenant_id object_id x) (rows (external_identities (tabs s')))
      = filter (\<lambda>x. \<not> entra_object tenant_id object_id x) (rows (external_identities (tabs s)))
    \<and> (if outcome = AlreadyLinked then tabs s' = tabs s
       else \<exists>e. rows (audit_logs (tabs s')) = rows (audit_logs (tabs s)) @ [e] \<and> link_action outcome = Some (al_action e)))"
proof (cases res)
  case (Inl e)
  from assms(1) have "tabs s' = tabs s" unfolding link_identity_def by (rule transaction_outcome) (simp_all add: Inl)
  then show ?thesis using Inl by simp
next
  case (Inr r)
  obtain user outcome where r: "r = (user, outcome)" by fastforce
  note steady = steady_link_steps [OF assms(2), unfolded steady_def, rule_format]
  obtain s0 s1 where s0: "tabs s0 = tabs s" "tabs s' = tabs s1"
    and run: "link_steps au wl sel issuer tenant_id object_id subject env s0 = (Inr (user, outcome), s1)"
    using steady assms(1) [unfolded link_identity_def Inr r] by (rule transaction_committed_at)
  from run assms(2) assms(3) [folded s0(1)] show ?thesis
  proof (rule link_steps_Inr)
    fix t
    assume t: "\<exists>u \<in> set (rows (users (tabs s0))). selects au sel u \<and> us_id u = cu_id user"
      "links user issuer tenant_id object_id subject outcome (tabs s0) t"
      "outcome = AlreadyLinked \<and> tabs s1 = t \<or> outcome \<noteq> AlreadyLinked \<and> (\<exists>e. tabs s1 = audit_logs_update
        (\<lambda>tb. tb\<lparr>rows := rows tb @ [e], seq := seq tb + 1\<rparr>) t \<and> link_action outcome = Some (al_action e))"
    have ext: "external_identities (tabs s1) = external_identities t" using t(3) by auto
    obtain f where f: "t = external_identities_update f (tabs s0)" and same: "outcome = AlreadyLinked \<Longrightarrow> t = tabs s0"
      using t(2) unfolding links_def by blast
    have aud: "audit_logs t = audit_logs (tabs s0)" by (simp add: f)
    have "if outcome = AlreadyLinked then tabs s1 = tabs s0
       else \<exists>e. rows (audit_logs (tabs s1)) = rows (audit_logs (tabs s0)) @ [e] \<and> link_action outcome = Some (al_action e)"
      using t(3) aud same by (cases "outcome = AlreadyLinked") auto
    moreover obtain x where "x \<in> set (rows (external_identities t))" "belongs user issuer tenant_id object_id subject x"
      and "filter (\<lambda>x. \<not> entra_object tenant_id object_id x) (rows (external_identities t))
        = filter (\<lambda>x. \<not> entra_object tenant_id object_id x) (rows (external_identities (tabs s0)))"
      using t(2) unfolding links_def by blast
    ultimately show ?thesis using t(1) unfolding Inr r s0 ext belongs_def entra_object_def by (simp only: sum.inject prod.inject sum.disc) blast
  qed
qed

section \<open>Roles on the command line\<close>

text \<open>The roles that \<^verbatim>\<open>ensure-admin\<close> grants: at least one, in order, each once and none blank.\<close>

lemma normalized_roles_are_a_proper_list:
  "normalized_roles codes \<noteq> [] \<and> sorted (normalized_roles codes) \<and> distinct (normalized_roles codes)
   \<and> [] \<notin> set (normalized_roles codes)"
proof -
  define cs where "cs = concat (map (\<lambda>role. filter (\<lambda>r. r \<noteq> []) (map trim (split_on (\<lambda>c. c = CHR '','') role))) codes)"
  have eq: "normalized_roles codes = remdups_adj (sort (if cs = [] then [''admin'', ''member''] else cs))"
    by (simp only: normalized_roles_def cs_def Let_def)
  have "[] \<notin> set cs" by (auto simp: cs_def)
  moreover have "distinct (remdups_adj xs)" if "sorted xs" for xs :: "string list"
    using that by (induction xs rule: remdups_adj.induct) (auto simp: le_less)
  moreover have "sort xs \<noteq> []" if "xs \<noteq> []" for xs :: "string list" using that by (metis length_0_conv length_sort)
  ultimately show ?thesis unfolding eq by (cases "cs = []") (simp_all add: sorted_remdups_adj)
qed

end
