(* ===== verification/Command_Scenario.thy ===== *)
theory Command_Scenario
  imports Command_Properties Portal_Scenario
begin

text \<open>
  A user is linked to an identity of Entra from the command line.
\<close>

definition demo_link :: "(LinkEntraError + CliUser \<times> LinkOutcome) \<times> db" where
  "demo_link = link_identity demo_au demo_wl (ById 1) ''https://i'' ''t'' ''o'' (Some ''sub'') calm (mk_db access_tables)"

lemma demo_link_result: "fst demo_link = Inr (\<lparr>cu_id = 1, cu_username = ''ada''\<rparr>, Created)"
  by code_simp

theorem linked_identities_belong_to_the_selected_user_witness:
  "\<exists>x e. x \<in> set (rows (external_identities (tabs (snd demo_link)))) \<and> ei_tenant_id x = ''t'' \<and> ei_object_id x = ''o''
    \<and> ei_user_id x = 1 \<and> ei_issuer x = ''https://i'' \<and> ei_subject x = Some ''sub''
    \<and> rows (audit_logs (tabs (snd demo_link))) = [e] \<and> al_action e = ''external_identity.linked''"
proof -
  have run: "link_identity demo_au demo_wl (ById 1) ''https://i'' ''t'' ''o'' (Some ''sub'') calm (mk_db access_tables)
      = (fst demo_link, snd demo_link)" by (simp add: demo_link_def)
  have empty: "rows (external_identities (tabs (mk_db access_tables))) = []" "rows (audit_logs (tabs (mk_db access_tables))) = []"
    by code_simp+
  then have "distinct (map ei_id (rows (external_identities (tabs (mk_db access_tables)))))" by simp
  from linked_identities_belong_to_the_selected_user [OF run calm_env(3) this] demo_link_result
  show ?thesis by (auto simp: empty link_action_def)
qed

end
