(* ===== verification/Worker_Scenario.thy ===== *)
theory Worker_Scenario
  imports Scenario Worker_Properties
begin

text \<open>
  The worker at work: a scheduler pass over one configuration that may run and one whose schedule cannot
  be read, a pass in which the unreadable ones take all the places, and a retention pass. Two
  environments show what the start of the worker accepts.
\<close>

definition demo_schedule :: "string \<Rightarrow> string \<Rightarrow> i32 \<Rightarrow> ConnectorConfig" where
  "demo_schedule source schedule i = \<lparr>cc_source = source, cc_target = ''notifications'', cc_enabled = True,
     cc_schedule_cron = Some schedule, cc_config = '''', cc_sample_payload = '''', cc_last_scheduled_at = None,
     cc_next_run_at = Some 0, cc_last_scheduled_run_id = None, cc_id = i, cc_created_at = 0, cc_updated_at = 0\<rparr>"

definition old_run :: ConnectorRun where
  "old_run = (NewConnectorRun.extend (queued_run demo_rt ''erp'' ''notifications'' ''manual'' None None 0)
     (ConnectorRun.fields 1))\<lparr>cr_status := ''success'', cr_finished_at := Some (- days 100)\<rparr>"

definition worker_tables :: tables where
  "worker_tables = demo_tables\<lparr>connector_configs := \<lparr>rows = [demo_schedule ''erp'' ''5m'' 1,
       demo_schedule ''crm'' ''soon'' 2], seq = 3\<rparr>,
     connector_runs := \<lparr>rows = [old_run], seq = 2\<rparr>\<rparr>"

lemma demo_env_faults: "\<forall>k. env_fault demo_env k \<noteq> Some NotFoundError"
  by (simp add: demo_env_def)

lemma outcome_of_run: "\<not> isl (fst p) \<Longrightarrow> p = (Inr (projr (fst p)), snd p)"
  by (simp add: prod_eq_iff)

section \<open>The scheduler\<close>

definition demo_pass :: "(ApiError + nat) \<times> db" where
  "demo_pass = enqueue_due_scheduled_runs demo_rt demo_env (mk_db worker_tables)"

lemma demo_pass_eq: "enqueue_due_scheduled_runs demo_rt demo_env (mk_db worker_tables)
    = (Inr (projr (fst demo_pass)), snd demo_pass)"
proof -
  have "\<not> isl (fst demo_pass)" by code_simp
  from outcome_of_run [OF this] show ?thesis by (simp add: demo_pass_def)
qed

theorem scheduler_pass_witness:
  "projr (fst demo_pass) = 1
   \<and> (\<exists>r. rows (connector_runs (tabs (snd demo_pass))) = [old_run, r] \<and> scheduled_run (demo_schedule ''erp'' ''5m'' 1) r)
   \<and> due_view (tabs (snd demo_pass)) = [(''erp'', Some (seconds 301)), (''crm'', Some 0)]"
proof -
  let ?t = "worker_tables" and ?now = "env_clock demo_env (Suc (tick (mk_db worker_tables)))"
  have t: "tabs (mk_db worker_tables) = ?t" by (simp add: mk_db_def)
  have u: "distinct (map cc_source (rows (connector_configs (tabs (mk_db ?t)))))" by code_simp
  have r: "filter (runnable ?t) (selected ?now ?t) = [demo_schedule ''erp'' ''5m'' 1]" by code_simp
  have v: "map (\<lambda>d. (cc_source d, if d \<in> set (selected ?now ?t) \<and> \<not> stuck ?t d
          then map_option (\<lambda>i. ?now + seconds i) (interval_of d) else cc_next_run_at d)) (rows (connector_configs ?t))
      = [(''erp'', Some (seconds 301)), (''crm'', Some 0)]" by code_simp
  have o: "rows (connector_runs ?t) = [old_run]" by (simp add: worker_tables_def)
  show ?thesis
    using scheduler_pass [OF demo_pass_eq demo_env_faults u] unfolding t r v o by (auto simp: list_all2_Cons1)
qed

definition stuck_tables :: tables where
  "stuck_tables = worker_tables\<lparr>connector_configs := \<lparr>rows =
     map (\<lambda>k. demo_schedule (show_int (int k)) ''soon'' (int k)) [2..<12] @ [(demo_schedule ''erp'' ''5m'' 1)\<lparr>cc_next_run_at := Some 1\<rparr>],
     seq = 12\<rparr>\<rparr>"

definition stuck_pass :: "(ApiError + nat) \<times> db" where
  "stuck_pass = enqueue_due_scheduled_runs demo_rt demo_env (mk_db stuck_tables)"

lemma stuck_pass_eq: "enqueue_due_scheduled_runs demo_rt demo_env (mk_db stuck_tables)
    = (Inr (projr (fst stuck_pass)), snd stuck_pass)"
proof -
  have "\<not> isl (fst stuck_pass)" by code_simp
  from outcome_of_run [OF this] show ?thesis by (simp add: stuck_pass_def)
qed

theorem stuck_configs_starve_the_others_witness:
  "projr (fst stuck_pass) = 0 \<and> tabs (snd stuck_pass) = stuck_tables
   \<and> runnable stuck_tables ((demo_schedule ''erp'' ''5m'' 1)\<lparr>cc_next_run_at := Some 1\<rparr>)"
proof -
  have t: "tabs (mk_db stuck_tables) = stuck_tables" by (simp add: mk_db_def)
  have "list_all (stuck (tabs (mk_db stuck_tables))) (selected (env_clock demo_env (Suc (tick (mk_db stuck_tables)))) (tabs (mk_db stuck_tables)))"
    by code_simp
  moreover have "runnable stuck_tables ((demo_schedule ''erp'' ''5m'' 1)\<lparr>cc_next_run_at := Some 1\<rparr>)" by code_simp
  ultimately show ?thesis using stuck_configs_starve_the_others [OF stuck_pass_eq demo_env_faults] t by simp
qed

section \<open>Retention\<close>

definition demo_ww :: worker_world where
  "demo_ww = \<lparr>ww_instant = (\<lambda>n. int n), ww_lock = (\<lambda>_. True), ww_debug = (\<lambda>_. ''error''), ww_runtime = demo_rt,
     ww_web = \<lparr>wl_json = (\<lambda>_. None), wl_show = (\<lambda>_. ''{}''), wl_time = JInt, wl_date = (\<lambda>_. None), wl_rfc3339 = (\<lambda>_. None),
       wl_sql_lower = id\<rparr>\<rparr>"

definition no_vars :: process_env where
  "no_vars = (\<lambda>_. Inl NotPresent)"

definition demo_cleanup :: "(ApiError + ConnectorRetentionCleanupAttempt) \<times> db" where
  "demo_cleanup = cleanup_connector_retention demo_ww (ConnectorRetentionPolicy_from_env no_vars) ''w1'' 0
     demo_env (mk_db worker_tables)"

definition demo_deleted :: ConnectorRetentionCleanup where
  "demo_deleted = \<lparr>rc_health_checks_deleted = 0, rc_runs_deleted = 1, rc_audit_logs_deleted = 0,
     rc_oidc_transactions_deleted = 0, rc_expired_sessions_deleted = 0, rc_login_throttle_buckets_deleted = 0\<rparr>"

lemma demo_cleanup_eq: "cleanup_connector_retention demo_ww (ConnectorRetentionPolicy_from_env no_vars) ''w1'' 0
     demo_env (mk_db worker_tables) = (Inr (CleanupCompleted demo_deleted), snd demo_cleanup)"
proof -
  have "fst demo_cleanup = Inr (CleanupCompleted demo_deleted)" by code_simp
  then show ?thesis by (simp add: demo_cleanup_def prod_eq_iff)
qed

text \<open>A pass right after the first one is skipped.\<close>

definition next_cleanup :: "(ApiError + ConnectorRetentionCleanupAttempt) \<times> db" where
  "next_cleanup = cleanup_connector_retention demo_ww (ConnectorRetentionPolicy_from_env no_vars) ''w2'' 0
     demo_env (snd demo_cleanup)"

lemma next_cleanup_eq: "cleanup_connector_retention demo_ww (ConnectorRetentionPolicy_from_env no_vars) ''w2'' 0
     demo_env (snd demo_cleanup) = (Inr SkippedRecentlyCompleted, snd next_cleanup)"
proof -
  have "fst next_cleanup = Inr SkippedRecentlyCompleted" by code_simp
  then show ?thesis by (simp add: next_cleanup_def prod_eq_iff)
qed

theorem retention_pass_witness:
  "\<exists>m. purged (ConnectorRetentionPolicy_from_env no_vars) (env_clock demo_env 3) demo_deleted worker_tables (tabs (snd demo_cleanup))
     \<and> rows (maintenance_runs (tabs (snd demo_cleanup))) = [m] \<and> mr_connector_runs_deleted m = 1
     \<and> tabs (snd next_cleanup) = tabs (snd demo_cleanup)"
proof -
  have t: "tabs (mk_db worker_tables) = worker_tables" "rows (maintenance_runs worker_tables) = []"
    "tick (mk_db worker_tables) = 0"
    by (simp_all add: mk_db_def worker_tables_def demo_tables_def empty_tables_def empty_table_def)
  have c: "count_as_i32 (rc_runs_deleted demo_deleted) = 1" by code_simp
  show ?thesis using retention_pass [OF demo_cleanup_eq refl] retention_pass [OF next_cleanup_eq refl] by (auto simp: t c)
qed

section \<open>Environments the worker starts with\<close>

text \<open>A lease of \<open>2 ^ 63\<close> seconds passes every check of the start and becomes negative, so that every lease
  the worker takes has expired when it is taken.\<close>

theorem negative_lease_is_accepted:
  "\<exists>vars p. ConnectorRunLeasePolicy_from_env vars = Inr p \<and> lp_lease_seconds p < 0"
proof -
  let ?v = "\<lambda>name. if name = ''CONNECTOR_RUN_LEASE_SECONDS'' then Inr ''9223372036854775808'' else Inl NotPresent"
  have "case ConnectorRunLeasePolicy_from_env ?v of Inr p \<Rightarrow> lp_lease_seconds p < 0 | Inl _ \<Rightarrow> False" by code_simp
  then show ?thesis by (cases "ConnectorRunLeasePolicy_from_env ?v") auto
qed

text \<open>The start checks the trimmed limit of attempts; a new run reads it untrimmed and falls back to 3.\<close>

theorem checked_limit_is_not_used:
  "\<exists>vars. vars ''CONNECTOR_RUN_MAX_ATTEMPTS'' = Inr '' 5''
     \<and> strict_positive_env_u64 vars ''CONNECTOR_RUN_MAX_ATTEMPTS'' 3 = Inr 5
     \<and> \<not> isl (ConnectorRunLeasePolicy_from_env vars)
     \<and> configured_connector_run_max_attempts (var_ok vars ''CONNECTOR_RUN_MAX_ATTEMPTS'') = 3"
proof -
  let ?v = "\<lambda>name. if name = ''CONNECTOR_RUN_MAX_ATTEMPTS'' then Inr '' 5'' else Inl NotPresent"
  have "strict_positive_env_u64 ?v ''CONNECTOR_RUN_MAX_ATTEMPTS'' 3 = Inr 5"
    and "\<not> isl (ConnectorRunLeasePolicy_from_env ?v)"
    and "configured_connector_run_max_attempts (var_ok ?v ''CONNECTOR_RUN_MAX_ATTEMPTS'') = 3" by code_simp+
  then show ?thesis by (intro exI [of _ ?v]) simp
qed

end
