(* ===== verification/Entra.thy ===== *)
theory Entra
  imports App_Config Login
begin

text \<open>
  \<^verbatim>\<open>src/src/rocket_routes/entra_auth.rs\<close>: signing in with Microsoft Entra. A login starts with a transaction
  in the database that is bound to the browser by a cookie, leaves the portal, and comes back with a code
  that is exchanged for a signed token.

  Code outside the repository is a field of \<open>oidclib\<close>: the random bytes, base64, SHA-256, AES-GCM and
  Argon2, the answers of the provider over HTTP, the parsers of its JSON, the decoder of signed tokens,
  and the printer of the authorization URL. An answer over HTTP is a status, a declared length and the
  chunks of its body, a missing chunk being a broken connection. The cache of signing keys is shared by
  the requests; it is passed to the callback and returned by it. The changes to the cookie jar are part
  of the result of a request that succeeds.
\<close>

section \<open>Data\<close>

datatype EntraFlowError = AccessDenied | AccountNotAllowed | InvalidState | ProviderUnavailable | Configuration

type_synonym 'a flow = "(EntraFlowError, 'a) dbm"

record http_response =
  hr_success :: bool
  hr_content_length :: "int option"
  hr_chunks :: "string option list"

record Jwk =
  jw_key_type :: string
  jw_key_use :: "string option"
  jw_algorithm :: "string option"
  jw_key_id :: string
  jw_modulus :: string
  jw_exponent :: string

datatype AudienceClaim = One string | Many "string list"

fun is_multiple :: "AudienceClaim \<Rightarrow> bool" where
  "is_multiple (One _) = False"
| "is_multiple (Many values) = (length values > 1)"

record EntraIdTokenClaims =
  ic_subject :: string
  ic_tenant_id :: string
  ic_object_id :: string
  ic_version :: "string option"
  ic_nonce :: "string option"
  ic_audience :: AudienceClaim
  ic_authorized_party :: "string option"
  ic_issued_at :: "i64 option"
  ic_roles :: "string list"
  ic_preferred_username :: "string option"
  ic_display_name :: "string option"
  ic_email :: "string option"

record ValidatedEntraClaims =
  vc_subject :: string
  vc_tenant_id :: string
  vc_object_id :: string
  vc_preferred_username :: "string option"
  vc_display_name :: "string option"
  vc_email :: "string option"

record token_validation =
  tv_algorithm :: string
  tv_required_claims :: "string list"
  tv_audience :: string
  tv_issuer :: string
  tv_leeway :: int
  tv_validate_nbf :: bool

record JwksCacheState =
  jc_document :: "Jwk list option"
  jc_fetched_at :: "int option"
  jc_last_unknown_kid_refresh_at :: "int option"

record oidclib =
  ol_random :: "nat \<Rightarrow> nat \<Rightarrow> string"
  ol_b64 :: "string \<Rightarrow> string"
  ol_unb64 :: "string \<Rightarrow> string option"
  ol_sha256 :: "string \<Rightarrow> string"
  ol_seal :: "string \<Rightarrow> string \<Rightarrow> string \<Rightarrow> string \<Rightarrow> string option"
  ol_open :: "string \<Rightarrow> string \<Rightarrow> string \<Rightarrow> string \<Rightarrow> string option"
  ol_argon2 :: "nat \<Rightarrow> string \<Rightarrow> string option"
  ol_post :: "nat \<Rightarrow> string \<Rightarrow> (string \<times> string) list \<Rightarrow> http_response option"
  ol_get :: "nat \<Rightarrow> string \<Rightarrow> http_response option"
  ol_token_json :: "string \<Rightarrow> string option"
  ol_jwks_json :: "string \<Rightarrow> Jwk list option"
  ol_header :: "string \<Rightarrow> (string \<times> string option) option"
  ol_rsa_key :: "string \<Rightarrow> string \<Rightarrow> string option"
  ol_decode :: "utc \<Rightarrow> token_validation \<Rightarrow> string \<Rightarrow> string \<Rightarrow> EntraIdTokenClaims option"
  ol_query_url :: "string \<Rightarrow> (string \<times> string) list \<Rightarrow> string option"
  ol_instant :: "nat \<Rightarrow> int"
  ol_jit_metadata :: "string \<Rightarrow> string \<Rightarrow> string"
  ol_auth :: authlib
  ol_urls :: urllib
  ol_world :: login_world

definition OIDC_COOKIE_NAME :: string where "OIDC_COOKIE_NAME = ''idp_oidc''"
definition OIDC_PRODUCTION_COOKIE_NAME :: string where "OIDC_PRODUCTION_COOKIE_NAME = ''__Host-idp_oidc''"
definition MAX_TOKEN_RESPONSE_BYTES :: int where "MAX_TOKEN_RESPONSE_BYTES = 64 * 1024"
definition MAX_JWKS_RESPONSE_BYTES :: int where "MAX_JWKS_RESPONSE_BYTES = 1024 * 1024"
definition UNKNOWN_KID_REFRESH_COOLDOWN_SECONDS :: int where "UNKNOWN_KID_REFRESH_COOLDOWN_SECONDS = 30"
definition MAX_PENDING_OIDC_TRANSACTIONS :: i64 where "MAX_PENDING_OIDC_TRANSACTIONS = 10000"

section \<open>Answers of the provider\<close>

fun read_chunks :: "int \<Rightarrow> string \<Rightarrow> string option list \<Rightarrow> EntraFlowError + string" where
  "read_chunks max_bytes body [] = Inr body"
| "read_chunks max_bytes body (None # _) = Inl ProviderUnavailable"
| "read_chunks max_bytes body (Some chunk # rest) =
     (if int (length body) + int (length chunk) > max_bytes then Inl ProviderUnavailable
      else read_chunks max_bytes (body @ chunk) rest)"

definition read_bounded_json ::
    "(string \<Rightarrow> 'a option) \<Rightarrow> http_response \<Rightarrow> int \<Rightarrow> EntraFlowError + 'a" where
  "read_bounded_json parse response max_bytes =
     (if (case hr_content_length response of Some l \<Rightarrow> l > max_bytes | None \<Rightarrow> False)
      then Inl ProviderUnavailable
      else bindS (read_chunks max_bytes [] (hr_chunks response)) (\<lambda>body.
        case parse body of Some v \<Rightarrow> Inr v | None \<Rightarrow> Inl ProviderUnavailable))"

definition require_success :: "http_response option \<Rightarrow> http_response flow" where
  "require_success r = (case r of
       None \<Rightarrow> throwM ProviderUnavailable
     | Some response \<Rightarrow> if hr_success response then retM response else throwM ProviderUnavailable)"

definition exchange_code :: "oidclib \<Rightarrow> EntraConfig \<Rightarrow> string \<Rightarrow> string \<Rightarrow> string flow" where
  "exchange_code ol config code pkce_verifier =
     (let form = [(''client_id'', en_client_id config), (''grant_type'', ''authorization_code''), (''code'', code),
            (''redirect_uri'', en_redirect_uri config), (''code_verifier'', pkce_verifier)]
          @ (case en_client_secret config of Some x \<Rightarrow> [(''client_secret'', x)] | None \<Rightarrow> []) in
      bindM outside_call (\<lambda>n.
      bindM (require_success (ol_post ol n (en_token_url config) form)) (\<lambda>response.
      bindM (resultM (read_bounded_json (ol_token_json ol) response MAX_TOKEN_RESPONSE_BYTES)) (\<lambda>id_token.
      if int (length id_token) > 32 * 1024 \<or> count_list id_token (CHR ''.'') \<noteq> 2 then throwM AccountNotAllowed
      else retM id_token))))"

definition fetch_jwks :: "oidclib \<Rightarrow> EntraConfig \<Rightarrow> Jwk list flow" where
  "fetch_jwks ol config =
     bindM outside_call (\<lambda>n.
     bindM (require_success (ol_get ol n (en_jwks_url config))) (\<lambda>response.
     bindM (resultM (read_bounded_json (ol_jwks_json ol) response MAX_JWKS_RESPONSE_BYTES)) (\<lambda>keys.
     if keys = [] \<or> length keys > 100 then throwM ProviderUnavailable else retM keys)))"

definition JwksDocument_key :: "Jwk list \<Rightarrow> string \<Rightarrow> EntraFlowError + Jwk" where
  "JwksDocument_key keys kid =
     (case filter (\<lambda>k. jw_key_id k = kid) keys of [k] \<Rightarrow> Inr k | _ \<Rightarrow> Inl AccountNotAllowed)"

definition decoding_key_from_jwk :: "oidclib \<Rightarrow> Jwk \<Rightarrow> EntraFlowError + string" where
  "decoding_key_from_jwk ol jwk =
     (if jw_key_type jwk \<noteq> ''RSA''
         \<or> (case jw_algorithm jwk of Some a \<Rightarrow> a \<noteq> ''RS256'' | None \<Rightarrow> False)
         \<or> (case jw_key_use jwk of Some u \<Rightarrow> u \<noteq> ''sig'' | None \<Rightarrow> False)
         \<or> \<not> (256 \<le> int (length (jw_modulus jwk)) \<and> int (length (jw_modulus jwk)) \<le> 16 * 1024)
         \<or> jw_exponent jwk = [] \<or> length (jw_exponent jwk) > 128
      then Inl AccountNotAllowed
      else (case ol_rsa_key ol (jw_modulus jwk) (jw_exponent jwk) of
              Some key \<Rightarrow> Inr key | None \<Rightarrow> Inl AccountNotAllowed))"

text \<open>The cast of an \<^verbatim>\<open>i64\<close> to \<^verbatim>\<open>u64\<close> keeps the bits.\<close>

definition i64_as_u64 :: "i64 \<Rightarrow> int" where
  "i64_as_u64 x = (if x < 0 then x + 18446744073709551616 else x)"

definition within :: "int option \<Rightarrow> int \<Rightarrow> int \<Rightarrow> bool" where
  "within at now ttl = (case at of Some t \<Rightarrow> max (now - t) 0 < ttl | None \<Rightarrow> False)"

text \<open>The key of a token, from the cache while it is fresh; an unknown key refreshes the cache at most
  once per cooldown. The cache is left as the code leaves it, also on an error.\<close>

definition refresh_key ::
    "oidclib \<Rightarrow> EntraConfig \<Rightarrow> string \<Rightarrow> JwksCacheState \<Rightarrow> ((EntraFlowError + string) \<times> JwksCacheState) flow" where
  "refresh_key ol config kid cache =
     handleM (fetch_jwks ol config) (\<lambda>e. retM (Inl e, cache)) (\<lambda>document.
     bindM outside_call (\<lambda>n.
     retM (bindS (JwksDocument_key document kid) (decoding_key_from_jwk ol),
           cache\<lparr>jc_document := Some document, jc_fetched_at := Some (ol_instant ol n)\<rparr>)))"

definition decoding_key ::
    "oidclib \<Rightarrow> EntraConfig \<Rightarrow> string \<Rightarrow> JwksCacheState \<Rightarrow> ((EntraFlowError + string) \<times> JwksCacheState) flow" where
  "decoding_key ol config kid cache =
     bindM outside_call (\<lambda>n.
     let now = ol_instant ol n in
     if within (jc_fetched_at cache) now (seconds (i64_as_u64 (en_jwks_cache_seconds config))) then
       (case (case jc_document cache of Some d \<Rightarrow> JwksDocument_key d kid | None \<Rightarrow> Inl AccountNotAllowed) of
          Inr key \<Rightarrow> retM (decoding_key_from_jwk ol key, cache)
        | Inl _ \<Rightarrow>
            if within (jc_last_unknown_kid_refresh_at cache) now (seconds UNKNOWN_KID_REFRESH_COOLDOWN_SECONDS)
            then retM (Inl AccountNotAllowed, cache)
            else refresh_key ol config kid (cache\<lparr>jc_last_unknown_kid_refresh_at := Some now\<rparr>))
     else refresh_key ol config kid cache)"

section \<open>Secrets of a transaction\<close>

definition random_urlsafe :: "oidclib \<Rightarrow> nat \<Rightarrow> ('e, string) dbm" where
  "random_urlsafe ol byte_count = bindM draw (\<lambda>k. retM (ol_b64 ol (ol_random ol k byte_count)))"

definition transaction_cipher :: "oidclib \<Rightarrow> string \<Rightarrow> EntraFlowError + string" where
  "transaction_cipher ol transaction_key =
     (let digest = ol_sha256 ol transaction_key in
      if length digest = 32 then Inr digest else Inl Configuration)"

definition encrypt_transaction_secret :: "oidclib \<Rightarrow> string \<Rightarrow> string \<Rightarrow> string \<Rightarrow> nat \<Rightarrow> EntraFlowError + string" where
  "encrypt_transaction_secret ol plaintext state_hash transaction_key k =
     bindS (transaction_cipher ol transaction_key) (\<lambda>key.
     let nonce = ol_random ol k 12 in
     case ol_seal ol key nonce plaintext state_hash of
       None \<Rightarrow> Inl Configuration
     | Some ciphertext \<Rightarrow> Inr (''v1.'' @ ol_b64 ol nonce @ ''.'' @ ol_b64 ol ciphertext))"

definition decrypt_transaction_secret :: "oidclib \<Rightarrow> string \<Rightarrow> string \<Rightarrow> string \<Rightarrow> EntraFlowError + string" where
  "decrypt_transaction_secret ol encrypted state_hash transaction_key =
     (case split_on (\<lambda>c. c = CHR ''.'') encrypted of
        [v, n, c] \<Rightarrow>
          if v \<noteq> ''v1'' then Inl InvalidState
          else
            (case filter_option (\<lambda>x. length x = 12) (ol_unb64 ol n) of
               None \<Rightarrow> Inl InvalidState
             | Some nonce \<Rightarrow>
                 (case filter_option (\<lambda>x. x \<noteq> []) (ol_unb64 ol c) of
                    None \<Rightarrow> Inl InvalidState
                  | Some ciphertext \<Rightarrow>
                      bindS (transaction_cipher ol transaction_key) (\<lambda>key.
                      case ol_open ol key nonce ciphertext state_hash of
                        None \<Rightarrow> Inl InvalidState
                      | Some plaintext \<Rightarrow> if valid_utf8 plaintext then Inr plaintext else Inl InvalidState)))
      | _ \<Rightarrow> Inl InvalidState)"

section \<open>Redirects and cookies\<close>

definition fragment_specials :: string where
  "fragment_specials = ''/?&=_%.+-''"

definition normalize_return_to :: "string option \<Rightarrow> string" where
  "normalize_return_to return_to =
     (let candidate = unwrap_or return_to ''/#dashboard'';
          fragment = strip_prefix ''/#'' candidate;
          safe = length candidate \<le> 512
            \<and> (case fragment of Some f \<Rightarrow> f \<noteq> [] | None \<Rightarrow> False)
            \<and> (case fragment of Some f \<Rightarrow> CHR 0x5C \<notin> set f \<and> CHR ''#'' \<notin> set f | None \<Rightarrow> False)
            \<and> \<not> has_control candidate
            \<and> list_all (\<lambda>c. is_ascii_alphanumeric c \<or> c \<in> set fragment_specials) (unwrap_or fragment [])
      in if safe then candidate else ''/#dashboard'')"

definition marker :: "EntraFlowError + unit \<Rightarrow> string" where
  "marker result = (case result of
       Inr _ \<Rightarrow> ''auth_result=entra''
     | Inl AccessDenied \<Rightarrow> ''auth_error=entra_access_denied''
     | Inl AccountNotAllowed \<Rightarrow> ''auth_error=entra_account_not_allowed''
     | Inl InvalidState \<Rightarrow> ''auth_error=entra_invalid_state''
     | Inl ProviderUnavailable \<Rightarrow> ''auth_error=entra_provider_unavailable''
     | Inl Configuration \<Rightarrow> ''auth_error=entra_configuration_error'')"

definition callback_target :: "string \<Rightarrow> EntraFlowError + unit \<Rightarrow> string" where
  "callback_target return_to result =
     (let fragment = unwrap_or (strip_prefix ''/#'' (normalize_return_to (Some return_to))) ''dashboard''
      in ''/?'' @ marker result @ ''#'' @ fragment)"

definition oidc_cookie_name :: "AppConfig \<Rightarrow> string" where
  "oidc_cookie_name config =
     (if ac_environment config = ''production'' then OIDC_PRODUCTION_COOKIE_NAME else OIDC_COOKIE_NAME)"

definition oidc_cookie :: "string \<Rightarrow> AppConfig \<Rightarrow> EntraConfig \<Rightarrow> cookie" where
  "oidc_cookie browser_binding config entra =
     \<lparr>ck_name = oidc_cookie_name config, ck_value = browser_binding, ck_path = ''/'', ck_http_only = True,
      ck_secure = ac_auth_cookie_secure config, ck_same_site = ''Lax'',
      ck_max_age = Some (en_transaction_ttl_seconds entra)\<rparr>"

definition clear_oidc_cookie :: "AppConfig \<Rightarrow> cookie_change list" where
  "clear_oidc_cookie config =
     [CookieRemove \<lparr>ck_name = oidc_cookie_name config, ck_value = [], ck_path = ''/'', ck_http_only = False,
        ck_secure = ac_auth_cookie_secure config, ck_same_site = ''Lax'', ck_max_age = None\<rparr>]"

definition build_authorization_url ::
    "oidclib \<Rightarrow> EntraConfig \<Rightarrow> string \<Rightarrow> string \<Rightarrow> string \<Rightarrow> EntraFlowError + string" where
  "build_authorization_url ol config state nonce pkce_verifier =
     (case ol_query_url ol (en_authorization_url config)
             [(''client_id'', en_client_id config), (''response_type'', ''code''),
              (''redirect_uri'', en_redirect_uri config), (''response_mode'', ''query''),
              (''scope'', ''openid profile email''), (''state'', state), (''nonce'', nonce),
              (''code_challenge'', ol_b64 ol (ol_sha256 ol pkce_verifier)), (''code_challenge_method'', ''S256'')] of
        Some u \<Rightarrow> Inr u | None \<Rightarrow> Inl Configuration)"

section \<open>Starting a login\<close>

record PublicAuthConfig =
  pc_password_login_enabled :: bool
  pc_entra_login_enabled :: bool

definition auth_config :: "AppConfig \<Rightarrow> PublicAuthConfig" where
  "auth_config config = \<lparr>pc_password_login_enabled = ac_auth_password_login_enabled config,
     pc_entra_login_enabled = (ac_entra config \<noteq> None)\<rparr>"

definition start_entra_login ::
    "oidclib \<Rightarrow> AppConfig \<Rightarrow> string option \<Rightarrow> (string \<times> cookie_change list) api" where
  "start_entra_login ol config return_to =
     (case ac_entra config of
        None \<Rightarrow> throwM NotFound
      | Some entra \<Rightarrow>
          bindM (random_urlsafe ol 32) (\<lambda>state.
          bindM (random_urlsafe ol 32) (\<lambda>browser_binding.
          bindM (random_urlsafe ol 32) (\<lambda>nonce.
          bindM (random_urlsafe ol 64) (\<lambda>pkce_verifier.
          let state_hash = au_sha256_hex (ol_auth ol) state;
              browser_binding_hash = au_sha256_hex (ol_auth ol) browser_binding in
          bindM draw (\<lambda>k.
          bindM (resultM (map_sum (\<lambda>_. Internal) id
                   (encrypt_transaction_secret ol pkce_verifier state_hash (en_transaction_key entra) k)))
            (\<lambda>pkce_verifier_ciphertext.
          bindM utc_now (\<lambda>now.
          bindM (stepM (liftM (OidcLoginTransactionRepository_create_bounded
                   \<lparr>ot_state_hash = state_hash, ot_browser_binding_hash = browser_binding_hash, ot_nonce = nonce,
                    ot_pkce_verifier_ciphertext = pkce_verifier_ciphertext,
                    ot_return_to = normalize_return_to return_to,
                    ot_expires_at = now + seconds (en_transaction_ttl_seconds entra)\<rparr>
                   now MAX_PENDING_OIDC_TRANSACTIONS))) (\<lambda>created.
          if created = None then throwM (AuthenticationCapacityLimited 60)
          else
          bindM (resultM (map_sum (\<lambda>_. Internal) id (build_authorization_url ol entra state nonce pkce_verifier)))
            (\<lambda>authorization_url.
          retM (authorization_url, [CookieAdd (oidc_cookie browser_binding config entra)])))))))))))"

section \<open>Tokens\<close>

definition canonical_uuid :: "oidclib \<Rightarrow> string \<Rightarrow> EntraFlowError + string" where
  "canonical_uuid ol value = (case ul_uuid (ol_urls ol) value of Some u \<Rightarrow> Inr u | None \<Rightarrow> Inl AccountNotAllowed)"

definition bounded_optional :: "string option \<Rightarrow> nat \<Rightarrow> EntraFlowError + string option" where
  "bounded_optional value max_length =
     (case value of
        Some v \<Rightarrow> if length v > max_length \<or> has_control v then Inl AccountNotAllowed
                  else if trim v = [] then Inr None else Inr (Some v)
      | None \<Rightarrow> Inr None)"

definition deny_if :: "bool \<Rightarrow> EntraFlowError + unit" where
  "deny_if b = (if b then Inl AccountNotAllowed else Inr ())"

definition id_token_validation :: "EntraConfig \<Rightarrow> token_validation" where
  "id_token_validation config =
     \<lparr>tv_algorithm = ''RS256'', tv_required_claims = [''exp'', ''iss'', ''aud'', ''sub''],
      tv_audience = en_client_id config, tv_issuer = en_issuer config,
      tv_leeway = i64_as_u64 (en_clock_skew_seconds config), tv_validate_nbf = True\<rparr>"

text \<open>\<open>decoded_at\<close> and \<open>now\<close> are the two readings of the clock.\<close>

definition decode_and_validate_id_token ::
    "oidclib \<Rightarrow> string \<Rightarrow> string \<Rightarrow> EntraConfig \<Rightarrow> string \<Rightarrow> utc \<Rightarrow> utc \<Rightarrow> EntraFlowError + ValidatedEntraClaims" where
  "decode_and_validate_id_token ol token key config expected_nonce decoded_at now =
     (case ol_decode ol decoded_at (id_token_validation config) key token of
        None \<Rightarrow> Inl AccountNotAllowed
      | Some raw \<Rightarrow>
          bindS (deny_if (ic_version raw \<noteq> Some ''2.0'' \<or> ic_nonce raw \<noteq> Some expected_nonce
            \<or> ic_subject raw = [] \<or> length (ic_subject raw) > 255 \<or> has_control (ic_subject raw))) (\<lambda>_.
          case ic_issued_at raw of
            None \<Rightarrow> Inl AccountNotAllowed
          | Some issued_at \<Rightarrow>
          bindS (deny_if (issued_at \<le> 0 \<or> issued_at > now div 1000000 + en_clock_skew_seconds config)) (\<lambda>_.
          bindS (canonical_uuid ol (ic_tenant_id raw)) (\<lambda>tenant_id.
          bindS (canonical_uuid ol (en_tenant_id config)) (\<lambda>configured_tenant_id.
          bindS (deny_if (tenant_id \<noteq> configured_tenant_id)) (\<lambda>_.
          bindS (canonical_uuid ol (ic_object_id raw)) (\<lambda>object_id.
          bindS (deny_if ((case ic_authorized_party raw of Some p \<Rightarrow> p \<noteq> en_client_id config | None \<Rightarrow> False)
            \<or> (is_multiple (ic_audience raw) \<and> ic_authorized_party raw = None))) (\<lambda>_.
          bindS (deny_if (case en_required_role config of Some r \<Rightarrow> r \<notin> set (ic_roles raw) | None \<Rightarrow> False)) (\<lambda>_.
          bindS (bounded_optional (ic_preferred_username raw) 320) (\<lambda>preferred_username.
          bindS (bounded_optional (ic_display_name raw) 256) (\<lambda>display_name.
          bindS (bounded_optional (ic_email raw) 320) (\<lambda>mail.
          Inr \<lparr>vc_subject = ic_subject raw, vc_tenant_id = tenant_id, vc_object_id = object_id,
               vc_preferred_username = preferred_username, vc_display_name = display_name,
               vc_email = mail\<rparr>))))))))))))"

section \<open>The user of a token\<close>

fun drop_while_end :: "(char \<Rightarrow> bool) \<Rightarrow> string \<Rightarrow> string" where
  "drop_while_end p s = rev (dropWhile p (rev s))"

definition username_char :: "char \<Rightarrow> char" where
  "username_char c = (if is_ascii_alphanumeric c \<or> c \<in> set ''._-'' then c else CHR ''-'')"

text \<open>One character of the source is one character of the name: the continuation bytes of UTF-8 are
  dropped, the first byte of a character outside ASCII becomes the dash.\<close>

definition jit_username :: "ValidatedEntraClaims \<Rightarrow> string" where
  "jit_username claims =
     (let source = (case vc_preferred_username claims of
            Some u \<Rightarrow> takeWhile (\<lambda>c. c \<noteq> CHR ''@'') u | None \<Rightarrow> ''entra'');
          mapped = map username_char (filter (\<lambda>c. \<not> is_continuation (byte c)) (to_ascii_lowercase source));
          base = drop_while_end (\<lambda>c. c \<in> set ''._-'') (dropWhile (\<lambda>c. c \<in> set ''._-'') mapped);
          base = (if base = [] then ''entra'' else base);
          suffix = filter (\<lambda>c. c \<noteq> CHR ''-'') (vc_object_id claims);
          max_base_len = 64 - (length suffix + 1)
      in take max_base_len base @ ''-'' @ suffix)"

definition random_password_hash :: "oidclib \<Rightarrow> string flow" where
  "random_password_hash ol =
     bindM (random_urlsafe ol 64) (\<lambda>random_password.
     bindM draw (\<lambda>k.
     case ol_argon2 ol k random_password of Some h \<Rightarrow> retM h | None \<Rightarrow> throwM Configuration))"

fun identity_write_error :: "DieselError \<Rightarrow> EntraFlowError" where
  "identity_write_error NotFoundError = AccountNotAllowed"
| "identity_write_error (DatabaseError UniqueViolation _) = AccountNotAllowed"
| "identity_write_error _ = ProviderUnavailable"

definition identityM :: "'a query \<Rightarrow> 'a flow" where
  "identityM m = handleM (stepM m) (\<lambda>e. throwM (identity_write_error e)) retM"

definition existing_identity :: "ValidatedEntraClaims \<Rightarrow> ExternalIdentity option flow" where
  "existing_identity claims =
     handleM (stepM (ExternalIdentityRepository_find_by_entra_object (vc_tenant_id claims) (vc_object_id claims)))
       (\<lambda>e. if e = NotFoundError then retM None else throwM ProviderUnavailable) (\<lambda>x. retM (Some x))"

definition provision_user :: "oidclib \<Rightarrow> EntraConfig \<Rightarrow> ValidatedEntraClaims \<Rightarrow> (User \<times> ExternalIdentity) flow" where
  "provision_user ol config claims =
     (if \<not> en_jit_provisioning config then throwM AccountNotAllowed
      else
        bindM (random_password_hash ol) (\<lambda>password.
        bindM utc_now (\<lambda>now.
        bindM (identityM (ExternalIdentityRepository_find_or_create_jit_user (ol_auth ol) (ol_jit_metadata ol)
                 \<lparr>us_username = jit_username claims, us_password = password\<rparr>
                 \<lparr>ei_user_id = 0, ei_provider = ''entra'', ei_issuer = en_issuer config,
                  ei_subject = Some (vc_subject claims), ei_tenant_id = vc_tenant_id claims,
                  ei_object_id = vc_object_id claims, ei_preferred_username = vc_preferred_username claims,
                  ei_display_name = vc_display_name claims, ei_email = vc_email claims,
                  ei_last_login_at = Some now\<rparr>)) (\<lambda>provisioned.
        retM (jp_user provisioned, jp_identity provisioned)))))"

definition linked_user ::
    "oidclib \<Rightarrow> EntraConfig \<Rightarrow> ValidatedEntraClaims \<Rightarrow> ExternalIdentity option \<Rightarrow> (User \<times> ExternalIdentity) flow" where
  "linked_user ol config claims existing =
     (case existing of
        Some identity \<Rightarrow>
          handleM (stepM (UserRepository_find (ei_user_id identity)))
            (\<lambda>e. throwM (if e = NotFoundError then AccountNotAllowed else ProviderUnavailable))
            (\<lambda>user. retM (user, identity))
      | None \<Rightarrow> provision_user ol config claims)"

definition record_login :: "EntraConfig \<Rightarrow> ValidatedEntraClaims \<Rightarrow> ExternalIdentity \<Rightarrow> ExternalIdentity flow" where
  "record_login config claims identity =
     bindM utc_now (\<lambda>now.
     identityM (ExternalIdentityRepository_update_login_profile (ei_id identity)
       \<lparr>lp_issuer = en_issuer config, lp_subject = vc_subject claims,
        lp_preferred_username = vc_preferred_username claims, lp_display_name = vc_display_name claims,
        lp_email = vc_email claims, lp_last_login_at = now\<rparr>))"

definition same_account :: "EntraConfig \<Rightarrow> ValidatedEntraClaims \<Rightarrow> ExternalIdentity \<Rightarrow> bool" where
  "same_account config claims identity \<longleftrightarrow> \<not> (ei_issuer identity \<noteq> en_issuer config
     \<or> (case ei_subject identity of Some x \<Rightarrow> x \<noteq> vc_subject claims | None \<Rightarrow> False))"

definition resolve_portal_user :: "oidclib \<Rightarrow> EntraConfig \<Rightarrow> ValidatedEntraClaims \<Rightarrow> User flow" where
  "resolve_portal_user ol config claims =
     bindM (existing_identity claims) (\<lambda>existing.
     bindM (linked_user ol config claims existing) (\<lambda>(user, identity).
     if \<not> same_account config claims identity then throwM AccountNotAllowed
     else bindM (record_login config claims identity) (\<lambda>_. retM user)))"

section \<open>Finishing a login\<close>

record EntraCallbackQuery =
  eq_code :: "string option"
  eq_state :: "string option"
  eq_error :: "string option"

text \<open>What the callback answers: the page it returns to, its outcome, the changes of the cookies, and the
  cache of keys.\<close>

record callback =
  cb_return_to :: string
  cb_result :: "EntraFlowError + unit"
  cb_cookies :: "cookie_change list"
  cb_cache :: JwksCacheState

definition checkout_flow :: "oidclib \<Rightarrow> unit flow" where
  "checkout_flow ol = bindM outside_call (\<lambda>n.
     if lw_pool (ol_world ol) n then retM () else throwM ProviderUnavailable)"

definition consume_transaction :: "oidclib \<Rightarrow> string \<Rightarrow> string \<Rightarrow> OidcLoginTransaction flow" where
  "consume_transaction ol state browser_binding =
     bindM (checkout_flow ol) (\<lambda>_.
     bindM utc_now (\<lambda>now.
     handleM (stepM (OidcLoginTransactionRepository_consume (au_sha256_hex (ol_auth ol) state)
                (au_sha256_hex (ol_auth ol) browser_binding) now))
       (\<lambda>e. throwM (if e = NotFoundError then InvalidState else ProviderUnavailable)) retM))"

text \<open>Up to the key the token names.\<close>

definition obtain_token ::
    "oidclib \<Rightarrow> EntraConfig \<Rightarrow> OidcLoginTransaction \<Rightarrow> string option \<Rightarrow> (string \<times> string) flow" where
  "obtain_token ol entra pending code =
     (case filter_option (\<lambda>c. c \<noteq> [] \<and> int (length c) \<le> 8 * 1024) code of
        None \<Rightarrow> throwM InvalidState
      | Some code \<Rightarrow>
          bindM (resultM (decrypt_transaction_secret ol (ot_pkce_verifier_ciphertext pending)
                   (ot_state_hash pending) (en_transaction_key entra))) (\<lambda>pkce_verifier.
          bindM (exchange_code ol entra code pkce_verifier) (\<lambda>id_token.
          case ol_header ol id_token of
            None \<Rightarrow> throwM AccountNotAllowed
          | Some (alg, kid) \<Rightarrow>
              if alg \<noteq> ''RS256'' then throwM AccountNotAllowed
              else (case filter_option (\<lambda>k. k \<noteq> [] \<and> length k \<le> 256) kid of
                      None \<Rightarrow> throwM AccountNotAllowed
                    | Some kid \<Rightarrow> retM (id_token, kid)))))"

definition accept_token ::
    "oidclib \<Rightarrow> AppConfig \<Rightarrow> EntraConfig \<Rightarrow> LoginClientContext \<Rightarrow> OidcLoginTransaction \<Rightarrow> string \<Rightarrow> string \<Rightarrow>
     cookie_change list flow" where
  "accept_token ol config entra client pending id_token key =
     bindM utc_now (\<lambda>decoded_at.
     bindM utc_now (\<lambda>now.
     bindM (resultM (decode_and_validate_id_token ol id_token key entra (ot_nonce pending) decoded_at now)) (\<lambda>claims.
     bindM (checkout_flow ol) (\<lambda>_.
     bindM (resolve_portal_user ol entra claims) (\<lambda>user.
     handleM (establish_session (ol_auth ol) config (us_id user) ''entra'' client)
       (\<lambda>_. throwM ProviderUnavailable) (\<lambda>(_, cookies). retM cookies))))))"

definition finish_flow ::
    "oidclib \<Rightarrow> AppConfig \<Rightarrow> LoginClientContext \<Rightarrow> EntraCallbackQuery \<Rightarrow> JwksCacheState \<Rightarrow> EntraConfig \<Rightarrow>
     OidcLoginTransaction \<Rightarrow> callback flow" where
  "finish_flow ol config client query cache entra pending =
     (let answer = (\<lambda>result cookies cache.
            \<lparr>cb_return_to = ot_return_to pending, cb_result = result,
             cb_cookies = clear_oidc_cookie config @ cookies, cb_cache = cache\<rparr>) in
      case eq_error query of
        Some provider_error \<Rightarrow>
          retM (answer (Inl (if provider_error = ''access_denied'' then AccessDenied else ProviderUnavailable)) [] cache)
      | None \<Rightarrow>
          handleM (obtain_token ol entra pending (eq_code query)) (\<lambda>e. retM (answer (Inl e) [] cache))
            (\<lambda>(id_token, kid).
          bindM (decoding_key ol entra kid cache) (\<lambda>(key, cache).
          case key of
            Inl e \<Rightarrow> retM (answer (Inl e) [] cache)
          | Inr key \<Rightarrow>
              handleM (accept_token ol config entra client pending id_token key)
                (\<lambda>e. retM (answer (Inl e) [] cache)) (\<lambda>cookies. retM (answer (Inr ()) cookies cache)))))"

text \<open>\<open>jar\<close> holds the cookies of the request.\<close>

definition finish_entra_login ::
    "oidclib \<Rightarrow> AppConfig \<Rightarrow> LoginClientContext \<Rightarrow> (string \<Rightarrow> string option) \<Rightarrow> EntraCallbackQuery \<Rightarrow>
     JwksCacheState \<Rightarrow> callback flow" where
  "finish_entra_login ol config client jar query cache =
     (let refuse = (\<lambda>e cookies. retM \<lparr>cb_return_to = ''/#dashboard'', cb_result = Inl e, cb_cookies = cookies,
            cb_cache = cache\<rparr>) in
      case ac_entra config of
        None \<Rightarrow> refuse Configuration (clear_oidc_cookie config)
      | Some entra \<Rightarrow>
          (case (filter_option (\<lambda>x. length x \<le> 256) (eq_state query),
                 filter_option (\<lambda>x. length x \<le> 256) (jar (oidc_cookie_name config))) of
             (Some state, Some browser_binding) \<Rightarrow>
               handleM (consume_transaction ol state browser_binding) (\<lambda>e. refuse e [])
                 (finish_flow ol config client query cache entra)
           | _ \<Rightarrow> refuse InvalidState []))"

definition callback_redirect :: "callback \<Rightarrow> string" where
  "callback_redirect c = callback_target (cb_return_to c) (cb_result c)"

section \<open>Response headers\<close>

definition set_header :: "string \<Rightarrow> string \<Rightarrow> (string \<times> string) list \<Rightarrow> (string \<times> string) list" where
  "set_header name value hs = filter (\<lambda>h. \<not> eq_ignore_ascii_case (fst h) name) hs @ [(name, value)]"

definition no_store_redirect_headers :: "(string \<times> string) list \<Rightarrow> (string \<times> string) list" where
  "no_store_redirect_headers hs = set_header ''Referrer-Policy'' ''no-referrer''
     (set_header ''Pragma'' ''no-cache'' (set_header ''Cache-Control'' ''no-store'' hs))"

definition no_store_auth_config_headers :: "(string \<times> string) list \<Rightarrow> (string \<times> string) list" where
  "no_store_auth_config_headers hs =
     set_header ''Pragma'' ''no-cache'' (set_header ''Cache-Control'' ''no-store'' hs)"

definition on_response :: "string \<Rightarrow> (string \<times> string) list \<Rightarrow> (string \<times> string) list" where
  "on_response path hs =
     (let entra_path = starts_with ''/auth/entra/'' path;
          connector_oauth_callback = (path \<in> set [''/oauth/microsoft/callback'', ''/connectors/oauth/microsoft/callback'']);
          hs = (if path = ''/auth/config'' \<or> entra_path \<or> connector_oauth_callback
            then set_header ''Expires'' ''0'' (set_header ''Pragma'' ''no-cache''
              (set_header ''Cache-Control'' ''no-store'' hs)) else hs)
      in if entra_path \<or> connector_oauth_callback then set_header ''Referrer-Policy'' ''no-referrer'' hs else hs)"

end
