(* ===== verification/Entra_Properties.thy ===== *)
theory Entra_Properties
  imports Entra Config_Properties Login_Guarantees
begin

text \<open>
  Signing in with Entra: what a sign-in that succeeds has proved about the browser and the token, where the
  callback may redirect to, which names provisioned accounts get, and how often an unknown key makes the
  portal ask the provider.
\<close>

section \<open>Redirects\<close>

definition safe_fragment :: "string \<Rightarrow> bool" where
  "safe_fragment f \<longleftrightarrow> f \<noteq> [] \<and> list_all (\<lambda>c. is_ascii_alphanumeric c \<or> c \<in> set fragment_specials) f"

lemma normalized: "\<exists>f. normalize_return_to r = ''/#'' @ f \<and> safe_fragment f"
proof -
  let ?c = "unwrap_or r ''/#dashboard''"
  have d: "safe_fragment ''dashboard''" by code_simp
  show ?thesis
  proof (cases "strip_prefix ''/#'' ?c")
    case None
    then show ?thesis using d by (auto simp: normalize_return_to_def Let_def)
  next
    case (Some f)
    then have "?c = ''/#'' @ f"
      by (auto simp: strip_prefix_def starts_with_prefix prefix_def split: if_splits)
    then show ?thesis using Some d
      by (auto simp: normalize_return_to_def Let_def safe_fragment_def unwrap_or_def)
  qed
qed


section \<open>Names of provisioned accounts\<close>

text \<open>The name of a provisioned account has at most 64 characters and ends with the object id of the
  account in Entra without its dashes: accounts with different object ids get different names.\<close>

theorem provisioned_names_are_bounded_and_distinct:
  assumes "length (filter (\<lambda>c. c \<noteq> CHR ''-'') (vc_object_id a)) = 32"
    and "length (filter (\<lambda>c. c \<noteq> CHR ''-'') (vc_object_id b)) = 32"
  shows "length (jit_username a) \<le> 64
    \<and> (jit_username a = jit_username b \<longrightarrow>
        filter (\<lambda>c. c \<noteq> CHR ''-'') (vc_object_id a) = filter (\<lambda>c. c \<noteq> CHR ''-'') (vc_object_id b))"
  using assms by (auto simp: jit_username_def Let_def)

section \<open>Signing keys\<close>

text \<open>While the cached keys are fresh, tokens with unknown keys make the portal ask the provider at most
  once per cooldown: within it the answer is a refusal that depends on no answer of the provider and
  leaves the cache as it is. A key that is cached is used without asking.\<close>

theorem unknown_keys_are_fetched_at_most_once_per_cooldown:
  assumes "within (jc_fetched_at cache) (ol_instant ol (tick s)) (seconds (i64_as_u64 (en_jwks_cache_seconds config)))"
    and "jc_document cache = Some document"
    and "within (jc_last_unknown_kid_refresh_at cache) (ol_instant ol (tick s)) (seconds UNKNOWN_KID_REFRESH_COOLDOWN_SECONDS)"
  shows "fst (decoding_key ol config kid cache env s) = Inr (case JwksDocument_key document kid of
      Inr key \<Rightarrow> decoding_key_from_jwk ol key | Inl _ \<Rightarrow> Inl AccountNotAllowed, cache)"
  using assms by (auto simp: decoding_key_def bindM_def outside_call_def retM_def Let_def split: sum.splits)

section \<open>Tokens\<close>

lemma deny_if_Inr_iff: "deny_if b = Inr u \<longleftrightarrow> \<not> b"
  by (simp add: deny_if_def)

definition proven_claims ::
    "oidclib \<Rightarrow> EntraConfig \<Rightarrow> string \<Rightarrow> EntraIdTokenClaims \<Rightarrow> ValidatedEntraClaims \<Rightarrow> bool" where
  "proven_claims ol config nonce raw claims \<longleftrightarrow>
     (\<exists>at key token. ol_decode ol at (id_token_validation config) key token = Some raw)
     \<and> ic_nonce raw = Some nonce \<and> vc_subject claims = ic_subject raw
     \<and> ul_uuid (ol_urls ol) (en_tenant_id config) = Some (vc_tenant_id claims)
     \<and> ul_uuid (ol_urls ol) (ic_tenant_id raw) = Some (vc_tenant_id claims)
     \<and> ul_uuid (ol_urls ol) (ic_object_id raw) = Some (vc_object_id claims)
     \<and> (\<forall>r. en_required_role config = Some r \<longrightarrow> r \<in> set (ic_roles raw))"

lemma canonical_Inr_iff: "canonical_uuid ol v = Inr u \<longleftrightarrow> ul_uuid (ol_urls ol) v = Some u"
  by (simp add: canonical_uuid_def split: option.splits)

lemma decoded_claims:
  assumes "decode_and_validate_id_token ol token key config nonce at now = Inr claims"
  shows "\<exists>raw. proven_claims ol config nonce raw claims"
proof -
  obtain raw where raw: "ol_decode ol at (id_token_validation config) key token = Some raw"
    using assms by (auto simp: decode_and_validate_id_token_def split: option.splits)
  obtain i where i: "ic_issued_at raw = Some i"
    using assms by (auto simp: decode_and_validate_id_token_def raw bindS_Inr_iff split: option.splits)
  have ex: "\<exists>at key token. ol_decode ol at (id_token_validation config) key token = Some raw" using raw by blast
  have "proven_claims ol config nonce raw claims"
    using assms unfolding decode_and_validate_id_token_def raw i option.case bindS_Inr_iff
      deny_if_Inr_iff canonical_Inr_iff
    by (auto simp: proven_claims_def ex split: option.splits)
  then show ?thesis ..
qed

section \<open>The user of a token\<close>

definition linked :: "tables \<Rightarrow> EntraConfig \<Rightarrow> ValidatedEntraClaims \<Rightarrow> i32 \<Rightarrow> bool" where
  "linked t config claims u \<longleftrightarrow> list_ex (\<lambda>x. ei_provider x = ''entra'' \<and> ei_tenant_id x = vc_tenant_id claims
     \<and> ei_object_id x = vc_object_id claims \<and> ei_issuer x = en_issuer config
     \<and> ei_subject x = Some (vc_subject claims) \<and> ei_user_id x = u) (rows (external_identities t))"

lemma identityM_Inr:
  assumes "undisturbed env" and "identityM m env s = (Inr x, s')"
  obtains s1 where "m env s = (Inr x, s1)" and "tabs s' = tabs s1"
  using assms(2) unfolding identityM_def handleM_Inr_iff by (auto elim: stepM_undisturbed [OF assms(1)])

text \<open>An identity row of the claims, with the user it belongs to.\<close>

definition identity_of :: "tables \<Rightarrow> ValidatedEntraClaims \<Rightarrow> User \<Rightarrow> ExternalIdentity \<Rightarrow> bool" where
  "identity_of t claims user x \<longleftrightarrow> x \<in> set (rows (external_identities t)) \<and> ei_provider x = ''entra''
     \<and> ei_tenant_id x = vc_tenant_id claims \<and> ei_object_id x = vc_object_id claims \<and> ei_user_id x = us_id user"

lemma existing_identity_Inr:
  assumes "undisturbed env" and "existing_identity claims env s = (Inr x, s')"
  shows "tabs s' = tabs s \<and> (\<forall>y. x = Some y \<longrightarrow> y \<in> set (rows (external_identities (tabs s))) \<and> ei_provider y = ''entra''
      \<and> ei_tenant_id y = vc_tenant_id claims \<and> ei_object_id y = vc_object_id claims)"
proof -
  have k: "keeps env (\<lambda>t. t = tabs s) (existing_identity claims)"
    unfolding existing_identity_def ExternalIdentityRepository_find_by_entra_object_def
    by (intro keeps_rule assms(1))
  have "tabs s' = tabs s" by (rule keepsD [OF k refl assms(2)])
  moreover have "y \<in> set (rows (external_identities (tabs s))) \<and> ei_provider y = ''entra''
      \<and> ei_tenant_id y = vc_tenant_id claims \<and> ei_object_id y = vc_object_id claims" if x: "x = Some y" for y
  proof -
    obtain s1 where "stepM (ExternalIdentityRepository_find_by_entra_object (vc_tenant_id claims) (vc_object_id claims)) env s
        = (Inr y, s1)"
      using assms(2) unfolding x existing_identity_def handleM_Inr_iff by (auto split: if_splits)
    then obtain s2 where "ExternalIdentityRepository_find_by_entra_object (vc_tenant_id claims) (vc_object_id claims) env s
        = (Inr y, s2)" by (rule stepM_undisturbed [OF assms(1)])
    then show ?thesis
      unfolding ExternalIdentityRepository_find_by_entra_object_def
      by (auto dest!: find_keyed_Inr first_row_Some)
  qed
  ultimately show ?thesis by blast
qed

lemma provision_user_Inr:
  assumes "undisturbed env" and "\<forall>k. env_fault env k \<noteq> Some NotFoundError"
    and "provision_user ol config claims env s = (Inr (user, x), s')"
  shows "identity_of (tabs s') claims user x"
proof -
  obtain password now p s0 where
    jit: "identityM (ExternalIdentityRepository_find_or_create_jit_user (ol_auth ol) (ol_jit_metadata ol)
       \<lparr>us_username = jit_username claims, us_password = password\<rparr>
       \<lparr>ei_user_id = 0, ei_provider = ''entra'', ei_issuer = en_issuer config,
        ei_subject = Some (vc_subject claims), ei_tenant_id = vc_tenant_id claims,
        ei_object_id = vc_object_id claims, ei_preferred_username = vc_preferred_username claims,
        ei_display_name = vc_display_name claims, ei_email = vc_email claims,
        ei_last_login_at = Some now\<rparr>) env s0 = (Inr p, s')"
    and p: "user = jp_user p" "x = jp_identity p"
    using assms(3) unfolding provision_user_def by (auto simp: bindM_Inr_iff split: if_splits)
  obtain s1 where run: "ExternalIdentityRepository_find_or_create_jit_user (ol_auth ol) (ol_jit_metadata ol)
       \<lparr>us_username = jit_username claims, us_password = password\<rparr>
       \<lparr>ei_user_id = 0, ei_provider = ''entra'', ei_issuer = en_issuer config,
        ei_subject = Some (vc_subject claims), ei_tenant_id = vc_tenant_id claims,
        ei_object_id = vc_object_id claims, ei_preferred_username = vc_preferred_username claims,
        ei_display_name = vc_display_name claims, ei_email = vc_email claims,
        ei_last_login_at = Some now\<rparr> env s0 = (Inr p, s1)" and t: "tabs s' = tabs s1"
    by (rule identityM_Inr [OF assms(1) jit])
  from run assms(2) show ?thesis
  proof (cases rule: jit_Inr)
    case (created a b)
    then show ?thesis using provision_Inr [OF created(4)] t p by (simp add: identity_of_def)
  next
    case existing
    then show ?thesis using t p by (auto simp: identity_of_def dest!: first_row_Some)
  qed
qed

lemma linked_user_Inr:
  assumes "undisturbed env" and "\<forall>k. env_fault env k \<noteq> Some NotFoundError"
    and "existing_identity claims env s = (Inr e, s1)"
    and "linked_user ol config claims e env s1 = (Inr (user, x), s')"
  shows "identity_of (tabs s') claims user x"
proof (cases e)
  case None
  then show ?thesis using provision_user_Inr [OF assms(1,2)] assms(4) by (simp add: linked_user_def)
next
  case (Some i)
  then have f: "stepM (UserRepository_find (ei_user_id i)) env s1 = (Inr user, s')" and x: "x = i"
    using assms(4) by (auto simp: linked_user_def handleM_Inr_iff)
  obtain s4 where "UserRepository_find (ei_user_id x) env s1 = (Inr user, s4)" and "tabs s' = tabs s4"
    unfolding x by (rule stepM_undisturbed [OF assms(1) f])
  then show ?thesis
    using existing_identity_Inr [OF assms(1,3)] Some x unfolding UserRepository_find_def identity_of_def
    by (auto dest!: find_keyed_Inr first_row_Some)
qed

lemma record_login_Inr:
  assumes "undisturbed env" and "record_login config claims x env s = (Inr y, s')"
    and "same_account config claims x" and "identity_of (tabs s) claims user x"
  shows "linked (tabs s') config claims (us_id user)"
proof -
  let ?p = "\<lambda>now. \<lparr>lp_issuer = en_issuer config, lp_subject = vc_subject claims,
     lp_preferred_username = vc_preferred_username claims, lp_display_name = vc_display_name claims,
     lp_email = vc_email claims, lp_last_login_at = now\<rparr>"
  obtain now where im: "identityM (ExternalIdentityRepository_update_login_profile (ei_id x) (?p now)) env
      (s\<lparr>tick := Suc (tick s)\<rparr>) = (Inr y, s')"
    using assms(2) unfolding record_login_def bindM_Inr_iff by auto
  obtain s1 where run: "ExternalIdentityRepository_update_login_profile (ei_id x) (?p now) env
      (s\<lparr>tick := Suc (tick s)\<rparr>) = (Inr y, s1)" and t: "tabs s' = tabs s1"
    by (rule identityM_Inr [OF assms(1) im])
  then obtain n rs s2 where upd: "update_stmt external_identities external_identities_update identity_violation
      (profile_matches (ei_id x) (?p now))
      (\<lambda>x. x\<lparr>ei_subject := Some (lp_subject (?p now)), ei_preferred_username := lp_preferred_username (?p now),
             ei_display_name := lp_display_name (?p now), ei_email := lp_email (?p now),
             ei_last_login_at := Some (lp_last_login_at (?p now)), ei_updated_at := n\<rparr>) env s2 = (Inr rs, s1)"
    and s2: "tabs s2 = tabs s"
    unfolding ExternalIdentityRepository_update_login_profile_def bindM_Inr_iff
    by (auto simp: expect_row_def split: option.splits)
  have "profile_matches (ei_id x) (?p now) x"
    using assms(3) by (auto simp: profile_matches_def same_account_def split: option.splits)
  then have mem: "x\<lparr>ei_subject := Some (vc_subject claims), ei_preferred_username := vc_preferred_username claims,
      ei_display_name := vc_display_name claims, ei_email := vc_email claims, ei_last_login_at := Some now,
      ei_updated_at := n\<rparr> \<in> set (rows (external_identities (tabs s')))"
    using assms(4) update_stmt_Inr [OF upd] s2 t
    by (auto simp: identity_of_def update_rows_def image_iff intro!: bexI [of _ x])
  show ?thesis
    unfolding linked_def list_ex_iff by (rule bexI [OF _ mem]) (use assms(3,4) in \<open>simp add: identity_of_def same_account_def\<close>)
qed

lemma resolved_user:
  assumes "undisturbed env" and "\<forall>k. env_fault env k \<noteq> Some NotFoundError"
    and "resolve_portal_user ol config claims env s = (Inr user, s')"
  shows "linked (tabs s') config claims (us_id user)"
proof -
  obtain e s1 x s2 y where ex: "existing_identity claims env s = (Inr e, s1)"
    and lu: "linked_user ol config claims e env s1 = (Inr (user, x), s2)"
    and sa: "same_account config claims x" and rl: "record_login config claims x env s2 = (Inr y, s')"
    using assms(3) unfolding resolve_portal_user_def bindM_Inr_iff
    by (auto simp: bindM_Inr_iff split: if_splits)
  show ?thesis by (rule record_login_Inr [OF assms(1) rl sa linked_user_Inr [OF assms(1,2) ex lu]])
qed

section \<open>The callback\<close>

text \<open>Nothing but the callback itself touches the pending logins, and only the last step the sessions.\<close>

definition login_free :: "(tables \<Rightarrow> bool) \<Rightarrow> bool" where
  "login_free I \<longleftrightarrow> (\<forall>t f. I t \<longrightarrow> I (users_update f t)) \<and> (\<forall>t f. I t \<longrightarrow> I (roles_update f t))
     \<and> (\<forall>t f. I t \<longrightarrow> I (users_roles_update f t)) \<and> (\<forall>t f. I t \<longrightarrow> I (external_identities_update f t))
     \<and> (\<forall>t f. I t \<longrightarrow> I (audit_logs_update f t))"

lemma keeps_jit:
  assumes "login_free I"
  shows "keeps env I (ExternalIdentityRepository_find_or_create_jit_user au meta n x)"
  using assms
  unfolding provision_unfold provision_def insert_user_def insert_user_role_def RoleRepository_find_by_code_def
    AuditLogRepository_create_def advisory_lock_def ExternalIdentityRepository_find_by_entra_object_def
    UserRepository_find_def login_free_def
  by (intro keeps_rule keeps_insert_stmt keeps_upsert_stmt) blast+

lemma keeps_resolve:
  assumes "undisturbed env" and "login_free I"
  shows "keeps env I (resolve_portal_user ol config claims)"
proof -
  have "keeps env I (record_login config claims x)" for x
    using assms(2) unfolding record_login_def identityM_def ExternalIdentityRepository_update_login_profile_def comp_def
    by (intro keeps_rule keeps_update_stmt assms(1)) (auto simp: login_free_def)
  moreover have "keeps env I (linked_user ol config claims e)" for e
    unfolding linked_user_def provision_user_def random_password_hash_def random_urlsafe_def identityM_def
      UserRepository_find_def
    by (intro keeps_rule keeps_jit assms)
  ultimately show ?thesis
    unfolding resolve_portal_user_def existing_identity_def ExternalIdentityRepository_find_by_entra_object_def
    by (intro keeps_rule assms(1)) auto
qed

lemma keeps_before_user:
  assumes "undisturbed env"
  shows "keeps env I (obtain_token ol entra x code)" "keeps env I (decoding_key ol entra kid cache)"
    "keeps env I (checkout_flow ol)"
  unfolding obtain_token_def exchange_code_def decoding_key_def refresh_key_def fetch_jwks_def require_success_def
    checkout_flow_def Let_def
  by (intro keeps_rule assms)+

lemma accept_token_Inr:
  assumes "undisturbed env" and "\<forall>k. env_fault env k \<noteq> Some NotFoundError"
    and "accept_token ol config entra client x token key env s = (Inr cookies, s')"
  shows "\<exists>raw claims u. proven_claims ol entra (ot_nonce x) raw claims \<and> linked (tabs s') entra claims u
    \<and> list_ex (\<lambda>y. se_user_id y = u \<and> se_auth_method y = ''entra'') (rows (sessions (tabs s')))"
    and "oidc_login_transactions (tabs s') = oidc_login_transactions (tabs s)"
proof -
  let ?I = "\<lambda>t. oidc_login_transactions t = oidc_login_transactions (tabs s)"
  obtain at now claims s1 user s2 st ex where
    dec: "decode_and_validate_id_token ol token key entra (ot_nonce x) at now = Inr claims"
    and co: "checkout_flow ol env (s\<lparr>tick := Suc (Suc (tick s))\<rparr>) = (Inr (), s1)"
    and res: "resolve_portal_user ol entra claims env s1 = (Inr user, s2)"
    and est: "establish_session (ol_auth ol) config (us_id user) ''entra'' client env s2 = (Inr ((st, ex), cookies), s')"
    using assms(3) unfolding accept_token_def bindM_Inr_iff
    by (auto simp: handleM_Inr_iff resultM_def split: sum.splits)
  obtain c s3 s4 y where cr: "SessionRepository_create (ol_auth ol) c env s3 = (Inr y, s4)" and t: "tabs s3 = tabs s2" "tabs s' = tabs s4"
    and c: "cs_user_id c = us_id user" "cs_auth_method c = ''entra''"
    by (rule establish_Inr [OF est assms(1)])
  obtain n k where y: "y = NewSession.extend (new_session (ol_auth ol) c n) (Session.fields (seq (sessions (tabs s3))) k)"
    and rows: "y \<in> set (rows (sessions (tabs s4)))" and rest: "tabs s4 = (tabs s3)\<lparr>sessions := sessions (tabs s4)\<rparr>"
    by (rule session_create_result [OF cr]) auto
  have "se_user_id y = us_id user" "se_auth_method y = ''entra''"
    using c by (simp_all add: y new_session_def NewSession.extend_def)
  then have session: "list_ex (\<lambda>y. se_user_id y = us_id user \<and> se_auth_method y = ''entra'') (rows (sessions (tabs s')))"
    using rows t by (auto simp: list_ex_iff)
  have same: "external_identities (tabs s') = external_identities (tabs s2)"
    "oidc_login_transactions (tabs s') = oidc_login_transactions (tabs s2)"
    using t by (subst t(2), subst rest, simp)+
  have "linked (tabs s') entra claims (us_id user)"
    using resolved_user [OF assms(1,2) res] same(1) by (simp add: linked_def)
  with decoded_claims [OF dec] session
  show "\<exists>raw claims u. proven_claims ol entra (ot_nonce x) raw claims \<and> linked (tabs s') entra claims u
    \<and> list_ex (\<lambda>y. se_user_id y = u \<and> se_auth_method y = ''entra'') (rows (sessions (tabs s')))" by blast
  have "?I (tabs s1)" using keepsD [OF keeps_before_user(3) [OF assms(1), of ?I] _ co] by simp
  then have "?I (tabs s2)" using keepsD [OF keeps_resolve [OF assms(1), of ?I] _ res] by (simp add: login_free_def)
  then show "?I (tabs s')" using same(2) by simp
qed

lemma consumed_Inr:
  assumes "undisturbed env" and "consume_transaction ol state binding env s = (Inr x, s')"
  shows "x \<in> set (rows (oidc_login_transactions (tabs s))) \<and> ot_state_hash x = au_sha256_hex (ol_auth ol) state
    \<and> ot_browser_binding_hash x = au_sha256_hex (ol_auth ol) binding
    \<and> x \<notin> set (rows (oidc_login_transactions (tabs s')))"
proof -
  obtain s1 s2 where co: "checkout_flow ol env s = (Inr (), s1)" and
    st: "stepM (OidcLoginTransactionRepository_consume (au_sha256_hex (ol_auth ol) state)
      (au_sha256_hex (ol_auth ol) binding) (env_clock env (tick s1))) env (s1\<lparr>tick := Suc (tick s1)\<rparr>) = (Inr x, s2)"
    and s2: "s2 = s'"
    using assms(2) unfolding consume_transaction_def bindM_Inr_iff by (auto simp: handleM_Inr_iff)
  have "tabs s1 = tabs s" using keepsD [OF keeps_before_user(3) [OF assms(1), of "\<lambda>t. t = tabs s"] refl co] .
  moreover obtain s3 where run: "OidcLoginTransactionRepository_consume (au_sha256_hex (ol_auth ol) state)
      (au_sha256_hex (ol_auth ol) binding) (env_clock env (tick s1)) env (s1\<lparr>tick := Suc (tick s1)\<rparr>) = (Inr x, s3)"
    and "tabs s2 = tabs s3" by (rule stepM_undisturbed [OF assms(1) st])
  ultimately show ?thesis
    using consume_result(1) [OF run refl] s2 by (auto simp: consumable_def delete_rows_def)
qed

lemma finish_flow_Inr:
  assumes "finish_flow ol config client query cache entra x env s = (Inr out, s')" and "cb_result out = Inr ()"
  obtains token kid s2 key cache' s3 cookies where
    "obtain_token ol entra x (eq_code query) env s = (Inr (token, kid), s2)"
    and "decoding_key ol entra kid cache env s2 = (Inr (Inr key, cache'), s3)"
    and "accept_token ol config entra client x token key env s3 = (Inr cookies, s')"
proof -
  obtain token kid s2 where tok: "obtain_token ol entra x (eq_code query) env s = (Inr (token, kid), s2)"
    and rest: "bindM (decoding_key ol entra kid cache) (\<lambda>(key, cache). case key of
        Inl e \<Rightarrow> retM \<lparr>cb_return_to = ot_return_to x, cb_result = Inl e,
          cb_cookies = clear_oidc_cookie config @ [], cb_cache = cache\<rparr>
      | Inr key \<Rightarrow> handleM (accept_token ol config entra client x token key)
          (\<lambda>e. retM \<lparr>cb_return_to = ot_return_to x, cb_result = Inl e,
             cb_cookies = clear_oidc_cookie config @ [], cb_cache = cache\<rparr>)
          (\<lambda>cookies. retM \<lparr>cb_return_to = ot_return_to x, cb_result = Inr (),
             cb_cookies = clear_oidc_cookie config @ cookies, cb_cache = cache\<rparr>)) env s2 = (Inr out, s')"
    using assms unfolding finish_flow_def Let_def by (auto simp: handleM_Inr_iff split: option.splits)
  obtain r cache' s3 where dk: "decoding_key ol entra kid cache env s2 = (Inr (r, cache'), s3)"
    and c: "(case r of
        Inl e \<Rightarrow> retM \<lparr>cb_return_to = ot_return_to x, cb_result = Inl e,
          cb_cookies = clear_oidc_cookie config @ [], cb_cache = cache'\<rparr>
      | Inr key \<Rightarrow> handleM (accept_token ol config entra client x token key)
          (\<lambda>e. retM \<lparr>cb_return_to = ot_return_to x, cb_result = Inl e,
             cb_cookies = clear_oidc_cookie config @ [], cb_cache = cache'\<rparr>)
          (\<lambda>cookies. retM \<lparr>cb_return_to = ot_return_to x, cb_result = Inr (),
             cb_cookies = clear_oidc_cookie config @ cookies, cb_cache = cache'\<rparr>)) env s3 = (Inr out :: EntraFlowError + callback, s')"
    using rest unfolding bindM_Inr_iff by auto
  show thesis
  proof (cases r)
    case (Inl e)
    then show ?thesis using c assms(2) by auto
  next
    case (Inr key)
    then obtain cookies where "accept_token ol config entra client x token key env s3 = (Inr cookies, s')"
      using c assms(2) by (auto simp: handleM_Inr_iff)
    then show ?thesis using that tok dk Inr by blast
  qed
qed

text \<open>C12: A sign-in with Entra succeeds only for the browser and the login that started it: the state of the
  request and the cookie of the browser match a pending login, which is used up. The token was decoded
  for this client and issuer, carries the nonce of that login, belongs to the configured tenant and has
  the required role; and the session that was created belongs to the user who is linked to the account
  of the token, by tenant, object id, issuer and subject.\<close>

theorem entra_sign_in_needs_a_bound_and_valid_token:
  assumes "undisturbed env" and "\<forall>k. env_fault env k \<noteq> Some NotFoundError"
    and "finish_entra_login ol config client jar query cache env s = (Inr out, s')" and "cb_result out = Inr ()"
  shows "\<exists>entra state binding x raw claims u. ac_entra config = Some entra
    \<and> eq_state query = Some state \<and> jar (oidc_cookie_name config) = Some binding
    \<and> x \<in> set (rows (oidc_login_transactions (tabs s))) \<and> x \<notin> set (rows (oidc_login_transactions (tabs s')))
    \<and> ot_state_hash x = au_sha256_hex (ol_auth ol) state
    \<and> ot_browser_binding_hash x = au_sha256_hex (ol_auth ol) binding
    \<and> proven_claims ol entra (ot_nonce x) raw claims \<and> linked (tabs s') entra claims u
    \<and> list_ex (\<lambda>y. se_user_id y = u \<and> se_auth_method y = ''entra'') (rows (sessions (tabs s')))"
proof -
  obtain entra state binding x s1 where e: "ac_entra config = Some entra" and q: "eq_state query = Some state"
    "jar (oidc_cookie_name config) = Some binding" and con: "consume_transaction ol state binding env s = (Inr x, s1)"
    and fin: "finish_flow ol config client query cache entra x env s1 = (Inr out, s')"
    using assms(3,4) unfolding finish_entra_login_def Let_def
    by (auto simp: handleM_Inr_iff filter_option_Some_iff split: option.splits)
  obtain token kid s2 key cache' s3 cookies where
    tok: "obtain_token ol entra x (eq_code query) env s1 = (Inr (token, kid), s2)"
    and dk: "decoding_key ol entra kid cache env s2 = (Inr (Inr key, cache'), s3)"
    and acc: "accept_token ol config entra client x token key env s3 = (Inr cookies, s')"
    using finish_flow_Inr [OF fin assms(4)] .
  let ?I = "\<lambda>t. oidc_login_transactions t = oidc_login_transactions (tabs s1)"
  have "?I (tabs s2)" using keepsD [OF keeps_before_user(1) [OF assms(1), of ?I] refl tok] .
  then have "?I (tabs s3)" by (rule keepsD [OF keeps_before_user(2) [OF assms(1), of ?I] _ dk])
  then have "?I (tabs s')" using accept_token_Inr(2) [OF assms(1,2) acc] by simp
  then show ?thesis
    using consumed_Inr [OF assms(1) con] accept_token_Inr(1) [OF assms(1,2) acc] e q by (metis (no_types, lifting))
qed

end
