(* ===== verification/Dashboard.thy ===== *)
theory Dashboard
  imports Work Connector_Routes Login
begin

text \<open>
  \<^verbatim>\<open>src/src/rocket_routes/dashboard.rs\<close> and the overview of \<^verbatim>\<open>authorization.rs\<close>: the counters, lists and
  priority items a user sees first. Every list is read by a query with the access scope of the user or
  with the teams of the user. The text of a time inside a message is printed by \<^verbatim>\<open>chrono\<close>: the argument
  \<open>shown\<close>.
\<close>

definition hours :: "i64 \<Rightarrow> utc" where
  "hours n = n * 3600000000"

definition HEALTH_HISTORY_WINDOW_HOURS :: i64 where
  "HEALTH_HISTORY_WINDOW_HOURS = 24"

definition SERVICE_HEALTH_STALE_AFTER_HOURS :: i64 where
  "SERVICE_HEALTH_STALE_AFTER_HOURS = 2"

record DashboardSummary =
  ds_total_services :: nat
  ds_healthy_services :: nat
  ds_degraded_services :: nat
  ds_down_services :: nat
  ds_active_packages :: nat
  ds_open_work_cards :: nat
  ds_unread_notifications :: nat

record DashboardScope =
  dc_maintainer_id :: "i32 option"
  dc_source :: "string option"

record ServiceHealthHistorySummary =
  hs_window_hours :: i64
  hs_checks :: nat
  hs_healthy_checks :: nat
  hs_degraded_checks :: nat
  hs_down_checks :: nat
  hs_unknown_checks :: nat
  hs_changed_checks :: nat

record ServiceHealthHistory =
  hh_summary :: ServiceHealthHistorySummary
  hh_recent_checks :: "ServiceHealthCheck list"
  hh_recent_incidents :: "ServiceHealthCheck list"

record DashboardPriorityItem =
  pi_key :: string
  pi_kind :: string
  pi_severity :: string
  pi_rank :: i32
  pi_title :: string
  pi_detail :: string
  pi_source :: "string option"
  pi_target :: "string option"
  pi_record_id :: "i32 option"
  pi_service_id :: "i32 option"
  pi_url :: "string option"
  pi_occurred_at :: "utc option"

record DashboardPriorityContext =
  px_worker_status :: "string option"
  px_active_workers :: nat
  px_stale_workers :: nat
  px_latest_worker_seen_at :: "utc option"
  px_worker_stale_after_seconds :: i64
  px_health_data_stale :: bool
  px_latest_health_check_at :: "utc option"
  px_health_stale_after_hours :: i64

record DashboardResponse =
  dr_scope :: DashboardScope
  dr_summary :: DashboardSummary
  dr_priority_items :: "DashboardPriorityItem list"
  dr_health_history :: ServiceHealthHistory
  dr_service_health :: "Service list"
  dr_calendar_events :: "CalendarEvent list"
  dr_work_cards :: "WorkCard list"
  dr_notifications :: "NotificationView list"
  dr_recent_packages :: "Package list"

section \<open>Priority items\<close>

definition worker_item :: "(utc \<Rightarrow> string) \<Rightarrow> DashboardPriorityContext \<Rightarrow> DashboardPriorityItem list" where
  "worker_item shown ctx =
     (case px_worker_status ctx of
        None \<Rightarrow> []
      | Some status \<Rightarrow>
          if status = ''healthy'' then []
          else
            (let title = if status = ''missing'' then ''Connector worker heartbeat is missing''
                         else ''Connector worker heartbeat is stale'';
                 detail = (case px_latest_worker_seen_at ctx of
                     Some seen_at \<Rightarrow> ''Last seen at '' @ shown seen_at @ ''; ''
                       @ show_int (int (px_stale_workers ctx)) @ '' stale worker(s), ''
                       @ show_int (int (px_active_workers ctx)) @ '' active''
                   | None \<Rightarrow> ''No connector worker has checked in'')
             in [\<lparr>pi_key = ''operations-worker'', pi_kind = ''worker'', pi_severity = status, pi_rank = 5,
                  pi_title = title,
                  pi_detail = detail @ ''; stale after '' @ show_int (px_worker_stale_after_seconds ctx) @ ''s'',
                  pi_source = None, pi_target = None, pi_record_id = None, pi_service_id = None, pi_url = None,
                  pi_occurred_at = px_latest_worker_seen_at ctx\<rparr>]))"

definition health_data_item :: "(utc \<Rightarrow> string) \<Rightarrow> DashboardPriorityContext \<Rightarrow> DashboardPriorityItem list" where
  "health_data_item shown ctx =
     (if px_health_data_stale ctx then
        [\<lparr>pi_key = ''operations-health-data'', pi_kind = ''health_data'', pi_severity = ''stale'', pi_rank = 6,
          pi_title = ''Service health data is stale'',
          pi_detail = (case px_latest_health_check_at ctx of
              Some checked_at \<Rightarrow> ''Latest health check was '' @ shown checked_at @ ''; stale after ''
                @ show_int (px_health_stale_after_hours ctx) @ ''h''
            | None \<Rightarrow> ''No service health checks are available''),
          pi_source = None, pi_target = Some ''service_health'', pi_record_id = None, pi_service_id = None,
          pi_url = None, pi_occurred_at = px_latest_health_check_at ctx\<rparr>]
      else [])"

definition unhealthy :: "Service \<Rightarrow> bool" where
  "unhealthy service \<longleftrightarrow> sv_health_status service \<in> set [''down'', ''degraded'']"

definition service_item :: "Service \<Rightarrow> DashboardPriorityItem" where
  "service_item service =
     \<lparr>pi_key = ''service-'' @ show_int (sv_id service), pi_kind = ''service'',
      pi_severity = sv_health_status service,
      pi_rank = (if sv_health_status service = ''down'' then 10 else 20), pi_title = sv_name service,
      pi_detail = sv_health_status service @ '' service from '' @ sv_source service,
      pi_source = Some (sv_source service), pi_target = Some ''service_health'',
      pi_record_id = Some (sv_id service), pi_service_id = Some (sv_id service),
      pi_url = or_else (sv_dashboard_url service) (sv_runbook_url service),
      pi_occurred_at = or_else (sv_last_checked_at service) (Some (sv_updated_at service))\<rparr>"

definition pressing_card :: "WorkCard \<Rightarrow> bool" where
  "pressing_card c \<longleftrightarrow> wc_status c = ''blocked''
     \<or> (wc_priority c = ''urgent'' \<and> wc_status c \<noteq> ''done'')"

definition work_card_item :: "WorkCard \<Rightarrow> DashboardPriorityItem" where
  "work_card_item c =
     \<lparr>pi_key = ''work-card-'' @ show_int (wc_id c), pi_kind = ''work_card'',
      pi_severity = (if wc_status c = ''blocked'' then ''blocked'' else ''urgent''),
      pi_rank = (if wc_status c = ''blocked'' then 30 else 40), pi_title = wc_title c,
      pi_detail = join_str '' - '' (List.map_filter id
        [Some (wc_priority c), wc_assignee c, Some (wc_source c)]),
      pi_source = Some (wc_source c), pi_target = Some ''work_cards'', pi_record_id = Some (wc_id c),
      pi_service_id = None, pi_url = wc_url c, pi_occurred_at = Some (wc_updated_at c)\<rparr>"

definition notification_item :: "NotificationView \<Rightarrow> DashboardPriorityItem" where
  "notification_item n =
     \<lparr>pi_key = ''notification-'' @ show_int (nt_id n), pi_kind = ''notification'',
      pi_severity = nt_severity n, pi_rank = 50, pi_title = nt_title n,
      pi_detail = (case nt_body n of Some b \<Rightarrow> b | None \<Rightarrow> nt_source n),
      pi_source = Some (nt_source n), pi_target = Some ''notifications'', pi_record_id = Some (nt_id n),
      pi_service_id = None, pi_url = nt_url n, pi_occurred_at = Some (nt_updated_at n)\<rparr>"

definition run_item :: "ConnectorRun \<Rightarrow> DashboardPriorityItem" where
  "run_item run =
     \<lparr>pi_key = ''connector-run-'' @ show_int (cr_id run), pi_kind = ''connector_run'',
      pi_severity = cr_status run, pi_rank = (if cr_status run = ''failed'' then 60 else 65),
      pi_title = cr_source run @ '' / '' @ cr_target run,
      pi_detail = (case cr_error_message run of Some m \<Rightarrow> m
        | None \<Rightarrow> show_int (cr_failure_count run) @ '' failed item(s)''),
      pi_source = Some (cr_source run), pi_target = Some (cr_target run), pi_record_id = Some (cr_id run),
      pi_service_id = None, pi_url = None,
      pi_occurred_at = or_else (cr_finished_at run) (Some (cr_started_at run))\<rparr>"

definition priority_candidates ::
    "(utc \<Rightarrow> string) \<Rightarrow> Service list \<Rightarrow> WorkCard list \<Rightarrow> NotificationView list \<Rightarrow> ConnectorRun list \<Rightarrow>
     DashboardPriorityContext \<Rightarrow> DashboardPriorityItem list" where
  "priority_candidates shown svcs cards inbox failed ctx =
     worker_item shown ctx @ health_data_item shown ctx
     @ map service_item (filter unhealthy svcs)
     @ map work_card_item (filter pressing_card cards)
     @ map notification_item (filter (\<lambda>n. nt_severity n = ''critical'') inbox)
     @ map run_item failed"

text \<open>Rank first, then the latest, then the title.\<close>

definition priority_key :: "DashboardPriorityItem \<Rightarrow> int \<times> (int \<times> int) \<times> string" where
  "priority_key item = (pi_rank item, desc_nulls_last (pi_occurred_at item), pi_title item)"

definition build_dashboard_priority_items ::
    "(utc \<Rightarrow> string) \<Rightarrow> Service list \<Rightarrow> WorkCard list \<Rightarrow> NotificationView list \<Rightarrow> ConnectorRun list \<Rightarrow>
     DashboardPriorityContext \<Rightarrow> DashboardPriorityItem list" where
  "build_dashboard_priority_items shown svcs cards inbox failed ctx =
     take 12 (sort_key priority_key (priority_candidates shown svcs cards inbox failed ctx))"

section \<open>Workers and health checks\<close>

definition latest_of :: "utc list \<Rightarrow> utc option" where
  "latest_of xs = (case xs of [] \<Rightarrow> None | x # ys \<Rightarrow> Some (fold max ys x))"

definition summarize_workers ::
    "ConnectorWorker list \<Rightarrow> utc \<Rightarrow> i64 \<Rightarrow> string \<times> nat \<times> nat \<times> utc option" where
  "summarize_workers workers now stale_after_seconds =
     (let latest_worker_seen_at = latest_of (map cw_last_seen_at workers);
          active_workers = count_rows (\<lambda>w. num_seconds (now - cw_last_seen_at w) \<le> stale_after_seconds) workers;
          stale_workers = length workers - active_workers;
          worker_status = (if active_workers > 0 then ''healthy'' else if workers = [] then ''missing''
            else ''stale'')
      in (worker_status, active_workers, stale_workers, latest_worker_seen_at))"

definition count_checks :: "ServiceHealthCheck list \<Rightarrow> string \<Rightarrow> nat" where
  "count_checks cs status = count_rows (\<lambda>c. hc_health_status c = status) cs"

definition build_service_health_history :: "ServiceHealthCheck list \<Rightarrow> i64 \<Rightarrow> ServiceHealthHistory" where
  "build_service_health_history recent_checks window_hours =
     \<lparr>hh_summary = \<lparr>hs_window_hours = window_hours, hs_checks = length recent_checks,
        hs_healthy_checks = count_checks recent_checks ''healthy'',
        hs_degraded_checks = count_checks recent_checks ''degraded'',
        hs_down_checks = count_checks recent_checks ''down'',
        hs_unknown_checks = count_checks recent_checks ''unknown'',
        hs_changed_checks = count_rows (\<lambda>c. case hc_previous_health_status c of
            Some previous \<Rightarrow> previous \<noteq> hc_health_status c | None \<Rightarrow> False) recent_checks\<rparr>,
      hh_recent_checks = recent_checks,
      hh_recent_incidents = take 8 (filter (\<lambda>c. hc_health_status c \<in> set [''degraded'', ''down'']) recent_checks)\<rparr>"

text \<open>The services have no check of the last two hours.\<close>

definition health_stale :: "Service list \<Rightarrow> utc option \<Rightarrow> utc \<Rightarrow> bool" where
  "health_stale svcs latest_health_check_at now \<longleftrightarrow> svcs \<noteq> []
     \<and> (case latest_health_check_at of
          Some checked_at \<Rightarrow> checked_at < now - hours SERVICE_HEALTH_STALE_AFTER_HOURS | None \<Rightarrow> True)"

definition priority_context ::
    "string \<times> nat \<times> nat \<times> utc option \<Rightarrow> i64 \<Rightarrow> bool \<Rightarrow> utc option \<Rightarrow> DashboardPriorityContext" where
  "priority_context = (\<lambda>(worker_status, active_workers, stale_workers, latest_worker_seen_at) stale_after
       health_data_stale latest_health_check_at.
     \<lparr>px_worker_status = Some worker_status, px_active_workers = active_workers,
      px_stale_workers = stale_workers, px_latest_worker_seen_at = latest_worker_seen_at,
      px_worker_stale_after_seconds = stale_after, px_health_data_stale = health_data_stale,
      px_latest_health_check_at = latest_health_check_at,
      px_health_stale_after_hours = SERVICE_HEALTH_STALE_AFTER_HOURS\<rparr>)"

section \<open>The dashboard\<close>

definition dashboard_summary :: "DashboardScope \<Rightarrow> RecordAccessScope \<Rightarrow> DashboardSummary api" where
  "dashboard_summary scope access =
     (let m = dc_maintainer_id scope; src = dc_source scope in
      bindM (callM (DashboardRepository_total_services_scoped m src)) (\<lambda>total.
      bindM (callM (DashboardRepository_healthy_services_scoped m src)) (\<lambda>healthy.
      bindM (callM (DashboardRepository_degraded_services_scoped m src)) (\<lambda>degraded.
      bindM (callM (DashboardRepository_down_services_scoped m src)) (\<lambda>down.
      bindM (callM (DashboardRepository_active_packages_scoped m)) (\<lambda>pkgs.
      bindM (callM (WorkCardRepository_count_open_for_access m src access)) (\<lambda>cards.
      bindM (callM (NotificationRepository_count_actionable_for_access m src access)) (\<lambda>unread.
      retM \<lparr>ds_total_services = total, ds_healthy_services = healthy, ds_degraded_services = degraded,
            ds_down_services = down, ds_active_packages = pkgs, ds_open_work_cards = cards,
            ds_unread_notifications = unread\<rparr>))))))))"

definition dashboard_body ::
    "(utc \<Rightarrow> string) \<Rightarrow> process_env \<Rightarrow> RecordAccessScope \<Rightarrow> utc \<Rightarrow> i32 option \<Rightarrow> string option \<Rightarrow> DashboardResponse api" where
  "dashboard_body shown vars access now maintainer_id source =
     (let scope = \<lparr>dc_maintainer_id = maintainer_id, dc_source = source\<rparr> in
     bindM (dashboard_summary scope access) (\<lambda>summary.
     bindM (callM (ServiceRepository_find_health_snapshot_scoped 10 maintainer_id source)) (\<lambda>service_health.
     bindM (callM (WorkCardRepository_find_open_for_access 10 maintainer_id source access)) (\<lambda>cards.
     bindM (callM (NotificationRepository_find_actionable_for_access 10 maintainer_id source access)) (\<lambda>inbox.
     bindM (callM (CalendarEventRepository_find_upcoming_for_access 100 (now - hours 18) (now + hours 42)
              maintainer_id source access)) (\<lambda>events.
     bindM (callM (ConnectorRunRepository_find_failed_for_access 25 maintainer_id source access)) (\<lambda>failed.
     bindM (callM (PackageRepository_find_recent_for_maintainer 5 maintainer_id)) (\<lambda>recent_packages.
     bindM utc_now (\<lambda>since.
     bindM (callM (ServiceHealthCheckRepository_find_recent_scoped 250
              (since - hours HEALTH_HISTORY_WINDOW_HOURS) maintainer_id source)) (\<lambda>health_checks.
     let health_history = build_service_health_history health_checks HEALTH_HISTORY_WINDOW_HOURS;
         latest = latest_of (map hc_checked_at (hh_recent_checks health_history));
         stale_after = connector_worker_stale_after_seconds vars
     in
     bindM (callM (ConnectorWorkerRepository_find_recent 20)) (\<lambda>workers.
     retM \<lparr>dr_scope = scope, dr_summary = summary,
           dr_priority_items = build_dashboard_priority_items shown service_health cards inbox failed
             (priority_context (summarize_workers workers now stale_after) stale_after
               (health_stale service_health latest now) latest),
           dr_health_history = health_history, dr_service_health = service_health,
           dr_calendar_events = events, dr_work_cards = cards, dr_notifications = inbox,
           dr_recent_packages = recent_packages\<rparr>)))))))))))"

definition dashboard ::
    "(utc \<Rightarrow> string) \<Rightarrow> process_env \<Rightarrow> AuthenticatedUser \<Rightarrow> i32 option \<Rightarrow> string option \<Rightarrow> DashboardResponse api" where
  "dashboard shown vars auth maintainer_id source =
     bindM (record_access_scope auth) (\<lambda>access.
     bindM utc_now (\<lambda>now.
     if (case maintainer_id of Some i \<Rightarrow> \<not> is_admin auth \<and> i \<notin> set (as_maintainer_ids access) | None \<Rightarrow> False)
     then throwM Forbidden
     else dashboard_body shown vars access now maintainer_id source))"

section \<open>The overview of a user\<close>

record MeMaintainerOverview =
  mo_maintainer :: Maintainer
  mo_role :: string

record MeOverviewSummary =
  ms_maintainers :: nat
  ms_services :: nat
  ms_unhealthy_services :: nat
  ms_packages :: nat
  ms_today_calendar_events :: nat
  ms_open_work_cards :: nat
  ms_unread_notifications :: nat
  ms_failed_connector_runs :: nat

record MeOperationsStatus =
  os_worker_status :: string
  os_active_workers :: nat
  os_stale_workers :: nat
  os_latest_worker_seen_at :: "utc option"
  os_worker_stale_after_seconds :: i64
  os_latest_retention_cleanup :: "MaintenanceRun option"
  os_latest_health_check_at :: "utc option"
  os_health_data_stale :: bool
  os_health_stale_after_hours :: i64

record MeOverviewResponse =
  mw_user :: MeResponse
  mw_maintainers :: "MeMaintainerOverview list"
  mw_services :: "Service list"
  mw_packages :: "Package list"
  mw_today_calendar_events :: "CalendarEvent list"
  mw_open_work_cards :: "WorkCard list"
  mw_unread_notifications :: "NotificationView list"
  mw_failed_connector_runs :: "ConnectorRun list"
  mw_priority_items :: "DashboardPriorityItem list"
  mw_health_history :: ServiceHealthHistory
  mw_operations :: MeOperationsStatus
  mw_summary :: MeOverviewSummary

text \<open>The role of a user in a team: a later membership of the same team overwrites an earlier one.\<close>

definition overview_role :: "MaintainerMember list \<Rightarrow> Maintainer \<Rightarrow> string" where
  "overview_role memberships m =
     (case map_of (rev (map (\<lambda>x. (mm_maintainer_id x, mm_role x)) memberships)) (mt_id m) of
        Some role \<Rightarrow> role | None \<Rightarrow> ''admin'')"

definition me_overview :: "(utc \<Rightarrow> string) \<Rightarrow> process_env \<Rightarrow> AuthenticatedUser \<Rightarrow> MeOverviewResponse api" where
  "me_overview shown vars auth =
     bindM (callM (MaintainerMemberRepository_find_by_user (us_id (au_user auth)))) (\<lambda>memberships.
     bindM (if memberships = [] \<and> is_admin auth then callM (MaintainerRepository_find_multiple 100)
            else callM (MaintainerRepository_find_by_ids (map mm_maintainer_id memberships))) (\<lambda>teams.
     let ids = map mt_id teams;
         access = \<lparr>as_user_id = us_id (au_user auth), as_is_admin = is_admin auth,
                   as_maintainer_ids = map mm_maintainer_id memberships\<rparr>
     in
     bindM (callM (ServiceRepository_find_for_maintainers 100 ids)) (\<lambda>svcs.
     bindM (callM (PackageRepository_find_recent_for_maintainers 100 ids)) (\<lambda>pkgs.
     bindM utc_now (\<lambda>now.
     bindM (callM (CalendarEventRepository_find_upcoming_for_access 100 (now - hours 18) (now + hours 42)
              None None access)) (\<lambda>events.
     bindM (callM (WorkCardRepository_find_open_for_access 50 None None access)) (\<lambda>cards.
     bindM (callM (NotificationRepository_find_actionable_for_access 50 None None access)) (\<lambda>inbox.
     bindM (callM (ConnectorRunRepository_find_failed_for_access 25 None None access)) (\<lambda>failed.
     bindM (callM (ServiceHealthCheckRepository_find_recent_for_maintainers 250
              (now - hours HEALTH_HISTORY_WINDOW_HOURS) ids)) (\<lambda>health_checks.
     let health_history = build_service_health_history health_checks HEALTH_HISTORY_WINDOW_HOURS;
         latest = latest_of (map hc_checked_at (hh_recent_checks health_history));
         stale = health_stale svcs latest now;
         stale_after = connector_worker_stale_after_seconds vars
     in
     bindM (callM (ConnectorWorkerRepository_find_recent 20)) (\<lambda>workers.
     let summary = summarize_workers workers now stale_after in
     bindM (callM (MaintenanceRunRepository_find_latest_success ''retention_cleanup'')) (\<lambda>cleanup.
     retM \<lparr>mw_user = build_me_response auth memberships,
           mw_maintainers = map (\<lambda>m. \<lparr>mo_maintainer = m, mo_role = overview_role memberships m\<rparr>) teams,
           mw_services = svcs, mw_packages = pkgs, mw_today_calendar_events = events,
           mw_open_work_cards = cards, mw_unread_notifications = inbox, mw_failed_connector_runs = failed,
           mw_priority_items = build_dashboard_priority_items shown svcs cards inbox failed
             (priority_context summary stale_after stale latest),
           mw_health_history = health_history,
           mw_operations = \<lparr>os_worker_status = fst summary, os_active_workers = fst (snd summary),
             os_stale_workers = fst (snd (snd summary)),
             os_latest_worker_seen_at = snd (snd (snd summary)), os_worker_stale_after_seconds = stale_after,
             os_latest_retention_cleanup = cleanup, os_latest_health_check_at = latest,
             os_health_data_stale = stale, os_health_stale_after_hours = SERVICE_HEALTH_STALE_AFTER_HOURS\<rparr>,
           mw_summary = \<lparr>ms_maintainers = length teams, ms_services = length svcs,
             ms_unhealthy_services = count_rows (\<lambda>v. sv_health_status v \<noteq> ''healthy'') svcs,
             ms_packages = length pkgs, ms_today_calendar_events = length events,
             ms_open_work_cards = length cards, ms_unread_notifications = length inbox,
             ms_failed_connector_runs = length failed\<rparr>\<rparr>))))))))))))"

end
