(* ===== verification/Dashboard_Properties.thy ===== *)
theory Dashboard_Properties
  imports Dashboard Inbox_Properties "HOL-Library.Multiset"
begin

text \<open>
  The dashboard: it shows a user only records of the user and of the teams of the user, and its priority
  items are the most urgent ones.
\<close>

section \<open>Priority items\<close>

text \<open>The order in which a user should see things: the workers, the freshness of the health data, services
  that are down, degraded services, blocked cards, urgent cards, critical notifications, failed runs, runs that
  failed in part; within a class the latest first and what has no time last; then by title.\<close>

definition urgency :: "DashboardPriorityItem \<Rightarrow> nat" where
  "urgency x =
     (if pi_kind x = ''worker'' then 0 else if pi_kind x = ''health_data'' then 1
      else if pi_kind x = ''service'' then (if pi_severity x = ''down'' then 2 else 3)
      else if pi_kind x = ''work_card'' then (if pi_severity x = ''blocked'' then 4 else 5)
      else if pi_kind x = ''notification'' then 6
      else if pi_severity x = ''failed'' then 7 else 8)"

definition comes_before :: "DashboardPriorityItem \<Rightarrow> DashboardPriorityItem \<Rightarrow> bool" where
  "comes_before x y \<longleftrightarrow> urgency x < urgency y \<or> (urgency x = urgency y \<and>
     (case (pi_occurred_at x, pi_occurred_at y) of
        (Some a, Some b) \<Rightarrow> b < a \<or> (a = b \<and> pi_title x \<le> pi_title y)
      | (Some a, None) \<Rightarrow> True
      | (None, Some b) \<Rightarrow> False
      | (None, None) \<Rightarrow> pi_title x \<le> pi_title y))"

abbreviation ranks :: "int list" where
  "ranks \<equiv> [5, 6, 10, 20, 30, 40, 50, 60, 65]"

lemma item_ranks:
  "x \<in> set (worker_item shown ctx) \<Longrightarrow> pi_rank x = ranks ! urgency x \<and> urgency x \<le> 8"
  "x \<in> set (health_data_item shown ctx) \<Longrightarrow> pi_rank x = ranks ! urgency x \<and> urgency x \<le> 8"
  "unhealthy v \<Longrightarrow> pi_rank (service_item v) = ranks ! urgency (service_item v) \<and> urgency (service_item v) \<le> 8"
  "pi_rank (work_card_item c) = ranks ! urgency (work_card_item c) \<and> urgency (work_card_item c) \<le> 8"
  "pi_rank (notification_item n) = ranks ! urgency (notification_item n) \<and> urgency (notification_item n) \<le> 8"
  "pi_rank (run_item r) = ranks ! urgency (run_item r) \<and> urgency (run_item r) \<le> 8"
proof -
  show "x \<in> set (worker_item shown ctx) \<Longrightarrow> pi_rank x = ranks ! urgency x \<and> urgency x \<le> 8"
    unfolding worker_item_def Let_def urgency_def by (cases "px_worker_status ctx") (auto split: if_splits)
qed (simp_all add: health_data_item_def service_item_def work_card_item_def notification_item_def run_item_def urgency_def
    split: if_splits)

lemma candidate_rank:
  assumes "x \<in> set (priority_candidates shown svcs cards inbox failed ctx)"
  shows "pi_rank x = ranks ! urgency x \<and> urgency x \<le> 8"
proof -
  consider "x \<in> set (worker_item shown ctx)" | "x \<in> set (health_data_item shown ctx)"
    | v where "x = service_item v" "unhealthy v" | c where "x = work_card_item c"
    | n where "x = notification_item n" | r where "x = run_item r"
    using assms unfolding priority_candidates_def set_append set_map set_filter by blast
  then show ?thesis using item_ranks by cases simp_all
qed

lemma ranks_ascend:
  assumes "i \<le> 8" and "j \<le> 8"
  shows "(ranks ! i < ranks ! j) = (i < j)"
    and "(ranks ! i = ranks ! j) = (i = j)"
proof -
  have "sorted_wrt (<) ranks" by simp
  then have up: "ranks ! a < ranks ! b" if "a < b" "b \<le> 8" for a b
    using that sorted_wrt_nth_less [of "(<)" ranks a b] by simp
  show "(ranks ! i < ranks ! j) = (i < j)" "(ranks ! i = ranks ! j) = (i = j)"
    using up [of i j] up [of j i] assms by (cases i j rule: linorder_cases; simp)+
qed

lemma candidate_order:
  assumes "x \<in> set (priority_candidates shown svcs cards inbox failed ctx)"
    and "y \<in> set (priority_candidates shown svcs cards inbox failed ctx)"
  shows "priority_key x \<le> priority_key y \<longleftrightarrow> comes_before x y"
  using candidate_rank [OF assms(1)] candidate_rank [OF assms(2)] ranks_ascend [of "urgency x" "urgency y"]
  by (auto simp: priority_key_def comes_before_def desc_nulls_last_def less_eq_prod_def less_prod_def split: option.splits)

lemma candidate_names:
  "pi_kind (service_item v) = ''service''" "pi_record_id (service_item v) = Some (sv_id v)"
  "pi_kind (work_card_item c) = ''work_card''" "pi_record_id (work_card_item c) = Some (wc_id c)"
  "pi_kind (notification_item n) = ''notification''" "pi_record_id (notification_item n) = Some (nt_id n)"
  "pi_kind (run_item r) = ''connector_run''" "pi_record_id (run_item r) = Some (cr_id r)"
  by (simp_all add: service_item_def work_card_item_def notification_item_def run_item_def)

lemma candidate_parts:
  "image_mset (\<lambda>x. (pi_kind x, pi_record_id x)) (mset (worker_item shown ctx))
     = (if px_worker_status ctx \<in> {None, Some ''healthy''} then {#} else {#(''worker'', None)#})"
  "image_mset (\<lambda>x. (pi_kind x, pi_record_id x)) (mset (health_data_item shown ctx))
     = (if px_health_data_stale ctx then {#(''health_data'', None)#} else {#})"
  "unhealthy = (\<lambda>v. sv_health_status v = ''down'' \<or> sv_health_status v = ''degraded'')"
  "pressing_card = (\<lambda>c. wc_status c = ''blocked'' \<or> wc_priority c = ''urgent'' \<and> wc_status c \<noteq> ''done'')"
  by (auto simp: worker_item_def health_data_item_def unhealthy_def pressing_card_def fun_eq_iff Let_def split: option.splits)

text \<open>C34: The priority items are the twelve most urgent of the given matters, or all of them if there are
  fewer: the notice that no worker is alive or none was seen, the notice that the health data are stale, every
  service that is down or degraded, every card that is blocked or urgent and not done, every critical
  notification and every failed run. They stand in the order of urgency, and whatever is left out comes after
  everything that is shown.\<close>

theorem priority_items_are_the_most_urgent:
  fixes shown svcs cards inbox failed ctx
  defines "items \<equiv> build_dashboard_priority_items shown svcs cards inbox failed ctx"
  shows "\<exists>rest. sorted_wrt comes_before items \<and> list_all (\<lambda>x. list_all (\<lambda>y. comes_before y x) items) rest
    \<and> length items = min 12 (length items + length rest)
    \<and> image_mset (\<lambda>x. (pi_kind x, pi_record_id x)) (mset items + mset rest)
      = (if px_worker_status ctx \<in> {None, Some ''healthy''} then {#} else {#(''worker'', None)#})
      + (if px_health_data_stale ctx then {#(''health_data'', None)#} else {#})
      + image_mset (\<lambda>v. (''service'', Some (sv_id v))) {#v \<in># mset svcs. sv_health_status v = ''down'' \<or> sv_health_status v = ''degraded''#}
      + image_mset (\<lambda>c. (''work_card'', Some (wc_id c)))
          {#c \<in># mset cards. wc_status c = ''blocked'' \<or> wc_priority c = ''urgent'' \<and> wc_status c \<noteq> ''done''#}
      + image_mset (\<lambda>n. (''notification'', Some (nt_id n))) {#n \<in># mset inbox. nt_severity n = ''critical''#}
      + image_mset (\<lambda>r. (''connector_run'', Some (cr_id r))) (mset failed)"
proof -
  let ?c = "priority_candidates shown svcs cards inbox failed ctx"
  let ?s = "sort_key priority_key ?c"
  let ?rest = "drop 12 ?s"
  have items: "items = take 12 ?s" by (simp add: items_def build_dashboard_priority_items_def)
  have all: "mset items + mset ?rest = mset ?c" unfolding items by (metis append_take_drop_id mset_append mset_sort)
  have "sorted_wrt (\<lambda>x y. priority_key x \<le> priority_key y) ?s" using sorted_sort_key [of priority_key ?c] by (simp add: sorted_map)
  then have "sorted_wrt comes_before ?s"
    by (rule sorted_wrt_mono_rel [rotated]) (use candidate_order in auto)
  then have "sorted_wrt comes_before (items @ ?rest)" by (simp add: items)
  then have "sorted_wrt comes_before items" "list_all (\<lambda>x. list_all (\<lambda>y. comes_before y x) items) ?rest"
    by (auto simp: sorted_wrt_append list_all_iff)
  moreover have "length items = min 12 (length items + length ?rest)" by (simp add: items)
  moreover have "image_mset (\<lambda>x. (pi_kind x, pi_record_id x)) (mset ?c)
      = (if px_worker_status ctx \<in> {None, Some ''healthy''} then {#} else {#(''worker'', None)#})
      + (if px_health_data_stale ctx then {#(''health_data'', None)#} else {#})
      + image_mset (\<lambda>v. (''service'', Some (sv_id v))) {#v \<in># mset svcs. sv_health_status v = ''down'' \<or> sv_health_status v = ''degraded''#}
      + image_mset (\<lambda>c. (''work_card'', Some (wc_id c)))
          {#c \<in># mset cards. wc_status c = ''blocked'' \<or> wc_priority c = ''urgent'' \<and> wc_status c \<noteq> ''done''#}
      + image_mset (\<lambda>n. (''notification'', Some (nt_id n))) {#n \<in># mset inbox. nt_severity n = ''critical''#}
      + image_mset (\<lambda>r. (''connector_run'', Some (cr_id r))) (mset failed)"
    unfolding priority_candidates_def mset_append image_mset_union candidate_parts mset_map mset_filter
    by (simp only: add.assoc image_mset.compositionality comp_def candidate_names)
  ultimately show ?thesis unfolding all [symmetric] by blast
qed

section \<open>What a user sees\<close>

lemma call_select_Inr:
  assumes "undisturbed env" and "callM (select_stmt f) env s = (Inr x, s')"
  shows "x = f (tabs s) \<and> tabs s' = tabs s"
  using step_lift_Inr [OF assms(1) assms(2) [unfolded callM_def]] select_stmt_Inr by metis

text \<open>Who may see a record of an owner and a team: administrators, the owner, the members of the team, and
  everybody if it has neither; and which records a request for a team and a source asks for.\<close>

definition readable :: "RecordAccessScope \<Rightarrow> i32 option \<Rightarrow> i32 option \<Rightarrow> bool" where
  "readable a owner maint \<longleftrightarrow> as_is_admin a \<or> owner = Some (as_user_id a)
     \<or> maint \<in> Some ` set (as_maintainer_ids a) \<or> (owner = None \<and> maint = None)"

definition requested :: "i32 option \<Rightarrow> string option \<Rightarrow> i32 option \<Rightarrow> string \<Rightarrow> bool" where
  "requested m src maint source \<longleftrightarrow> (m = None \<or> maint = m) \<and> (src = None \<or> src = Some source)"

definition visible :: "RecordAccessScope \<Rightarrow> i32 option \<Rightarrow> string option \<Rightarrow> i32 option \<Rightarrow> i32 option \<Rightarrow> string \<Rightarrow> bool" where
  "visible a m src owner maint source \<longleftrightarrow> readable a owner maint \<and> requested m src maint source"

lemma access_filter_readable: "access_filter a owner maint = readable a owner maint"
  by (auto simp: access_filter_def readable_def split: option.splits)

lemma in_scope_requested: "in_scope m src maint source = requested m src maint source"
  by (auto simp: in_scope_def requested_def matches_opt_def split: option.splits)

lemma actionable_Inr:
  assumes "undisturbed env" and "callM (NotificationRepository_find_actionable_for_access k m src access) env s = (Inr ns, s')"
  shows "tabs s' = tabs s \<and> length ns \<le> k \<and> (\<exists>now. list_all (\<lambda>v. list_ex (\<lambda>n. nt_id n = nt_id v
      \<and> actionable m src access now (tabs s) n) (rows (notifications (tabs s)))) ns)"
proof -
  obtain s1 where run: "NotificationRepository_find_actionable_for_access k m src access env s = (Inr ns, s1)"
    and s': "tabs s' = tabs s1" by (rule step_lift_Inr [OF assms(1) assms(2) [unfolded callM_def]])
  then obtain now found rs s2 s3 where
    sel: "select_stmt (\<lambda>t. take k (sort_key (\<lambda>n. - nt_updated_at n)
        (filter (actionable m src access now t) (rows (notifications t))))) env (s\<lparr>tick := Suc (tick s)\<rparr>) = (Inr found, s2)"
    and rec: "NotificationReceiptRepository_find_for_user_and_notifications (as_user_id access) (map nt_id found) env s2 = (Inr rs, s3)"
    and ns: "ns = map (\<lambda>n. NotificationView_from_record n
        (map_of (rev (map (\<lambda>r. (nr_notification_id r, r)) rs)) (nt_id n))) found" and s1: "s1 = s3"
    unfolding NotificationRepository_find_actionable_for_access_def NotificationRepository_with_receipts_def bindM_Inr_iff
    by (auto simp: utc_now_def)
  have "keeps env (\<lambda>t. t = tabs s2) (NotificationReceiptRepository_find_for_user_and_notifications (as_user_id access) (map nt_id found))"
    unfolding NotificationReceiptRepository_find_for_user_and_notifications_def by (intro keeps_rule)
  from keepsD [OF this refl rec] have "tabs s3 = tabs s2" .
  moreover have "nt_id (NotificationView_from_record n r) = nt_id n" for n r
    by (simp add: NotificationView_from_record_def Notification.defs Let_def split: option.splits prod.splits)
  moreover note select_stmt_Inr [OF sel]
  ultimately show ?thesis using s' s1 ns
    by (auto simp: list_all_iff list_ex_iff intro!: exI [of _ now] dest!: in_set_takeD)
qed

text \<open>What the dashboard may show: open work cards, unread notifications and calendar events the user may see;
  services, packages and health checks of the requested team and source; and as priority items the notices on
  workers and health data, the items of a service, card or notification that is listed, and those of failed
  runs whose connector the user may see.\<close>

definition seen_run :: "RecordAccessScope \<Rightarrow> i32 option \<Rightarrow> string option \<Rightarrow> tables \<Rightarrow> ConnectorRun \<Rightarrow> bool" where
  "seen_run a m src t r \<longleftrightarrow> r \<in> set (rows (connector_runs t)) \<and> cr_status r \<in> {''failed'', ''partial_success''}
     \<and> list_ex (\<lambda>c. cn_source c = cr_source r \<and> visible a m src (cn_owner_user_id c) (cn_maintainer_id c) (cr_source r))
         (rows (connectors t))"

definition seen_item :: "RecordAccessScope \<Rightarrow> i32 option \<Rightarrow> string option \<Rightarrow> tables \<Rightarrow> DashboardResponse \<Rightarrow> DashboardPriorityItem \<Rightarrow> bool" where
  "seen_item a m src t d x \<longleftrightarrow> (pi_kind x \<in> {''worker'', ''health_data''} \<and> pi_record_id x = None)
     \<or> x \<in> service_item ` set (dr_service_health d) \<or> x \<in> work_card_item ` set (dr_work_cards d)
     \<or> x \<in> notification_item ` set (dr_notifications d) \<or> x \<in> run_item ` {r. seen_run a m src t r}"

definition seen_check :: "i32 option \<Rightarrow> string option \<Rightarrow> tables \<Rightarrow> ServiceHealthCheck \<Rightarrow> bool" where
  "seen_check m src t h \<longleftrightarrow> h \<in> set (rows (service_health_checks t))
     \<and> list_ex (\<lambda>v. sv_id v = hc_service_id h \<and> requested m src (Some (sv_maintainer_id v)) (hc_source h)) (rows (services t))"

definition only_visible :: "RecordAccessScope \<Rightarrow> i32 option \<Rightarrow> string option \<Rightarrow> tables \<Rightarrow> DashboardResponse \<Rightarrow> bool" where
  "only_visible a m src t d \<longleftrightarrow>
     list_all (\<lambda>w. w \<in> set (rows (work_cards t)) \<and> wc_archived_at w = None \<and> wc_status w \<noteq> ''done''
        \<and> visible a m src (wc_owner_user_id w) (wc_maintainer_id w) (wc_source w)) (dr_work_cards d)
     \<and> list_all (\<lambda>v. list_ex (\<lambda>n. nt_id n = nt_id v \<and> nt_archived_at n = None \<and> \<not> nt_is_read n
        \<and> visible a m src (nt_owner_user_id n) (nt_maintainer_id n) (nt_source n)) (rows (notifications t)))
          (dr_notifications d)
     \<and> list_all (\<lambda>e. e \<in> set (rows (calendar_events t)) \<and> ce_archived_at e = None \<and> \<not> ce_is_cancelled e
        \<and> visible a m src (ce_owner_user_id e) (ce_maintainer_id e) (ce_source e)) (dr_calendar_events d)
     \<and> list_all (\<lambda>v. v \<in> set (rows (services t)) \<and> requested m src (Some (sv_maintainer_id v)) (sv_source v)) (dr_service_health d)
     \<and> list_all (\<lambda>p. p \<in> set (rows (packages t)) \<and> (m = None \<or> m = Some (pk_maintainer_id p))) (dr_recent_packages d)
     \<and> list_all (seen_check m src t) (hh_recent_checks (dr_health_history d) @ hh_recent_incidents (dr_health_history d))
     \<and> list_all (seen_item a m src t d) (dr_priority_items d)"

lemma reads_keep_tables:
  assumes "undisturbed env"
  shows "keeps env (\<lambda>t. t = x) (dashboard_summary scope a)"
  unfolding dashboard_summary_def DashboardRepository_total_services_scoped_def
    DashboardRepository_healthy_services_scoped_def DashboardRepository_degraded_services_scoped_def
    DashboardRepository_down_services_scoped_def services_scoped_def DashboardRepository_active_packages_scoped_def
    WorkCardRepository_count_open_for_access_def NotificationRepository_count_actionable_for_access_def Let_def
  by (intro keeps_rule assms)

lemma failed_runs_seen:
  assumes "fr = take k (sort_key f (map fst (filter (\<lambda>(r, c). cr_status r \<in> set [''failed'', ''partial_success'']
       \<and> (case m of Some m \<Rightarrow> cn_maintainer_id c = Some m | None \<Rightarrow> True) \<and> matches_opt src (cr_source r)
       \<and> access_filter a (cn_owner_user_id c) (cn_maintainer_id c)) (run_connectors t))))"
    and "r \<in> set fr"
  shows "seen_run a m src t r"
proof -
  obtain c where c: "(r, c) \<in> set (run_connectors t)" "cr_status r \<in> set [''failed'', ''partial_success'']"
    "(case m of Some m \<Rightarrow> cn_maintainer_id c = Some m | None \<Rightarrow> True) \<and> matches_opt src (cr_source r)"
    "access_filter a (cn_owner_user_id c) (cn_maintainer_id c)"
    using in_set_takeD [OF assms(2) [unfolded assms(1)]] by auto
  then have "requested m src (cn_maintainer_id c) (cr_source r)"
    by (auto simp: requested_def matches_opt_def split: option.splits)
  with c show ?thesis by (auto simp: seen_run_def run_connectors_def visible_def list_ex_iff access_filter_readable)
qed

lemma recent_checks_seen:
  assumes "hcs = take k (sort_key f (map fst (filter (\<lambda>(h, mt). since \<le> hc_checked_at h
       \<and> in_scope m src (Some mt) (hc_source h)) (joined_checks t))))"
    and "h \<in> set hcs"
  shows "seen_check m src t h"
proof -
  obtain mt where "(h, mt) \<in> set (joined_checks t)" "requested m src (Some mt) (hc_source h)"
    using assms by (auto simp: in_scope_requested dest!: in_set_takeD)
  moreover from this(1) obtain v where "h \<in> set (rows (service_health_checks t))" "mt = sv_maintainer_id v"
    "first_row (\<lambda>v. sv_id v = hc_service_id h) (rows (services t)) = Some v"
    by (auto simp: joined_checks_def map_filter_def)
  ultimately show ?thesis
    by (auto simp: seen_check_def list_ex_iff dest!: first_row_Some)
qed

lemma priority_item_origin:
  assumes "x \<in> set (build_dashboard_priority_items shown svcs cards inbox failed ctx)"
  shows "(pi_kind x \<in> {''worker'', ''health_data''} \<and> pi_record_id x = None) \<or> x \<in> service_item ` set svcs
    \<or> x \<in> work_card_item ` set cards \<or> x \<in> notification_item ` set inbox \<or> x \<in> run_item ` set failed"
proof -
  have "x \<in> set (priority_candidates shown svcs cards inbox failed ctx)"
    using assms by (auto simp: build_dashboard_priority_items_def dest!: in_set_takeD)
  moreover have "pi_kind x = ''worker'' \<and> pi_record_id x = None" if "x \<in> set (worker_item shown ctx)"
    using that by (cases "px_worker_status ctx") (auto simp: worker_item_def Let_def split: if_splits)
  moreover have "pi_kind x = ''health_data'' \<and> pi_record_id x = None" if "x \<in> set (health_data_item shown ctx)"
    using that by (auto simp: health_data_item_def split: if_splits)
  ultimately show ?thesis unfolding priority_candidates_def set_append set_map set_filter by blast
qed

lemma dashboard_body_Inr:
  assumes "undisturbed env" and "dashboard_body shown vars a now m src env s = (Inr d, s')"
  shows "tabs s' = tabs s \<and> only_visible a m src (tabs s) d"
proof -
  note sel = call_select_Inr [OF assms(1)]
  obtain sm s1 sh s2 ws s3 ns s4 es s5 fr s6 ps s7 hcs s8 wk ctx where
    summary: "dashboard_summary \<lparr>dc_maintainer_id = m, dc_source = src\<rparr> a env s = (Inr sm, s1)"
    and c1: "callM (ServiceRepository_find_health_snapshot_scoped 10 m src) env s1 = (Inr sh, s2)"
    and c2: "callM (WorkCardRepository_find_open_for_access 10 m src a) env s2 = (Inr ws, s3)"
    and c3: "callM (NotificationRepository_find_actionable_for_access 10 m src a) env s3 = (Inr ns, s4)"
    and c4: "callM (CalendarEventRepository_find_upcoming_for_access 100 (now - hours 18) (now + hours 42) m src a) env s4
      = (Inr es, s5)"
    and c5: "callM (ConnectorRunRepository_find_failed_for_access 25 m src a) env s5 = (Inr fr, s6)"
    and c6: "callM (PackageRepository_find_recent_for_maintainer 5 m) env s6 = (Inr ps, s7)"
    and c7: "callM (ServiceHealthCheckRepository_find_recent_scoped 250 (env_clock env (tick s7) - hours HEALTH_HISTORY_WINDOW_HOURS) m src)
      env (s7\<lparr>tick := Suc (tick s7)\<rparr>) = (Inr hcs, s8)"
    and c8: "callM (ConnectorWorkerRepository_find_recent 20) env s8 = (Inr wk, s')"
    and d: "dr_work_cards d = ws" "dr_notifications d = ns" "dr_calendar_events d = es" "dr_service_health d = sh"
      "dr_recent_packages d = ps" "dr_health_history d = build_service_health_history hcs HEALTH_HISTORY_WINDOW_HOURS"
      "dr_priority_items d = build_dashboard_priority_items shown sh ws ns fr ctx"
    using assms(2) unfolding dashboard_body_def Let_def bindM_Inr_iff by (auto simp: utc_now_def)
  have t1: "tabs s1 = tabs s" using keepsD [OF reads_keep_tables [OF assms(1)] refl summary] .
  note sh = sel [OF c1 [unfolded ServiceRepository_find_health_snapshot_scoped_def], unfolded t1]
  then have t2: "tabs s2 = tabs s" by simp
  note ws = sel [OF c2 [unfolded WorkCardRepository_find_open_for_access_def], unfolded t2]
  note ns = actionable_Inr [OF assms(1) c3]
  note es = sel [OF c4 [unfolded CalendarEventRepository_find_upcoming_for_access_def]]
  have t: "tabs s3 = tabs s" "tabs s4 = tabs s" "tabs s5 = tabs s" using ws ns es by simp_all
  note fr = sel [OF c5 [unfolded ConnectorRunRepository_find_failed_for_access_def], unfolded t]
  then have t6: "tabs s6 = tabs s" by simp
  note ps = sel [OF c6 [unfolded PackageRepository_find_recent_for_maintainer_def], unfolded t6]
  then have t7: "tabs (s7\<lparr>tick := Suc (tick s7)\<rparr>) = tabs s" by simp
  note hcs = sel [OF c7 [unfolded ServiceHealthCheckRepository_find_recent_scoped_def], unfolded t7]
  have "tabs s' = tabs s" using sel [OF c8 [unfolded ConnectorWorkerRepository_find_recent_def]] hcs by simp
  moreover have "list_all (\<lambda>w. w \<in> set (rows (work_cards (tabs s))) \<and> wc_archived_at w = None \<and> wc_status w \<noteq> ''done''
      \<and> visible a m src (wc_owner_user_id w) (wc_maintainer_id w) (wc_source w)) (dr_work_cards d)"
    using ws d(1) by (auto simp: list_all_iff open_card_def card_access_def visible_def access_filter_readable
        in_scope_requested dest!: in_set_takeD)
  moreover have "list_all (\<lambda>v. list_ex (\<lambda>n. nt_id n = nt_id v \<and> nt_archived_at n = None \<and> \<not> nt_is_read n
      \<and> visible a m src (nt_owner_user_id n) (nt_maintainer_id n) (nt_source n)) (rows (notifications (tabs s))))
      (dr_notifications d)"
    using ns d(2) unfolding t by (auto simp: list_all_iff list_ex_iff actionable_def note_access_def visible_def
        access_filter_readable in_scope_requested Let_def)
  moreover have "list_all (\<lambda>e. e \<in> set (rows (calendar_events (tabs s))) \<and> ce_archived_at e = None \<and> \<not> ce_is_cancelled e
      \<and> visible a m src (ce_owner_user_id e) (ce_maintainer_id e) (ce_source e)) (dr_calendar_events d)"
    using es d(3) unfolding t
    by (auto simp: list_all_iff visible_def access_filter_readable [symmetric] in_scope_requested [symmetric] in_scope_def
        matches_opt_def dest!: in_set_takeD split: option.splits)
  moreover have "list_all (\<lambda>v. v \<in> set (rows (services (tabs s))) \<and> requested m src (Some (sv_maintainer_id v)) (sv_source v))
      (dr_service_health d)"
    using sh d(4) by (auto simp: list_all_iff in_scope_requested dest!: in_set_takeD)
  moreover have "list_all (\<lambda>p. p \<in> set (rows (packages (tabs s))) \<and> (m = None \<or> m = Some (pk_maintainer_id p))) (dr_recent_packages d)"
    using ps d(5) by (cases m) (auto simp: list_all_iff dest!: in_set_takeD)
  moreover have "list_all (seen_check m src (tabs s)) (hh_recent_checks (dr_health_history d) @ hh_recent_incidents (dr_health_history d))"
    using recent_checks_seen [OF hcs [THEN conjunct1]] unfolding d(6) build_service_health_history_def
    by (auto simp: list_all_iff dest!: in_set_takeD)
  moreover have "list_all (seen_item a m src (tabs s) d) (dr_priority_items d)"
    using priority_item_origin failed_runs_seen [OF fr [THEN conjunct1]] unfolding list_all_iff seen_item_def d(1,2,4,7) by blast
  ultimately show ?thesis unfolding only_visible_def by blast
qed

text \<open>C35: The dashboard of a user is built from the current tables and changes nothing. It is granted for a
  team only to its members and to administrators. The work cards, notifications and calendar events it lists
  are open records of the requested team and source that belong to the user, to a team of the user or to
  nobody (administrators see all); so are the connectors of the failed runs among its priority items. Every
  other priority item is a notice on workers or health data, or stands for a record that is listed; services,
  packages and health checks are not private, and those shown are of the requested team and source.\<close>

theorem dashboard_shows_only_visible_records:
  assumes "undisturbed env" and "dashboard shown vars auth m src env s = (Inr d, s')"
  shows "tabs s' = tabs s \<and> only_visible (scope_of auth (tabs s)) m src (tabs s) d
    \<and> (\<forall>i. m = Some i \<longrightarrow> is_admin auth \<or> i \<in> set (as_maintainer_ids (scope_of auth (tabs s))))"
proof -
  obtain a sa where sc: "record_access_scope auth env s = (Inr a, sa)"
    and ok: "\<forall>i. m = Some i \<longrightarrow> is_admin auth \<or> i \<in> set (as_maintainer_ids a)"
    and body: "dashboard_body shown vars a (env_clock env (tick sa)) m src env (sa\<lparr>tick := Suc (tick sa)\<rparr>) = (Inr d, s')"
    using assms(2) unfolding dashboard_def bindM_Inr_iff
    by (auto simp: utc_now_def split: if_splits option.splits)
  have a: "a = scope_of auth (tabs s)" "tabs sa = tabs s" using scope_Inr [OF assms(1) sc] by simp_all
  show ?thesis using dashboard_body_Inr [OF assms(1) body] ok unfolding a by (simp add: a)
qed

end
