(* ===== verification/Sign_In_Scenario.thy ===== *)
theory Sign_In_Scenario
  imports Entra_Properties Dashboard_Properties Portal_Scenario
begin

text \<open>
  The start of a production server, a sign-in with Entra and the dashboard on concrete inputs.
\<close>

section \<open>The configuration\<close>

definition demo_urls :: urllib where
  "demo_urls = \<lparr>ul_parse = (\<lambda>u. map_option (\<lambda>rest. \<lparr>ur_scheme = ''https'', ur_host = Some rest, ur_username = [],
       ur_password = None, ur_path = ''/auth/entra/callback'', ur_query = None, ur_query_pairs = [], ur_fragment = None\<rparr>)
       (strip_prefix ''https://'' u)),
     ul_uuid = (\<lambda>x. Some x)\<rparr>"

definition demo_vars :: "(string \<times> string) list" where
  "demo_vars = [(''APP_ENV'', ''production''), (''DATABASE_URL'', ''postgres://db/portal''),
     (''CONNECTOR_SECRET_KEY'', ''0123456789abcdefghijklmnopqrstuv''), (''AUTH_ENTRA_ENABLED'', ''true''),
     (''AUTH_ENTRA_TENANT_ID'', ''tenant''), (''AUTH_ENTRA_CLIENT_ID'', ''client''),
     (''AUTH_ENTRA_REDIRECT_URI'', ''https://portal/auth/entra/callback''),
     (''AUTH_OIDC_TRANSACTION_KEY'', ''vutsrqponmlkjihgfedcba9876543210''),
     (''AUTH_ENTRA_CLIENT_SECRET'', ''s3cret''), (''AUTH_ENTRA_JIT_PROVISIONING'', ''yes''),
     (''AUTH_ENTRA_REQUIRED_ROLE'', ''Portal.User'')]"

definition demo_read :: reader where
  "demo_read name = Inr (map_of demo_vars name)"

definition demo_app :: AppConfig where
  "demo_app = projr (AppConfig_from_source demo_urls demo_read)"

lemma demo_app_eq: "AppConfig_from_source demo_urls demo_read = Inr demo_app"
proof -
  have "\<not> isl (AppConfig_from_source demo_urls demo_read)" by code_simp
  then show ?thesis by (simp add: demo_app_def)
qed

theorem accepted_configuration_is_sane_and_hardened_witness:
  "ac_auth_cookie_secure demo_app \<and> (\<exists>e. ac_entra demo_app = Some e \<and> hardened_entra demo_urls e)
   \<and> strong_key ''0123456789abcdefghijklmnopqrstuv''"
proof -
  have p: "ac_environment demo_app = ''production''" by code_simp
  have "ac_entra demo_app \<noteq> None" by code_simp
  then obtain e where e: "ac_entra demo_app = Some e" by blast
  have k: "demo_read ''CONNECTOR_SECRET_KEY'' = Inr (Some ''0123456789abcdefghijklmnopqrstuv'')" by code_simp
  show ?thesis using accepted_configuration_is_sane_and_hardened [OF demo_app_eq] p e k by auto
qed

definition test_urls :: urllib where
  "test_urls = demo_urls\<lparr>ul_parse := \<lambda>u. Some \<lparr>ur_scheme = ''postgres'', ur_host = Some ''db'', ur_username = [],
     ur_password = None, ur_path = u, ur_query = None, ur_query_pairs = [], ur_fragment = None\<rparr>\<rparr>"

theorem tests_use_test_databases_only_witness:
  "validate_test_database_url test_urls ''test'' ''/portal_test'' ''DATABASE_URL''
     = Inr (Some \<lparr>td_database_name = ''portal_test''\<rparr>)
   \<and> verify_test_database_connection (Inr ''portal_test'') \<lparr>td_database_name = ''portal_test''\<rparr> ''DATABASE_URL'' = Inr ()
   \<and> verify_test_database_connection (Inr ''portal'') \<lparr>td_database_name = ''portal_test''\<rparr> ''DATABASE_URL'' \<noteq> Inr ()"
proof -
  have v: "validate_test_database_url test_urls ''test'' ''/portal_test'' ''DATABASE_URL''
     = Inr (Some \<lparr>td_database_name = ''portal_test''\<rparr>)" by code_simp
  show ?thesis using tests_use_test_databases_only [OF v] v by simp
qed

section \<open>Signing in\<close>

definition demo_entra :: EntraConfig where
  "demo_entra = \<lparr>en_tenant_id = ''tenant'', en_client_id = ''client'', en_client_secret = None,
     en_transaction_key = ''key'', en_redirect_uri = ''https://portal/auth/entra/callback'', en_issuer = ''issuer'',
     en_authorization_url = ''https://idp/authorize'', en_token_url = ''https://idp/token'',
     en_jwks_url = ''https://idp/keys'', en_jit_provisioning = False, en_required_role = Some ''Portal.User'',
     en_transaction_ttl_seconds = 600, en_jwks_cache_seconds = 300, en_clock_skew_seconds = 120\<rparr>"

definition entra_app :: AppConfig where
  "entra_app = demo_config\<lparr>ac_entra := Some demo_entra\<rparr>"

definition demo_jwk :: Jwk where
  "demo_jwk = \<lparr>jw_key_type = ''RSA'', jw_key_use = None, jw_algorithm = None, jw_key_id = ''kid'',
     jw_modulus = replicate 256 CHR ''m'', jw_exponent = ''AQAB''\<rparr>"

definition demo_claims :: EntraIdTokenClaims where
  "demo_claims = \<lparr>ic_subject = ''sub'', ic_tenant_id = ''tenant'', ic_object_id = ''object'', ic_version = Some ''2.0'',
     ic_nonce = Some ''nonce'', ic_audience = One ''client'', ic_authorized_party = None, ic_issued_at = Some 1,
     ic_roles = [''Portal.User''], ic_preferred_username = Some ''ada@portal'', ic_display_name = None, ic_email = None\<rparr>"

definition demo_ol :: oidclib where
  "demo_ol = \<lparr>ol_random = (\<lambda>k n. replicate n CHR ''r''), ol_b64 = (\<lambda>x. x), ol_unb64 = (\<lambda>x. Some x),
     ol_sha256 = (\<lambda>_. replicate 32 CHR ''k''), ol_seal = (\<lambda>k n m a. Some m), ol_open = (\<lambda>k n c a. Some c),
     ol_argon2 = (\<lambda>_ p. Some p),
     ol_post = (\<lambda>_ _ _. Some \<lparr>hr_success = True, hr_content_length = None, hr_chunks = [Some ''a.b'', Some ''.c'']\<rparr>),
     ol_get = (\<lambda>_ _. Some \<lparr>hr_success = True, hr_content_length = Some 4, hr_chunks = [Some ''keys'']\<rparr>),
     ol_token_json = (\<lambda>b. Some b), ol_jwks_json = (\<lambda>_. Some [demo_jwk]), ol_header = (\<lambda>_. Some (''RS256'', Some ''kid'')),
     ol_rsa_key = (\<lambda>_ _. Some ''key''),
     ol_decode = (\<lambda>_ v k t. if tv_audience v = ''client'' \<and> k = ''key'' \<and> t = ''a.b.c'' then Some demo_claims else None),
     ol_query_url = (\<lambda>u _. Some u), ol_instant = (\<lambda>n. int n * 1000000), ol_jit_metadata = (\<lambda>a b. a @ b),
     ol_auth = demo_au, ol_urls = demo_urls, ol_world = demo_world\<rparr>"

definition pending_login :: OidcLoginTransaction where
  "pending_login = \<lparr>ot_state_hash = au_sha256_hex demo_au ''state'', ot_browser_binding_hash = au_sha256_hex demo_au ''browser'',
     ot_nonce = ''nonce'', ot_pkce_verifier_ciphertext = ''v1.rrrrrrrrrrrr.verifier'', ot_return_to = ''/#inbox'',
     ot_expires_at = seconds 600, ot_created_at = 0\<rparr>"

definition demo_account :: ExternalIdentity where
  "demo_account = \<lparr>ei_user_id = 1, ei_provider = ''entra'', ei_issuer = ''issuer'', ei_subject = None,
     ei_tenant_id = ''tenant'', ei_object_id = ''object'', ei_preferred_username = None, ei_display_name = None,
     ei_email = None, ei_last_login_at = None, ei_id = 1, ei_created_at = 0, ei_updated_at = 0\<rparr>"

definition entra_tables :: tables where
  "entra_tables = access_tables\<lparr>external_identities := \<lparr>rows = [demo_account], seq = 2\<rparr>,
     oidc_login_transactions := \<lparr>rows = [pending_login], seq = 2\<rparr>\<rparr>"

definition empty_cache :: JwksCacheState where
  "empty_cache = \<lparr>jc_document = None, jc_fetched_at = None, jc_last_unknown_kid_refresh_at = None\<rparr>"

definition demo_callback :: "string \<Rightarrow> (EntraFlowError + callback) \<times> db" where
  "demo_callback binding = finish_entra_login demo_ol entra_app demo_client (\<lambda>_. Some binding)
     \<lparr>eq_code = Some ''code'', eq_state = Some ''state'', eq_error = None\<rparr> empty_cache calm (mk_db entra_tables)"

lemma demo_callback_eq: "finish_entra_login demo_ol entra_app demo_client (\<lambda>_. Some ''browser'')
     \<lparr>eq_code = Some ''code'', eq_state = Some ''state'', eq_error = None\<rparr> empty_cache calm (mk_db entra_tables)
   = (Inr (projr (fst (demo_callback ''browser''))), snd (demo_callback ''browser''))"
proof -
  have "\<not> isl (fst (demo_callback ''browser''))" by code_simp
  from outcome_Inr [OF this] show ?thesis by (simp add: demo_callback_def)
qed

theorem entra_sign_in_needs_a_bound_and_valid_token_witness:
  "cb_result (projr (fst (demo_callback ''browser''))) = Inr ()
   \<and> (\<exists>raw claims u. proven_claims demo_ol demo_entra ''nonce'' raw claims
        \<and> linked (tabs (snd (demo_callback ''browser''))) demo_entra claims u
        \<and> list_ex (\<lambda>y. se_user_id y = u \<and> se_auth_method y = ''entra'') (rows (sessions (tabs (snd (demo_callback ''browser''))))))"
proof -
  have ok: "cb_result (projr (fst (demo_callback ''browser''))) = Inr ()" by code_simp
  have t: "rows (oidc_login_transactions (tabs (mk_db entra_tables))) = [pending_login]" "ot_nonce pending_login = ''nonce''"
    "ac_entra entra_app = Some demo_entra"
    by (simp_all add: mk_db_def entra_tables_def pending_login_def entra_app_def)
  show ?thesis
    using entra_sign_in_needs_a_bound_and_valid_token [OF calm_env(2,3) demo_callback_eq ok] ok unfolding t
    by (auto simp: t)
qed

definition demo_validated :: "string \<Rightarrow> ValidatedEntraClaims" where
  "demo_validated object = \<lparr>vc_subject = ''sub'', vc_tenant_id = ''tenant'', vc_object_id = object,
     vc_preferred_username = Some ''ada@portal'', vc_display_name = None, vc_email = None\<rparr>"

theorem provisioned_names_are_bounded_and_distinct_witness:
  "length (jit_username (demo_validated (replicate 32 CHR ''a''))) \<le> 64
   \<and> jit_username (demo_validated (replicate 32 CHR ''a'')) \<noteq> jit_username (demo_validated (replicate 32 CHR ''b''))"
proof -
  have "length (filter (\<lambda>c. c \<noteq> CHR ''-'') (vc_object_id (demo_validated (replicate 32 CHR ''a'')))) = 32"
    and "length (filter (\<lambda>c. c \<noteq> CHR ''-'') (vc_object_id (demo_validated (replicate 32 CHR ''b'')))) = 32"
    by (simp_all add: demo_validated_def)
  from provisioned_names_are_bounded_and_distinct [OF this] show ?thesis by (simp add: demo_validated_def)
qed

definition warm_cache :: JwksCacheState where
  "warm_cache = \<lparr>jc_document = Some [demo_jwk], jc_fetched_at = Some 0, jc_last_unknown_kid_refresh_at = Some 0\<rparr>"

theorem unknown_keys_are_fetched_at_most_once_per_cooldown_witness:
  "fst (decoding_key demo_ol demo_entra ''other'' warm_cache calm (mk_db entra_tables)) = Inr (Inl AccountNotAllowed, warm_cache)
   \<and> fst (decoding_key demo_ol demo_entra ''kid'' warm_cache calm (mk_db entra_tables)) = Inr (Inr ''key'', warm_cache)"
proof -
  have w: "within (jc_fetched_at warm_cache) (ol_instant demo_ol (tick (mk_db entra_tables)))
      (seconds (i64_as_u64 (en_jwks_cache_seconds demo_entra)))"
    "within (jc_last_unknown_kid_refresh_at warm_cache) (ol_instant demo_ol (tick (mk_db entra_tables)))
      (seconds UNKNOWN_KID_REFRESH_COOLDOWN_SECONDS)" by code_simp+
  have d: "jc_document warm_cache = Some [demo_jwk]" by (simp add: warm_cache_def)
  have k: "JwksDocument_key [demo_jwk] ''other'' = Inl AccountNotAllowed" "JwksDocument_key [demo_jwk] ''kid'' = Inr demo_jwk"
    "decoding_key_from_jwk demo_ol demo_jwk = Inr ''key''" by code_simp+
  show ?thesis
    using unknown_keys_are_fetched_at_most_once_per_cooldown [OF w(1) d w(2)] k by simp
qed

section \<open>The dashboard\<close>

text \<open>Two connectors whose last runs failed: one of the team of the user, one of another team.\<close>

definition team_connector :: "string \<Rightarrow> i32 \<Rightarrow> i32 \<Rightarrow> Connector" where
  "team_connector source team i = \<lparr>cn_source = source, cn_kind = source, cn_display_name = source, cn_status = ''error'',
     cn_scope_type = ''maintainer'', cn_owner_user_id = None, cn_maintainer_id = Some team, cn_id = i,
     cn_last_run_at = None, cn_last_success_at = None, cn_created_at = 0, cn_updated_at = 0\<rparr>"

definition failed_run :: "string \<Rightarrow> i32 \<Rightarrow> ConnectorRun" where
  "failed_run source i = \<lparr>cr_source = source, cr_target = ''notifications'', cr_status = ''failed'', cr_success_count = 0,
     cr_failure_count = 1, cr_duration_ms = 0, cr_error_message = None, cr_started_at = 0, cr_finished_at = Some 0,
     cr_trigger = ''manual'', cr_payload = None, cr_claimed_at = None, cr_worker_id = None, cr_attempt_count = 1,
     cr_max_attempts = 1, cr_next_attempt_at = 0, cr_lease_expires_at = None, cr_heartbeat_at = None,
     cr_cancel_requested_at = None, cr_cancelled_at = None, cr_parent_run_id = None, cr_snapshot_complete = None,
     cr_archived_count = 0, cr_id = i\<rparr>"

definition dashboard_tables :: tables where
  "dashboard_tables = portal_tables\<lparr>
     connectors := \<lparr>rows = [team_connector ''ci'' 7 1, team_connector ''erp'' 8 2], seq = 3\<rparr>,
     connector_runs := \<lparr>rows = [failed_run ''ci'' 1, failed_run ''erp'' 2], seq = 3\<rparr>\<rparr>"

definition demo_dashboard :: "i32 \<Rightarrow> i32 option \<Rightarrow> (ApiError + DashboardResponse) \<times> db" where
  "demo_dashboard u team = dashboard (\<lambda>_. ''now'') (\<lambda>_. Inl NotPresent) (demo_identity_of u) team None calm (mk_db dashboard_tables)"

lemma demo_dashboard_eq:
  "dashboard (\<lambda>_. ''now'') (\<lambda>_. Inl NotPresent) (demo_identity_of 1) None None calm (mk_db dashboard_tables)
   = (Inr (projr (fst (demo_dashboard 1 None))), snd (demo_dashboard 1 None))"
proof -
  have "\<not> isl (fst (demo_dashboard 1 None))" by code_simp
  from outcome_Inr [OF this] show ?thesis by (simp add: demo_dashboard_def)
qed

lemma demo_dashboard_items:
  "map (\<lambda>x. (pi_kind x, pi_record_id x)) (dr_priority_items (projr (fst (demo_dashboard 1 None))))
   = [(''worker'', None), (''health_data'', None), (''work_card'', Some 1), (''connector_run'', Some 1)]"
  by code_simp

theorem dashboard_shows_only_visible_records_witness:
  "only_visible (scope_of (demo_identity_of 1) dashboard_tables) None None dashboard_tables (projr (fst (demo_dashboard 1 None)))
   \<and> map (\<lambda>x. (pi_kind x, pi_record_id x)) (dr_priority_items (projr (fst (demo_dashboard 1 None))))
     = [(''worker'', None), (''health_data'', None), (''work_card'', Some 1), (''connector_run'', Some 1)]
   \<and> fst (demo_dashboard 2 (Some 7)) = Inl Forbidden"
proof -
  have t: "tabs (mk_db dashboard_tables) = dashboard_tables" by (simp add: mk_db_def)
  have "fst (demo_dashboard 2 (Some 7)) = Inl Forbidden" by code_simp
  then show ?thesis using dashboard_shows_only_visible_records [OF calm_env(2) demo_dashboard_eq] demo_dashboard_items
    unfolding t by blast
qed

definition quiet_context :: DashboardPriorityContext where
  "quiet_context = \<lparr>px_worker_status = Some ''missing'', px_active_workers = 0, px_stale_workers = 0,
     px_latest_worker_seen_at = None, px_worker_stale_after_seconds = 45, px_health_data_stale = False,
     px_latest_health_check_at = None, px_health_stale_after_hours = 2\<rparr>"

definition demo_items :: "DashboardPriorityItem list" where
  "demo_items = build_dashboard_priority_items (\<lambda>_. ''now'') [demo_service\<lparr>sv_health_status := ''down''\<rparr>]
     [overdue_card, undated_card] [] [failed_run ''ci'' 1] quiet_context"

theorem priority_items_are_the_most_urgent_witness:
  "\<exists>rest. sorted_wrt comes_before demo_items \<and> length demo_items = min 12 (length demo_items + length rest)
   \<and> image_mset (\<lambda>x. (pi_kind x, pi_record_id x)) (mset demo_items + mset rest)
     = {#(''worker'', None), (''service'', Some 3), (''work_card'', Some 1), (''connector_run'', Some 1)#}"
proof -
  have c: "wc_status overdue_card = ''todo''" "wc_priority overdue_card = ''urgent''" "wc_id overdue_card = 1"
    "wc_status undated_card = ''todo''" "wc_priority undated_card = ''low''"
    by (simp_all add: overdue_card_def undated_card_def portal_card_def)
  have r: "cr_id (failed_run ''ci'' 1) = 1" "sv_id demo_service = 3" "px_worker_status quiet_context = Some ''missing''"
    "\<not> px_health_data_stale quiet_context"
    by (simp_all add: failed_run_def demo_service_def quiet_context_def)
  show ?thesis
    using priority_items_are_the_most_urgent [of "\<lambda>_. ''now''" "[demo_service\<lparr>sv_health_status := ''down''\<rparr>]"
        "[overdue_card, undated_card]" "[]" "[failed_run ''ci'' 1]" quiet_context, folded demo_items_def]
    by (auto simp: c r)
qed

end
