(* ===== verification/Server_Health.thy ===== *)
theory Server_Health
  imports Catalog
begin

text \<open>
  \<^verbatim>\<open>src/src/rocket_routes/health.rs\<close>: the probes of the server. A probe that needs a connection gets it from
  the pool before it runs.
\<close>

definition SERVICE_NAME :: string where "SERVICE_NAME = ''internal-developer-portal-api''"

record HealthResponse =
  hh_status :: string
  hh_service :: string

record ReadinessChecks =
  rq_database :: string

record ReadinessResponse =
  ry_status :: string
  ry_service :: string
  ry_checks :: ReadinessChecks

definition require_database :: "unit api" where
  "require_database = handleM (stepM (select_stmt (\<lambda>_. ()))) (\<lambda>e. throwM (DatabaseUnavailable e)) retM"

definition health :: "HealthResponse api" where
  "health = bindM require_database (\<lambda>_. retM \<lparr>hh_status = ''ok'', hh_service = SERVICE_NAME\<rparr>)"

definition livez :: "HealthResponse api" where
  "livez = retM \<lparr>hh_status = ''ok'', hh_service = SERVICE_NAME\<rparr>"

definition readyz :: "ReadinessResponse api" where
  "readyz = bindM require_database (\<lambda>_.
     retM \<lparr>ry_status = ''ok'', ry_service = SERVICE_NAME, ry_checks = \<lparr>rq_database = ''ok''\<rparr>\<rparr>)"

text \<open>The server is ready exactly when its database answers a statement; otherwise the probe reports the
  database as unavailable, whatever the fault. Liveness does not depend on the database.\<close>

lemma readiness_follows_the_database:
  assumes "\<not> tx_aborted s"
  shows "(env_fault env (tick s) = None \<longrightarrow> \<not> isl (fst (readyz env s)) \<and> \<not> isl (fst (health env s)))
    \<and> (\<forall>e. env_fault env (tick s) = Some e \<longrightarrow> fst (readyz env s) = Inl (DatabaseUnavailable e)
         \<and> fst (health env s) = Inl (DatabaseUnavailable e))
    \<and> \<not> isl (fst (livez env s))"
  using assms
  by (auto simp: readyz_def health_def livez_def require_database_def bindM_def handleM_def stepM_def
      select_stmt_def stmt_def fail_stmt_def Let_def)

end
