(* ===== verification/Spec2Isabelle.thy ===== *)
theory Spec2Isabelle
  imports Adapter_Scenario OAuth_Scenario Command_Scenario Worker_Scenario Scenario Sign_In_Scenario Access_Scenario Server_Health
begin

text \<open>
  A verification of the internal developer portal, a Rust server (\<^verbatim>\<open>src/src\<close>) that shows a team its
  services, work cards, notifications and calendar, imports them from other systems through connectors,
  and guards them by sessions, roles and teams.

  \<^bold>\<open>The program.\<close> Requests reach handlers (\<^verbatim>\<open>rocket_routes\<close>) through a guard that authenticates them; a
  handler checks roles, calls repositories (\<^verbatim>\<open>repositories.rs\<close>) on a PostgreSQL connection and records an
  audit entry. A background worker schedules connector runs, claims them under a lease, fetches a payload
  with an adapter (\<^verbatim>\<open>connector_adapters\<close>), imports it in one transaction and settles the run; other workers
  recover runs whose lease has expired. Users sign in with a password or with Microsoft Entra.

  \<^bold>\<open>How it is modelled.\<close> \<open>Prelude\<close> holds the machine integers, the clock and the strings of Rust (byte lists).
  \<open>Database\<close> gives statements, errors and transactions: a computation takes an environment (the clock, the
  faults of the database, the steps of other processes between statements) and a state (the tables, the
  count of clock readings, whether the transaction is aborted) and returns an error or a value with the
  new state. \<open>Transactions\<close> relates a committed transaction to its body. \<open>Schema\<close> is the schema of the
  migrations: what a statement violates, and what a deletion does to referring rows.

  \<^bold>\<open>Components.\<close>
  \<^item> Validation of requests and rows: \<open>Validation\<close>, \<open>Models\<close> (\<^verbatim>\<open>validation.rs\<close>, \<^verbatim>\<open>models.rs\<close>).
  \<^item> The queue of runs: \<open>Connector_Runs\<close> (\<^verbatim>\<open>ConnectorRunRepository\<close>). \<open>Run_Lifecycle\<close> is its specification, the
    transitions of one run and the invariant of the table; \<open>Run_Operations\<close> and \<open>Run_Execution\<close> show that every
    operation and the whole execution refine it; \<open>Run_Results\<close> says what each operation returns; \<open>Run_System\<close>
    is the step relation of all processes with its reachable states; \<open>Run_Guarantees\<close> holds cancellation,
    recovery and retries.
  \<^item> Connectors and imported records: \<open>Connector_Repository\<close>, \<open>Record_Store\<close> (the contract of a table with
    natural keys, a locale), \<open>Imported_Records\<close> (its four interpretations), \<open>Runtime\<close> (\<^verbatim>\<open>runtime.rs\<close>).
    \<open>Import_Properties\<close> and \<open>Import_Errors\<close>: reconciliation of complete snapshots and the errors of a run.
  \<^item> Secrets: \<open>Secrets\<close> (\<^verbatim>\<open>crypto.rs\<close>) and \<open>Secret_Properties\<close>: sealing, round trips and redaction.
  \<^item> Sessions and sign-in: \<open>Sessions\<close>, \<open>Directory\<close>, \<open>Auth\<close>, \<open>Login\<close>, \<open>Entra\<close>, \<open>App_Config\<close>, with \<open>Session_Properties\<close>,
    \<open>Access_Properties\<close>, \<open>Login_Guarantees\<close>, \<open>Entra_Properties\<close>, \<open>Config_Properties\<close>: who is authenticated, when a
    login succeeds, what a session, a throttle bucket, a pending login and a token are good for, and what an
    accepted configuration guarantees.
  \<^item> The portal: \<open>Catalog\<close>, \<open>Inbox\<close>, \<open>Work\<close>, \<open>Work_Queries\<close>, \<open>Dashboard\<close>, with \<open>Catalog_Properties\<close>, \<open>Inbox_Properties\<close>,
    \<open>Work_Properties\<close>, \<open>Dashboard_Properties\<close>: authorization and audit of changes, privacy of the inbox, literal
    search, complete pages, visible records, the order of urgent items.
  \<^item> The worker: \<open>Worker_Config\<close>, \<open>Worker\<close> (\<^verbatim>\<open>worker.rs\<close>) and \<open>Worker_Properties\<close>: the scheduler and the retention.
  \<^item> Administration of connectors: \<open>Connector_Config\<close>, \<open>Connector_Routes\<close>, \<open>Connector_OAuth\<close>, with \<open>Route_Properties\<close>
    and \<open>OAuth_Properties\<close>:
    authorization and audit, configurations that are sealed and schedulable, and connections to Microsoft
    that need a pending state and use it up.
  \<^item> Adapters: \<open>Adapter_Shared\<close>, \<open>Graph_Adapters\<close>, \<open>Source_Adapters\<close> (\<^verbatim>\<open>connector_adapters\<close>), with \<open>Adapter_Properties\<close> and
    \<open>Adapter_Items\<close>: paged reading ends and stays at its origin, complete collections miss nothing, encoded
    URLs decode, work cards are the listed items, and items use the words of the portal.
  \<^item> Operation: \<open>Commands\<close> (\<^verbatim>\<open>commands.rs\<close>, \<^verbatim>\<open>bin/cli.rs\<close>), \<open>Command_Properties\<close> and \<open>Server_Health\<close> (\<^verbatim>\<open>health.rs\<close>): users
    and roles, the linking of identities, and the probes.

  The theories named \<open>Scenario\<close> run the model on concrete tables and show that the hypotheses of the
  properties can hold.

  \<^bold>\<open>Parameters.\<close> Code outside the repository is a field of a record that the definitions take: cryptography,
  base64, serde, chrono's formats, reqwest's URLs and answers, JWT decoding, Argon2, random values. Laws
  that a property needs of it are named hypotheses.

  \<^bold>\<open>Loops.\<close> The loops of the code are bounded or run over lists, and are structural recursions or recursions
  with a measure; there is no fuel except the number of cycles of the worker, which the code runs for
  ever, and the pages of a Graph collection, which the code bounds by \<^verbatim>\<open>max_pages\<close>.

  \<^bold>\<open>Not modelled.\<close> \<^verbatim>\<open>openapi.rs\<close> (a constant document), \<^verbatim>\<open>server_app.rs\<close>, \<^verbatim>\<open>bin/server.rs\<close> and \<^verbatim>\<open>bin/worker.rs\<close>
  (mounting of routes, pools and process start inside Rocket and tokio), the declarations of clap, the
  demonstration data of \<^verbatim>\<open>commands.rs\<close>, the frontend, and the printing of responses. Times are integers
  without bounds: the panics of chrono at the ends of its range are not modelled.
\<close>

end
